(* ===== verification/Prelude.thy ===== *)
theory Prelude
  imports
    Main
    "HOL-Library.AList"
    "HOL-Library.List_Lexorder"
    "HOL-Library.Char_ord"
begin

text \<open>
  Shared vocabulary of the development.

  \<^item> \<open>pyerr\<close> and \<open>result\<close>: a Python exception is the left injection of a sum.
  \<^item> \<open>dict\<close>: a Python dictionary is an association list with distinct keys in insertion
    order; \<open>AList.update\<close> replaces in place or appends, as \<open>d[k] = v\<close> does.
  \<^item> \<open>sorted_set\<close>: \<open>sorted(set(xs))\<close>; strings compare by code point.
  \<^item> \<open>rmap\<close> and \<open>rfold\<close>: comprehensions and loops whose body may raise.
  \<^item> \<open>flag\<close>: the one-line conditional append of a reason code.

  Strings are lists of 8-bit characters; the program's identifiers and reason codes are ASCII.
\<close>

section \<open>Exceptions and results\<close>

datatype pyerr =
    ValueError string
  | KeyError string
  | TypeError string
  | ZeroDivisionError
  | OverflowError
  | DuplicateIntentError string
  | InvalidOrderTransitionError string
  | GridSearchLimitError string
  | DecimalInvalidOperation
  | IntegrityError string
  | IndexError

type_synonym 'a result = "pyerr + 'a"

definition rbind :: "'a result \<Rightarrow> ('a \<Rightarrow> 'b result) \<Rightarrow> 'b result" where
  "rbind m f = (case m of Inl e \<Rightarrow> Inl e | Inr a \<Rightarrow> f a)"

definition raise_unless :: "bool \<Rightarrow> pyerr \<Rightarrow> unit result" where
  "raise_unless b e = (if b then Inr () else Inl e)"

lemma rbind_simps [simp]:
  "rbind (Inl e) f = Inl e"
  "rbind (Inr a) f = f a"
  by (simp_all add: rbind_def)

lemma raise_unless_simps [simp]:
  "raise_unless True e = Inr ()"
  "raise_unless False e = Inl e"
  by (simp_all add: raise_unless_def)

lemma rbind_Inr_iff: "rbind m f = Inr b \<longleftrightarrow> (\<exists>a. m = Inr a \<and> f a = Inr b)"
  by (cases m) simp_all

lemma raise_unless_Inr_iff [simp]: "raise_unless b e = Inr u \<longleftrightarrow> b"
  by (simp add: raise_unless_def)

text \<open>A comprehension whose body may raise: the first exception ends it.\<close>

fun rmap :: "('a \<Rightarrow> 'b result) \<Rightarrow> 'a list \<Rightarrow> 'b list result" where
  "rmap f [] = Inr []"
| "rmap f (x # xs) = rbind (f x) (\<lambda>y. rbind (rmap f xs) (\<lambda>ys. Inr (y # ys)))"

lemma rmap_Inr_iff: "rmap f xs = Inr ys \<longleftrightarrow> map f xs = map Inr ys"
proof (induction xs arbitrary: ys)
  case (Cons x xs)
  then show ?case by (cases ys) (auto simp: rbind_Inr_iff)
qed auto

lemma rmap_cong [fundef_cong]:
  "xs = ys \<Longrightarrow> (\<And>x. x \<in> set ys \<Longrightarrow> f x = g x) \<Longrightarrow> rmap f xs = rmap g ys"
  by (induction ys arbitrary: xs) simp_all

lemma rmap_length: "rmap f xs = Inr ys \<Longrightarrow> length ys = length xs"
  unfolding rmap_Inr_iff by (metis length_map)

lemma rmap_nth: "rmap f xs = Inr ys \<Longrightarrow> i < length xs \<Longrightarrow> f (xs ! i) = Inr (ys ! i)"
  using rmap_length [of f xs ys] unfolding rmap_Inr_iff by (metis nth_map)

text \<open>A loop whose body may raise.\<close>

fun rfold :: "('a \<Rightarrow> 's \<Rightarrow> 's result) \<Rightarrow> 'a list \<Rightarrow> 's \<Rightarrow> 's result" where
  "rfold f [] s = Inr s"
| "rfold f (x # xs) s = rbind (f x s) (rfold f xs)"

lemma rfold_append: "rfold f (xs @ ys) s = rbind (rfold f xs s) (rfold f ys)"
  by (induction xs arbitrary: s) (simp_all add: rbind_def split: sum.split)

lemma rfold_invariant:
  assumes "rfold f xs s = Inr t" "P s"
    and "\<And>x u v. x \<in> set xs \<Longrightarrow> P u \<Longrightarrow> f x u = Inr v \<Longrightarrow> P v"
  shows "P t"
  using assms
proof (induction xs arbitrary: s)
  case (Cons x xs)
  from Cons.prems(1) obtain u where u: "f x s = Inr u" "rfold f xs u = Inr t"
    by (auto simp: rbind_Inr_iff)
  have "P u" using Cons.prems(2,3) u(1) by auto
  with Cons.IH [OF u(2)] Cons.prems(3) show ?case by auto
qed simp

section \<open>Named collections\<close>

named_theorems reason_simps "the reasons a gate reports, unfolded"
named_theorems float_simps "evaluation of float comparisons"

section \<open>Dictionaries in insertion order\<close>

type_synonym ('k, 'v) dict = "('k \<times> 'v) list"

definition dict_ok :: "('k, 'v) dict \<Rightarrow> bool" where
  "dict_ok d \<longleftrightarrow> distinct (map fst d)"

definition dget :: "('k, 'v) dict \<Rightarrow> 'k \<Rightarrow> 'v \<Rightarrow> 'v" where
  "dget d k v = (case map_of d k of None \<Rightarrow> v | Some x \<Rightarrow> x)"

definition dkeys :: "('k, 'v) dict \<Rightarrow> 'k set" where
  "dkeys d = fst ` set d"

lemma dict_ok_Nil [simp, intro]: "dict_ok []"
  by (simp add: dict_ok_def)

lemma dict_ok_update [simp, intro]: "dict_ok d \<Longrightarrow> dict_ok (AList.update k v d)"
  by (simp add: dict_ok_def distinct_update)

lemma dkeys_update [simp]: "dkeys (AList.update k v d) = insert k (dkeys d)"
  by (simp add: dkeys_def dom_update)

lemma dkeys_Nil [simp]: "dkeys [] = {}"
  by (simp add: dkeys_def)

lemma map_of_update [simp]: "map_of (AList.update k v d) = (map_of d)(k \<mapsto> v)"
  by (rule update_conv')

lemma dget_update [simp]: "dget (AList.update k v d) j w = (if j = k then v else dget d j w)"
  by (simp add: dget_def)

lemma dget_Nil [simp]: "dget [] k v = v"
  by (simp add: dget_def)

text \<open>A dictionary comprehension: the first occurrence of a key fixes its position, the last
  one its value.\<close>

definition dict_of :: "('k \<times> 'v) list \<Rightarrow> ('k, 'v) dict" where
  "dict_of kvs = foldl (\<lambda>d kv. AList.update (fst kv) (snd kv) d) [] kvs"

lemma foldl_update_ok: "dict_ok d \<Longrightarrow> dict_ok (foldl (\<lambda>d kv. AList.update (fst kv) (snd kv) d) d kvs)"
  by (induction kvs arbitrary: d) simp_all

lemma dict_ok_dict_of [simp]: "dict_ok (dict_of kvs)"
  by (simp add: dict_of_def foldl_update_ok)

lemma map_of_foldl_update:
  "map_of (foldl (\<lambda>d kv. AList.update (fst kv) (snd kv) d) d kvs) = map_of d ++ map_of (rev kvs)"
  by (induction kvs arbitrary: d) (auto simp: fun_eq_iff map_add_def split: option.split)

lemma map_of_dict_of: "map_of (dict_of kvs) = map_of (rev kvs)"
  by (simp add: dict_of_def map_of_foldl_update)

lemma dkeys_dict_of [simp]: "dkeys (dict_of kvs) = fst ` set kvs"
proof -
  have "dkeys (dict_of kvs) = dom (map_of (dict_of kvs))" by (simp add: dkeys_def dom_map_of_conv_image_fst)
  then show ?thesis by (simp add: map_of_dict_of dom_map_of_conv_image_fst)
qed

lemma not_dkeys_iff: "k \<notin> dkeys d \<longleftrightarrow> map_of d k = None"
  by (simp add: dkeys_def map_of_eq_None_iff)

lemma dkeys_iff: "k \<in> dkeys d \<longleftrightarrow> (\<exists>v. map_of d k = Some v)"
  using not_dkeys_iff [of k d] by auto

lemma map_of_keyed_None: "(\<And>b. b \<in> set xs \<Longrightarrow> f b \<noteq> s) \<Longrightarrow> map_of (map (\<lambda>a. (f a, g a)) xs) s = None"
  by (induction xs) auto

lemma map_of_keyed_Some:
  "distinct (map f xs) \<Longrightarrow> a \<in> set xs \<Longrightarrow> map_of (map (\<lambda>a. (f a, g a)) xs) (f a) = Some (g a)"
proof (induction xs)
  case (Cons x xs)
  then show ?case by (cases "f x = f a") auto
qed simp

lemma map_of_sort_key: "dict_ok d \<Longrightarrow> map_of (sort_key fst d) = map_of d"
  by (subst map_of_inject_set) (simp_all add: dict_ok_def distinct_map)

lemma dget_sort_key: "dict_ok d \<Longrightarrow> dget (sort_key fst d) k v = dget d k v"
  by (simp add: dget_def map_of_sort_key)

section \<open>Strings and sorted sets\<close>

definition starts_with :: "string \<Rightarrow> string \<Rightarrow> bool" where
  "starts_with p s \<longleftrightarrow> take (length p) s = p"

definition ends_with :: "string \<Rightarrow> string \<Rightarrow> bool" where
  "ends_with p s \<longleftrightarrow> starts_with (rev p) (rev s)"

fun has_sub :: "string \<Rightarrow> string \<Rightarrow> bool" where
  "has_sub p [] \<longleftrightarrow> p = []"
| "has_sub p (c # s) \<longleftrightarrow> starts_with p (c # s) \<or> has_sub p s"

definition up_char :: "char \<Rightarrow> char" where
  "up_char c = (if 97 \<le> (of_char c :: nat) \<and> (of_char c :: nat) \<le> 122
                then char_of ((of_char c :: nat) - 32) else c)"

definition low_char :: "char \<Rightarrow> char" where
  "low_char c = (if 65 \<le> (of_char c :: nat) \<and> (of_char c :: nat) \<le> 90
                 then char_of ((of_char c :: nat) + 32) else c)"

definition str_upper :: "string \<Rightarrow> string" where
  "str_upper s = map up_char s"

definition str_lower :: "string \<Rightarrow> string" where
  "str_lower s = map low_char s"

lemma up_char_idem [simp]: "up_char (up_char c) = up_char c"
  by (cases "97 \<le> (of_char c :: nat) \<and> (of_char c :: nat) \<le> 122") (auto simp: up_char_def)

lemma str_upper_idem [simp]: "str_upper (str_upper s) = str_upper s"
  by (simp add: str_upper_def)

definition is_space :: "char \<Rightarrow> bool" where
  "is_space c \<longleftrightarrow> (of_char c :: nat) \<in> {9, 10, 11, 12, 13, 28, 29, 30, 31, 32}"

definition str_strip :: "string \<Rightarrow> string" where
  "str_strip s = rev (dropWhile is_space (rev (dropWhile is_space s)))"

definition sorted_set :: "'a::linorder list \<Rightarrow> 'a list" where
  "sorted_set xs = sort (remdups xs)"

lemma set_sorted_set [simp]: "set (sorted_set xs) = set xs"
  by (simp add: sorted_set_def)

lemma distinct_sorted_set [simp]: "distinct (sorted_set xs)"
  by (simp add: sorted_set_def)

lemma sorted_sorted_set [simp]: "sorted (sorted_set xs)"
  by (simp add: sorted_set_def)

lemma sorted_set_Nil_iff [simp]: "sorted_set xs = [] \<longleftrightarrow> xs = []"
  using set_sorted_set [of xs] by (metis set_empty)

lemma sorted_set_Nil [simp]: "sorted_set [] = []"
  by simp

lemma sorted_set_cong: "set xs = set ys \<Longrightarrow> sorted_set xs = sorted_set ys"
  by (rule sorted_distinct_set_unique) simp_all

lemma starts_with_append [simp]: "starts_with p (p @ s)"
  by (simp add: starts_with_def)

lemma starts_withE: "starts_with p s \<Longrightarrow> \<exists>t. s = p @ t"
  unfolding starts_with_def by (metis append_take_drop_id)

lemma has_sub_append: "starts_with p t \<Longrightarrow> has_sub p (s @ t)"
proof (induction s)
  case Nil
  then show ?case by (cases t) (auto simp: starts_with_def)
qed simp

section \<open>Reasons collected by flags\<close>

text \<open>\<open>flag b r\<close> is the one-line \<open>if b: reasons.append(r)\<close> of the source.\<close>

definition flag :: "bool \<Rightarrow> 'a \<Rightarrow> 'a list" where
  "flag b r = (if b then [r] else [])"

lemma flag_simps [simp]:
  "flag True r = [r]"
  "flag False r = []"
  by (simp_all add: flag_def)

lemma flag_Nil_iff [simp]: "flag b r = [] \<longleftrightarrow> \<not> b"
  by (simp add: flag_def)

lemma set_flag [simp]: "set (flag b r) = (if b then {r} else {})"
  by (simp add: flag_def)

lemma mem_flag: "x \<in> set (flag b r) \<longleftrightarrow> b \<and> x = r"
  by simp

end
