(* ===== verification/PyFloat.thy ===== *)
theory PyFloat
  imports Prelude Complex_Main "HOL-Library.Log_Nat"
begin

text \<open>
  Python floats: IEEE 754 binary64 values, with the rounding written out.

  A finite value is the rational number it denotes; the sign of zero is not kept (no code
  modelled here can observe it: Python division by either zero raises).  \<open>rnd64\<close> rounds a
  rational to the nearest binary64 number, ties to even, with the subnormal range at the
  bottom; \<open>fl\<close> adds the overflow to an infinity at \<open>2 ^ 1024\<close>.  Every arithmetic
  operation is the exact operation followed by \<open>fl\<close>, comparisons with a NaN are false, and
  division by zero is an exception.  \<open>round_nd\<close> is \<open>round(x, n)\<close>, \<open>py_sum\<close> is
  the compensated \<open>sum\<close> of CPython 3.12 and later.
\<close>

section \<open>Rounding to the nearest integer, ties to even\<close>

definition half_even :: "rat \<Rightarrow> int" where
  "half_even x =
     (let f = \<lfloor>x\<rfloor>; d = x - of_int f
      in if d < 1 / 2 then f
         else if 1 / 2 < d then f + 1
         else if even f then f else f + 1)"

lemma half_even_of_int [simp]: "half_even (of_int k) = k"
  by (simp add: half_even_def)

lemma half_even_error: "\<bar>of_int (half_even x) - x\<bar> \<le> 1 / 2"
proof -
  have "of_int \<lfloor>x\<rfloor> \<le> x" "x < of_int \<lfloor>x\<rfloor> + 1"
    by linarith+
  then show ?thesis
    by (simp add: half_even_def Let_def abs_le_iff)
qed

lemma half_even_range: "half_even x = \<lfloor>x\<rfloor> \<or> half_even x = \<lfloor>x\<rfloor> + 1"
  by (simp add: half_even_def Let_def)

lemma half_even_mono:
  assumes "x \<le> y"
  shows "half_even x \<le> half_even y"
proof (cases "\<lfloor>x\<rfloor> = \<lfloor>y\<rfloor>")
  case True
  then show ?thesis
    using assms by (auto simp: half_even_def Let_def)
next
  case False
  with floor_mono [OF assms] have "\<lfloor>x\<rfloor> + 1 \<le> \<lfloor>y\<rfloor>" by simp
  then show ?thesis
    using half_even_range [of x] half_even_range [of y] by auto
qed

lemma half_even_minus [simp]: "half_even (- x) = - half_even x"
proof (cases "x = of_int \<lfloor>x\<rfloor>")
  case True
  then obtain k where "x = of_int k" by blast
  then have "- x = of_int (- k)" by simp
  with \<open>x = of_int k\<close> show ?thesis
    by (metis half_even_of_int)
next
  case False
  have b: "of_int \<lfloor>x\<rfloor> \<le> x" "x < of_int \<lfloor>x\<rfloor> + 1"
    by linarith+
  from b(1) False have s: "of_int \<lfloor>x\<rfloor> < x" by linarith
  have "\<lfloor>- x\<rfloor> = - \<lfloor>x\<rfloor> - 1"
    using b s by (intro floor_unique) auto
  then show ?thesis
    by (auto simp: half_even_def Let_def)
qed

lemma half_even_zero [simp]: "half_even 0 = 0"
  using half_even_of_int [of 0] by simp

lemma half_even_nonneg: "0 \<le> x \<Longrightarrow> 0 \<le> half_even x"
  using half_even_mono [of 0 x] by simp

lemma half_even_le_of_int: "x \<le> of_int k \<Longrightarrow> half_even x \<le> k"
  using half_even_mono [of x "of_int k"] by simp

lemma half_even_ge_of_int: "of_int k \<le> x \<Longrightarrow> k \<le> half_even x"
  using half_even_mono [of "of_int k" x] by simp

section \<open>Rounding to 53 significant bits\<close>

text \<open>
  \<open>grid_round\<close> keeps 53 significant bits of a rational whose unit is the smallest
  subnormal; below \<open>2 ^ 53\<close> units the grid is the integers, which is the subnormal range.
\<close>

definition ulp_exp :: "rat \<Rightarrow> nat" where
  "ulp_exp m = nat (bitlen \<lfloor>\<bar>m\<bar>\<rfloor>) - 53"

definition grid_round :: "rat \<Rightarrow> rat" where
  "grid_round m = of_int (half_even (m / 2 ^ ulp_exp m)) * 2 ^ ulp_exp m"

lemma ulp_exp_minus [simp]: "ulp_exp (- m) = ulp_exp m"
  by (simp add: ulp_exp_def)

lemma grid_round_minus [simp]: "grid_round (- m) = - grid_round m"
  by (simp add: grid_round_def)

lemma grid_round_zero [simp]: "grid_round 0 = 0"
  by (simp add: grid_round_def)

lemma floor_abs_less_pow: "\<bar>m\<bar> < 2 ^ nat (bitlen \<lfloor>\<bar>m\<bar>\<rfloor>)" for m :: rat
proof -
  let ?n = "\<lfloor>\<bar>m\<bar>\<rfloor>"
  have "?n < 2 ^ nat (bitlen ?n)"
  proof (cases "?n = 0")
    case False
    then have "?n > 0" by (metis abs_ge_zero order_le_less zero_le_floor)
    then show ?thesis using bitlen_bounds by blast
  qed simp
  then have "?n + 1 \<le> 2 ^ nat (bitlen ?n)" by simp
  then have "of_int (?n + 1) \<le> (of_int (2 ^ nat (bitlen ?n)) :: rat)"
    by (simp only: of_int_le_iff)
  moreover have "\<bar>m\<bar> < of_int ?n + 1" by linarith
  ultimately show ?thesis by simp
qed

lemma ulp_exp_upper: "\<bar>m\<bar> < 2 ^ (53 + ulp_exp m)"
proof -
  have "nat (bitlen \<lfloor>\<bar>m\<bar>\<rfloor>) \<le> 53 + ulp_exp m" by (simp add: ulp_exp_def)
  then have "(2::rat) ^ nat (bitlen \<lfloor>\<bar>m\<bar>\<rfloor>) \<le> 2 ^ (53 + ulp_exp m)"
    by (rule power_increasing) simp
  with floor_abs_less_pow [of m] show ?thesis by (rule less_le_trans)
qed

lemma ulp_exp_lower:
  assumes "0 < ulp_exp m"
  shows "2 ^ (52 + ulp_exp m) \<le> \<bar>m\<bar>"
proof -
  let ?n = "\<lfloor>\<bar>m\<bar>\<rfloor>"
  from assms have l: "53 < nat (bitlen ?n)" by (simp add: ulp_exp_def)
  then have "?n \<noteq> 0" by (metis bitlen_zero nat_zero_as_int not_less_zero)
  then have "?n > 0" by (metis abs_ge_zero order_le_less zero_le_floor)
  then have "2 ^ nat (bitlen ?n - 1) \<le> ?n" using bitlen_bounds by blast
  moreover have "nat (bitlen ?n - 1) = 52 + ulp_exp m"
    using l by (simp add: ulp_exp_def)
  ultimately have "2 ^ (52 + ulp_exp m) \<le> ?n" by simp
  then have "of_int (2 ^ (52 + ulp_exp m)) \<le> (of_int ?n :: rat)"
    by (simp only: of_int_le_iff)
  also have "\<dots> \<le> \<bar>m\<bar>" by simp
  finally show ?thesis by simp
qed

lemma ulp_exp_eqI:
  assumes "2 ^ (52 + e) \<le> \<bar>m\<bar>" "\<bar>m\<bar> < 2 ^ (53 + e)"
  shows "ulp_exp m = e"
proof (rule antisym)
  show "ulp_exp m \<le> e"
  proof (rule ccontr)
    assume n: "\<not> ulp_exp m \<le> e"
    then have "2 ^ (52 + ulp_exp m) \<le> \<bar>m\<bar>" by (intro ulp_exp_lower) simp
    moreover have "(2::rat) ^ (53 + e) \<le> 2 ^ (52 + ulp_exp m)" using n by (intro power_increasing) simp_all
    ultimately show False using assms(2) by linarith
  qed
  show "e \<le> ulp_exp m"
  proof (rule ccontr)
    assume n: "\<not> e \<le> ulp_exp m"
    then have "(2::rat) ^ (53 + ulp_exp m) \<le> 2 ^ (52 + e)" by (intro power_increasing) simp_all
    then show False using assms(1) ulp_exp_upper [of m] by linarith
  qed
qed

lemma ulp_exp_mono: "\<bar>m\<bar> \<le> \<bar>k\<bar> \<Longrightarrow> ulp_exp m \<le> ulp_exp k"
proof -
  assume "\<bar>m\<bar> \<le> \<bar>k\<bar>"
  then have "\<lfloor>\<bar>m\<bar>\<rfloor> \<le> \<lfloor>\<bar>k\<bar>\<rfloor>" by (rule floor_mono)
  then have "nat \<lfloor>\<bar>m\<bar>\<rfloor> \<le> nat \<lfloor>\<bar>k\<bar>\<rfloor>" by simp
  then have "bitlen \<lfloor>\<bar>m\<bar>\<rfloor> \<le> bitlen \<lfloor>\<bar>k\<bar>\<rfloor>"
    unfolding bitlen_def by (simp add: floorlog_mono)
  then show ?thesis by (simp add: ulp_exp_def)
qed

lemma half_even_scaled_le:
  assumes "\<bar>m\<bar> \<le> 2 ^ (53 + e)"
  shows "\<bar>half_even (m / 2 ^ e)\<bar> \<le> 2 ^ 53"
proof -
  have "\<bar>m / 2 ^ e\<bar> \<le> of_int (2 ^ 53)"
    using assms by (simp add: power_add field_simps del: power_numeral)
  then have "m / 2 ^ e \<le> of_int (2 ^ 53)" and "of_int (- (2 ^ 53)) \<le> m / 2 ^ e"
    unfolding abs_le_iff by (simp_all add: minus_le_iff)
  then have "half_even (m / 2 ^ e) \<le> 2 ^ 53" and "- (2 ^ 53) \<le> half_even (m / 2 ^ e)"
    by (metis half_even_le_of_int, metis half_even_ge_of_int)
  then show ?thesis by (simp add: abs_le_iff)
qed

lemma grid_round_nonneg: "0 \<le> m \<Longrightarrow> 0 \<le> grid_round m"
  by (simp add: grid_round_def half_even_nonneg)

lemma grid_round_upper: "\<bar>grid_round m\<bar> \<le> 2 ^ (53 + ulp_exp m)"
proof -
  have "\<bar>half_even (m / 2 ^ ulp_exp m)\<bar> \<le> 2 ^ 53"
    using ulp_exp_upper [of m] by (intro half_even_scaled_le) simp
  then have "of_int \<bar>half_even (m / 2 ^ ulp_exp m)\<bar> \<le> (of_int (2 ^ 53) :: rat)"
    by (simp only: of_int_le_iff)
  then have "\<bar>of_int (half_even (m / 2 ^ ulp_exp m))\<bar> * 2 ^ ulp_exp m
      \<le> (2 :: rat) ^ 53 * 2 ^ ulp_exp m"
    by (intro mult_right_mono) simp_all
  then show ?thesis
    by (simp add: grid_round_def abs_mult power_add)
qed

lemma grid_round_lower:
  assumes "0 \<le> m" and "0 < ulp_exp m"
  shows "2 ^ (52 + ulp_exp m) \<le> grid_round m"
proof -
  have "2 ^ (52 + ulp_exp m) \<le> m" using ulp_exp_lower [OF assms(2)] assms(1) by simp
  then have "of_int (2 ^ 52) \<le> m / 2 ^ ulp_exp m"
    by (simp add: power_add field_simps)
  then have "2 ^ 52 \<le> half_even (m / 2 ^ ulp_exp m)"
    by (rule half_even_ge_of_int)
  then have "of_int (2 ^ 52) \<le> (of_int (half_even (m / 2 ^ ulp_exp m)) :: rat)"
    by (simp only: of_int_le_iff)
  then have "2 ^ 52 * 2 ^ ulp_exp m
      \<le> (of_int (half_even (m / 2 ^ ulp_exp m)) :: rat) * 2 ^ ulp_exp m"
    by (intro mult_right_mono) simp_all
  then show ?thesis by (simp add: grid_round_def power_add)
qed

lemma grid_round_mono_nonneg:
  assumes "0 \<le> m" and "m \<le> k"
  shows "grid_round m \<le> grid_round k"
proof (cases "ulp_exp m = ulp_exp k")
  case True
  have "m / 2 ^ ulp_exp k \<le> k / 2 ^ ulp_exp k"
    using assms by (simp add: divide_right_mono)
  then have "half_even (m / 2 ^ ulp_exp k) \<le> half_even (k / 2 ^ ulp_exp k)"
    by (rule half_even_mono)
  then show ?thesis
    by (simp add: grid_round_def True mult_right_mono)
next
  case False
  have "ulp_exp m \<le> ulp_exp k" using assms by (intro ulp_exp_mono) simp
  with False have lt: "ulp_exp m < ulp_exp k" by simp
  have "grid_round m \<le> 2 ^ (53 + ulp_exp m)" using grid_round_upper [of m] by simp
  also have "\<dots> \<le> 2 ^ (52 + ulp_exp k)"
    using lt by (intro power_increasing) simp_all
  also have "\<dots> \<le> grid_round k" using assms lt by (intro grid_round_lower) simp_all
  finally show ?thesis .
qed

lemma grid_round_mono: "m \<le> k \<Longrightarrow> grid_round m \<le> grid_round k"
proof -
  assume mk: "m \<le> k"
  consider "0 \<le> m" | "m < 0" "0 \<le> k" | "k < 0" using mk by linarith
  then show ?thesis
  proof cases
    case 1
    then show ?thesis using mk by (rule grid_round_mono_nonneg)
  next
    case 2
    then show ?thesis
      using grid_round_nonneg [of "- m"] grid_round_nonneg [of k] by simp
  next
    case 3
    then show ?thesis using grid_round_mono_nonneg [of "- k" "- m"] mk by simp
  qed
qed

lemma bitlen_one: "bitlen 1 = 1"
  by code_simp

lemma grid_round_exact:
  assumes "\<bar>k\<bar> \<le> 2 ^ 53"
  shows "grid_round (of_int k * 2 ^ j) = of_int k * 2 ^ j"
proof -
  let ?m = "of_int k * 2 ^ j :: rat"
  have fl: "\<lfloor>\<bar>?m\<bar>\<rfloor> = \<bar>k\<bar> * 2 ^ j"
    by (simp add: abs_mult floor_unique flip: of_int_abs)
  have "ulp_exp ?m \<le> j \<or> (\<bar>k\<bar> = 2 ^ 53 \<and> ulp_exp ?m = Suc j)"
  proof (cases "\<bar>k\<bar> = 2 ^ 53")
    case True
    then have "\<lfloor>\<bar>?m\<bar>\<rfloor> = 2 ^ (53 + j)" by (simp add: fl power_add)
    then have "ulp_exp ?m = nat (bitlen (2 ^ (53 + j))) - 53" by (simp only: ulp_exp_def)
    then have "ulp_exp ?m = Suc j" 
      using bitlen_pow2 [of 1 "53 + j"] bitlen_one by simp
    with True show ?thesis by blast
  next
    case False
    with assms have "\<bar>k\<bar> < 2 ^ 53" by simp
    then have "\<bar>k\<bar> * 2 ^ j < 2 ^ (53 + j)" by (simp add: power_add)
    then have "bitlen (\<bar>k\<bar> * 2 ^ j) \<le> int (53 + j)"
      using bitlen_le_iff_power [of "\<bar>k\<bar> * 2 ^ j" "53 + j"] by (simp add: nat_add_distrib)
    then have "ulp_exp ?m \<le> j" by (simp add: ulp_exp_def fl)
    then show ?thesis by blast
  qed
  then obtain i :: int where i: "?m / 2 ^ ulp_exp ?m = of_int i"
  proof
    assume le: "ulp_exp ?m \<le> j"
    then have "(2::rat) ^ j = 2 ^ (j - ulp_exp ?m) * 2 ^ ulp_exp ?m"
      by (simp flip: power_add)
    then have "?m / 2 ^ ulp_exp ?m = of_int (k * 2 ^ (j - ulp_exp ?m))"
      by (simp add: field_simps)
    then show thesis by (rule that)
  next
    assume "\<bar>k\<bar> = 2 ^ 53 \<and> ulp_exp ?m = Suc j"
    then have "?m / 2 ^ ulp_exp ?m = of_int (sgn k * 2 ^ 52)"
      by (auto simp: abs_if split: if_splits)
    then show thesis by (rule that)
  qed
  then have "grid_round ?m = of_int i * 2 ^ ulp_exp ?m"
    by (simp only: grid_round_def half_even_of_int)
  also have "\<dots> = ?m" using i by (simp add: field_simps)
  finally show ?thesis .
qed

lemma grid_round_form: "\<exists>k j. \<bar>k\<bar> \<le> 2 ^ 53 \<and> grid_round m = of_int k * 2 ^ j"
proof -
  have "\<bar>half_even (m / 2 ^ ulp_exp m)\<bar> \<le> 2 ^ 53"
    using ulp_exp_upper [of m] by (intro half_even_scaled_le) simp
  then show ?thesis unfolding grid_round_def by blast
qed

lemma grid_round_idem [simp]: "grid_round (grid_round m) = grid_round m"
  using grid_round_form [of m] grid_round_exact by auto

section \<open>Binary64 rounding of a rational\<close>

definition unit64 :: rat where
  "unit64 = 2 ^ 1074"

definition limit64 :: rat where
  "limit64 = 2 ^ 1024"

definition rnd64 :: "rat \<Rightarrow> rat" where
  "rnd64 x = grid_round (x * unit64) / unit64"

lemma unit64_pos [simp]: "0 < unit64"
  unfolding unit64_def by (rule zero_less_power) simp

lemma limit64_pos [simp]: "0 < limit64"
  unfolding limit64_def by (rule zero_less_power) simp

lemma unit64_nz [simp]: "unit64 \<noteq> 0"
  using unit64_pos by linarith

lemma rnd64_mono: "x \<le> y \<Longrightarrow> rnd64 x \<le> rnd64 y"
  unfolding rnd64_def
  by (intro divide_right_mono grid_round_mono mult_right_mono) (simp_all add: less_imp_le)

lemma rnd64_minus [simp]: "rnd64 (- x) = - rnd64 x"
  using grid_round_minus [of "x * unit64"] by (simp add: rnd64_def)

lemma rnd64_zero [simp]: "rnd64 0 = 0"
  by (simp add: rnd64_def)

lemma rnd64_idem [simp]: "rnd64 (rnd64 x) = rnd64 x"
  by (simp add: rnd64_def)

lemma rnd64_nonneg: "0 \<le> x \<Longrightarrow> 0 \<le> rnd64 x"
  using rnd64_mono [of 0 x] by simp

lemma rnd64_nonpos: "x \<le> 0 \<Longrightarrow> rnd64 x \<le> 0"
  using rnd64_mono [of x 0] by simp

text \<open>Dyadic rationals with at most 53 significant bits are exact.\<close>

lemma rnd64_dyadic:
  assumes "\<bar>k\<bar> \<le> 2 ^ 53" and "i \<le> 1074"
  shows "rnd64 (of_int k / 2 ^ i) = of_int k / 2 ^ i"
proof -
  have u: "unit64 = 2 ^ (1074 - i) * 2 ^ i"
    using assms(2) by (simp add: unit64_def flip: power_add)
  have "of_int k / 2 ^ i * unit64 = of_int k * 2 ^ (1074 - i)"
    by (simp add: u)
  then have "rnd64 (of_int k / 2 ^ i) = of_int k * 2 ^ (1074 - i) / unit64"
    using grid_round_exact [OF assms(1), of "1074 - i"] by (simp add: rnd64_def)
  then show ?thesis by (simp add: u)
qed

lemma rnd64_of_int [simp]: "\<bar>k\<bar> \<le> 2 ^ 53 \<Longrightarrow> rnd64 (of_int k) = of_int k"
  using rnd64_dyadic [of k 0] by simp

lemma rnd64_numeral: "numeral n \<le> (2 ^ 53 :: int) \<Longrightarrow> rnd64 (numeral n) = numeral n"
  using rnd64_of_int [of "numeral n"] by simp

lemma rnd64_one [simp]: "rnd64 1 = 1"
  using rnd64_of_int [of 1] by simp

lemma rnd64_between:
  assumes "rnd64 a = a" "rnd64 b = b" "a \<le> x" "x \<le> b"
  shows "a \<le> rnd64 x" "rnd64 x \<le> b"
  using rnd64_mono [of a x] rnd64_mono [of x b] assms by simp_all

section \<open>Float values\<close>

datatype pyfloat = Fin rat | PInf | NInf | NaN

definition fl :: "rat \<Rightarrow> pyfloat" where
  "fl x = (let r = rnd64 x
           in if limit64 \<le> r then PInf else if r \<le> - limit64 then NInf else Fin r)"

text \<open>A value of the type float: its finite part is a binary64 number.\<close>

definition is_f64 :: "pyfloat \<Rightarrow> bool" where
  "is_f64 x = (case x of Fin q \<Rightarrow> rnd64 q = q \<and> \<bar>q\<bar> < limit64 | _ \<Rightarrow> True)"

definition is_finite :: "pyfloat \<Rightarrow> bool" where
  "is_finite x = (case x of Fin _ \<Rightarrow> True | _ \<Rightarrow> False)"

lemma is_finite_simps [simp]:
  "is_finite (Fin q)" "\<not> is_finite PInf" "\<not> is_finite NInf" "\<not> is_finite NaN"
  by (simp_all add: is_finite_def)

lemma is_finiteE: "is_finite x \<Longrightarrow> (\<And>q. x = Fin q \<Longrightarrow> P) \<Longrightarrow> P"
  by (cases x) simp_all

lemma is_f64_fl [simp]: "is_f64 (fl x)"
  by (auto simp: is_f64_def fl_def Let_def abs_less_iff)

lemma fl_exact: "rnd64 q = q \<Longrightarrow> \<bar>q\<bar> < limit64 \<Longrightarrow> fl q = Fin q"
  by (auto simp: fl_def Let_def abs_less_iff)

lemma fl_of_f64: "is_f64 (Fin q) \<Longrightarrow> fl q = Fin q"
  by (simp add: is_f64_def fl_exact)

lemma pow_less_limit64: "n < 1024 \<Longrightarrow> 2 ^ n < limit64"
  unfolding limit64_def by (rule power_strict_increasing) simp_all

lemma small_less_limit64: "x \<le> 2 ^ 60 \<Longrightarrow> x < limit64"
  using pow_less_limit64 [of 60] by simp

lemma fl_of_int: "\<bar>k\<bar> \<le> 2 ^ 53 \<Longrightarrow> fl (of_int k) = Fin (of_int k)"
proof (rule fl_exact)
  assume "\<bar>k\<bar> \<le> 2 ^ 53"
  then have "of_int \<bar>k\<bar> \<le> (of_int (2 ^ 60) :: rat)" by (simp only: of_int_le_iff) simp
  then show "\<bar>of_int k\<bar> < limit64" by (intro small_less_limit64) simp
qed simp

lemma fl_zero [simp]: "fl 0 = Fin 0"
  using fl_of_int [of 0] by simp

lemma fl_one [simp]: "fl 1 = Fin 1"
  using fl_of_int [of 1] by simp

lemma fl_numeral: "numeral n \<le> (2 ^ 53 :: int) \<Longrightarrow> fl (numeral n) = Fin (numeral n)"
  using fl_of_int [of "numeral n"] by simp

lemma fl_neg_numeral: "numeral n \<le> (2 ^ 53 :: int) \<Longrightarrow> fl (- numeral n) = Fin (- numeral n)"
  using fl_of_int [of "- numeral n"] by simp

lemma fl_dyadic:
  assumes "\<bar>k\<bar> \<le> 2 ^ 53" and "i \<le> 1074"
  shows "fl (of_int k / 2 ^ i) = Fin (of_int k / 2 ^ i)"
proof (rule fl_exact)
  show "rnd64 (of_int k / 2 ^ i) = of_int k / 2 ^ i" using assms by (rule rnd64_dyadic)
  have "\<bar>of_int k / 2 ^ i\<bar> \<le> \<bar>of_int k :: rat\<bar>"
    by (simp add: divide_le_eq mult_le_cancel_left1 abs_mult)
  also have "\<dots> \<le> of_int (2 ^ 60)"
  proof -
    have "\<bar>k\<bar> \<le> 2 ^ 60" using assms(1) by simp
    then have "of_int \<bar>k\<bar> \<le> (of_int (2 ^ 60) :: rat)" by (simp only: of_int_le_iff)
    then show ?thesis by simp
  qed
  finally show "\<bar>of_int k / 2 ^ i :: rat\<bar> < limit64" by (intro small_less_limit64) simp
qed

section \<open>Comparisons\<close>

fun flt :: "pyfloat \<Rightarrow> pyfloat \<Rightarrow> bool" where
  "flt (Fin a) (Fin b) \<longleftrightarrow> a < b"
| "flt (Fin _) PInf \<longleftrightarrow> True"
| "flt NInf (Fin _) \<longleftrightarrow> True"
| "flt NInf PInf \<longleftrightarrow> True"
| "flt _ _ \<longleftrightarrow> False"

fun fle :: "pyfloat \<Rightarrow> pyfloat \<Rightarrow> bool" where
  "fle (Fin a) (Fin b) \<longleftrightarrow> a \<le> b"
| "fle NaN _ \<longleftrightarrow> False"
| "fle _ NaN \<longleftrightarrow> False"
| "fle NInf _ \<longleftrightarrow> True"
| "fle _ PInf \<longleftrightarrow> True"
| "fle _ _ \<longleftrightarrow> False"

fun feq :: "pyfloat \<Rightarrow> pyfloat \<Rightarrow> bool" where
  "feq (Fin a) (Fin b) \<longleftrightarrow> a = b"
| "feq PInf PInf \<longleftrightarrow> True"
| "feq NInf NInf \<longleftrightarrow> True"
| "feq _ _ \<longleftrightarrow> False"

lemma fle_iff: "fle a b \<longleftrightarrow> flt a b \<or> feq a b"
  by (cases a; cases b) auto

lemma fle_not_flt: "fle a b \<Longrightarrow> \<not> flt b a"
  by (cases a; cases b) auto

lemma not_flt_fle: "\<not> flt b a \<Longrightarrow> a \<noteq> NaN \<Longrightarrow> b \<noteq> NaN \<Longrightarrow> fle a b"
  by (cases a; cases b) auto

lemma fle_trans: "fle a b \<Longrightarrow> fle b c \<Longrightarrow> fle a c"
  by (cases a; cases b; cases c) auto

lemma fle_refl: "a \<noteq> NaN \<Longrightarrow> fle a a"
  by (cases a) auto

lemma flt_irrefl [simp]: "\<not> flt a a"
  by (cases a) auto

lemma flt_trans: "flt a b \<Longrightarrow> flt b c \<Longrightarrow> flt a c"
  by (cases a; cases b; cases c) auto

lemma fle_flt_trans: "fle a b \<Longrightarrow> flt b c \<Longrightarrow> flt a c"
  by (cases a; cases b; cases c) auto

lemma flt_fle_trans: "flt a b \<Longrightarrow> fle b c \<Longrightarrow> flt a c"
  by (cases a; cases b; cases c) auto

lemma flt_NaN [simp]: "\<not> flt NaN a" "\<not> flt a NaN"
  by (cases a; simp)+

lemma fle_NaN [simp]: "\<not> fle NaN a" "\<not> fle a NaN"
  by (cases a; simp)+

lemma fle_Fin_neq_NaN: "fle a b \<Longrightarrow> a \<noteq> NaN \<and> b \<noteq> NaN"
  by auto

section \<open>Arithmetic\<close>

fun fneg :: "pyfloat \<Rightarrow> pyfloat" where
  "fneg (Fin a) = Fin (- a)"
| "fneg PInf = NInf"
| "fneg NInf = PInf"
| "fneg NaN = NaN"

fun fabs :: "pyfloat \<Rightarrow> pyfloat" where
  "fabs (Fin a) = Fin \<bar>a\<bar>"
| "fabs PInf = PInf"
| "fabs NInf = PInf"
| "fabs NaN = NaN"

fun fadd :: "pyfloat \<Rightarrow> pyfloat \<Rightarrow> pyfloat" where
  "fadd (Fin a) (Fin b) = fl (a + b)"
| "fadd (Fin a) y = y"
| "fadd x (Fin b) = x"
| "fadd PInf PInf = PInf"
| "fadd NInf NInf = NInf"
| "fadd _ _ = NaN"

definition fsub :: "pyfloat \<Rightarrow> pyfloat \<Rightarrow> pyfloat" where
  "fsub x y = fadd x (fneg y)"

definition inf_of_sign :: "rat \<Rightarrow> pyfloat" where
  "inf_of_sign s = (if s = 0 then NaN else if 0 < s then PInf else NInf)"

fun fmul :: "pyfloat \<Rightarrow> pyfloat \<Rightarrow> pyfloat" where
  "fmul (Fin a) (Fin b) = fl (a * b)"
| "fmul NaN _ = NaN"
| "fmul _ NaN = NaN"
| "fmul (Fin a) PInf = inf_of_sign a"
| "fmul (Fin a) NInf = inf_of_sign (- a)"
| "fmul PInf (Fin b) = inf_of_sign b"
| "fmul NInf (Fin b) = inf_of_sign (- b)"
| "fmul PInf PInf = PInf"
| "fmul NInf NInf = PInf"
| "fmul _ _ = NInf"

text \<open>Division by a zero raises before anything else is looked at.\<close>

fun fquot :: "pyfloat \<Rightarrow> pyfloat \<Rightarrow> pyfloat" where
  "fquot (Fin a) (Fin b) = fl (a / b)"
| "fquot NaN _ = NaN"
| "fquot _ NaN = NaN"
| "fquot (Fin a) _ = Fin 0"
| "fquot PInf (Fin b) = (if 0 < b then PInf else NInf)"
| "fquot NInf (Fin b) = (if 0 < b then NInf else PInf)"
| "fquot _ _ = NaN"

definition fdiv :: "pyfloat \<Rightarrow> pyfloat \<Rightarrow> pyfloat result" where
  "fdiv x y = (if y = Fin 0 then Inl ZeroDivisionError else Inr (fquot x y))"

text \<open>\<open>min(a, b)\<close> and \<open>max(a, b)\<close> keep the first argument unless the second is
  strictly better.\<close>

definition fmin :: "pyfloat \<Rightarrow> pyfloat \<Rightarrow> pyfloat" where
  "fmin a b = (if flt b a then b else a)"

definition fmax :: "pyfloat \<Rightarrow> pyfloat \<Rightarrow> pyfloat" where
  "fmax a b = (if flt a b then b else a)"

fun round_nd :: "nat \<Rightarrow> pyfloat \<Rightarrow> pyfloat" where
  "round_nd n (Fin q) = fl (of_int (half_even (q * 10 ^ n)) / 10 ^ n)"
| "round_nd n x = x"

definition of_pyint :: "int \<Rightarrow> pyfloat result" where
  "of_pyint k = (case fl (of_int k) of Fin q \<Rightarrow> Inr (Fin q) | _ \<Rightarrow> Inl OverflowError)"

text \<open>
  The built-in \<open>sum\<close> over floats: running total and compensation term (Neumaier); the
  compensation is added at the end when it is finite and not zero.
\<close>

fun sum_loop :: "pyfloat \<Rightarrow> pyfloat \<Rightarrow> pyfloat list \<Rightarrow> pyfloat" where
  "sum_loop s c [] = (if is_finite c \<and> c \<noteq> Fin 0 then fadd s c else s)"
| "sum_loop s c (x # xs) =
     (let t = fadd s x
      in sum_loop t
           (fadd c (if fle (fabs x) (fabs s) then fadd (fsub s t) x else fadd (fsub x t) s))
           xs)"

definition py_sum :: "pyfloat list \<Rightarrow> pyfloat" where
  "py_sum xs = sum_loop (Fin 0) (Fin 0) xs"

lemma py_sum_Nil [simp]: "py_sum [] = Fin 0"
  by (simp add: py_sum_def)

section \<open>Order properties of the operations\<close>

lemma fl_neq_NaN [simp]: "fl x \<noteq> NaN" "NaN \<noteq> fl x"
  by (simp_all add: fl_def Let_def)

lemma fl_mono: "x \<le> y \<Longrightarrow> fle (fl x) (fl y)"
  using rnd64_mono [of x y] limit64_pos by (auto simp: fl_def Let_def)

lemma fle_PInf [simp]: "fle x PInf \<longleftrightarrow> x \<noteq> NaN"
  by (cases x) simp_all

lemma fle_NInf [simp]: "fle NInf x \<longleftrightarrow> x \<noteq> NaN"
  by (cases x) simp_all

lemma fl_flt_D: "flt (fl x) (fl y) \<Longrightarrow> x < y"
  using fl_mono [of y x] fle_not_flt by (metis not_less)

lemma fl_le_Fin: "is_f64 (Fin q) \<Longrightarrow> x \<le> q \<Longrightarrow> fle (fl x) (Fin q)"
  using fl_mono [of x q] by (simp add: fl_of_f64)

lemma fl_ge_Fin: "is_f64 (Fin q) \<Longrightarrow> q \<le> x \<Longrightarrow> fle (Fin q) (fl x)"
  using fl_mono [of q x] by (simp add: fl_of_f64)

lemma is_f64_zero [simp]: "is_f64 (Fin 0)"
  by (simp add: is_f64_def)

lemma is_f64_one [simp]: "is_f64 (Fin 1)"
  using is_f64_fl [of 1] by simp

lemma is_f64_of_int: "\<bar>k\<bar> \<le> 2 ^ 53 \<Longrightarrow> is_f64 (Fin (of_int k))"
  using is_f64_fl [of "of_int k"] by (simp add: fl_of_int)

lemma is_f64_numeral: "numeral n \<le> (2 ^ 53 :: int) \<Longrightarrow> is_f64 (Fin (numeral n))"
  using is_f64_fl [of "numeral n"] by (simp add: fl_numeral)

lemma is_f64_dyadic: "\<bar>k\<bar> \<le> 2 ^ 53 \<Longrightarrow> i \<le> 1074 \<Longrightarrow> is_f64 (Fin (of_int k / 2 ^ i))"
  using is_f64_fl [of "of_int k / 2 ^ i"] by (simp add: fl_dyadic)

lemma is_f64_nonfin [simp]: "is_f64 PInf" "is_f64 NInf" "is_f64 NaN"
  by (simp_all add: is_f64_def)

lemma is_f64_fneg [simp]: "is_f64 (fneg x) \<longleftrightarrow> is_f64 x"
  by (cases x) (auto simp: is_f64_def minus_equation_iff [of _ "rnd64 _"])

lemma is_f64_fabs: "is_f64 x \<Longrightarrow> is_f64 (fabs x)"
  by (cases x) (auto simp: is_f64_def abs_if)

lemma is_f64_fadd: "is_f64 x \<Longrightarrow> is_f64 y \<Longrightarrow> is_f64 (fadd x y)"
  by (cases x; cases y) simp_all

lemma is_f64_fmul [simp]: "is_f64 (fmul x y)"
  by (cases x; cases y) (simp_all add: inf_of_sign_def)

lemma is_f64_fquot [simp]: "is_f64 (fquot x y)"
  by (cases x; cases y) simp_all

lemma is_f64_fmax: "is_f64 x \<Longrightarrow> is_f64 y \<Longrightarrow> is_f64 (fmax x y)"
  by (simp add: fmax_def)

lemma is_f64_fmin: "is_f64 x \<Longrightarrow> is_f64 y \<Longrightarrow> is_f64 (fmin x y)"
  by (simp add: fmin_def)

lemma is_f64_round_nd: "is_f64 x \<Longrightarrow> is_f64 (round_nd n x)"
  by (cases x) simp_all

lemma fadd_comm: "fadd x y = fadd y x"
  by (cases x; cases y) (simp_all add: add.commute)

lemma fadd_mono:
  assumes "fle a b" "fle c d" "fadd a c \<noteq> NaN" "fadd b d \<noteq> NaN"
    "is_f64 a" "is_f64 b" "is_f64 c" "is_f64 d"
  shows "fle (fadd a c) (fadd b d)"
  using assms
  by (cases a; cases b; cases c; cases d) (auto intro: fl_mono)

lemma fsub_le:
  assumes "is_f64 a" "fle (Fin 0) b" "fsub a b \<noteq> NaN"
  shows "fle (fsub a b) a"
  using assms
  by (cases a; cases b) (auto simp: fsub_def intro: fl_le_Fin fle_refl)

lemma fadd_ge:
  assumes "is_f64 a" "fle (Fin 0) b" "fadd a b \<noteq> NaN"
  shows "fle a (fadd a b)"
  using assms
  by (cases a; cases b) (auto intro: fl_ge_Fin fle_refl)

lemma fabs_nonneg: "x \<noteq> NaN \<Longrightarrow> fle (Fin 0) (fabs x)"
  by (cases x) simp_all

lemma fmul_nonneg: "fle (Fin 0) a \<Longrightarrow> fle (Fin 0) b \<Longrightarrow> fmul a b \<noteq> NaN \<Longrightarrow> fle (Fin 0) (fmul a b)"
  by (cases a; cases b) (auto simp: inf_of_sign_def intro: fl_ge_Fin split: if_splits)

lemma fquot_nonneg:
  "fle (Fin 0) a \<Longrightarrow> fle (Fin 0) b \<Longrightarrow> b \<noteq> Fin 0 \<Longrightarrow> fquot a b \<noteq> NaN \<Longrightarrow> fle (Fin 0) (fquot a b)"
  by (cases a; cases b) (auto intro!: fl_ge_Fin)

lemma round_nd_nonneg: "fle (Fin 0) x \<Longrightarrow> fle (Fin 0) (round_nd n x)"
  by (cases x) (auto intro!: fl_ge_Fin simp: half_even_nonneg)

lemma round_nd_mono: "fle x y \<Longrightarrow> fle (round_nd n x) (round_nd n y)"
  by (cases x; cases y)
    (auto intro!: fl_mono divide_right_mono half_even_mono mult_right_mono)

lemma fmin_le1: "a \<noteq> NaN \<Longrightarrow> fle (fmin a b) a"
  by (cases a; cases b) (auto simp: fmin_def)

lemma fmin_le2: "a \<noteq> NaN \<Longrightarrow> b \<noteq> NaN \<Longrightarrow> fle (fmin a b) b"
  by (cases a; cases b) (auto simp: fmin_def)

lemma round_nd_whole: "\<bar>k\<bar> \<le> 2 ^ 53 \<Longrightarrow> round_nd n (Fin (of_int k)) = Fin (of_int k)"
proof -
  assume k: "\<bar>k\<bar> \<le> 2 ^ 53"
  have "(of_int k :: rat) * 10 ^ n = of_int (k * 10 ^ n)" by simp
  then show ?thesis using fl_of_int [OF k] by (simp only: round_nd.simps half_even_of_int) simp
qed

text \<open>The literal \<open>1e-9\<close>, used as a tolerance and as a floor for divisors.\<close>

definition f_1em9 :: pyfloat where
  "f_1em9 = fl (1 / 10 ^ 9)"

lemma f_1em9_Fin: "\<exists>q. f_1em9 = Fin q \<and> 1 / 2 ^ 30 \<le> q \<and> q \<le> 1 / 2 ^ 29"
proof -
  have a: "rnd64 (1 / 2 ^ 30) = 1 / 2 ^ 30" "rnd64 (1 / 2 ^ 29) = 1 / 2 ^ 29"
    using rnd64_dyadic [of 1 30] rnd64_dyadic [of 1 29] by simp_all
  have b: "1 / 2 ^ 30 \<le> rnd64 (1 / 10 ^ 9)" "rnd64 (1 / 10 ^ 9) \<le> 1 / 2 ^ 29"
    by (rule rnd64_between [OF a(1) a(2)]; simp)+
  moreover have "rnd64 (1 / 10 ^ 9) < limit64"
    using b(2) small_less_limit64 [of "1 / 2 ^ 29"] by simp
  ultimately show ?thesis
    using limit64_pos by (auto simp: f_1em9_def fl_def Let_def)
qed

lemma f_1em9_pos [simp]: "flt (Fin 0) f_1em9"
proof -
  obtain q where q: "f_1em9 = Fin q" "1 / 2 ^ 30 \<le> q" using f_1em9_Fin by blast
  then have "0 < q" by (intro less_le_trans [OF _ q(2)]) simp
  then show ?thesis unfolding q(1) by simp
qed

lemma fmax_floor_nonzero: "fmax x f_1em9 \<noteq> Fin 0"
proof -
  obtain q where q: "f_1em9 = Fin q" "1 / 2 ^ 30 \<le> q" using f_1em9_Fin by blast
  then have "0 < q" by (intro less_le_trans [OF _ q(2)]) simp
  then show ?thesis unfolding fmax_def q(1) by (cases x) auto
qed

end
