(* ===== verification/PyVal.thy ===== *)
theory PyVal
  imports PyFloat
begin

text \<open>
  Dynamically typed values: what \<open>object\<close>-typed payloads, evidence and configuration
  dictionaries hold.  Dictionaries have string keys, in insertion order, as JSON objects do.
  \<open>truthy\<close> is Python's truth test and \<open>py_eq\<close> its \<open>==\<close>, where booleans, integers and
  floats compare by value.
\<close>

datatype pyval =
    PNone
  | PBool bool
  | PInt int
  | PFloat pyfloat
  | PStr string
  | PList "pyval list"
  | PDict "(string \<times> pyval) list"

fun truthy :: "pyval \<Rightarrow> bool" where
  "truthy PNone = False"
| "truthy (PBool b) = b"
| "truthy (PInt i) = (i \<noteq> 0)"
| "truthy (PFloat x) = (x \<noteq> Fin 0)"
| "truthy (PStr s) = (s \<noteq> [])"
| "truthy (PList xs) = (xs \<noteq> [])"
| "truthy (PDict d) = (d \<noteq> [])"

fun num_of :: "pyval \<Rightarrow> pyfloat option" where
  "num_of (PBool b) = Some (Fin (if b then 1 else 0))"
| "num_of (PInt i) = Some (Fin (of_int i))"
| "num_of (PFloat x) = Some x"
| "num_of _ = None"

fun py_eq :: "pyval \<Rightarrow> pyval \<Rightarrow> bool" where
  "py_eq PNone PNone \<longleftrightarrow> True"
| "py_eq (PStr s) (PStr t) \<longleftrightarrow> s = t"
| "py_eq (PList []) (PList []) \<longleftrightarrow> True"
| "py_eq (PList (x # xs)) (PList (y # ys)) \<longleftrightarrow> py_eq x y \<and> py_eq (PList xs) (PList ys)"
| "py_eq (PDict []) (PDict e) \<longleftrightarrow> e = []"
| "py_eq (PDict ((k, v) # d)) (PDict e) \<longleftrightarrow>
     (case map_of e k of
        None \<Rightarrow> False
      | Some w \<Rightarrow> py_eq v w \<and> py_eq (PDict d) (PDict (AList.delete k e)))"
| "py_eq v w \<longleftrightarrow>
     (case (num_of v, num_of w) of (Some a, Some b) \<Rightarrow> feq a b | _ \<Rightarrow> False)"

lemma py_eq_None [simp]: "py_eq PNone v \<longleftrightarrow> v = PNone"
  by (cases v) simp_all

text \<open>The value under a key, \<open>None\<close> when it is missing: \<open>d.get(key)\<close>.\<close>

definition pget :: "(string \<times> pyval) list \<Rightarrow> string \<Rightarrow> pyval" where
  "pget d k = (case map_of d k of None \<Rightarrow> PNone | Some v \<Rightarrow> v)"

definition pget_or :: "(string \<times> pyval) list \<Rightarrow> string \<Rightarrow> pyval \<Rightarrow> pyval" where
  "pget_or d k v = (case map_of d k of None \<Rightarrow> v | Some w \<Rightarrow> w)"

text \<open>Lists and dictionaries cannot be looked up in a set.\<close>

fun hashable :: "pyval \<Rightarrow> bool" where
  "hashable (PList xs) = False"
| "hashable (PDict d) = False"
| "hashable v = True"

lemma pget_or_Nil [simp]: "pget_or [] k w = w"
  by (simp add: pget_or_def)

lemma pget_or_Cons [simp]: "pget_or ((j, v) # d) k w = (if k = j then v else pget_or d k w)"
  by (simp add: pget_or_def)

lemma pget_Nil [simp]: "pget [] k = PNone"
  by (simp add: pget_def)

lemma pget_Cons [simp]: "pget ((j, v) # d) k = (if k = j then v else pget d k)"
  by (simp add: pget_def)

text \<open>
  \<open>_stable_hash\<close>: SHA-256 of the canonical JSON text.  The digest is a parameter of the
  definitions that use it, a function from the payload to its 64 hexadecimal characters.
\<close>

type_synonym stable_hash = "pyval \<Rightarrow> string"

definition zero_hash :: stable_hash where
  "zero_hash v = replicate 64 CHR ''0''"

definition hex_digest :: "stable_hash \<Rightarrow> bool" where
  "hex_digest H \<longleftrightarrow> (\<forall>p. length (H p) = 64)"

end
