(* ===== verification/PyText.thy ===== *)
theory PyText
  imports PyVal
begin

text \<open>
  Text conversions of the standard library that the code relies on: \<open>str\<close> and \<open>repr\<close> of
  the dynamic values, the shortest decimal text of a float, and \<open>float(text)\<close>.

  \<open>shortest\<close> finds, for a positive binary64 number, the decimal with the fewest digits that
  rounds back to it (the nearest one when there are two); \<open>decimal_of\<close> is the value of that
  text, which is what \<open>Decimal(str(x))\<close> holds.
\<close>

section \<open>Integers as text\<close>

definition digit_char :: "nat \<Rightarrow> char" where
  "digit_char d = char_of (48 + d)"

fun nat_text :: "nat \<Rightarrow> string" where
  "nat_text n = (if n < 10 then [digit_char n] else nat_text (n div 10) @ [digit_char (n mod 10)])"

declare nat_text.simps [simp del]

definition int_text :: "int \<Rightarrow> string" where
  "int_text i = (if i < 0 then CHR ''-'' # nat_text (nat (- i)) else nat_text (nat i))"

section \<open>Shortest decimal of a float\<close>

definition pow10 :: "int \<Rightarrow> rat" where
  "pow10 e = (if 0 \<le> e then 10 ^ nat e else 1 / 10 ^ nat (- e))"

lemma pow10_pos [simp]: "0 < pow10 e"
  by (simp add: pow10_def)

text \<open>The exponent of the leading decimal digit.\<close>

definition dec_exp :: "rat \<Rightarrow> int" where
  "dec_exp x = (if 1 \<le> x then int (floorlog 10 (nat \<lfloor>x\<rfloor>)) - 1
                else - int (floorlog 10 (nat (\<lceil>1 / x\<rceil> - 1))))"

definition best_digits :: "rat \<Rightarrow> nat \<Rightarrow> int option" where
  "best_digits x n =
     (let u = pow10 (dec_exp x - int n + 1);
          lo = \<lfloor>x / u\<rfloor>; hi = lo + 1;
          near_first = (if half_even (x / u) = lo then [lo, hi] else [hi, lo])
      in find (\<lambda>c. rnd64 (of_int c * u) = x) near_first)"

fun shortest_from :: "rat \<Rightarrow> nat \<Rightarrow> nat \<Rightarrow> (int \<times> int) option" where
  "shortest_from x n 0 = None"
| "shortest_from x n (Suc fuel) =
     (case best_digits x n of
        Some c \<Rightarrow> Some (c, dec_exp x - int n + 1)
      | None \<Rightarrow> shortest_from x (Suc n) fuel)"

text \<open>Seventeen digits always identify a binary64 number, so the fuel is 17.\<close>

definition shortest :: "rat \<Rightarrow> (int \<times> int) option" where
  "shortest x = shortest_from x 1 17"

definition decimal_of :: "rat \<Rightarrow> rat" where
  "decimal_of x =
     (if x = 0 then 0
      else case shortest \<bar>x\<bar> of
          Some (c, e) \<Rightarrow> sgn x * (of_int c * pow10 e)
        | None \<Rightarrow> x)"

lemma best_digits_SomeD: "best_digits x n = Some c \<Longrightarrow> rnd64 (of_int c * pow10 (dec_exp x - int n + 1)) = x"
  by (auto simp: best_digits_def Let_def split: if_splits)

lemma shortest_from_SomeD: "shortest_from x n fuel = Some (c, e) \<Longrightarrow> rnd64 (of_int c * pow10 e) = x"
  by (induction x n fuel rule: shortest_from.induct)
    (auto split: option.splits dest: best_digits_SomeD)

text \<open>The text of a float reads back as that float.\<close>

lemma decimal_of_rounds_back:
  assumes "rnd64 x = x"
  shows "rnd64 (decimal_of x) = x"
proof (cases "x = 0")
  case False
  show ?thesis
  proof (cases "shortest \<bar>x\<bar>")
    case None
    with assms show ?thesis by (simp add: decimal_of_def)
  next
    case (Some p)
    obtain c e where p: "p = (c, e)" by (cases p)
    with Some have r: "rnd64 (of_int c * pow10 e) = \<bar>x\<bar>"
      unfolding shortest_def by (auto dest: shortest_from_SomeD)
    have "rnd64 (- (of_int c * pow10 e)) = - \<bar>x\<bar>"
      by (simp only: rnd64_minus r)
    with r Some p False show ?thesis
      by (cases "0 < x") (auto simp: decimal_of_def sgn_if abs_if)
  qed
qed (simp add: decimal_of_def)

lemma decimal_of_zero [simp]: "decimal_of 0 = 0"
  by (simp add: decimal_of_def)

lemma best_digits_nonneg: "best_digits x n = Some c \<Longrightarrow> 0 \<le> x \<Longrightarrow> 0 \<le> c"
proof -
  assume h: "best_digits x n = Some c" "0 \<le> x"
  let ?u = "pow10 (dec_exp x - int n + 1)"
  have "0 \<le> x / ?u" using h(2) by (intro divide_nonneg_nonneg less_imp_le [OF pow10_pos])
  then have "0 \<le> \<lfloor>x / ?u\<rfloor>" by simp
  moreover have "c = \<lfloor>x / ?u\<rfloor> \<or> c = \<lfloor>x / ?u\<rfloor> + 1"
    using h(1) by (auto simp: best_digits_def Let_def split: if_splits)
  ultimately show ?thesis by auto
qed

lemma shortest_from_nonneg: "shortest_from x n fuel = Some (c, e) \<Longrightarrow> 0 \<le> x \<Longrightarrow> 0 \<le> c"
  by (induction x n fuel rule: shortest_from.induct)
    (auto split: option.splits dest: best_digits_nonneg)

lemma decimal_of_nonneg:
  assumes "0 \<le> x"
  shows "0 \<le> decimal_of x"
proof (cases "shortest \<bar>x\<bar>")
  case (Some p)
  obtain c e where p: "p = (c, e)" by (cases p)
  have "0 \<le> c" using Some p by (auto simp: shortest_def dest: shortest_from_nonneg)
  then show ?thesis using assms Some p less_imp_le [OF pow10_pos [of e]]
    by (auto simp: decimal_of_def sgn_if)
qed (use assms in \<open>auto simp: decimal_of_def\<close>)

section \<open>Floats as text\<close>

fun strip_zeros :: "nat \<Rightarrow> int \<times> int \<Rightarrow> int \<times> int" where
  "strip_zeros 0 p = p"
| "strip_zeros (Suc n) p =
     (if fst p mod 10 = 0 then strip_zeros n (fst p div 10, snd p + 1) else p)"

definition exp_text :: "int \<Rightarrow> string" where
  "exp_text e =
     (let d = nat_text (nat \<bar>e\<bar>)
      in (if e < 0 then ''e-'' else ''e+'') @ (if length d < 2 then CHR ''0'' # d else d))"

definition digits_text :: "string \<Rightarrow> int \<Rightarrow> string" where
  "digits_text ds point =
     (let n = int (length ds)
      in if point \<le> -4 \<or> 16 < point
         then hd ds # (if length ds = 1 then [] else CHR ''.'' # tl ds) @ exp_text (point - 1)
         else if point \<le> 0 then ''0.'' @ replicate (nat (- point)) CHR ''0'' @ ds
         else if n \<le> point then ds @ replicate (nat (point - n)) CHR ''0'' @ ''.0''
         else take (nat point) ds @ ''.'' @ drop (nat point) ds)"

fun float_repr :: "pyfloat \<Rightarrow> string" where
  "float_repr PInf = ''inf''"
| "float_repr NInf = ''-inf''"
| "float_repr NaN = ''nan''"
| "float_repr (Fin x) =
     (if x = 0 then ''0.0''
      else case shortest \<bar>x\<bar> of
          None \<Rightarrow> []
        | Some p \<Rightarrow>
            (let (c, e) = strip_zeros 17 p; ds = nat_text (nat c)
             in (if x < 0 then ''-'' else []) @ digits_text ds (e + int (length ds))))"

section \<open>Dynamic values as text\<close>

definition hex_char :: "nat \<Rightarrow> char" where
  "hex_char d = (if d < 10 then char_of (48 + d) else char_of (87 + d))"

definition repr_char :: "char \<Rightarrow> char \<Rightarrow> string" where
  "repr_char q c =
     (let n = (of_char c :: nat)
      in if c = q \<or> n = 92 then [char_of (92 :: nat), c]
         else if n = 9 then [char_of (92 :: nat), CHR ''t'']
         else if n = 10 then [char_of (92 :: nat), CHR ''n'']
         else if n = 13 then [char_of (92 :: nat), CHR ''r'']
         else if n < 32 \<or> n = 127
         then [char_of (92 :: nat), CHR ''x'', hex_char (n div 16), hex_char (n mod 16)]
         else [c])"

definition str_repr :: "string \<Rightarrow> string" where
  "str_repr s =
     (let q = (if char_of (39 :: nat) \<in> set s \<and> char_of (34 :: nat) \<notin> set s
               then char_of (34 :: nat) else char_of (39 :: nat))
      in q # concat (map (repr_char q) s) @ [q])"

fun join :: "string \<Rightarrow> string list \<Rightarrow> string" where
  "join sep [] = []"
| "join sep [x] = x"
| "join sep (x # xs) = x @ sep @ join sep xs"

fun py_repr :: "pyval \<Rightarrow> string" where
  "py_repr PNone = ''None''"
| "py_repr (PBool b) = (if b then ''True'' else ''False'')"
| "py_repr (PInt i) = int_text i"
| "py_repr (PFloat x) = float_repr x"
| "py_repr (PStr s) = str_repr s"
| "py_repr (PList xs) = ''['' @ join '', '' (map py_repr xs) @ '']''"
| "py_repr (PDict d) =
     ''{'' @ join '', '' (map (\<lambda>(k, r). str_repr k @ '': '' @ r) (map (map_prod id py_repr) d)) @ ''}''"

fun py_str :: "pyval \<Rightarrow> string" where
  "py_str (PStr s) = s"
| "py_str v = py_repr v"

section \<open>Reading floats\<close>

definition is_digit :: "char \<Rightarrow> bool" where
  "is_digit c \<longleftrightarrow> 48 \<le> (of_char c :: nat) \<and> (of_char c :: nat) \<le> 57"

definition digit_val :: "char \<Rightarrow> nat" where
  "digit_val c = (of_char c :: nat) - 48"

definition digits_val :: "string \<Rightarrow> nat" where
  "digits_val ds = foldl (\<lambda>n c. 10 * n + digit_val c) 0 ds"

text \<open>Underscores are allowed between two digits only.\<close>

fun drop_underscores :: "bool \<Rightarrow> string \<Rightarrow> string option" where
  "drop_underscores prev [] = Some []"
| "drop_underscores prev (c # cs) =
     (if c = CHR ''_''
      then (case cs of
              [] \<Rightarrow> None
            | d # _ \<Rightarrow> if prev \<and> is_digit d then drop_underscores False cs else None)
      else map_option (Cons c) (drop_underscores (is_digit c) cs))"

definition split_sign :: "string \<Rightarrow> rat \<times> string" where
  "split_sign s = (case s of
      [] \<Rightarrow> (1, [])
    | c # cs \<Rightarrow> if c = CHR ''-'' then (-1, cs) else if c = CHR ''+'' then (1, cs) else (1, s))"

definition parse_exponent :: "string \<Rightarrow> int option" where
  "parse_exponent s =
     (case s of
        [] \<Rightarrow> Some 0
      | c # cs \<Rightarrow>
          if low_char c = CHR ''e''
          then (let (sg, ds) = split_sign cs
                in if ds \<noteq> [] \<and> list_all is_digit ds
                   then Some (if sg < 0 then - int (digits_val ds) else int (digits_val ds))
                   else None)
          else None)"

definition parse_decimal :: "string \<Rightarrow> rat option" where
  "parse_decimal s =
     (let ip = takeWhile is_digit s; r1 = dropWhile is_digit s;
          (fp, r2) = (case r1 of
                        c # cs \<Rightarrow> if c = CHR ''.''
                                  then (takeWhile is_digit cs, dropWhile is_digit cs)
                                  else ([], r1)
                      | [] \<Rightarrow> ([], []))
      in if ip = [] \<and> fp = [] then None
         else map_option (\<lambda>e. of_nat (digits_val (ip @ fp)) * pow10 (e - int (length fp)))
                (parse_exponent r2))"

definition parse_float :: "string \<Rightarrow> pyfloat option" where
  "parse_float s =
     (case drop_underscores False (str_strip s) of
        None \<Rightarrow> None
      | Some t \<Rightarrow>
          (let (sg, u) = split_sign t; w = str_lower u
           in if w = ''inf'' \<or> w = ''infinity'' then Some (if sg < 0 then NInf else PInf)
              else if w = ''nan'' then Some NaN
              else map_option (\<lambda>q. fl (sg * q)) (parse_decimal u)))"

text \<open>\<open>float(value)\<close> on a dynamic value.\<close>

fun py_float :: "pyval \<Rightarrow> pyfloat result" where
  "py_float (PFloat x) = Inr x"
| "py_float (PInt i) = of_pyint i"
| "py_float (PBool b) = Inr (Fin (if b then 1 else 0))"
| "py_float (PStr s) =
     (case parse_float s of
        None \<Rightarrow> Inl (ValueError (''could not convert string to float: '' @ str_repr s))
      | Some x \<Rightarrow> Inr x)"
| "py_float _ = Inl (TypeError ''float() argument must be a string or a real number'')"

text \<open>The shape \<open>try: float(value) except (TypeError, ValueError): None\<close>.\<close>

definition float_or_none :: "pyval \<Rightarrow> pyfloat option result" where
  "float_or_none v = (case py_float v of
      Inr x \<Rightarrow> Inr (Some x)
    | Inl (TypeError _) \<Rightarrow> Inr None
    | Inl (ValueError _) \<Rightarrow> Inr None
    | Inl e \<Rightarrow> Inl e)"

section \<open>Reading integers\<close>

definition parse_int :: "string \<Rightarrow> int option" where
  "parse_int s =
     (case drop_underscores False (str_strip s) of
        None \<Rightarrow> None
      | Some t \<Rightarrow>
          (let (sg, ds) = split_sign t
           in if ds \<noteq> [] \<and> list_all is_digit ds \<and> length ds \<le> 4300
              then Some (if sg < 0 then - int (digits_val ds) else int (digits_val ds))
              else None))"

definition trunc_rat :: "rat \<Rightarrow> int" where
  "trunc_rat q = (if 0 \<le> q then \<lfloor>q\<rfloor> else \<lceil>q\<rceil>)"

text \<open>\<open>int(value)\<close> on a dynamic value; floats are cut towards zero.\<close>

fun py_int :: "pyval \<Rightarrow> int result" where
  "py_int (PInt i) = Inr i"
| "py_int (PBool b) = Inr (if b then 1 else 0)"
| "py_int (PFloat (Fin q)) = Inr (trunc_rat q)"
| "py_int (PFloat NaN) = Inl (ValueError ''cannot convert float NaN to integer'')"
| "py_int (PFloat _) = Inl OverflowError"
| "py_int (PStr s) =
     (case parse_int s of
        None \<Rightarrow> Inl (ValueError (''invalid literal for int() with base 10: '' @ str_repr s))
      | Some i \<Rightarrow> Inr i)"
| "py_int _ = Inl (TypeError ''int() argument must be a string or a real number'')"

text \<open>\<open>None\<close> on a \<open>TypeError\<close> or a \<open>ValueError\<close>, other exceptions pass.\<close>

definition or_none :: "'a result \<Rightarrow> 'a option result" where
  "or_none r = (case r of
      Inr x \<Rightarrow> Inr (Some x)
    | Inl (TypeError _) \<Rightarrow> Inr None
    | Inl (ValueError _) \<Rightarrow> Inr None
    | Inl e \<Rightarrow> Inl e)"

lemma or_none_Inr [simp]: "or_none (Inr x) = Inr (Some x)"
  by (simp add: or_none_def)

text \<open>The shapes \<open>float(d.get(key, 0.0) or 0.0)\<close> and \<open>str(d.get(key) or default)\<close>.\<close>

definition field_float :: "(string \<times> pyval) list \<Rightarrow> string \<Rightarrow> pyfloat result" where
  "field_float r k =
     (let v = pget_or r k (PFloat (Fin 0)) in py_float (if truthy v then v else PFloat (Fin 0)))"

definition field_str :: "(string \<times> pyval) list \<Rightarrow> string \<Rightarrow> string \<Rightarrow> string" where
  "field_str r k d = (let v = pget r k in if truthy v then py_str v else d)"

end
