(* ===== verification/Contracts.thy ===== *)
theory Contracts
  imports Prelude
begin

text \<open>
  The interfaces the components share, as locales with their client lemmas.

  \<^item> \<open>check_gate\<close>: a named list of checks, the reasons it reports and its verdict.
  \<^item> \<open>guarded_machine\<close>, \<open>ranked_machine\<close>, \<open>retirable_machine\<close>: transition tables with
    terminal states; with a rank that every step lowers; with a state every live state can
    move to.  \<open>live_machine\<close>: a ranked one where only terminal states are stuck.
  \<^item> \<open>dedup_log\<close>: a fold over a log that skips entries whose key was already seen.
\<close>

section \<open>Check lists\<close>

definition failed_checks :: "(string \<times> ('i \<Rightarrow> bool)) list \<Rightarrow> 'i \<Rightarrow> string list" where
  "failed_checks cs i = map fst (filter (\<lambda>c. \<not> snd c i) cs)"

lemma failed_checks_simps [simp]:
  "failed_checks [] i = []"
  "failed_checks ((n, f) # cs) i = (if f i then failed_checks cs i else n # failed_checks cs i)"
  by (simp_all add: failed_checks_def)

locale check_gate =
  fixes checks :: "(string \<times> ('i \<Rightarrow> bool)) list"
    and reasons :: "'i \<Rightarrow> string list"
    and passed :: "'i \<Rightarrow> bool"
  assumes reasons_eq: "reasons i = failed_checks checks i"
    and passed_eq: "passed i \<longleftrightarrow> reasons i = []"
    and names_distinct: "distinct (map fst checks)"
begin

lemma passed_iff_all: "passed i \<longleftrightarrow> (\<forall>c \<in> set checks. snd c i)"
  by (auto simp: passed_eq reasons_eq failed_checks_def filter_empty_conv)

lemma reason_iff: "(n, f) \<in> set checks \<Longrightarrow> n \<in> set (reasons i) \<longleftrightarrow> \<not> f i"
  using names_distinct
  by (force simp: reasons_eq failed_checks_def distinct_map inj_on_def)

lemma reasons_known: "set (reasons i) \<subseteq> fst ` set checks"
  by (auto simp: reasons_eq failed_checks_def)

lemma reasons_distinct: "distinct (reasons i)"
  using names_distinct
  by (simp add: reasons_eq failed_checks_def distinct_map inj_on_def distinct_filter)

lemma reasons_mono:
  assumes "\<And>c. c \<in> set checks \<Longrightarrow> snd c i \<Longrightarrow> snd c j"
  shows "set (reasons j) \<subseteq> set (reasons i)"
  using assms by (auto simp: reasons_eq failed_checks_def)

end

section \<open>Transition tables\<close>

fun walk :: "('s \<Rightarrow> 's \<Rightarrow> bool) \<Rightarrow> 's \<Rightarrow> 's list \<Rightarrow> bool" where
  "walk R s [] \<longleftrightarrow> True"
| "walk R s (t # ts) \<longleftrightarrow> R s t \<and> walk R t ts"

lemma walk_append:
  "walk R s (ts @ us) \<longleftrightarrow> walk R s ts \<and> walk R (last (s # ts)) us"
  by (induction ts arbitrary: s) auto

locale guarded_machine =
  fixes allowed :: "'s \<Rightarrow> 's \<Rightarrow> bool"
    and terminal :: "'s \<Rightarrow> bool"
  assumes terminal_stuck: "terminal s \<Longrightarrow> \<not> allowed s t"
begin

lemma terminal_walk: "terminal s \<Longrightarrow> walk allowed s ts \<Longrightarrow> ts = []"
  by (cases ts) (auto simp: terminal_stuck)

lemma terminal_last: "walk allowed s (ts @ [t]) \<Longrightarrow> \<not> (\<exists>u \<in> set (s # ts). terminal u)"
  by (induction ts arbitrary: s) (auto dest: terminal_stuck)

end

locale ranked_machine = guarded_machine +
  fixes rank :: "'s \<Rightarrow> nat"
  assumes rank_decreases: "allowed s t \<Longrightarrow> rank t < rank s"
begin

lemma walk_rank: "walk allowed s ts \<Longrightarrow> t \<in> set ts \<Longrightarrow> rank t < rank s"
  by (induction ts arbitrary: s) (auto dest: rank_decreases less_trans)

lemma walk_length: "walk allowed s ts \<Longrightarrow> length ts \<le> rank s"
  by (induction ts arbitrary: s) (force dest: rank_decreases)+

lemma walk_distinct: "walk allowed s ts \<Longrightarrow> distinct (s # ts)"
proof (induction ts arbitrary: s)
  case (Cons t ts)
  then show ?case using walk_rank [of s "t # ts" s] by auto
qed simp

end

locale live_machine = ranked_machine +
  assumes progress: "\<not> terminal s \<Longrightarrow> \<exists>t. allowed s t"
begin

lemma reaches_terminal: "\<exists>ts. walk allowed s ts \<and> terminal (last (s # ts))"
proof (induction "rank s" arbitrary: s rule: less_induct)
  case less
  show ?case
  proof (cases "terminal s")
    case True
    then show ?thesis by (intro exI [of _ "[]"]) simp
  next
    case False
    then obtain t where t: "allowed s t" using progress by blast
    then obtain ts where "walk allowed t ts" "terminal (last (t # ts))"
      using less rank_decreases by blast
    with t show ?thesis by (intro exI [of _ "t # ts"]) simp
  qed
qed

lemma stuck_iff_terminal: "(\<forall>t. \<not> allowed s t) \<longleftrightarrow> terminal s"
  using progress terminal_stuck by blast

end

locale retirable_machine = guarded_machine +
  fixes retired :: "'s"
  assumes retired_terminal: "terminal retired"
    and can_retire: "\<not> terminal s \<Longrightarrow> allowed s retired"
begin

lemma always_retirable: "walk allowed s ts \<Longrightarrow> last (s # ts) = retired
    \<or> terminal (last (s # ts)) \<or> walk allowed s (ts @ [retired])"
  by (auto simp: walk_append intro: can_retire)

end

section \<open>Logs with duplicate suppression\<close>

text \<open>
  \<open>fold_fresh\<close> runs a step over a log; an entry with a key (\<open>Some k\<close>) acts once, on its
  first occurrence, and an entry without a key acts always.
\<close>

fun fold_fresh :: "('e \<Rightarrow> 'k option) \<Rightarrow> ('e \<Rightarrow> 's \<Rightarrow> 's) \<Rightarrow> 'k set \<Rightarrow> 'e list \<Rightarrow> 's \<Rightarrow> 's" where
  "fold_fresh key act K [] s = s"
| "fold_fresh key act K (e # es) s =
     (case key e of
        None \<Rightarrow> fold_fresh key act K es (act e s)
      | Some k \<Rightarrow> if k \<in> K then fold_fresh key act K es s
                 else fold_fresh key act (insert k K) es (act e s))"

definition log_keys :: "('e \<Rightarrow> 'k option) \<Rightarrow> 'e list \<Rightarrow> 'k set" where
  "log_keys key es = {k. \<exists>e \<in> set es. key e = Some k}"

lemma log_keys_simps [simp]:
  "log_keys key [] = {}"
  "log_keys key (e # es) = set_option (key e) \<union> log_keys key es"
  by (auto simp: log_keys_def)

lemma fold_fresh_append:
  "fold_fresh key act K (es @ fs) s
   = fold_fresh key act (K \<union> log_keys key es) fs (fold_fresh key act K es s)"
  by (induction es arbitrary: K s) (auto split: option.split simp: insert_absorb)

lemma fold_fresh_seen:
  "(\<And>e. e \<in> set es \<Longrightarrow> \<exists>k \<in> K. key e = Some k) \<Longrightarrow> fold_fresh key act K es s = s"
proof (induction es)
  case (Cons e es)
  from Cons.prems [of e] obtain k where "k \<in> K" "key e = Some k" by auto
  moreover have "fold_fresh key act K es s = s" using Cons.prems by (intro Cons.IH) simp
  ultimately show ?case by simp
qed simp

locale dedup_log =
  fixes project :: "'e list \<Rightarrow> 'p"
    and key :: "'e \<Rightarrow> 'k option"
    and act :: "'e \<Rightarrow> 's \<Rightarrow> 's"
    and start :: 's
    and view :: "'s \<Rightarrow> 'p"
  assumes project_eq: "project es = view (fold_fresh key act {} es start)"
begin

lemma replay_ignored:
  assumes "\<And>e. e \<in> set fs \<Longrightarrow> \<exists>k. key e = Some k \<and> k \<in> log_keys key es"
  shows "project (es @ fs) = project es"
proof -
  have "fold_fresh key act (log_keys key es) fs (fold_fresh key act {} es start)
      = fold_fresh key act {} es start"
    using assms by (intro fold_fresh_seen) blast
  then show ?thesis
    unfolding project_eq fold_fresh_append by (simp only: sup_bot_left)
qed

end

end
