(* ===== verification/Ledger.thy ===== *)
theory Ledger
  imports PyText Contracts
begin

text \<open>
  The execution ledger (\<open>execution/ledger.py\<close>), the state projection rebuilt from it
  (\<open>execution/state_projection.py\<close>) and the reconciliation repair plan
  (\<open>execution/reconciliation_repair.py\<close>).  The projection is a loop over the events that
  skips fills already seen; it can raise on a malformed payload.  The lemmas show that
  replayed fills change nothing, that a projection can be continued from a prefix, that on
  integer amounts it is exact double-entry bookkeeping, and what a clean repair plan means.
\<close>

section \<open>Events\<close>

record ledger_event =
  le_event_id :: string
  le_event_type :: string
  le_payload :: "(string \<times> pyval) list"

definition ledger_order :: "string \<Rightarrow> string \<Rightarrow> string \<Rightarrow> pyfloat \<Rightarrow> pyfloat \<Rightarrow> ledger_event" where
  "ledger_order event_id symbol side qty price =
     \<lparr>le_event_id = event_id, le_event_type = ''ORDER'',
      le_payload = [(''symbol'', PStr symbol), (''side'', PStr (str_upper side)),
                    (''qty'', PFloat qty), (''price'', PFloat price)]\<rparr>"

definition ledger_fill ::
    "string \<Rightarrow> string \<Rightarrow> string \<Rightarrow> string \<Rightarrow> pyfloat \<Rightarrow> pyfloat \<Rightarrow> pyfloat \<Rightarrow> ledger_event" where
  "ledger_fill event_id order_id symbol side qty price fee =
     \<lparr>le_event_id = event_id, le_event_type = ''FILL'',
      le_payload = [(''fill_id'', PStr event_id), (''order_id'', PStr order_id),
                    (''symbol'', PStr symbol), (''side'', PStr (str_upper side)),
                    (''qty'', PFloat qty), (''price'', PFloat price), (''fee'', PFloat fee)]\<rparr>"

definition ledger_funding :: "string \<Rightarrow> string \<Rightarrow> pyfloat \<Rightarrow> ledger_event" where
  "ledger_funding event_id symbol amount =
     \<lparr>le_event_id = event_id, le_event_type = ''FUNDING'',
      le_payload = [(''symbol'', PStr symbol), (''amount'', PFloat amount)]\<rparr>"

definition ledger_risk :: "string \<Rightarrow> string \<Rightarrow> ledger_event" where
  "ledger_risk event_id reason_code =
     \<lparr>le_event_id = event_id, le_event_type = ''RISK'',
      le_payload = [(''reason_code'', PStr reason_code)]\<rparr>"

definition ledger_event_dict :: "ledger_event \<Rightarrow> pyval" where
  "ledger_event_dict e = PDict [(''event_id'', PStr (le_event_id e)),
     (''event_type'', PStr (le_event_type e)), (''payload'', PDict (le_payload e))]"

definition ledger_append :: "ledger_event list \<Rightarrow> ledger_event \<Rightarrow> ledger_event list" where
  "ledger_append events event = events @ [event]"

definition ledger_digest :: "stable_hash \<Rightarrow> ledger_event list \<Rightarrow> string" where
  "ledger_digest H events = H (PList (map ledger_event_dict events))"

section \<open>The state projection\<close>

record projection_state =
  pj_positions :: "(string, pyfloat) dict"
  pj_cash :: pyfloat
  pj_fees :: pyfloat
  pj_funding :: pyfloat

definition pj_start :: projection_state where
  "pj_start = \<lparr>pj_positions = [], pj_cash = Fin 0, pj_fees = Fin 0, pj_funding = Fin 0\<rparr>"

text \<open>\<open>payload[key]\<close> and \<open>float(payload.get(key, 0.0))\<close>.\<close>

definition pay_item :: "(string \<times> pyval) list \<Rightarrow> string \<Rightarrow> pyval result" where
  "pay_item d k = (case map_of d k of None \<Rightarrow> Inl (KeyError k) | Some v \<Rightarrow> Inr v)"

definition pay_float :: "(string \<times> pyval) list \<Rightarrow> string \<Rightarrow> pyfloat result" where
  "pay_float d k = (case map_of d k of None \<Rightarrow> Inr (Fin 0) | Some v \<Rightarrow> py_float v)"

definition fill_id_of :: "ledger_event \<Rightarrow> string" where
  "fill_id_of e =
     (let v = pget (le_payload e) ''fill_id'' in if truthy v then py_str v else le_event_id e)"

definition apply_fill :: "ledger_event \<Rightarrow> projection_state \<Rightarrow> projection_state result" where
  "apply_fill e s =
     rbind (pay_item (le_payload e) ''symbol'') (\<lambda>sy.
     rbind (pay_item (le_payload e) ''side'') (\<lambda>sd.
     rbind (pay_float (le_payload e) ''qty'') (\<lambda>qty.
     rbind (pay_float (le_payload e) ''price'') (\<lambda>price.
     rbind (pay_float (le_payload e) ''fee'') (\<lambda>fee.
       let symbol = py_str sy; side = str_upper (py_str sd);
           signed_qty = (if side = ''BUY'' then qty else fneg qty);
           positions = AList.update symbol
             (round_nd 12 (fadd (dget (pj_positions s) symbol (Fin 0)) signed_qty)) (pj_positions s);
           cash = fsub (pj_cash s) (fmul signed_qty price)
       in Inr (s\<lparr>pj_positions := positions, pj_fees := fadd (pj_fees s) fee,
                pj_cash := fsub cash fee\<rparr>))))))"

definition apply_funding :: "ledger_event \<Rightarrow> projection_state \<Rightarrow> projection_state result" where
  "apply_funding e s =
     rbind (pay_float (le_payload e) ''amount'') (\<lambda>amount.
       Inr (s\<lparr>pj_funding := fadd (pj_funding s) amount, pj_cash := fadd (pj_cash s) amount\<rparr>))"

text \<open>The body of the loop: a fill acts once per fill id, funding always, the rest never.\<close>

definition event_key :: "ledger_event \<Rightarrow> string option" where
  "event_key e = (if le_event_type e = ''FILL'' then Some (fill_id_of e) else None)"

definition event_act :: "ledger_event \<Rightarrow> projection_state result \<Rightarrow> projection_state result" where
  "event_act e r = rbind r (\<lambda>s.
     if le_event_type e = ''FILL'' then apply_fill e s
     else if le_event_type e = ''FUNDING'' then apply_funding e s
     else Inr s)"

record state_projection =
  sp_positions :: "(string, pyfloat) dict"
  sp_cash :: pyfloat
  sp_fees :: pyfloat
  sp_funding :: pyfloat
  sp_realized_pnl :: pyfloat
  sp_digest :: string

definition projection_payload :: "projection_state \<Rightarrow> pyval" where
  "projection_payload s = PDict
     [(''positions'', PDict (map (map_prod id PFloat) (sort_key fst (pj_positions s)))),
      (''cash'', PFloat (round_nd 12 (pj_cash s))),
      (''fees'', PFloat (round_nd 12 (pj_fees s))),
      (''funding'', PFloat (round_nd 12 (pj_funding s))),
      (''realized_pnl'', PFloat (round_nd 12 (Fin 0)))]"

definition finish_projection ::
    "stable_hash \<Rightarrow> projection_state result \<Rightarrow> state_projection result" where
  "finish_projection H r = rbind r (\<lambda>s. Inr
     \<lparr>sp_positions = sort_key fst (pj_positions s), sp_cash = round_nd 12 (pj_cash s),
      sp_fees = round_nd 12 (pj_fees s), sp_funding = round_nd 12 (pj_funding s),
      sp_realized_pnl = round_nd 12 (Fin 0), sp_digest = H (projection_payload s)\<rparr>)"

definition rebuild_state_projection ::
    "stable_hash \<Rightarrow> ledger_event list \<Rightarrow> state_projection result" where
  "rebuild_state_projection H events =
     finish_projection H (fold_fresh event_key event_act {} events (Inr pj_start))"

interpretation projection: dedup_log "rebuild_state_projection H" event_key event_act
  "Inr pj_start" "finish_projection H" for H
  by unfold_locales (rule rebuild_state_projection_def)

section \<open>Reconciliation repair\<close>

record repair_plan =
  rp_status :: string
  rp_issues :: "string list"
  rp_actions :: "string list"

text \<open>\<open>str(fill.get("fill_id", ""))\<close>: a missing key is the empty text.\<close>

definition gateway_fill_id :: "(string \<times> pyval) list \<Rightarrow> string" where
  "gateway_fill_id d = (case map_of d ''fill_id'' of None \<Rightarrow> [] | Some v \<Rightarrow> py_str v)"

fun duplicate_scan :: "string list \<Rightarrow> string set \<Rightarrow> string list \<Rightarrow> string list" where
  "duplicate_scan [] seen dups = dups"
| "duplicate_scan (f # fs) seen dups =
     (if f = [] then duplicate_scan fs seen dups
      else if f \<in> seen then duplicate_scan fs (insert f seen) (f # dups)
      else duplicate_scan fs (insert f seen) dups)"

definition detect_duplicate_fills :: "(string \<times> pyval) list list \<Rightarrow> string list" where
  "detect_duplicate_fills fills = sorted_set (duplicate_scan (map gateway_fill_id fills) {} [])"

definition detect_orphan_orders :: "string list \<Rightarrow> string list \<Rightarrow> string list" where
  "detect_orphan_orders local_ids gateway_ids =
     sorted_set (filter (\<lambda>g. g \<notin> set local_ids) gateway_ids)"

definition repair_action :: "string \<Rightarrow> string list" where
  "repair_action issue =
     (if starts_with ''missing_fill:'' issue then [''ingest_missing_fill'']
      else if starts_with ''duplicate_fill:'' issue then [''dedupe_fill'']
      else if starts_with ''position_mismatch:'' issue then [''force_position_reconcile'']
      else if issue = ''balance_mismatch'' then [''force_balance_reconcile'']
      else if issue \<in> {''stale_websocket'', ''clock_drift''} then [''pause_new_exposure'']
      else [])"

definition repair_actions :: "string list \<Rightarrow> string list" where
  "repair_actions issues = sorted_set (concat (map repair_action issues))"

definition fill_events :: "ledger_event list \<Rightarrow> ledger_event list" where
  "fill_events events = filter (\<lambda>e. le_event_type e = ''FILL'') events"

definition build_reconciliation_repair_plan ::
    "stable_hash \<Rightarrow> ledger_event list \<Rightarrow> (string \<times> pyval) list list \<Rightarrow> (string, pyfloat) dict
     \<Rightarrow> pyfloat \<Rightarrow> pyfloat \<Rightarrow> bool \<Rightarrow> int \<Rightarrow> repair_plan result" where
  "build_reconciliation_repair_plan H events gateway_fills gateway_positions
     gateway_cash local_cash stale_websocket clock_drift_seconds =
     (let local_fill_ids = set (map fill_id_of (fill_events events));
          missing = map (\<lambda>f. ''missing_fill:'' @ f)
            (filter (\<lambda>f. f \<noteq> [] \<and> f \<notin> local_fill_ids) (map gateway_fill_id gateway_fills));
          duplicates = map (\<lambda>f. ''duplicate_fill:'' @ f)
            (detect_duplicate_fills (map le_payload (fill_events events)))
      in rbind (rebuild_state_projection H events) (\<lambda>projection.
        let mismatches = map (\<lambda>p. ''position_mismatch:'' @ fst p)
              (filter (\<lambda>p. flt f_1em9 (fabs (fsub (snd p) (dget (sp_positions projection) (fst p) (Fin 0)))))
                (sort_key fst gateway_positions));
            issues = missing @ duplicates @ mismatches
              @ flag (flt f_1em9 (fabs (fsub gateway_cash local_cash))) ''balance_mismatch''
              @ flag stale_websocket ''stale_websocket''
              @ flag (5 < \<bar>clock_drift_seconds\<bar>) ''clock_drift''
        in Inr \<lparr>rp_status = (if issues = [] then ''PASS'' else ''REPAIR_REQUIRED''),
                rp_issues = issues, rp_actions = repair_actions issues\<rparr>))"

definition reconciliation_allows_new_exposure :: "string \<Rightarrow> string \<Rightarrow> bool" where
  "reconciliation_allows_new_exposure status action =
     (if action \<in> {''reduce'', ''close''} then True else status = ''PASS'')"

lemma duplicate_scan_set:
  "set (duplicate_scan fs seen dups)
   = set dups \<union> {f. f \<noteq> [] \<and> (if f \<in> seen then 1 \<le> count_list fs f else 2 \<le> count_list fs f)}"
  by (induction fs seen dups rule: duplicate_scan.induct) (auto simp: Suc_le_eq)

lemma detect_duplicate_fills_set:
  "set (detect_duplicate_fills fills)
   = {f. f \<noteq> [] \<and> 2 \<le> count_list (map gateway_fill_id fills) f}"
  by (simp add: detect_duplicate_fills_def duplicate_scan_set)

section \<open>Exact bookkeeping\<close>

text \<open>
  The bookkeeping the projection implements, over whole units: each distinct fill changes the
  position by its signed quantity and the cash by the traded value and the fee, each funding
  payment changes the cash; replayed fills, orders and risk notes change nothing.
\<close>

datatype booking =
    Trade (trade_id: string) string string string int int int
  | Funding string string int
  | OrderNote string string string int int
  | RiskNote string string

fun book_event :: "booking \<Rightarrow> ledger_event" where
  "book_event (Trade tid oid sy side q p f) =
     ledger_fill tid oid sy side (Fin (of_int q)) (Fin (of_int p)) (Fin (of_int f))"
| "book_event (Funding fid sy a) = ledger_funding fid sy (Fin (of_int a))"
| "book_event (OrderNote nid sy side q p) =
     ledger_order nid sy side (Fin (of_int q)) (Fin (of_int p))"
| "book_event (RiskNote nid r) = ledger_risk nid r"

fun booking_key :: "booking \<Rightarrow> string option" where
  "booking_key (Trade tid _ _ _ _ _ _) = Some tid"
| "booking_key _ = None"

definition signed_units :: "string \<Rightarrow> int \<Rightarrow> int" where
  "signed_units side q = (if str_upper side = ''BUY'' then q else - q)"

fun position_change :: "string \<Rightarrow> booking \<Rightarrow> int" where
  "position_change s (Trade _ _ sy side q _ _) = (if sy = s then signed_units side q else 0)"
| "position_change s _ = 0"

fun fee_paid :: "booking \<Rightarrow> int" where
  "fee_paid (Trade _ _ _ _ _ _ f) = f"
| "fee_paid _ = 0"

fun funding_received :: "booking \<Rightarrow> int" where
  "funding_received (Funding _ _ a) = a"
| "funding_received _ = 0"

fun cash_flow :: "booking \<Rightarrow> int" where
  "cash_flow (Trade _ _ _ side q p f) = - (signed_units side q * p) - f"
| "cash_flow (Funding _ _ a) = a"
| "cash_flow _ = 0"

fun booking_size :: "booking \<Rightarrow> int" where
  "booking_size (Trade _ _ _ _ q p f) = \<bar>q\<bar> + \<bar>q * p\<bar> + \<bar>f\<bar>"
| "booking_size (Funding _ _ a) = \<bar>a\<bar>"
| "booking_size _ = 0"

fun fresh_bookings :: "string set \<Rightarrow> booking list \<Rightarrow> booking list" where
  "fresh_bookings K [] = []"
| "fresh_bookings K (b # bs) =
     (case booking_key b of
        None \<Rightarrow> b # fresh_bookings K bs
      | Some k \<Rightarrow> if k \<in> K then fresh_bookings K bs else b # fresh_bookings (insert k K) bs)"

lemma booking_size_nonneg [simp]: "0 \<le> booking_size b"
  by (cases b) simp_all

lemma event_key_book [simp]: "event_key (book_event b) = booking_key b"
  by (cases b) (simp_all add: event_key_def fill_id_of_def ledger_fill_def ledger_funding_def
      ledger_order_def ledger_risk_def Let_def)

lemma fl_int_sum: "\<bar>a + b\<bar> \<le> 2 ^ 53 \<Longrightarrow> fl (of_int a + of_int b) = Fin (of_int (a + b))"
  using fl_of_int [of "a + b"] by simp

lemma fl_int_diff: "\<bar>a - b\<bar> \<le> 2 ^ 53 \<Longrightarrow> fl (of_int a - of_int b) = Fin (of_int (a - b))"
  using fl_of_int [of "a - b"] by simp

lemma fl_int_prod: "\<bar>a * b\<bar> \<le> 2 ^ 53 \<Longrightarrow> fl (of_int a * of_int b) = Fin (of_int (a * b))"
  using fl_of_int [of "a * b"] by simp

lemma round_nd_int: "\<bar>a\<bar> \<le> 2 ^ 53 \<Longrightarrow> round_nd n (Fin (of_int a)) = Fin (of_int a)"
proof -
  assume a: "\<bar>a\<bar> \<le> 2 ^ 53"
  have "half_even (of_int a * 10 ^ n) = a * 10 ^ n"
    using half_even_of_int [of "a * 10 ^ n"] by simp
  then show ?thesis using fl_of_int [OF a] by simp
qed

text \<open>The concrete state holds exactly these whole amounts.\<close>

definition holds_units ::
    "projection_state \<Rightarrow> (string \<Rightarrow> int) \<Rightarrow> int \<Rightarrow> int \<Rightarrow> int \<Rightarrow> bool" where
  "holds_units s pos cash fees fund \<longleftrightarrow>
     dict_ok (pj_positions s) \<and> pj_cash s = Fin (of_int cash) \<and> pj_fees s = Fin (of_int fees)
     \<and> pj_funding s = Fin (of_int fund)
     \<and> (\<forall>sy. dget (pj_positions s) sy (Fin 0) = Fin (of_int (pos sy)))"

lemma event_act_units:
  assumes h: "holds_units s pos cash fees fund"
    and b: "\<bar>cash\<bar> \<le> w" "\<bar>fees\<bar> \<le> w" "\<bar>fund\<bar> \<le> w" "\<And>sy. \<bar>pos sy\<bar> \<le> w"
    and m: "w + booking_size b \<le> 2 ^ 53"
  shows "\<exists>s'. event_act (book_event b) (Inr s) = Inr s'
    \<and> holds_units s' (\<lambda>sy. pos sy + position_change sy b) (cash + cash_flow b)
        (fees + fee_paid b) (fund + funding_received b)"
proof (cases b)
  case (Trade tid oid sy side q p f)
  let ?g = "signed_units side q"
  have g: "(if str_upper side = ''BUY'' then Fin (of_int q) else fneg (Fin (of_int q)))
      = Fin (of_int ?g)" "\<bar>?g\<bar> = \<bar>q\<bar>" "\<bar>?g * p\<bar> = \<bar>q * p\<bar>"
    by (simp_all add: signed_units_def abs_mult)
  have m': "w + \<bar>q\<bar> + \<bar>q * p\<bar> + \<bar>f\<bar> \<le> 2 ^ 53" using m Trade by simp
  have e1: "fl (of_int (pos sy) + of_int ?g) = Fin (of_int (pos sy + ?g))"
    using b(4) [of sy] g m' by (intro fl_int_sum) linarith
  have e2: "fl (of_int ?g * of_int p) = Fin (of_int (?g * p))"
    using b(1) g m' by (intro fl_int_prod) linarith
  have e3: "fl (of_int cash - of_int (?g * p)) = Fin (of_int (cash - ?g * p))"
    using b(1) g m' by (intro fl_int_diff) linarith
  have e4: "fl (of_int (cash - ?g * p) - of_int f) = Fin (of_int (cash - ?g * p - f))"
    using b(1) g m' by (intro fl_int_diff) linarith
  have e5: "fl (of_int fees + of_int f) = Fin (of_int (fees + f))"
    using b(2) m' by (intro fl_int_sum) linarith
  have e6: "round_nd 12 (Fin (of_int (pos sy + ?g))) = Fin (of_int (pos sy + ?g))"
    using b(4) [of sy] g m' by (intro round_nd_int) linarith
  note ar = e1 [unfolded of_int_add] e2 [unfolded of_int_mult] e3 [unfolded of_int_mult]
    e4 [unfolded of_int_mult of_int_diff] e5 [unfolded of_int_add]
  define s' where "s' = s\<lparr>pj_positions := AList.update sy (Fin (of_int (pos sy + ?g))) (pj_positions s),
    pj_fees := Fin (of_int (fees + f)), pj_cash := Fin (of_int (cash - ?g * p - f))\<rparr>"
  have "event_act (book_event b) (Inr s) = Inr s'"
    using h g(1) e1 e2 e3 e4 e5 e6
    by (simp add: Trade event_act_def apply_fill_def ledger_fill_def pay_item_def pay_float_def
        holds_units_def fsub_def Let_def s'_def del: round_nd.simps of_int_add of_int_diff of_int_mult)
  moreover have "holds_units s' (\<lambda>x. pos x + position_change x b) (cash + cash_flow b)
        (fees + fee_paid b) (fund + funding_received b)"
    using h by (auto simp: holds_units_def s'_def Trade)
  ultimately show ?thesis by blast
next
  case (Funding fid sy a)
  have e: "fl (of_int fund + of_int a) = Fin (of_int (fund + a))"
    "fl (of_int cash + of_int a) = Fin (of_int (cash + a))"
    using b m Funding by (intro fl_int_sum; simp)+
  show ?thesis
    using h e by (simp add: Funding event_act_def apply_funding_def ledger_funding_def
        pay_float_def holds_units_def del: of_int_add)
next
  case (OrderNote nid sy side q p)
  then show ?thesis using h by (simp add: event_act_def ledger_order_def holds_units_def)
next
  case (RiskNote nid r)
  then show ?thesis using h by (simp add: event_act_def ledger_risk_def holds_units_def)
qed

lemma abs_add_le: "\<bar>a\<bar> \<le> w \<Longrightarrow> \<bar>b\<bar> \<le> v \<Longrightarrow> \<bar>a + b\<bar> \<le> w + v" for a b w v :: int
  by linarith

lemma position_change_le: "\<bar>position_change sy b\<bar> \<le> booking_size b"
  by (cases b) (auto simp: signed_units_def)

lemma cash_flow_le: "\<bar>cash_flow b\<bar> \<le> booking_size b"
proof (cases b)
  case (Trade tid oid sy side q p f)
  have "\<bar>signed_units side q * p\<bar> = \<bar>q * p\<bar>" by (simp add: signed_units_def)
  then show ?thesis using Trade by (simp add: abs_le_iff) linarith
qed simp_all

lemma flows_le: "\<bar>cash_flow b\<bar> \<le> booking_size b" "\<bar>fee_paid b\<bar> \<le> booking_size b"
    "\<bar>funding_received b\<bar> \<le> booking_size b"
  by (rule cash_flow_le) (cases b; simp)+

lemma fold_fresh_units:
  assumes "holds_units s pos cash fees fund"
    and "\<bar>cash\<bar> \<le> w" "\<bar>fees\<bar> \<le> w" "\<bar>fund\<bar> \<le> w" "\<And>sy. \<bar>pos sy\<bar> \<le> w"
    and "w + (\<Sum>b\<leftarrow>bs. booking_size b) \<le> 2 ^ 53"
  shows "\<exists>s'. fold_fresh event_key event_act K (map book_event bs) (Inr s) = Inr s'
    \<and> holds_units s' (\<lambda>sy. pos sy + (\<Sum>b\<leftarrow>fresh_bookings K bs. position_change sy b))
        (cash + (\<Sum>b\<leftarrow>fresh_bookings K bs. cash_flow b))
        (fees + (\<Sum>b\<leftarrow>fresh_bookings K bs. fee_paid b))
        (fund + (\<Sum>b\<leftarrow>fresh_bookings K bs. funding_received b))"
  using assms
proof (induction bs arbitrary: K s pos cash fees fund w)
  case Nil
  then show ?case by simp
next
  case (Cons b bs)
  have sizes: "0 \<le> (\<Sum>b\<leftarrow>bs. booking_size b)" by (induction bs) simp_all
  have total: "w + booking_size b + (\<Sum>b\<leftarrow>bs. booking_size b) \<le> 2 ^ 53"
    using Cons.prems(6) by simp
  show ?case
  proof (cases "\<exists>k. booking_key b = Some k \<and> k \<in> K")
    case True
    have "w + (\<Sum>b\<leftarrow>bs. booking_size b) \<le> 2 ^ 53"
      using total booking_size_nonneg [of b] by linarith
    from Cons.IH [OF Cons.prems(1-5) this, of K] True show ?thesis by auto
  next
    case False
    have "w + booking_size b \<le> 2 ^ 53" using total sizes by linarith
    from event_act_units [OF Cons.prems(1-5) this] obtain s1 where
      s1: "event_act (book_event b) (Inr s) = Inr s1"
      "holds_units s1 (\<lambda>sy. pos sy + position_change sy b) (cash + cash_flow b)
        (fees + fee_paid b) (fund + funding_received b)" by blast
    have bounds: "\<bar>cash + cash_flow b\<bar> \<le> w + booking_size b"
      "\<bar>fees + fee_paid b\<bar> \<le> w + booking_size b"
      "\<bar>fund + funding_received b\<bar> \<le> w + booking_size b"
      "\<And>sy. \<bar>pos sy + position_change sy b\<bar> \<le> w + booking_size b"
      by (intro abs_add_le Cons.prems flows_le position_change_le)+
    let ?K = "set_option (booking_key b) \<union> K"
    have fr: "fresh_bookings K (b # bs) = b # fresh_bookings ?K bs"
      "fold_fresh event_key event_act K (map book_event (b # bs)) (Inr s)
       = fold_fresh event_key event_act ?K (map book_event bs) (Inr s1)"
      using False s1(1) by (auto split: option.split)
    show ?thesis
      using Cons.IH [OF s1(2) bounds total, of ?K] unfolding fr
      by (simp add: algebra_simps)
  qed
qed

lemma holds_units_start: "holds_units pj_start (\<lambda>_. 0) 0 0 0"
  by (simp add: holds_units_def pj_start_def)

section \<open>Properties of the projection\<close>

text \<open>Replayed fills change nothing: appending to a ledger any fill events whose fill ids it
  already holds gives the same projection, digest included, whatever the replayed payloads say.\<close>

lemma replayed_fills_ignored:
  assumes "\<forall>f \<in> set fs. le_event_type f = ''FILL''
       \<and> (\<exists>e \<in> set es. le_event_type e = ''FILL'' \<and> fill_id_of e = fill_id_of f)"
  shows "rebuild_state_projection H (es @ fs) = rebuild_state_projection H es"
proof (rule projection.replay_ignored)
  fix f
  assume "f \<in> set fs"
  with assms show "\<exists>k. event_key f = Some k \<and> k \<in> log_keys event_key es"
    by (force simp: event_key_def log_keys_def)
qed

lemma replayed_fills_ignored_witness:
  "rebuild_state_projection zero_hash
     ([ledger_fill ''f1'' ''o1'' ''BTCUSDT'' ''buy'' (Fin 2) (Fin 100) (Fin 1)]
      @ [ledger_fill ''f1'' ''o1'' ''BTCUSDT'' ''sell'' (Fin 9) (Fin 100) (Fin 1)])
   = rebuild_state_projection zero_hash
     [ledger_fill ''f1'' ''o1'' ''BTCUSDT'' ''buy'' (Fin 2) (Fin 100) (Fin 1)]"
  by (rule replayed_fills_ignored) (simp add: ledger_fill_def fill_id_of_def)

text \<open>C8. On whole amounts the projection is exact double-entry bookkeeping: for fills, funding
  payments, orders and risk notes with integer amounts of total size at most \<open>2 ^ 53\<close>, the
  projection succeeds and its cash, fees, funding and every position are exactly the sums over
  the distinct fills and the funding payments, with no rounding error and no fill counted
  twice; realised profit is always zero.\<close>

theorem projection_is_double_entry:
  assumes "(\<Sum>b\<leftarrow>bs. booking_size b) \<le> 2 ^ 53"
  shows "\<exists>p. rebuild_state_projection H (map book_event bs) = Inr p
    \<and> sp_cash p = Fin (of_int (\<Sum>b\<leftarrow>fresh_bookings {} bs. cash_flow b))
    \<and> sp_fees p = Fin (of_int (\<Sum>b\<leftarrow>fresh_bookings {} bs. fee_paid b))
    \<and> sp_funding p = Fin (of_int (\<Sum>b\<leftarrow>fresh_bookings {} bs. funding_received b))
    \<and> (\<forall>sy. dget (sp_positions p) sy (Fin 0)
          = Fin (of_int (\<Sum>b\<leftarrow>fresh_bookings {} bs. position_change sy b)))
    \<and> sp_realized_pnl p = Fin 0"
proof -
  have "0 + (\<Sum>b\<leftarrow>bs. booking_size b) \<le> 2 ^ 53" using assms by simp
  from fold_fresh_units [OF holds_units_start, of 0 bs "{}"] this obtain s where
    s: "fold_fresh event_key event_act {} (map book_event bs) (Inr pj_start) = Inr s"
    "holds_units s (\<lambda>sy. \<Sum>b\<leftarrow>fresh_bookings {} bs. position_change sy b)
        (\<Sum>b\<leftarrow>fresh_bookings {} bs. cash_flow b)
        (\<Sum>b\<leftarrow>fresh_bookings {} bs. fee_paid b)
        (\<Sum>b\<leftarrow>fresh_bookings {} bs. funding_received b)" by auto
  have bound: "\<bar>\<Sum>b\<leftarrow>fresh_bookings K bs. f b\<bar> \<le> (\<Sum>b\<leftarrow>bs. booking_size b)"
    if "\<And>b. \<bar>f b\<bar> \<le> booking_size b" for f K
  proof (induction bs arbitrary: K)
    case (Cons b bs)
    show ?case
      using Cons.IH [of K] Cons.IH [of "set_option (booking_key b) \<union> K"] that [of b]
        booking_size_nonneg [of b]
      by (auto split: option.split simp: abs_if split: if_splits)
  qed simp
  have r: "round_nd 12 (Fin (of_int (\<Sum>b\<leftarrow>fresh_bookings {} bs. f b)))
      = Fin (of_int (\<Sum>b\<leftarrow>fresh_bookings {} bs. f b))"
    if "\<And>b. \<bar>f b\<bar> \<le> booking_size b" for f
    using bound [of f "{}"] that assms by (intro round_nd_int) (meson order_trans)
  show ?thesis
    using s flows_le r [of cash_flow] r [of fee_paid] r [of funding_received] round_nd_int [of 0 12]
    by (simp add: rebuild_state_projection_def finish_projection_def holds_units_def
        dget_sort_key del: round_nd.simps)
qed

definition sample_bookings :: "booking list" where
  "sample_bookings = [Trade ''f1'' ''o1'' ''BTCUSDT'' ''buy'' 2 100 1,
     Trade ''f1'' ''o1'' ''BTCUSDT'' ''buy'' 2 100 1, Funding ''u1'' ''BTCUSDT'' (-3),
     Trade ''f2'' ''o2'' ''BTCUSDT'' ''SELL'' 1 120 1]"

theorem projection_is_double_entry_witness:
  "\<exists>p. rebuild_state_projection zero_hash (map book_event sample_bookings) = Inr p
     \<and> sp_cash p = Fin (-85) \<and> dget (sp_positions p) ''BTCUSDT'' (Fin 0) = Fin 1"
proof -
  have sz: "(\<Sum>b\<leftarrow>sample_bookings. booking_size b) \<le> 2 ^ 53" by code_simp
  have c: "(\<Sum>b\<leftarrow>fresh_bookings {} sample_bookings. cash_flow b) = -85" by code_simp
  have q: "(\<Sum>b\<leftarrow>fresh_bookings {} sample_bookings. position_change ''BTCUSDT'' b) = 1"
    by code_simp
  from projection_is_double_entry [OF sz, of zero_hash] obtain p where
    p: "rebuild_state_projection zero_hash (map book_event sample_bookings) = Inr p"
    "sp_cash p = Fin (of_int (\<Sum>b\<leftarrow>fresh_bookings {} sample_bookings. cash_flow b))"
    "\<forall>sy. dget (sp_positions p) sy (Fin 0)
      = Fin (of_int (\<Sum>b\<leftarrow>fresh_bookings {} sample_bookings. position_change sy b))" by blast
  have "sp_cash p = Fin (-85)" using p(2) unfolding c by simp
  moreover have "dget (sp_positions p) ''BTCUSDT'' (Fin 0) = Fin 1" using p(3) q by simp
  ultimately show ?thesis using p(1) by blast
qed

section \<open>Properties of the repair plan\<close>

lemma starts_with_Cons: "starts_with (c # p) (d # s) \<longleftrightarrow> c = d \<and> starts_with p s"
  by (auto simp: starts_with_def)

lemma repair_action_prefixes:
  "repair_action (''missing_fill:'' @ f) = [''ingest_missing_fill'']"
  "repair_action (''duplicate_fill:'' @ f) = [''dedupe_fill'']"
  "repair_action (''position_mismatch:'' @ f) = [''force_position_reconcile'']"
  "repair_action ''balance_mismatch'' = [''force_balance_reconcile'']"
  "repair_action ''stale_websocket'' = [''pause_new_exposure'']"
  "repair_action ''clock_drift'' = [''pause_new_exposure'']"
  by (simp_all add: repair_action_def starts_with_def)

lemmas repair_action_lits [simp] = repair_action_prefixes [unfolded append.simps]

lemma set_repair_actions: "set (repair_actions issues) = (\<Union>i \<in> set issues. set (repair_action i))"
  by (simp add: repair_actions_def)

lemma repair_planE:
  assumes "build_reconciliation_repair_plan H events gfills gpos gcash lcash stale drift = Inr plan"
  obtains p missing dups mism where "rebuild_state_projection H events = Inr p"
    "missing = filter (\<lambda>f. f \<noteq> [] \<and> f \<notin> set (map fill_id_of (fill_events events)))
        (map gateway_fill_id gfills)"
    "dups = detect_duplicate_fills (map le_payload (fill_events events))"
    "mism = map fst (filter (\<lambda>q. flt f_1em9 (fabs (fsub (snd q)
        (dget (sp_positions p) (fst q) (Fin 0))))) (sort_key fst gpos))"
    "rp_issues plan = map ((@) ''missing_fill:'') missing @ map ((@) ''duplicate_fill:'') dups
       @ map ((@) ''position_mismatch:'') mism
       @ flag (flt f_1em9 (fabs (fsub gcash lcash))) ''balance_mismatch''
       @ flag stale ''stale_websocket'' @ flag (5 < \<bar>drift\<bar>) ''clock_drift''"
    "rp_status plan = (if rp_issues plan = [] then ''PASS'' else ''REPAIR_REQUIRED'')"
    "rp_actions plan = repair_actions (rp_issues plan)"
proof -
  from assms obtain p where "rebuild_state_projection H events = Inr p"
    by (auto simp: build_reconciliation_repair_plan_def Let_def rbind_Inr_iff)
  with assms show thesis
    by (intro that [of p, OF _ refl refl refl])
      (auto simp: build_reconciliation_repair_plan_def Let_def comp_def)
qed

text \<open>A clean plan means the books agree: if the repair plan lets the executor open new
  exposure, then its status is PASS, it asks for no repair, every fill the gateway names is in
  the ledger, no fill id was recorded twice, each position the gateway reports is within 1e-9
  of the projected one, the cash balances are not further than 1e-9 apart, the stream is live
  and the clock drift is at most five seconds.\<close>

lemma new_exposure_needs_clean_books:
  assumes "build_reconciliation_repair_plan H events gfills gpos gcash lcash stale drift = Inr plan"
    and "reconciliation_allows_new_exposure (rp_status plan) ''open''"
  shows "rp_status plan = ''PASS'' \<and> rp_actions plan = []
    \<and> {f \<in> set (map gateway_fill_id gfills). f \<noteq> []} \<subseteq> set (map fill_id_of (fill_events events))
    \<and> {f. f \<noteq> [] \<and> 2 \<le> count_list (map gateway_fill_id (map le_payload (fill_events events))) f} = {}
    \<and> (\<exists>p. rebuild_state_projection H events = Inr p
        \<and> (\<forall>q \<in> set gpos. \<not> flt f_1em9 (fabs (fsub (snd q) (dget (sp_positions p) (fst q) (Fin 0))))))
    \<and> \<not> flt f_1em9 (fabs (fsub gcash lcash)) \<and> \<not> stale \<and> \<bar>drift\<bar> \<le> 5"
proof (rule repair_planE [OF assms(1)])
  fix p missing dups mism
  assume h: "rebuild_state_projection H events = Inr p"
    "missing = filter (\<lambda>f. f \<noteq> [] \<and> f \<notin> set (map fill_id_of (fill_events events)))
        (map gateway_fill_id gfills)"
    "dups = detect_duplicate_fills (map le_payload (fill_events events))"
    "mism = map fst (filter (\<lambda>q. flt f_1em9 (fabs (fsub (snd q)
        (dget (sp_positions p) (fst q) (Fin 0))))) (sort_key fst gpos))"
    and i: "rp_issues plan = map ((@) ''missing_fill:'') missing @ map ((@) ''duplicate_fill:'') dups
       @ map ((@) ''position_mismatch:'') mism
       @ flag (flt f_1em9 (fabs (fsub gcash lcash))) ''balance_mismatch''
       @ flag stale ''stale_websocket'' @ flag (5 < \<bar>drift\<bar>) ''clock_drift''"
    and s: "rp_status plan = (if rp_issues plan = [] then ''PASS'' else ''REPAIR_REQUIRED'')"
    and a: "rp_actions plan = repair_actions (rp_issues plan)"
  have n: "rp_issues plan = []"
    using assms(2) s by (simp add: reconciliation_allows_new_exposure_def split: if_splits)
  with i have e: "missing = []" "dups = []" "mism = []"
    "\<not> flt f_1em9 (fabs (fsub gcash lcash))" "\<not> stale" "\<bar>drift\<bar> \<le> 5" by auto
  have "{f. f \<noteq> [] \<and> 2 \<le> count_list (map gateway_fill_id (map le_payload (fill_events events))) f} = {}"
    using e(2) h(3) detect_duplicate_fills_set by (metis empty_set)
  moreover have "\<forall>q \<in> set gpos. \<not> flt f_1em9
      (fabs (fsub (snd q) (dget (sp_positions p) (fst q) (Fin 0))))"
    using e(3) h(4) by (simp add: filter_empty_conv)
  moreover have "{f \<in> set (map gateway_fill_id gfills). f \<noteq> []}
      \<subseteq> set (map fill_id_of (fill_events events))"
    using e(1) h(2) by (auto simp: filter_empty_conv)
  ultimately show ?thesis using n s a e h(1) by (simp add: repair_actions_def)
qed

definition one_fill :: "ledger_event list" where
  "one_fill = map book_event [Trade ''f1'' ''o1'' ''BTCUSDT'' ''BUY'' 2 100 0]"

lemma one_fill_projection:
  "\<exists>p. rebuild_state_projection H one_fill = Inr p
     \<and> dget (sp_positions p) ''BTCUSDT'' (Fin 0) = Fin 2"
proof -
  have "0 + (\<Sum>b\<leftarrow>[Trade ''f1'' ''o1'' ''BTCUSDT'' ''BUY'' 2 100 0]. booking_size b) \<le> 2 ^ 53" by simp
  moreover have "signed_units ''BUY'' 2 = 2" by code_simp
  ultimately show ?thesis
    using fold_fresh_units [OF holds_units_start, of 0 "[Trade ''f1'' ''o1'' ''BTCUSDT'' ''BUY'' 2 100 0]" "{}"]
    by (auto simp: rebuild_state_projection_def finish_projection_def one_fill_def
        holds_units_def dget_sort_key)
qed

lemma one_fill_ids: "map fill_id_of (fill_events one_fill) = [''f1'']"
    "map gateway_fill_id (map le_payload (fill_events one_fill)) = [''f1'']"
  by (simp_all add: one_fill_def fill_events_def ledger_fill_def fill_id_of_def gateway_fill_id_def)

lemma f_1em9_not_lt_zero: "\<not> flt f_1em9 (Fin 0)"
  using f_1em9_Fin fle_not_flt [of "Fin 0" f_1em9] by (metis fle.simps(1) order_trans zero_le_divide_1_iff
      zero_le_numeral zero_le_power)

lemma one_fill_plan:
  assumes "\<forall>p. rebuild_state_projection H one_fill = Inr p
        \<and> dget (sp_positions p) ''BTCUSDT'' (Fin 0) = Fin 2 \<longrightarrow>
      filter (\<lambda>q. flt f_1em9 (fabs (fsub (snd q) (dget (sp_positions p) (fst q) (Fin 0))))) gpos = []"
    and "sort_key fst gpos = gpos"
  shows "build_reconciliation_repair_plan H one_fill [[(''fill_id'', PStr ''f1'')]] gpos
      (Fin 0) (Fin 0) False 0 = Inr \<lparr>rp_status = ''PASS'', rp_issues = [], rp_actions = []\<rparr>"
proof -
  obtain p where p: "rebuild_state_projection H one_fill = Inr p"
    "dget (sp_positions p) ''BTCUSDT'' (Fin 0) = Fin 2" using one_fill_projection by blast
  have d: "detect_duplicate_fills (map le_payload (fill_events one_fill)) = []"
    unfolding detect_duplicate_fills_def one_fill_ids by simp
  have g: "gateway_fill_id [(''fill_id'', PStr ''f1'')] = ''f1''"
    by (simp add: gateway_fill_id_def)
  from one_fill_ids(1) have l: "''f1'' \<in> fill_id_of ` set (fill_events one_fill)"
    by (metis image_set list.set_intros(1))
  show ?thesis
    using assms p by (simp add: build_reconciliation_repair_plan_def p(1) d g l
        fsub_def f_1em9_not_lt_zero repair_actions_def)
qed

lemma new_exposure_needs_clean_books_witness:
  "\<exists>plan. build_reconciliation_repair_plan zero_hash one_fill [[(''fill_id'', PStr ''f1'')]]
      [(''BTCUSDT'', Fin 2)] (Fin 0) (Fin 0) False 0 = Inr plan
    \<and> rp_actions plan = [] \<and> \<bar>0::int\<bar> \<le> 5"
proof -
  have b: "build_reconciliation_repair_plan zero_hash one_fill [[(''fill_id'', PStr ''f1'')]]
      [(''BTCUSDT'', Fin 2)] (Fin 0) (Fin 0) False 0
      = Inr \<lparr>rp_status = ''PASS'', rp_issues = [], rp_actions = []\<rparr>"
    by (rule one_fill_plan) (simp_all add: fsub_def f_1em9_not_lt_zero)
  have a: "reconciliation_allows_new_exposure
      (rp_status \<lparr>rp_status = ''PASS'', rp_issues = [], rp_actions = []\<rparr>) ''open''"
    by (simp add: reconciliation_allows_new_exposure_def)
  from new_exposure_needs_clean_books [OF b a] b show ?thesis by blast
qed

text \<open>Every issue gets its repair: a plan has no actions exactly when it has no issues, the
  actions are sorted without repetition, and new exposure is paused exactly when the stream is
  stale or the clock has drifted by more than five seconds.\<close>

lemma repair_actions_cover_issues:
  assumes "build_reconciliation_repair_plan H events gfills gpos gcash lcash stale drift = Inr plan"
  shows "(rp_actions plan = [] \<longleftrightarrow> rp_issues plan = [])
    \<and> sorted (rp_actions plan) \<and> distinct (rp_actions plan)
    \<and> (''pause_new_exposure'' \<in> set (rp_actions plan) \<longleftrightarrow> stale \<or> 5 < \<bar>drift\<bar>)"
proof (rule repair_planE [OF assms])
  fix p missing dups mism
  assume i: "rp_issues plan = map ((@) ''missing_fill:'') missing @ map ((@) ''duplicate_fill:'') dups
       @ map ((@) ''position_mismatch:'') mism
       @ flag (flt f_1em9 (fabs (fsub gcash lcash))) ''balance_mismatch''
       @ flag stale ''stale_websocket'' @ flag (5 < \<bar>drift\<bar>) ''clock_drift''"
    and a: "rp_actions plan = repair_actions (rp_issues plan)"
  have ne: "repair_action r \<noteq> []" if "r \<in> set (rp_issues plan)" for r
    using that unfolding i by (auto split: if_splits)
  have "rp_actions plan = [] \<longleftrightarrow> rp_issues plan = []"
    unfolding a repair_actions_def sorted_set_Nil_iff
    using ne by (cases "rp_issues plan") auto
  moreover have "''pause_new_exposure'' \<in> set (rp_actions plan) \<longleftrightarrow> stale \<or> 5 < \<bar>drift\<bar>"
    unfolding a set_repair_actions i by (auto split: if_splits)
  ultimately show ?thesis unfolding a repair_actions_def by simp
qed

lemma repair_actions_cover_issues_witness:
  "\<exists>plan. build_reconciliation_repair_plan zero_hash one_fill [] [] (Fin 0) (Fin 0) True 0 = Inr plan
    \<and> ''pause_new_exposure'' \<in> set (rp_actions plan)"
proof -
  obtain p where "rebuild_state_projection zero_hash one_fill = Inr p" using one_fill_projection by blast
  then obtain plan where b:
    "build_reconciliation_repair_plan zero_hash one_fill [] [] (Fin 0) (Fin 0) True 0 = Inr plan"
    by (simp add: build_reconciliation_repair_plan_def Let_def)
  from repair_actions_cover_issues [OF b] b show ?thesis by blast
qed

text \<open>A position the gateway no longer reports goes unnoticed: with a local position of two
  units that the gateway does not list at all, and everything else in agreement, the plan
  is PASS with no issue, because only the positions the gateway lists are compared.\<close>

lemma local_only_position_unnoticed:
  "\<exists>p. rebuild_state_projection H one_fill = Inr p
     \<and> dget (sp_positions p) ''BTCUSDT'' (Fin 0) = Fin 2
     \<and> build_reconciliation_repair_plan H one_fill [[(''fill_id'', PStr ''f1'')]] []
         (Fin 0) (Fin 0) False 0
       = Inr \<lparr>rp_status = ''PASS'', rp_issues = [], rp_actions = []\<rparr>"
proof -
  have "build_reconciliation_repair_plan H one_fill [[(''fill_id'', PStr ''f1'')]] []
         (Fin 0) (Fin 0) False 0
       = Inr \<lparr>rp_status = ''PASS'', rp_issues = [], rp_actions = []\<rparr>"
    by (rule one_fill_plan) simp_all
  with one_fill_projection [of H] show ?thesis by blast
qed

end
