(* ===== verification/RiskControls.thy ===== *)
theory RiskControls
  imports Contracts PyFloat
begin

text \<open>
  The executor's risk controls: risk states and the actions they allow
  (\<open>execution/risk_state.py\<close>), the portfolio's state table
  (\<open>portfolio/portfolio_state_machine.py\<close>), circuit breakers, the pre-trade check list,
  the executor risk manager, the tactic chooser, the margin and liquidation guards and the
  decision journal.  The lemmas say exactly when each control passes, that the risk manager
  never approves new exposure outside the normal states, and how the controls treat a NaN.
\<close>

section \<open>Risk states\<close>

datatype risk_state = RS_NORMAL | RS_CAUTION | RS_DEFENSIVE | RS_REDUCE_ONLY | RS_LOCKDOWN | RS_HALT

fun risk_state_value :: "risk_state \<Rightarrow> string" where
  "risk_state_value RS_NORMAL = ''NORMAL''"
| "risk_state_value RS_CAUTION = ''CAUTION''"
| "risk_state_value RS_DEFENSIVE = ''DEFENSIVE''"
| "risk_state_value RS_REDUCE_ONLY = ''REDUCE_ONLY''"
| "risk_state_value RS_LOCKDOWN = ''LOCKDOWN''"
| "risk_state_value RS_HALT = ''HALT''"

definition allowed_actions_for_state :: "risk_state \<Rightarrow> string set" where
  "allowed_actions_for_state s =
     (if s = RS_NORMAL then {''open'', ''increase'', ''reduce'', ''close''}
      else if s = RS_CAUTION then {''open'', ''increase'', ''reduce'', ''close''}
      else if s = RS_DEFENSIVE then {''reduce'', ''close''}
      else if s = RS_REDUCE_ONLY then {''reduce'', ''close''}
      else if s = RS_LOCKDOWN then {''cancel'', ''reconcile'', ''close''}
      else {})"

datatype portfolio_state =
  PS_NORMAL | PS_CAUTION | PS_DEFENSIVE | PS_REDUCE_ONLY | PS_LOCKDOWN | PS_HALT

fun portfolio_actions :: "portfolio_state \<Rightarrow> string set" where
  "portfolio_actions PS_NORMAL = {''open'', ''increase'', ''reduce'', ''close''}"
| "portfolio_actions PS_CAUTION = {''open'', ''increase'', ''reduce'', ''close''}"
| "portfolio_actions PS_DEFENSIVE = {''reduce'', ''close''}"
| "portfolio_actions PS_REDUCE_ONLY = {''reduce'', ''close''}"
| "portfolio_actions PS_LOCKDOWN = {''close''}"
| "portfolio_actions PS_HALT = {}"

definition allowed_portfolio_action :: "portfolio_state \<Rightarrow> string \<Rightarrow> bool" where
  "allowed_portfolio_action s action \<longleftrightarrow> action \<in> portfolio_actions s"

text \<open>The states of the two tables that carry the same name.\<close>

fun same_state :: "portfolio_state \<Rightarrow> risk_state" where
  "same_state PS_NORMAL = RS_NORMAL"
| "same_state PS_CAUTION = RS_CAUTION"
| "same_state PS_DEFENSIVE = RS_DEFENSIVE"
| "same_state PS_REDUCE_ONLY = RS_REDUCE_ONLY"
| "same_state PS_LOCKDOWN = RS_LOCKDOWN"
| "same_state PS_HALT = RS_HALT"

section \<open>Circuit breakers\<close>

record check_result =
  cr_passed :: bool
  cr_rejections :: "string list"

record breaker_inputs =
  daily_loss :: pyfloat
  daily_loss_limit :: pyfloat
  weekly_loss :: pyfloat
  weekly_loss_limit :: pyfloat
  drawdown :: pyfloat
  drawdown_limit :: pyfloat

definition evaluate_circuit_breakers :: "breaker_inputs \<Rightarrow> check_result" where
  "evaluate_circuit_breakers b =
     (let rejections =
        flag (flt (daily_loss_limit b) (daily_loss b)) ''daily_loss_breaker''
        @ flag (flt (weekly_loss_limit b) (weekly_loss b)) ''weekly_loss_breaker''
        @ flag (flt (drawdown_limit b) (drawdown b)) ''drawdown_breaker''
      in \<lparr>cr_passed = (rejections = []), cr_rejections = rejections\<rparr>)"

definition breaker_checks :: "(string \<times> (breaker_inputs \<Rightarrow> bool)) list" where
  "breaker_checks =
     [(''daily_loss_breaker'', \<lambda>b. \<not> flt (daily_loss_limit b) (daily_loss b)),
      (''weekly_loss_breaker'', \<lambda>b. \<not> flt (weekly_loss_limit b) (weekly_loss b)),
      (''drawdown_breaker'', \<lambda>b. \<not> flt (drawdown_limit b) (drawdown b))]"

interpretation breakers: check_gate breaker_checks
  "\<lambda>b. cr_rejections (evaluate_circuit_breakers b)" "\<lambda>b. cr_passed (evaluate_circuit_breakers b)"
  by unfold_locales
    (auto simp: breaker_checks_def evaluate_circuit_breakers_def Let_def flag_def)

section \<open>Pre-trade checks\<close>

record pretrade_context =
  artifact_approved :: bool
  artifact_expired :: bool
  symbol_allowed :: bool
  paper_mode_allowed :: bool
  market_fresh :: bool
  book_gap_clean :: bool
  reconciliation_clean :: bool
  duplicate_client_order_id :: bool
  rate_limit_ok :: bool
  margin_ok :: bool
  venue_rules_ok :: bool
  spread_depth_ok :: bool
  funding_ok :: bool
  liquidation_ok :: bool
  portfolio_risk_ok :: bool

definition pretrade_checks :: "(string \<times> (pretrade_context \<Rightarrow> bool)) list" where
  "pretrade_checks =
     [(''artifact_not_approved'', artifact_approved),
      (''artifact_expired'', \<lambda>c. \<not> artifact_expired c),
      (''symbol_not_allowed'', symbol_allowed),
      (''paper_mode_not_allowed'', paper_mode_allowed),
      (''market_data_stale'', market_fresh),
      (''book_gap_detected'', book_gap_clean),
      (''reconciliation_dirty'', reconciliation_clean),
      (''duplicate_client_order_id'', \<lambda>c. \<not> duplicate_client_order_id c),
      (''rate_limit_block'', rate_limit_ok),
      (''margin_leverage_block'', margin_ok),
      (''venue_rule_block'', venue_rules_ok),
      (''spread_depth_block'', spread_depth_ok),
      (''funding_block'', funding_ok),
      (''liquidation_block'', liquidation_ok),
      (''portfolio_risk_block'', portfolio_risk_ok)]"

definition run_pretrade_checks :: "pretrade_context \<Rightarrow> check_result" where
  "run_pretrade_checks c =
     (let rejections = failed_checks pretrade_checks c
      in \<lparr>cr_passed = (rejections = []), cr_rejections = rejections\<rparr>)"

interpretation pretrade: check_gate pretrade_checks
  "\<lambda>c. cr_rejections (run_pretrade_checks c)" "\<lambda>c. cr_passed (run_pretrade_checks c)"
  by unfold_locales (simp_all add: run_pretrade_checks_def Let_def, simp add: pretrade_checks_def)

section \<open>The executor risk manager\<close>

record risk_decision =
  rd_decision :: string
  rd_approved :: bool
  rd_reasons :: "string list"

definition risk_evaluate :: "string \<Rightarrow> risk_state \<Rightarrow> string list option \<Rightarrow> risk_decision" where
  "risk_evaluate action state pretrade_rejections =
     (let reasons = (case pretrade_rejections of None \<Rightarrow> [] | Some rs \<Rightarrow> rs);
          refuse = (\<lambda>d r. \<lparr>rd_decision = d, rd_approved = False, rd_reasons = r\<rparr>)
      in if state = RS_HALT then refuse ''halt'' (''risk_state_halt'' # reasons)
         else if state = RS_LOCKDOWN \<and> action \<notin> allowed_actions_for_state state
         then refuse ''lockdown'' (''risk_state_lockdown'' # reasons)
         else if state = RS_REDUCE_ONLY \<and> action \<notin> allowed_actions_for_state state
         then refuse ''reduce_only'' (''risk_state_reduce_only'' # reasons)
         else if state = RS_DEFENSIVE \<and> action \<notin> allowed_actions_for_state state
         then refuse ''rejected'' (''risk_state_defensive_no_new_exposure'' # reasons)
         else if reasons \<noteq> [] then refuse ''rejected'' reasons
         else \<lparr>rd_decision = ''approved'', rd_approved = True, rd_reasons = []\<rparr>)"

lemma risk_approved_iff:
  "rd_approved (risk_evaluate action state rej) \<longleftrightarrow>
     state \<noteq> RS_HALT \<and> (rej = None \<or> rej = Some [])
     \<and> (state \<in> {RS_LOCKDOWN, RS_REDUCE_ONLY, RS_DEFENSIVE} \<longrightarrow>
          action \<in> allowed_actions_for_state state)"
  by (auto simp: risk_evaluate_def Let_def split: option.splits)

lemma refusal_reasons:
  "\<not> rd_approved (risk_evaluate action state rej) \<Longrightarrow> rd_reasons (risk_evaluate action state rej) \<noteq> []"
  unfolding risk_evaluate_def Let_def by (simp split: if_split if_split_asm option.splits)

lemma refusal_keeps_reasons:
  "set rs \<subseteq> set (rd_reasons (risk_evaluate action state (Some rs)))"
  unfolding risk_evaluate_def Let_def by (simp split: if_split) blast

section \<open>Tactics\<close>

datatype execution_tactic =
    PASSIVE_LIMIT | POST_ONLY_GTX | AGGRESSIVE_LIMIT | IOC | SPLIT_PASSIVE | SPLIT_AGGRESSIVE
  | DELAY | SKIP | TACTIC_REDUCE_ONLY | TACTIC_CLOSE

fun tactic_value :: "execution_tactic \<Rightarrow> string" where
  "tactic_value PASSIVE_LIMIT = ''PASSIVE_LIMIT''"
| "tactic_value POST_ONLY_GTX = ''POST_ONLY_GTX''"
| "tactic_value AGGRESSIVE_LIMIT = ''AGGRESSIVE_LIMIT''"
| "tactic_value IOC = ''IOC''"
| "tactic_value SPLIT_PASSIVE = ''SPLIT_PASSIVE''"
| "tactic_value SPLIT_AGGRESSIVE = ''SPLIT_AGGRESSIVE''"
| "tactic_value DELAY = ''DELAY''"
| "tactic_value SKIP = ''SKIP''"
| "tactic_value TACTIC_REDUCE_ONLY = ''REDUCE_ONLY''"
| "tactic_value TACTIC_CLOSE = ''CLOSE''"

record tactic_input =
  ti_side :: string
  ti_action :: string
  ti_spread_bps :: pyfloat
  ti_depth_notional :: pyfloat
  ti_volatility_bps :: pyfloat
  ti_order_flow_imbalance :: pyfloat
  ti_funding_seconds :: int
  ti_mark_index_divergence_bps :: pyfloat
  ti_target_drift_bps :: pyfloat
  ti_risk_state :: risk_state
  ti_fill_probability :: pyfloat
  ti_adverse_selection_bps :: pyfloat
  ti_open_order_count :: int

record tactic_decision =
  td_tactic :: execution_tactic
  td_side :: string
  td_reasons :: "string list"
  td_creates_alpha :: bool

definition choose_tactic :: "tactic_input \<Rightarrow> tactic_decision" where
  "choose_tactic i =
     (let decide = (\<lambda>t rs. \<lparr>td_tactic = t, td_side = ti_side i, td_reasons = rs,
                            td_creates_alpha = False\<rparr>)
      in if ti_risk_state i = RS_HALT then decide SKIP [''risk_state_halt'']
         else if ti_risk_state i \<in> {RS_REDUCE_ONLY, RS_LOCKDOWN}
         then decide (if ti_action i = ''close'' then TACTIC_CLOSE else TACTIC_REDUCE_ONLY)
                [''risk_state:'' @ risk_state_value (ti_risk_state i)]
         else if fle (ti_spread_bps i) (Fin 2) \<and> fle (fl (7 / 10)) (ti_fill_probability i)
                 \<and> fle (ti_adverse_selection_bps i) (Fin 2)
         then decide POST_ONLY_GTX [''cheap_passive_path'']
         else if flt (Fin 100) (ti_target_drift_bps i) \<or> flt (ti_fill_probability i) (fl (3 / 10))
         then decide IOC [''urgent_or_low_fill_probability'']
         else if 3 < ti_open_order_count i then decide DELAY [''open_order_pressure'']
         else decide AGGRESSIVE_LIMIT [''default_executor_tactic''])"

text \<open>The journal keeps every logged decision, oldest first.\<close>

datatype journal_entry =
    JournalRisk string string "string list"
  | JournalTactic string string "string list"

definition log_risk_decision ::
    "string \<Rightarrow> string \<Rightarrow> string list \<Rightarrow> journal_entry list \<Rightarrow> journal_entry list" where
  "log_risk_decision order_id decision reasons journal =
     journal @ [JournalRisk order_id decision reasons]"

definition log_tactic_decision ::
    "string \<Rightarrow> execution_tactic \<Rightarrow> string list \<Rightarrow> journal_entry list \<Rightarrow> journal_entry list" where
  "log_tactic_decision order_id t reasons journal =
     journal @ [JournalTactic order_id (tactic_value t) reasons]"

section \<open>Margin mode, leverage and liquidation distance\<close>

record margin_manager =
  expected_margin_mode :: string
  expected_leverage :: int

definition margin_check :: "margin_manager \<Rightarrow> string \<Rightarrow> int \<Rightarrow> check_result" where
  "margin_check m observed_margin_mode observed_leverage =
     (let rejections =
        flag (observed_margin_mode \<noteq> expected_margin_mode m) ''margin_mode_mismatch''
        @ flag (observed_leverage \<noteq> expected_leverage m) ''leverage_mismatch''
      in \<lparr>cr_passed = (rejections = []), cr_rejections = rejections\<rparr>)"

record liquidation_guard_config =
  min_distance_bps :: pyfloat
  stress_move_bps :: pyfloat

record liquidation_guard_result =
  lg_passed :: bool
  lg_rejections :: "string list"
  lg_distance_bps :: pyfloat
  lg_stress_distance_bps :: pyfloat

definition liquidation_distance :: "pyfloat \<Rightarrow> pyfloat \<Rightarrow> pyfloat result" where
  "liquidation_distance mark_price liquidation_price =
     rbind (fdiv (fabs (fsub mark_price liquidation_price)) (fmax (fabs mark_price) f_1em9))
       (\<lambda>ratio. Inr (fmul ratio (Fin 10000)))"

definition liquidation_evaluate ::
    "liquidation_guard_config \<Rightarrow> string \<Rightarrow> pyfloat \<Rightarrow> pyfloat \<Rightarrow> pyfloat
     \<Rightarrow> liquidation_guard_result result" where
  "liquidation_evaluate cfg side entry_price mark_price liquidation_price =
     rbind (liquidation_distance mark_price liquidation_price) (\<lambda>distance.
       let stress_distance = fsub distance (stress_move_bps cfg);
           rejections =
             flag (flt distance (min_distance_bps cfg)) ''liquidation_distance_breach''
             @ flag (flt stress_distance (min_distance_bps cfg)) ''stress_liquidation_distance_breach''
       in Inr \<lparr>lg_passed = (rejections = []), lg_rejections = rejections,
               lg_distance_bps = round_nd 12 distance,
               lg_stress_distance_bps = round_nd 12 stress_distance\<rparr>)"

lemma liquidation_distance_total: "\<exists>d. liquidation_distance mark liq = Inr d \<and> is_f64 d"
  by (simp add: liquidation_distance_def fdiv_def fmax_floor_nonzero)

section \<open>Properties\<close>

text \<open>C7. The risk manager approves an action on the rejections of the pre-trade checks exactly when every
  one of the fifteen checks held and the risk state does not stand in the way: never in HALT; only
  cancel, reconcile and close in LOCKDOWN; only reduce and close in REDUCE_ONLY and DEFENSIVE; and in
  NORMAL and CAUTION any action whatever, also one that is not in the state's list.  So new exposure
  (open, increase) is approved in NORMAL and CAUTION alone.  A refusal names at least one reason, and
  among them every pre-trade check that failed.\<close>

theorem approved_action_fully_checked:
  "(rd_approved (risk_evaluate action state (Some (cr_rejections (run_pretrade_checks c)))) \<longleftrightarrow>
      artifact_approved c \<and> \<not> artifact_expired c \<and> symbol_allowed c \<and> paper_mode_allowed c
     \<and> market_fresh c \<and> book_gap_clean c \<and> reconciliation_clean c
     \<and> \<not> duplicate_client_order_id c \<and> rate_limit_ok c \<and> margin_ok c \<and> venue_rules_ok c
     \<and> spread_depth_ok c \<and> funding_ok c \<and> liquidation_ok c \<and> portfolio_risk_ok c
     \<and> state \<noteq> RS_HALT
     \<and> (state = RS_LOCKDOWN \<longrightarrow> action \<in> {''cancel'', ''reconcile'', ''close''})
     \<and> (state \<in> {RS_REDUCE_ONLY, RS_DEFENSIVE} \<longrightarrow> action \<in> {''reduce'', ''close''}))
   \<and> (\<not> rd_approved (risk_evaluate action state (Some (cr_rejections (run_pretrade_checks c)))) \<longrightarrow>
        rd_reasons (risk_evaluate action state (Some (cr_rejections (run_pretrade_checks c)))) \<noteq> []
        \<and> set (cr_rejections (run_pretrade_checks c))
            \<subseteq> set (rd_reasons (risk_evaluate action state (Some (cr_rejections (run_pretrade_checks c))))))"
proof -
  have "cr_rejections (run_pretrade_checks c) = [] \<longleftrightarrow> (\<forall>ch \<in> set pretrade_checks. snd ch c)"
    using pretrade.passed_iff_all pretrade.passed_eq by blast
  then have checks: "cr_rejections (run_pretrade_checks c) = [] \<longleftrightarrow>
      artifact_approved c \<and> \<not> artifact_expired c \<and> symbol_allowed c \<and> paper_mode_allowed c
     \<and> market_fresh c \<and> book_gap_clean c \<and> reconciliation_clean c
     \<and> \<not> duplicate_client_order_id c \<and> rate_limit_ok c \<and> margin_ok c \<and> venue_rules_ok c
     \<and> spread_depth_ok c \<and> funding_ok c \<and> liquidation_ok c \<and> portfolio_risk_ok c"
    by (simp add: pretrade_checks_def)
  have states: "state \<in> {RS_LOCKDOWN, RS_REDUCE_ONLY, RS_DEFENSIVE} \<longrightarrow> action \<in> allowed_actions_for_state state
     \<longleftrightarrow> (state = RS_LOCKDOWN \<longrightarrow> action \<in> {''cancel'', ''reconcile'', ''close''})
       \<and> (state \<in> {RS_REDUCE_ONLY, RS_DEFENSIVE} \<longrightarrow> action \<in> {''reduce'', ''close''})"
    by (cases state) (simp_all add: allowed_actions_for_state_def)
  have "set (cr_rejections (run_pretrade_checks c))
      \<subseteq> set (rd_reasons (risk_evaluate action state (Some (cr_rejections (run_pretrade_checks c)))))"
    "\<not> rd_approved (risk_evaluate action state (Some (cr_rejections (run_pretrade_checks c)))) \<Longrightarrow>
      rd_reasons (risk_evaluate action state (Some (cr_rejections (run_pretrade_checks c)))) \<noteq> []"
    by (simp_all add: refusal_reasons refusal_keeps_reasons)
  then show ?thesis unfolding risk_approved_iff option.simps simp_thms using checks states by blast
qed

definition clean_context :: pretrade_context where
  "clean_context = \<lparr>artifact_approved = True, artifact_expired = False, symbol_allowed = True,
     paper_mode_allowed = True, market_fresh = True, book_gap_clean = True,
     reconciliation_clean = True, duplicate_client_order_id = False, rate_limit_ok = True,
     margin_ok = True, venue_rules_ok = True, spread_depth_ok = True, funding_ok = True,
     liquidation_ok = True, portfolio_risk_ok = True\<rparr>"

theorem approved_action_fully_checked_witness:
  "rd_approved (risk_evaluate ''open'' RS_CAUTION (Some (cr_rejections (run_pretrade_checks clean_context))))
   \<and> \<not> rd_approved (risk_evaluate ''reduce'' RS_LOCKDOWN (Some (cr_rejections (run_pretrade_checks clean_context))))
   \<and> rd_reasons (risk_evaluate ''reduce'' RS_LOCKDOWN (Some (cr_rejections (run_pretrade_checks clean_context)))) \<noteq> []"
  using approved_action_fully_checked [of "''open''" RS_CAUTION clean_context]
    approved_action_fully_checked [of "''reduce''" RS_LOCKDOWN clean_context]
  by (simp add: clean_context_def)

text \<open>Circuit breakers trip exactly on an exceeded limit: the breakers pass if and only if
  each of the daily loss, the weekly loss and the drawdown is at most its limit or one of the
  two is not a number; a NaN loss or limit therefore never trips a breaker.\<close>

lemma breakers_trip_exactly:
  "cr_passed (evaluate_circuit_breakers b) \<longleftrightarrow>
     (daily_loss b = NaN \<or> daily_loss_limit b = NaN \<or> fle (daily_loss b) (daily_loss_limit b))
   \<and> (weekly_loss b = NaN \<or> weekly_loss_limit b = NaN \<or> fle (weekly_loss b) (weekly_loss_limit b))
   \<and> (drawdown b = NaN \<or> drawdown_limit b = NaN \<or> fle (drawdown b) (drawdown_limit b))"
proof -
  have c: "\<not> flt l x \<longleftrightarrow> x = NaN \<or> l = NaN \<or> fle x l" for x l
    using fle_not_flt [of x l] not_flt_fle [of l x] by auto
  show ?thesis
    unfolding breakers.passed_iff_all breaker_checks_def by (simp add: c)
qed

text \<open>The liquidation guard always answers, and its stressed check subsumes the plain one:
  for any prices, zero included, the guard returns a result and never divides by zero; and
  with a non-negative finite stress move, whenever the plain liquidation distance is reported
  as breached, the stressed distance is reported as breached too.\<close>

lemma liquidation_guard_total_and_nested:
  assumes "fle (Fin 0) (stress_move_bps cfg)" and "is_finite (stress_move_bps cfg)"
  shows "\<exists>r. liquidation_evaluate cfg side entry mark liq = Inr r
     \<and> lg_passed r = (lg_rejections r = [])
     \<and> (''liquidation_distance_breach'' \<in> set (lg_rejections r) \<longrightarrow>
        ''stress_liquidation_distance_breach'' \<in> set (lg_rejections r))"
proof -
  obtain d where d: "liquidation_distance mark liq = Inr d" "is_f64 d"
    using liquidation_distance_total by blast
  have "flt (fsub d (stress_move_bps cfg)) (min_distance_bps cfg)"
    if l: "flt d (min_distance_bps cfg)"
  proof -
    have nn: "fsub d (stress_move_bps cfg) \<noteq> NaN"
      using assms l by (cases d; cases "stress_move_bps cfg") (auto simp: fsub_def)
    from fsub_le [OF d(2) assms(1) nn] l show ?thesis by (rule fle_flt_trans)
  qed
  then show ?thesis by (simp add: liquidation_evaluate_def d(1) Let_def)
qed

lemma liquidation_guard_total_and_nested_witness:
  "\<exists>r. liquidation_evaluate \<lparr>min_distance_bps = Fin 500, stress_move_bps = Fin 100\<rparr> ''BUY''
        (Fin 100) (Fin 0) (Fin 0) = Inr r
     \<and> ''stress_liquidation_distance_breach'' \<in> set (lg_rejections r)"
proof -
  let ?cfg = "\<lparr>min_distance_bps = Fin 500, stress_move_bps = Fin 100\<rparr>"
  obtain q where q: "f_1em9 = Fin q" "1 / 2 ^ 30 \<le> q" using f_1em9_Fin by blast
  then have q0: "0 < q" by (intro less_le_trans [OF _ q(2)]) simp
  have d: "liquidation_distance (Fin 0) (Fin 0) = Inr (Fin 0)"
    unfolding liquidation_distance_def fmax_def q(1)
    using q0 by (simp add: fsub_def fdiv_def)
  have "\<exists>r. liquidation_evaluate ?cfg ''BUY'' (Fin 100) (Fin 0) (Fin 0) = Inr r
     \<and> lg_passed r = (lg_rejections r = [])
     \<and> (''liquidation_distance_breach'' \<in> set (lg_rejections r) \<longrightarrow>
        ''stress_liquidation_distance_breach'' \<in> set (lg_rejections r))"
    by (rule liquidation_guard_total_and_nested) simp_all
  then show ?thesis by (auto simp: liquidation_evaluate_def d Let_def)
qed

text \<open>The liquidation guard is blind to a missing mark price: with a NaN mark price it
  passes without a rejection, whatever the configuration and the other prices.\<close>

lemma liquidation_guard_nan_mark_passes:
  "\<exists>r. liquidation_evaluate cfg side entry NaN liq = Inr r \<and> lg_passed r
     \<and> lg_rejections r = [] \<and> lg_distance_bps r = NaN"
proof -
  have f: "fmax NaN f_1em9 = NaN" by (simp add: fmax_def)
  have "liquidation_distance NaN liq = Inr NaN"
    by (cases liq) (simp_all add: liquidation_distance_def fdiv_def f fsub_def)
  then show ?thesis
    by (cases "stress_move_bps cfg") (simp_all add: liquidation_evaluate_def fsub_def)
qed

text \<open>Tactics respect the risk state: the chooser skips exactly in HALT, uses only the closing
  and reducing tactics in REDUCE_ONLY and LOCKDOWN, uses those nowhere else, keeps the side of
  the request and never claims to create alpha.\<close>

lemma tactic_respects_risk_state:
  "(td_tactic (choose_tactic i) = SKIP \<longleftrightarrow> ti_risk_state i = RS_HALT)
   \<and> (td_tactic (choose_tactic i) \<in> {TACTIC_CLOSE, TACTIC_REDUCE_ONLY} \<longleftrightarrow>
       ti_risk_state i \<in> {RS_REDUCE_ONLY, RS_LOCKDOWN})
   \<and> (td_tactic (choose_tactic i) = TACTIC_CLOSE \<longleftrightarrow>
       ti_risk_state i \<in> {RS_REDUCE_ONLY, RS_LOCKDOWN} \<and> ti_action i = ''close'')
   \<and> td_side (choose_tactic i) = ti_side i \<and> \<not> td_creates_alpha (choose_tactic i)"
  by (auto simp: choose_tactic_def Let_def)

end
