(* ===== verification/ExchangeRules.thy ===== *)
theory ExchangeRules
  imports PyText
begin

text \<open>
  The exchange rules cache (\<open>data/exchange_rules_cache.py\<close>): the raw \<open>exchangeInfo\<close> rows, dynamic
  values as JSON gives them, are parsed into per-symbol rules and hashed as one snapshot.
\<close>

record exchange_symbol_rules =
  xr_symbol :: string
  xr_tick_size :: "pyfloat option"
  xr_step_size :: "pyfloat option"
  xr_min_notional :: "pyfloat option"
  xr_order_types :: "string list"
  xr_leverage_brackets :: "(string \<times> pyval) list list"
  xr_margin_asset :: "string option"
  xr_status :: "string option"
  xr_contract_type :: "string option"
  xr_quote_asset :: "string option"

record exchange_rules_cache =
  xc_source :: string
  xc_created_at_utc :: string
  xc_symbols :: "(string, exchange_symbol_rules) dict"
  xc_snapshot_hash :: string

text \<open>The values a \<open>for\<close> loop over a dynamic value visits.\<close>

fun py_iter :: "pyval \<Rightarrow> pyval list result" where
  "py_iter (PList xs) = Inr xs"
| "py_iter (PStr s) = Inr (map (\<lambda>c. PStr [c]) s)"
| "py_iter (PDict d) = Inr (map (PStr \<circ> fst) d)"
| "py_iter _ = Inl (TypeError ''object is not iterable'')"

definition pget_list :: "(string \<times> pyval) list \<Rightarrow> string \<Rightarrow> pyval" where
  "pget_list d k = (case map_of d k of None \<Rightarrow> PList [] | Some v \<Rightarrow> v)"

fun opt_float :: "pyfloat option \<Rightarrow> pyval" where
  "opt_float None = PNone"
| "opt_float (Some x) = PFloat x"

fun opt_str :: "string option \<Rightarrow> pyval" where
  "opt_str None = PNone"
| "opt_str (Some s) = PStr s"

definition symbol_rules_dict :: "exchange_symbol_rules \<Rightarrow> pyval" where
  "symbol_rules_dict r = PDict
     [(''symbol'', PStr (xr_symbol r)),
      (''tick_size'', opt_float (xr_tick_size r)),
      (''step_size'', opt_float (xr_step_size r)),
      (''min_notional'', opt_float (xr_min_notional r)),
      (''order_types'', PList (map PStr (xr_order_types r))),
      (''leverage_brackets'', PList (map PDict (xr_leverage_brackets r))),
      (''margin_asset'', opt_str (xr_margin_asset r)),
      (''status'', opt_str (xr_status r)),
      (''contract_type'', opt_str (xr_contract_type r)),
      (''quote_asset'', opt_str (xr_quote_asset r))]"

fun the_dict :: "pyval \<Rightarrow> (string \<times> pyval) list option" where
  "the_dict (PDict d) = Some d"
| "the_dict _ = None"

definition filter_rows :: "pyval list \<Rightarrow> (string \<times> (string \<times> pyval) list) list" where
  "filter_rows items =
     map (\<lambda>d. (py_str (pget d ''filterType''), d))
       (filter (\<lambda>d. truthy (pget d ''filterType'')) (List.map_filter the_dict items))"

fun filter_map :: "pyval \<Rightarrow> (string, (string \<times> pyval) list) dict" where
  "filter_map (PDict d) = List.map_filter (\<lambda>(k, v). map_option (Pair k) (the_dict v)) d"
| "filter_map (PList items) = dict_of (filter_rows items)"
| "filter_map _ = []"

definition float_filter ::
    "(string, (string \<times> pyval) list) dict \<Rightarrow> string \<Rightarrow> string \<Rightarrow> pyfloat option result" where
  "float_filter filters filter_name key = float_or_none (pget (dget filters filter_name []) key)"

fun str_or_none :: "pyval \<Rightarrow> string option" where
  "str_or_none PNone = None"
| "str_or_none v = Some (py_str v)"

fun the_str :: "pyval \<Rightarrow> string option" where
  "the_str (PStr s) = Some s"
| "the_str _ = None"

text \<open>\<open>a or b\<close> on the two spellings of the minimal notional; \<open>b\<close> is read only when needed.\<close>

definition min_notional_of :: "(string, (string \<times> pyval) list) dict \<Rightarrow> pyfloat option result" where
  "min_notional_of filters =
     rbind (float_filter filters ''MIN_NOTIONAL'' ''notional'') (\<lambda>a.
       if a = None \<or> a = Some (Fin 0)
       then float_filter filters ''MIN_NOTIONAL'' ''minNotional'' else Inr a)"

definition parse_symbol_rules :: "(string \<times> pyval) list \<Rightarrow> exchange_symbol_rules result" where
  "parse_symbol_rules raw =
     (let filters = filter_map (pget raw ''filters'') in
      rbind (float_filter filters ''PRICE_FILTER'' ''tickSize'') (\<lambda>tick.
      rbind (float_filter filters ''LOT_SIZE'' ''stepSize'') (\<lambda>step.
      rbind (min_notional_of filters) (\<lambda>notional.
      rbind (py_iter (pget_list raw ''orderTypes'')) (\<lambda>types.
      rbind (py_iter (pget_list raw ''leverageBrackets'')) (\<lambda>brackets. Inr
        \<lparr>xr_symbol = (case map_of raw ''symbol'' of None \<Rightarrow> [] | Some v \<Rightarrow> py_str v),
         xr_tick_size = tick, xr_step_size = step, xr_min_notional = notional,
         xr_order_types = List.map_filter the_str types,
         xr_leverage_brackets = List.map_filter the_dict brackets,
         xr_margin_asset = str_or_none (pget raw ''marginAsset''),
         xr_status = str_or_none (pget raw ''status''),
         xr_contract_type = str_or_none (pget raw ''contractType''),
         xr_quote_asset = str_or_none (pget raw ''quoteAsset'')\<rparr>))))))"

definition named_rows :: "(string \<times> pyval) list list \<Rightarrow> (string \<times> pyval) list list" where
  "named_rows rows = filter (\<lambda>raw. truthy (pget raw ''symbol'')) rows"

definition cache_payload ::
    "string \<Rightarrow> string \<Rightarrow> (string, exchange_symbol_rules) dict \<Rightarrow> pyval" where
  "cache_payload source created_at_utc rules = PDict
     [(''source'', PStr source), (''created_at_utc'', PStr created_at_utc),
      (''symbols'', PDict (map (map_prod id symbol_rules_dict) (sort_key fst rules)))]"

definition from_exchange_info ::
    "stable_hash \<Rightarrow> (string \<times> pyval) list list \<Rightarrow> string \<Rightarrow> string \<Rightarrow> exchange_rules_cache result" where
  "from_exchange_info H rows source created_at_utc =
     rbind (rmap (\<lambda>raw. rbind (parse_symbol_rules raw)
                      (\<lambda>r. Inr (py_str (pget raw ''symbol''), r))) (named_rows rows)) (\<lambda>kvs.
       let rules = dict_of kvs
       in Inr \<lparr>xc_source = source, xc_created_at_utc = created_at_utc, xc_symbols = rules,
               xc_snapshot_hash = H (cache_payload source created_at_utc rules)\<rparr>)"

definition rules_get :: "exchange_rules_cache \<Rightarrow> string \<Rightarrow> exchange_symbol_rules result" where
  "rules_get c symbol = (case map_of (xc_symbols c) symbol of
      None \<Rightarrow> Inl (KeyError (''missing_exchange_rules:'' @ symbol))
    | Some r \<Rightarrow> Inr r)"

definition rules_cache_dict :: "exchange_rules_cache \<Rightarrow> pyval" where
  "rules_cache_dict c = PDict
     [(''source'', PStr (xc_source c)), (''created_at_utc'', PStr (xc_created_at_utc c)),
      (''snapshot_hash'', PStr (xc_snapshot_hash c)),
      (''symbols'', PDict (map (map_prod id symbol_rules_dict) (sort_key fst (xc_symbols c))))]"

section \<open>What a parsed cache holds\<close>

lemma min_notional_of_pos:
  assumes "float_filter f ''MIN_NOTIONAL'' ''notional'' = Inr (Some (Fin q))" "q \<noteq> 0"
  shows "min_notional_of f = Inr (Some (Fin q))"
  using assms by (simp add: min_notional_of_def)

lemma parse_symbol_rules_symbol:
  "parse_symbol_rules raw = Inr r \<Longrightarrow> truthy (pget raw ''symbol'')
   \<Longrightarrow> xr_symbol r = py_str (pget raw ''symbol'')"
  by (auto simp: parse_symbol_rules_def Let_def rbind_Inr_iff pget_def split: option.splits)

lemma from_exchange_info_lookup:
  assumes "from_exchange_info H rows source created = Inr c" "rules_get c s = Inr r"
  shows "\<exists>raw \<in> set rows. truthy (pget raw ''symbol'') \<and> py_str (pget raw ''symbol'') = s
           \<and> parse_symbol_rules raw = Inr r \<and> xr_symbol r = s"
proof -
  obtain kvs where k: "rmap (\<lambda>raw. rbind (parse_symbol_rules raw)
        (\<lambda>r. Inr (py_str (pget raw ''symbol''), r))) (named_rows rows) = Inr kvs"
    and c: "xc_symbols c = dict_of kvs"
    using assms(1) by (auto simp: from_exchange_info_def Let_def rbind_Inr_iff)
  have "map_of (rev kvs) s = Some r"
    using assms(2) c by (simp add: rules_get_def map_of_dict_of split: option.splits)
  then have "(s, r) \<in> set kvs" by (auto dest: map_of_SomeD)
  then obtain i where i: "i < length kvs" "kvs ! i = (s, r)" by (auto simp: in_set_conv_nth)
  then have j: "i < length (named_rows rows)" using rmap_length [OF k] by simp
  let ?raw = "named_rows rows ! i"
  have "?raw \<in> set (named_rows rows)" using j by simp
  then have "?raw \<in> set rows" "truthy (pget ?raw ''symbol'')" by (simp_all add: named_rows_def)
  moreover have "parse_symbol_rules ?raw = Inr r" "py_str (pget ?raw ''symbol'') = s"
    using rmap_nth [OF k j] i(2) by (auto simp: rbind_Inr_iff)
  ultimately show ?thesis using parse_symbol_rules_symbol by metis
qed

lemma from_exchange_info_ok:
  "from_exchange_info H rows source created = Inr c \<Longrightarrow> dict_ok (xc_symbols c)"
  by (auto simp: from_exchange_info_def Let_def rbind_Inr_iff)

end
