(* ===== verification/PyDecimal.thy ===== *)
theory PyDecimal
  imports PyText
begin

text \<open>
  Decimal arithmetic in the default context (28 significant digits, ties to even):
  \<open>dec28\<close> rounds a non-negative rational to a context result.  The lemmas show that values
  with at most 28 digits are exact, that rounding is monotone, and that the integer part of a
  rounded quotient of two short decimals is the true integer part.
\<close>

definition dec28 :: "rat \<Rightarrow> rat" where
  "dec28 x =
     (if x = 0 then 0
      else let u = pow10 (dec_exp \<bar>x\<bar> - 27) in of_int (half_even (x / u)) * u)"

lemma pow10_add: "pow10 (a + b) = pow10 a * pow10 b"
proof -
  have "pow10 e = 10 powi e" for e
    by (cases "0 \<le> e") (simp_all add: pow10_def power_int_def power_inverse inverse_eq_divide
        flip: power_one_over)
  then show ?thesis by (simp add: power_int_add)
qed

lemma pow10_nz [simp]: "pow10 e \<noteq> 0"
  using pow10_pos [of e] by linarith

lemma pow10_abs [simp]: "\<bar>pow10 e\<bar> = pow10 e"
  using pow10_pos [of e] by linarith

lemma pow10_zero [simp]: "pow10 0 = 1"
  by (simp add: pow10_def)

lemma pow10_nat: "0 \<le> e \<Longrightarrow> pow10 e = of_int (10 ^ nat e)"
  by (simp add: pow10_def)

lemma pow10_diff: "pow10 (a - b) * pow10 b = pow10 a"
  using pow10_add [of "a - b" b] by simp

lemma pow10_mono: "a \<le> b \<Longrightarrow> pow10 a \<le> pow10 b"
proof -
  assume "a \<le> b"
  then have "1 \<le> pow10 (b - a)" by (simp add: pow10_def)
  then have "1 * pow10 a \<le> pow10 (b - a) * pow10 a"
    by (intro mult_right_mono) (simp_all add: less_imp_le)
  then show ?thesis by (simp add: pow10_diff)
qed

lemma pow10_less_cancel: "pow10 a < pow10 b \<Longrightarrow> a < b"
  using pow10_mono [of b a] by (meson not_le)

lemma recip_bounds:
  "0 < x \<Longrightarrow> 0 < a \<Longrightarrow> 0 < (b :: rat) \<Longrightarrow> a < 1 / x \<Longrightarrow> 1 / x \<le> b \<Longrightarrow> 1 / b \<le> x \<and> x < 1 / a"
  using pos_divide_le_eq [of b 1 x] pos_less_divide_eq [of a x 1] pos_divide_le_eq [of x 1 b]
    pos_less_divide_eq [of x a 1]
  by (simp add: mult.commute)

lemma dec_exp_bounds:
  assumes "0 < x"
  shows "pow10 (dec_exp x) \<le> x" "x < pow10 (dec_exp x + 1)"
proof -
  have "pow10 (dec_exp x) \<le> x \<and> x < pow10 (dec_exp x + 1)"
  proof (cases "1 \<le> x")
    case True
    define n where "n = nat \<lfloor>x\<rfloor>"
    have n: "0 < n" "of_nat n \<le> x" "x < of_nat n + 1"
      using True by (simp_all add: n_def le_floor_iff) linarith+
    define L where "L = floorlog 10 n"
    have L: "10 ^ (L - 1) \<le> n" "n < 10 ^ L" "0 < L"
      using floorlog_bounds [of n 10] n(1) by (auto simp: L_def intro!: gr0I)
    have "of_nat (10 ^ (L - 1)) \<le> (of_nat n :: rat)" using L(1) by (simp only: of_nat_le_iff)
    from order_trans [OF this n(2)] have "10 ^ (L - 1) \<le> x" by (simp only: of_nat_power of_nat_numeral)
    moreover have "of_nat (n + 1) \<le> (of_nat (10 ^ L) :: rat)"
      using L(2) by (simp only: of_nat_le_iff)
    moreover have "dec_exp x = int L - 1" using True by (simp add: dec_exp_def L_def n_def)
    ultimately show ?thesis using n L(3) by (simp add: pow10_def nat_diff_distrib)
  next
    case False
    define c where "c = \<lceil>1 / x\<rceil>"
    have y: "1 < 1 / x" using False assms by simp
    have c: "1 / x \<le> of_int c" "of_int c - 1 < 1 / x" by (simp_all add: c_def) linarith
    with y have c2: "2 \<le> c" by linarith
    define m where "m = nat (c - 1)"
    define L where "L = floorlog 10 m"
    have m: "0 < m" "int m = c - 1" using c2 by (simp_all add: m_def)
    have L: "10 ^ (L - 1) \<le> m" "m < 10 ^ L" "0 < L"
      using floorlog_bounds [of m 10] m(1) by (auto simp: L_def intro!: gr0I)
    have "int (10 ^ (L - 1)) \<le> c - 1" using L(1) m(2) by (metis of_nat_le_iff)
    then have a: "of_int (int (10 ^ (L - 1))) \<le> (of_int (c - 1) :: rat)"
      by (simp only: of_int_le_iff)
    have "c \<le> int (10 ^ L)" using L(2) m(2) by linarith
    then have b: "(of_int c :: rat) \<le> of_int (int (10 ^ L))" by (simp only: of_int_le_iff)
    have "10 ^ (L - 1) < 1 / x" using a c(2) by simp
    moreover from order_trans [OF c(1) b] have "1 / x \<le> 10 ^ L"
      by simp
    moreover
    have e: "dec_exp x = - int L" using False by (simp add: dec_exp_def L_def m_def c_def)
    moreover have "pow10 (dec_exp x) = 1 / 10 ^ L" using e L(3) by (simp add: pow10_def)
    moreover have "pow10 (dec_exp x + 1) = 1 / 10 ^ (L - 1)"
    proof -
      have "dec_exp x + 1 = - int (L - 1)" using e L(3) by linarith
      then show ?thesis using L(3) by (simp add: pow10_def nat_diff_distrib)
    qed
    ultimately show ?thesis using recip_bounds [of x "10 ^ (L - 1)" "10 ^ L"] assms by simp
  qed
  then show "pow10 (dec_exp x) \<le> x" "x < pow10 (dec_exp x + 1)" by simp_all
qed

lemma dec_exp_mono: "0 < x \<Longrightarrow> x \<le> y \<Longrightarrow> dec_exp x \<le> dec_exp y"
proof -
  assume h: "0 < x" "x \<le> y"
  then have "pow10 (dec_exp x) < pow10 (dec_exp y + 1)"
    using dec_exp_bounds [of x] dec_exp_bounds [of y] by simp
  from pow10_less_cancel [OF this] show ?thesis by simp
qed

lemma dec28_zero [simp]: "dec28 0 = 0"
  by (simp add: dec28_def)

lemma dec28_pos: "0 < x \<Longrightarrow>
    dec28 x = of_int (half_even (x / pow10 (dec_exp x - 27))) * pow10 (dec_exp x - 27)"
  by (simp add: dec28_def Let_def)

lemma dec28_nonneg: "0 \<le> x \<Longrightarrow> 0 \<le> dec28 x"
proof (cases "x = 0")
  case False
  assume "0 \<le> x"
  with False have x: "0 < x" by simp
  have "0 \<le> half_even (x / pow10 (dec_exp x - 27))"
    by (intro half_even_nonneg divide_nonneg_nonneg [OF less_imp_le [OF x]])
      (simp add: less_imp_le)
  then show ?thesis
    unfolding dec28_pos [OF x] by (intro mult_nonneg_nonneg) (simp_all add: less_imp_le)
qed simp

lemma dec28_exact:
  assumes "0 \<le> m" "m < 10 ^ 28"
  shows "dec28 (of_int m * pow10 k) = of_int m * pow10 k"
proof (cases "m = 0")
  case False
  let ?x = "of_int m * pow10 k"
  have x: "0 < ?x" using assms False by simp
  have "of_int m < (of_int (10 ^ 28) :: rat)" using assms(2) by (simp only: of_int_less_iff)
  then have "?x < of_int (10 ^ 28) * pow10 k" by (intro mult_strict_right_mono) simp_all
  also have "\<dots> = pow10 (28 + k)" by (simp add: pow10_add pow10_nat)
  finally have "pow10 (dec_exp ?x) < pow10 (28 + k)"
    using dec_exp_bounds(1) [OF x] by simp
  from pow10_less_cancel [OF this] have e: "0 \<le> k - (dec_exp ?x - 27)" by simp
  have "pow10 k = pow10 (k - (dec_exp ?x - 27)) * pow10 (dec_exp ?x - 27)"
    by (simp add: pow10_diff)
  then have q: "?x / pow10 (dec_exp ?x - 27)
      = of_int (m * 10 ^ nat (k - (dec_exp ?x - 27)))"
    using pow10_nat [OF e] by (simp add: field_simps)
  have "of_int (m * 10 ^ nat (k - (dec_exp ?x - 27))) * pow10 (dec_exp ?x - 27) = ?x"
    by (subst q [symmetric]) simp
  then show ?thesis
    unfolding dec28_pos [OF x] q half_even_of_int .
qed simp

lemma dec28_of_int: "0 \<le> m \<Longrightarrow> m < 10 ^ 28 \<Longrightarrow> dec28 (of_int m) = of_int m"
  using dec28_exact [of m 0] by simp

lemma dec28_error:
  assumes "0 < x"
  shows "\<bar>dec28 x - x\<bar> \<le> x / (2 * 10 ^ 27)"
proof -
  let ?u = "pow10 (dec_exp x - 27)"
  have "\<bar>of_int (half_even (x / ?u)) - x / ?u\<bar> * ?u \<le> 1 / 2 * ?u"
    by (intro mult_right_mono half_even_error) (simp add: less_imp_le)
  also have "\<bar>of_int (half_even (x / ?u)) - x / ?u\<bar> * ?u
      = \<bar>(of_int (half_even (x / ?u)) - x / ?u) * ?u\<bar>"
    by (simp add: abs_mult)
  also have "(of_int (half_even (x / ?u)) - x / ?u) * ?u = dec28 x - x"
    using pow10_pos [of "dec_exp x - 27"] by (simp add: dec28_pos [OF assms] left_diff_distrib)
  finally have "\<bar>dec28 x - x\<bar> \<le> 1 / 2 * ?u" .
  moreover have "?u * 10 ^ 27 = pow10 (dec_exp x)"
    using pow10_add [of "dec_exp x - 27" 27] by (simp add: pow10_def)
  then have "?u * 10 ^ 27 \<le> x" using dec_exp_bounds(1) [OF assms] by simp
  ultimately show ?thesis by (simp add: field_simps)
qed

lemma pow10_27: "pow10 e = of_int (10 ^ 27) * pow10 (e - 27)"
  using pow10_add [of 27 "e - 27"] by (simp add: pow10_nat)

lemma pow10_28: "pow10 (e + 1) = of_int (10 ^ 28) * pow10 (e - 27)"
proof -
  have "28 + (e - 27) = e + 1" by simp
  then show ?thesis using pow10_add [of 28 "e - 27"] by (simp only: pow10_nat) simp
qed

lemma pow10_quot_le: "x \<le> c * pow10 k \<longleftrightarrow> x / pow10 k \<le> c"
  using pow10_pos [of k] by (simp add: divide_le_eq)

lemma pow10_quot_ge: "c * pow10 k \<le> x \<longleftrightarrow> c \<le> x / pow10 k"
  using pow10_pos [of k] by (simp add: le_divide_eq)

lemma dec28_mono:
  assumes "0 < x" "x \<le> y"
  shows "dec28 x \<le> dec28 y"
proof (cases "dec_exp x = dec_exp y")
  case True
  have "half_even (x / pow10 (dec_exp y - 27)) \<le> half_even (y / pow10 (dec_exp y - 27))"
    using assms by (intro half_even_mono divide_right_mono) (simp_all add: less_imp_le)
  then show ?thesis
    using assms by (simp add: dec28_pos True mult_right_mono less_imp_le)
next
  case False
  with dec_exp_mono [OF assms] have lt: "dec_exp x + 1 \<le> dec_exp y" by simp
  have y: "0 < y" using assms by simp
  let ?u = "pow10 (dec_exp x - 27)" and ?v = "pow10 (dec_exp y - 27)"
  have "x / ?u \<le> of_int (10 ^ 28)"
    using less_imp_le [OF dec_exp_bounds(2) [OF assms(1)]]
    unfolding pow10_28 pow10_quot_le .
  then have "half_even (x / ?u) \<le> 10 ^ 28" by (rule half_even_le_of_int)
  then have "of_int (half_even (x / ?u)) \<le> (of_int (10 ^ 28) :: rat)"
    by (simp only: of_int_le_iff)
  then have "dec28 x \<le> of_int (10 ^ 28) * ?u"
    unfolding dec28_pos [OF assms(1)] by (intro mult_right_mono) (simp_all add: less_imp_le)
  also have "\<dots> = pow10 (dec_exp x + 1)" by (rule pow10_28 [symmetric])
  also have "\<dots> \<le> pow10 (dec_exp y)" using lt by (rule pow10_mono)
  also have "\<dots> = of_int (10 ^ 27) * ?v" by (rule pow10_27)
  also have "\<dots> \<le> dec28 y"
  proof -
    have "of_int (10 ^ 27) \<le> y / ?v"
      using dec_exp_bounds(1) [OF y] unfolding pow10_27 [of "dec_exp y"] pow10_quot_ge .
    then have "10 ^ 27 \<le> half_even (y / ?v)" by (rule half_even_ge_of_int)
    then have "of_int (10 ^ 27) \<le> (of_int (half_even (y / ?v)) :: rat)"
      by (simp only: of_int_le_iff)
    then show ?thesis
      unfolding dec28_pos [OF y] by (intro mult_right_mono) (simp_all add: less_imp_le)
  qed
  finally show ?thesis .
qed

text \<open>The integer part of a context quotient is the integer part of the exact quotient.\<close>

lemma dec28_quotient_floor:
  assumes "0 \<le> X" "X < 2 * 10 ^ 27" "0 < B"
  shows "\<lfloor>dec28 (of_int X / of_int B)\<rfloor> = X div B"
proof (cases "X = 0")
  case False
  let ?x = "of_int X / of_int B :: rat"
  have x: "0 < ?x" using assms False by simp
  have fl: "\<lfloor>?x\<rfloor> = X div B" by (simp add: floor_divide_of_int_eq)
  have "of_int (X div B) \<le> dec28 ?x"
  proof (cases "X div B = 0")
    case True
    have "0 \<le> dec28 ?x" by (rule dec28_nonneg [OF less_imp_le [OF x]])
    with True show ?thesis by simp
  next
    case F: False
    have q: "0 < X div B" using F assms by (simp add: pos_imp_zdiv_nonneg_iff order_less_le)
    have "X div B \<le> X" using assms using False by (cases "B = 1") (auto intro!: less_imp_le int_div_less_self)
    then have "dec28 (of_int (X div B)) = of_int (X div B)"
      using assms q by (intro dec28_of_int) simp_all
    moreover have "of_int (X div B) \<le> ?x" using of_int_floor_le [of ?x] by (simp only: fl)
    then have "dec28 (of_int (X div B)) \<le> dec28 ?x" using q by (intro dec28_mono) simp_all
    ultimately show ?thesis by simp
  qed
  moreover have "dec28 ?x < of_int (X div B) + 1"
  proof -
    have "X + 1 \<le> (X div B + 1) * B"
    proof -
      have "X = B * (X div B) + X mod B" by (rule mult_div_mod_eq [symmetric])
      moreover have "X mod B + 1 \<le> B" using pos_mod_bound [OF assms(3), of X] by linarith
      ultimately have "X + 1 \<le> B * (X div B) + B" by linarith
      then show ?thesis by (simp only: distrib_right mult_1_left mult.commute [of B])
    qed
    then have "of_int (X + 1) \<le> (of_int ((X div B + 1) * B) :: rat)"
      by (simp only: of_int_le_iff)
    then have "(of_int X + 1) / of_int B \<le> (of_int (X div B) + 1 :: rat)"
      using assms(3) by (simp add: divide_le_eq)
    moreover have "dec28 ?x \<le> ?x + ?x / (2 * 10 ^ 27)"
      using dec28_error [OF x] by (simp add: abs_le_iff)
    moreover have "?x / (2 * 10 ^ 27) < 1 / of_int B"
    proof -
      have "of_int X < (of_int (2 * 10 ^ 27) :: rat)" using assms(2) by (simp only: of_int_less_iff)
      then show ?thesis using assms(3) by (simp add: field_simps)
    qed
    ultimately show ?thesis by (simp add: add_divide_distrib)
  qed
  ultimately show ?thesis by (intro floor_unique) simp_all
qed simp

end
