(* ===== verification/OrderIntent.thy ===== *)
theory OrderIntent
  imports PyVal
begin

text \<open>
  Internal order intents (\<open>execution/order_intent.py\<close>) and their deterministic client ids
  (\<open>execution/idempotency.py\<close>): the frozen intent, the constructor that derives the intent
  id from the payload, the validation with every issue it reports, and the duplicate filter.
\<close>

definition valid_sides :: "string set" where
  "valid_sides = {''BUY'', ''SELL''}"

definition valid_intent_types :: "string set" where
  "valid_intent_types = {''open'', ''increase'', ''reduction'', ''close''}"

definition valid_urgency :: "string set" where
  "valid_urgency = {''low'', ''normal'', ''urgent''}"

record internal_order_intent =
  oi_intent_id :: string
  oi_artifact_id :: string
  oi_portfolio_plan_id :: string
  oi_symbol :: string
  oi_desired_position_delta :: pyfloat
  oi_side :: string
  oi_intent_type :: string
  oi_urgency :: string
  oi_reduce_only_required :: bool
  oi_max_slippage_bps :: pyfloat
  oi_max_spread_bps :: pyfloat
  oi_max_participation_rate :: pyfloat
  oi_funding_guard_policy :: string
  oi_liquidation_guard_policy :: string
  oi_created_at :: string
  oi_expires_at :: string

text \<open>The payload \<open>create\<close> hashes: every field but the id, under its name.\<close>

definition intent_payload :: "internal_order_intent \<Rightarrow> pyval" where
  "intent_payload i = PDict
     [(''artifact_id'', PStr (oi_artifact_id i)),
      (''portfolio_plan_id'', PStr (oi_portfolio_plan_id i)),
      (''symbol'', PStr (oi_symbol i)),
      (''desired_position_delta'', PFloat (oi_desired_position_delta i)),
      (''side'', PStr (oi_side i)),
      (''intent_type'', PStr (oi_intent_type i)),
      (''urgency'', PStr (oi_urgency i)),
      (''reduce_only_required'', PBool (oi_reduce_only_required i)),
      (''max_slippage_bps'', PFloat (oi_max_slippage_bps i)),
      (''max_spread_bps'', PFloat (oi_max_spread_bps i)),
      (''max_participation_rate'', PFloat (oi_max_participation_rate i)),
      (''funding_guard_policy'', PStr (oi_funding_guard_policy i)),
      (''liquidation_guard_policy'', PStr (oi_liquidation_guard_policy i)),
      (''created_at'', PStr (oi_created_at i)),
      (''expires_at'', PStr (oi_expires_at i))]"

text \<open>\<open>InternalOrderIntent.create\<close>, on the fields of an intent whose id is still unset.\<close>

definition intent_create :: "stable_hash \<Rightarrow> internal_order_intent \<Rightarrow> internal_order_intent" where
  "intent_create H i =
     (let j = i\<lparr>oi_side := str_upper (oi_side i)\<rparr>
      in j\<lparr>oi_intent_id := take 48 (H (intent_payload j))\<rparr>)"

record intent_validation =
  iv_passed :: bool
  iv_issues :: "string list"

definition missing_fields :: "internal_order_intent \<Rightarrow> string list" where
  "missing_fields i =
     map (\<lambda>f. ''missing_'' @ fst f)
       (filter (\<lambda>f. snd f = [])
         [(''intent_id'', oi_intent_id i), (''artifact_id'', oi_artifact_id i),
          (''portfolio_plan_id'', oi_portfolio_plan_id i), (''symbol'', oi_symbol i),
          (''created_at'', oi_created_at i), (''expires_at'', oi_expires_at i)])"

definition intent_issues :: "internal_order_intent \<Rightarrow> string list" where
  "intent_issues i =
     (let bounds = [oi_max_slippage_bps i, oi_max_spread_bps i, oi_max_participation_rate i]
      in missing_fields i
         @ flag (oi_side i \<notin> valid_sides) ''invalid_side''
         @ flag (oi_intent_type i \<notin> valid_intent_types) ''invalid_intent_type''
         @ flag (oi_urgency i \<notin> valid_urgency) ''invalid_urgency''
         @ flag (oi_reduce_only_required i \<and> oi_side i \<noteq> ''SELL'') ''reduce_only_side_mismatch''
         @ flag (\<not> is_finite (oi_desired_position_delta i)) ''non_finite_desired_position_delta''
         @ flag (feq (oi_desired_position_delta i) (Fin 0)) ''zero_desired_position_delta''
         @ (if \<not> list_all is_finite bounds then [''non_finite_risk_bound'']
            else flag (flt (fmin (fmin (oi_max_slippage_bps i) (oi_max_spread_bps i))
                                 (oi_max_participation_rate i)) (Fin 0))
                   ''negative_risk_bound'')
         @ flag (flt (Fin 1) (oi_max_participation_rate i)) ''participation_rate_gt_one''
         @ flag (oi_funding_guard_policy i = []) ''missing_funding_guard_policy''
         @ flag (oi_liquidation_guard_policy i = []) ''missing_liquidation_guard_policy'')"

definition validate_internal_order_intent :: "internal_order_intent \<Rightarrow> intent_validation" where
  "validate_internal_order_intent i =
     (let issues = intent_issues i in \<lparr>iv_passed = (issues = []), iv_issues = issues\<rparr>)"

text \<open>What a valid intent promises the executor.\<close>

definition bounded_rate :: "pyfloat \<Rightarrow> pyfloat \<Rightarrow> bool" where
  "bounded_rate hi x \<longleftrightarrow> fle (Fin 0) x \<and> fle x hi \<and> is_finite x"

definition intent_contract :: "internal_order_intent \<Rightarrow> bool" where
  "intent_contract i \<longleftrightarrow>
     oi_intent_id i \<noteq> [] \<and> oi_artifact_id i \<noteq> [] \<and> oi_portfolio_plan_id i \<noteq> []
     \<and> oi_symbol i \<noteq> [] \<and> oi_created_at i \<noteq> [] \<and> oi_expires_at i \<noteq> []
     \<and> oi_funding_guard_policy i \<noteq> [] \<and> oi_liquidation_guard_policy i \<noteq> []
     \<and> oi_side i \<in> valid_sides \<and> oi_intent_type i \<in> valid_intent_types
     \<and> oi_urgency i \<in> valid_urgency
     \<and> (oi_reduce_only_required i \<longrightarrow> oi_side i = ''SELL'')
     \<and> (\<exists>q. oi_desired_position_delta i = Fin q \<and> q \<noteq> 0)
     \<and> bounded_rate PInf (oi_max_slippage_bps i)
     \<and> bounded_rate PInf (oi_max_spread_bps i)
     \<and> bounded_rate (Fin 1) (oi_max_participation_rate i)"

lemma missing_fields_Nil_iff:
  "missing_fields i = [] \<longleftrightarrow>
     oi_intent_id i \<noteq> [] \<and> oi_artifact_id i \<noteq> [] \<and> oi_portfolio_plan_id i \<noteq> []
     \<and> oi_symbol i \<noteq> [] \<and> oi_created_at i \<noteq> [] \<and> oi_expires_at i \<noteq> []"
  by (auto simp: missing_fields_def)

lemma risk_bounds_ok_iff:
  "(if \<not> list_all is_finite [a, b, c] then [r]
    else flag (flt (fmin (fmin a b) c) (Fin 0)) s) = []
   \<and> \<not> flt (Fin 1) c
   \<longleftrightarrow> bounded_rate PInf a \<and> bounded_rate PInf b \<and> bounded_rate (Fin 1) c"
  by (cases a; cases b; cases c) (auto simp: bounded_rate_def fmin_def)

lemma intent_issues_Nil_iff: "intent_issues i = [] \<longleftrightarrow> intent_contract i"
proof -
  have d: "is_finite x \<and> \<not> feq x (Fin 0) \<longleftrightarrow> (\<exists>q. x = Fin q \<and> q \<noteq> 0)" for x
    by (cases x) auto
  show ?thesis
    unfolding intent_issues_def Let_def intent_contract_def append_is_Nil_conv
      missing_fields_Nil_iff flag_Nil_iff
    using d [of "oi_desired_position_delta i"]
      risk_bounds_ok_iff [of "oi_max_slippage_bps i" "oi_max_spread_bps i"
        "oi_max_participation_rate i" "''non_finite_risk_bound''" "''negative_risk_bound''"]
    by blast
qed

lemma validate_intent_passed [simp]:
  "iv_passed (validate_internal_order_intent i) \<longleftrightarrow> intent_contract i"
  by (simp add: validate_internal_order_intent_def Let_def intent_issues_Nil_iff)

section \<open>Client order ids and the duplicate filter\<close>

definition client_id_payload :: "internal_order_intent \<Rightarrow> string \<Rightarrow> pyval" where
  "client_id_payload i venue = PDict
     [(''venue'', PStr venue),
      (''intent_id'', PStr (oi_intent_id i)),
      (''artifact_id'', PStr (oi_artifact_id i)),
      (''portfolio_plan_id'', PStr (oi_portfolio_plan_id i)),
      (''symbol'', PStr (oi_symbol i)),
      (''side'', PStr (oi_side i)),
      (''delta'', PFloat (oi_desired_position_delta i))]"

definition deterministic_client_order_id ::
    "stable_hash \<Rightarrow> internal_order_intent \<Rightarrow> string \<Rightarrow> string" where
  "deterministic_client_order_id H i venue = ''cid-'' @ take 28 (H (client_id_payload i venue))"

definition idempotency_register ::
    "stable_hash \<Rightarrow> string set \<Rightarrow> internal_order_intent \<Rightarrow> string \<Rightarrow> bool \<times> string set" where
  "idempotency_register H ids i venue =
     (let client_id = deterministic_client_order_id H i venue
      in if client_id \<in> ids then (False, ids) else (True, insert client_id ids))"

lemma register_grows: "ids \<subseteq> snd (idempotency_register H ids i venue)"
  by (auto simp: idempotency_register_def Let_def)

lemma register_True_iff:
  "fst (idempotency_register H ids i venue) \<longleftrightarrow> deterministic_client_order_id H i venue \<notin> ids"
  by (simp add: idempotency_register_def Let_def)

lemma client_id_length: "hex_digest H \<Longrightarrow> length (deterministic_client_order_id H i v) = 32"
  by (simp add: deterministic_client_order_id_def hex_digest_def)

end
