(* ===== verification/OrderState.thy ===== *)
theory OrderState
  imports Contracts
begin

text \<open>
  The order lifecycle (\<open>execution/order_state.py\<close>): the state enumeration, the set of
  terminal states, the table of allowed transitions, the immutable order record with its
  event history and \<open>apply_transition\<close>.  The lemmas show that the table is acyclic with the
  terminal states stuck, that a record's history is a gap-free chain from \<open>CREATED\<close> to its
  current state, and which states every order must have passed through.
\<close>

datatype order_lifecycle_state =
    ORD_CREATED
  | ORD_RISK_APPROVED
  | ORD_TRANSLATED
  | ORD_SUBMITTED
  | ORD_ACKED
  | ORD_PARTIALLY_FILLED
  | ORD_FILLED
  | ORD_CANCEL_REQUESTED
  | ORD_CANCELED
  | ORD_EXPIRED
  | ORD_REJECTED
  | ORD_ORPHANED
  | ORD_RECONCILED

fun order_state_value :: "order_lifecycle_state \<Rightarrow> string" where
  "order_state_value ORD_CREATED = ''CREATED''"
| "order_state_value ORD_RISK_APPROVED = ''RISK_APPROVED''"
| "order_state_value ORD_TRANSLATED = ''TRANSLATED''"
| "order_state_value ORD_SUBMITTED = ''SUBMITTED''"
| "order_state_value ORD_ACKED = ''ACKED''"
| "order_state_value ORD_PARTIALLY_FILLED = ''PARTIALLY_FILLED''"
| "order_state_value ORD_FILLED = ''FILLED''"
| "order_state_value ORD_CANCEL_REQUESTED = ''CANCEL_REQUESTED''"
| "order_state_value ORD_CANCELED = ''CANCELED''"
| "order_state_value ORD_EXPIRED = ''EXPIRED''"
| "order_state_value ORD_REJECTED = ''REJECTED''"
| "order_state_value ORD_ORPHANED = ''ORPHANED''"
| "order_state_value ORD_RECONCILED = ''RECONCILED''"

definition order_terminal_states :: "order_lifecycle_state set" where
  "order_terminal_states =
     {ORD_FILLED, ORD_CANCELED, ORD_EXPIRED, ORD_REJECTED, ORD_RECONCILED}"

text \<open>A state without an entry in the table has the empty set (\<open>dict.get(state, set())\<close>).\<close>

fun order_allowed :: "order_lifecycle_state \<Rightarrow> order_lifecycle_state set" where
  "order_allowed ORD_CREATED = {ORD_RISK_APPROVED, ORD_REJECTED, ORD_EXPIRED}"
| "order_allowed ORD_RISK_APPROVED = {ORD_TRANSLATED, ORD_REJECTED}"
| "order_allowed ORD_TRANSLATED = {ORD_SUBMITTED, ORD_REJECTED}"
| "order_allowed ORD_SUBMITTED =
     {ORD_ACKED, ORD_REJECTED, ORD_ORPHANED, ORD_CANCEL_REQUESTED}"
| "order_allowed ORD_ACKED =
     {ORD_PARTIALLY_FILLED, ORD_FILLED, ORD_CANCEL_REQUESTED, ORD_EXPIRED, ORD_ORPHANED}"
| "order_allowed ORD_PARTIALLY_FILLED =
     {ORD_FILLED, ORD_CANCEL_REQUESTED, ORD_EXPIRED, ORD_ORPHANED}"
| "order_allowed ORD_CANCEL_REQUESTED = {ORD_CANCELED, ORD_FILLED, ORD_ORPHANED}"
| "order_allowed ORD_ORPHANED = {ORD_RECONCILED, ORD_REJECTED}"
| "order_allowed _ = {}"

record order_state_event =
  ev_order_id :: string
  ev_from_state :: "order_lifecycle_state option"
  ev_to_state :: order_lifecycle_state
  ev_reason :: string

record order_record =
  or_order_id :: string
  or_intent_id :: string
  or_state :: order_lifecycle_state
  or_events :: "order_state_event list"

definition apply_transition ::
    "order_record \<Rightarrow> order_lifecycle_state \<Rightarrow> string \<Rightarrow> order_record result" where
  "apply_transition rec to_state reason =
     (if or_state rec \<in> order_terminal_states
      then Inl (InvalidOrderTransitionError
                  (''terminal_order_state:'' @ order_state_value (or_state rec)))
      else if to_state \<notin> order_allowed (or_state rec)
      then Inl (InvalidOrderTransitionError
                  (''invalid_order_transition:'' @ order_state_value (or_state rec)
                   @ ''->'' @ order_state_value to_state))
      else let event = \<lparr>ev_order_id = or_order_id rec, ev_from_state = Some (or_state rec),
                        ev_to_state = to_state, ev_reason = reason\<rparr>
           in Inr \<lparr>or_order_id = or_order_id rec, or_intent_id = or_intent_id rec,
                   or_state = to_state, or_events = or_events rec @ [event]\<rparr>)"

section \<open>The table as a machine\<close>

definition order_step_ok :: "order_lifecycle_state \<Rightarrow> order_lifecycle_state \<Rightarrow> bool" where
  "order_step_ok s t \<longleftrightarrow> s \<notin> order_terminal_states \<and> t \<in> order_allowed s"

fun order_rank :: "order_lifecycle_state \<Rightarrow> nat" where
  "order_rank ORD_CREATED = 8"
| "order_rank ORD_RISK_APPROVED = 7"
| "order_rank ORD_TRANSLATED = 6"
| "order_rank ORD_SUBMITTED = 5"
| "order_rank ORD_ACKED = 4"
| "order_rank ORD_PARTIALLY_FILLED = 3"
| "order_rank ORD_CANCEL_REQUESTED = 2"
| "order_rank ORD_ORPHANED = 1"
| "order_rank _ = 0"

lemma order_step_rank: "order_step_ok s t \<Longrightarrow> order_rank t < order_rank s"
  by (cases s) (auto simp: order_step_ok_def order_terminal_states_def)

interpretation order_machine:
  ranked_machine order_step_ok "\<lambda>s. s \<in> order_terminal_states" order_rank
  by unfold_locales (simp_all add: order_step_rank, simp add: order_step_ok_def)

interpretation order_life: live_machine order_step_ok "\<lambda>s. s \<in> order_terminal_states" order_rank
proof unfold_locales
  fix s assume "s \<notin> order_terminal_states"
  then show "\<exists>t. order_step_ok s t"
    by (cases s) (force simp: order_step_ok_def order_terminal_states_def)+
qed

lemma apply_transition_ok_iff:
  "(\<exists>rec'. apply_transition rec t reason = Inr rec') \<longleftrightarrow> order_step_ok (or_state rec) t"
  by (simp add: apply_transition_def order_step_ok_def Let_def)

lemma apply_transition_InrD:
  assumes "apply_transition rec t reason = Inr rec'"
  shows "order_step_ok (or_state rec) t" "or_state rec' = t"
    "or_order_id rec' = or_order_id rec" "or_intent_id rec' = or_intent_id rec"
    "or_events rec' = or_events rec @ [\<lparr>ev_order_id = or_order_id rec,
        ev_from_state = Some (or_state rec), ev_to_state = t, ev_reason = reason\<rparr>]"
  using assms
  by (auto simp: apply_transition_def order_step_ok_def Let_def split: if_splits)

section \<open>Histories\<close>

text \<open>The chain of states the events of a record describe.\<close>

definition history_ok :: "order_record \<Rightarrow> bool" where
  "history_ok rec \<longleftrightarrow>
     (\<exists>e es. or_events rec = e # es
        \<and> ev_from_state e = None \<and> ev_to_state e = ORD_CREATED
        \<and> walk order_step_ok ORD_CREATED (map ev_to_state es)
        \<and> map ev_from_state es = map Some (butlast (ORD_CREATED # map ev_to_state es))
        \<and> or_state rec = last (ORD_CREATED # map ev_to_state es)
        \<and> (\<forall>x \<in> set (e # es). ev_order_id x = or_order_id rec))"

lemma apply_transition_history:
  assumes "history_ok rec" and "apply_transition rec t reason = Inr rec'"
  shows "history_ok rec'"
proof -
  note tr = apply_transition_InrD [OF assms(2)]
  from assms(1) obtain e es where h: "or_events rec = e # es"
    "ev_from_state e = None" "ev_to_state e = ORD_CREATED"
    "walk order_step_ok ORD_CREATED (map ev_to_state es)"
    "map ev_from_state es = map Some (butlast (ORD_CREATED # map ev_to_state es))"
    "or_state rec = last (ORD_CREATED # map ev_to_state es)"
    "\<forall>x \<in> set (e # es). ev_order_id x = or_order_id rec"
    unfolding history_ok_def by blast
  let ?e = "\<lparr>ev_order_id = or_order_id rec, ev_from_state = Some (or_state rec),
             ev_to_state = t, ev_reason = reason\<rparr>"
  have "walk order_step_ok ORD_CREATED (map ev_to_state (es @ [?e]))"
    using h(4,6) tr(1) by (simp add: walk_append)
  moreover have "map ev_from_state (es @ [?e])
      = map Some (butlast (ORD_CREATED # map ev_to_state (es @ [?e])))"
  proof -
    have "butlast (ORD_CREATED # map ev_to_state (es @ [?e]))
        = butlast (ORD_CREATED # map ev_to_state es) @ [or_state rec]"
      using h(6) append_butlast_last_id [of "ORD_CREATED # map ev_to_state es"]
      by (simp add: butlast_append)
    then show ?thesis using h(5) by simp
  qed
  moreover have "or_events rec' = e # (es @ [?e])" using tr(5) h(1) by simp
  ultimately show ?thesis
    unfolding history_ok_def using h(2,3,7) tr(2,3)
    by (intro exI [of _ e] exI [of _ "es @ [?e]"]) simp
qed

text \<open>The states an order must have passed before it can be in a given state.\<close>

definition visited :: "order_record \<Rightarrow> order_lifecycle_state set" where
  "visited rec = ev_to_state ` set (or_events rec)"

fun must_visit :: "order_lifecycle_state \<Rightarrow> order_lifecycle_state set" where
  "must_visit ORD_SUBMITTED = {ORD_RISK_APPROVED, ORD_TRANSLATED}"
| "must_visit ORD_TRANSLATED = {ORD_RISK_APPROVED}"
| "must_visit ORD_ACKED = {ORD_RISK_APPROVED, ORD_TRANSLATED, ORD_SUBMITTED}"
| "must_visit ORD_PARTIALLY_FILLED = {ORD_RISK_APPROVED, ORD_TRANSLATED, ORD_SUBMITTED, ORD_ACKED}"
| "must_visit ORD_FILLED = {ORD_RISK_APPROVED, ORD_TRANSLATED, ORD_SUBMITTED}"
| "must_visit ORD_CANCEL_REQUESTED = {ORD_RISK_APPROVED, ORD_TRANSLATED, ORD_SUBMITTED}"
| "must_visit ORD_CANCELED =
     {ORD_RISK_APPROVED, ORD_TRANSLATED, ORD_SUBMITTED, ORD_CANCEL_REQUESTED}"
| "must_visit ORD_ORPHANED = {ORD_RISK_APPROVED, ORD_TRANSLATED, ORD_SUBMITTED}"
| "must_visit ORD_RECONCILED = {ORD_RISK_APPROVED, ORD_TRANSLATED, ORD_SUBMITTED, ORD_ORPHANED}"
| "must_visit _ = {}"

lemma must_visit_step:
  "order_step_ok s t \<Longrightarrow> must_visit t \<subseteq> insert s (must_visit s)"
  by (cases s) (auto simp: order_step_ok_def order_terminal_states_def)

lemma must_visit_walk:
  "walk order_step_ok s ts \<Longrightarrow> must_visit (last (s # ts)) \<subseteq> must_visit s \<union> set (s # ts)"
proof (induction ts arbitrary: s)
  case (Cons t ts)
  then have "order_step_ok s t" "walk order_step_ok t ts" by simp_all
  then show ?case using Cons.IH [of t] must_visit_step [of s t] by auto
qed auto

lemma history_must_visit:
  assumes "history_ok rec"
  shows "must_visit (or_state rec) \<subseteq> visited rec"
proof -
  from assms obtain e es where h: "or_events rec = e # es" "ev_to_state e = ORD_CREATED"
    "walk order_step_ok ORD_CREATED (map ev_to_state es)"
    "or_state rec = last (ORD_CREATED # map ev_to_state es)"
    unfolding history_ok_def by blast
  have "visited rec = set (ORD_CREATED # map ev_to_state es)"
    using h(1,2) by (simp add: visited_def)
  with must_visit_walk [OF h(3)] h(4) show ?thesis by simp
qed

lemma history_bound:
  assumes "history_ok rec"
  shows "length (or_events rec) \<le> 9" "distinct (map ev_to_state (or_events rec))"
proof -
  from assms obtain e es where h: "or_events rec = e # es" "ev_to_state e = ORD_CREATED"
    "walk order_step_ok ORD_CREATED (map ev_to_state es)"
    unfolding history_ok_def by blast
  show "length (or_events rec) \<le> 9"
    using order_machine.walk_length [OF h(3)] h(1) by simp
  show "distinct (map ev_to_state (or_events rec))"
    using order_machine.walk_distinct [OF h(3)] h(1,2) by simp
qed

end
