(* ===== verification/OrderManager.thy ===== *)
theory OrderManager
  imports OrderIntent OrderState
begin

text \<open>
  The order manager (\<open>execution/order_manager.py\<close>): the venue, the client ids seen, the
  orders by id and the order id by intent.  An operation returns its result and the new
  state; a raised exception leaves the state as the code leaves it.  The lemmas give the
  state invariant, what every run of operations keeps, and when an order can be replaced.
\<close>

record order_manager =
  om_venue :: string
  om_client_ids :: "string set"
  om_orders :: "(string, order_record) dict"
  om_order_by_intent :: "(string, string) dict"

definition om_new :: "string \<Rightarrow> order_manager" where
  "om_new venue = \<lparr>om_venue = venue, om_client_ids = {}, om_orders = [], om_order_by_intent = []\<rparr>"

definition order_id_for :: "stable_hash \<Rightarrow> string \<Rightarrow> string \<Rightarrow> string" where
  "order_id_for H venue intent_id =
     ''order-'' @ take 24 (H (PDict [(''venue'', PStr venue), (''intent_id'', PStr intent_id)]))"

fun join_comma :: "string list \<Rightarrow> string" where
  "join_comma [] = []"
| "join_comma [x] = x"
| "join_comma (x # xs) = x @ '','' @ join_comma xs"

definition created_record :: "string \<Rightarrow> string \<Rightarrow> order_record" where
  "created_record order_id intent_id =
     \<lparr>or_order_id = order_id, or_intent_id = intent_id, or_state = ORD_CREATED,
      or_events = [\<lparr>ev_order_id = order_id, ev_from_state = None, ev_to_state = ORD_CREATED,
                    ev_reason = ''intent_created''\<rparr>]\<rparr>"

definition create_order ::
    "stable_hash \<Rightarrow> order_manager \<Rightarrow> internal_order_intent \<Rightarrow> order_record result \<times> order_manager" where
  "create_order H om i =
     (let validation = validate_internal_order_intent i
      in if \<not> iv_passed validation
         then (Inl (ValueError (join_comma (iv_issues validation))), om)
         else
           let (ok, ids) = idempotency_register H (om_client_ids om) i (om_venue om);
               om1 = om\<lparr>om_client_ids := ids\<rparr>
           in if \<not> ok
              then (Inl (DuplicateIntentError (''duplicate_intent:'' @ oi_intent_id i)), om1)
              else
                let order_id = order_id_for H (om_venue om) (oi_intent_id i);
                    rec = created_record order_id (oi_intent_id i)
                in (Inr rec,
                    om1\<lparr>om_orders := AList.update order_id rec (om_orders om1),
                        om_order_by_intent :=
                          AList.update (oi_intent_id i) order_id (om_order_by_intent om1)\<rparr>))"

definition om_transition ::
    "order_manager \<Rightarrow> string \<Rightarrow> order_lifecycle_state \<Rightarrow> string \<Rightarrow> order_record result \<times> order_manager" where
  "om_transition om order_id to_state reason =
     (case map_of (om_orders om) order_id of
        None \<Rightarrow> (Inl (KeyError order_id), om)
      | Some rec \<Rightarrow>
          (case apply_transition rec to_state reason of
             Inl e \<Rightarrow> (Inl e, om)
           | Inr updated \<Rightarrow>
               (Inr updated, om\<lparr>om_orders := AList.update order_id updated (om_orders om)\<rparr>)))"

definition om_get :: "order_manager \<Rightarrow> string \<Rightarrow> order_record result" where
  "om_get om order_id =
     (case map_of (om_orders om) order_id of None \<Rightarrow> Inl (KeyError order_id) | Some r \<Rightarrow> Inr r)"

section \<open>Branches of the operations\<close>

lemma create_order_cases:
  obtains (invalid) "\<not> intent_contract i" "create_order H om i =
        (Inl (ValueError (join_comma (intent_issues i))), om)"
  | (duplicate) "intent_contract i"
      "deterministic_client_order_id H i (om_venue om) \<in> om_client_ids om"
      "create_order H om i = (Inl (DuplicateIntentError (''duplicate_intent:'' @ oi_intent_id i)), om)"
  | (created) "intent_contract i"
      "deterministic_client_order_id H i (om_venue om) \<notin> om_client_ids om"
      "create_order H om i =
        (Inr (created_record (order_id_for H (om_venue om) (oi_intent_id i)) (oi_intent_id i)),
         om\<lparr>om_client_ids := insert (deterministic_client_order_id H i (om_venue om)) (om_client_ids om),
            om_orders := AList.update (order_id_for H (om_venue om) (oi_intent_id i))
              (created_record (order_id_for H (om_venue om) (oi_intent_id i)) (oi_intent_id i))
              (om_orders om),
            om_order_by_intent := AList.update (oi_intent_id i)
              (order_id_for H (om_venue om) (oi_intent_id i)) (om_order_by_intent om)\<rparr>)"
proof (cases "intent_contract i")
  case False
  then show ?thesis
    by (intro invalid) (simp_all add: create_order_def Let_def validate_internal_order_intent_def
        intent_issues_Nil_iff)
next
  case True
  show ?thesis
  proof (cases "deterministic_client_order_id H i (om_venue om) \<in> om_client_ids om")
    case dup: True
    with True show ?thesis
      by (intro duplicate) (simp_all add: create_order_def Let_def idempotency_register_def)
  next
    case False
    with True show ?thesis
      by (intro created) (simp_all add: create_order_def Let_def idempotency_register_def)
  qed
qed

lemma om_transition_cases:
  obtains (unknown) "om_transition om oid t reason = (Inl (KeyError oid), om)"
      "map_of (om_orders om) oid = None"
  | (refused) rec e where "map_of (om_orders om) oid = Some rec"
      "apply_transition rec t reason = Inl e" "om_transition om oid t reason = (Inl e, om)"
  | (moved) rec rec' where "map_of (om_orders om) oid = Some rec"
      "apply_transition rec t reason = Inr rec'"
      "om_transition om oid t reason =
         (Inr rec', om\<lparr>om_orders := AList.update oid rec' (om_orders om)\<rparr>)"
proof (cases "map_of (om_orders om) oid")
  case None
  then show ?thesis by (intro unknown) (simp_all add: om_transition_def)
next
  case (Some rec)
  then show ?thesis
    by (cases "apply_transition rec t reason")
      (auto intro: refused moved simp: om_transition_def)
qed

section \<open>Runs\<close>

datatype om_call = Create internal_order_intent | Move string order_lifecycle_state string

fun om_apply :: "stable_hash \<Rightarrow> om_call \<Rightarrow> order_manager \<Rightarrow> order_manager" where
  "om_apply H (Create i) om = snd (create_order H om i)"
| "om_apply H (Move oid t reason) om = snd (om_transition om oid t reason)"

inductive om_reach :: "stable_hash \<Rightarrow> string \<Rightarrow> order_manager \<Rightarrow> bool"
  for H :: stable_hash and venue :: string where
  om_reach_new: "om_reach H venue (om_new venue)"
| om_reach_step: "om_reach H venue om \<Longrightarrow> om_reach H venue (om_apply H call om)"

text \<open>The invariant of every reachable manager.\<close>

definition om_inv :: "stable_hash \<Rightarrow> string \<Rightarrow> order_manager \<Rightarrow> bool" where
  "om_inv H venue om \<longleftrightarrow>
     om_venue om = venue \<and> dict_ok (om_orders om) \<and> dict_ok (om_order_by_intent om)
     \<and> (\<forall>k r. map_of (om_orders om) k = Some r \<longrightarrow>
          or_order_id r = k \<and> history_ok r \<and> k = order_id_for H venue (or_intent_id r))
     \<and> (\<forall>i k. map_of (om_order_by_intent om) i = Some k \<longrightarrow>
          k = order_id_for H venue i \<and> k \<in> dkeys (om_orders om))"

lemma history_created [simp]: "history_ok (created_record oid iid)"
  by (simp add: history_ok_def created_record_def)

lemma created_record_simps [simp]:
  "or_order_id (created_record oid iid) = oid"
  "or_intent_id (created_record oid iid) = iid"
  "or_state (created_record oid iid) = ORD_CREATED"
  by (simp_all add: created_record_def)

lemma om_inv_new: "om_inv H venue (om_new venue)"
  by (simp add: om_inv_def om_new_def)

lemma om_inv_create:
  assumes "om_inv H venue om"
  shows "om_inv H venue (snd (create_order H om i))"
  by (cases i rule: create_order_cases [of _ H om]) (use assms in \<open>auto simp: om_inv_def\<close>)

lemma om_inv_transition:
  assumes "om_inv H venue om"
  shows "om_inv H venue (snd (om_transition om oid t reason))"
proof (cases rule: om_transition_cases [of om oid t reason])
  case (moved rec rec')
  note tr = apply_transition_InrD [OF moved(2)]
  from assms moved(1) have r: "or_order_id rec = oid" "history_ok rec"
    "oid = order_id_for H venue (or_intent_id rec)"
    by (auto simp: om_inv_def)
  from r(2) moved(2) have "history_ok rec'" by (rule apply_transition_history)
  then show ?thesis
    using assms moved(3) r tr by (auto simp: om_inv_def)
qed (use assms in simp_all)

lemma om_inv_apply: "om_inv H venue om \<Longrightarrow> om_inv H venue (om_apply H call om)"
  by (cases call) (simp_all add: om_inv_create om_inv_transition)

lemma om_reach_inv: "om_reach H venue om \<Longrightarrow> om_inv H venue om"
  by (induction rule: om_reach.induct) (simp_all add: om_inv_new om_inv_apply)

text \<open>Client ids only accumulate, over any sequence of calls.\<close>

fun om_run :: "stable_hash \<Rightarrow> om_call list \<Rightarrow> order_manager \<Rightarrow> order_manager" where
  "om_run H [] om = om"
| "om_run H (c # cs) om = om_run H cs (om_apply H c om)"

lemma om_apply_client_ids: "om_client_ids om \<subseteq> om_client_ids (om_apply H c om)"
proof (cases c)
  case (Create i)
  then show ?thesis by (cases i rule: create_order_cases [of _ H om]) auto
next
  case (Move oid t reason)
  then show ?thesis by (cases rule: om_transition_cases [of om oid t reason]) auto
qed

lemma om_apply_venue [simp]: "om_venue (om_apply H c om) = om_venue om"
proof (cases c)
  case (Create i)
  then show ?thesis by (cases i rule: create_order_cases [of _ H om]) auto
next
  case (Move oid t reason)
  then show ?thesis by (cases rule: om_transition_cases [of om oid t reason]) auto
qed

lemma om_run_client_ids: "om_client_ids om \<subseteq> om_client_ids (om_run H cs om)"
  by (induction cs arbitrary: om) (auto dest: subsetD [OF om_apply_client_ids])

lemma om_run_venue [simp]: "om_venue (om_run H cs om) = om_venue om"
  by (induction cs arbitrary: om) simp_all

lemma om_reach_run: "om_reach H venue om \<Longrightarrow> om_reach H venue (om_run H cs om)"
  by (induction cs arbitrary: om) (simp_all add: om_reach.intros)

section \<open>Properties\<close>

lemma om_moves_keep_terminal:
  assumes "map_of (om_orders om) k = Some r" and "or_state r \<in> order_terminal_states"
    and "\<forall>c \<in> set cs. \<exists>oid t reason. c = Move oid t reason"
  shows "map_of (om_orders (om_run H cs om)) k = Some r"
  using assms(1,3)
proof (induction cs arbitrary: om)
  case (Cons c cs)
  then obtain oid t reason where c: "c = Move oid t reason" by auto
  have "map_of (om_orders (om_apply H c om)) k = Some r"
  proof (cases rule: om_transition_cases [of om oid t reason])
    case (moved rec rec')
    have "rec \<noteq> r" using apply_transition_InrD(1) [OF moved(2)] assms(2)
      by (auto simp: order_step_ok_def)
    with Cons.prems(1) moved(1) have "k \<noteq> oid" by auto
    with Cons.prems(1) moved(3) c show ?thesis by simp
  qed (use Cons.prems(1) c in simp_all)
  with Cons show ?case by simp
qed simp

text \<open>C1. No unapproved order on the wire: in every reachable order manager, an order that has
  been submitted to the venue or is in any state after that was first risk-approved, then
  translated, then submitted; its history says so.\<close>

theorem submitted_order_was_approved:
  assumes "om_reach H venue om" and "map_of (om_orders om) k = Some r"
    and "or_state r \<in> {ORD_SUBMITTED, ORD_ACKED, ORD_PARTIALLY_FILLED, ORD_FILLED,
           ORD_CANCEL_REQUESTED, ORD_CANCELED, ORD_ORPHANED, ORD_RECONCILED}"
  shows "{ORD_CREATED, ORD_RISK_APPROVED, ORD_TRANSLATED, ORD_SUBMITTED} \<subseteq> visited r"
proof -
  from om_reach_inv [OF assms(1)] assms(2) have h: "history_ok r" by (auto simp: om_inv_def)
  from history_must_visit [OF h] assms(3)
  have "{ORD_RISK_APPROVED, ORD_TRANSLATED} \<subseteq> visited r" by auto
  moreover from h have "ORD_CREATED \<in> visited r" by (auto simp: history_ok_def visited_def)
  moreover have "ORD_SUBMITTED \<in> visited r"
  proof (cases "or_state r = ORD_SUBMITTED")
    case True
    with h show ?thesis unfolding history_ok_def visited_def
      by (metis (no_types, lifting) image_set last_ConsL last_ConsR last_in_set list.set_intros(1)
          list.set_map list.simps(9) order_lifecycle_state.distinct(5) set_subset_Cons subset_iff)
  next
    case False
    with history_must_visit [OF h] assms(3) show ?thesis by auto
  qed
  ultimately show ?thesis by simp
qed

definition sample_hash :: stable_hash where
  "sample_hash p = replicate 64 CHR ''a''"

definition sample_intent :: internal_order_intent where
  "sample_intent = \<lparr>oi_intent_id = ''i1'', oi_artifact_id = ''a1'', oi_portfolio_plan_id = ''p1'',
     oi_symbol = ''BTCUSDT'', oi_desired_position_delta = Fin 1, oi_side = ''BUY'',
     oi_intent_type = ''open'', oi_urgency = ''normal'', oi_reduce_only_required = False,
     oi_max_slippage_bps = Fin 5, oi_max_spread_bps = Fin 5, oi_max_participation_rate = Fin 1,
     oi_funding_guard_policy = ''default'', oi_liquidation_guard_policy = ''default'',
     oi_created_at = ''2026-01-01T00:00:00Z'', oi_expires_at = ''2026-01-02T00:00:00Z''\<rparr>"

lemma sample_intent_id: "oi_intent_id sample_intent = ''i1''"
  by (simp add: sample_intent_def)

lemma sample_intent_ok [simp]: "intent_contract sample_intent"
  by (simp add: sample_intent_def intent_contract_def valid_sides_def valid_intent_types_def
      valid_urgency_def bounded_rate_def)

definition sample_order_id :: string where
  "sample_order_id = ''order-'' @ replicate 24 CHR ''a''"

definition sample_moves :: "order_lifecycle_state list" where
  "sample_moves = [ORD_RISK_APPROVED, ORD_TRANSLATED, ORD_SUBMITTED, ORD_ACKED, ORD_FILLED]"

definition sample_manager :: order_manager where
  "sample_manager = om_run sample_hash
     (Create sample_intent # map (\<lambda>t. Move sample_order_id t ''step'') sample_moves)
     (om_new ''binance_usdm'')"

lemma sample_manager_reach: "om_reach sample_hash ''binance_usdm'' sample_manager"
  unfolding sample_manager_def by (rule om_reach_run) (rule om_reach_new)

lemma sample_manager_order:
  "map_option or_state (map_of (om_orders sample_manager) sample_order_id) = Some ORD_FILLED"
  by code_simp

theorem submitted_order_was_approved_witness:
  "\<exists>r. map_of (om_orders sample_manager) sample_order_id = Some r \<and> or_state r = ORD_FILLED
     \<and> {ORD_CREATED, ORD_RISK_APPROVED, ORD_TRANSLATED, ORD_SUBMITTED} \<subseteq> visited r"
proof -
  from sample_manager_order obtain r where
    r: "map_of (om_orders sample_manager) sample_order_id = Some r" "or_state r = ORD_FILLED"
    by auto
  with submitted_order_was_approved [OF sample_manager_reach r(1)] show ?thesis by simp
qed

text \<open>C2. Histories are well-formed and short: in every reachable order manager, each order is
  stored under its own id, its events form a gap-free chain of allowed transitions from
  creation to its current state with no state entered twice, and there are at most nine of
  them, so every order stops moving after at most eight transitions.\<close>

theorem order_history_wellformed:
  assumes "om_reach H venue om" and "map_of (om_orders om) k = Some r"
  shows "or_order_id r = k \<and> history_ok r \<and> distinct (map ev_to_state (or_events r))
     \<and> length (or_events r) \<le> 9"
  using om_reach_inv [OF assms(1)] assms(2) history_bound by (auto simp: om_inv_def)

theorem order_history_wellformed_witness:
  "\<exists>r. map_of (om_orders sample_manager) sample_order_id = Some r
     \<and> or_order_id r = sample_order_id \<and> history_ok r
     \<and> distinct (map ev_to_state (or_events r)) \<and> length (or_events r) \<le> 9"
proof -
  from sample_manager_order obtain r where
    r: "map_of (om_orders sample_manager) sample_order_id = Some r" by auto
  with order_history_wellformed [OF sample_manager_reach r] show ?thesis by simp
qed

text \<open>Terminal orders are frozen: whatever sequence of transitions is attempted on any orders
  of the manager afterwards, a filled, canceled, expired, rejected or reconciled order keeps
  its record unchanged.\<close>

lemma terminal_order_frozen:
  assumes "map_of (om_orders om) k = Some r" and "or_state r \<in> order_terminal_states"
  shows "map_of (om_orders (om_run H (map (\<lambda>(oid, t, reason). Move oid t reason) ms) om)) k
     = Some r"
  using assms by (rule om_moves_keep_terminal) auto

lemma terminal_order_frozen_witness:
  "map_option or_state (map_of (om_orders (om_run sample_hash
      [Move sample_order_id ORD_CANCELED ''late cancel''] sample_manager)) sample_order_id)
     = Some ORD_FILLED"
proof -
  from sample_manager_order obtain r where
    r: "map_of (om_orders sample_manager) sample_order_id = Some r" "or_state r = ORD_FILLED"
    by auto
  then have "or_state r \<in> order_terminal_states" by (simp add: order_terminal_states_def)
  from terminal_order_frozen [OF r(1) this, of sample_hash "[(sample_order_id, ORD_CANCELED, ''late cancel'')]"]
  show ?thesis using r(2) by simp
qed

lemma create_order_records_client_id:
  assumes "create_order H om i = (Inr rec, om')"
  shows "deterministic_client_order_id H i (om_venue om) \<in> om_client_ids om'"
  using assms by (cases i rule: create_order_cases [of _ H om]) auto

text \<open>C6. No intent is accepted twice: once an intent has become an order, every later attempt
  to create it raises the duplicate error and leaves the manager unchanged, whatever calls
  were made in between.\<close>

theorem accepted_intent_never_again:
  assumes "create_order H om i = (Inr rec, om1)" and "om2 = om_run H cs om1"
  shows "create_order H om2 i
     = (Inl (DuplicateIntentError (''duplicate_intent:'' @ oi_intent_id i)), om2)"
proof -
  have v: "om_venue om1 = om_venue om" "intent_contract i"
    using assms(1) by (cases i rule: create_order_cases [of _ H om]; auto)+
  have "deterministic_client_order_id H i (om_venue om2) \<in> om_client_ids om2"
    using create_order_records_client_id [OF assms(1)] om_run_client_ids [of om1 H cs]
    by (auto simp: assms(2) v(1))
  then show ?thesis
    by (cases i rule: create_order_cases [of _ H om2]) (use v in auto)
qed

theorem accepted_intent_never_again_witness:
  "fst (create_order sample_hash (om_run sample_hash
      [Move sample_order_id ORD_REJECTED ''risk'']
      (snd (create_order sample_hash (om_new ''binance_usdm'') sample_intent))) sample_intent)
     = Inl (DuplicateIntentError ''duplicate_intent:i1'')"
proof -
  let ?om = "om_new ''binance_usdm''"
  obtain rec where "fst (create_order sample_hash ?om sample_intent) = Inr rec"
    by (cases sample_intent rule: create_order_cases [of _ sample_hash ?om])
      (auto simp: om_new_def)
  then have "create_order sample_hash ?om sample_intent
      = (Inr rec, snd (create_order sample_hash ?om sample_intent))"
    by (metis prod.collapse)
  from accepted_intent_never_again [OF this refl, of "[Move sample_order_id ORD_REJECTED ''risk'']"]
  show ?thesis by (simp add: sample_intent_id)
qed

text \<open>Order ids depend on the intent id only: a second intent that carries the same intent
  id but differs in a field of the client id (its size, say) passes the duplicate filter, and
  the order in progress under that id is replaced by a fresh one in state CREATED, its
  history lost.  Intent ids must therefore never be reused with another payload.\<close>

lemma shared_intent_id_resets_order:
  assumes "om_inv H venue om" and "map_of (om_orders om) k = Some r"
    and "oi_intent_id i = or_intent_id r" and "intent_contract i"
    and "deterministic_client_order_id H i venue \<notin> om_client_ids om"
  shows "map_of (om_orders (snd (create_order H om i))) k
     = Some (created_record k (or_intent_id r))"
proof -
  from assms(1,2) have v: "om_venue om = venue" "k = order_id_for H venue (or_intent_id r)"
    by (auto simp: om_inv_def)
  then show ?thesis
    by (cases i rule: create_order_cases [of _ H om]) (use assms v in auto)
qed

text \<open>A digest that tells the sample intent of size one from the same intent of size two.\<close>

definition size_hash :: stable_hash where
  "size_hash p = (case p of
      PDict d \<Rightarrow> (if map_of d ''delta'' = Some (PFloat (Fin 2))
                 then replicate 64 CHR ''b'' else replicate 64 CHR ''a'')
    | _ \<Rightarrow> replicate 64 CHR ''a'')"

lemma sample_cid_length:
  "deterministic_client_order_id size_hash (sample_intent\<lparr>oi_desired_position_delta := Fin 2\<rparr>) v
   \<noteq> deterministic_client_order_id size_hash sample_intent v"
  by (simp add: deterministic_client_order_id_def size_hash_def client_id_payload_def
      sample_intent_def)

lemma shared_intent_id_resets_order_witness:
  "map_option or_state (map_of (om_orders
      (om_run size_hash [Create sample_intent, Move sample_order_id ORD_RISK_APPROVED ''ok'',
         Create (sample_intent\<lparr>oi_desired_position_delta := Fin 2\<rparr>)] (om_new ''v'')))
      sample_order_id) = Some ORD_CREATED"
proof -
  let ?i = "sample_intent\<lparr>oi_desired_position_delta := Fin 2\<rparr>"
  let ?om = "om_run size_hash [Create sample_intent, Move sample_order_id ORD_RISK_APPROVED ''ok'']
      (om_new ''v'')"
  have inv: "om_inv size_hash ''v'' ?om"
    by (intro om_reach_inv om_reach_run om_reach_new)
  have ids: "om_client_ids ?om = {deterministic_client_order_id size_hash sample_intent ''v''}"
    by code_simp
  have "map_option or_intent_id (map_of (om_orders ?om) sample_order_id) = Some ''i1''"
    by code_simp
  then obtain r where r: "map_of (om_orders ?om) sample_order_id = Some r" "or_intent_id r = ''i1''"
    by auto
  have i: "intent_contract ?i" "oi_intent_id ?i = or_intent_id r"
    using sample_intent_ok r(2) by (auto simp: intent_contract_def sample_intent_def)
  have "deterministic_client_order_id size_hash ?i ''v'' \<notin> om_client_ids ?om"
    using sample_cid_length [of "''v''"] by (simp only: ids singleton_iff not_False_eq_True)
  from shared_intent_id_resets_order [OF inv r(1) i(2,1) this] show ?thesis by simp
qed

text \<open>One partial fill per order: the table has no transition from PARTIALLY_FILLED to
  itself, so a second partial fill of an order is refused with the invalid-transition error
  and can only be recorded by completing, canceling, expiring or orphaning the order.\<close>

lemma second_partial_fill_refused:
  assumes "or_state r = ORD_PARTIALLY_FILLED"
  shows "apply_transition r ORD_PARTIALLY_FILLED reason
       = Inl (InvalidOrderTransitionError
           ''invalid_order_transition:PARTIALLY_FILLED->PARTIALLY_FILLED'')
    \<and> (\<forall>t r'. apply_transition r t reason = Inr r' \<longrightarrow>
         t \<in> {ORD_FILLED, ORD_CANCEL_REQUESTED, ORD_EXPIRED, ORD_ORPHANED})"
  using assms by (auto simp: apply_transition_def order_terminal_states_def Let_def
      split: if_splits)

lemma second_partial_fill_refused_witness:
  "apply_transition \<lparr>or_order_id = ''o'', or_intent_id = ''i'', or_state = ORD_PARTIALLY_FILLED,
      or_events = []\<rparr> ORD_PARTIALLY_FILLED ''fill''
   = Inl (InvalidOrderTransitionError
           ''invalid_order_transition:PARTIALLY_FILLED->PARTIALLY_FILLED'')"
  by (rule second_partial_fill_refused [THEN conjunct1]) simp

lemma om_run_walk:
  assumes "map_of (om_orders om) k = Some r" "walk order_step_ok (or_state r) ts"
  shows "\<exists>r'. map_of (om_orders (om_run H (map (\<lambda>t. Move k t reason) ts) om)) k = Some r'
    \<and> or_state r' = last (or_state r # ts) \<and> map ev_to_state (or_events r') = map ev_to_state (or_events r) @ ts"
  using assms
proof (induction ts arbitrary: om r)
  case (Cons t ts)
  then obtain r1 where r1: "apply_transition r t reason = Inr r1" using apply_transition_ok_iff by fastforce
  let ?om = "om_apply H (Move k t reason) om"
  have "map_of (om_orders ?om) k = Some r1" using Cons.prems(1) r1 by (simp add: om_transition_def)
  from Cons.IH [OF this] Cons.prems(2) apply_transition_InrD [OF r1] show ?case by auto
qed simp

text \<open>C5. An order can always be finished: from every stored order at most eight transitions of it, each of
  which succeeds, lead to a terminal state, and an order whose every transition is refused is in a
  terminal state.\<close>

theorem open_order_can_finish:
  assumes "map_of (om_orders om) k = Some r"
  shows "(\<exists>ts r'. length ts \<le> 8
      \<and> map_of (om_orders (om_run H (map (\<lambda>t. Move k t reason) ts) om)) k = Some r'
      \<and> map ev_to_state (or_events r') = map ev_to_state (or_events r) @ ts
      \<and> or_state r' \<in> order_terminal_states)
    \<and> ((\<forall>t. \<exists>e. fst (om_transition om k t reason) = Inl e) \<longleftrightarrow> or_state r \<in> order_terminal_states)"
proof
  obtain ts where ts: "walk order_step_ok (or_state r) ts" "last (or_state r # ts) \<in> order_terminal_states"
    using order_life.reaches_terminal by blast
  have "length ts \<le> 8" using order_machine.walk_length [OF ts(1)] by (cases "or_state r") simp_all
  then show "\<exists>ts r'. length ts \<le> 8
      \<and> map_of (om_orders (om_run H (map (\<lambda>t. Move k t reason) ts) om)) k = Some r'
      \<and> map ev_to_state (or_events r') = map ev_to_state (or_events r) @ ts
      \<and> or_state r' \<in> order_terminal_states"
    using om_run_walk [OF assms ts(1), of H reason] ts(2) by metis
  have "(\<exists>e. fst (om_transition om k t reason) = Inl e) \<longleftrightarrow> \<not> order_step_ok (or_state r) t" for t
    using apply_transition_ok_iff [of r t reason]
    by (cases "apply_transition r t reason") (simp_all add: om_transition_def assms)
  then show "(\<forall>t. \<exists>e. fst (om_transition om k t reason) = Inl e) \<longleftrightarrow> or_state r \<in> order_terminal_states"
    using order_life.stuck_iff_terminal by simp
qed

definition open_manager :: order_manager where
  "open_manager = om_run sample_hash [Create sample_intent, Move sample_order_id ORD_RISK_APPROVED ''r''] (om_new ''binance_usdm'')"

lemma open_manager_order: "map_option or_state (map_of (om_orders open_manager) sample_order_id) = Some ORD_RISK_APPROVED"
  by code_simp

theorem open_order_can_finish_witness:
  "\<exists>r ts r'. map_of (om_orders open_manager) sample_order_id = Some r \<and> or_state r = ORD_RISK_APPROVED
    \<and> map_of (om_orders (om_run sample_hash (map (\<lambda>t. Move sample_order_id t ''x'') ts) open_manager)) sample_order_id = Some r'
    \<and> or_state r' \<in> order_terminal_states"
proof -
  from open_manager_order obtain r where
    r: "map_of (om_orders open_manager) sample_order_id = Some r" "or_state r = ORD_RISK_APPROVED" by auto
  with open_order_can_finish [OF r(1), of sample_hash "''x''"] show ?thesis by blast
qed

end
