(* ===== verification/Translator.thy ===== *)
theory Translator
  imports ExchangeRules PyDecimal OrderManager
begin

text \<open>
  The venue side of an order (\<open>execution/venue_order_request.py\<close>,
  \<open>execution/venue_translator/binance_usdm.py\<close>, \<open>execution/binance_errors.py\<close>): the wire request,
  its validation, rounding to the exchange's increments in decimal arithmetic, and the
  translation report with every reason that refuses an order.
\<close>

section \<open>Wire requests\<close>

record venue_order_request =
  vr_venue :: string
  vr_symbol :: string
  vr_side :: string
  vr_position_side :: string
  vr_type :: string
  vr_time_in_force :: "string option"
  vr_quantity :: pyfloat
  vr_price :: "pyfloat option"
  vr_stop_price :: "pyfloat option"
  vr_reduce_only :: bool
  vr_close_position :: bool
  vr_working_type :: string
  vr_price_protect :: bool
  vr_client_order_id :: string
  vr_self_trade_prevention :: string
  vr_recv_window :: int
  vr_timestamp :: int
  vr_metadata_hash :: string

definition request_metadata :: "internal_order_intent \<Rightarrow> pyval" where
  "request_metadata i = PDict
     [(''intent_id'', PStr (oi_intent_id i)),
      (''artifact_id'', PStr (oi_artifact_id i)),
      (''portfolio_plan_id'', PStr (oi_portfolio_plan_id i)),
      (''guards'', PDict
        [(''max_slippage_bps'', PFloat (oi_max_slippage_bps i)),
         (''max_spread_bps'', PFloat (oi_max_spread_bps i)),
         (''max_participation_rate'', PFloat (oi_max_participation_rate i)),
         (''funding'', PStr (oi_funding_guard_policy i)),
         (''liquidation'', PStr (oi_liquidation_guard_policy i))])]"

definition build_venue_order_request ::
    "stable_hash \<Rightarrow> internal_order_intent \<Rightarrow> string \<Rightarrow> pyfloat \<Rightarrow> string \<Rightarrow> string option
     \<Rightarrow> pyfloat option \<Rightarrow> pyfloat option \<Rightarrow> int \<Rightarrow> string \<Rightarrow> string \<Rightarrow> bool \<Rightarrow> string \<Rightarrow> int
     \<Rightarrow> venue_order_request" where
  "build_venue_order_request H i venue quantity order_type tif price stop_price timestamp
       position_side working_type price_protect stp recv_window =
     \<lparr>vr_venue = venue, vr_symbol = oi_symbol i, vr_side = oi_side i,
      vr_position_side = position_side, vr_type = order_type, vr_time_in_force = tif,
      vr_quantity = quantity, vr_price = price, vr_stop_price = stop_price,
      vr_reduce_only = oi_reduce_only_required i,
      vr_close_position = (oi_intent_type i = ''close''),
      vr_working_type = working_type, vr_price_protect = price_protect,
      vr_client_order_id = deterministic_client_order_id H i venue,
      vr_self_trade_prevention = stp, vr_recv_window = recv_window, vr_timestamp = timestamp,
      vr_metadata_hash = H (request_metadata i)\<rparr>"

record request_validation =
  rv_passed :: bool
  rv_issues :: "string list"

definition validate_venue_order_request :: "venue_order_request \<Rightarrow> request_validation" where
  "validate_venue_order_request r =
     (let issues =
        flag (vr_venue r = []) ''missing_venue''
        @ flag (vr_symbol r = []) ''missing_symbol''
        @ flag (vr_side r \<notin> {''BUY'', ''SELL''}) ''invalid_side''
        @ flag (fle (vr_quantity r) (Fin 0)) ''invalid_quantity''
        @ flag (str_upper (vr_type r) = ''LIMIT'' \<and> vr_price r = None) ''limit_price_required''
        @ flag (vr_client_order_id r = []) ''missing_client_order_id''
        @ flag (length (vr_metadata_hash r) \<noteq> 64) ''invalid_metadata_hash''
      in \<lparr>rv_passed = (issues = []), rv_issues = issues\<rparr>)"

section \<open>Rounding down to an increment\<close>

definition trunc_rat :: "rat \<Rightarrow> int" where
  "trunc_rat x = (if x < 0 then - \<lfloor>- x\<rfloor> else \<lfloor>x\<rfloor>)"

text \<open>
  \<open>Decimal(str(value)) / Decimal(str(increment))\<close>, truncated, times the increment.  The special
  values follow the decimal context: an infinite increment leaves \<open>0 * Infinity\<close> or
  \<open>Infinity / Infinity\<close>, which signal InvalidOperation.
\<close>

fun decimal_round_down :: "pyfloat \<Rightarrow> pyfloat \<Rightarrow> pyfloat result" where
  "decimal_round_down (Fin v) (Fin i) =
     Inr (fl (dec28 (of_int (trunc_rat (dec28 (decimal_of v / decimal_of i))) * decimal_of i)))"
| "decimal_round_down NaN i = Inr NaN"
| "decimal_round_down v NaN = Inr NaN"
| "decimal_round_down v PInf = Inl DecimalInvalidOperation"
| "decimal_round_down v NInf = Inl DecimalInvalidOperation"
| "decimal_round_down v (Fin i) = Inr v"

definition round_down_to_increment :: "pyfloat \<Rightarrow> pyfloat \<Rightarrow> pyfloat result" where
  "round_down_to_increment v i = (if fle i (Fin 0) then Inr v else decimal_round_down v i)"

lemma trunc_rat_nonneg [simp]: "0 \<le> x \<Longrightarrow> trunc_rat x = \<lfloor>x\<rfloor>"
  by (simp add: trunc_rat_def)

lemma round_down_nonneg:
  assumes "fle (Fin 0) v" "round_down_to_increment v i = Inr w"
  shows "w = NaN \<or> fle (Fin 0) w"
proof (cases "fle i (Fin 0)")
  case False
  show ?thesis
  proof (cases "\<exists>x y. v = Fin x \<and> i = Fin y")
    case True
    then obtain x y where xy: "v = Fin x" "i = Fin y" "0 \<le> x" "0 < y" using False assms(1) by auto
    let ?q = "dec28 (decimal_of x / decimal_of y)"
    have d: "0 \<le> decimal_of y" using xy(4) by (intro decimal_of_nonneg) simp
    have "0 \<le> ?q" by (intro dec28_nonneg divide_nonneg_nonneg decimal_of_nonneg xy(3) d)
    then have "0 \<le> dec28 (of_int (trunc_rat ?q) * decimal_of y)"
      by (intro dec28_nonneg mult_nonneg_nonneg d) simp
    then show ?thesis
      using assms(2) False xy(1,2) fl_mono [of 0] by (auto simp: round_down_to_increment_def)
  next
    case False
    with \<open>\<not> fle i (Fin 0)\<close> assms show ?thesis
      by (cases v; cases i) (auto simp: round_down_to_increment_def)
  qed
qed (use assms in \<open>auto simp: round_down_to_increment_def\<close>)

section \<open>The translator\<close>

record translator =
  bt_rules_cache :: exchange_rules_cache
  bt_position_mode :: string
  bt_margin_mode :: string
  bt_leverage :: int

record translation_report =
  tr_passed :: bool
  tr_raw_intent :: internal_order_intent
  tr_rounded_order :: venue_order_request
  tr_rule_snapshot_hash :: string
  tr_rejection_reasons :: "string list"
  tr_warnings :: "string list"

definition is_positive_finite :: "pyfloat \<Rightarrow> bool" where
  "is_positive_finite x \<longleftrightarrow> is_finite x \<and> flt (Fin 0) x"

definition not_positive :: "pyfloat option \<Rightarrow> bool" where
  "not_positive x = (case x of None \<Rightarrow> True | Some y \<Rightarrow> fle y (Fin 0))"

definition opt_among :: "string option \<Rightarrow> string \<Rightarrow> bool" where
  "opt_among x s \<longleftrightarrow> x = None \<or> x = Some s"

definition rule_rejections :: "exchange_symbol_rules \<Rightarrow> string list" where
  "rule_rejections r =
     flag (\<not> opt_among (xr_status r) ''TRADING'') ''symbol_not_trading''
     @ flag (\<not> opt_among (xr_contract_type r) ''PERPETUAL'') ''contract_type_not_perpetual''
     @ flag (\<not> opt_among (xr_quote_asset r) ''USDT'') ''quote_asset_not_usdt''
     @ flag (''LIMIT'' \<notin> set (xr_order_types r)) ''limit_order_type_not_allowed''
     @ flag (not_positive (xr_tick_size r)) ''missing_tick_size''
     @ flag (not_positive (xr_step_size r)) ''missing_step_size''
     @ flag (not_positive (xr_min_notional r)) ''missing_min_notional''"

fun bracket_leverage :: "pyval \<Rightarrow> int option" where
  "bracket_leverage (PInt i) = Some i"
| "bracket_leverage (PBool b) = Some (if b then 1 else 0)"
| "bracket_leverage (PStr s) =
     (if s \<noteq> [] \<and> list_all is_digit s then Some (int (digits_val s)) else None)"
| "bracket_leverage _ = None"

definition max_leverage :: "exchange_symbol_rules \<Rightarrow> int option" where
  "max_leverage r =
     (let vs = List.map_filter (\<lambda>b. bracket_leverage (pget b ''initialLeverage''))
                 (xr_leverage_brackets r)
      in if vs = [] then None else Some (Max (set vs)))"

definition time_in_force :: "internal_order_intent \<Rightarrow> bool \<Rightarrow> string" where
  "time_in_force i passive =
     (if passive then ''GTX'' else if oi_urgency i = ''urgent'' then ''IOC'' else ''GTC'')"

definition position_side :: "internal_order_intent \<Rightarrow> string \<Rightarrow> string" where
  "position_side i mode =
     (if mode = ''one_way'' then ''BOTH''
      else if oi_side i = ''BUY'' then ''LONG'' else ''SHORT'')"

definition or_zero :: "pyfloat option \<Rightarrow> pyfloat" where
  "or_zero x = (case x of None \<Rightarrow> Fin 0 | Some y \<Rightarrow> y)"

definition size_reasons :: "pyfloat \<Rightarrow> string \<Rightarrow> string \<Rightarrow> string list" where
  "size_reasons x non_finite not_pos =
     (if \<not> is_finite x then [non_finite] else flag (fle x (Fin 0)) not_pos)"

text \<open>The block guarded by \<open>rules is not None\<close>: rounded price, rounded quantity, reasons.\<close>

definition apply_rules ::
    "translator \<Rightarrow> exchange_symbol_rules option \<Rightarrow> pyfloat \<Rightarrow> pyfloat
     \<Rightarrow> (pyfloat \<times> pyfloat \<times> string list) result" where
  "apply_rules t rules quantity price =
     (let p0 = (if is_positive_finite price then price else Fin 0);
          q0 = (if is_positive_finite quantity then quantity else Fin 0)
      in case rules of
           None \<Rightarrow> Inr (p0, q0, [])
         | Some r \<Rightarrow>
             rbind (if is_positive_finite price
                    then round_down_to_increment price (or_zero (xr_tick_size r)) else Inr p0) (\<lambda>p.
             rbind (if is_positive_finite quantity
                    then round_down_to_increment quantity (or_zero (xr_step_size r)) else Inr q0) (\<lambda>q.
               Inr (p, q,
                 rule_rejections r
                 @ flag (flt (fmul q p) (or_zero (xr_min_notional r))) ''min_notional_violation''
                 @ flag (case max_leverage r of None \<Rightarrow> False | Some m \<Rightarrow> m < bt_leverage t)
                     ''leverage_exceeds_symbol_bracket''))))"

definition reduce_only_reasons ::
    "internal_order_intent \<Rightarrow> pyfloat \<Rightarrow> pyfloat option \<Rightarrow> string list" where
  "reduce_only_reasons i notional position =
     (if oi_reduce_only_required i
      then (case position of
              None \<Rightarrow> [''reduce_only_without_position'']
            | Some x \<Rightarrow>
                if fle x (Fin 0) then [''reduce_only_without_position'']
                else flag (flt (fadd x f_1em9) notional) ''reduce_only_exceeds_position'')
      else [])"

definition translation_reasons ::
    "translator \<Rightarrow> internal_order_intent \<Rightarrow> exchange_symbol_rules option \<Rightarrow> pyfloat \<Rightarrow> pyfloat
     \<Rightarrow> bool \<Rightarrow> bool \<Rightarrow> pyfloat option \<Rightarrow> string list \<Rightarrow> pyfloat \<Rightarrow> string list" where
  "translation_reasons t i rules quantity price passive close_position position rule_reasons notional =
     iv_issues (validate_internal_order_intent i)
     @ size_reasons quantity ''non_finite_quantity'' ''quantity_not_positive''
     @ size_reasons price ''non_finite_price'' ''price_not_positive''
     @ flag (rules = None) ''missing_exchange_rules''
     @ rule_reasons
     @ flag (bt_margin_mode t \<notin> {''cross'', ''isolated''}) ''invalid_margin_mode''
     @ flag (bt_position_mode t \<notin> {''one_way'', ''hedge''}) ''invalid_position_mode''
     @ reduce_only_reasons i notional position
     @ flag (close_position \<and> (\<not> oi_reduce_only_required i \<or> oi_intent_type i \<noteq> ''close''))
         ''close_position_requires_close_reduce_only_intent''
     @ flag (time_in_force i passive = ''GTX''
             \<and> (case rules of None \<Rightarrow> False | Some r \<Rightarrow> ''LIMIT'' \<notin> set (xr_order_types r)))
         ''limit_order_type_not_allowed''"

definition translated_order ::
    "stable_hash \<Rightarrow> translator \<Rightarrow> internal_order_intent \<Rightarrow> pyfloat \<Rightarrow> pyfloat \<Rightarrow> int \<Rightarrow> bool \<Rightarrow> bool
     \<Rightarrow> venue_order_request" where
  "translated_order H t i q p timestamp passive close_position =
     (let request = build_venue_order_request H i ''binance_usdm'' (fmax q (Fin 0)) ''LIMIT''
            (Some (time_in_force i passive)) (Some p) None timestamp
            (position_side i (bt_position_mode t)) ''CONTRACT_PRICE'' True ''EXPIRE_TAKER'' 5000
      in if close_position then request\<lparr>vr_close_position := True, vr_reduce_only := True\<rparr>
         else request)"

definition translate ::
    "stable_hash \<Rightarrow> translator \<Rightarrow> internal_order_intent \<Rightarrow> pyfloat \<Rightarrow> pyfloat \<Rightarrow> int \<Rightarrow> bool \<Rightarrow> bool
     \<Rightarrow> pyfloat option \<Rightarrow> translation_report result" where
  "translate H t i quantity price timestamp passive close_position position =
     (let rules = map_of (xc_symbols (bt_rules_cache t)) (oi_symbol i) in
      rbind (apply_rules t rules quantity price) (\<lambda>(p, q, rule_reasons).
       let reasons = translation_reasons t i rules quantity price passive close_position position
             rule_reasons (fmul q p)
       in Inr \<lparr>tr_passed = (reasons = []), tr_raw_intent = i,
               tr_rounded_order = translated_order H t i q p timestamp passive close_position,
               tr_rule_snapshot_hash = xc_snapshot_hash (bt_rules_cache t),
               tr_rejection_reasons = sorted_set reasons,
               tr_warnings = flag passive ''post_only_mapped_to_gtx''\<rparr>))"

section \<open>Venue errors\<close>

record binance_error =
  be_code :: "int option"
  be_message :: string
  be_reason_code :: string

definition first_truthy :: "pyval \<Rightarrow> pyval \<Rightarrow> pyval" where
  "first_truthy a b = (if truthy a then a else b)"

definition error_message :: "pyval \<Rightarrow> string" where
  "error_message payload = (case payload of
      PDict d \<Rightarrow> py_str (first_truthy (first_truthy (pget d ''msg'') (pget d ''message'')) (PStr []))
    | v \<Rightarrow> py_str v)"

definition error_code :: "pyval \<Rightarrow> int option" where
  "error_code payload = (case payload of
      PDict d \<Rightarrow> (case pget d ''code'' of
          PInt c \<Rightarrow> Some c
        | PBool b \<Rightarrow> Some (if b then 1 else 0)
        | _ \<Rightarrow> None)
    | _ \<Rightarrow> None)"

definition error_reason :: "string \<Rightarrow> string" where
  "error_reason message =
     (let lower = str_lower message
      in if has_sub ''insufficient'' lower then ''insufficient_margin''
         else if has_sub ''precision'' lower then ''precision_error''
         else if has_sub ''min notional'' lower then ''min_notional_violation''
         else ''binance_error'')"

definition normalize_binance_error :: "pyval \<Rightarrow> binance_error" where
  "normalize_binance_error payload =
     \<lparr>be_code = error_code payload, be_message = error_message payload,
      be_reason_code = error_reason (error_message payload)\<rparr>"

section \<open>What a translation promises\<close>

lemma size_reasons_Nil_iff [reason_simps]: "size_reasons x a b = [] \<longleftrightarrow> is_positive_finite x"
  by (cases x) (auto simp: size_reasons_def is_positive_finite_def)

lemma rule_rejections_Nil_iff [reason_simps]:
  "rule_rejections r = [] \<longleftrightarrow>
     opt_among (xr_status r) ''TRADING'' \<and> opt_among (xr_contract_type r) ''PERPETUAL''
     \<and> opt_among (xr_quote_asset r) ''USDT'' \<and> ''LIMIT'' \<in> set (xr_order_types r)
     \<and> \<not> not_positive (xr_tick_size r) \<and> \<not> not_positive (xr_step_size r)
     \<and> \<not> not_positive (xr_min_notional r)"
  by (auto simp: rule_rejections_def)

lemma reduce_only_reasons_Nil_iff [reason_simps]:
  "reduce_only_reasons i notional position = [] \<longleftrightarrow>
     (oi_reduce_only_required i \<longrightarrow>
       (\<exists>x. position = Some x \<and> \<not> fle x (Fin 0) \<and> \<not> flt (fadd x f_1em9) notional))"
  by (auto simp: reduce_only_reasons_def split: option.splits)

lemma iv_issues_Nil_iff [reason_simps]:
  "iv_issues (validate_internal_order_intent i) = [] \<longleftrightarrow> intent_contract i"
  by (simp add: validate_internal_order_intent_def Let_def intent_issues_Nil_iff)

lemma translation_reasons_Nil_iff:
  "translation_reasons t i rules quantity price passive close_position position rs notional = [] \<longleftrightarrow>
     intent_contract i \<and> is_positive_finite quantity \<and> is_positive_finite price
     \<and> rules \<noteq> None \<and> rs = []
     \<and> bt_margin_mode t \<in> {''cross'', ''isolated''} \<and> bt_position_mode t \<in> {''one_way'', ''hedge''}
     \<and> reduce_only_reasons i notional position = []
     \<and> (close_position \<longrightarrow> oi_reduce_only_required i \<and> oi_intent_type i = ''close'')
     \<and> (passive \<longrightarrow> (case rules of None \<Rightarrow> True | Some r \<Rightarrow> ''LIMIT'' \<in> set (xr_order_types r)))"
proof -
  have tif: "time_in_force i passive = ''GTX'' \<longleftrightarrow> passive" by (simp add: time_in_force_def)
  show ?thesis
    by (auto simp: translation_reasons_def size_reasons_Nil_iff iv_issues_Nil_iff tif
        split: option.splits)
qed

lemma translate_Inr_iff:
  "translate H t i quantity price timestamp passive close_position position = Inr rep \<longleftrightarrow>
     (\<exists>p q rs. let rules = map_of (xc_symbols (bt_rules_cache t)) (oi_symbol i);
           reasons = translation_reasons t i rules quantity price passive close_position position
             rs (fmul q p)
      in apply_rules t rules quantity price = Inr (p, q, rs)
        \<and> rep = \<lparr>tr_passed = (reasons = []), tr_raw_intent = i,
               tr_rounded_order = translated_order H t i q p timestamp passive close_position,
               tr_rule_snapshot_hash = xc_snapshot_hash (bt_rules_cache t),
               tr_rejection_reasons = sorted_set reasons,
               tr_warnings = flag passive ''post_only_mapped_to_gtx''\<rparr>)"
  by (auto simp: translate_def Let_def rbind_Inr_iff split: prod.splits)

lemma apply_rules_Inr_iff:
  assumes "is_positive_finite quantity" "is_positive_finite price"
  shows "apply_rules t (Some r) quantity price = Inr (p, q, []) \<longleftrightarrow>
      round_down_to_increment price (or_zero (xr_tick_size r)) = Inr p
    \<and> round_down_to_increment quantity (or_zero (xr_step_size r)) = Inr q
    \<and> rule_rejections r = [] \<and> \<not> flt (fmul q p) (or_zero (xr_min_notional r))
    \<and> (\<forall>m. max_leverage r = Some m \<longrightarrow> bt_leverage t \<le> m)"
  using assms by (auto simp: apply_rules_def Let_def rbind_Inr_iff split: option.splits)

text \<open>Everything a passed report rests on, in one elimination rule.\<close>

lemma passed_translationE:
  assumes "translate H t i quantity price timestamp passive close_position position = Inr rep"
    and "tr_passed rep"
  obtains r p q where
    "map_of (xc_symbols (bt_rules_cache t)) (oi_symbol i) = Some r"
    "intent_contract i" "is_positive_finite quantity" "is_positive_finite price"
    "round_down_to_increment price (or_zero (xr_tick_size r)) = Inr p"
    "round_down_to_increment quantity (or_zero (xr_step_size r)) = Inr q"
    "rule_rejections r = []" "\<not> flt (fmul q p) (or_zero (xr_min_notional r))"
    "\<forall>m. max_leverage r = Some m \<longrightarrow> bt_leverage t \<le> m"
    "reduce_only_reasons i (fmul q p) position = []"
    "close_position \<longrightarrow> oi_reduce_only_required i \<and> oi_intent_type i = ''close''"
    "tr_rounded_order rep = translated_order H t i q p timestamp passive close_position"
proof -
  let ?rules = "map_of (xc_symbols (bt_rules_cache t)) (oi_symbol i)"
  from assms(1) obtain p q rs where a: "apply_rules t ?rules quantity price = Inr (p, q, rs)"
    and o: "tr_rounded_order rep = translated_order H t i q p timestamp passive close_position"
    and ps: "tr_passed rep \<longleftrightarrow> translation_reasons t i ?rules quantity price passive close_position
        position rs (fmul q p) = []"
    unfolding translate_Inr_iff Let_def by auto
  note h = assms(2) [unfolded ps translation_reasons_Nil_iff]
  from h obtain r where r: "?rules = Some r" by blast
  from h a r have "apply_rules t (Some r) quantity price = Inr (p, q, [])" by simp
  moreover from h have pf: "is_positive_finite quantity" "is_positive_finite price" by simp_all
  ultimately show thesis
    using that [OF r] h o unfolding apply_rules_Inr_iff [OF pf] by blast
qed

lemma translated_order_simps [simp]:
  "vr_quantity (translated_order H t i q p timestamp passive close_position) = fmax q (Fin 0)"
  "vr_price (translated_order H t i q p timestamp passive close_position) = Some p"
  "vr_venue (translated_order H t i q p timestamp passive close_position) = ''binance_usdm''"
  "vr_symbol (translated_order H t i q p timestamp passive close_position) = oi_symbol i"
  "vr_side (translated_order H t i q p timestamp passive close_position) = oi_side i"
  "vr_client_order_id (translated_order H t i q p timestamp passive close_position)
   = deterministic_client_order_id H i ''binance_usdm''"
  "vr_metadata_hash (translated_order H t i q p timestamp passive close_position)
   = H (request_metadata i)"
  "vr_reduce_only (translated_order H t i q p timestamp passive close_position)
   \<longleftrightarrow> close_position \<or> oi_reduce_only_required i"
  by (simp_all add: translated_order_def build_venue_order_request_def Let_def)

section \<open>A sample translation\<close>

definition sample_row :: "pyval \<Rightarrow> (string \<times> pyval) list" where
  "sample_row tick =
     [(''symbol'', PStr ''BTCUSDT''), (''status'', PStr ''TRADING''),
      (''orderTypes'', PList [PStr ''LIMIT'']),
      (''filters'', PList
        [PDict [(''filterType'', PStr ''PRICE_FILTER''), (''tickSize'', tick)],
         PDict [(''filterType'', PStr ''LOT_SIZE''), (''stepSize'', PInt 2)],
         PDict [(''filterType'', PStr ''MIN_NOTIONAL''), (''notional'', PInt 5)]])]"

definition sample_rules :: "pyfloat \<Rightarrow> exchange_symbol_rules" where
  "sample_rules tick =
     \<lparr>xr_symbol = ''BTCUSDT'', xr_tick_size = Some tick, xr_step_size = Some (Fin 2),
      xr_min_notional = Some (Fin 5), xr_order_types = [''LIMIT''], xr_leverage_brackets = [],
      xr_margin_asset = None, xr_status = Some ''TRADING'', xr_contract_type = None,
      xr_quote_asset = None\<rparr>"

definition sample_cache :: "pyfloat \<Rightarrow> exchange_rules_cache" where
  "sample_cache tick =
     \<lparr>xc_source = ''s'', xc_created_at_utc = ''c'', xc_symbols = [(''BTCUSDT'', sample_rules tick)],
      xc_snapshot_hash = zero_hash (cache_payload ''s'' ''c'' [(''BTCUSDT'', sample_rules tick)])\<rparr>"

definition sample_translator :: "pyfloat \<Rightarrow> translator" where
  "sample_translator tick =
     \<lparr>bt_rules_cache = sample_cache tick, bt_position_mode = ''one_way'', bt_margin_mode = ''cross'',
      bt_leverage = 10\<rparr>"

lemma parse_nan: "parse_float ''nan'' = Some NaN"
  by (simp add: parse_float_def str_strip_def split_sign_def str_lower_def low_char_def
      is_space_def is_digit_def)

lemma sample_cache_parsed:
  assumes "float_or_none v = Inr (Some tick)"
  shows "from_exchange_info zero_hash [sample_row v] ''s'' ''c'' = Inr (sample_cache tick)"
proof -
  have two: "float_or_none (PInt 2) = Inr (Some (Fin 2))" "float_or_none (PInt 5) = Inr (Some (Fin 5))"
    by (simp_all add: float_or_none_def of_pyint_def fl_numeral)
  show ?thesis
    by (simp add: sample_row_def from_exchange_info_def named_rows_def parse_symbol_rules_def
        min_notional_of_def float_filter_def filter_rows_def dict_of_def pget_list_def pget_def
        dget_def List.map_filter_def assms two sample_cache_def sample_rules_def Let_def)
qed

lemma decimal_of_digit: "k \<in> {1..9} \<Longrightarrow> decimal_of (of_int k) = of_int k"
proof -
  assume k: "k \<in> {1..9}"
  have f: "floorlog 10 (nat k) = 1"
    using k by (auto simp: compute_floorlog [of 10 "nat k"] floorlog_eq_zero_iff)
  then have e: "dec_exp (of_int k) = 0" using k by (simp add: dec_exp_def)
  have r: "rnd64 (of_int k) = of_int k" using k by (intro rnd64_of_int) simp
  then have "best_digits (of_int k) 1 = Some k" by (simp add: best_digits_def e)
  then have "shortest (of_int k) = Some (k, 0)" by (simp add: shortest_def e numeral_eq_Suc)
  then show ?thesis using k by (simp add: decimal_of_def sgn_if)
qed

lemmas decimal_of_digits =
  decimal_of_digit [of 7, simplified] decimal_of_digit [of 9, simplified]
  decimal_of_digit [of 2, simplified] decimal_of_digit [of 1, simplified]

lemma dec28_numeral: "numeral n < (10 ^ 28 :: int) \<Longrightarrow> dec28 (numeral n) = numeral n"
  using dec28_of_int [of "numeral n"] by simp

lemma sample_quantity: "round_down_to_increment (Fin 7) (Fin 2) = Inr (Fin 6)"
proof -
  have "\<lfloor>dec28 (of_int 7 / of_int 2)\<rfloor> = 7 div 2" by (rule dec28_quotient_floor) simp_all
  moreover have "0 \<le> dec28 (7 / 2)" by (rule dec28_nonneg) simp
  ultimately show ?thesis
    by (simp add: round_down_to_increment_def decimal_of_digits dec28_numeral fl_numeral)
qed

lemma sample_price: "round_down_to_increment (Fin 9) (Fin 1) = Inr (Fin 9)"
  by (simp add: round_down_to_increment_def decimal_of_digits dec28_numeral fl_numeral)

lemma sample_translation:
  assumes "round_down_to_increment (Fin 9) tick = Inr p" "\<not> fle tick (Fin 0)" "tick \<noteq> Fin 0"
    "\<not> flt (fmul (Fin 6) p) (Fin 5)" 
  shows "\<exists>rep. translate zero_hash (sample_translator tick) sample_intent (Fin 7) (Fin 9) 0 False False
      None = Inr rep \<and> tr_passed rep \<and> vr_price (tr_rounded_order rep) = Some p
      \<and> vr_quantity (tr_rounded_order rep) = Fin 6"
proof -
  have i: "intent_contract sample_intent" "oi_symbol sample_intent = ''BTCUSDT''"
    "\<not> oi_reduce_only_required sample_intent"
    by (simp_all add: sample_intent_def intent_contract_def valid_sides_def valid_intent_types_def
        valid_urgency_def bounded_rate_def)
  have m: "map_of (xc_symbols (bt_rules_cache (sample_translator tick))) ''BTCUSDT''
      = Some (sample_rules tick)"
    by (simp add: sample_translator_def sample_cache_def)
  have pf: "is_positive_finite (Fin 7)" "is_positive_finite (Fin 9)"
    by (simp_all add: is_positive_finite_def)
  have r: "apply_rules (sample_translator tick) (Some (sample_rules tick)) (Fin 7) (Fin 9)
      = Inr (p, Fin 6, [])"
    unfolding apply_rules_Inr_iff [OF pf] using assms
    by (simp add: sample_rules_def or_zero_def sample_quantity rule_rejections_Nil_iff opt_among_def
        not_positive_def max_leverage_def List.map_filter_def)
  have t: "translation_reasons (sample_translator tick) sample_intent (Some (sample_rules tick))
      (Fin 7) (Fin 9) False False None [] n = []" for n
    unfolding translation_reasons_Nil_iff
    by (simp add: i pf reduce_only_reasons_Nil_iff sample_translator_def)
  show ?thesis
    by (simp add: translate_def i m r t Let_def fmax_def)
qed



text \<open>A passed order is a well-formed wire request: when its notional and the minimal notional
  are numbers, the rounded order passes the venue request validation (positive quantity, price, client id, a 64-character
  metadata hash), with the very reduce-only flag the intent or the caller asked for.\<close>

lemma passed_translation_is_valid_request:
  assumes "translate H t i quantity price timestamp passive close_position position = Inr rep"
    and "tr_passed rep" and "hex_digest H"
    and "\<forall>r. map_of (xc_symbols (bt_rules_cache t)) (oi_symbol i) = Some r
           \<longrightarrow> xr_min_notional r \<noteq> Some NaN"
    and "\<forall>p. vr_price (tr_rounded_order rep) = Some p
           \<longrightarrow> fmul (vr_quantity (tr_rounded_order rep)) p \<noteq> NaN"
  shows "rv_passed (validate_venue_order_request (tr_rounded_order rep))
    \<and> (vr_reduce_only (tr_rounded_order rep) \<longleftrightarrow> oi_reduce_only_required i)"
  using assms(1,2)
proof (rule passed_translationE)
  fix r p q
  assume r: "map_of (xc_symbols (bt_rules_cache t)) (oi_symbol i) = Some r"
    and pq: "round_down_to_increment price (or_zero (xr_tick_size r)) = Inr p"
      "round_down_to_increment quantity (or_zero (xr_step_size r)) = Inr q"
      "is_positive_finite price" "is_positive_finite quantity"
    and i: "intent_contract i" and rr: "rule_rejections r = []"
    and mn: "\<not> flt (fmul q p) (or_zero (xr_min_notional r))"
    and c: "close_position \<longrightarrow> oi_reduce_only_required i \<and> oi_intent_type i = ''close''"
    and o: "tr_rounded_order rep = translated_order H t i q p timestamp passive close_position"
  have pos: "flt (Fin 0) (or_zero (xr_min_notional r))"
    using rr assms(4) r by (cases "or_zero (xr_min_notional r)")
      (auto simp: rule_rejections_Nil_iff not_positive_def or_zero_def split: option.splits)
  have nn: "fmul (fmax q (Fin 0)) p \<noteq> NaN" using assms(5) o by simp
  have "q = NaN \<or> fle (Fin 0) q"
    using pq(2,4) by (intro round_down_nonneg) (auto simp: is_positive_finite_def fle_iff)
  then have "\<not> fle (fmax q (Fin 0)) (Fin 0)"
    using mn nn pos by (cases q; cases p) (auto simp: fmax_def inf_of_sign_def split: if_splits)
  then show ?thesis
    using i c assms(3)
    by (auto simp: validate_venue_order_request_def Let_def o intent_contract_def valid_sides_def
        hex_digest_def deterministic_client_order_id_def)
qed

lemma passed_translation_is_valid_request_witness:
  "\<exists>rep. translate zero_hash (sample_translator (Fin 1)) sample_intent (Fin 7) (Fin 9) 0 False False
      None = Inr rep \<and> rv_passed (validate_venue_order_request (tr_rounded_order rep))"
proof -
  obtain rep where r: "translate zero_hash (sample_translator (Fin 1)) sample_intent (Fin 7) (Fin 9) 0
      False False None = Inr rep" "tr_passed rep" "vr_price (tr_rounded_order rep) = Some (Fin 9)"
      "vr_quantity (tr_rounded_order rep) = Fin 6"
    using sample_translation [OF sample_price] by (auto simp: fl_numeral)
  have "hex_digest zero_hash" by (simp add: hex_digest_def zero_hash_def)
  from passed_translation_is_valid_request [OF r(1,2) this] r show ?thesis
    by (simp add: sample_translator_def sample_cache_def sample_rules_def sample_intent_def fl_numeral)
qed

text \<open>C4. One id per order: the client order id on the wire is the one the order manager of this
  venue registered when it accepted the intent, so the duplicate filter and the exchange see the
  same id, and no later intent with that id is accepted.\<close>

theorem wire_id_is_registered_id:
  assumes "om_venue om = ''binance_usdm''"
    and "fst (create_order H om i) = Inr rec"
    and "translate H t i quantity price timestamp passive close_position position = Inr rep"
  shows "vr_client_order_id (tr_rounded_order rep) \<in> om_client_ids (snd (create_order H om i))
    \<and> vr_client_order_id (tr_rounded_order rep) \<notin> om_client_ids om"
proof -
  have c: "vr_client_order_id (tr_rounded_order rep) = deterministic_client_order_id H i ''binance_usdm''"
    using assms(3) by (auto simp: translate_Inr_iff Let_def)
  show ?thesis
    by (cases i rule: create_order_cases [of _ H om]) (use assms(1,2) c in auto)
qed

theorem wire_id_is_registered_id_witness:
  "\<exists>rep. translate zero_hash (sample_translator (Fin 1)) sample_intent (Fin 7) (Fin 9) 0 False False
      None = Inr rep
     \<and> vr_client_order_id (tr_rounded_order rep)
         \<in> om_client_ids (snd (create_order zero_hash (om_new ''binance_usdm'') sample_intent))"
proof -
  obtain rep where r: "translate zero_hash (sample_translator (Fin 1)) sample_intent (Fin 7) (Fin 9) 0
      False False None = Inr rep"
    using sample_translation [OF sample_price] by (auto simp: fl_numeral)
  have i: "intent_contract sample_intent"
    by (simp add: sample_intent_def intent_contract_def valid_sides_def valid_intent_types_def
        valid_urgency_def bounded_rate_def)
  obtain rec where "fst (create_order zero_hash (om_new ''binance_usdm'') sample_intent) = Inr rec"
    by (cases sample_intent rule: create_order_cases [of _ zero_hash "om_new ''binance_usdm''"])
      (auto simp: i om_new_def)
  from wire_id_is_registered_id [OF _ this r] r show ?thesis by (simp add: om_new_def)
qed

text \<open>Rounding down is exact on the decimal grid: for a positive increment, when value and
  increment are read as whole multiples of one power of ten, fewer than \<open>2 * 10 ^ 27\<close> of them,
  the result is the float nearest to the largest whole multiple of the increment below the value:
  the 28-digit quotient never rounds up across a multiple, and the result never exceeds the
  value.\<close>

lemma rounding_down_on_grid:
  assumes "is_f64 (Fin v)" "0 < w"
    and "decimal_of v = of_int X * pow10 k" "decimal_of w = of_int B * pow10 k"
    and "0 \<le> X" "X < 2 * 10 ^ 27" "0 < B"
  shows "\<exists>y. round_down_to_increment (Fin v) (Fin w) = Inr y
    \<and> y = fl (of_int (X div B * B) * pow10 k) \<and> fle y (Fin v)
    \<and> X div B * B \<le> X \<and> X < (X div B + 1) * B"
proof -
  have q: "decimal_of v / decimal_of w = of_int X / of_int B" by (simp add: assms(3,4))
  have fq: "\<lfloor>dec28 (of_int X / of_int B)\<rfloor> = X div B"
    by (rule dec28_quotient_floor [OF assms(5,6,7)])
  have nn: "0 \<le> dec28 (of_int X / of_int B)"
    using assms(5,7) by (intro dec28_nonneg divide_nonneg_nonneg) simp_all
  have le: "X div B * B \<le> X" using mult_div_mod_eq [of B X] pos_mod_sign [OF assms(7), of X]
    by (simp only: mult.commute [of "X div B"])
  have up: "X < (X div B + 1) * B"
    using mult_div_mod_eq [of B X] pos_mod_bound [OF assms(7), of X]
    by (simp only: distrib_right mult_1_left mult.commute [of "X div B"])
  have ge: "0 \<le> X div B * B" using assms(5,7) by (simp add: pos_imp_zdiv_nonneg_iff)
  have e: "dec28 (of_int (X div B * B) * pow10 k) = of_int (X div B * B) * pow10 k"
    using le ge assms(6) by (intro dec28_exact) simp_all
  have r: "round_down_to_increment (Fin v) (Fin w) = Inr (fl (of_int (X div B * B) * pow10 k))"
    using assms(2) e nn unfolding round_down_to_increment_def
    by (simp only: decimal_round_down.simps q fq trunc_rat_nonneg)
      (simp add: assms(4) mult.assoc)
  have "of_int (X div B * B) * pow10 k \<le> of_int X * pow10 k"
    using le by (intro mult_right_mono) (simp_all only: of_int_le_iff less_imp_le pow10_pos)
  then have "fle (fl (of_int (X div B * B) * pow10 k)) (fl (decimal_of v))"
    unfolding assms(3) by (rule fl_mono)
  moreover have "fl (decimal_of v) = Fin v"
    using assms(1) decimal_of_rounds_back [of v] by (auto simp: is_f64_def fl_def abs_less_iff)
  ultimately show ?thesis using r le up by simp
qed

lemma rounding_down_on_grid_witness:
  "\<exists>y. round_down_to_increment (Fin 7) (Fin 2) = Inr y \<and> y = Fin 6"
proof -
  have "is_f64 (Fin 7)" by (simp add: is_f64_numeral)
  from rounding_down_on_grid [OF this, of 2 7 0 2] show ?thesis
    by (simp add: decimal_of_digits fl_numeral)
qed

text \<open>A tick size that is not a number lets a priceless order through: an exchange row whose
  \<open>tickSize\<close> reads \<open>nan\<close> parses, no comparison with it is true, and the translation passes with
  a NaN limit price.\<close>

lemma nan_tick_size_passes:
  "\<exists>rep. from_exchange_info zero_hash [sample_row (PStr ''nan'')] ''s'' ''c''
      = Inr (bt_rules_cache (sample_translator NaN))
    \<and> translate zero_hash (sample_translator NaN) sample_intent (Fin 7) (Fin 9) 0 False False None
      = Inr rep \<and> tr_passed rep \<and> vr_price (tr_rounded_order rep) = Some NaN"
proof -
  have "float_or_none (PStr ''nan'') = Inr (Some NaN)" by (simp add: float_or_none_def parse_nan)
  from sample_cache_parsed [OF this] show ?thesis
    using sample_translation [of NaN NaN]
    by (auto simp: round_down_to_increment_def sample_translator_def)
qed

end
