(* ===== verification/Tca.thy ===== *)
theory Tca
  imports PyText
begin

text \<open>
  Transaction cost analysis (\<open>execution/tca.py\<close>) and the user stream events built from paper
  telemetry (\<open>execution/user_stream_gateway.py\<close>).
\<close>

section \<open>Signed slippage\<close>

definition side_bps :: "string \<Rightarrow> pyfloat \<Rightarrow> pyfloat \<Rightarrow> pyfloat result" where
  "side_bps side base_price observed_price =
     (let multiplier = (if str_upper side = ''BUY'' then Fin 1 else Fin (-1)) in
      rbind (fdiv (fmul multiplier (fsub observed_price base_price)) (fmax base_price f_1em9))
        (\<lambda>r. Inr (round_nd 12 (fmul r (Fin 10000)))))"

record tca_inputs =
  tca_order_id :: string
  tca_symbol :: string
  tca_side :: string
  tca_decision_price :: pyfloat
  tca_arrival_price :: pyfloat
  tca_limit_price :: "pyfloat option"
  tca_fill_price :: pyfloat
  tca_expected_slippage_bps :: pyfloat
  tca_maker_taker_fee_bps :: pyfloat
  tca_markout_prices :: "(string, pyfloat) dict"
  tca_adverse_selection_bps :: pyfloat
  tca_missed_fill_cost :: pyfloat

record tca_report =
  tcr_order_id :: string
  tcr_symbol :: string
  tcr_metrics :: "(string, pyfloat) dict"
  tcr_learning_row :: "(string, pyval) dict"

definition limit_metric :: "tca_inputs \<Rightarrow> (string \<times> pyfloat) list result" where
  "limit_metric i = (case tca_limit_price i of
      None \<Rightarrow> Inr []
    | Some p \<Rightarrow> rbind (side_bps (tca_side i) (tca_decision_price i) p)
                  (\<lambda>b. Inr [(''limit_slippage_bps'', b)]))"

definition markout_metrics :: "tca_inputs \<Rightarrow> (string \<times> pyfloat) list result" where
  "markout_metrics i =
     rmap (\<lambda>(horizon, price).
         rbind (side_bps (tca_side i) (tca_fill_price i) price)
           (\<lambda>b. Inr (''markout_'' @ horizon @ ''_bps'', b)))
       (sort_key fst (tca_markout_prices i))"

definition build_tca_report :: "tca_inputs \<Rightarrow> tca_report result" where
  "build_tca_report i =
     rbind (side_bps (tca_side i) (tca_decision_price i) (tca_arrival_price i)) (\<lambda>arrival.
     rbind (side_bps (tca_side i) (tca_decision_price i) (tca_fill_price i)) (\<lambda>realized.
     rbind (limit_metric i) (\<lambda>limit_row.
     rbind (markout_metrics i) (\<lambda>markouts.
       let metrics = dict_of
            ([(''arrival_slippage_bps'', arrival), (''realized_slippage_bps'', realized),
              (''realized_vs_expected_slippage_bps'', fsub realized (tca_expected_slippage_bps i)),
              (''maker_taker_fee_bps'', tca_maker_taker_fee_bps i),
              (''adverse_selection_bps'', tca_adverse_selection_bps i),
              (''missed_fill_cost'', tca_missed_fill_cost i)] @ limit_row @ markouts)
       in Inr \<lparr>tcr_order_id = tca_order_id i, tcr_symbol = tca_symbol i, tcr_metrics = metrics,
            tcr_learning_row = dict_of
              ([(''order_id'', PStr (tca_order_id i)), (''symbol'', PStr (tca_symbol i)),
                (''side'', PStr (str_upper (tca_side i)))] @ map (map_prod id PFloat) metrics)\<rparr>))))"

section \<open>User stream events\<close>

record user_stream_event =
  us_event_type :: string
  us_event_time :: string
  us_order_id :: "string option"
  us_symbol :: "string option"
  us_payload :: "(string \<times> pyval) list"

definition or_else :: "pyval \<Rightarrow> pyval \<Rightarrow> pyval" where
  "or_else a b = (if truthy a then a else b)"

definition user_stream_event_from_paper_telemetry :: "(string \<times> pyval) list \<Rightarrow> user_stream_event" where
  "user_stream_event_from_paper_telemetry row =
     \<lparr>us_event_type = ''ORDER_TRADE_UPDATE'',
      us_event_time = py_str (or_else (or_else (pget row ''ts_ack'') (pget row ''ts_send'')) (PStr [])),
      us_order_id = Some (py_str (or_else (pget row ''telemetry_id'') (PStr []))),
      us_symbol = Some (py_str (or_else (pget row ''symbol'') (PStr []))),
      us_payload = row\<rparr>"

section \<open>Slippage is total and antisymmetric\<close>

lemma fl_minus: "fl (- x) = fneg (fl x)"
proof -
  have "0 < limit64" by (rule limit64_pos)
  then have "\<not> (limit64 \<le> r \<and> limit64 \<le> - r)" for r by linarith
  then show ?thesis by (auto simp: fl_def Let_def)
qed

lemma fneg_fneg [simp]: "fneg (fneg x) = x"
  by (cases x) simp_all

lemma fmul_fneg: "fmul (fneg a) b = fneg (fmul a b)"
  by (cases a; cases b) (auto simp: inf_of_sign_def simp flip: fl_minus)

lemma fquot_fneg: "fquot (fneg a) b = fneg (fquot a b)"
  by (cases a; cases b) (auto simp flip: fl_minus)

lemma round_nd_fneg: "round_nd n (fneg x) = fneg (round_nd n x)"
  by (cases x) (simp_all flip: fl_minus)

lemma fmul_one: "is_f64 x \<Longrightarrow> fmul (Fin 1) x = x"
  by (cases x) (auto simp: fl_of_f64 inf_of_sign_def)

lemma fmul_minus_one: "is_f64 x \<Longrightarrow> fmul (Fin (-1)) x = fneg x"
  using fmul_fneg [of "Fin 1" x] by (simp add: fmul_one)

lemma fl_le_zero: "x \<le> 0 \<Longrightarrow> fle (fl x) (Fin 0)"
  using fl_mono [of x 0] by simp

lemma fl_ge_zero: "0 \<le> x \<Longrightarrow> fle (Fin 0) (fl x)"
  using fl_mono [of 0 x] by simp

lemma fsub_sign: "fle b a \<Longrightarrow> is_finite b \<Longrightarrow> fle (Fin 0) (fsub a b)"
  by (cases a; cases b) (auto simp: fsub_def fl_ge_zero)

lemma side_bps_Inr:
  "side_bps side base_price observed = Inr
     (round_nd 12 (fmul (fquot (fmul (if str_upper side = ''BUY'' then Fin 1 else Fin (-1))
        (fsub observed base_price)) (fmax base_price f_1em9)) (Fin 10000)))"
  by (simp add: side_bps_def Let_def fdiv_def fmax_floor_nonzero)

lemma fmax_floor_pos: "is_finite b \<Longrightarrow> \<exists>m. fmax b f_1em9 = Fin m \<and> 0 < m"
proof -
  assume b: "is_finite b"
  obtain q where q: "f_1em9 = Fin q" "1 / 2 ^ 30 \<le> q" using f_1em9_Fin by blast
  then have "0 < q" by (intro less_le_trans [OF _ q(2)]) simp
  with b show ?thesis unfolding q(1) by (cases b) (auto simp: fmax_def)
qed

text \<open>Slippage is signed by side: every cost metric of a report is computed without a division
  by zero; for float prices a seller's slippage is exactly the negation of a buyer's; and a buyer
  who pays at least the reference price never shows negative slippage.\<close>

lemma slippage_signed_by_side:
  assumes "is_f64 base_price" "is_f64 observed" "is_finite base_price" "is_finite observed"
    and "str_upper buy = ''BUY''" "str_upper sell \<noteq> ''BUY''"
  shows "\<exists>x. side_bps buy base_price observed = Inr x
    \<and> side_bps sell base_price observed = Inr (fneg x)
    \<and> (fle base_price observed \<longrightarrow> fle (Fin 0) x)"
proof -
  let ?d = "fsub observed base_price" and ?m = "fmax base_price f_1em9"
  let ?x = "round_nd 12 (fmul (fquot ?d ?m) (Fin 10000))"
  have d: "is_f64 ?d" unfolding fsub_def using assms(1,2) by (intro is_f64_fadd) simp_all
  have b: "side_bps buy base_price observed = Inr ?x"
    by (simp add: side_bps_Inr assms(5) fmul_one [OF d])
  have s: "side_bps sell base_price observed = Inr (fneg ?x)"
    by (simp add: side_bps_Inr assms(6) fmul_minus_one [OF d] fquot_fneg fmul_fneg round_nd_fneg)
  have "fle (Fin 0) ?x" if le: "fle base_price observed"
  proof -
    obtain m where m: "?m = Fin m" "0 < m" using fmax_floor_pos [OF assms(3)] by blast
    have "fle (Fin 0) ?d" by (rule fsub_sign [OF le assms(3)])
    then have q: "fle (Fin 0) (fquot ?d ?m)"
      unfolding m(1) using m(2) by (cases ?d) (auto simp: fl_ge_zero)
    then have "fle (Fin 0) (fmul (fquot ?d ?m) (Fin 10000))"
      by (cases "fquot ?d ?m") (auto simp: fl_ge_zero inf_of_sign_def)
    then show ?thesis by (rule round_nd_nonneg)
  qed
  with b s show ?thesis by blast
qed

lemma slippage_signed_by_side_witness:
  "\<exists>x. side_bps ''buy'' (Fin 100) (Fin 101) = Inr x
     \<and> side_bps ''sell'' (Fin 100) (Fin 101) = Inr (fneg x) \<and> fle (Fin 0) x"
proof -
  have f: "is_f64 (Fin 100)" "is_f64 (Fin 101)" by (simp_all add: is_f64_numeral)
  have u: "str_upper ''buy'' = ''BUY''" "str_upper ''sell'' \<noteq> ''BUY''"
    by code_simp+
  from slippage_signed_by_side [OF f _ _ u] show ?thesis by simp
qed

text \<open>Reports exist for every input, and every metric is present.\<close>

lemma limit_metric_total: "\<exists>r. limit_metric i = Inr r"
  by (simp add: limit_metric_def side_bps_Inr split: option.split)

lemma markout_metrics_total: "\<exists>r. markout_metrics i = Inr r"
proof -
  have "\<exists>r. rmap (\<lambda>(horizon, price). rbind (side_bps s f price)
      (\<lambda>b. Inr (''markout_'' @ horizon @ ''_bps'', b))) xs = Inr r" for s f xs
    by (induction xs) (auto simp: side_bps_Inr)
  then show ?thesis by (simp add: markout_metrics_def)
qed

lemma build_tca_report_total:
  "\<exists>r. build_tca_report i = Inr r \<and> dict_ok (tcr_metrics r) \<and> dict_ok (tcr_learning_row r)"
  using limit_metric_total [of i] markout_metrics_total [of i]
  by (auto simp: build_tca_report_def Let_def side_bps_Inr)

end
