(* ===== verification/EventStore.thy ===== *)
theory EventStore
  imports PyText Contracts
begin

text \<open>
  The execution event store (\<open>memory/store.py\<close>): the hash-chained event table and the live tables
  (orders, fills, positions, risk state) that are rebuilt by replaying it.  A JSON column is
  identified with the value it denotes, a keyed table is a dictionary by its primary key, and the
  digests (of an event's payload, of a text, of the live tables) are parameters.  A NaN that is
  written to a REAL column is stored as NULL, as SQLite does.
\<close>

section \<open>SQL values\<close>

fun sql_opt :: "pyfloat option \<Rightarrow> pyfloat option" where
  "sql_opt (Some NaN) = None"
| "sql_opt x = x"

definition sql_required :: "string \<Rightarrow> pyfloat \<Rightarrow> pyfloat result" where
  "sql_required column x =
     (if x = NaN then Inl (IntegrityError (''NOT NULL constraint failed: '' @ column)) else Inr x)"

text \<open>\<open>NOT NULL DEFAULT 0\<close> under \<open>INSERT OR REPLACE\<close>.\<close>

definition sql_default0 :: "pyfloat \<Rightarrow> pyfloat" where
  "sql_default0 x = (if x = NaN then Fin 0 else x)"

definition filled_str :: "string option \<Rightarrow> bool" where
  "filled_str x \<longleftrightarrow> (case x of None \<Rightarrow> False | Some s \<Rightarrow> s \<noteq> [])"

definition str_or :: "string option \<Rightarrow> string \<Rightarrow> string" where
  "str_or x d = (case x of None \<Rightarrow> d | Some s \<Rightarrow> if s = [] then d else s)"

definition opt_str :: "string option \<Rightarrow> pyval" where
  "opt_str x = (case x of None \<Rightarrow> PNone | Some s \<Rightarrow> PStr s)"

definition opt_num :: "pyfloat option \<Rightarrow> pyval" where
  "opt_num x = (case x of None \<Rightarrow> PNone | Some f \<Rightarrow> PFloat f)"

lemma opt_str_inj [simp]: "opt_str x = opt_str y \<longleftrightarrow> x = y"
  by (simp add: opt_str_def split: option.split)

lemma opt_num_inj [simp]: "opt_num x = opt_num y \<longleftrightarrow> x = y"
  by (simp add: opt_num_def split: option.split)

section \<open>Events\<close>

definition execution_event_types :: "string list" where
  "execution_event_types =
     [''INTENT_CREATE'', ''ORDER_SUBMIT'', ''ORDER_ACK'', ''FILL'', ''ORDER_CANCEL_REQUEST'',
      ''ORDER_NEW_SUBMIT'', ''ORDER_NEW_ACK'', ''ORDER_PARTIAL_FILL'', ''ORDER_FILL'',
      ''ORDER_CANCEL_SUBMIT'', ''ORDER_CANCEL_ACK'', ''ORDER_CANCEL_REJECT'', ''ORDER_REJECT'',
      ''ACCOUNT_SNAPSHOT'', ''RISK_BLOCK'', ''POSITION_RECONCILE'', ''KILL_SWITCH_TRIGGER'',
      ''ENGINE_START'', ''ENGINE_STOP'', ''ENGINE_RECOVER_REPLAY'']"

record event_input =
  ei_ts_exchange :: string
  ei_ts_gateway :: string
  ei_ts_engine :: string
  ei_source :: string
  ei_event_type :: string
  ei_symbol :: "string option"
  ei_side :: "string option"
  ei_order_id_client :: "string option"
  ei_order_id_exchange :: "string option"
  ei_parent_intent_id :: "string option"
  ei_qty :: "pyfloat option"
  ei_price :: "pyfloat option"
  ei_status :: "string option"
  ei_reason_code :: "string option"
  ei_metadata :: "(string \<times> pyval) list"
  ei_schema_version :: int

record stored_event = event_input +
  ee_event_id :: int
  ee_previous_digest :: "string option"
  ee_event_digest :: string
  ee_segment_digest :: string

definition event_payload :: "string \<Rightarrow> event_input \<Rightarrow> pyval" where
  "event_payload previous x = PDict
     [(''previous_digest'', PStr previous), (''ts_exchange'', PStr (ei_ts_exchange x)),
      (''ts_gateway'', PStr (ei_ts_gateway x)), (''ts_engine'', PStr (ei_ts_engine x)),
      (''source'', PStr (ei_source x)), (''symbol'', opt_str (ei_symbol x)),
      (''side'', opt_str (ei_side x)), (''order_id_client'', opt_str (ei_order_id_client x)),
      (''order_id_exchange'', opt_str (ei_order_id_exchange x)),
      (''parent_intent_id'', opt_str (ei_parent_intent_id x)),
      (''event_type'', PStr (ei_event_type x)), (''qty'', opt_num (ei_qty x)),
      (''price'', opt_num (ei_price x)), (''status'', opt_str (ei_status x)),
      (''reason_code'', opt_str (ei_reason_code x)), (''metadata_json'', PDict (ei_metadata x)),
      (''schema_version'', PInt (ei_schema_version x))]"

definition last_digest :: "stored_event list \<Rightarrow> string" where
  "last_digest es = (if es = [] then [] else ee_event_digest (last es))"

definition append_execution_event ::
    "stable_hash \<Rightarrow> (string \<Rightarrow> string) \<Rightarrow> event_input \<Rightarrow> stored_event list
     \<Rightarrow> stored_event list result" where
  "append_execution_event H T x es =
     (if ei_event_type x \<notin> set execution_event_types
      then Inl (IntegrityError ''CHECK constraint failed: event_type'')
      else
        let previous = last_digest es;
            digest = H (event_payload previous x)
        in Inr (es @ [event_input.extend
              (x\<lparr>ei_qty := sql_opt (ei_qty x), ei_price := sql_opt (ei_price x)\<rparr>)
              \<lparr>ee_event_id = int (length es) + 1,
               ee_previous_digest = (if previous = [] then None else Some previous),
               ee_event_digest = digest,
               ee_segment_digest = T (previous @ '':'' @ digest)\<rparr>]))"

definition event_log ::
    "stable_hash \<Rightarrow> (string \<Rightarrow> string) \<Rightarrow> event_input list \<Rightarrow> stored_event list result" where
  "event_log H T xs = rfold (append_execution_event H T) xs []"

section \<open>The live tables\<close>

record order_row =
  or_symbol :: "string option"
  or_side :: "string option"
  or_price :: "pyfloat option"
  or_qty :: "pyfloat option"
  or_filled_qty :: pyfloat
  or_status :: string
  or_order_id_exchange :: "string option"
  or_parent_intent_id :: "string option"
  or_last_event_id :: int
  or_metadata :: "(string \<times> pyval) list"

record fill_row =
  fr_order_id_client :: "string option"
  fr_ts_exchange :: string
  fr_symbol :: "string option"
  fr_side :: "string option"
  fr_price :: "pyfloat option"
  fr_qty :: "pyfloat option"
  fr_fee :: "pyfloat option"
  fr_maker_taker :: "string option"
  fr_liquidity_flag :: "string option"
  fr_source_event_id :: int
  fr_metadata :: "(string \<times> pyval) list"

record position_row =
  po_net_qty :: pyfloat
  po_entry_price :: "pyfloat option"
  po_unrealized_pnl :: pyfloat
  po_last_event_id :: int
  po_metadata :: "(string \<times> pyval) list"

record risk_row =
  rs_exposure :: pyfloat
  rs_margin_usage :: pyfloat
  rs_realized_pnl :: pyfloat
  rs_unrealized_pnl :: pyfloat
  rs_drawdown :: pyfloat
  rs_last_event_id :: int
  rs_metadata :: "(string \<times> pyval) list"

record live_tables =
  lt_orders :: "(string, order_row) dict"
  lt_fills :: "(string, fill_row) dict"
  lt_positions :: "(string, position_row) dict"
  lt_risk :: "(string, risk_row) dict"

record replay_state =
  rp_orders :: "(string, order_row) dict"
  rp_fills :: "(string, fill_row) dict"
  rp_risk :: "(string, risk_row) dict"
  rp_position_qty :: "(string, pyfloat) dict"
  rp_position_cost :: "(string, pyfloat) dict"
  rp_seen :: "string set"

definition rp_start :: replay_state where
  "rp_start = \<lparr>rp_orders = [], rp_fills = [], rp_risk = [], rp_position_qty = [],
     rp_position_cost = [], rp_seen = {}\<rparr>"

definition order_events :: "string list" where
  "order_events =
     [''INTENT_CREATE'', ''ORDER_SUBMIT'', ''ORDER_ACK'', ''FILL'', ''ORDER_CANCEL_REQUEST'',
      ''ORDER_NEW_SUBMIT'', ''ORDER_NEW_ACK'', ''ORDER_PARTIAL_FILL'', ''ORDER_FILL'',
      ''ORDER_CANCEL_SUBMIT'', ''ORDER_CANCEL_ACK'', ''ORDER_CANCEL_REJECT'', ''ORDER_REJECT'']"

definition fill_events :: "string list" where
  "fill_events = [''ORDER_PARTIAL_FILL'', ''ORDER_FILL'', ''FILL'']"

definition or_zero :: "pyfloat option \<Rightarrow> pyfloat" where
  "or_zero x = (case x of None \<Rightarrow> Fin 0 | Some f \<Rightarrow> f)"

definition signed_quantity :: "string option \<Rightarrow> pyfloat option \<Rightarrow> pyfloat" where
  "signed_quantity side qty =
     (case qty of None \<Rightarrow> Fin 0
      | Some q \<Rightarrow> fmul (if str_upper (str_or side []) = ''SELL'' then Fin (-1) else Fin 1) (fabs q))"

fun num_or_none :: "pyval \<Rightarrow> pyfloat option result" where
  "num_or_none (PInt i) = rbind (of_pyint i) (\<lambda>f. Inr (Some f))"
| "num_or_none (PFloat f) = Inr (Some f)"
| "num_or_none _ = Inr None"

definition str_or_none :: "pyval \<Rightarrow> string option" where
  "str_or_none v = (if v = PNone then None else Some (py_str v))"

definition event_fill_id :: "stored_event \<Rightarrow> string" where
  "event_fill_id e =
     (let v = pget (ei_metadata e) ''fill_id''
      in if truthy v then py_str v else ''event:'' @ int_text (ee_event_id e))"

definition record_fill :: "stored_event \<Rightarrow> string \<Rightarrow> replay_state \<Rightarrow> replay_state result" where
  "record_fill e fill_id s =
     rbind (num_or_none (pget (ei_metadata e) ''fee'')) (\<lambda>fee.
       let row = \<lparr>fr_order_id_client = ei_order_id_client e, fr_ts_exchange = ei_ts_exchange e,
                  fr_symbol = ei_symbol e, fr_side = ei_side e, fr_price = ei_price e,
                  fr_qty = Some (fabs (or_zero (ei_qty e))), fr_fee = sql_opt fee,
                  fr_maker_taker = str_or_none (pget (ei_metadata e) ''maker_taker''),
                  fr_liquidity_flag = str_or_none (pget (ei_metadata e) ''liquidity_flag''),
                  fr_source_event_id = ee_event_id e, fr_metadata = ei_metadata e\<rparr>;
           fills = (if fill_id \<in> dkeys (rp_fills s) then rp_fills s
                    else AList.update fill_id row (rp_fills s));
           s1 = s\<lparr>rp_seen := insert fill_id (rp_seen s), rp_fills := fills\<rparr>;
           signed = signed_quantity (ei_side e) (ei_qty e)
       in Inr (case ei_symbol e of
                 None \<Rightarrow> s1
               | Some y \<Rightarrow>
                   if y = [] then s1
                   else s1\<lparr>rp_position_qty := AList.update y
                             (fadd (dget (rp_position_qty s) y (Fin 0)) signed) (rp_position_qty s),
                           rp_position_cost := AList.update y
                             (fadd (dget (rp_position_cost s) y (Fin 0))
                               (fmul signed (or_zero (ei_price e)))) (rp_position_cost s)\<rparr>))"

definition replay_order :: "stored_event \<Rightarrow> string \<Rightarrow> replay_state \<Rightarrow> replay_state result" where
  "replay_order e oid s =
     (let existing = map_of (rp_orders s) oid;
          order_qty = (case existing of
              None \<Rightarrow> or_zero (ei_qty e)
            | Some r \<Rightarrow> (case or_qty r of None \<Rightarrow> or_zero (ei_qty e) | Some q \<Rightarrow> q));
          filled = (case existing of None \<Rightarrow> Fin 0 | Some r \<Rightarrow> or_filled_qty r);
          fill_id = event_fill_id e;
          fresh = (ei_event_type e \<in> set fill_events \<and> fill_id \<notin> rp_seen s);
          filled_qty = (if fresh then fadd filled (fabs (or_zero (ei_qty e))) else filled)
      in rbind (if fresh then record_fill e fill_id s else Inr s) (\<lambda>s1.
           Inr (s1\<lparr>rp_orders := AList.update oid
             \<lparr>or_symbol = ei_symbol e, or_side = ei_side e, or_price = ei_price e,
              or_qty = Some order_qty, or_filled_qty = sql_default0 filled_qty,
              or_status = str_or (ei_status e) (ei_event_type e),
              or_order_id_exchange = ei_order_id_exchange e,
              or_parent_intent_id = ei_parent_intent_id e, or_last_event_id = ee_event_id e,
              or_metadata = ei_metadata e\<rparr> (rp_orders s1)\<rparr>)))"

definition replay_event :: "stored_event \<Rightarrow> replay_state \<Rightarrow> replay_state result" where
  "replay_event e s =
     rbind (case ei_order_id_client e of
              None \<Rightarrow> Inr s
            | Some oid \<Rightarrow> if oid = [] \<or> ei_event_type e \<notin> set order_events then Inr s
                          else replay_order e oid s) (\<lambda>s1.
       Inr (if ei_event_type e = ''RISK_BLOCK''
            then s1\<lparr>rp_risk := AList.update (str_or (ei_reason_code e) ''risk_block'')
                   \<lparr>rs_exposure = Fin 0, rs_margin_usage = Fin 0, rs_realized_pnl = Fin 0,
                    rs_unrealized_pnl = Fin 0, rs_drawdown = Fin 0,
                    rs_last_event_id = ee_event_id e, rs_metadata = ei_metadata e\<rparr> (rp_risk s1)\<rparr>
            else s1))"

definition last_event_id :: "stored_event list \<Rightarrow> int" where
  "last_event_id es = (if es = [] then 0 else ee_event_id (last es))"

definition position_of ::
    "stored_event list \<Rightarrow> replay_state \<Rightarrow> string \<times> pyfloat \<Rightarrow> (string \<times> position_row) result" where
  "position_of es s sq =
     rbind (sql_required ''positions.net_qty'' (snd sq)) (\<lambda>net.
       Inr (fst sq, \<lparr>po_net_qty = net,
         po_entry_price = (if net = Fin 0 then None
           else sql_opt (Some (fabs (fquot (dget (rp_position_cost s) (fst sq) (Fin 0)) net)))),
         po_unrealized_pnl = Fin 0, po_last_event_id = last_event_id es,
         po_metadata = [(''source'', PStr ''execution_event_replay'')]\<rparr>))"

definition replay_tables :: "stored_event list \<Rightarrow> (live_tables \<times> nat) result" where
  "replay_tables es =
     rbind (rfold replay_event es rp_start) (\<lambda>s.
     rbind (rmap (position_of es s) (rp_position_qty s)) (\<lambda>ps.
       Inr (\<lparr>lt_orders = rp_orders s, lt_fills = rp_fills s, lt_positions = dict_of ps,
             lt_risk = rp_risk s\<rparr>, card (rp_seen s))))"

section \<open>The chain of events\<close>

lemma append_Inr:
  "append_execution_event H T x es = Inr fs \<longleftrightarrow>
     ei_event_type x \<in> set execution_event_types
     \<and> fs = es @ [event_input.extend
              (x\<lparr>ei_qty := sql_opt (ei_qty x), ei_price := sql_opt (ei_price x)\<rparr>)
              \<lparr>ee_event_id = int (length es) + 1,
               ee_previous_digest = (if last_digest es = [] then None else Some (last_digest es)),
               ee_event_digest = H (event_payload (last_digest es) x),
               ee_segment_digest = T (last_digest es @ '':'' @ H (event_payload (last_digest es) x))\<rparr>]"
  by (auto simp: append_execution_event_def Let_def)

lemma event_log_snoc:
  "event_log H T (xs @ [x]) = rbind (event_log H T xs) (append_execution_event H T x)"
  by (simp add: event_log_def rfold_append rbind_def split: sum.split)

lemma event_log_Nil [simp]: "event_log H T [] = Inr []"
  by (simp add: event_log_def)

lemma event_log_length: "event_log H T xs = Inr es \<Longrightarrow> length es = length xs"
  by (induction xs arbitrary: es rule: rev_induct) (auto simp: event_log_snoc rbind_Inr_iff append_Inr)

lemma event_payload_inj:
  "event_payload p x = event_payload q y \<Longrightarrow> p = q \<and> x = y"
  by (cases x; cases y) (simp add: event_payload_def)

text \<open>The payloads whose digests a log contains.\<close>

fun log_payloads :: "stable_hash \<Rightarrow> string \<Rightarrow> event_input list \<Rightarrow> pyval set" where
  "log_payloads H previous [] = {}"
| "log_payloads H previous (x # xs) =
     insert (event_payload previous x) (log_payloads H (H (event_payload previous x)) xs)"

fun chain_digest :: "stable_hash \<Rightarrow> string \<Rightarrow> event_input list \<Rightarrow> string" where
  "chain_digest H previous [] = previous"
| "chain_digest H previous (x # xs) = chain_digest H (H (event_payload previous x)) xs"

lemma chain_digest_append: "chain_digest H p (xs @ ys) = chain_digest H (chain_digest H p xs) ys"
  by (induction xs arbitrary: p) simp_all

lemma log_payloads_append:
  "log_payloads H p (xs @ ys) = log_payloads H p xs \<union> log_payloads H (chain_digest H p xs) ys"
  by (induction xs arbitrary: p) simp_all

lemma event_log_digest: "event_log H T xs = Inr es \<Longrightarrow> last_digest es = chain_digest H [] xs"
proof (induction xs arbitrary: es rule: rev_induct)
  case (snoc x xs)
  then obtain ds where "event_log H T xs = Inr ds" "append_execution_event H T x ds = Inr es"
    by (auto simp: event_log_snoc rbind_Inr_iff)
  with snoc.IH [of ds] show ?case
    by (auto simp: append_Inr chain_digest_append last_digest_def event_input.defs)
qed (simp add: last_digest_def)

lemma chain_digest_eq:
  assumes "inj_on H (log_payloads H [] xs \<union> log_payloads H [] ys)" "hex_digest H"
    and "chain_digest H [] xs = chain_digest H [] ys"
  shows "xs = ys"
  using assms
proof (induction xs arbitrary: ys rule: rev_induct)
  case Nil
  show ?case
  proof (cases ys rule: rev_exhaust)
    case (snoc zs z)
    with Nil have "[] = H (event_payload (chain_digest H [] zs) z)" by (simp add: chain_digest_append)
    moreover have "length (H (event_payload (chain_digest H [] zs) z)) = 64"
      using Nil(2) by (simp add: hex_digest_def)
    ultimately show ?thesis by (metis list.size(3) zero_neq_numeral)
  qed simp
next
  case (snoc x xs)
  show ?case
  proof (cases ys rule: rev_exhaust)
    case Nil
    with snoc.prems(3) have "H (event_payload (chain_digest H [] xs) x) = []" by (simp add: chain_digest_append)
    moreover have "length (H (event_payload (chain_digest H [] xs) x)) = 64"
      using snoc.prems(2) by (simp add: hex_digest_def)
    ultimately show ?thesis by (metis list.size(3) zero_neq_numeral)
  next
    case (snoc zs z)
    let ?p = "event_payload (chain_digest H [] xs) x" and ?q = "event_payload (chain_digest H [] zs) z"
    have "H ?p = H ?q" using \<open>chain_digest H [] (xs @ [x]) = chain_digest H [] ys\<close> snoc
      by (simp add: chain_digest_append)
    moreover have "?p \<in> log_payloads H [] (xs @ [x])" "?q \<in> log_payloads H [] ys"
      by (simp_all add: snoc log_payloads_append)
    ultimately have "?p = ?q" using snoc.prems(1) by (meson UnI1 UnI2 inj_onD)
    then have e: "chain_digest H [] xs = chain_digest H [] zs" "x = z"
      using event_payload_inj by blast+
    have "inj_on H (log_payloads H [] xs \<union> log_payloads H [] zs)"
      using snoc.prems(1) unfolding snoc log_payloads_append by (rule inj_on_subset) auto
    from snoc.IH [OF this snoc.prems(2) e(1)] e(2) snoc show ?thesis by simp
  qed
qed

lemma event_log_ids: "event_log H T xs = Inr es \<Longrightarrow> map ee_event_id es = map int [1..<Suc (length es)]"
proof (induction xs arbitrary: es rule: rev_induct)
  case (snoc x xs)
  then obtain ds where "event_log H T xs = Inr ds" "append_execution_event H T x ds = Inr es"
    by (auto simp: event_log_snoc rbind_Inr_iff)
  with snoc.IH [of ds] show ?case by (auto simp: append_Inr event_input.defs)
qed simp

text \<open>C13. The event log is tamper-evident: when the digest separates the payloads of two logs, logs
  whose last events carry the same digest were written by the same appends, so they agree in every
  event; and the events of a log are numbered from one without a gap.\<close>

theorem event_log_tamper_evident:
  assumes "event_log H T xs = Inr es" "event_log H T ys = Inr fs" "hex_digest H"
    and "inj_on H (log_payloads H [] xs \<union> log_payloads H [] ys)"
    and "last_digest es = last_digest fs"
  shows "xs = ys \<and> es = fs \<and> map ee_event_id es = map int [1..<Suc (length es)]"
  using chain_digest_eq [OF assms(4,3)] event_log_digest [OF assms(1)] event_log_digest [OF assms(2)]
    event_log_ids [OF assms(1)] assms by simp

definition sample_input :: "string \<Rightarrow> string \<Rightarrow> event_input" where
  "sample_input kind fill =
     \<lparr>ei_ts_exchange = ''t'', ei_ts_gateway = ''t'', ei_ts_engine = ''t'', ei_source = ''paper'',
      ei_event_type = kind, ei_symbol = Some ''BTCUSDT'', ei_side = Some ''BUY'',
      ei_order_id_client = Some ''o1'', ei_order_id_exchange = None, ei_parent_intent_id = None,
      ei_qty = Some (Fin 2), ei_price = Some (Fin 10), ei_status = None, ei_reason_code = None,
      ei_metadata = [(''fill_id'', PStr fill)], ei_schema_version = 1\<rparr>"

definition kind_hash :: stable_hash where
  "kind_hash v = replicate 64 (case v of
     PDict d \<Rightarrow> if pget d ''event_type'' = PStr ''ORDER_ACK'' then CHR ''1'' else CHR ''0''
   | _ \<Rightarrow> CHR ''0'')"

theorem event_log_tamper_evident_witness:
  "\<exists>es. event_log kind_hash id [sample_input ''ORDER_ACK'' ''a'', sample_input ''FILL'' ''f''] = Inr es
     \<and> map ee_event_id es = [1, 2]"
proof -
  let ?xs = "[sample_input ''ORDER_ACK'' ''a'', sample_input ''FILL'' ''f'']"
  have "sample_input ''ORDER_ACK'' ''a'' \<noteq> sample_input ''FILL'' ''f''" by (simp add: sample_input_def)
  have i: "inj_on kind_hash (log_payloads kind_hash [] ?xs \<union> log_payloads kind_hash [] ?xs)"
    by (simp add: inj_on_def event_payload_def kind_hash_def sample_input_def)
  obtain es where e: "event_log kind_hash id ?xs = Inr es"
    by (simp add: event_log_def append_execution_event_def execution_event_types_def sample_input_def
        rbind_def Let_def)
  have "hex_digest kind_hash" by (simp add: hex_digest_def kind_hash_def)
  from event_log_tamper_evident [OF e e this i refl] event_log_length [OF e] e show ?thesis
    by (auto simp: upt_rec)
qed

section \<open>The live tables agree with the fills\<close>

definition order_fill_qty :: "(string, fill_row) dict \<Rightarrow> string \<Rightarrow> pyfloat" where
  "order_fill_qty fills oid =
     foldl fadd (Fin 0) (map (\<lambda>fr. or_zero (fr_qty (snd fr)))
       (filter (\<lambda>fr. fr_order_id_client (snd fr) = Some oid) fills))"

definition symbol_fill_qty :: "(string, fill_row) dict \<Rightarrow> string \<Rightarrow> pyfloat" where
  "symbol_fill_qty fills y =
     foldl fadd (Fin 0) (map (\<lambda>fr. signed_quantity (fr_side (snd fr)) (fr_qty (snd fr)))
       (filter (\<lambda>fr. fr_symbol (snd fr) = Some y) fills))"

lemma update_fresh: "k \<notin> dkeys d \<Longrightarrow> AList.update k v d = d @ [(k, v)]"
  by (induction d) (auto simp: dkeys_def)

definition qty_ok :: "fill_row \<Rightarrow> bool" where
  "qty_ok r \<longleftrightarrow> fle (Fin 0) (or_zero (fr_qty r))"

lemma fadd_nonneg: "fle (Fin 0) a \<Longrightarrow> fle (Fin 0) b \<Longrightarrow> fle (Fin 0) (fadd a b)"
  by (cases a; cases b) (auto intro: fl_ge_Fin)

lemma foldl_fadd_nonneg:
  "fle (Fin 0) a \<Longrightarrow> \<forall>x \<in> set xs. fle (Fin 0) x \<Longrightarrow> fle (Fin 0) (foldl fadd a xs)"
  by (induction xs arbitrary: a) (simp_all add: fadd_nonneg)

lemma order_fill_qty_nonneg: "\<forall>(k, r) \<in> set fills. qty_ok r \<Longrightarrow> fle (Fin 0) (order_fill_qty fills oid)"
  unfolding order_fill_qty_def by (rule foldl_fadd_nonneg) (auto simp: qty_ok_def)

definition replay_inv :: "replay_state \<Rightarrow> bool" where
  "replay_inv s \<longleftrightarrow>
     dict_ok (rp_fills s) \<and> dict_ok (rp_orders s) \<and> dict_ok (rp_position_qty s)
     \<and> rp_seen s = dkeys (rp_fills s)
     \<and> (\<forall>(k, r) \<in> set (rp_fills s). qty_ok r)
     \<and> (\<forall>oid. (case map_of (rp_orders s) oid of None \<Rightarrow> Fin 0 | Some r \<Rightarrow> or_filled_qty r)
             = order_fill_qty (rp_fills s) oid)
     \<and> (\<forall>y. y \<noteq> [] \<longrightarrow> dget (rp_position_qty s) y (Fin 0) = symbol_fill_qty (rp_fills s) y)"

lemma signed_quantity_abs:
  "signed_quantity side (Some (fabs (or_zero q))) = signed_quantity side q"
proof -
  have "fabs (fabs x) = fabs x" for x by (cases x) simp_all
  moreover have "fl 0 = Fin 0" using fl_of_int [of 0] by simp
  ultimately show ?thesis by (simp add: signed_quantity_def or_zero_def split: option.split)
qed

definition fill_of :: "stored_event \<Rightarrow> pyfloat option \<Rightarrow> fill_row" where
  "fill_of e fee =
     \<lparr>fr_order_id_client = ei_order_id_client e, fr_ts_exchange = ei_ts_exchange e,
      fr_symbol = ei_symbol e, fr_side = ei_side e, fr_price = ei_price e,
      fr_qty = Some (fabs (or_zero (ei_qty e))), fr_fee = sql_opt fee,
      fr_maker_taker = str_or_none (pget (ei_metadata e) ''maker_taker''),
      fr_liquidity_flag = str_or_none (pget (ei_metadata e) ''liquidity_flag''),
      fr_source_event_id = ee_event_id e, fr_metadata = ei_metadata e\<rparr>"

text \<open>What one fresh fill does to the replay state.\<close>

lemma record_fill_Inr:
  assumes "record_fill e f s = Inr t" "f \<notin> dkeys (rp_fills s)"
  shows "\<exists>fee. rp_fills t = rp_fills s @ [(f, fill_of e fee)] \<and> rp_seen t = insert f (rp_seen s)
    \<and> rp_orders t = rp_orders s \<and> rp_risk t = rp_risk s
    \<and> (\<forall>y. y \<noteq> [] \<longrightarrow> dget (rp_position_qty t) y (Fin 0) =
         (if ei_symbol e = Some y
          then fadd (dget (rp_position_qty s) y (Fin 0)) (signed_quantity (ei_side e) (ei_qty e))
          else dget (rp_position_qty s) y (Fin 0)))
    \<and> (dict_ok (rp_position_qty s) \<longrightarrow> dict_ok (rp_position_qty t))"
proof -
  from assms(1) obtain fee where "num_or_none (pget (ei_metadata e) ''fee'') = Inr fee"
    and "t = (let s1 = s\<lparr>rp_seen := insert f (rp_seen s),
                rp_fills := AList.update f (fill_of e fee) (rp_fills s)\<rparr>;
              signed = signed_quantity (ei_side e) (ei_qty e)
       in case ei_symbol e of
            None \<Rightarrow> s1
          | Some y \<Rightarrow>
              if y = [] then s1
              else s1\<lparr>rp_position_qty := AList.update y
                        (fadd (dget (rp_position_qty s) y (Fin 0)) signed) (rp_position_qty s),
                      rp_position_cost := AList.update y
                        (fadd (dget (rp_position_cost s) y (Fin 0))
                          (fmul signed (or_zero (ei_price e)))) (rp_position_cost s)\<rparr>)"
    using assms(2) by (auto simp: record_fill_def rbind_Inr_iff fill_of_def Let_def)
  then show ?thesis
    by (intro exI [of _ fee])
      (auto simp: Let_def update_fresh [OF assms(2)] split: option.split)
qed

lemma qty_ok_fill: "ei_qty e \<noteq> Some NaN \<Longrightarrow> qty_ok (fill_of e fee)"
  by (cases "ei_qty e")
    (auto simp: qty_ok_def fill_of_def or_zero_def intro: fabs_nonneg)

lemma order_fill_qty_snoc:
  "order_fill_qty (fills @ [(f, r)]) oid =
     (if fr_order_id_client r = Some oid
      then fadd (order_fill_qty fills oid) (or_zero (fr_qty r)) else order_fill_qty fills oid)"
  by (simp add: order_fill_qty_def)

lemma symbol_fill_qty_snoc:
  "symbol_fill_qty (fills @ [(f, r)]) y =
     (if fr_symbol r = Some y
      then fadd (symbol_fill_qty fills y) (signed_quantity (fr_side r) (fr_qty r))
      else symbol_fill_qty fills y)"
  by (simp add: symbol_fill_qty_def)

lemma replay_order_inv:
  assumes "replay_inv s" "replay_order e oid s = Inr t" "ei_order_id_client e = Some oid"
    "ei_qty e \<noteq> Some NaN"
  shows "replay_inv t"
proof -
  define fresh where "fresh \<longleftrightarrow> ei_event_type e \<in> set fill_events \<and> event_fill_id e \<notin> rp_seen s"
  define filled where "filled = (case map_of (rp_orders s) oid of None \<Rightarrow> Fin 0 | Some r \<Rightarrow> or_filled_qty r)"
  from assms(2) obtain s1 row where s1: "(if fresh then record_fill e (event_fill_id e) s else Inr s) = Inr s1"
    and t: "t = s1\<lparr>rp_orders := AList.update oid row (rp_orders s1)\<rparr>"
    and row: "or_filled_qty row = sql_default0 (if fresh then fadd filled (fabs (or_zero (ei_qty e))) else filled)"
    by (auto simp: replay_order_def rbind_Inr_iff fresh_def filled_def Let_def)
  have filled: "filled = order_fill_qty (rp_fills s) oid"
    using assms(1) by (simp add: replay_inv_def filled_def)
  have nn: "fle (Fin 0) filled"
    unfolding filled using assms(1) by (intro order_fill_qty_nonneg) (simp add: replay_inv_def)
  have dflt: "fle (Fin 0) x \<Longrightarrow> sql_default0 x = x" for x by (auto simp: sql_default0_def)
  show ?thesis
  proof (cases fresh)
    case False
    with s1 t row nn filled assms(1) dflt show ?thesis by (simp add: replay_inv_def)
  next
    case True
    then have new: "event_fill_id e \<notin> dkeys (rp_fills s)"
      using assms(1) by (simp add: fresh_def replay_inv_def)
    from True s1 have "record_fill e (event_fill_id e) s = Inr s1" by simp
    from record_fill_Inr [OF this new] obtain fee where f:
      "rp_fills s1 = rp_fills s @ [(event_fill_id e, fill_of e fee)]"
      "rp_seen s1 = insert (event_fill_id e) (rp_seen s)" "rp_orders s1 = rp_orders s"
      "\<forall>y. y \<noteq> [] \<longrightarrow> dget (rp_position_qty s1) y (Fin 0) =
         (if ei_symbol e = Some y
          then fadd (dget (rp_position_qty s) y (Fin 0)) (signed_quantity (ei_side e) (ei_qty e))
          else dget (rp_position_qty s) y (Fin 0))"
      "dict_ok (rp_position_qty s) \<longrightarrow> dict_ok (rp_position_qty s1)"
      by blast
    have q: "fle (Fin 0) (fabs (or_zero (ei_qty e)))"
      using qty_ok_fill [OF assms(4), of fee] by (simp add: qty_ok_def fill_of_def or_zero_def)
    have "dict_ok (rp_fills s1)"
      using assms(1) new f(1) by (auto simp: replay_inv_def dict_ok_def dkeys_def)
    moreover have "rp_seen s1 = dkeys (rp_fills s1)"
      using assms(1) f(1,2) by (auto simp: replay_inv_def dkeys_def)
    moreover have "\<forall>(k, r) \<in> set (rp_fills s1). qty_ok r"
      using assms(1,4) f(1) qty_ok_fill by (auto simp: replay_inv_def)
    moreover have "symbol_fill_qty (rp_fills s1) y = dget (rp_position_qty s1) y (Fin 0)" if "y \<noteq> []" for y
      using assms(1) f(4) that
      by (auto simp: replay_inv_def f(1) symbol_fill_qty_snoc fill_of_def signed_quantity_abs)
    moreover have "(case map_of (AList.update oid row (rp_orders s)) p of None \<Rightarrow> Fin 0 | Some r \<Rightarrow> or_filled_qty r)
        = order_fill_qty (rp_fills s1) p" for p
    proof (cases "p = oid")
      case True
      then show ?thesis
        using row \<open>fresh\<close> assms(3) dflt [OF fadd_nonneg [OF nn q]]
        by (simp add: f(1) order_fill_qty_snoc fill_of_def filled or_zero_def)
    next
      case False
      then show ?thesis
        using assms(1,3) by (simp add: f(1) order_fill_qty_snoc fill_of_def replay_inv_def)
    qed
    ultimately show ?thesis
      using assms(1) f(3,5) t by (simp add: replay_inv_def)
  qed
qed

lemma replay_event_inv:
  assumes "replay_inv s" "replay_event e s = Inr t" "ei_qty e \<noteq> Some NaN"
  shows "replay_inv t"
proof -
  have risk: "replay_inv (u\<lparr>rp_risk := d\<rparr>) \<longleftrightarrow> replay_inv u" for u d by (simp add: replay_inv_def)
  from assms show ?thesis
    by (auto simp: replay_event_def rbind_Inr_iff risk split: option.splits if_splits
        dest: replay_order_inv)
qed

lemma replay_start_inv: "replay_inv rp_start"
  by (simp add: replay_inv_def rp_start_def order_fill_qty_def symbol_fill_qty_def)

lemma event_log_no_NaN:
  "event_log H T xs = Inr es \<Longrightarrow> e \<in> set es \<Longrightarrow> ei_qty e \<noteq> Some NaN"
proof (induction xs arbitrary: es rule: rev_induct)
  case (snoc x xs)
  have "sql_opt q \<noteq> Some NaN" for q by (cases q rule: sql_opt.cases) simp_all
  moreover from snoc.prems(1) obtain ds where "event_log H T xs = Inr ds"
      "append_execution_event H T x ds = Inr es"
    by (auto simp: event_log_snoc rbind_Inr_iff)
  ultimately show ?case using snoc.IH [of ds] snoc.prems(2) by (auto simp: append_Inr event_input.defs)
qed simp

lemma replay_run_inv:
  assumes "event_log H T xs = Inr es" "rfold replay_event es rp_start = Inr s"
  shows "replay_inv s"
  using assms(2) replay_start_inv
  by (rule rfold_invariant) (metis replay_event_inv event_log_no_NaN assms(1))

lemma position_of_Inr: "position_of es s (k, q) = Inr (y, r) \<Longrightarrow> y = k \<and> po_net_qty r = q"
  unfolding position_of_def sql_required_def by (cases "q = NaN") (simp, clarsimp)

lemma positions_from_qty:
  assumes "rmap (position_of es s) qs = Inr ps" "dict_ok qs" "map_of (dict_of ps) y = Some r"
  shows "po_net_qty r = dget qs y (Fin 0)"
proof -
  from assms(3) have "map_of (rev ps) y = Some r" by (simp add: map_of_dict_of)
  then have "(y, r) \<in> set ps" using map_of_SomeD by fastforce
  then obtain i where i: "i < length qs" "ps ! i = (y, r)"
    using rmap_length [OF assms(1)] by (metis in_set_conv_nth)
  obtain k q where kq: "qs ! i = (k, q)" by fastforce
  have "position_of es s (k, q) = Inr (y, r)" using rmap_nth [OF assms(1) i(1)] i(2) kq by simp
  from position_of_Inr [OF this] have q: "(y, q) \<in> set qs" "po_net_qty r = q"
    using i(1) kq nth_mem [OF i(1)] by auto
  then show ?thesis using assms(2) by (simp add: dget_def dict_ok_def)
qed

text \<open>C11. The live tables rebuilt from a log agree: a fill id occurs once in the fills table however
  often it was reported, the reported fill count is the size of that table, an order's filled
  quantity is the sum of its fills, and a symbol's net position the signed sum of its fills, in
  the order and with the rounding in which the fills were first seen.\<close>

theorem live_tables_agree_with_fills:
  assumes "event_log H T xs = Inr es" "replay_tables es = Inr (t, n)"
  shows "dict_ok (lt_fills t) \<and> n = length (lt_fills t)
    \<and> (\<forall>oid r. map_of (lt_orders t) oid = Some r \<longrightarrow> or_filled_qty r = order_fill_qty (lt_fills t) oid)
    \<and> (\<forall>y r. y \<noteq> [] \<and> map_of (lt_positions t) y = Some r \<longrightarrow>
         po_net_qty r = symbol_fill_qty (lt_fills t) y)"
proof -
  from assms(2) obtain s ps where s: "rfold replay_event es rp_start = Inr s"
    and ps: "rmap (position_of es s) (rp_position_qty s) = Inr ps"
    and t: "t = \<lparr>lt_orders = rp_orders s, lt_fills = rp_fills s, lt_positions = dict_of ps,
             lt_risk = rp_risk s\<rparr>" "n = card (rp_seen s)"
    by (auto simp: replay_tables_def rbind_Inr_iff)
  have inv: "replay_inv s" by (rule replay_run_inv [OF assms(1) s])
  have "n = length (rp_fills s)"
    using inv distinct_card [of "map fst (rp_fills s)"]
    by (simp add: t replay_inv_def dkeys_def dict_ok_def)
  moreover have "or_filled_qty r = order_fill_qty (rp_fills s) oid" if "map_of (rp_orders s) oid = Some r" for oid r
  proof -
    have "(case map_of (rp_orders s) oid of None \<Rightarrow> Fin 0 | Some r \<Rightarrow> or_filled_qty r)
        = order_fill_qty (rp_fills s) oid" using inv by (simp add: replay_inv_def)
    with that show ?thesis by simp
  qed
  moreover have "po_net_qty r = symbol_fill_qty (rp_fills s) y"
    if "y \<noteq> []" "map_of (dict_of ps) y = Some r" for y r
    using positions_from_qty [OF ps _ that(2)] inv that(1) by (simp add: replay_inv_def)
  ultimately show ?thesis using inv by (auto simp: t(1) replay_inv_def)
qed

lemmas replay_defs = replay_event_def replay_order_def record_fill_def event_input.defs
  sample_input_def rp_start_def order_events_def fill_events_def event_fill_id_def str_or_none_def
  sql_default0_def or_zero_def signed_quantity_def str_or_def Let_def

theorem live_tables_agree_with_fills_witness:
  "\<exists>es t. event_log zero_hash id [sample_input ''FILL'' ''f'', sample_input ''FILL'' ''f''] = Inr es
     \<and> replay_tables es = Inr (t, 1)
     \<and> (\<exists>r. map_of (lt_orders t) ''o1'' = Some r \<and> or_filled_qty r = order_fill_qty (lt_fills t) ''o1'')"
proof -
  let ?x = "sample_input ''FILL'' ''f''"
  define c where "c = zero_hash PNone"
  have z: "zero_hash v = c" for v by (simp add: c_def zero_hash_def)
  have ne: "c \<noteq> []" by (simp add: c_def zero_hash_def)
  obtain es where e: "event_log zero_hash id [?x, ?x] = Inr es"
    by (simp add: event_log_def append_execution_event_def execution_event_types_def sample_input_def
        rbind_def Let_def)
  then have es: "es =
    [event_input.extend ?x
      \<lparr>ee_event_id = 1, ee_previous_digest = None, ee_event_digest = c,
       ee_segment_digest = '':'' @ c\<rparr>,
     event_input.extend ?x
      \<lparr>ee_event_id = 2, ee_previous_digest = Some (c), ee_event_digest = c,
       ee_segment_digest = c @ '':'' @ c\<rparr>]"
    using ne by (simp add: event_log_def append_execution_event_def execution_event_types_def sample_input_def
        rbind_def Let_def last_digest_def event_input.defs z)
  have up: "str_upper ''BUY'' = ''BUY''" by code_simp
  obtain t where t: "replay_tables es = Inr (t, 1)" "\<exists>r. map_of (lt_orders t) ''o1'' = Some r"
    by (simp add: es replay_tables_def replay_defs position_of_def sql_required_def fl_numeral
        last_event_id_def up)
  with live_tables_agree_with_fills [OF e t(1)] e show ?thesis by blast
qed

end
