(* ===== verification/Targets.thy ===== *)
theory Targets
  imports PyText
begin

text \<open>
  Portfolio targets (\<open>portfolio/symbol_target.py\<close>, \<open>portfolio/target_portfolio.py\<close>), the orders
  that move the book to them (\<open>portfolio/delta_order_plan.py\<close>) and the risk budget they must meet
  (\<open>portfolio/risk_budget.py\<close>, \<open>portfolio/cluster_model.py\<close>).
\<close>

section \<open>Symbol targets\<close>

record symbol_target =
  sy_symbol :: string
  sy_artifact_id :: string
  sy_role :: string
  sy_target_weight :: pyfloat
  sy_target_notional :: pyfloat
  sy_max_loss_budget :: pyfloat
  sy_max_slippage_bps :: pyfloat
  sy_max_funding_cost_bps :: pyfloat
  sy_rebalance_reason :: string

definition symbol_target_dict :: "symbol_target \<Rightarrow> pyval" where
  "symbol_target_dict t = PDict
     [(''symbol'', PStr (sy_symbol t)), (''artifact_id'', PStr (sy_artifact_id t)),
      (''role'', PStr (sy_role t)), (''target_weight'', PFloat (sy_target_weight t)),
      (''target_notional'', PFloat (sy_target_notional t)),
      (''max_loss_budget'', PFloat (sy_max_loss_budget t)),
      (''max_slippage_bps'', PFloat (sy_max_slippage_bps t)),
      (''max_funding_cost_bps'', PFloat (sy_max_funding_cost_bps t)),
      (''rebalance_reason'', PStr (sy_rebalance_reason t))]"

definition target_numbers :: "symbol_target \<Rightarrow> (string \<times> pyfloat) list" where
  "target_numbers t =
     [(''target_weight'', sy_target_weight t), (''target_notional'', sy_target_notional t),
      (''max_loss_budget'', sy_max_loss_budget t), (''max_slippage_bps'', sy_max_slippage_bps t),
      (''max_funding_cost_bps'', sy_max_funding_cost_bps t)]"

record target_validation =
  tv_passed :: bool
  tv_issues :: "string list"

definition number_issue :: "string \<times> pyfloat \<Rightarrow> string list" where
  "number_issue f =
     (if \<not> is_finite (snd f) then [''non_finite_'' @ fst f]
      else flag (flt (snd f) (Fin 0)) (''negative_'' @ fst f))"

definition validate_symbol_target :: "symbol_target \<Rightarrow> target_validation" where
  "validate_symbol_target t =
     (let issues =
        flag (sy_symbol t = []) ''missing_symbol''
        @ flag (sy_artifact_id t = []) ''missing_artifact_id''
        @ flag (sy_role t = []) ''missing_role''
        @ concat (map number_issue (target_numbers t))
        @ flag (sy_rebalance_reason t = []) ''missing_rebalance_reason''
      in \<lparr>tv_passed = (issues = []), tv_issues = issues\<rparr>)"

section \<open>Target portfolios\<close>

record portfolio_allocation =
  pa_artifact_id :: string
  pa_strategy_id :: string
  pa_symbols :: "string list"
  pa_portfolio_role :: string
  pa_notional :: pyfloat
  pa_expected_return_bps :: pyfloat
  pa_max_drawdown :: pyfloat

record target_settings =
  ts_universe_id :: string
  ts_artifact_set_id :: string
  ts_capital_base :: pyfloat
  ts_btc_beta_target :: pyfloat
  ts_eth_beta_target :: pyfloat
  ts_max_symbol_weight :: pyfloat
  ts_max_cluster_weight :: pyfloat
  ts_max_slippage_bps :: pyfloat
  ts_max_funding_cost_bps :: pyfloat
  ts_rebalance_reason :: string

record target_portfolio =
  tp_target_portfolio_id :: string
  tp_universe_id :: string
  tp_artifact_set_id :: string
  tp_capital_base :: pyfloat
  tp_gross_exposure_target :: pyfloat
  tp_net_exposure_target :: pyfloat
  tp_btc_beta_target :: pyfloat
  tp_eth_beta_target :: pyfloat
  tp_max_symbol_weight :: pyfloat
  tp_max_cluster_weight :: pyfloat
  tp_symbol_targets :: "symbol_target list"

fun require_finite :: "(string \<times> pyfloat) list \<Rightarrow> unit result" where
  "require_finite [] = Inr ()"
| "require_finite ((n, v) # fs) =
     (if is_finite v then require_finite fs else Inl (ValueError (n @ ''_must_be_finite'')))"

definition symbol_target_for ::
    "target_settings \<Rightarrow> portfolio_allocation \<Rightarrow> pyfloat \<Rightarrow> string \<Rightarrow> symbol_target result" where
  "symbol_target_for s a per symbol =
     rbind (fdiv per (ts_capital_base s)) (\<lambda>w. Inr
       \<lparr>sy_symbol = symbol, sy_artifact_id = pa_artifact_id a, sy_role = pa_portfolio_role a,
        sy_target_weight = round_nd 12 w, sy_target_notional = round_nd 8 per,
        sy_max_loss_budget = round_nd 8 (fmul per (pa_max_drawdown a)),
        sy_max_slippage_bps = ts_max_slippage_bps s,
        sy_max_funding_cost_bps = ts_max_funding_cost_bps s,
        sy_rebalance_reason = ts_rebalance_reason s\<rparr>)"

definition allocation_targets ::
    "target_settings \<Rightarrow> portfolio_allocation \<Rightarrow> symbol_target list result" where
  "allocation_targets s a =
     rbind (raise_unless (is_finite (pa_notional a))
              (ValueError ''allocation_notional_must_be_finite'')) (\<lambda>_.
     rbind (raise_unless (\<not> flt (pa_notional a) (Fin 0))
              (ValueError ''allocation_notional_must_be_non_negative'')) (\<lambda>_.
     rbind (raise_unless (is_finite (pa_max_drawdown a))
              (ValueError ''allocation_max_drawdown_must_be_finite'')) (\<lambda>_.
     rbind (raise_unless (\<not> flt (pa_max_drawdown a) (Fin 0))
              (ValueError ''allocation_max_drawdown_must_be_non_negative'')) (\<lambda>_.
     rbind (fdiv (pa_notional a) (Fin (of_nat (max 1 (length (pa_symbols a)))))) (\<lambda>per.
       rmap (symbol_target_for s a per) (pa_symbols a))))))"

text \<open>\<open>sum\<close> of no values is the integer zero; it shows in the hashed payload only.\<close>

definition sum_val :: "pyfloat list \<Rightarrow> pyfloat \<Rightarrow> pyval" where
  "sum_val xs x = (if xs = [] then PInt 0 else PFloat x)"

definition build_target_portfolio ::
    "stable_hash \<Rightarrow> target_settings \<Rightarrow> portfolio_allocation list \<Rightarrow> target_portfolio result" where
  "build_target_portfolio H s allocations =
     rbind (raise_unless (is_finite (ts_capital_base s))
              (ValueError ''capital_base_must_be_finite'')) (\<lambda>_.
     rbind (raise_unless (\<not> fle (ts_capital_base s) (Fin 0))
              (ValueError ''capital_base_must_be_positive'')) (\<lambda>_.
     rbind (require_finite
        [(''btc_beta_target'', ts_btc_beta_target s), (''eth_beta_target'', ts_eth_beta_target s),
         (''max_symbol_weight'', ts_max_symbol_weight s),
         (''max_cluster_weight'', ts_max_cluster_weight s),
         (''max_slippage_bps'', ts_max_slippage_bps s),
         (''max_funding_cost_bps'', ts_max_funding_cost_bps s)]) (\<lambda>_.
     rbind (rmap (allocation_targets s) allocations) (\<lambda>tss.
       let targets = concat tss;
           weights = map sy_target_weight targets;
           gross = round_nd 12 (py_sum (map fabs weights));
           net = round_nd 12 (py_sum weights);
           payload = PDict
             [(''universe_id'', PStr (ts_universe_id s)),
              (''artifact_set_id'', PStr (ts_artifact_set_id s)),
              (''capital_base'', PFloat (ts_capital_base s)),
              (''gross_exposure_target'', sum_val weights gross),
              (''net_exposure_target'', sum_val weights net),
              (''btc_beta_target'', PFloat (ts_btc_beta_target s)),
              (''eth_beta_target'', PFloat (ts_eth_beta_target s)),
              (''max_symbol_weight'', PFloat (ts_max_symbol_weight s)),
              (''max_cluster_weight'', PFloat (ts_max_cluster_weight s)),
              (''symbol_targets'', PList (map symbol_target_dict targets))]
       in Inr \<lparr>tp_target_portfolio_id = ''target-portfolio-'' @ take 16 (H payload),
               tp_universe_id = ts_universe_id s, tp_artifact_set_id = ts_artifact_set_id s,
               tp_capital_base = ts_capital_base s, tp_gross_exposure_target = gross,
               tp_net_exposure_target = net, tp_btc_beta_target = ts_btc_beta_target s,
               tp_eth_beta_target = ts_eth_beta_target s,
               tp_max_symbol_weight = ts_max_symbol_weight s,
               tp_max_cluster_weight = ts_max_cluster_weight s,
               tp_symbol_targets = targets\<rparr>))))"

section \<open>Delta order plans\<close>

record delta_action =
  da_symbol :: string
  da_artifact_id :: "string option"
  da_side :: string
  da_current_notional :: pyfloat
  da_target_notional :: pyfloat
  da_delta_notional :: pyfloat
  da_action :: string
  da_reduce_only :: bool
  da_rebalance_reason :: string

record delta_order_plan =
  dp_delta_order_plan_id :: string
  dp_target_portfolio_id :: string
  dp_current_positions :: "(string, pyfloat) dict"
  dp_target_positions :: "(string, pyfloat) dict"
  dp_opens :: "delta_action list"
  dp_increases :: "delta_action list"
  dp_reductions :: "delta_action list"
  dp_closes :: "delta_action list"
  dp_estimated_turnover :: pyfloat
  dp_estimated_fees :: pyfloat
  dp_estimated_slippage :: pyfloat
  dp_estimated_funding :: pyfloat

definition opt_str_val :: "string option \<Rightarrow> pyval" where
  "opt_str_val x = (case x of None \<Rightarrow> PNone | Some s \<Rightarrow> PStr s)"

definition delta_action_dict :: "delta_action \<Rightarrow> pyval" where
  "delta_action_dict a = PDict
     [(''symbol'', PStr (da_symbol a)), (''artifact_id'', opt_str_val (da_artifact_id a)),
      (''side'', PStr (da_side a)), (''current_notional'', PFloat (da_current_notional a)),
      (''target_notional'', PFloat (da_target_notional a)),
      (''delta_notional'', PFloat (da_delta_notional a)), (''action'', PStr (da_action a)),
      (''reduce_only'', PBool (da_reduce_only a)),
      (''rebalance_reason'', PStr (da_rebalance_reason a))]"

definition add_target :: "symbol_target \<Rightarrow> (string, pyfloat) dict \<Rightarrow> (string, pyfloat) dict" where
  "add_target t d =
     AList.update (sy_symbol t)
       (round_nd 8 (fadd (dget d (sy_symbol t) (Fin 0)) (sy_target_notional t))) d"

definition target_notional_by_symbol :: "symbol_target list \<Rightarrow> (string, pyfloat) dict" where
  "target_notional_by_symbol ts = fold add_target ts []"

definition action_name :: "pyfloat \<Rightarrow> pyfloat \<Rightarrow> pyfloat \<Rightarrow> string" where
  "action_name current target delta =
     (if feq current (Fin 0) \<and> flt (Fin 0) target then ''open''
      else if feq target (Fin 0) \<and> flt (Fin 0) current then ''close''
      else if flt (Fin 0) delta then ''increase'' else ''reduction'')"

definition delta_for ::
    "symbol_target list \<Rightarrow> (string, pyfloat) dict \<Rightarrow> (string, pyfloat) dict \<Rightarrow> string
     \<Rightarrow> delta_action list" where
  "delta_for ts current targets symbol =
     (let c = dget current symbol (Fin 0); g = dget targets symbol (Fin 0);
          delta = round_nd 8 (fsub g c)
      in if flt (fabs delta) f_1em9 then []
         else [\<lparr>da_symbol = symbol,
                da_artifact_id = map_of (dict_of (map (\<lambda>t. (sy_symbol t, sy_artifact_id t)) ts)) symbol,
                da_side = (if flt (Fin 0) delta then ''BUY'' else ''SELL''),
                da_current_notional = round_nd 8 c, da_target_notional = round_nd 8 g,
                da_delta_notional = delta, da_action = action_name c g delta,
                da_reduce_only = flt delta (Fin 0),
                da_rebalance_reason =
                  dget (dict_of (map (\<lambda>t. (sy_symbol t, sy_rebalance_reason t)) ts)) symbol
                    ''target_delta''\<rparr>])"

definition delta_actions ::
    "symbol_target list \<Rightarrow> (string, pyfloat) dict \<Rightarrow> delta_action list" where
  "delta_actions ts current =
     (let targets = target_notional_by_symbol ts
      in concat (map (delta_for ts current targets)
           (sorted_set (map fst current @ map fst targets))))"

definition bps_cost :: "pyfloat \<Rightarrow> pyfloat \<Rightarrow> pyfloat" where
  "bps_cost turnover bps = round_nd 8 (fquot (fmul turnover bps) (Fin 10000))"

definition build_delta_order_plan ::
    "stable_hash \<Rightarrow> string \<Rightarrow> (string, pyfloat) dict \<Rightarrow> symbol_target list
     \<Rightarrow> pyfloat \<Rightarrow> pyfloat \<Rightarrow> pyfloat \<Rightarrow> delta_order_plan" where
  "build_delta_order_plan H plan_id current ts fee_bps slippage_bps funding_cost_bps =
     (let targets = target_notional_by_symbol ts;
          actions = delta_actions ts current;
          named = (\<lambda>n. filter (\<lambda>a. da_action a = n) actions);
          turnover = round_nd 8 (py_sum (map (fabs \<circ> da_delta_notional) actions));
          positions = (\<lambda>d. PDict (map (map_prod id PFloat) (sort_key fst d)));
          payload = PDict
            [(''target_portfolio_id'', PStr plan_id), (''current_positions'', positions current),
             (''target_positions'', positions targets),
             (''actions'', PList (map delta_action_dict actions))]
      in \<lparr>dp_delta_order_plan_id = ''delta-order-plan-'' @ take 16 (H payload),
          dp_target_portfolio_id = plan_id,
          dp_current_positions = sort_key fst current, dp_target_positions = sort_key fst targets,
          dp_opens = named ''open'', dp_increases = named ''increase'',
          dp_reductions = named ''reduction'', dp_closes = named ''close'',
          dp_estimated_turnover = turnover, dp_estimated_fees = bps_cost turnover fee_bps,
          dp_estimated_slippage = bps_cost turnover slippage_bps,
          dp_estimated_funding = bps_cost turnover funding_cost_bps\<rparr>)"

record plan_intent =
  pi_symbol :: string
  pi_artifact_id :: "string option"
  pi_side :: string
  pi_qty_notional :: pyfloat
  pi_reduce_only :: bool
  pi_source_delta_plan_id :: string
  pi_source_delta_action :: string

definition to_internal_order_intents :: "delta_order_plan \<Rightarrow> plan_intent list" where
  "to_internal_order_intents p =
     map (\<lambda>a. \<lparr>pi_symbol = da_symbol a, pi_artifact_id = da_artifact_id a, pi_side = da_side a,
               pi_qty_notional = fabs (da_delta_notional a), pi_reduce_only = da_reduce_only a,
               pi_source_delta_plan_id = dp_delta_order_plan_id p,
               pi_source_delta_action = da_action a\<rparr>)
       (dp_opens p @ dp_increases p @ dp_reductions p @ dp_closes p)"

section \<open>The risk budget\<close>

definition assign_symbol_clusters :: "string list \<Rightarrow> (string, string) dict" where
  "assign_symbol_clusters symbols =
     dict_of (map (\<lambda>s. (s, if starts_with ''BTC'' s \<or> starts_with ''ETH'' s then ''majors''
                           else ''alts'')) symbols)"

record risk_budget =
  rb_max_symbol_weight :: pyfloat
  rb_max_cluster_weight :: pyfloat
  rb_max_btc_beta :: pyfloat
  rb_max_eth_beta :: pyfloat
  rb_max_funding_cost_bps :: pyfloat
  rb_max_turnover_weight :: pyfloat
  rb_cluster_by_symbol :: "(string, string) dict"
  rb_beta_by_symbol :: "(string, (string, pyfloat) dict) dict"
  rb_turnover_weight :: pyfloat

record budget_totals =
  bu_cluster_weight :: "(string, pyfloat) dict"
  bu_btc_beta :: pyfloat
  bu_eth_beta :: pyfloat
  bu_rejections :: "string list"

record budget_result =
  br_passed :: bool
  br_rejections :: "string list"
  br_cluster_weight :: "(string, pyfloat) dict"
  br_btc_beta :: pyfloat
  br_eth_beta :: pyfloat
  br_turnover_weight :: pyfloat

definition budget_numbers :: "risk_budget \<Rightarrow> (string \<times> pyfloat) list" where
  "budget_numbers b =
     [(''max_symbol_weight'', rb_max_symbol_weight b),
      (''max_cluster_weight'', rb_max_cluster_weight b),
      (''max_btc_beta'', rb_max_btc_beta b), (''max_eth_beta'', rb_max_eth_beta b),
      (''max_funding_cost_bps'', rb_max_funding_cost_bps b),
      (''max_turnover_weight'', rb_max_turnover_weight b),
      (''turnover_weight'', rb_turnover_weight b)]"

definition non_finite_fields :: "(string \<times> pyfloat) list \<Rightarrow> string list" where
  "non_finite_fields fs = map fst (filter (\<lambda>f. \<not> is_finite (snd f)) fs)"

definition cluster_of :: "risk_budget \<Rightarrow> symbol_target \<Rightarrow> string" where
  "cluster_of b t = dget (rb_cluster_by_symbol b) (sy_symbol t) ''unclustered''"

definition beta_of :: "risk_budget \<Rightarrow> symbol_target \<Rightarrow> string \<Rightarrow> pyfloat" where
  "beta_of b t k = dget (dget (rb_beta_by_symbol b) (sy_symbol t) []) k (Fin 0)"

definition budget_step :: "risk_budget \<Rightarrow> symbol_target \<Rightarrow> budget_totals \<Rightarrow> budget_totals" where
  "budget_step b t u =
     (let invalid = non_finite_fields (target_numbers t) in
      if invalid \<noteq> []
      then u\<lparr>bu_rejections := bu_rejections u
               @ map (\<lambda>f. ''target_non_finite:'' @ sy_symbol t @ '':'' @ f) invalid\<rparr>
      else let w = sy_target_weight t; gross = fabs w; c = cluster_of b t in
        u\<lparr>bu_rejections := bu_rejections u
             @ flag (flt (rb_max_symbol_weight b) gross) (''symbol_cap:'' @ sy_symbol t)
             @ flag (flt (rb_max_funding_cost_bps b) (sy_max_funding_cost_bps t))
                 (''funding_budget:'' @ sy_symbol t),
          bu_cluster_weight :=
             AList.update c (fadd (dget (bu_cluster_weight u) c (Fin 0)) gross) (bu_cluster_weight u),
          bu_btc_beta := fadd (bu_btc_beta u) (fabs (fmul w (beta_of b t ''BTC''))),
          bu_eth_beta := fadd (bu_eth_beta u) (fabs (fmul w (beta_of b t ''ETH'')))\<rparr>)"

definition budget_start :: "risk_budget \<Rightarrow> budget_totals" where
  "budget_start b =
     \<lparr>bu_cluster_weight = [], bu_btc_beta = Fin 0, bu_eth_beta = Fin 0,
      bu_rejections = map ((@) ''budget_non_finite:'') (non_finite_fields (budget_numbers b))\<rparr>"

definition evaluate_portfolio_risk_budget ::
    "symbol_target list \<Rightarrow> risk_budget \<Rightarrow> budget_result" where
  "evaluate_portfolio_risk_budget ts b =
     (let u = fold (budget_step b) ts (budget_start b);
          clusters = sort_key fst (bu_cluster_weight u);
          rejections = bu_rejections u
            @ map (\<lambda>(c, w). ''cluster_cap:'' @ c)
                (filter (\<lambda>(c, w). flt (rb_max_cluster_weight b) w) clusters)
            @ flag (flt (rb_max_btc_beta b) (bu_btc_beta u)) ''btc_beta_cap''
            @ flag (flt (rb_max_eth_beta b) (bu_eth_beta u)) ''eth_beta_cap''
            @ flag (flt (rb_max_turnover_weight b) (rb_turnover_weight b)) ''turnover_budget''
      in \<lparr>br_passed = (rejections = []), br_rejections = rejections, br_cluster_weight = clusters,
          br_btc_beta = round_nd 12 (bu_btc_beta u), br_eth_beta = round_nd 12 (bu_eth_beta u),
          br_turnover_weight = rb_turnover_weight b\<rparr>)"

section \<open>Targets are long only\<close>

lemma fquot_sign: "fle (Fin 0) a \<Longrightarrow> 0 < c \<Longrightarrow> fle (Fin 0) (fquot a (Fin c))"
  using fl_mono [of 0] by (cases a) auto

lemma allocation_targets_nonneg:
  assumes "allocation_targets s a = Inr ts" "ts_capital_base s = Fin c" "0 < c" "t \<in> set ts"
  shows "fle (Fin 0) (sy_target_weight t) \<and> fle (Fin 0) (sy_target_notional t)
    \<and> sy_artifact_id t = pa_artifact_id a \<and> sy_symbol t \<in> set (pa_symbols a)"
proof -
  obtain n where n: "pa_notional a = Fin n" "0 \<le> n"
    using assms(1) by (cases "pa_notional a") (auto simp: allocation_targets_def rbind_Inr_iff)
  let ?per = "fl (n / of_nat (max 1 (length (pa_symbols a))))"
  have r: "rmap (symbol_target_for s a ?per) (pa_symbols a) = Inr ts"
    using assms(1) by (auto simp: allocation_targets_def n fdiv_def rbind_Inr_iff)
  from assms(4) obtain i where i: "i < length ts" "ts ! i = t" by (auto simp: in_set_conv_nth)
  have len: "length ts = length (pa_symbols a)" by (rule rmap_length [OF r])
  from rmap_nth [OF r] i len have t: "symbol_target_for s a ?per (pa_symbols a ! i) = Inr t"
    by auto
  have per: "fle (Fin 0) ?per" using n(2) fl_mono [of 0] by simp
  have "fle (Fin 0) (round_nd 12 (fquot ?per (Fin c)))"
    by (intro round_nd_nonneg fquot_sign per assms(3))
  moreover have "fle (Fin 0) (round_nd 8 ?per)" by (intro round_nd_nonneg per)
  ultimately show ?thesis
    using t assms(2,3) i len nth_mem [of i "pa_symbols a"]
    by (auto simp: symbol_target_for_def fdiv_def)
qed

lemma build_target_portfolioE:
  assumes "build_target_portfolio H s as = Inr p"
  obtains c tss where "ts_capital_base s = Fin c" "0 < c"
    "rmap (allocation_targets s) as = Inr tss" "tp_symbol_targets p = concat tss"
    "tp_gross_exposure_target p = round_nd 12 (py_sum (map fabs (map sy_target_weight (concat tss))))"
    "tp_net_exposure_target p = round_nd 12 (py_sum (map sy_target_weight (concat tss)))"
proof -
  from assms obtain tss where t: "rmap (allocation_targets s) as = Inr tss"
    "is_finite (ts_capital_base s)" "\<not> fle (ts_capital_base s) (Fin 0)"
    "tp_symbol_targets p = concat tss"
    "tp_gross_exposure_target p = round_nd 12 (py_sum (map fabs (map sy_target_weight (concat tss))))"
    "tp_net_exposure_target p = round_nd 12 (py_sum (map sy_target_weight (concat tss)))"
    by (auto simp: build_target_portfolio_def rbind_Inr_iff Let_def)
  from t(2,3) obtain c where "ts_capital_base s = Fin c" "0 < c"
    by (cases "ts_capital_base s") auto
  with t show thesis by (intro that)
qed

lemma fabs_of_nonneg: "fle (Fin 0) x \<Longrightarrow> fabs x = x"
  by (cases x) auto

text \<open>Target portfolios are long only: in every portfolio that is built, each symbol target
  belongs to an allocation that names its symbol, no weight and no notional is negative or NaN,
  and therefore the gross and the net exposure target are the same number.\<close>

lemma target_portfolio_long_only:
  assumes "build_target_portfolio H s as = Inr p"
  shows "(\<forall>t \<in> set (tp_symbol_targets p).
       fle (Fin 0) (sy_target_weight t) \<and> fle (Fin 0) (sy_target_notional t)
       \<and> (\<exists>a \<in> set as. sy_artifact_id t = pa_artifact_id a \<and> sy_symbol t \<in> set (pa_symbols a)))
    \<and> tp_gross_exposure_target p = tp_net_exposure_target p"
proof (rule build_target_portfolioE [OF assms])
  fix c tss
  assume c: "ts_capital_base s = Fin c" "0 < c"
    and r: "rmap (allocation_targets s) as = Inr tss"
    and p: "tp_symbol_targets p = concat tss"
      "tp_gross_exposure_target p = round_nd 12 (py_sum (map fabs (map sy_target_weight (concat tss))))"
      "tp_net_exposure_target p = round_nd 12 (py_sum (map sy_target_weight (concat tss)))"
  have each: "fle (Fin 0) (sy_target_weight t) \<and> fle (Fin 0) (sy_target_notional t)
       \<and> (\<exists>a \<in> set as. sy_artifact_id t = pa_artifact_id a \<and> sy_symbol t \<in> set (pa_symbols a))"
    if "t \<in> set (concat tss)" for t
  proof -
    from that obtain ts where "ts \<in> set tss" "t \<in> set ts" by auto
    moreover then obtain i where "i < length tss" "tss ! i = ts" by (auto simp: in_set_conv_nth)
    ultimately show ?thesis
      using rmap_nth [OF r, of i] rmap_length [OF r] allocation_targets_nonneg [OF _ c]
      by (metis nth_mem)
  qed
  have "map fabs (map sy_target_weight (concat tss)) = map sy_target_weight (concat tss)"
    using each by (auto simp: fabs_of_nonneg)
  then show ?thesis using each p by (simp del: map_map)
qed

definition sample_settings :: target_settings where
  "sample_settings = \<lparr>ts_universe_id = ''u'', ts_artifact_set_id = ''s'', ts_capital_base = Fin 1000,
     ts_btc_beta_target = Fin 0, ts_eth_beta_target = Fin 0, ts_max_symbol_weight = Fin 1,
     ts_max_cluster_weight = Fin 1, ts_max_slippage_bps = Fin 25, ts_max_funding_cost_bps = Fin 10,
     ts_rebalance_reason = ''scheduled''\<rparr>"

definition sample_allocation :: portfolio_allocation where
  "sample_allocation = \<lparr>pa_artifact_id = ''a1'', pa_strategy_id = ''s1'',
     pa_symbols = [''BTCUSDT'', ''ETHUSDT''], pa_portfolio_role = ''core'', pa_notional = Fin 500,
     pa_expected_return_bps = Fin 12, pa_max_drawdown = Fin 0\<rparr>"

lemma target_portfolio_long_only_witness:
  "\<exists>p. build_target_portfolio zero_hash sample_settings [sample_allocation] = Inr p
     \<and> length (tp_symbol_targets p) = 2
     \<and> tp_gross_exposure_target p = tp_net_exposure_target p"
proof -
  obtain p where p: "build_target_portfolio zero_hash sample_settings [sample_allocation] = Inr p"
      "length (tp_symbol_targets p) = 2"
    by (simp add: build_target_portfolio_def sample_settings_def sample_allocation_def
        allocation_targets_def symbol_target_for_def fdiv_def Let_def)
  from target_portfolio_long_only [OF p(1)] p show ?thesis by blast
qed

section \<open>A passed risk budget caps every weight\<close>

definition totals_ok :: "budget_totals \<Rightarrow> bool" where
  "totals_ok u \<longleftrightarrow> (\<forall>c w. map_of (bu_cluster_weight u) c = Some w \<longrightarrow> is_f64 w \<and> fle (Fin 0) w)"

lemma totals_okD:
  "totals_ok u \<Longrightarrow> map_of (bu_cluster_weight u) c = Some w \<Longrightarrow> is_f64 w \<and> fle (Fin 0) w \<and> fle w w"
  unfolding totals_ok_def using fle_Fin_neq_NaN fle_refl by blast

definition target_within :: "risk_budget \<Rightarrow> symbol_target \<Rightarrow> bool" where
  "target_within b t \<longleftrightarrow>
     (\<forall>f \<in> set (target_numbers t). is_finite (snd f))
     \<and> \<not> flt (rb_max_symbol_weight b) (fabs (sy_target_weight t))
     \<and> \<not> flt (rb_max_funding_cost_bps b) (sy_max_funding_cost_bps t)"

lemma non_finite_fields_Nil_iff: "non_finite_fields fs = [] \<longleftrightarrow> (\<forall>f \<in> set fs. is_finite (snd f))"
  by (auto simp: non_finite_fields_def filter_empty_conv)

lemma budget_step_rejections:
  "bu_rejections (budget_step b t u) = [] \<longleftrightarrow> bu_rejections u = [] \<and> target_within b t"
  by (auto simp: budget_step_def Let_def target_within_def non_finite_fields_Nil_iff)

lemma budget_fold_rejections:
  "bu_rejections (fold (budget_step b) ts u) = [] \<longleftrightarrow>
     bu_rejections u = [] \<and> (\<forall>t \<in> set ts. target_within b t)"
  by (induction ts arbitrary: u) (auto simp: budget_step_rejections)

lemma budget_step_cluster:
  assumes "totals_ok u" "is_f64 (sy_target_weight t)" "target_within b t"
  shows "totals_ok (budget_step b t u)"
    and "map_of (bu_cluster_weight u) c = Some w
         \<Longrightarrow> \<exists>w'. map_of (bu_cluster_weight (budget_step b t u)) c = Some w' \<and> fle w w'"
    and "\<exists>w'. map_of (bu_cluster_weight (budget_step b t u)) (cluster_of b t) = Some w'
         \<and> fle (fabs (sy_target_weight t)) w'"
proof -
  let ?g = "fabs (sy_target_weight t)" and ?c = "cluster_of b t"
  let ?o = "dget (bu_cluster_weight u) ?c (Fin 0)"
  have fin: "is_finite (sy_target_weight t)"
    using assms(3) by (auto simp: target_within_def target_numbers_def)
  then have g: "is_f64 ?g" "fle (Fin 0) ?g" "?g \<noteq> NaN"
    using assms(2) by (auto simp: is_f64_fabs fabs_nonneg elim!: is_finiteE)
  have o: "is_f64 ?o" "fle (Fin 0) ?o"
    using assms(1) by (auto simp: totals_ok_def dget_def split: option.split)
  have cw: "bu_cluster_weight (budget_step b t u)
      = AList.update ?c (fadd ?o ?g) (bu_cluster_weight u)"
    using assms(3) by (simp add: budget_step_def Let_def target_within_def non_finite_fields_Nil_iff)
  have n: "fadd ?o ?g \<noteq> NaN" using o g by (cases ?o; cases ?g) auto
  have up: "fle ?o (fadd ?o ?g)" using o g n by (intro fadd_ge)
  have upg: "fle ?g (fadd ?o ?g)" using fadd_ge [OF g(1) o(2)] n by (simp add: fadd_comm)
  have nn: "fle (Fin 0) (fadd ?o ?g)" using o(2) up by (rule fle_trans)
  show "totals_ok (budget_step b t u)"
    using assms(1) o g nn by (auto simp: totals_ok_def cw is_f64_fadd)
  show "\<exists>w'. map_of (bu_cluster_weight (budget_step b t u)) ?c = Some w' \<and> fle ?g w'"
    using upg by (simp add: cw)
  show "\<exists>w'. map_of (bu_cluster_weight (budget_step b t u)) c = Some w' \<and> fle w w'"
    if "map_of (bu_cluster_weight u) c = Some w"
  proof (cases "c = ?c")
    case True
    with that up show ?thesis by (simp add: cw dget_def)
  next
    case False
    have "fle w w" using totals_okD [OF assms(1) that] by simp
    with False that show ?thesis by (simp add: cw)
  qed
qed

lemma budget_fold_cluster:
  assumes "totals_ok u" "\<forall>t \<in> set ts. is_f64 (sy_target_weight t) \<and> target_within b t"
  shows "(\<forall>c w. map_of (bu_cluster_weight u) c = Some w \<longrightarrow>
           (\<exists>w'. map_of (bu_cluster_weight (fold (budget_step b) ts u)) c = Some w' \<and> fle w w'))
    \<and> (\<forall>t \<in> set ts. \<exists>w'. map_of (bu_cluster_weight (fold (budget_step b) ts u)) (cluster_of b t)
           = Some w' \<and> fle (fabs (sy_target_weight t)) w')"
  using assms
proof (induction ts arbitrary: u)
  case Nil
  then show ?case using totals_okD by auto
next
  case (Cons t ts)
  from Cons.prems have t: "is_f64 (sy_target_weight t)" "target_within b t" by simp_all
  note st = budget_step_cluster [OF Cons.prems(1) t]
  from Cons.IH [OF st(1)] Cons.prems(2)
  have ih: "\<And>c w. map_of (bu_cluster_weight (budget_step b t u)) c = Some w \<Longrightarrow>
      \<exists>w'. map_of (bu_cluster_weight (fold (budget_step b) (t # ts) u)) c = Some w' \<and> fle w w'"
    "\<forall>t' \<in> set ts. \<exists>w'. map_of (bu_cluster_weight (fold (budget_step b) (t # ts) u))
        (cluster_of b t') = Some w' \<and> fle (fabs (sy_target_weight t')) w'"
    by simp_all
  have a: "\<exists>w'. map_of (bu_cluster_weight (fold (budget_step b) (t # ts) u)) c = Some w' \<and> fle w w'"
    if h: "map_of (bu_cluster_weight u) c = Some w" for c w
  proof -
    obtain v where v: "map_of (bu_cluster_weight (budget_step b t u)) c = Some v" "fle w v"
      using st(2) [OF h] by blast
    with ih(1) [OF v(1)] show ?thesis by (auto intro: fle_trans)
  qed
  obtain v where v: "map_of (bu_cluster_weight (budget_step b t u)) (cluster_of b t) = Some v"
      "fle (fabs (sy_target_weight t)) v"
    using st(3) by blast
  have "\<exists>w'. map_of (bu_cluster_weight (fold (budget_step b) (t # ts) u)) (cluster_of b t) = Some w'
      \<and> fle (fabs (sy_target_weight t)) w'"
    using ih(1) [OF v(1)] v(2) by (auto intro: fle_trans)
  with a ih(2) show ?case by (simp del: fold.simps)
qed

lemma budget_fold_dict_ok:
  "dict_ok (bu_cluster_weight u) \<Longrightarrow> dict_ok (bu_cluster_weight (fold (budget_step b) ts u))"
proof (induction ts arbitrary: u)
  case (Cons t ts)
  then have "dict_ok (bu_cluster_weight (budget_step b t u))"
    by (simp add: budget_step_def Let_def)
  with Cons.IH show ?case by simp
qed simp

lemma budget_numbers_not_nan:
  assumes "\<forall>f \<in> set (budget_numbers b). is_finite (snd f)"
  shows "rb_max_cluster_weight b \<noteq> NaN" "rb_max_symbol_weight b \<noteq> NaN"
    "rb_max_funding_cost_bps b \<noteq> NaN" "rb_max_turnover_weight b \<noteq> NaN"
    "rb_turnover_weight b \<noteq> NaN"
  using assms by (auto simp: budget_numbers_def)

lemma target_within_caps:
  assumes "target_within b t" "rb_max_symbol_weight b \<noteq> NaN" "rb_max_funding_cost_bps b \<noteq> NaN"
  shows "(\<forall>f \<in> set (target_numbers t). is_finite (snd f))
    \<and> fle (fabs (sy_target_weight t)) (rb_max_symbol_weight b)
    \<and> fle (sy_max_funding_cost_bps t) (rb_max_funding_cost_bps b)"
proof -
  have f: "\<forall>f \<in> set (target_numbers t). is_finite (snd f)"
    using assms(1) by (simp add: target_within_def)
  then have "is_finite (sy_target_weight t)" "is_finite (sy_max_funding_cost_bps t)"
    by (simp_all add: target_numbers_def)
  then have "fabs (sy_target_weight t) \<noteq> NaN" "sy_max_funding_cost_bps t \<noteq> NaN"
    by (auto elim!: is_finiteE)
  with assms f show ?thesis by (simp add: target_within_def not_flt_fle)
qed

text \<open>A passed risk budget caps every position: all its numbers are finite, every target's
  numbers are finite, its weight is within the symbol cap and its funding cost within the funding
  cap, and the absolute weight is counted in full in its cluster, whose total is within the
  cluster cap; the turnover is within its own cap.\<close>

lemma passed_budget_caps_every_target:
  assumes "br_passed (evaluate_portfolio_risk_budget ts b)"
    and "\<forall>t \<in> set ts. is_f64 (sy_target_weight t)"
  shows "(\<forall>f \<in> set (budget_numbers b). is_finite (snd f))
    \<and> fle (rb_turnover_weight b) (rb_max_turnover_weight b)
    \<and> (\<forall>t \<in> set ts. (\<forall>f \<in> set (target_numbers t). is_finite (snd f))
         \<and> fle (fabs (sy_target_weight t)) (rb_max_symbol_weight b)
         \<and> fle (sy_max_funding_cost_bps t) (rb_max_funding_cost_bps b)
         \<and> (\<exists>w. map_of (br_cluster_weight (evaluate_portfolio_risk_budget ts b)) (cluster_of b t) = Some w
              \<and> fle (fabs (sy_target_weight t)) w \<and> fle w (rb_max_cluster_weight b)))"
proof -
  let ?u = "fold (budget_step b) ts (budget_start b)"
  have r: "bu_rejections ?u = []"
    and cap: "filter (\<lambda>(c, w). flt (rb_max_cluster_weight b) w) (sort_key fst (bu_cluster_weight ?u)) = []"
    and tu: "\<not> flt (rb_max_turnover_weight b) (rb_turnover_weight b)"
    using assms(1) by (simp_all add: evaluate_portfolio_risk_budget_def Let_def)
  from r have fin: "\<forall>f \<in> set (budget_numbers b). is_finite (snd f)"
    and within: "\<forall>t \<in> set ts. target_within b t"
    by (simp_all add: budget_fold_rejections budget_start_def non_finite_fields_Nil_iff)
  note nn = budget_numbers_not_nan [OF fin]
  have cl: "\<forall>t \<in> set ts. \<exists>w. map_of (bu_cluster_weight ?u) (cluster_of b t) = Some w
      \<and> fle (fabs (sy_target_weight t)) w"
    using budget_fold_cluster [of "budget_start b"] assms(2) within
    by (auto simp: totals_ok_def budget_start_def)
  have sorted: "map_of (br_cluster_weight (evaluate_portfolio_risk_budget ts b))
      = map_of (bu_cluster_weight ?u)"
    using budget_fold_dict_ok [of "budget_start b" b ts]
    by (simp add: evaluate_portfolio_risk_budget_def Let_def map_of_sort_key budget_start_def)
  have capped: "fle w (rb_max_cluster_weight b)"
    if "map_of (bu_cluster_weight ?u) c = Some w" "fle v w" for c v w
    using map_of_SomeD [OF that(1)] that(2) cap nn(1)
    by (intro not_flt_fle) (auto simp: filter_empty_conv dest: fle_Fin_neq_NaN)
  show ?thesis
    unfolding sorted using fin tu cl capped target_within_caps [OF _ nn(2,3)] within nn(4,5)
    by (metis not_flt_fle)
qed

definition sample_budget :: risk_budget where
  "sample_budget = \<lparr>rb_max_symbol_weight = Fin 1, rb_max_cluster_weight = Fin 2,
     rb_max_btc_beta = Fin 1, rb_max_eth_beta = Fin 1, rb_max_funding_cost_bps = Fin 10,
     rb_max_turnover_weight = Fin 1, rb_cluster_by_symbol = assign_symbol_clusters [''BTCUSDT''],
     rb_beta_by_symbol = [], rb_turnover_weight = Fin 0\<rparr>"

definition sample_target :: symbol_target where
  "sample_target = \<lparr>sy_symbol = ''BTCUSDT'', sy_artifact_id = ''a1'', sy_role = ''core'',
     sy_target_weight = Fin 1, sy_target_notional = Fin 500, sy_max_loss_budget = Fin 0,
     sy_max_slippage_bps = Fin 25, sy_max_funding_cost_bps = Fin 10,
     sy_rebalance_reason = ''scheduled''\<rparr>"

lemma passed_budget_caps_every_target_witness:
  "br_passed (evaluate_portfolio_risk_budget [sample_target] sample_budget)
   \<and> (\<exists>w. map_of (br_cluster_weight (evaluate_portfolio_risk_budget [sample_target] sample_budget))
        ''majors'' = Some w \<and> fle (Fin 1) w \<and> fle w (Fin 2))"
proof -
  have c: "cluster_of sample_budget sample_target = ''majors''"
    by (simp add: cluster_of_def sample_budget_def sample_target_def assign_symbol_clusters_def
        dict_of_def dget_def starts_with_def)
  have p: "br_passed (evaluate_portfolio_risk_budget [sample_target] sample_budget)"
    by (simp add: evaluate_portfolio_risk_budget_def budget_step_def budget_start_def
        non_finite_fields_def target_numbers_def budget_numbers_def sample_budget_def sample_target_def
        beta_of_def dget_def Let_def)
  have "\<forall>t \<in> set [sample_target]. is_f64 (sy_target_weight t)" by (simp add: sample_target_def)
  from passed_budget_caps_every_target [OF p this] p show ?thesis
    by (simp add: c) (simp add: sample_target_def sample_budget_def)
qed

section \<open>Delta order plans move the book to its targets\<close>

definition plan_actions :: "delta_order_plan \<Rightarrow> delta_action list" where
  "plan_actions p = dp_opens p @ dp_increases p @ dp_reductions p @ dp_closes p"

definition planned_delta :: "delta_order_plan \<Rightarrow> string \<Rightarrow> pyfloat" where
  "planned_delta p s = dget (map (\<lambda>a. (da_symbol a, da_delta_notional a)) (plan_actions p)) s (Fin 0)"

lemma delta_for_cases:
  obtains "delta_for ts cur tg s = []"
      "flt (fabs (round_nd 8 (fsub (dget tg s (Fin 0)) (dget cur s (Fin 0))))) f_1em9"
  | a where "delta_for ts cur tg s = [a]" "da_symbol a = s"
      "da_delta_notional a = round_nd 8 (fsub (dget tg s (Fin 0)) (dget cur s (Fin 0)))"
      "da_action a = action_name (dget cur s (Fin 0)) (dget tg s (Fin 0)) (da_delta_notional a)"
      "da_side a = (if flt (Fin 0) (da_delta_notional a) then ''BUY'' else ''SELL'')"
      "da_reduce_only a \<longleftrightarrow> flt (da_delta_notional a) (Fin 0)"
      "\<not> flt (fabs (da_delta_notional a)) f_1em9"
  by (cases "flt (fabs (round_nd 8 (fsub (dget tg s (Fin 0)) (dget cur s (Fin 0))))) f_1em9")
    (simp_all add: delta_for_def Let_def)

lemma delta_for_symbols: "a \<in> set (delta_for ts cur tg s) \<Longrightarrow> da_symbol a = s"
  by (cases rule: delta_for_cases [of ts cur tg s]) auto

lemma delta_for_distinct: "distinct (map da_symbol (delta_for ts cur tg s))"
  by (cases rule: delta_for_cases [of ts cur tg s]) auto

lemma concat_deltas_distinct:
  "distinct ss \<Longrightarrow> distinct (map da_symbol (concat (map (delta_for ts cur tg) ss)))"
proof (induction ss)
  case (Cons s ss)
  have "s \<notin> da_symbol ` set (concat (map (delta_for ts cur tg) ss))"
    using Cons.prems by (auto dest: delta_for_symbols)
  moreover have "da_symbol ` set (delta_for ts cur tg s) \<subseteq> {s}"
    by (auto dest: delta_for_symbols)
  ultimately show ?case using Cons delta_for_distinct [of ts cur tg s] by auto
qed simp

lemma action_name_cases:
  "action_name c g d \<in> {''open'', ''close'', ''increase'', ''reduction''}"
  by (simp add: action_name_def)

lemma delta_actions_named:
  "a \<in> set (delta_actions ts cur) \<Longrightarrow> da_action a \<in> {''open'', ''increase'', ''reduction'', ''close''}"
proof -
  assume "a \<in> set (delta_actions ts cur)"
  then obtain s where "a \<in> set (delta_for ts cur (target_notional_by_symbol ts) s)"
    by (auto simp: delta_actions_def Let_def)
  then show ?thesis
    using action_name_cases
    by (cases rule: delta_for_cases [of ts cur "target_notional_by_symbol ts" s]) force+
qed

lemma plan_actions_of [simp]:
  "plan_actions (build_delta_order_plan H pid cur ts f sl fu)
   = filter (\<lambda>a. da_action a = ''open'') (delta_actions ts cur)
     @ filter (\<lambda>a. da_action a = ''increase'') (delta_actions ts cur)
     @ filter (\<lambda>a. da_action a = ''reduction'') (delta_actions ts cur)
     @ filter (\<lambda>a. da_action a = ''close'') (delta_actions ts cur)"
  by (simp add: plan_actions_def build_delta_order_plan_def Let_def)

lemma set_plan_actions:
  "set (plan_actions (build_delta_order_plan H pid cur ts f sl fu)) = set (delta_actions ts cur)"
  using delta_actions_named by auto

lemma plan_actions_distinct:
  "distinct (map da_symbol (plan_actions (build_delta_order_plan H pid cur ts f sl fu)))"
proof -
  have d: "distinct (map da_symbol (delta_actions ts cur))"
    by (simp add: delta_actions_def Let_def concat_deltas_distinct)
  then have inj: "inj_on da_symbol (set (delta_actions ts cur))" and "distinct (delta_actions ts cur)"
    by (simp_all add: distinct_map)
  then have "distinct (plan_actions (build_delta_order_plan H pid cur ts f sl fu))"
    by auto
  with inj show ?thesis
    unfolding distinct_map set_plan_actions by blast
qed

lemma target_keys: "dkeys (target_notional_by_symbol ts) = sy_symbol ` set ts"
proof -
  have "dkeys (fold add_target ts d) = dkeys d \<union> sy_symbol ` set ts" for d
    by (induction ts arbitrary: d) (auto simp: add_target_def)
  then show ?thesis by (simp add: target_notional_by_symbol_def)
qed

lemma dget_notin: "k \<notin> dkeys d \<Longrightarrow> dget d k v = v"
  by (simp add: dget_def not_dkeys_iff)

lemma planned_delta_of:
  "planned_delta (build_delta_order_plan H pid cur ts f sl fu) s =
     (let d = round_nd 8 (fsub (dget (target_notional_by_symbol ts) s (Fin 0)) (dget cur s (Fin 0)))
      in if flt (fabs d) f_1em9 then Fin 0 else d)"
proof -
  let ?p = "build_delta_order_plan H pid cur ts f sl fu" and ?tg = "target_notional_by_symbol ts"
  let ?ss = "sorted_set (map fst cur @ map fst ?tg)"
  have acts: "set (plan_actions ?p) = (\<Union>r \<in> set ?ss. set (delta_for ts cur ?tg r))"
    by (simp only: set_plan_actions delta_actions_def Let_def set_concat set_map) auto
  show ?thesis
  proof (cases rule: delta_for_cases [of ts cur ?tg s])
    case 1
    have "da_symbol b \<noteq> s" if "b \<in> set (plan_actions ?p)" for b
      using that 1(1) delta_for_symbols unfolding acts by (metis UN_E empty_iff list.set(1))
    then have "map_of (map (\<lambda>a. (da_symbol a, da_delta_notional a)) (plan_actions ?p)) s = None"
      by (rule map_of_keyed_None)
    then show ?thesis using 1(2) by (simp only: planned_delta_def dget_def option.case Let_def if_True)
  next
    case (2 a)
    have "s \<in> set ?ss"
    proof (rule ccontr)
      assume n: "s \<notin> set ?ss"
      then have "s \<notin> dkeys cur" "s \<notin> dkeys ?tg" by (simp_all add: dkeys_def)
      then have "da_delta_notional a = Fin 0" using 2(3) by (simp add: dget_notin fsub_def)
      then show False using 2(7) by simp
    qed
    then have "a \<in> set (plan_actions ?p)" unfolding acts by (rule UN_I) (simp only: 2(1) list.set_intros)
    from map_of_keyed_Some [OF plan_actions_distinct this, of da_delta_notional]
    have "planned_delta ?p s = da_delta_notional a"
      by (simp only: planned_delta_def dget_def 2(2) option.case)
    then show ?thesis using 2(3,7) by (simp only: Let_def if_False)
  qed
qed

text \<open>Whole notionals: the totals per symbol are exact integers.\<close>

definition whole_target :: "string \<Rightarrow> symbol_target \<Rightarrow> int \<Rightarrow> bool" where
  "whole_target s t k \<longleftrightarrow> sy_symbol t = s \<and> sy_target_notional t = Fin (of_int k)"

fun whole_notional :: "symbol_target \<Rightarrow> int" where
  "whole_notional t = (case sy_target_notional t of Fin q \<Rightarrow> \<lfloor>q\<rfloor> | _ \<Rightarrow> 0)"

definition symbol_total :: "symbol_target list \<Rightarrow> string \<Rightarrow> int" where
  "symbol_total ts s = (\<Sum>t\<leftarrow>filter (\<lambda>t. sy_symbol t = s) ts. whole_notional t)"

lemma add_whole:
  "\<bar>j\<bar> + \<bar>k\<bar> \<le> 2 ^ 53 \<Longrightarrow> round_nd 8 (fadd (Fin (of_int j)) (Fin (of_int k))) = Fin (of_int (j + k))"
proof -
  assume h: "\<bar>j\<bar> + \<bar>k\<bar> \<le> 2 ^ 53"
  then have "\<bar>j + k\<bar> \<le> 2 ^ 53" by linarith
  from fl_of_int [OF this] have "fadd (Fin (of_int j)) (Fin (of_int k)) = Fin (of_int (j + k))"
    by simp
  then show ?thesis using round_nd_whole [OF \<open>\<bar>j + k\<bar> \<le> 2 ^ 53\<close>] by (simp only:)
qed

lemma fold_targets_whole:
  assumes "\<forall>t \<in> set ts. sy_target_notional t = Fin (of_int (whole_notional t))"
    and "dget d s (Fin 0) = Fin (of_int j)"
    and "\<bar>j\<bar> + (\<Sum>t\<leftarrow>ts. \<bar>whole_notional t\<bar>) \<le> 2 ^ 53"
  shows "dget (fold add_target ts d) s (Fin 0) = Fin (of_int (j + symbol_total ts s))"
  using assms
proof (induction ts arbitrary: d j)
  case Nil
  then show ?case by (simp add: symbol_total_def)
next
  case (Cons t ts)
  let ?k = "whole_notional t"
  have k: "sy_target_notional t = Fin (of_int ?k)" using Cons.prems(1) by simp
  have nn: "0 \<le> (\<Sum>t\<leftarrow>ts. \<bar>whole_notional t\<bar>)" by (intro sum_list_nonneg) auto
  show ?case
  proof (cases "sy_symbol t = s")
    case True
    have b: "\<bar>j\<bar> + \<bar>?k\<bar> \<le> 2 ^ 53" "\<bar>j + ?k\<bar> + (\<Sum>t\<leftarrow>ts. \<bar>whole_notional t\<bar>) \<le> 2 ^ 53"
      using Cons.prems(3) [unfolded list.map sum_list.Cons] nn by linarith+
    have "dget (add_target t d) s (Fin 0) = Fin (of_int (j + ?k))"
      using True Cons.prems(2) k add_whole [OF b(1)] by (simp only: add_target_def dget_update) simp
    from Cons.IH [OF _ this b(2)] Cons.prems(1) True show ?thesis
      by (simp add: symbol_total_def add.assoc del: whole_notional.simps)
  next
    case False
    have b: "\<bar>j\<bar> + (\<Sum>t\<leftarrow>ts. \<bar>whole_notional t\<bar>) \<le> 2 ^ 53"
      using Cons.prems(3) [unfolded list.map sum_list.Cons] nn by linarith
    have "dget (add_target t d) s (Fin 0) = Fin (of_int j)"
      using False Cons.prems(2) by (simp add: add_target_def)
    from Cons.IH [OF _ this b] Cons.prems(1) False show ?thesis
      by (simp add: symbol_total_def del: whole_notional.simps)
  qed
qed

lemma small_ints_zero: "flt (fabs (Fin (of_int k))) f_1em9 \<Longrightarrow> k = 0"
proof -
  assume h: "flt (fabs (Fin (of_int k))) f_1em9"
  obtain q where q: "f_1em9 = Fin q" "q \<le> 1 / 2 ^ 29" using f_1em9_Fin by blast
  from h have "\<bar>of_int k\<bar> < q" unfolding q(1) by simp
  moreover have "(1 / 2 ^ 29 :: rat) < 1" by simp
  ultimately have "\<bar>of_int k :: rat\<bar> < 1" using q(2) by linarith
  then show ?thesis by (simp flip: of_int_abs)
qed

lemma plan_reaches_targets:
  assumes "\<forall>t \<in> set ts. sy_target_notional t = Fin (of_int (whole_notional t))"
    and "(\<Sum>t\<leftarrow>ts. \<bar>whole_notional t\<bar>) \<le> 2 ^ 52"
    and "dget cur s (Fin 0) = Fin (of_int c)" and "\<bar>c\<bar> \<le> 2 ^ 52"
  shows "distinct (map da_symbol (plan_actions (build_delta_order_plan H pid cur ts f sl fu)))
    \<and> fadd (dget cur s (Fin 0)) (planned_delta (build_delta_order_plan H pid cur ts f sl fu) s)
      = Fin (of_int (symbol_total ts s))
    \<and> (s \<notin> sy_symbol ` set ts \<longrightarrow> symbol_total ts s = 0)"
proof -
  let ?g = "symbol_total ts s" and ?p = "build_delta_order_plan H pid cur ts f sl fu"
  have g: "dget (target_notional_by_symbol ts) s (Fin 0) = Fin (of_int ?g)"
    unfolding target_notional_by_symbol_def
    using fold_targets_whole [OF assms(1), of "[]" s 0] assms(2) by (simp del: whole_notional.simps)
  have "\<bar>?g\<bar> \<le> (\<Sum>t\<leftarrow>ts. \<bar>whole_notional t\<bar>)"
    unfolding symbol_total_def by (induction ts) (auto simp del: whole_notional.simps)
  with assms(2) have gb: "\<bar>?g\<bar> \<le> 2 ^ 52" by linarith
  have "\<bar>?g\<bar> + \<bar>- c\<bar> \<le> 2 ^ 53" using gb assms(4) by simp
  from add_whole [OF this]
  have d: "round_nd 8 (fsub (Fin (of_int ?g)) (Fin (of_int c))) = Fin (of_int (?g - c))"
    by (simp add: fsub_def)
  have pd: "planned_delta ?p s = Fin (of_int (?g - c))"
    unfolding planned_delta_of g assms(3) d Let_def
    using small_ints_zero [of "?g - c"] by auto
  have "\<bar>c + (?g - c)\<bar> \<le> 2 ^ 53" using gb by simp
  from fl_of_int [OF this] have "fadd (dget cur s (Fin 0)) (planned_delta ?p s) = Fin (of_int ?g)"
    unfolding pd assms(3) by simp
  moreover have "s \<notin> sy_symbol ` set ts \<longrightarrow> ?g = 0"
    by (induction ts) (auto simp: symbol_total_def)
  ultimately show ?thesis using plan_actions_distinct by blast
qed

text \<open>What the targets ask for in one symbol: their sum, rounded to eight digits after each of them.\<close>

definition symbol_notional :: "symbol_target list \<Rightarrow> string \<Rightarrow> pyfloat" where
  "symbol_notional ts s =
     fold (\<lambda>t n. round_nd 8 (fadd n (sy_target_notional t))) (filter (\<lambda>t. sy_symbol t = s) ts) (Fin 0)"

lemma target_notional_of: "dget (target_notional_by_symbol ts) s (Fin 0) = symbol_notional ts s"
proof -
  have "dget (fold add_target ts d) s (Fin 0)
      = fold (\<lambda>t n. round_nd 8 (fadd n (sy_target_notional t))) (filter (\<lambda>t. sy_symbol t = s) ts) (dget d s (Fin 0))" for d
    by (induction ts arbitrary: d) (simp_all add: add_target_def)
  from this [of "[]"] show ?thesis by (simp add: target_notional_by_symbol_def symbol_notional_def)
qed

lemma untargeted_notional: "s \<notin> sy_symbol ` set ts \<Longrightarrow> symbol_notional ts s = Fin 0"
  by (simp add: target_notional_of [symmetric] dget_notin target_keys)

text \<open>C9. A delta order plan moves the book towards its targets.  For any notionals, each symbol appears in at
  most one action, and the delta planned for a symbol, held or targeted or neither, is the sum of its
  targets less its current notional, rounded to eight digits, and nothing when this is smaller than 1e-9
  (a symbol without a target has target zero and is closed).  So a fractional notional is reached up to that rounding only;
  with whole notionals, targets whose sizes total at most \<open>2 ^ 52\<close> and a current notional of at most that
  size, the current notional plus the planned delta is exactly the sum of the symbol's targets.\<close>

theorem delta_plan_reaches_targets:
  "distinct (map da_symbol (plan_actions (build_delta_order_plan H pid cur ts f sl fu)))
   \<and> planned_delta (build_delta_order_plan H pid cur ts f sl fu) s =
       (let d = round_nd 8 (fsub (symbol_notional ts s) (dget cur s (Fin 0)))
        in if flt (fabs d) f_1em9 then Fin 0 else d)
   \<and> (s \<notin> sy_symbol ` set ts \<longrightarrow> symbol_notional ts s = Fin 0)
   \<and> ((\<forall>t \<in> set ts. sy_target_notional t = Fin (of_int (whole_notional t)))
        \<and> (\<Sum>t\<leftarrow>ts. \<bar>whole_notional t\<bar>) \<le> 2 ^ 52
        \<and> dget cur s (Fin 0) = Fin (of_int c) \<and> \<bar>c\<bar> \<le> 2 ^ 52 \<longrightarrow>
      fadd (dget cur s (Fin 0)) (planned_delta (build_delta_order_plan H pid cur ts f sl fu) s)
      = Fin (of_int (symbol_total ts s)))"
  using plan_actions_distinct [of H pid cur ts f sl fu] planned_delta_of [of H pid cur ts f sl fu s, unfolded target_notional_of]
    untargeted_notional [of s ts] plan_reaches_targets [of ts cur s c H pid f sl fu] by blast

theorem delta_plan_reaches_targets_witness:
  "fadd (Fin 200) (planned_delta (build_delta_order_plan zero_hash ''p'' [(''BTCUSDT'', Fin 200)]
       [sample_target, sample_target] (Fin 0) (Fin 0) (Fin 0)) ''BTCUSDT'') = Fin 1000"
proof -
  have w: "\<forall>t \<in> set [sample_target, sample_target].
      sy_target_notional t = Fin (of_int (whole_notional t))"
    by (simp add: sample_target_def)
  have b: "(\<Sum>t\<leftarrow>[sample_target, sample_target]. \<bar>whole_notional t\<bar>) \<le> 2 ^ 52"
    by (simp add: sample_target_def)
  have c: "dget [(''BTCUSDT'', Fin 200)] ''BTCUSDT'' (Fin 0) = Fin (of_int 200)"
    by (simp add: dget_def)
  have t: "symbol_total [sample_target, sample_target] ''BTCUSDT'' = 1000"
    by (simp add: symbol_total_def sample_target_def)
  have "\<bar>200::int\<bar> \<le> 2 ^ 52" by simp
  with w b c have "fadd (dget [(''BTCUSDT'', Fin 200)] ''BTCUSDT'' (Fin 0))
      (planned_delta (build_delta_order_plan zero_hash ''p'' [(''BTCUSDT'', Fin 200)]
         [sample_target, sample_target] (Fin 0) (Fin 0) (Fin 0)) ''BTCUSDT'')
      = Fin (of_int (symbol_total [sample_target, sample_target] ''BTCUSDT''))"
    using delta_plan_reaches_targets [of zero_hash "''p''" "[(''BTCUSDT'', Fin 200)]" "[sample_target, sample_target]"
        "Fin 0" "Fin 0" "Fin 0" "''BTCUSDT''" 200] by blast
  then show ?thesis unfolding t c by (simp only: of_int_numeral)
qed

definition sided_ok :: "(string, pyfloat) dict \<Rightarrow> delta_action \<Rightarrow> bool" where
  "sided_ok cur a \<longleftrightarrow>
     (da_action a = ''open'' \<longrightarrow> da_side a = ''BUY'' \<and> \<not> da_reduce_only a
        \<and> feq (dget cur (da_symbol a) (Fin 0)) (Fin 0))
     \<and> (da_action a = ''increase'' \<longrightarrow> da_side a = ''BUY'' \<and> \<not> da_reduce_only a)
     \<and> (da_action a = ''close'' \<longrightarrow> da_side a = ''SELL'' \<and> da_reduce_only a
        \<and> flt (Fin 0) (dget cur (da_symbol a) (Fin 0)))
     \<and> (da_action a = ''reduction'' \<longrightarrow> da_side a = ''SELL''
        \<and> (da_delta_notional a \<noteq> NaN \<longrightarrow> da_reduce_only a))"

lemma opening_delta: "feq c (Fin 0) \<Longrightarrow> flt (Fin 0) g \<Longrightarrow> fle (Fin 0) (round_nd 8 (fsub g c))"
  using fl_mono [of 0] by (intro round_nd_nonneg) (cases c; cases g; auto simp: fsub_def)

lemma closing_delta:
  assumes "feq g (Fin 0)" "flt (Fin 0) c"
  shows "fle (round_nd 8 (fsub g c)) (Fin 0)"
proof -
  have "fle (fsub g c) (Fin 0)"
    using assms fl_mono [of _ 0] by (cases c; cases g) (auto simp: fsub_def)
  from round_nd_mono [OF this, of 8] show ?thesis by simp
qed

lemma not_tiny:
  assumes "\<not> flt (fabs d) f_1em9"
  shows "d \<noteq> Fin 0" "fle (Fin 0) d \<Longrightarrow> flt (Fin 0) d \<and> \<not> flt d (Fin 0)"
    "fle d (Fin 0) \<Longrightarrow> flt d (Fin 0) \<and> \<not> flt (Fin 0) d"
proof -
  show nz: "d \<noteq> Fin 0" using assms by auto
  show "fle (Fin 0) d \<Longrightarrow> flt (Fin 0) d \<and> \<not> flt d (Fin 0)" using nz by (cases d) auto
  show "fle d (Fin 0) \<Longrightarrow> flt d (Fin 0) \<and> \<not> flt (Fin 0) d" using nz by (cases d) auto
qed

lemma delta_actions_sided:
  assumes "a \<in> set (delta_actions ts cur)"
  shows "sided_ok cur a"
proof -
  let ?tg = "target_notional_by_symbol ts" and ?d = "da_delta_notional a"
  from assms obtain r where r: "a \<in> set (delta_for ts cur ?tg r)"
    by (auto simp: delta_actions_def Let_def)
  obtain c g where a: "c = dget cur (da_symbol a) (Fin 0)" "?d = round_nd 8 (fsub g c)"
      "da_action a = action_name c g ?d"
      "da_side a = (if flt (Fin 0) ?d then ''BUY'' else ''SELL'')"
      "da_reduce_only a \<longleftrightarrow> flt ?d (Fin 0)" "\<not> flt (fabs ?d) f_1em9"
    by (cases rule: delta_for_cases [of ts cur ?tg r]) (use r in auto)
  note nt = not_tiny [OF a(6)]
  consider "feq c (Fin 0)" "flt (Fin 0) g" "da_action a = ''open''"
    | "feq g (Fin 0)" "flt (Fin 0) c" "da_action a = ''close''"
    | "flt (Fin 0) ?d" "da_action a = ''increase''"
    | "\<not> flt (Fin 0) ?d" "da_action a = ''reduction''"
    using a(3) by (auto simp: action_name_def split: if_splits)
  then show ?thesis
  proof cases
    case 1
    with nt(2) opening_delta [OF 1(1,2)] a(1,2,4,5) show ?thesis by (simp add: sided_ok_def)
  next
    case 2
    with nt(3) closing_delta [OF 2(1,2)] a(1,2,4,5) show ?thesis by (simp add: sided_ok_def)
  next
    case 3
    with nt(2) a(4,5) show ?thesis by (simp add: sided_ok_def fle_iff)
  next
    case 4
    have "?d = NaN \<or> flt ?d (Fin 0)" using nt(1) 4(1) by (cases ?d) auto
    with 4 a(4,5) show ?thesis by (auto simp: sided_ok_def)
  qed
qed

text \<open>The buckets of a plan agree with their sides: opens and increases buy and are not
  reduce-only, closes sell reduce-only, reductions sell, reduce-only whenever the delta is a
  number; and only what really had no position is opened, only what has no target is closed.\<close>

lemma delta_plan_sides:
  fixes H pid cur ts f sl fu
  defines "p \<equiv> build_delta_order_plan H pid cur ts f sl fu"
  shows "(\<forall>a \<in> set (dp_opens p). da_side a = ''BUY'' \<and> \<not> da_reduce_only a
        \<and> feq (dget cur (da_symbol a) (Fin 0)) (Fin 0))
    \<and> (\<forall>a \<in> set (dp_increases p). da_side a = ''BUY'' \<and> \<not> da_reduce_only a)
    \<and> (\<forall>a \<in> set (dp_closes p). da_side a = ''SELL'' \<and> da_reduce_only a
        \<and> flt (Fin 0) (dget cur (da_symbol a) (Fin 0)))
    \<and> (\<forall>a \<in> set (dp_reductions p). da_side a = ''SELL''
        \<and> (da_delta_notional a \<noteq> NaN \<longrightarrow> da_reduce_only a))"
proof -
  have each: "sided_ok cur a" if "a \<in> set (delta_actions ts cur)" for a
    using that by (rule delta_actions_sided)
  then show ?thesis
    unfolding p_def sided_ok_def by (simp add: build_delta_order_plan_def Let_def)
qed

end
