(* ===== verification/Allocator.thy ===== *)
theory Allocator
  imports Targets
begin

text \<open>
  The portfolio allocator (\<open>portfolio/allocator.py\<close>, \<open>portfolio/strategy_allocator.py\<close>): candidates
  are admitted one by one against the constraints, role crowding is resolved afterwards, and the
  plan, its dashboard and its artifact are derived; human overrides act on the artifact table and
  leave a journal.  The paper-authority decision on an artifact payload, the clock and fresh
  identifiers are parameters.
\<close>

section \<open>Candidates, constraints and plans\<close>

definition portfolio_roles :: "string set" where
  "portfolio_roles = {''core'', ''defensive'', ''opportunistic'', ''carry'', ''crash_hedge''}"

definition active_artifact_states :: "string set" where
  "active_artifact_states = {''paper'', ''shadow_live'', ''tiny_live'', ''pilot_live'', ''scaled_live''}"

record portfolio_candidate =
  pc_artifact_id :: string
  pc_strategy_id :: string
  pc_symbol_scope :: "string list"
  pc_regime_scope :: "string list"
  pc_portfolio_role :: string
  pc_target_notional :: pyfloat
  pc_max_notional :: pyfloat
  pc_expected_return_bps :: pyfloat
  pc_max_drawdown :: pyfloat
  pc_artifact_health :: string
  pc_approved :: bool
  pc_paper_live_divergence_bps :: pyfloat
  pc_stress_loss_by_scenario :: "(string, pyfloat) dict option"
  pc_correlation_by_artifact :: "(string, pyfloat) dict option"
  pc_artifact_payload :: "pyval option"

record portfolio_constraints =
  co_equity :: pyfloat
  co_max_per_symbol_exposure :: pyfloat
  co_max_aggregate_leverage :: pyfloat
  co_drawdown_budget :: pyfloat
  co_max_pairwise_correlation :: pyfloat
  co_max_role_fraction :: pyfloat

record portfolio_rejection =
  pr_artifact_id :: string
  pr_reason_code :: string
  pr_reason :: string

record portfolio_plan =
  pp_portfolio_plan_id :: string
  pp_accepted :: bool
  pp_allocations :: "portfolio_allocation list"
  pp_rejections :: "portfolio_rejection list"
  pp_constraints :: portfolio_constraints
  pp_active_regimes :: "(string, string) dict"
  pp_exposure_by_symbol :: "(string, pyfloat) dict"
  pp_notional_by_symbol :: "(string, pyfloat) dict"
  pp_aggregate_leverage :: pyfloat
  pp_drawdown_usage :: pyfloat
  pp_created_at_utc :: string
  pp_candidate_payloads :: "portfolio_candidate list"

text \<open>\<open>paper_authority_decision\<close>: allowed or not, with its reasons.\<close>

type_synonym authority = "pyval \<Rightarrow> bool \<times> string list"

section \<open>Admission of one candidate\<close>

definition reject :: "string \<Rightarrow> string \<Rightarrow> string \<Rightarrow> portfolio_rejection" where
  "reject i c r = \<lparr>pr_artifact_id = i, pr_reason_code = c, pr_reason = r\<rparr>"

definition authority_reason :: "string list \<Rightarrow> string" where
  "authority_reason reasons =
     (if ''missing_promotion_manifest'' \<in> set reasons then ''missing_promotion_manifest''
      else case reasons of [] \<Rightarrow> ''artifact_not_paper_eligible'' | r # _ \<Rightarrow> r)"

definition authority_rejection :: "authority \<Rightarrow> portfolio_candidate \<Rightarrow> portfolio_rejection option" where
  "authority_rejection auth c =
     (case pc_artifact_payload c of
        None \<Rightarrow> None
      | Some p \<Rightarrow>
          (case auth p of (allowed, reasons) \<Rightarrow>
             if allowed then None
             else Some (reject (pc_artifact_id c) (authority_reason reasons)
                    ''artifact manifest does not permit paper allocation'')))"

definition regime_mismatch :: "(string, string) dict \<Rightarrow> portfolio_candidate \<Rightarrow> bool" where
  "regime_mismatch regimes c \<longleftrightarrow>
     (\<exists>s \<in> set (pc_symbol_scope c). case map_of regimes s of
        None \<Rightarrow> False | Some r \<Rightarrow> r \<notin> set (pc_regime_scope c))"

definition candidate_rejection ::
    "authority \<Rightarrow> (string, string) dict \<Rightarrow> portfolio_candidate \<Rightarrow> portfolio_rejection option" where
  "candidate_rejection auth regimes c =
     (let no = reject (pc_artifact_id c) in
      if \<not> pc_approved c then Some (no ''artifact_not_approved'' ''artifact is not approved'')
      else case authority_rejection auth c of
        Some r \<Rightarrow> Some r
      | None \<Rightarrow>
          if pc_symbol_scope c = []
          then Some (no ''missing_symbol_scope'' ''artifact must declare symbol scope'')
          else if pc_regime_scope c = []
          then Some (no ''missing_regime_scope'' ''artifact must declare regime scope'')
          else if pc_portfolio_role c \<notin> portfolio_roles
          then Some (no ''invalid_portfolio_role'' ''artifact must declare a supported portfolio role'')
          else if pc_artifact_health c \<notin> active_artifact_states
          then Some (no ''artifact_not_active'' ''artifact lifecycle state cannot be allocated'')
          else if regime_mismatch regimes c
          then Some (no ''regime_scope_mismatch'' ''active regime is outside artifact regime scope'')
          else None)"

definition correlations_of :: "portfolio_candidate \<Rightarrow> (string, pyfloat) dict" where
  "correlations_of c = (case pc_correlation_by_artifact c of None \<Rightarrow> [] | Some d \<Rightarrow> d)"

definition pair_correlation ::
    "portfolio_candidate list \<Rightarrow> portfolio_candidate \<Rightarrow> portfolio_allocation \<Rightarrow> pyfloat option" where
  "pair_correlation cs c a =
     (case map_of (correlations_of c) (pa_artifact_id a) of
        Some x \<Rightarrow> Some x
      | None \<Rightarrow>
          (case map_of (dict_of (map (\<lambda>k. (pc_artifact_id k, k)) cs)) (pa_artifact_id a) of
             None \<Rightarrow> None
           | Some r \<Rightarrow> map_of (correlations_of r) (pc_artifact_id c)))"

definition crowded ::
    "portfolio_constraints \<Rightarrow> portfolio_candidate list \<Rightarrow> portfolio_candidate
     \<Rightarrow> portfolio_allocation list \<Rightarrow> bool" where
  "crowded co cs c as \<longleftrightarrow>
     (\<exists>a \<in> set as. case pair_correlation cs c a of
        None \<Rightarrow> False | Some x \<Rightarrow> flt (co_max_pairwise_correlation co) (fabs x))"

text \<open>The running state of the admission loop; the flag records a drawdown that is the sum of no
  values, the integer zero.\<close>

record alloc_state =
  al_allocations :: "portfolio_allocation list"
  al_rejections :: "portfolio_rejection list"
  al_exposure :: "(string, pyfloat) dict"
  al_notional :: "(string, pyfloat) dict"
  al_drawdown :: pyfloat
  al_drawdown_of_none :: bool

definition al_start :: alloc_state where
  "al_start = \<lparr>al_allocations = [], al_rejections = [], al_exposure = [], al_notional = [],
               al_drawdown = Fin 0, al_drawdown_of_none = False\<rparr>"

definition al_reject :: "portfolio_rejection \<Rightarrow> alloc_state \<Rightarrow> alloc_state" where
  "al_reject r s = s\<lparr>al_rejections := al_rejections s @ [r]\<rparr>"

definition add_exposure :: "pyfloat \<Rightarrow> string \<Rightarrow> (string, pyfloat) dict \<Rightarrow> (string, pyfloat) dict" where
  "add_exposure per sy d = AList.update sy (round_nd 8 (fadd (dget d sy (Fin 0)) per)) d"

definition admit_exposure :: "pyfloat \<Rightarrow> string \<Rightarrow> alloc_state \<Rightarrow> alloc_state" where
  "admit_exposure per sy s =
     (let e = add_exposure per sy (al_exposure s)
      in s\<lparr>al_exposure := e, al_notional := AList.update sy (dget e sy (Fin 0)) (al_notional s)\<rparr>)"

definition gross_notional :: "portfolio_allocation list \<Rightarrow> pyfloat" where
  "gross_notional as = py_sum (map pa_notional as)"

definition allocation_of :: "portfolio_candidate \<Rightarrow> pyfloat \<Rightarrow> portfolio_allocation" where
  "allocation_of c notional =
     \<lparr>pa_artifact_id = pc_artifact_id c, pa_strategy_id = pc_strategy_id c,
      pa_symbols = pc_symbol_scope c, pa_portfolio_role = pc_portfolio_role c,
      pa_notional = round_nd 8 notional, pa_expected_return_bps = pc_expected_return_bps c,
      pa_max_drawdown = pc_max_drawdown c\<rparr>"

definition candidate_notional :: "portfolio_candidate \<Rightarrow> pyfloat" where
  "candidate_notional c = fmin (pc_target_notional c) (pc_max_notional c)"

definition per_symbol :: "portfolio_candidate \<Rightarrow> pyfloat" where
  "per_symbol c = fquot (candidate_notional c) (Fin (of_nat (max 1 (length (pc_symbol_scope c)))))"

definition over_exposed :: "portfolio_constraints \<Rightarrow> portfolio_candidate \<Rightarrow> alloc_state \<Rightarrow> bool" where
  "over_exposed co c s \<longleftrightarrow>
     (\<exists>sy \<in> set (pc_symbol_scope c).
        flt (co_max_per_symbol_exposure co) (fadd (dget (al_exposure s) sy (Fin 0)) (per_symbol c)))"

definition over_levered :: "portfolio_constraints \<Rightarrow> portfolio_candidate \<Rightarrow> alloc_state \<Rightarrow> bool" where
  "over_levered co c s \<longleftrightarrow>
     fle (co_equity co) (Fin 0)
     \<or> flt (co_max_aggregate_leverage co)
         (fquot (fadd (gross_notional (al_allocations s)) (candidate_notional c)) (co_equity co))"

definition drawdown_after :: "portfolio_constraints \<Rightarrow> portfolio_candidate \<Rightarrow> alloc_state \<Rightarrow> pyfloat" where
  "drawdown_after co c s =
     fadd (al_drawdown s) (fmul (fquot (candidate_notional c) (co_equity co)) (pc_max_drawdown c))"

definition alloc_step ::
    "authority \<Rightarrow> (string, string) dict \<Rightarrow> portfolio_constraints \<Rightarrow> portfolio_candidate list
     \<Rightarrow> portfolio_candidate \<Rightarrow> alloc_state \<Rightarrow> alloc_state" where
  "alloc_step auth regimes co cs c s =
     (let no = (\<lambda>code r. al_reject (reject (pc_artifact_id c) code r) s) in
      case candidate_rejection auth regimes c of
        Some r \<Rightarrow> al_reject r s
      | None \<Rightarrow>
          if crowded co cs c (al_allocations s)
          then no ''correlation_crowding'' ''candidate is too correlated with allocated artifact''
          else if over_exposed co c s
          then no ''per_symbol_exposure_limit'' ''candidate would breach max per-symbol exposure''
          else if over_levered co c s
          then no ''aggregate_leverage_limit'' ''candidate would breach aggregate leverage''
          else if flt (co_drawdown_budget co) (drawdown_after co c s)
          then no ''drawdown_budget_limit'' ''candidate would breach drawdown budget''
          else fold (admit_exposure (per_symbol c)) (pc_symbol_scope c)
                 (s\<lparr>al_allocations := al_allocations s @ [allocation_of c (candidate_notional c)],
                    al_drawdown := drawdown_after co c s\<rparr>))"

definition alloc_loop ::
    "authority \<Rightarrow> (string, string) dict \<Rightarrow> portfolio_constraints \<Rightarrow> portfolio_candidate list
     \<Rightarrow> alloc_state" where
  "alloc_loop auth regimes co cs = fold (alloc_step auth regimes co cs) cs al_start"

section \<open>Role crowding\<close>

definition add_role ::
    "portfolio_allocation \<Rightarrow> (string, portfolio_allocation list) dict
     \<Rightarrow> (string, portfolio_allocation list) dict" where
  "add_role a d = AList.update (pa_portfolio_role a) (dget d (pa_portfolio_role a) [] @ [a]) d"

definition notional_key :: "portfolio_allocation \<Rightarrow> pyfloat" where
  "notional_key a = pa_notional a"

text \<open>\<open>sorted(rows, key=notional, reverse=True)\<close>: a stable descending insertion sort; the sums
  and comparisons of the rows are those of floats.\<close>

fun insert_desc :: "portfolio_allocation \<Rightarrow> portfolio_allocation list \<Rightarrow> portfolio_allocation list" where
  "insert_desc a [] = [a]"
| "insert_desc a (b # bs) =
     (if flt (notional_key b) (notional_key a) then a # b # bs else b # insert_desc a bs)"

definition sort_desc :: "portfolio_allocation list \<Rightarrow> portfolio_allocation list" where
  "sort_desc rows = fold insert_desc rows []"

definition role_rejections_for ::
    "portfolio_constraints \<Rightarrow> pyfloat \<Rightarrow> string \<times> portfolio_allocation list
     \<Rightarrow> portfolio_rejection list" where
  "role_rejections_for co gross r =
     (if fle (fquot (gross_notional (snd r)) gross) (co_max_role_fraction co) then []
      else map (\<lambda>row. reject (pa_artifact_id row) ''role_crowding_limit''
                  (''portfolio role '' @ fst r @ '' exceeds fraction limit''))
             (tl (sort_desc (snd r))))"

definition role_fraction_rejections ::
    "portfolio_allocation list \<Rightarrow> portfolio_constraints \<Rightarrow> portfolio_rejection list" where
  "role_fraction_rejections as co =
     (let gross = gross_notional as in
      if fle (Fin 1) (co_max_role_fraction co) \<or> length as < 2 then []
      else if fle gross (Fin 0) then []
      else concat (map (role_rejections_for co gross) (fold add_role as [])))"

definition exposure_from_allocations :: "portfolio_allocation list \<Rightarrow> (string, pyfloat) dict" where
  "exposure_from_allocations as =
     fold (\<lambda>a d. fold (add_exposure (fquot (pa_notional a)
               (Fin (of_nat (max 1 (length (pa_symbols a))))))) (pa_symbols a) d) as []"

definition resolve_roles :: "portfolio_constraints \<Rightarrow> alloc_state \<Rightarrow> alloc_state result" where
  "resolve_roles co s =
     (let rs = role_fraction_rejections (al_allocations s) co in
      if rs = [] then Inr s
      else
        let kept = filter (\<lambda>a. pa_artifact_id a \<notin> pr_artifact_id ` set rs) (al_allocations s);
            exposure = exposure_from_allocations kept
        in rbind (rmap (\<lambda>a. rbind (fdiv (pa_notional a) (co_equity co))
                         (\<lambda>q. Inr (fmul q (pa_max_drawdown a)))) kept) (\<lambda>ds.
             Inr \<lparr>al_allocations = kept, al_rejections = al_rejections s @ rs,
                  al_exposure = exposure, al_notional = exposure, al_drawdown = py_sum ds,
                  al_drawdown_of_none = (kept = [])\<rparr>))"

section \<open>The plan\<close>

definition allocation_dict :: "portfolio_allocation \<Rightarrow> pyval" where
  "allocation_dict a = PDict
     [(''artifact_id'', PStr (pa_artifact_id a)), (''strategy_id'', PStr (pa_strategy_id a)),
      (''symbols'', PList (map PStr (pa_symbols a))),
      (''portfolio_role'', PStr (pa_portfolio_role a)), (''notional'', PFloat (pa_notional a)),
      (''expected_return_bps'', PFloat (pa_expected_return_bps a)),
      (''max_drawdown'', PFloat (pa_max_drawdown a))]"

definition rejection_dict :: "portfolio_rejection \<Rightarrow> pyval" where
  "rejection_dict r = PDict
     [(''artifact_id'', PStr (pr_artifact_id r)), (''reason_code'', PStr (pr_reason_code r)),
      (''reason'', PStr (pr_reason r))]"

definition constraints_dict :: "portfolio_constraints \<Rightarrow> pyval" where
  "constraints_dict c = PDict
     [(''equity'', PFloat (co_equity c)),
      (''max_per_symbol_exposure'', PFloat (co_max_per_symbol_exposure c)),
      (''max_aggregate_leverage'', PFloat (co_max_aggregate_leverage c)),
      (''drawdown_budget'', PFloat (co_drawdown_budget c)),
      (''max_pairwise_correlation'', PFloat (co_max_pairwise_correlation c)),
      (''max_role_fraction'', PFloat (co_max_role_fraction c))]"

definition float_dict :: "(string, pyfloat) dict \<Rightarrow> pyval" where
  "float_dict d = PDict (map (map_prod id PFloat) d)"

definition str_dict :: "(string, string) dict \<Rightarrow> pyval" where
  "str_dict d = PDict (map (map_prod id PStr) d)"

definition plan_payload ::
    "alloc_state \<Rightarrow> portfolio_constraints \<Rightarrow> (string, string) dict \<Rightarrow> pyval" where
  "plan_payload s co regimes = PDict
     [(''allocations'', PList (map allocation_dict (al_allocations s))),
      (''rejections'', PList (map rejection_dict (al_rejections s))),
      (''constraints'', constraints_dict co), (''active_regimes'', str_dict regimes),
      (''exposure_by_symbol'', float_dict (al_exposure s)),
      (''drawdown_usage'', if al_drawdown_of_none s then PInt 0
                              else PFloat (round_nd 8 (al_drawdown s)))]"

definition candidate_payload :: "portfolio_candidate \<Rightarrow> portfolio_candidate" where
  "candidate_payload c =
     c\<lparr>pc_stress_loss_by_scenario :=
          Some (case pc_stress_loss_by_scenario c of None \<Rightarrow> [] | Some d \<Rightarrow> d),
        pc_correlation_by_artifact := Some (correlations_of c)\<rparr>"

definition build_portfolio_plan ::
    "stable_hash \<Rightarrow> authority \<Rightarrow> string \<Rightarrow> portfolio_candidate list \<Rightarrow> portfolio_constraints
     \<Rightarrow> (string, string) dict \<Rightarrow> string option \<Rightarrow> portfolio_plan result" where
  "build_portfolio_plan H auth clock cs co regimes now_utc =
     rbind (resolve_roles co (alloc_loop auth regimes co cs)) (\<lambda>s. Inr
       \<lparr>pp_portfolio_plan_id = ''portfolio-'' @ take 16 (H (plan_payload s co regimes)),
        pp_accepted = (al_allocations s \<noteq> [] \<and> al_rejections s = []),
        pp_allocations = al_allocations s, pp_rejections = al_rejections s,
        pp_constraints = co, pp_active_regimes = regimes,
        pp_exposure_by_symbol = al_exposure s, pp_notional_by_symbol = al_notional s,
        pp_aggregate_leverage = round_nd 8
          (if fle (co_equity co) (Fin 0) then Fin 0
           else fquot (gross_notional (al_allocations s)) (co_equity co)),
        pp_drawdown_usage = round_nd 8 (al_drawdown s),
        pp_created_at_utc = (case now_utc of
            Some t \<Rightarrow> if t = [] then clock else t | None \<Rightarrow> clock),
        pp_candidate_payloads = map candidate_payload cs\<rparr>)"

section \<open>Dashboard, artifact and correlation breaks\<close>

record risk_dashboard =
  db_portfolio_plan_id :: string
  db_accepted :: bool
  db_correlations :: "(string, (string, pyfloat) dict) dict"
  db_exposure_by_symbol :: "(string, pyfloat) dict"
  db_notional_by_symbol :: "(string, pyfloat) dict"
  db_stress_losses :: "(string, pyfloat) dict"
  db_active_regimes :: "(string, string) dict"
  db_artifact_health :: "(string, string) dict"
  db_paper_live_divergence :: "(string, pyfloat) dict"
  db_aggregate_leverage :: pyfloat
  db_drawdown_usage :: pyfloat
  db_rejections :: "portfolio_rejection list"

definition add_stress ::
    "(string \<times> pyfloat) list \<Rightarrow> (string, pyfloat) dict \<Rightarrow> (string, pyfloat) dict" where
  "add_stress losses d =
     fold (\<lambda>(sc, l) d. AList.update sc (round_nd 8 (fadd (dget d sc (Fin 0)) l)) d) losses d"

definition build_portfolio_risk_dashboard :: "portfolio_plan \<Rightarrow> risk_dashboard" where
  "build_portfolio_risk_dashboard p =
     (let cs = dict_of (map (\<lambda>c. (pc_artifact_id c, c)) (pp_candidate_payloads p)) in
      \<lparr>db_portfolio_plan_id = pp_portfolio_plan_id p, db_accepted = pp_accepted p,
       db_correlations = map (map_prod id correlations_of) cs,
       db_exposure_by_symbol = pp_exposure_by_symbol p,
       db_notional_by_symbol = pp_notional_by_symbol p,
       db_stress_losses =
         fold (\<lambda>c. add_stress (case pc_stress_loss_by_scenario (snd c) of None \<Rightarrow> [] | Some d \<Rightarrow> d)) cs [],
       db_active_regimes = pp_active_regimes p,
       db_artifact_health = map (map_prod id pc_artifact_health) cs,
       db_paper_live_divergence = map (map_prod id pc_paper_live_divergence_bps) cs,
       db_aggregate_leverage = pp_aggregate_leverage p, db_drawdown_usage = pp_drawdown_usage p,
       db_rejections = pp_rejections p\<rparr>)"

definition plan_status :: "portfolio_plan \<Rightarrow> string" where
  "plan_status p = (if pp_accepted p then ''accepted'' else ''rejected'')"

definition artifact_fields :: "portfolio_plan \<Rightarrow> (string \<times> pyval) list" where
  "artifact_fields p =
     [(''schema_version'', PInt 1), (''portfolio_plan_id'', PStr (pp_portfolio_plan_id p)),
      (''status'', PStr (plan_status p)), (''created_at_utc'', PStr (pp_created_at_utc p)),
      (''allocations'', PList (map allocation_dict (pp_allocations p))),
      (''rejections'', PList (map rejection_dict (pp_rejections p))),
      (''constraints'', constraints_dict (pp_constraints p)),
      (''active_regimes'', str_dict (pp_active_regimes p)),
      (''exposure_by_symbol'', float_dict (pp_exposure_by_symbol p)),
      (''notional_by_symbol'', float_dict (pp_notional_by_symbol p)),
      (''aggregate_leverage'', PFloat (pp_aggregate_leverage p)),
      (''drawdown_usage'', PFloat (pp_drawdown_usage p))]"

definition build_portfolio_artifact :: "stable_hash \<Rightarrow> portfolio_plan \<Rightarrow> (string \<times> pyval) list" where
  "build_portfolio_artifact H p =
     (let digest = H (PDict (artifact_fields p))
      in artifact_fields p @ [(''portfolio_artifact_sha256'', PStr digest),
           (''portfolio_artifact_id'', PStr (''portfolio-'' @ take 16 digest))])"

record correlation_break =
  cb_artifact_id :: string
  cb_triggered :: bool
  cb_baseline_correlation :: pyfloat
  cb_observed_correlation :: pyfloat
  cb_delta :: pyfloat
  cb_allowed_actions :: "string list"
  cb_reason_code :: string

definition detect_correlation_break ::
    "string \<Rightarrow> pyfloat \<Rightarrow> pyfloat \<Rightarrow> pyfloat \<Rightarrow> string list \<Rightarrow> correlation_break" where
  "detect_correlation_break artifact_id baseline observed threshold_delta validated_actions =
     (let delta = fabs (fsub observed baseline); triggered = fle threshold_delta delta
      in \<lparr>cb_artifact_id = artifact_id, cb_triggered = triggered,
          cb_baseline_correlation = baseline, cb_observed_correlation = observed,
          cb_delta = round_nd 8 delta,
          cb_allowed_actions = filter (\<lambda>a. a \<in> {''reduce'', ''hedge'', ''pause''}) validated_actions,
          cb_reason_code = (if triggered then ''correlation_break_overlay''
                            else ''correlation_within_band'')\<rparr>)"

section \<open>Human overrides\<close>

definition override_actions :: "string set" where
  "override_actions =
     {''pause_artifact'', ''resume_artifact'', ''cancel_all'', ''flatten_all'', ''kill_switch'',
      ''rollback_artifact'', ''view_journal'', ''force_reconcile''}"

definition destructive_overrides :: "string set" where
  "destructive_overrides = {''cancel_all'', ''flatten_all'', ''kill_switch'', ''rollback_artifact''}"

record override_request =
  ov_action :: string
  ov_operator_id :: string
  ov_artifact_id :: "string option"
  ov_confirmation :: "string option"
  ov_reason :: "string option"
  ov_payload :: "(string \<times> pyval) list option"

record journal_row =
  jr_override_event_id :: string
  jr_ts_utc :: string
  jr_operator_id :: string
  jr_action :: string
  jr_artifact_id :: "string option"
  jr_confirmation :: "string option"
  jr_status :: string
  jr_reason_code :: string
  jr_payload :: "(string \<times> pyval) list"

record risk_event_row =
  re_ts_utc :: string
  re_reason_code :: string
  re_severity :: string
  re_action :: string
  re_operator_id :: string
  re_artifact_id :: "string option"

text \<open>The tables the allocator writes: plans, the artifacts' rollout stages, the override journal,
  risk events by id, and the operators whose kill switch was passed on as an execution event.\<close>

record portfolio_store =
  st_plans :: "(string, string \<times> string) dict"
  st_stages :: "(string, string) dict"
  st_journal :: "journal_row list"
  st_risk_events :: "(string, risk_event_row) dict"
  st_kill_events :: "(string \<times> string) list"

record override_result =
  ovr_applied :: bool
  ovr_override_event_id :: string
  ovr_action :: string
  ovr_reasons :: "string list"
  ovr_journal :: "journal_row list"

definition persist_portfolio_plan :: "portfolio_plan \<Rightarrow> portfolio_store \<Rightarrow> portfolio_store" where
  "persist_portfolio_plan p st =
     st\<lparr>st_plans := AList.update (pp_portfolio_plan_id p) (plan_status p, pp_created_at_utc p)
                      (st_plans st)\<rparr>"

definition given :: "string option \<Rightarrow> bool" where
  "given x \<longleftrightarrow> (case x of None \<Rightarrow> False | Some s \<Rightarrow> s \<noteq> [])"

definition override_rejections :: "override_request \<Rightarrow> string list" where
  "override_rejections r =
     (let expected = ''CONFIRM:'' @ ov_action r in
      flag (ov_action r \<notin> override_actions) ''invalid_override_action''
      @ flag (ov_operator_id r = []) ''operator_id_required''
      @ flag (ov_action r \<in> {''pause_artifact'', ''resume_artifact'', ''rollback_artifact'', ''force_reconcile''}
              \<and> \<not> given (ov_artifact_id r)) ''artifact_id_required''
      @ flag (ov_action r \<in> destructive_overrides \<and> ov_confirmation r \<noteq> Some expected)
          (''confirmation_required:'' @ expected))"

definition stage_for :: "string \<Rightarrow> string option" where
  "stage_for action =
     (if action = ''pause_artifact'' then Some ''paused''
      else if action = ''resume_artifact'' then Some ''paper''
      else if action = ''rollback_artifact'' then Some ''retired'' else None)"

text \<open>\<open>UPDATE artifacts SET rollout_stage = ... WHERE artifact_id = ?\<close>: no row, no effect.\<close>

definition apply_override_db_effect ::
    "override_request \<Rightarrow> (string, string) dict \<Rightarrow> (string, string) dict" where
  "apply_override_db_effect r stages =
     (case (stage_for (ov_action r), ov_artifact_id r) of
        (Some stage, Some a) \<Rightarrow>
          if a = [] then stages else map (\<lambda>(k, v). (k, if k = a then stage else v)) stages
      | _ \<Rightarrow> stages)"

definition load_override_journal :: "portfolio_store \<Rightarrow> string option \<Rightarrow> journal_row list" where
  "load_override_journal st a =
     sort_key jr_ts_utc
       (if given a then filter (\<lambda>j. jr_artifact_id j = a) (st_journal st) else st_journal st)"

definition apply_human_override ::
    "string \<Rightarrow> string \<Rightarrow> portfolio_store \<Rightarrow> override_request \<Rightarrow> override_result \<times> portfolio_store" where
  "apply_human_override event_id now st r =
     (let reasons = override_rejections r;
          applied = (reasons = []);
          code = ''human_override_'' @ ov_action r;
          row = \<lparr>jr_override_event_id = event_id, jr_ts_utc = now, jr_operator_id = ov_operator_id r,
                 jr_action = ov_action r, jr_artifact_id = ov_artifact_id r,
                 jr_confirmation = ov_confirmation r,
                 jr_status = (if applied then ''applied'' else ''rejected''),
                 jr_reason_code = (case reasons of [] \<Rightarrow> code | x # _ \<Rightarrow> x),
                 jr_payload = AList.update ''reason''
                   (PStr (case ov_reason r of None \<Rightarrow> [] | Some s \<Rightarrow> s))
                   (case ov_payload r of None \<Rightarrow> [] | Some d \<Rightarrow> d)\<rparr>;
          st1 = st\<lparr>st_journal := st_journal st @ [row]\<rparr>;
          st2 = (if applied
                 then st1\<lparr>st_stages := apply_override_db_effect r (st_stages st1),
                          st_risk_events := AList.update (''risk-'' @ event_id)
                            \<lparr>re_ts_utc = now, re_reason_code = code,
                             re_severity = (if ov_action r \<in> destructive_overrides then ''critical''
                                            else ''info''),
                             re_action = ov_action r, re_operator_id = ov_operator_id r,
                             re_artifact_id = ov_artifact_id r\<rparr> (st_risk_events st1)\<rparr>
                 else st1);
          st3 = (if applied \<and> ov_action r = ''kill_switch''
                 then st2\<lparr>st_kill_events := st_kill_events st2 @ [(now, ov_operator_id r)]\<rparr>
                 else st2);
          journal = (if ov_action r = ''view_journal''
                     then load_override_journal st3 (ov_artifact_id r) else [])
      in (\<lparr>ovr_applied = applied, ovr_override_event_id = event_id, ovr_action = ov_action r,
           ovr_reasons = reasons, ovr_journal = journal\<rparr>, st3))"

section \<open>Score tilts\<close>

definition constrained_score_tilt ::
    "portfolio_candidate list \<Rightarrow> pyfloat \<Rightarrow> (string, pyfloat) dict result" where
  "constrained_score_tilt cs max_weight =
     (let positive = filter (\<lambda>c. flt (Fin 0) (pc_expected_return_bps c) \<and> pc_approved c) cs;
          total_score = py_sum (map pc_expected_return_bps positive)
      in if fle total_score (Fin 0) then Inr []
         else rbind (rmap (\<lambda>c. rbind (fdiv (pc_expected_return_bps c) total_score)
                          (\<lambda>q. Inr (pc_artifact_id c, fmin max_weight q))) positive) (\<lambda>kvs.
           let weights = dict_of kvs; normalizer = py_sum (map snd weights)
           in if fle normalizer (Fin 0) then Inr []
              else rmap (\<lambda>(k, v). rbind (fdiv v normalizer) (\<lambda>q. Inr (k, round_nd 12 q)))
                     (sort_key fst weights)))"

section \<open>The limits hold along the admission loop\<close>

lemma admit_fold_simps [simp]:
  "al_allocations (fold (admit_exposure per) ss s) = al_allocations s"
  "al_rejections (fold (admit_exposure per) ss s) = al_rejections s"
  "al_drawdown (fold (admit_exposure per) ss s) = al_drawdown s"
  by (induction ss arbitrary: s) (simp_all add: admit_exposure_def Let_def)

lemma admit_fold_exposure:
  "distinct ss \<Longrightarrow> map_of (al_exposure (fold (admit_exposure per) ss s)) k =
     (if k \<in> set ss then Some (round_nd 8 (fadd (dget (al_exposure s) k (Fin 0)) per))
      else map_of (al_exposure s) k)"
  by (induction ss arbitrary: s) (auto simp: admit_exposure_def add_exposure_def Let_def)

definition levered_ok :: "portfolio_constraints \<Rightarrow> portfolio_allocation list \<Rightarrow> bool" where
  "levered_ok co as \<longleftrightarrow>
     (\<forall>i < length as. \<exists>n. pa_notional (as ! i) = round_nd 8 n \<and> \<not> fle (co_equity co) (Fin 0)
        \<and> \<not> flt (co_max_aggregate_leverage co)
              (fquot (fadd (gross_notional (take i as)) n) (co_equity co)))"

definition within_limits :: "portfolio_constraints \<Rightarrow> alloc_state \<Rightarrow> bool" where
  "within_limits co s \<longleftrightarrow>
     (\<forall>k e. map_of (al_exposure s) k = Some e
        \<longrightarrow> \<not> flt (round_nd 8 (co_max_per_symbol_exposure co)) e)
     \<and> (al_allocations s \<noteq> [] \<longrightarrow> \<not> flt (co_drawdown_budget co) (al_drawdown s))
     \<and> levered_ok co (al_allocations s)"

lemma not_flt_round: "\<not> flt b a \<Longrightarrow> \<not> flt (round_nd n b) (round_nd n a)"
proof (cases "a = NaN \<or> b = NaN")
  case True
  then show ?thesis by auto
next
  case False
  assume "\<not> flt b a"
  with False have "fle a b" by (intro not_flt_fle) auto
  then show ?thesis by (intro fle_not_flt round_nd_mono)
qed

lemma levered_ok_snoc:
  assumes "levered_ok co as" "\<not> fle (co_equity co) (Fin 0)" "pa_notional a = round_nd 8 n"
    "\<not> flt (co_max_aggregate_leverage co) (fquot (fadd (gross_notional as) n) (co_equity co))"
  shows "levered_ok co (as @ [a])"
  unfolding levered_ok_def
proof (intro allI impI)
  fix i
  assume "i < length (as @ [a])"
  then consider "i < length as" | "i = length as" by fastforce
  then show "\<exists>n. pa_notional ((as @ [a]) ! i) = round_nd 8 n \<and> \<not> fle (co_equity co) (Fin 0)
        \<and> \<not> flt (co_max_aggregate_leverage co)
              (fquot (fadd (gross_notional (take i (as @ [a]))) n) (co_equity co))"
  proof cases
    case 1
    then show ?thesis using assms(1) by (simp add: levered_ok_def nth_append)
  next
    case 2
    then show ?thesis using assms(2-4) by auto
  qed
qed

lemma alloc_step_cases:
  obtains (rejected) r where "alloc_step auth regimes co cs c s = al_reject r s"
  | (admitted) "candidate_rejection auth regimes c = None"
      "\<not> crowded co cs c (al_allocations s)" "\<not> over_exposed co c s" "\<not> over_levered co c s"
      "\<not> flt (co_drawdown_budget co) (drawdown_after co c s)"
      "alloc_step auth regimes co cs c s =
         fold (admit_exposure (per_symbol c)) (pc_symbol_scope c)
           (s\<lparr>al_allocations := al_allocations s @ [allocation_of c (candidate_notional c)],
              al_drawdown := drawdown_after co c s\<rparr>)"
  unfolding alloc_step_def Let_def
  by (cases "candidate_rejection auth regimes c";
      cases "crowded co cs c (al_allocations s)"; cases "over_exposed co c s";
      cases "over_levered co c s"; cases "flt (co_drawdown_budget co) (drawdown_after co c s)")
    auto

lemma alloc_step_limits:
  assumes "within_limits co s" "distinct (pc_symbol_scope c)"
  shows "within_limits co (alloc_step auth regimes co cs c s)"
proof (cases rule: alloc_step_cases [of auth regimes co cs c s])
  case (rejected r)
  with assms show ?thesis by (simp add: within_limits_def al_reject_def)
next
  case admitted
  let ?s = "alloc_step auth regimes co cs c s"
  have "\<not> flt (round_nd 8 (co_max_per_symbol_exposure co)) e"
    if e: "map_of (al_exposure ?s) k = Some e" for k e
  proof (cases "k \<in> set (pc_symbol_scope c)")
    case True
    then have "e = round_nd 8 (fadd (dget (al_exposure s) k (Fin 0)) (per_symbol c))"
      using e by (simp add: admitted(6) admit_fold_exposure [OF assms(2)])
    then show ?thesis using True admitted(3) by (auto simp: over_exposed_def not_flt_round)
  next
    case False
    then have "map_of (al_exposure s) k = Some e"
      using e by (simp add: admitted(6) admit_fold_exposure [OF assms(2)])
    then show ?thesis using assms(1) by (simp add: within_limits_def)
  qed
  moreover have "levered_ok co (al_allocations ?s)"
    using assms(1) admitted(4)
    by (auto simp: admitted(6) within_limits_def over_levered_def allocation_of_def
        intro!: levered_ok_snoc)
  ultimately show ?thesis using admitted(5) by (simp add: within_limits_def admitted(6))
qed

lemma alloc_loop_limits:
  assumes "\<forall>c \<in> set cs. distinct (pc_symbol_scope c)"
  shows "within_limits co (alloc_loop auth regimes co cs)"
proof -
  have "within_limits co (fold (alloc_step auth regimes co ks) xs s)"
    if "within_limits co s" "\<forall>c \<in> set xs. distinct (pc_symbol_scope c)" for xs s ks
    using that by (induction xs arbitrary: s) (simp_all add: alloc_step_limits)
  moreover have "within_limits co al_start"
    by (simp add: within_limits_def al_start_def levered_ok_def)
  ultimately show ?thesis using assms by (simp add: alloc_loop_def)
qed

lemma resolve_roles_default:
  "fle (Fin 1) (co_max_role_fraction co) \<Longrightarrow> resolve_roles co s = Inr s"
  by (simp add: resolve_roles_def role_fraction_rejections_def)

lemma resolve_roles_no_rejections:
  "resolve_roles co s = Inr s' \<Longrightarrow> al_rejections s' = [] \<Longrightarrow> s' = s"
  by (auto simp: resolve_roles_def Let_def rbind_Inr_iff split: if_splits)

text \<open>C28. A plan stays within its limits if no candidate lists a symbol twice in its scope and no allocation was
  taken back for its role, as in every accepted plan and in every plan under a role fraction of at
  least one: then no symbol's exposure exceeds the per-symbol limit (rounded to eight digits, as the
  exposure is), each admitted allocation kept the gross notional over a positive equity within the
  leverage limit at the moment it was admitted, and the drawdown usage is within the budget.\<close>

theorem portfolio_plan_within_limits:
  assumes "build_portfolio_plan H auth clock cs co regimes now = Inr p"
    and "pp_accepted p \<or> fle (Fin 1) (co_max_role_fraction co)"
    and "\<forall>c \<in> set cs. distinct (pc_symbol_scope c)"
  shows "(\<forall>k e. map_of (pp_exposure_by_symbol p) k = Some e
        \<longrightarrow> \<not> flt (round_nd 8 (co_max_per_symbol_exposure co)) e)
    \<and> levered_ok co (pp_allocations p)
    \<and> (pp_allocations p \<noteq> [] \<longrightarrow>
         \<not> flt (round_nd 8 (co_drawdown_budget co)) (pp_drawdown_usage p))"
proof -
  have "resolve_roles co (alloc_loop auth regimes co cs) = Inr (alloc_loop auth regimes co cs)"
    using assms(1,2) resolve_roles_no_rejections resolve_roles_default
    by (auto simp: build_portfolio_plan_def rbind_Inr_iff)
  with assms(1) alloc_loop_limits [OF assms(3), of co auth regimes] show ?thesis
    by (auto simp: build_portfolio_plan_def within_limits_def not_flt_round)
qed

definition sample_candidate :: "string list \<Rightarrow> portfolio_candidate" where
  "sample_candidate scope =
     \<lparr>pc_artifact_id = ''a1'', pc_strategy_id = ''s1'', pc_symbol_scope = scope,
      pc_regime_scope = [''trend''], pc_portfolio_role = ''core'', pc_target_notional = Fin 100,
      pc_max_notional = Fin 100, pc_expected_return_bps = Fin 10, pc_max_drawdown = Fin 0,
      pc_artifact_health = ''paper'', pc_approved = True, pc_paper_live_divergence_bps = Fin 0,
      pc_stress_loss_by_scenario = None, pc_correlation_by_artifact = None,
      pc_artifact_payload = None\<rparr>"

definition sample_constraints :: portfolio_constraints where
  "sample_constraints =
     \<lparr>co_equity = Fin 100, co_max_per_symbol_exposure = Fin 60, co_max_aggregate_leverage = Fin 1,
      co_drawdown_budget = Fin 1, co_max_pairwise_correlation = Fin 1, co_max_role_fraction = Fin 1\<rparr>"

definition no_authority :: authority where
  "no_authority p = (False, [])"

lemma sample_admitted: "candidate_rejection no_authority [] (sample_candidate (s # ss)) = None"
  by (simp add: candidate_rejection_def Let_def authority_rejection_def sample_candidate_def
      portfolio_roles_def active_artifact_states_def regime_mismatch_def)

lemma fl_25: "fl 50 = Fin 50" "fl 100 = Fin 100"
  by (simp_all add: fl_numeral)

lemma sample_candidate_simps [simp]:
  "pc_symbol_scope (sample_candidate ss) = ss"
  "pc_artifact_id (sample_candidate ss) = ''a1''"
  "pc_max_drawdown (sample_candidate ss) = Fin 0"
  "candidate_notional (sample_candidate ss) = Fin 100"
  by (simp_all add: sample_candidate_def candidate_notional_def fmin_def)

lemma sample_step:
  "alloc_step no_authority [] sample_constraints cs (sample_candidate [x, y]) al_start =
     fold (admit_exposure (Fin 50)) [x, y]
       (al_start\<lparr>al_allocations := [allocation_of (sample_candidate [x, y]) (Fin 100)],
                 al_drawdown := Fin 0\<rparr>)"
proof -
  have c: "\<not> crowded sample_constraints cs (sample_candidate [x, y]) (al_allocations al_start)"
    by (simp add: crowded_def al_start_def)
  have p: "per_symbol (sample_candidate [x, y]) = Fin 50" by (simp add: per_symbol_def fl_25)
  have e: "\<not> over_exposed sample_constraints (sample_candidate [x, y]) al_start"
    by (simp add: over_exposed_def p al_start_def sample_constraints_def fl_25)
  have l: "\<not> over_levered sample_constraints (sample_candidate [x, y]) al_start"
    by (simp add: over_levered_def al_start_def sample_constraints_def gross_notional_def fl_25)
  have d: "drawdown_after sample_constraints (sample_candidate [x, y]) al_start = Fin 0"
    by (simp add: drawdown_after_def al_start_def sample_constraints_def)
  have b: "\<not> flt (co_drawdown_budget sample_constraints) (Fin 0)"
    by (simp add: sample_constraints_def)
  show ?thesis
    unfolding alloc_step_def Let_def sample_admitted option.case
    by (simp only: c e l d b p if_False sample_candidate_simps) (simp add: al_start_def)
qed

lemma sample_loop:
  "al_exposure (alloc_loop no_authority [] sample_constraints [sample_candidate [x, y]])
   = add_exposure (Fin 50) y (add_exposure (Fin 50) x [])"
  "al_rejections (alloc_loop no_authority [] sample_constraints [sample_candidate [x, y]]) = []"
  "map pa_artifact_id (al_allocations
     (alloc_loop no_authority [] sample_constraints [sample_candidate [x, y]])) = [''a1'']"
  unfolding alloc_loop_def fold.simps sample_step o_apply id_apply
  by (simp_all add: admit_exposure_def Let_def al_start_def allocation_of_def)

lemma round_50: "round_nd 8 (Fin 50) = Fin 50" "round_nd 8 (Fin 100) = Fin 100"
  "round_nd 8 (Fin 60) = Fin 60"
  using round_nd_whole [of 50 8] round_nd_whole [of 100 8] round_nd_whole [of 60 8]
  by (simp_all only: of_int_numeral) simp_all

lemma sample_role: "fle (Fin 1) (co_max_role_fraction sample_constraints)"
  by (simp add: sample_constraints_def)

theorem portfolio_plan_within_limits_witness:
  "\<exists>p. build_portfolio_plan zero_hash no_authority ''t'' [sample_candidate [''BTCUSDT'', ''ETHUSDT'']]
        sample_constraints [] None = Inr p
     \<and> map pa_artifact_id (pp_allocations p) = [''a1'']
     \<and> levered_ok sample_constraints (pp_allocations p)"
proof -
  obtain p where p: "build_portfolio_plan zero_hash no_authority ''t''
        [sample_candidate [''BTCUSDT'', ''ETHUSDT'']] sample_constraints [] None = Inr p"
      "map pa_artifact_id (pp_allocations p) = [''a1'']"
    by (simp add: build_portfolio_plan_def resolve_roles_default [OF sample_role] sample_loop)
  have "\<forall>c \<in> set [sample_candidate [''BTCUSDT'', ''ETHUSDT'']]. distinct (pc_symbol_scope c)"
    by (simp add: sample_candidate_def)
  from portfolio_plan_within_limits [OF p(1) disjI2 [OF sample_role] this] p show ?thesis
    by (intro exI [of _ p] conjI) simp_all
qed

text \<open>A symbol listed twice escapes the exposure limit: the limit is checked once per listing
  against the exposure before the candidate, but every listing adds its share, so a scope that
  names one symbol twice is admitted with an exposure of 100 under a limit of 60.\<close>

lemma repeated_symbol_exceeds_limit:
  "\<exists>p. build_portfolio_plan H no_authority clock [sample_candidate [''BTCUSDT'', ''BTCUSDT'']]
        sample_constraints [] None = Inr p
     \<and> pp_accepted p \<and> dget (pp_exposure_by_symbol p) ''BTCUSDT'' (Fin 0) = Fin 100
     \<and> co_max_per_symbol_exposure sample_constraints = Fin 60"
proof -
  have "dget (add_exposure (Fin 50) ''BTCUSDT'' (add_exposure (Fin 50) ''BTCUSDT'' []))
      ''BTCUSDT'' (Fin 0) = Fin 100"
    by (simp add: add_exposure_def dget_def fl_25 round_50 del: round_nd.simps)
  moreover have "al_allocations (alloc_loop no_authority [] sample_constraints
      [sample_candidate [''BTCUSDT'', ''BTCUSDT'']]) \<noteq> []"
    using sample_loop(3) [of "''BTCUSDT''" "''BTCUSDT''"] by auto
  ultimately show ?thesis
    by (simp add: build_portfolio_plan_def resolve_roles_default [OF sample_role] sample_loop)
      (simp add: sample_constraints_def)
qed

section \<open>Accepted plans admit everyone\<close>

definition all_admitted ::
    "authority \<Rightarrow> (string, string) dict \<Rightarrow> portfolio_candidate list \<Rightarrow> alloc_state \<Rightarrow> bool" where
  "all_admitted auth regimes done s \<longleftrightarrow>
     length (al_allocations s) + length (al_rejections s) = length done
     \<and> (al_rejections s = [] \<longrightarrow>
          map pa_artifact_id (al_allocations s) = map pc_artifact_id done
          \<and> (\<forall>c \<in> set done. candidate_rejection auth regimes c = None))"

lemma alloc_step_admitted:
  assumes "all_admitted auth regimes done s"
  shows "all_admitted auth regimes (done @ [c]) (alloc_step auth regimes co cs c s)"
  by (cases rule: alloc_step_cases [of auth regimes co cs c s])
    (use assms in \<open>auto simp: all_admitted_def al_reject_def allocation_of_def\<close>)

lemma alloc_loop_admitted: "all_admitted auth regimes cs (alloc_loop auth regimes co cs)"
proof -
  have "all_admitted auth regimes (ds @ xs) (fold (alloc_step auth regimes co ks) xs s)"
    if "all_admitted auth regimes ds s" for ds xs s ks
    using that
  proof (induction xs arbitrary: ds s)
    case (Cons x xs)
    from Cons.IH [OF alloc_step_admitted [OF Cons.prems], of x] show ?case by simp
  qed simp
  from this [of "[]" al_start cs cs] show ?thesis
    by (simp add: alloc_loop_def all_admitted_def al_start_def)
qed

lemma candidate_rejection_None:
  "candidate_rejection auth regimes c = None \<Longrightarrow>
     pc_approved c \<and> authority_rejection auth c = None \<and> pc_symbol_scope c \<noteq> []
     \<and> pc_regime_scope c \<noteq> [] \<and> pc_portfolio_role c \<in> portfolio_roles
     \<and> pc_artifact_health c \<in> active_artifact_states \<and> \<not> regime_mismatch regimes c"
  by (auto simp: candidate_rejection_def Let_def split: if_splits option.splits)

text \<open>An accepted plan allocates every candidate: there is at least one, the allocations are
  those of the candidates in their order, none was dropped for role crowding, and each candidate
  is approved, authorised, in an active lifecycle state and a known role, declares symbols and
  regimes, and every regime that is active on its symbols is in its scope.\<close>

lemma accepted_plan_allocates_every_candidate:
  assumes "build_portfolio_plan H auth clock cs co regimes now = Inr p" and "pp_accepted p"
  shows "cs \<noteq> [] \<and> map pa_artifact_id (pp_allocations p) = map pc_artifact_id cs
    \<and> (\<forall>c \<in> set cs. pc_approved c \<and> authority_rejection auth c = None \<and> pc_symbol_scope c \<noteq> []
         \<and> pc_regime_scope c \<noteq> [] \<and> pc_portfolio_role c \<in> portfolio_roles
         \<and> pc_artifact_health c \<in> active_artifact_states \<and> \<not> regime_mismatch regimes c)"
proof -
  let ?s = "alloc_loop auth regimes co cs"
  obtain s' where s': "resolve_roles co ?s = Inr s'" "pp_allocations p = al_allocations s'"
      "al_allocations s' \<noteq> []" "al_rejections s' = []"
    using assms by (auto simp: build_portfolio_plan_def rbind_Inr_iff)
  have e: "s' = ?s" by (rule resolve_roles_no_rejections [OF s'(1,4)])
  have "map pa_artifact_id (al_allocations ?s) = map pc_artifact_id cs
      \<and> (\<forall>c \<in> set cs. candidate_rejection auth regimes c = None)"
    using alloc_loop_admitted [of auth regimes cs co] s'(4) e by (simp add: all_admitted_def)
  moreover from this s'(3) e have "cs \<noteq> []" by auto
  ultimately show ?thesis
    using s'(2) e by (auto dest: candidate_rejection_None)
qed

lemma accepted_plan_allocates_every_candidate_witness:
  "\<exists>p. build_portfolio_plan zero_hash no_authority ''t'' [sample_candidate [''BTCUSDT'', ''ETHUSDT'']]
        sample_constraints [] None = Inr p
     \<and> map pa_artifact_id (pp_allocations p) = [''a1'']"
proof -
  obtain p where p: "build_portfolio_plan zero_hash no_authority ''t''
        [sample_candidate [''BTCUSDT'', ''ETHUSDT'']] sample_constraints [] None = Inr p"
      "pp_accepted p"
    using sample_loop(3) [of "''BTCUSDT''" "''ETHUSDT''"]
    by (auto simp: build_portfolio_plan_def resolve_roles_default [OF sample_role] sample_loop(2))
  from accepted_plan_allocates_every_candidate [OF p] p(1) show ?thesis
    by (simp add: sample_candidate_def)
qed

text \<open>Overrides are journalled and contained: whatever is requested, exactly one journal row is
  appended, stored plans are untouched and no artifact but the named one changes stage; a refused
  request changes nothing else; an applied one names its operator, and a destructive one carried
  the exact confirmation text; the kill switch is passed on exactly when it was applied.\<close>

lemma override_contained:
  fixes event_id now st r
  defines "res \<equiv> fst (apply_human_override event_id now st r)"
    and "st' \<equiv> snd (apply_human_override event_id now st r)"
  shows "(\<exists>row. st_journal st' = st_journal st @ [row]
        \<and> jr_status row = (if ovr_applied res then ''applied'' else ''rejected'')
        \<and> jr_operator_id row = ov_operator_id r \<and> jr_action row = ov_action r)
    \<and> st_plans st' = st_plans st
    \<and> (\<forall>k. ov_artifact_id r \<noteq> Some k \<longrightarrow> map_of (st_stages st') k = map_of (st_stages st) k)
    \<and> map fst (st_stages st') = map fst (st_stages st)
    \<and> (\<not> ovr_applied res \<longrightarrow> st_stages st' = st_stages st \<and> st_risk_events st' = st_risk_events st)
    \<and> (ovr_applied res \<longrightarrow> ov_operator_id r \<noteq> [] \<and> ov_action r \<in> override_actions
        \<and> (ov_action r \<in> destructive_overrides
             \<longrightarrow> ov_confirmation r = Some (''CONFIRM:'' @ ov_action r)))
    \<and> st_kill_events st' = st_kill_events st
        @ (if ovr_applied res \<and> ov_action r = ''kill_switch'' then [(now, ov_operator_id r)] else [])"
proof -
  have other: "map_of (map (\<lambda>(k, v). (k, if k = a then stage else v)) d) k = map_of d k"
    if "k \<noteq> a" for a k stage and d :: "(string, string) dict"
    using that by (induction d) auto
  have stages: "map_of (apply_override_db_effect r d) k = map_of d k"
    if "ov_artifact_id r \<noteq> Some k" for k d
    using that by (auto simp: apply_override_db_effect_def other split: option.split)
  have keys: "map fst (apply_override_db_effect r d) = map fst d" for d
    by (auto simp: apply_override_db_effect_def split: option.split)
  have ap: "ovr_applied res \<longleftrightarrow> override_rejections r = []"
    by (simp add: res_def apply_human_override_def Let_def)
  have ok: "ov_operator_id r \<noteq> [] \<and> ov_action r \<in> override_actions
        \<and> (ov_action r \<in> destructive_overrides
             \<longrightarrow> ov_confirmation r = Some (''CONFIRM:'' @ ov_action r))"
    if "override_rejections r = []"
    using that by (auto simp: override_rejections_def Let_def)
  show ?thesis
    unfolding ap using stages keys ok
    by (cases "override_rejections r = []")
      (simp_all add: st'_def apply_human_override_def Let_def)
qed

definition empty_store :: portfolio_store where
  "empty_store = \<lparr>st_plans = [], st_stages = [(''a1'', ''paper'')], st_journal = [],
     st_risk_events = [], st_kill_events = []\<rparr>"

lemma override_contained_witness:
  "st_stages (snd (apply_human_override ''e'' ''t'' empty_store
     \<lparr>ov_action = ''kill_switch'', ov_operator_id = ''op'', ov_artifact_id = None,
      ov_confirmation = Some ''yes'', ov_reason = None, ov_payload = None\<rparr>))
   = [(''a1'', ''paper'')]"
proof -
  let ?r = "\<lparr>ov_action = ''kill_switch'', ov_operator_id = ''op'', ov_artifact_id = None,
      ov_confirmation = Some ''yes'', ov_reason = None, ov_payload = None\<rparr>"
  have "\<not> ovr_applied (fst (apply_human_override ''e'' ''t'' empty_store ?r))"
    by (simp add: apply_human_override_def override_rejections_def destructive_overrides_def Let_def)
  with override_contained [of "''e''" "''t''" empty_store ?r] show ?thesis
    by (simp add: empty_store_def)
qed

text \<open>Score tilts ignore their cap: the weights are capped and then divided by their sum, so a
  single positive candidate gets the whole weight 1 under a cap of one half.\<close>

lemma score_tilt_ignores_cap:
  "constrained_score_tilt [sample_candidate scope] (Fin (1 / 2)) = Inr [(''a1'', Fin 1)]"
proof -
  have half: "fl (1 / 2) = Fin (1 / 2)" "fl (- (1 / 2)) = Fin (- (1 / 2))"
    using fl_dyadic [of 1 1] fl_dyadic [of "-1" 1] by simp_all
  have ten: "fl 10 = Fin 10" by (simp add: fl_numeral)
  have s1: "py_sum [Fin (1 / 2)] = Fin (1 / 2)" and s2: "py_sum [Fin 10] = Fin 10"
    by (simp_all add: py_sum_def fsub_def half ten)
  have "\<bar>1::int\<bar> \<le> 2 ^ 53" by simp
  from round_nd_whole [OF this, of 12] have r: "round_nd 12 (Fin 1) = Fin 1"
    by (simp only: of_int_1)
  have e: "pc_expected_return_bps (sample_candidate scope) = Fin 10" "pc_approved (sample_candidate scope)"
    by (simp_all add: sample_candidate_def)
  show ?thesis
    by (simp add: constrained_score_tilt_def e s1 s2 Let_def fdiv_def fmin_def dict_of_def
        r del: round_nd.simps)
qed

end
