(* ===== verification/Reconcile.thy ===== *)
theory Reconcile
  imports EventStore Allocator
begin

text \<open>
  Reconciliation with the gateway (\<open>execution/reconciliation.py\<close>): the accounting projection on
  top of the live tables of \<open>EventStore\<close>, the gateway snapshot, the blockers found by comparing
  the two, and the safe actions journalled as human overrides of \<open>Allocator\<close>.  SQLite's
  \<open>SUM\<close>, the digests, fresh ids and the clock are parameters.
\<close>

section \<open>Accounting tables\<close>

record fee_row =
  fe_ts_utc :: string
  fe_symbol :: "string option"
  fe_order_id_client :: "string option"
  fe_fee_quote :: pyfloat
  fe_fee_rate :: "pyfloat option"
  fe_maker_taker :: "string option"
  fe_source_event_id :: int

record funding_row =
  fn_ts_utc :: string
  fn_symbol :: "string option"
  fn_position_notional :: "pyfloat option"
  fn_funding_rate :: "pyfloat option"
  fn_funding_fee :: pyfloat
  fn_source_event_id :: int

record pnl_row =
  pn_ts_utc :: string
  pn_symbol :: "string option"
  pn_realized_strategy_pnl :: pyfloat
  pn_unrealized_pnl :: pyfloat
  pn_fees :: pyfloat
  pn_funding :: pyfloat
  pn_slippage :: pyfloat
  pn_transfers :: pyfloat
  pn_cash_balance_delta :: pyfloat
  pn_source_event_id :: int

record cash_row =
  ca_ts_utc :: string
  ca_account_id :: string
  ca_currency :: string
  ca_amount :: pyfloat
  ca_reason :: string
  ca_reference_id :: string
  ca_source_event_id :: int

record equity_row =
  eq_ts_utc :: string
  eq_account_id :: string
  eq_equity :: pyfloat
  eq_cash_balance :: "pyfloat option"
  eq_unrealized_pnl :: "pyfloat option"
  eq_realized_pnl :: "pyfloat option"
  eq_source_event_id :: int

record position_snapshot_row =
  px_ts_utc :: string
  px_account_id :: string
  px_symbol :: string
  px_net_qty :: "pyfloat option"
  px_entry_price :: "pyfloat option"
  px_mark_price :: "pyfloat option"
  px_unrealized_pnl :: "pyfloat option"
  px_source_event_id :: int

record accounting =
  ac_fees :: "fee_row list"
  ac_funding :: "funding_row list"
  ac_pnl :: "pnl_row list"
  ac_cash :: "cash_row list"
  ac_equity :: "equity_row list"
  ac_position_snapshots :: "(string, position_snapshot_row) dict"

definition no_accounting :: accounting where
  "no_accounting = \<lparr>ac_fees = [], ac_funding = [], ac_pnl = [], ac_cash = [], ac_equity = [],
     ac_position_snapshots = []\<rparr>"

definition float_opt :: "pyval \<Rightarrow> pyfloat option result" where
  "float_opt v = (if v = PNone then Inr None else or_none (py_float v))"

definition float_zero :: "pyval \<Rightarrow> pyfloat result" where
  "float_zero v = rbind (float_opt v) (\<lambda>x. Inr (or_zero x))"

definition insert_fee_row :: "stored_event \<Rightarrow> accounting \<Rightarrow> accounting result" where
  "insert_fee_row e a =
     (let m = ei_metadata e in
      rbind (float_opt (pget m ''fee'')) (\<lambda>fee. case fee of None \<Rightarrow> Inr a | Some f \<Rightarrow>
      rbind (float_opt (pget m ''fee_rate'')) (\<lambda>rate.
      rbind (sql_required ''fee_ledger.fee_quote'' f) (\<lambda>q.
        Inr (a\<lparr>ac_fees := ac_fees a @
          [\<lparr>fe_ts_utc = ei_ts_exchange e, fe_symbol = ei_symbol e,
            fe_order_id_client = ei_order_id_client e, fe_fee_quote = q, fe_fee_rate = sql_opt rate,
            fe_maker_taker = str_or_none (pget m ''maker_taker''),
            fe_source_event_id = ee_event_id e\<rparr>]\<rparr>)))))"

definition insert_funding_row :: "stored_event \<Rightarrow> accounting \<Rightarrow> accounting result" where
  "insert_funding_row e a =
     (let m = ei_metadata e in
      rbind (float_opt (pget m ''funding_fee'')) (\<lambda>fee. case fee of None \<Rightarrow> Inr a | Some f \<Rightarrow>
      rbind (float_opt (pget m ''position_notional'')) (\<lambda>notional.
      rbind (float_opt (pget m ''funding_rate'')) (\<lambda>rate.
      rbind (sql_required ''funding_ledger.funding_fee'' f) (\<lambda>q.
        Inr (a\<lparr>ac_funding := ac_funding a @
          [\<lparr>fn_ts_utc = ei_ts_exchange e, fn_symbol = ei_symbol e,
            fn_position_notional = sql_opt notional, fn_funding_rate = sql_opt rate,
            fn_funding_fee = q, fn_source_event_id = ee_event_id e\<rparr>]\<rparr>))))))"

definition insert_pnl_row :: "stored_event \<Rightarrow> accounting \<Rightarrow> accounting result" where
  "insert_pnl_row e a =
     (let m = ei_metadata e in
      rbind (rmap (\<lambda>k. float_zero (pget m k))
              [''realized_pnl'', ''unrealized_pnl'', ''fee'', ''funding_fee'', ''slippage'', ''transfer'',
               ''cash_balance_delta'']) (\<lambda>vs.
        if \<not> list_ex (\<lambda>v. flt f_1em9 (fabs v)) vs then Inr a
        else rbind (rmap (sql_required ''pnl_attribution'') vs) (\<lambda>ws.
          Inr (a\<lparr>ac_pnl := ac_pnl a @
            [\<lparr>pn_ts_utc = ei_ts_exchange e, pn_symbol = ei_symbol e,
              pn_realized_strategy_pnl = ws ! 0, pn_unrealized_pnl = ws ! 1, pn_fees = ws ! 2,
              pn_funding = ws ! 3, pn_slippage = ws ! 4, pn_transfers = ws ! 5,
              pn_cash_balance_delta = ws ! 6, pn_source_event_id = ee_event_id e\<rparr>]\<rparr>))))"

definition insert_cash_row :: "stored_event \<Rightarrow> accounting \<Rightarrow> accounting result" where
  "insert_cash_row e a =
     (let m = ei_metadata e in
      rbind (float_opt (pget m ''cash_balance_delta'')) (\<lambda>delta. case delta of None \<Rightarrow> Inr a | Some d \<Rightarrow>
      rbind (sql_required ''cash_ledger.amount'' d) (\<lambda>q.
        Inr (a\<lparr>ac_cash := ac_cash a @
          [\<lparr>ca_ts_utc = ei_ts_exchange e, ca_account_id = field_str m ''account_id'' ''account'',
            ca_currency = field_str m ''currency'' ''USDT'', ca_amount = q,
            ca_reason = field_str m ''cash_reason'' ''execution_fill'',
            ca_reference_id = event_fill_id e, ca_source_event_id = ee_event_id e\<rparr>]\<rparr>))))"

definition insert_equity_row :: "stored_event \<Rightarrow> accounting \<Rightarrow> accounting result" where
  "insert_equity_row e a =
     (let m = ei_metadata e in
      rbind (float_opt (pget m ''equity'')) (\<lambda>equity. case equity of None \<Rightarrow> Inr a | Some x \<Rightarrow>
      rbind (float_opt (pget m ''cash_balance'')) (\<lambda>cash.
      rbind (float_opt (pget m ''unrealized_pnl'')) (\<lambda>unrealized.
      rbind (float_opt (pget m ''realized_pnl'')) (\<lambda>realized.
      rbind (sql_required ''equity_snapshots.equity'' x) (\<lambda>q.
        Inr (a\<lparr>ac_equity := ac_equity a @
          [\<lparr>eq_ts_utc = ei_ts_exchange e, eq_account_id = field_str m ''account_id'' ''account'',
            eq_equity = q, eq_cash_balance = sql_opt cash, eq_unrealized_pnl = sql_opt unrealized,
            eq_realized_pnl = sql_opt realized, eq_source_event_id = ee_event_id e\<rparr>]\<rparr>)))))))"

section \<open>The second replay\<close>

record phase3_state =
  p3_live :: live_tables
  p3_accounting :: accounting
  p3_seen :: "string set"

definition upsert_account_risk_state :: "stored_event \<Rightarrow> live_tables \<Rightarrow> live_tables result" where
  "upsert_account_risk_state e t =
     (let m = ei_metadata e in
      if \<not> list_ex (\<lambda>k. k \<in> dkeys m)
            [''exposure'', ''margin_usage'', ''realized_pnl'', ''unrealized_pnl'', ''drawdown'']
      then Inr t
      else rbind (float_zero (pget m ''exposure'')) (\<lambda>exposure.
           rbind (float_zero (pget m ''margin_usage'')) (\<lambda>margin.
           rbind (float_zero (pget m ''realized_pnl'')) (\<lambda>realized.
           rbind (float_zero (pget m ''unrealized_pnl'')) (\<lambda>unrealized.
           rbind (float_zero (pget m ''drawdown'')) (\<lambda>drawdown.
             Inr (t\<lparr>lt_risk := AList.update ''account''
               \<lparr>rs_exposure = sql_default0 exposure, rs_margin_usage = sql_default0 margin,
                rs_realized_pnl = sql_default0 realized, rs_unrealized_pnl = sql_default0 unrealized,
                rs_drawdown = sql_default0 drawdown, rs_last_event_id = ee_event_id e,
                rs_metadata = [(''source_event_id'', PInt (ee_event_id e))]\<rparr> (lt_risk t)\<rparr>)))))))"

fun upsert_position :: "stored_event \<Rightarrow> pyval \<Rightarrow> phase3_state \<Rightarrow> phase3_state result" where
  "upsert_position e (PDict p) s =
     (if \<not> truthy (pget p ''symbol'') then Inr s
      else
        let symbol = py_str (pget p ''symbol'');
            key = ''phase3:'' @ int_text (ee_event_id e) @ '':'' @ symbol;
            m = ei_metadata e; a = p3_accounting s; t = p3_live s
        in rbind (float_zero (pget p ''net_qty'')) (\<lambda>net.
           rbind (float_opt (pget p ''entry_price'')) (\<lambda>entry.
           rbind (float_zero (pget p ''unrealized_pnl'')) (\<lambda>unrealized.
           rbind (float_opt (pget p ''mark_price'')) (\<lambda>mark.
             if key \<in> dkeys (ac_position_snapshots a)
             then Inl (IntegrityError ''UNIQUE constraint failed: position_snapshots.position_snapshot_id'')
             else rbind (sql_required ''positions.net_qty'' net) (\<lambda>q.
               Inr (s\<lparr>p3_accounting := a\<lparr>ac_position_snapshots :=
                        AList.update key
                          \<lparr>px_ts_utc = ei_ts_exchange e,
                           px_account_id = field_str m ''account_id'' ''account'', px_symbol = symbol,
                           px_net_qty = sql_opt (Some net), px_entry_price = sql_opt entry,
                           px_mark_price = sql_opt mark, px_unrealized_pnl = sql_opt (Some unrealized),
                           px_source_event_id = ee_event_id e\<rparr> (ac_position_snapshots a)\<rparr>,
                      p3_live := t\<lparr>lt_positions :=
                        AList.update symbol
                          \<lparr>po_net_qty = q, po_entry_price = sql_opt entry,
                           po_unrealized_pnl = sql_default0 unrealized,
                           po_last_event_id = ee_event_id e,
                           po_metadata = [(''source'', PStr ''phase3_position_reconcile''),
                                          (''source_event_id'', PInt (ee_event_id e))]\<rparr>
                          (lt_positions t)\<rparr>\<rparr>)))))))"
| "upsert_position e v s = Inr s"

definition upsert_position_snapshots :: "stored_event \<Rightarrow> phase3_state \<Rightarrow> phase3_state result" where
  "upsert_position_snapshots e s =
     (case pget_or (ei_metadata e) ''positions'' (PList []) of
        PList ps \<Rightarrow> rfold (upsert_position e) ps s
      | _ \<Rightarrow> Inr s)"

definition phase3_event :: "stored_event \<Rightarrow> phase3_state \<Rightarrow> phase3_state result" where
  "phase3_event e s =
     (if ei_event_type e \<in> set fill_events then
        (if event_fill_id e \<in> p3_seen s then Inr s
         else rbind (insert_fee_row e (p3_accounting s)) (\<lambda>a1.
              rbind (insert_funding_row e a1) (\<lambda>a2.
              rbind (insert_pnl_row e a2) (\<lambda>a3.
              rbind (insert_cash_row e a3) (\<lambda>a4.
              rbind (insert_equity_row e a4) (\<lambda>a5.
                Inr (s\<lparr>p3_accounting := a5, p3_seen := insert (event_fill_id e) (p3_seen s)\<rparr>)))))))
      else if ei_event_type e \<in> set [''POSITION_RECONCILE'', ''ACCOUNT_SNAPSHOT''] then
        rbind (upsert_account_risk_state e (p3_live s)) (\<lambda>t.
        rbind (insert_equity_row e (p3_accounting s)) (\<lambda>a.
          upsert_position_snapshots e (s\<lparr>p3_live := t, p3_accounting := a\<rparr>)))
      else Inr s)"

record exec_db =
  xb_events :: "stored_event list"
  xb_live :: live_tables
  xb_accounting :: accounting
  xb_checkpoints :: "(string, int \<times> string) dict"

type_synonym live_digest = "live_tables \<Rightarrow> string"
type_synonym phase3_digest = "live_tables \<Rightarrow> accounting \<Rightarrow> string"

record base_projection =
  bp_event_count :: nat
  bp_last_event_id :: int
  bp_projection_digest :: string
  bp_fill_count :: nat

definition rebuild_execution_projections ::
    "live_digest \<Rightarrow> exec_db \<Rightarrow> base_projection result \<times> exec_db" where
  "rebuild_execution_projections D db =
     (case replay_tables (xb_events db) of
        Inl x \<Rightarrow> (Inl x, db)
      | Inr (t, n) \<Rightarrow>
          (let i = last_event_id (xb_events db)
           in (Inr \<lparr>bp_event_count = length (xb_events db), bp_last_event_id = i,
                    bp_projection_digest = D t, bp_fill_count = n\<rparr>,
               db\<lparr>xb_live := t,
                  xb_checkpoints := AList.update (''replay:'' @ int_text i) (i, D t)
                    (xb_checkpoints db)\<rparr>)))"

record phase3_projection = base_projection +
  bp_phase3_digest :: string
  bp_fee_rows :: nat
  bp_funding_rows :: nat
  bp_pnl_rows :: nat
  bp_cash_rows :: nat
  bp_equity_rows :: nat
  bp_position_snapshot_rows :: nat

definition rebuild_phase3_once ::
    "live_digest \<Rightarrow> phase3_digest \<Rightarrow> exec_db \<Rightarrow> phase3_projection result \<times> exec_db" where
  "rebuild_phase3_once D E db =
     (case rebuild_execution_projections D db of
        (Inl x, db1) \<Rightarrow> (Inl x, db1)
      | (Inr base, db1) \<Rightarrow>
          (case rfold phase3_event (xb_events db1)
                  \<lparr>p3_live = xb_live db1, p3_accounting = no_accounting, p3_seen = {}\<rparr> of
             Inl x \<Rightarrow> (Inl x, db1)
           | Inr s \<Rightarrow>
               (let a = p3_accounting s; d = E (p3_live s) a; i = bp_last_event_id base
                in (Inr (base_projection.extend base
                      \<lparr>bp_phase3_digest = d, bp_fee_rows = length (ac_fees a),
                       bp_funding_rows = length (ac_funding a), bp_pnl_rows = length (ac_pnl a),
                       bp_cash_rows = length (ac_cash a), bp_equity_rows = length (ac_equity a),
                       bp_position_snapshot_rows = length (ac_position_snapshots a)\<rparr>),
                    db1\<lparr>xb_live := p3_live s, xb_accounting := a,
                        xb_checkpoints := AList.update (''phase3:'' @ int_text i) (i, d)
                          (xb_checkpoints db1)\<rparr>))))"

record replay_report =
  rr3_projection :: phase3_projection
  rr3_first_digest :: string
  rr3_second_digest :: string
  rr3_replay_deterministic :: bool

definition rebuild_phase3_execution_projection ::
    "live_digest \<Rightarrow> phase3_digest \<Rightarrow> exec_db \<Rightarrow> replay_report result \<times> exec_db" where
  "rebuild_phase3_execution_projection D E db =
     (case rebuild_phase3_once D E db of
        (Inl x, db1) \<Rightarrow> (Inl x, db1)
      | (Inr first, db1) \<Rightarrow>
          (case rebuild_phase3_once D E db1 of
             (Inl x, db2) \<Rightarrow> (Inl x, db2)
           | (Inr second, db2) \<Rightarrow>
               (Inr \<lparr>rr3_projection = second, rr3_first_digest = bp_phase3_digest first,
                     rr3_second_digest = bp_phase3_digest second,
                     rr3_replay_deterministic =
                       (bp_phase3_digest first = bp_phase3_digest second)\<rparr>, db2)))"

lemma rebuild_base_cases:
  "rebuild_execution_projections D db = (r, db1) \<Longrightarrow> xb_events db1 = xb_events db \<and> xb_accounting db1 = xb_accounting db"
  by (auto simp: rebuild_execution_projections_def Let_def split: sum.splits)

text \<open>What a rebuild leaves behind depends on the events alone.\<close>

lemma rebuild_phase3_from_events:
  assumes "xb_events db = xb_events db'"
  shows "fst (rebuild_phase3_once D E db) = fst (rebuild_phase3_once D E db')"
    and "fst (rebuild_phase3_once D E db) = Inr p \<Longrightarrow>
      xb_live (snd (rebuild_phase3_once D E db)) = xb_live (snd (rebuild_phase3_once D E db'))
      \<and> xb_accounting (snd (rebuild_phase3_once D E db))
        = xb_accounting (snd (rebuild_phase3_once D E db'))"
  using assms
  by (auto simp: rebuild_phase3_once_def rebuild_execution_projections_def Let_def split: sum.splits)

lemma rebuild_phase3_events: "xb_events (snd (rebuild_phase3_once D E db)) = xb_events db"
  by (auto simp: rebuild_phase3_once_def rebuild_execution_projections_def Let_def split: sum.splits)

lemma rebuild_phase3_twice:
  "fst (rebuild_phase3_execution_projection D E db) =
     rbind (fst (rebuild_phase3_once D E db)) (\<lambda>p.
       Inr \<lparr>rr3_projection = p, rr3_first_digest = bp_phase3_digest p,
            rr3_second_digest = bp_phase3_digest p, rr3_replay_deterministic = True\<rparr>)"
  "snd (rebuild_phase3_execution_projection D E db) =
     (case fst (rebuild_phase3_once D E db) of
        Inl x \<Rightarrow> snd (rebuild_phase3_once D E db)
      | Inr p \<Rightarrow> snd (rebuild_phase3_once D E (snd (rebuild_phase3_once D E db))))"
proof -
  let ?f = "rebuild_phase3_once D E"
  obtain r db1 where 1: "?f db = (r, db1)" by fastforce
  obtain q db2 where 2: "?f db1 = (q, db2)" by fastforce
  have "q = r" using rebuild_phase3_from_events(1) [of db1 db D E] rebuild_phase3_events [of D E db] 1 2
    by simp
  then show "fst (rebuild_phase3_execution_projection D E db) =
     rbind (fst (?f db)) (\<lambda>p.
       Inr \<lparr>rr3_projection = p, rr3_first_digest = bp_phase3_digest p,
            rr3_second_digest = bp_phase3_digest p, rr3_replay_deterministic = True\<rparr>)"
    "snd (rebuild_phase3_execution_projection D E db) =
     (case fst (?f db) of Inl x \<Rightarrow> snd (?f db) | Inr p \<Rightarrow> snd (?f (snd (?f db))))"
    using 1 2 by (cases r; simp add: rebuild_phase3_execution_projection_def)+
qed

text \<open>Rebuilding twice is deterministic whatever the digests are: the projection succeeds exactly
  if one rebuild does, both digests are equal, the event log is untouched, and the live and
  accounting tables it leaves are a function of the event log alone, not of what they held
  before; a second call changes nothing but checkpoints.\<close>

lemma phase3_replay_deterministic:
  assumes "xb_events db' = xb_events db"
  shows "fst (rebuild_phase3_execution_projection D E db') = fst (rebuild_phase3_execution_projection D E db)
    \<and> xb_events (snd (rebuild_phase3_execution_projection D E db)) = xb_events db
    \<and> (\<forall>r. fst (rebuild_phase3_execution_projection D E db) = Inr r \<longrightarrow>
         rr3_replay_deterministic r \<and> rr3_first_digest r = rr3_second_digest r
         \<and> xb_live (snd (rebuild_phase3_execution_projection D E db'))
           = xb_live (snd (rebuild_phase3_execution_projection D E db))
         \<and> xb_accounting (snd (rebuild_phase3_execution_projection D E db'))
           = xb_accounting (snd (rebuild_phase3_execution_projection D E db)))"
proof -
  let ?f = "rebuild_phase3_once D E"
  have ev: "xb_events (snd (?f db)) = xb_events db" for db by (rule rebuild_phase3_events)
  have same: "fst (?f a) = fst (?f b)" if "xb_events a = xb_events b" for a b
    using that by (rule rebuild_phase3_from_events(1))
  have tab: "xb_live (snd (?f a)) = xb_live (snd (?f b)) \<and> xb_accounting (snd (?f a)) = xb_accounting (snd (?f b))"
    if "xb_events a = xb_events b" "fst (?f a) = Inr p" for a b p
    using that by (rule rebuild_phase3_from_events(2))
  show ?thesis
  proof (cases "fst (?f db)")
    case (Inl x)
    with same [OF assms] ev show ?thesis by (simp add: rebuild_phase3_twice)
  next
    case (Inr p)
    have e2: "xb_events (snd (?f db')) = xb_events (snd (?f db))" by (simp add: ev assms)
    have "fst (?f (snd (?f db'))) = Inr p" using same [of "snd (?f db')" db] Inr by (simp add: ev assms)
    from tab [OF e2 this] same [OF assms] Inr ev show ?thesis by (simp add: rebuild_phase3_twice)
  qed
qed

definition sample_event :: stored_event where
  "sample_event = event_input.extend
     (sample_input ''ACCOUNT_SNAPSHOT'' ''f''\<lparr>ei_metadata :=
        [(''exposure'', PFloat (Fin 3)), (''positions'', PList [PDict [(''symbol'', PStr ''BTCUSDT''), (''net_qty'', PInt 2)]])]\<rparr>)
     \<lparr>ee_event_id = 1, ee_previous_digest = None, ee_event_digest = ''d'', ee_segment_digest = ''s''\<rparr>"

definition sample_db :: "live_tables \<Rightarrow> exec_db" where
  "sample_db t = \<lparr>xb_events = [sample_event], xb_live = t, xb_accounting = no_accounting, xb_checkpoints = []\<rparr>"

definition no_tables :: live_tables where
  "no_tables = \<lparr>lt_orders = [], lt_fills = [], lt_positions = [], lt_risk = []\<rparr>"

definition spent_tables :: live_tables where
  "spent_tables = no_tables\<lparr>lt_risk := [(''old'', \<lparr>rs_exposure = Fin 1, rs_margin_usage = Fin 0,
     rs_realized_pnl = Fin 0, rs_unrealized_pnl = Fin 0, rs_drawdown = Fin 0, rs_last_event_id = 9,
     rs_metadata = []\<rparr>)]\<rparr>"

lemma sample_event_simps:
  "ei_event_type sample_event = ''ACCOUNT_SNAPSHOT''" "ei_order_id_client sample_event = Some ''o1''"
  "ei_metadata sample_event =
     [(''exposure'', PFloat (Fin 3)), (''positions'', PList [PDict [(''symbol'', PStr ''BTCUSDT''), (''net_qty'', PInt 2)]])]"
  "ee_event_id sample_event = 1" "ei_ts_exchange sample_event = ''t''"
  by (simp_all add: sample_event_def sample_input_def event_input.defs)

lemma sample_rebuild:
  "\<exists>p t. fst (rebuild_phase3_once D E (sample_db u)) = Inr p
     \<and> xb_live (snd (rebuild_phase3_once D E (sample_db u))) = t
     \<and> po_net_qty (snd (hd (lt_positions t))) = Fin 2 \<and> length (lt_risk t) = 1"
proof -
  have "str_upper ''BUY'' = ''BUY''" by code_simp
  have "of_pyint 2 = Inr (Fin 2)" by (simp add: of_pyint_def fl_numeral)
  then show ?thesis
  by (simp add: rebuild_phase3_once_def rebuild_execution_projections_def sample_db_def replay_tables_def
      replay_event_def sample_event_simps order_events_def rp_start_def Let_def phase3_event_def fill_events_def
      upsert_account_risk_state_def float_zero_def float_opt_def or_zero_def insert_equity_row_def
      upsert_position_snapshots_def sql_required_def sql_default0_def no_accounting_def dict_of_def last_event_id_def
      dkeys_def)
qed

lemma phase3_replay_deterministic_witness:
  "\<exists>r. fst (rebuild_phase3_execution_projection (\<lambda>_. ''d'') (\<lambda>_ _. ''e'') (sample_db spent_tables)) = Inr r
     \<and> rr3_replay_deterministic r
     \<and> xb_live (snd (rebuild_phase3_execution_projection (\<lambda>_. ''d'') (\<lambda>_ _. ''e'') (sample_db spent_tables)))
       = xb_live (snd (rebuild_phase3_execution_projection (\<lambda>_. ''d'') (\<lambda>_ _. ''e'') (sample_db no_tables)))"
proof -
  have e: "xb_events (sample_db spent_tables) = xb_events (sample_db no_tables)" by (simp add: sample_db_def)
  obtain p where "fst (rebuild_phase3_once (\<lambda>_. ''d'') (\<lambda>_ _. ''e'') (sample_db no_tables)) = Inr p"
    using sample_rebuild [of "\<lambda>_. ''d''" "\<lambda>_ _. ''e''" no_tables] by blast
  then obtain r where "fst (rebuild_phase3_execution_projection (\<lambda>_. ''d'') (\<lambda>_ _. ''e'') (sample_db no_tables)) = Inr r"
    by (simp add: rebuild_phase3_twice)
  with phase3_replay_deterministic [OF e, of "\<lambda>_. ''d''" "\<lambda>_ _. ''e''"] show ?thesis by simp
qed

section \<open>The gateway snapshot\<close>

record gateway_account =
  ga_account_id :: string
  ga_stale :: bool
  ga_equity :: "pyfloat option"
  ga_cash_balance :: "pyfloat option"
  ga_realized_pnl :: "pyfloat option"
  ga_unrealized_pnl :: "pyfloat option"
  ga_margin_usage :: "pyfloat option"
  ga_exposure :: "pyfloat option"

record gateway_order =
  gr_order_id_client :: string
  gr_symbol :: string
  gr_side :: string
  gr_qty :: pyfloat
  gr_filled_qty :: pyfloat
  gr_status :: string
  gr_reduce_only :: bool

record gateway_position =
  gp_symbol :: string
  gp_net_qty :: pyfloat
  gp_entry_price :: "pyfloat option"
  gp_unrealized_pnl :: "pyfloat option"

record gateway_snapshot =
  gs_account :: gateway_account
  gs_open_orders :: "gateway_order list"
  gs_fills :: "(string \<times> pyval) list list"
  gs_positions :: "gateway_position list"
  gs_funding :: "(string \<times> pyval) list list"

text \<open>\<open>[... for item in value if isinstance(item, dict)]\<close>: iterating over a string or a dictionary
  yields strings, anything else that is not a list raises.\<close>

fun dicts_of :: "pyval list \<Rightarrow> (string \<times> pyval) list list" where
  "dicts_of [] = []"
| "dicts_of (PDict d # vs) = d # dicts_of vs"
| "dicts_of (_ # vs) = dicts_of vs"

fun dict_items :: "pyval \<Rightarrow> (string \<times> pyval) list list result" where
  "dict_items (PList vs) = Inr (dicts_of vs)"
| "dict_items (PStr s) = Inr []"
| "dict_items (PDict d) = Inr []"
| "dict_items _ = Inl (TypeError ''object is not iterable'')"

definition gateway_order_of :: "(string \<times> pyval) list \<Rightarrow> gateway_order result" where
  "gateway_order_of d =
     rbind (field_float d ''qty'') (\<lambda>qty.
     rbind (field_float d ''filled_qty'') (\<lambda>filled.
       Inr \<lparr>gr_order_id_client = py_str (pget_or d ''order_id_client'' (PStr [])),
            gr_symbol = py_str (pget_or d ''symbol'' (PStr [])),
            gr_side = py_str (pget_or d ''side'' (PStr [])), gr_qty = qty, gr_filled_qty = filled,
            gr_status = py_str (pget_or d ''status'' (PStr ''NEW'')),
            gr_reduce_only = truthy (pget_or d ''reduce_only'' (PBool False))\<rparr>))"

definition gateway_position_of :: "(string \<times> pyval) list \<Rightarrow> gateway_position result" where
  "gateway_position_of d =
     rbind (field_float d ''net_qty'') (\<lambda>net.
     rbind (float_opt (pget d ''entry_price'')) (\<lambda>entry.
     rbind (float_opt (pget d ''unrealized_pnl'')) (\<lambda>unrealized.
       Inr \<lparr>gp_symbol = py_str (pget_or d ''symbol'' (PStr [])), gp_net_qty = net,
            gp_entry_price = entry, gp_unrealized_pnl = unrealized\<rparr>)))"

definition gateway_account_of :: "(string \<times> pyval) list \<Rightarrow> gateway_account result" where
  "gateway_account_of d =
     rbind (float_opt (pget d ''equity'')) (\<lambda>equity.
     rbind (float_opt (pget d ''cash_balance'')) (\<lambda>cash.
     rbind (float_opt (pget d ''realized_pnl'')) (\<lambda>realized.
     rbind (float_opt (pget d ''unrealized_pnl'')) (\<lambda>unrealized.
     rbind (float_opt (pget d ''margin_usage'')) (\<lambda>margin.
     rbind (float_opt (pget d ''exposure'')) (\<lambda>exposure.
       Inr \<lparr>ga_account_id = py_str (pget_or d ''account_id'' (PStr ''account'')),
            ga_stale = truthy (pget_or d ''stale'' (PBool False)), ga_equity = equity,
            ga_cash_balance = cash, ga_realized_pnl = realized, ga_unrealized_pnl = unrealized,
            ga_margin_usage = margin, ga_exposure = exposure\<rparr>))))))"

definition gateway_snapshot_from_payload :: "(string \<times> pyval) list \<Rightarrow> gateway_snapshot result" where
  "gateway_snapshot_from_payload d =
     (let account = (case pget_or d ''account'' (PDict []) of PDict a \<Rightarrow> a | _ \<Rightarrow> [])
      in rbind (rbind (dict_items (pget_or d ''open_orders'' (PList []))) (rmap gateway_order_of)) (\<lambda>orders.
         rbind (rbind (dict_items (pget_or d ''positions'' (PList []))) (rmap gateway_position_of)) (\<lambda>positions.
         rbind (dict_items (pget_or d ''fills'' (PList []))) (\<lambda>fills.
         rbind (dict_items (pget_or d ''funding'' (PList []))) (\<lambda>funding.
         rbind (gateway_account_of account) (\<lambda>a.
           Inr \<lparr>gs_account = a, gs_open_orders = orders, gs_fills = fills,
                gs_positions = positions, gs_funding = funding\<rparr>))))))"

definition snapshot_to_payload :: "gateway_snapshot \<Rightarrow> (string \<times> pyval) list" where
  "snapshot_to_payload s =
     (let a = gs_account s in
      [(''account'', PDict
         [(''account_id'', PStr (ga_account_id a)), (''stale'', PBool (ga_stale a)),
          (''equity'', opt_num (ga_equity a)), (''cash_balance'', opt_num (ga_cash_balance a)),
          (''realized_pnl'', opt_num (ga_realized_pnl a)),
          (''unrealized_pnl'', opt_num (ga_unrealized_pnl a)),
          (''margin_usage'', opt_num (ga_margin_usage a)), (''exposure'', opt_num (ga_exposure a))]),
       (''open_orders'', PList (map (\<lambda>r. PDict
         [(''order_id_client'', PStr (gr_order_id_client r)), (''symbol'', PStr (gr_symbol r)),
          (''side'', PStr (gr_side r)), (''qty'', PFloat (gr_qty r)),
          (''filled_qty'', PFloat (gr_filled_qty r)), (''status'', PStr (gr_status r)),
          (''reduce_only'', PBool (gr_reduce_only r))]) (gs_open_orders s))),
       (''fills'', PList (map PDict (gs_fills s))),
       (''positions'', PList (map (\<lambda>p. PDict
         [(''symbol'', PStr (gp_symbol p)), (''net_qty'', PFloat (gp_net_qty p)),
          (''entry_price'', opt_num (gp_entry_price p)),
          (''unrealized_pnl'', opt_num (gp_unrealized_pnl p))]) (gs_positions s))),
       (''funding'', PList (map PDict (gs_funding s)))])"

section \<open>Comparison\<close>

text \<open>What SQLite computes: the sum of a column, \<open>None\<close> for NULL, and whether two extracted JSON
  values fall into the same group.\<close>

record sqlite =
  sq_sum :: "pyfloat list \<Rightarrow> pyfloat option"
  sq_same :: "pyval \<Rightarrow> pyval \<Rightarrow> bool"

record local_projection =
  lp_orders :: "(string, order_row) dict"
  lp_fills :: "(string, fill_row) dict"
  lp_positions :: "(string, position_row) dict"
  lp_risk :: "risk_row option"
  lp_funding_fee :: pyfloat
  lp_realized_pnl :: pyfloat
  lp_unrealized_pnl :: pyfloat
  lp_equity :: "pyfloat option"
  lp_cash_balance :: "pyfloat option"

definition load_local_projection :: "sqlite \<Rightarrow> exec_db \<Rightarrow> local_projection" where
  "load_local_projection Q db =
     (let t = xb_live db; a = xb_accounting db; e = ac_equity a
      in \<lparr>lp_orders = lt_orders t, lp_fills = lt_fills t, lp_positions = lt_positions t,
          lp_risk = map_of (lt_risk t) ''account'',
          lp_funding_fee = or_zero (sq_sum Q (map fn_funding_fee (ac_funding a))),
          lp_realized_pnl = or_zero (sq_sum Q (map pn_realized_strategy_pnl (ac_pnl a))),
          lp_unrealized_pnl = or_zero (sq_sum Q (map pn_unrealized_pnl (ac_pnl a))),
          lp_equity = (if e = [] then None else Some (eq_equity (last e))),
          lp_cash_balance = (if e = [] then None else eq_cash_balance (last e))\<rparr>)"

text \<open>\<open>reconcile_accounting_ledgers\<close> of the store; the transfer ledger has no writer and is passed in.\<close>

record ledger_sums =
  ls_realized_strategy_pnl :: pyfloat
  ls_unrealized_pnl :: pyfloat
  ls_fees :: pyfloat
  ls_funding :: pyfloat
  ls_slippage :: pyfloat
  ls_transfers :: pyfloat
  ls_cash_balance_delta :: pyfloat
  ls_pnl_cash_balance_delta :: pyfloat
  ls_latest_equity :: "pyfloat option"

definition reconcile_accounting_ledgers :: "sqlite \<Rightarrow> pyfloat list \<Rightarrow> accounting \<Rightarrow> ledger_sums" where
  "reconcile_accounting_ledgers Q transfers a =
     (let sum = (\<lambda>xs. or_zero (sq_sum Q xs)); p = ac_pnl a; e = sort_key eq_ts_utc (ac_equity a)
      in \<lparr>ls_realized_strategy_pnl = sum (map pn_realized_strategy_pnl p),
          ls_unrealized_pnl = sum (map pn_unrealized_pnl p), ls_fees = sum (map pn_fees p),
          ls_funding = sum (map pn_funding p), ls_slippage = sum (map pn_slippage p),
          ls_transfers = sum transfers, ls_cash_balance_delta = sum (map ca_amount (ac_cash a)),
          ls_pnl_cash_balance_delta = sum (map pn_cash_balance_delta p),
          ls_latest_equity = (if e = [] then None else Some (eq_equity (last e)))\<rparr>)"

definition close_to :: "pyfloat option \<Rightarrow> pyfloat option \<Rightarrow> bool" where
  "close_to l r =
     (case (l, r) of
        (Some a, Some b) \<Rightarrow> fle (fabs (fsub a b)) f_1em9
      | _ \<Rightarrow> l = None \<and> r = None)"

fun duplicated_values :: "(pyval \<Rightarrow> pyval \<Rightarrow> bool) \<Rightarrow> pyval list \<Rightarrow> pyval list" where
  "duplicated_values same [] = []"
| "duplicated_values same (v # vs) =
     (if list_ex (same v) vs then [v] else []) @ duplicated_values same (filter (\<lambda>w. \<not> same v w) vs)"

definition local_duplicate_fill_count :: "sqlite \<Rightarrow> exec_db \<Rightarrow> nat" where
  "local_duplicate_fill_count Q db =
     length (duplicated_values (sq_same Q)
       (filter (\<lambda>v. v \<noteq> PNone)
         (map (\<lambda>e. pget (ei_metadata e) ''fill_id'')
           (filter (\<lambda>e. ei_event_type e \<in> set fill_events) (xb_events db)))))"

definition gateway_fill_ids :: "gateway_snapshot \<Rightarrow> string list" where
  "gateway_fill_ids s =
     map py_str (filter truthy (map (\<lambda>d. pget d ''fill_id'') (gs_fills s)))"

definition off :: "pyfloat \<Rightarrow> pyfloat option \<Rightarrow> bool" where
  "off l r \<longleftrightarrow> r \<noteq> None \<and> \<not> close_to (Some l) r"

definition order_blockers :: "local_projection \<Rightarrow> gateway_order \<Rightarrow> string list" where
  "order_blockers l r =
     (case map_of (lp_orders l) (gr_order_id_client r) of
        None \<Rightarrow> [''orphan_order_detected'']
      | Some row \<Rightarrow>
          flag (\<not> close_to (Some (or_filled_qty row)) (Some (gr_filled_qty r))) ''filled_qty_mismatch''
          @ flag (truthy (pget_or (or_metadata row) ''reduce_only'' (PBool False)) \<noteq> gr_reduce_only r)
              ''reduce_only_mismatch'')"

definition position_blockers :: "local_projection \<Rightarrow> gateway_position \<Rightarrow> string list" where
  "position_blockers l p =
     (case map_of (lp_positions l) (gp_symbol p) of
        None \<Rightarrow> [''symbol_exposure_drift'']
      | Some row \<Rightarrow>
          flag (\<not> close_to (Some (po_net_qty row)) (Some (gp_net_qty p))
                \<or> (gp_entry_price p \<noteq> None \<and> po_entry_price row \<noteq> None
                   \<and> \<not> close_to (po_entry_price row) (gp_entry_price p))) ''symbol_exposure_drift'')"

definition risk_blockers :: "local_projection \<Rightarrow> gateway_account \<Rightarrow> string list" where
  "risk_blockers l a =
     (case lp_risk l of
        None \<Rightarrow> flag (list_ex (\<lambda>v. v \<noteq> None)
                      [ga_exposure a, ga_margin_usage a, ga_realized_pnl a, ga_unrealized_pnl a])
                  ''risk_state_mismatch''
      | Some k \<Rightarrow> flag (off (rs_exposure k) (ga_exposure a) \<or> off (rs_margin_usage k) (ga_margin_usage a)
                        \<or> off (rs_realized_pnl k) (ga_realized_pnl a)
                        \<or> off (rs_unrealized_pnl k) (ga_unrealized_pnl a)) ''risk_state_mismatch'')"

definition reconciliation_blockers ::
    "sqlite \<Rightarrow> exec_db \<Rightarrow> local_projection \<Rightarrow> gateway_snapshot \<Rightarrow> string list result" where
  "reconciliation_blockers Q db l s =
     (let a = gs_account s; ids = gateway_fill_ids s
      in rbind (rmap (\<lambda>d. float_zero (pget d ''funding_fee'')) (gs_funding s)) (\<lambda>fees.
         Inr (sorted_set
           (flag (ga_stale a) ''stale_account_snapshot_detected''
            @ concat (map (order_blockers l) (gs_open_orders s))
            @ flag (\<not> distinct ids) ''duplicate_fill_detected''
            @ flag (\<not> set ids \<subseteq> dkeys (lp_fills l)) ''missing_fill_detected''
            @ flag (0 < local_duplicate_fill_count Q db) ''duplicate_fill_detected''
            @ concat (map (position_blockers l) (gs_positions s))
            @ risk_blockers l a
            @ flag (\<not> close_to (Some (lp_funding_fee l)) (Some (py_sum fees))) ''funding_mismatch''
            @ flag (ga_equity a \<noteq> None \<and> \<not> close_to (lp_equity l) (ga_equity a)) ''cash_equity_mismatch''
            @ flag (ga_cash_balance a \<noteq> None \<and> \<not> close_to (lp_cash_balance l) (ga_cash_balance a))
                ''cash_equity_mismatch''
            @ flag (off (lp_realized_pnl l) (ga_realized_pnl a)) ''pnl_mismatch''
            @ flag (off (lp_unrealized_pnl l) (ga_unrealized_pnl a)) ''pnl_mismatch''))))"

section \<open>Safe actions\<close>

definition safe_actions_for_blockers :: "string list \<Rightarrow> string list" where
  "safe_actions_for_blockers codes =
     (if codes = [] then [] else [''pause_artifact'', ''cancel_all'', ''flatten_all'', ''force_reconcile''])"

record journal_entry =
  je_override_event_id :: string
  je_action :: string
  je_status :: string
  je_reasons :: "string list"

definition safe_action_request :: "string \<Rightarrow> string \<Rightarrow> string list \<Rightarrow> string \<Rightarrow> override_request" where
  "safe_action_request operator_id artifact_id codes action =
     \<lparr>ov_action = action, ov_operator_id = operator_id,
      ov_artifact_id = (if action \<in> set [''pause_artifact'', ''force_reconcile''] then Some artifact_id else None),
      ov_confirmation = (if action \<in> set [''cancel_all'', ''flatten_all'']
                         then Some (''CONFIRM:'' @ action) else None),
      ov_reason = Some ''phase3_reconciliation_blocked'',
      ov_payload = Some [(''blocker_codes'', PList (map PStr codes)),
                         (''source'', PStr ''phase3_reconciliation'')]\<rparr>"

text \<open>Every call takes its event id and time from the front of \<open>ticks\<close>.\<close>

fun journal_safe_actions ::
    "string \<Rightarrow> string \<Rightarrow> string list \<Rightarrow> (nat \<Rightarrow> string \<times> string) \<Rightarrow> string list \<Rightarrow> portfolio_store
     \<Rightarrow> journal_entry list \<times> portfolio_store" where
  "journal_safe_actions operator_id artifact_id codes ticks [] st = ([], st)"
| "journal_safe_actions operator_id artifact_id codes ticks (action # actions) st =
     (let (r, st1) = apply_human_override (fst (ticks 0)) (snd (ticks 0)) st
                       (safe_action_request operator_id artifact_id codes action);
          (js, st2) = journal_safe_actions operator_id artifact_id codes (\<lambda>n. ticks (Suc n)) actions st1
      in (\<lparr>je_override_event_id = ovr_override_event_id r, je_action = ovr_action r,
           je_status = (if ovr_applied r then ''applied'' else ''rejected''),
           je_reasons = ovr_reasons r\<rparr> # js, st2))"

record reconciliation_report =
  rc_status :: string
  rc_blocker_codes :: "string list"
  rc_safe_actions :: "string list"
  rc_operator_journal :: "journal_entry list"
  rc_projection :: replay_report
  rc_gateway_snapshot :: "(string \<times> pyval) list"

definition reconcile_projection_with_gateway ::
    "sqlite \<Rightarrow> live_digest \<Rightarrow> phase3_digest \<Rightarrow> (nat \<Rightarrow> string \<times> string) \<Rightarrow> string \<Rightarrow> string
     \<Rightarrow> gateway_snapshot \<Rightarrow> exec_db \<times> portfolio_store
     \<Rightarrow> reconciliation_report result \<times> exec_db \<times> portfolio_store" where
  "reconcile_projection_with_gateway Q D E ticks operator_id artifact_id s dbs =
     (case rebuild_phase3_execution_projection D E (fst dbs) of
        (Inl x, db1) \<Rightarrow> (Inl x, db1, snd dbs)
      | (Inr p, db1) \<Rightarrow>
          (case reconciliation_blockers Q db1 (load_local_projection Q db1) s of
             Inl x \<Rightarrow> (Inl x, db1, snd dbs)
           | Inr codes \<Rightarrow>
               (let actions = safe_actions_for_blockers codes;
                    (js, st1) = journal_safe_actions operator_id artifact_id codes ticks actions (snd dbs)
                in (Inr \<lparr>rc_status = (if codes = [] then ''matched'' else ''blocked''),
                         rc_blocker_codes = codes, rc_safe_actions = actions, rc_operator_journal = js,
                         rc_projection = p, rc_gateway_snapshot = snapshot_to_payload s\<rparr>, db1, st1))))"

section \<open>The verdict\<close>

lemma safe_action_applied:
  assumes "action \<in> set [''pause_artifact'', ''cancel_all'', ''flatten_all'', ''force_reconcile'']"
  shows "ovr_applied (fst (apply_human_override i n st (safe_action_request operator_id artifact_id codes action)))
     \<longleftrightarrow> operator_id \<noteq> [] \<and> (action \<in> set [''pause_artifact'', ''force_reconcile''] \<longrightarrow> artifact_id \<noteq> [])"
    and "ovr_action (fst (apply_human_override i n st (safe_action_request operator_id artifact_id codes action))) = action"
  using assms
  by (auto simp: apply_human_override_def safe_action_request_def override_rejections_def override_actions_def
      destructive_overrides_def given_def Let_def)

lemma journal_of_actions:
  assumes "set actions \<subseteq> set [''pause_artifact'', ''cancel_all'', ''flatten_all'', ''force_reconcile'']"
  shows "map (\<lambda>j. (je_action j, je_status j))
      (fst (journal_safe_actions operator_id artifact_id codes ticks actions st)) =
    map (\<lambda>a. (a, if operator_id \<noteq> [] \<and> (a \<in> set [''pause_artifact'', ''force_reconcile''] \<longrightarrow> artifact_id \<noteq> [])
                 then ''applied'' else ''rejected'')) actions"
  using assms
proof (induction actions arbitrary: ticks st)
  case (Cons a as)
  then have "a \<in> set [''pause_artifact'', ''cancel_all'', ''flatten_all'', ''force_reconcile'']" by simp
  note head = safe_action_applied [OF this]
  have "set as \<subseteq> set [''pause_artifact'', ''cancel_all'', ''flatten_all'', ''force_reconcile'']"
    using Cons.prems by simp
  note tail = Cons.IH [OF this]
  show ?case by (simp add: Let_def split_beta head tail del: list.set)
qed simp

lemma blockers_Nil:
  assumes "reconciliation_blockers Q db l s = Inr []"
  shows "\<not> ga_stale (gs_account s)"
    and "o' \<in> set (gs_open_orders s) \<Longrightarrow> order_blockers l o' = []"
    and "p \<in> set (gs_positions s) \<Longrightarrow> position_blockers l p = []"
    and "distinct (gateway_fill_ids s) \<and> set (gateway_fill_ids s) \<subseteq> dkeys (lp_fills l)"
  using assms by (auto simp: reconciliation_blockers_def rbind_Inr_iff Let_def)

lemma order_blockers_Nil:
  "order_blockers l r = [] \<longleftrightarrow>
     (\<exists>row. map_of (lp_orders l) (gr_order_id_client r) = Some row
        \<and> fle (fabs (fsub (or_filled_qty row) (gr_filled_qty r))) f_1em9
        \<and> truthy (pget_or (or_metadata row) ''reduce_only'' (PBool False)) = gr_reduce_only r)"
  by (simp add: order_blockers_def close_to_def split: option.split)

lemma position_blockers_Nil:
  "position_blockers l p = [] \<Longrightarrow>
     \<exists>row. map_of (lp_positions l) (gp_symbol p) = Some row
        \<and> fle (fabs (fsub (po_net_qty row) (gp_net_qty p))) f_1em9"
  by (simp add: position_blockers_def close_to_def split: option.splits)

lemma local_tables [simp]:
  "lp_orders (load_local_projection Q db) = lt_orders (xb_live db)"
  "lp_fills (load_local_projection Q db) = lt_fills (xb_live db)"
  "lp_positions (load_local_projection Q db) = lt_positions (xb_live db)"
  by (simp_all add: load_local_projection_def Let_def)

lemma reconcile_Inr:
  assumes "reconcile_projection_with_gateway Q D E ticks operator_id artifact_id s (db, st) = (Inr r, db', st')"
  obtains p where "rebuild_phase3_execution_projection D E db = (Inr p, db')" "rc_projection r = p"
    "reconciliation_blockers Q db' (load_local_projection Q db') s = Inr (rc_blocker_codes r)"
    "rc_status r = (if rc_blocker_codes r = [] then ''matched'' else ''blocked'')"
    "rc_safe_actions r = safe_actions_for_blockers (rc_blocker_codes r)"
    "journal_safe_actions operator_id artifact_id (rc_blocker_codes r) ticks (rc_safe_actions r) st
       = (rc_operator_journal r, st')"
proof -
  obtain q db1 where p: "rebuild_phase3_execution_projection D E db = (q, db1)" by fastforce
  from assms p obtain p' where q: "q = Inr p'" by (cases q) (simp_all add: reconcile_projection_with_gateway_def)
  from assms p q obtain codes where
    c: "reconciliation_blockers Q db1 (load_local_projection Q db1) s = Inr codes"
    by (cases "reconciliation_blockers Q db1 (load_local_projection Q db1) s")
      (simp_all add: reconcile_projection_with_gateway_def)
  obtain js st1 where j: "journal_safe_actions operator_id artifact_id codes ticks
      (safe_actions_for_blockers codes) st = (js, st1)" by fastforce
  from assms p q c j show ?thesis
    by (intro that [of p']) (auto simp: reconcile_projection_with_gateway_def Let_def)
qed

definition known_to_gateway :: "live_tables \<Rightarrow> gateway_snapshot \<Rightarrow> bool" where
  "known_to_gateway t s \<longleftrightarrow>
     (\<forall>r \<in> set (gs_open_orders s). \<exists>row. map_of (lt_orders t) (gr_order_id_client r) = Some row
        \<and> fle (fabs (fsub (or_filled_qty row) (gr_filled_qty r))) f_1em9
        \<and> truthy (pget_or (or_metadata row) ''reduce_only'' (PBool False)) = gr_reduce_only r)
     \<and> (\<forall>p \<in> set (gs_positions s). \<exists>row. map_of (lt_positions t) (gp_symbol p) = Some row
        \<and> fle (fabs (fsub (po_net_qty row) (gp_net_qty p))) f_1em9)
     \<and> distinct (gateway_fill_ids s) \<and> set (gateway_fill_ids s) \<subseteq> dkeys (lt_fills t)"

text \<open>C12. The verdict of a reconciliation: the status is ''matched'' exactly if there is no blocker.
  A match leaves the override store alone and means that the gateway's account is not stale, that
  every order it has open is known locally with a filled quantity within 1e-9 and the same
  reduce-only flag, every position it reports is held with a quantity within 1e-9, and its fill
  ids are distinct and all known.  A block journals the four safe actions in their order, and with
  an operator named the two account-wide ones are always applied, the artifact's pause and forced
  reconciliation exactly if an artifact is named.\<close>

theorem reconcile_verdict:
  assumes "reconcile_projection_with_gateway Q D E ticks operator_id artifact_id s (db, st) = (Inr r, db', st')"
  shows "(rc_status r = ''matched'' \<longleftrightarrow> rc_blocker_codes r = [])
    \<and> (rc_status r = ''matched'' \<longrightarrow>
         st' = st \<and> rc_operator_journal r = [] \<and> \<not> ga_stale (gs_account s) \<and> known_to_gateway (xb_live db') s)
    \<and> (rc_status r \<noteq> ''matched'' \<and> operator_id \<noteq> [] \<longrightarrow>
         map (\<lambda>j. (je_action j, je_status j = ''applied'')) (rc_operator_journal r) =
           [(''pause_artifact'', artifact_id \<noteq> []), (''cancel_all'', True), (''flatten_all'', True),
            (''force_reconcile'', artifact_id \<noteq> [])])"
proof -
  from reconcile_Inr [OF assms] have b: "reconciliation_blockers Q db' (load_local_projection Q db') s = Inr (rc_blocker_codes r)"
    and st: "rc_status r = (if rc_blocker_codes r = [] then ''matched'' else ''blocked'')"
    and act: "rc_safe_actions r = safe_actions_for_blockers (rc_blocker_codes r)"
    and j: "journal_safe_actions operator_id artifact_id (rc_blocker_codes r) ticks (rc_safe_actions r) st
       = (rc_operator_journal r, st')" by metis+
  have m: "rc_status r = ''matched'' \<longleftrightarrow> rc_blocker_codes r = []" by (simp add: st)
  have "known_to_gateway (xb_live db') s \<and> \<not> ga_stale (gs_account s)" if "rc_blocker_codes r = []"
  proof -
    note n = blockers_Nil [OF b [unfolded that]]
    have "\<forall>g \<in> set (gs_open_orders s). order_blockers (load_local_projection Q db') g = []"
      "\<forall>p \<in> set (gs_positions s). position_blockers (load_local_projection Q db') p = []"
      using n(2,3) by blast+
    with n(1,4) show ?thesis
      unfolding known_to_gateway_def order_blockers_Nil local_tables
      by (metis position_blockers_Nil local_tables(3))
  qed
  moreover have "map (\<lambda>j. (je_action j, je_status j = ''applied'')) (rc_operator_journal r) =
           [(''pause_artifact'', artifact_id \<noteq> []), (''cancel_all'', True), (''flatten_all'', True),
            (''force_reconcile'', artifact_id \<noteq> [])]"
    if "rc_blocker_codes r \<noteq> []" "operator_id \<noteq> []"
  proof -
    have a: "rc_safe_actions r = [''pause_artifact'', ''cancel_all'', ''flatten_all'', ''force_reconcile'']"
      using that act by (simp add: safe_actions_for_blockers_def)
    from journal_of_actions [of "rc_safe_actions r" operator_id artifact_id "rc_blocker_codes r" ticks st] that(2)
    have "map (\<lambda>j. (je_action j, je_status j)) (rc_operator_journal r) =
      map (\<lambda>a. (a, if (a \<in> set [''pause_artifact'', ''force_reconcile''] \<longrightarrow> artifact_id \<noteq> [])
                 then ''applied'' else ''rejected'')) (rc_safe_actions r)"
      unfolding j by (simp add: a)
    then have "map (\<lambda>(x, y). (x, y = ''applied'')) (map (\<lambda>j. (je_action j, je_status j)) (rc_operator_journal r)) =
      map (\<lambda>(x, y). (x, y = ''applied'')) (map (\<lambda>a. (a, if (a \<in> set [''pause_artifact'', ''force_reconcile''] \<longrightarrow> artifact_id \<noteq> [])
                 then ''applied'' else ''rejected'')) (rc_safe_actions r))" by simp
    then show ?thesis by (simp add: a comp_def)
  qed
  moreover have "st' = st \<and> rc_operator_journal r = []" if "rc_blocker_codes r = []"
    using j act that by (simp add: safe_actions_for_blockers_def)
  ultimately show ?thesis unfolding m by blast
qed

definition quiet_snapshot :: "bool \<Rightarrow> gateway_snapshot" where
  "quiet_snapshot stale =
     \<lparr>gs_account = \<lparr>ga_account_id = ''account'', ga_stale = stale, ga_equity = None, ga_cash_balance = None,
        ga_realized_pnl = None, ga_unrealized_pnl = None, ga_margin_usage = None, ga_exposure = Some (Fin 3)\<rparr>,
      gs_open_orders = [], gs_fills = [],
      gs_positions = [\<lparr>gp_symbol = ''BTCUSDT'', gp_net_qty = Fin 2, gp_entry_price = None, gp_unrealized_pnl = None\<rparr>],
      gs_funding = []\<rparr>"

definition plain_sqlite :: sqlite where
  "plain_sqlite = \<lparr>sq_sum = (\<lambda>xs. if xs = [] then None else Some (py_sum xs)), sq_same = py_eq\<rparr>"

lemma close_same: "close_to (Some (Fin q)) (Some (Fin q))"
proof -
  have "fle (Fin 0) f_1em9" using f_1em9_pos by (simp add: fle_iff)
  then show ?thesis by (simp add: close_to_def fsub_def)
qed

lemma sample_reconciliation:
  "\<exists>r db' st'. reconcile_projection_with_gateway plain_sqlite (\<lambda>_. ''d'') (\<lambda>_ _. ''e'') (\<lambda>n. (''i'', ''n''))
     ''op'' ''a1'' (quiet_snapshot stale) (sample_db no_tables, empty_store) = (Inr r, db', st')
     \<and> (rc_blocker_codes r = [] \<longleftrightarrow> \<not> stale)"
proof -
  let ?f = "rebuild_phase3_once (\<lambda>_. ''d'') (\<lambda>_ _. ''e'')"
  let ?R = "rebuild_phase3_execution_projection (\<lambda>_. ''d'') (\<lambda>_ _. ''e'') (sample_db no_tables)"
  have u: "of_pyint 2 = Inr (Fin 2)" by (simp add: of_pyint_def fl_numeral)
  have run: "\<exists>p db'. ?R = (Inr p, db') \<and> xb_events db' = [sample_event]
     \<and> map_of (lt_positions (xb_live db')) ''BTCUSDT'' \<noteq> None
     \<and> po_net_qty (the (map_of (lt_positions (xb_live db')) ''BTCUSDT'')) = Fin 2
     \<and> map_option rs_exposure (map_of (lt_risk (xb_live db')) ''account'') = Some (Fin 3)
     \<and> ac_funding (xb_accounting db') = []"
    by (simp add: rebuild_phase3_execution_projection_def
      rebuild_phase3_once_def rebuild_execution_projections_def sample_db_def replay_tables_def
      replay_event_def sample_event_simps order_events_def rp_start_def Let_def phase3_event_def fill_events_def
      upsert_account_risk_state_def float_zero_def float_opt_def or_zero_def insert_equity_row_def
      upsert_position_snapshots_def sql_required_def sql_default0_def no_accounting_def dict_of_def last_event_id_def
      dkeys_def u)
  then obtain p db' where R: "?R = (Inr p, db')" and ev: "xb_events db' = [sample_event]"
    and po: "map_of (lt_positions (xb_live db')) ''BTCUSDT'' \<noteq> None"
       "po_net_qty (the (map_of (lt_positions (xb_live db')) ''BTCUSDT'')) = Fin 2"
    and k: "map_option rs_exposure (map_of (lt_risk (xb_live db')) ''account'') = Some (Fin 3)"
    and fu: "ac_funding (xb_accounting db') = []" by blast
  have dup: "local_duplicate_fill_count plain_sqlite db' = 0"
    by (simp add: local_duplicate_fill_count_def ev sample_event_simps fill_events_def)
  have s0: "sq_sum plain_sqlite [] = None" by (simp add: plain_sqlite_def)
  have "reconciliation_blockers plain_sqlite db' (load_local_projection plain_sqlite db') (quiet_snapshot stale)
     = Inr (sorted_set (flag stale ''stale_account_snapshot_detected''))"
    using po k
    by (auto simp: reconciliation_blockers_def quiet_snapshot_def gateway_fill_ids_def position_blockers_def
        risk_blockers_def off_def dup fu s0 load_local_projection_def Let_def or_zero_def close_same)
  with R show ?thesis
    by (cases stale)
      (auto simp: reconcile_projection_with_gateway_def safe_actions_for_blockers_def Let_def split: prod.split)
qed

theorem reconcile_verdict_witness:
  "(\<exists>r db' st'. reconcile_projection_with_gateway plain_sqlite (\<lambda>_. ''d'') (\<lambda>_ _. ''e'') (\<lambda>n. (''i'', ''n''))
      ''op'' ''a1'' (quiet_snapshot False) (sample_db no_tables, empty_store) = (Inr r, db', st')
      \<and> rc_status r = ''matched'' \<and> known_to_gateway (xb_live db') (quiet_snapshot False))
   \<and> (\<exists>r db' st'. reconcile_projection_with_gateway plain_sqlite (\<lambda>_. ''d'') (\<lambda>_ _. ''e'') (\<lambda>n. (''i'', ''n''))
      ''op'' ''a1'' (quiet_snapshot True) (sample_db no_tables, empty_store) = (Inr r, db', st')
      \<and> map (\<lambda>j. (je_action j, je_status j = ''applied'')) (rc_operator_journal r) =
          [(''pause_artifact'', True), (''cancel_all'', True), (''flatten_all'', True), (''force_reconcile'', True)])"
proof -
  obtain r db' st' where 1: "reconcile_projection_with_gateway plain_sqlite (\<lambda>_. ''d'') (\<lambda>_ _. ''e'')
      (\<lambda>n. (''i'', ''n'')) ''op'' ''a1'' (quiet_snapshot False) (sample_db no_tables, empty_store) = (Inr r, db', st')"
      "rc_blocker_codes r = []"
    using sample_reconciliation [of False] by blast
  obtain q db2 st2 where 2: "reconcile_projection_with_gateway plain_sqlite (\<lambda>_. ''d'') (\<lambda>_ _. ''e'')
      (\<lambda>n. (''i'', ''n'')) ''op'' ''a1'' (quiet_snapshot True) (sample_db no_tables, empty_store) = (Inr q, db2, st2)"
      "rc_blocker_codes q \<noteq> []"
    using sample_reconciliation [of True] by blast
  have n: "''op'' \<noteq> []" "''a1'' \<noteq> []" by simp_all
  from reconcile_verdict [OF 1(1)] 1 have "rc_status r = ''matched'' \<and> known_to_gateway (xb_live db') (quiet_snapshot False)"
    by blast
  moreover from reconcile_verdict [OF 2(1)] 2 n
  have "map (\<lambda>j. (je_action j, je_status j = ''applied'')) (rc_operator_journal q) =
          [(''pause_artifact'', True), (''cancel_all'', True), (''flatten_all'', True), (''force_reconcile'', True)]"
    by simp
  ultimately show ?thesis using 1(1) 2(1) by (intro conjI exI; (elim conjE)?) assumption+
qed

text \<open>An order or a position the gateway no longer reports is not looked for.\<close>

lemma local_only_state_unnoticed:
  "reconciliation_blockers Q db (l\<lparr>lp_orders := AList.update k row (lp_orders l)\<rparr>) (s\<lparr>gs_open_orders := []\<rparr>)
     = reconciliation_blockers Q db l (s\<lparr>gs_open_orders := []\<rparr>)"
    "reconciliation_blockers Q db (l\<lparr>lp_positions := AList.update k p (lp_positions l)\<rparr>) (s\<lparr>gs_positions := []\<rparr>)
     = reconciliation_blockers Q db l (s\<lparr>gs_positions := []\<rparr>)"
  by (simp_all add: reconciliation_blockers_def order_blockers_def [abs_def]
      position_blockers_def [abs_def] risk_blockers_def gateway_fill_ids_def Let_def)

section \<open>The snapshot's payload\<close>

lemma dicts_of_PDict [simp]: "dicts_of (map PDict ds) = ds"
  by (induction ds) simp_all

lemma dicts_of_map_PDict [simp]: "dicts_of (map (\<lambda>x. PDict (f x)) xs) = map f xs"
  by (induction xs) simp_all

lemma rmap_map_id: "(\<And>x. f (g x) = Inr x) \<Longrightarrow> rmap f (map g xs) = Inr xs"
  by (induction xs) simp_all

lemma float_opt_num [simp]: "float_opt (opt_num x) = Inr x"
  by (cases x) (simp_all add: float_opt_def opt_num_def)

text \<open>Writing a gateway snapshot into a report loses nothing: reading the payload back gives the
  snapshot, whatever it holds.\<close>

lemma gateway_snapshot_roundtrip:
  "gateway_snapshot_from_payload (snapshot_to_payload s) = Inr s"
proof -
  define fo where "fo = (\<lambda>r :: gateway_order. [(''order_id_client'', PStr (gr_order_id_client r)), (''symbol'', PStr (gr_symbol r)),
          (''side'', PStr (gr_side r)), (''qty'', PFloat (gr_qty r)),
          (''filled_qty'', PFloat (gr_filled_qty r)), (''status'', PStr (gr_status r)),
          (''reduce_only'', PBool (gr_reduce_only r))])"
  define fp where "fp = (\<lambda>p :: gateway_position. [(''symbol'', PStr (gp_symbol p)), (''net_qty'', PFloat (gp_net_qty p)),
          (''entry_price'', opt_num (gp_entry_price p)),
          (''unrealized_pnl'', opt_num (gp_unrealized_pnl p))])"
  have num: "py_float (if x \<noteq> Fin 0 then PFloat x else PFloat (Fin 0)) = Inr x" for x by simp
  have "gateway_order_of (fo r) = Inr r" for r
    by (cases r) (simp add: fo_def gateway_order_of_def field_float_def Let_def num)
  note orders = rmap_map_id [of gateway_order_of fo, OF this]
  have "gateway_position_of (fp p) = Inr p" for p
    by (cases p) (simp add: fp_def gateway_position_of_def field_float_def Let_def num)
  note positions = rmap_map_id [of gateway_position_of fp, OF this]
  have account: "gateway_account_of
     [(''account_id'', PStr (ga_account_id a)), (''stale'', PBool (ga_stale a)),
          (''equity'', opt_num (ga_equity a)), (''cash_balance'', opt_num (ga_cash_balance a)),
          (''realized_pnl'', opt_num (ga_realized_pnl a)),
          (''unrealized_pnl'', opt_num (ga_unrealized_pnl a)),
          (''margin_usage'', opt_num (ga_margin_usage a)), (''exposure'', opt_num (ga_exposure a))] = Inr a" for a :: gateway_account
    by (simp add: gateway_account_of_def)
  show ?thesis
    by (simp add: gateway_snapshot_from_payload_def snapshot_to_payload_def Let_def account
        orders [unfolded fo_def] positions [unfolded fp_def])
qed

end
