(* ===== verification/Governance.thy ===== *)
theory Governance
  imports RiskControls PyText
begin

text \<open>
  Artifact governance (\<open>governance/lifecycle.py\<close>): alert runbooks, scenario packs, the lifecycle
  policy that turns a health snapshot into a decision, the closeout evidence a runbook demands and
  the table effects of applying a decision.  Identifiers and the clock are parameters.
\<close>

section \<open>Runbooks and scenario packs\<close>

record alert_runbook_row =
  ar_alert_code :: string
  ar_severity :: string
  ar_owner_action :: string
  ar_default_automation :: string
  ar_required_evidence :: "string list"

definition alert_runbook ::
    "string \<Rightarrow> string \<Rightarrow> string \<Rightarrow> string \<Rightarrow> string list \<Rightarrow> alert_runbook_row" where
  "alert_runbook c s w a e = \<lparr>ar_alert_code = c, ar_severity = s, ar_owner_action = w,
     ar_default_automation = a, ar_required_evidence = e\<rparr>"

definition default_alert_runbooks :: "(string, alert_runbook_row) dict" where
  "default_alert_runbooks = map (\<lambda>r. (ar_alert_code r, r))
     [
      alert_runbook ''none'' ''info'' ''No action.'' ''ignore''
        [''operator''],
      alert_runbook ''liquidation'' ''critical'' ''Retire artifact and rollback deployment.'' ''rollback''
        [''operator'', ''metric_window'', ''review_notes''],
      alert_runbook ''artifact_checksum_mismatch'' ''critical'' ''Retire artifact and block execution.'' ''rollback''
        [''operator'', ''artifact_sha256'', ''review_notes''],
      alert_runbook ''venue_rule_mismatch'' ''critical'' ''Retire artifact until venue rules are revalidated.'' ''rollback''
        [''operator'', ''exchange_rules_version'', ''review_notes''],
      alert_runbook ''trailing_30d_live_sharpe_below_floor'' ''warning'' ''Pause to paper and require review.'' ''pause''
        [''operator'', ''metric_window'', ''review_notes''],
      alert_runbook ''realized_slippage_gt_2x_modeled_5d'' ''warning'' ''Pause to paper and recalibrate costs.'' ''pause''
        [''operator'', ''metric_window'', ''review_notes''],
      alert_runbook ''pause_to_paper'' ''warning'' ''Pause to paper and record closeout evidence.'' ''pause''
        [''operator'', ''metric_window'', ''review_notes''],
      alert_runbook ''fill_rejection_cluster'' ''warning'' ''Pause and inspect order rejection cluster.'' ''pause''
        [''operator'', ''metric_window'', ''review_notes''],
      alert_runbook ''drawdown_limit_breached'' ''critical'' ''Flatten exposure and pause artifact.'' ''flatten''
        [''operator'', ''metric_window'', ''review_notes''],
      alert_runbook ''capacity_drift_breached'' ''warning'' ''Pause artifact and rerun capacity calibration.'' ''pause''
        [''operator'', ''metric_window'', ''review_notes''],
      alert_runbook ''data_quality_degraded'' ''warning'' ''Pause artifact until data quality recovers.'' ''pause''
        [''operator'', ''metric_window'', ''review_notes''],
      alert_runbook ''two_pauses_within_90d'' ''critical'' ''Retire unstable artifact.'' ''rollback''
        [''operator'', ''metric_window'', ''review_notes''],
      alert_runbook ''holdout_assumptions_invalidated'' ''critical'' ''Retire artifact and block promotion lineage.'' ''rollback''
        [''operator'', ''review_notes''],
      alert_runbook ''revalidation_required'' ''warning'' ''Manual review and validation rerun required.'' ''manual_review''
        [''operator'', ''review_notes''],
      alert_runbook ''venue_outage'' ''critical'' ''Cancel open orders during venue outage.'' ''cancel''
        [''operator'', ''metric_window'', ''review_notes''],
      alert_runbook ''secret_rotation_due'' ''warning'' ''Rotate execution keys.'' ''rotate_key''
        [''operator'', ''review_notes''],
      alert_runbook ''executor_restart_required'' ''warning'' ''Restart executor after health failure.'' ''restart''
        [''operator'', ''review_notes'']]"

record scenario_pack =
  sc_name :: string
  sc_version :: string
  sc_status :: string
  sc_stressors :: "(string \<times> pyval) list"
  sc_approved_by :: "string option"

definition scenario_definitions :: "(string \<times> (string \<times> pyval) list) list" where
  "scenario_definitions =
     [(''mild'',
        [(''spread_multiplier'', PFloat (Fin 2)), (''slippage_multiplier'', PFloat (Fin (3 / 2))),
         (''one_bar_gap_sigma'', PFloat (Fin 3)), (''data_outage_seconds'', PInt 30)]),
      (''medium'',
        [(''spread_multiplier'', PFloat (Fin 3)), (''slippage_multiplier'', PFloat (Fin 2)),
         (''one_bar_gap_sigma'', PFloat (Fin 5)), (''data_outage_seconds'', PInt 120),
         (''funding_shock_multiplier'', PFloat (Fin 2))]),
      (''severe'',
        [(''spread_multiplier'', PFloat (Fin 5)), (''slippage_multiplier'', PFloat (Fin 3)),
         (''one_bar_gap_sigma'', PFloat (Fin 8)), (''data_outage_seconds'', PInt 600),
         (''funding_sign_inversion_burst'', PBool True),
         (''forced_taker_liquidation_path'', PBool True)]),
      (''venue-outage'',
        [(''venue_outage'', PBool True), (''data_outage_seconds'', PInt 600),
         (''cancel_reject_risk'', PBool True), (''stale_book_seconds'', PInt 120)])]"

definition scenario_pack_version ::
    "stable_hash \<Rightarrow> string \<Rightarrow> (string \<times> pyval) list \<Rightarrow> string" where
  "scenario_pack_version H name stressors =
     ''scenario-pack-'' @ name @ ''-''
     @ take 16 (H (PDict [(''name'', PStr name), (''stressors'', PDict stressors)]))"

definition named_approver :: "string option \<Rightarrow> bool" where
  "named_approver a \<longleftrightarrow> (case a of None \<Rightarrow> False | Some s \<Rightarrow> s \<noteq> [])"

definition build_required_scenario_packs :: "stable_hash \<Rightarrow> string option \<Rightarrow> scenario_pack list" where
  "build_required_scenario_packs H approved_by =
     map (\<lambda>(name, stressors).
       \<lparr>sc_name = name, sc_version = scenario_pack_version H name stressors,
        sc_status = (if named_approver approved_by then ''active'' else ''draft''),
        sc_stressors = stressors, sc_approved_by = approved_by\<rparr>) scenario_definitions"

section \<open>The lifecycle policy\<close>

record health_snapshot =
  hs_artifact_id :: string
  hs_lifecycle_state :: string
  hs_liquidation_events :: int
  hs_checksum_valid :: bool
  hs_venue_rules_match :: bool
  hs_trailing_30d_live_sharpe :: "pyfloat option"
  hs_live_sample_count :: int
  hs_slippage_over_modeled_5d :: "pyfloat option"
  hs_fill_rejection_cluster :: bool
  hs_pause_count_90d :: int
  hs_holdout_assumptions_invalidated :: bool
  hs_drawdown_limit_breached :: bool
  hs_capacity_drift_breached :: bool
  hs_validation_expired :: bool
  hs_scenario_pack_changed :: bool
  hs_venue_api_rules_changed :: bool
  hs_data_quality_degraded :: bool

record lifecycle_decision =
  ld_artifact_id :: string
  ld_source_state :: string
  ld_target_state :: string
  ld_revalidation_required :: bool
  ld_primary_reason :: string
  ld_reasons :: "string list"
  ld_runbook_code :: string
  ld_default_automation :: string
  ld_severity :: string

definition retire_reasons :: "health_snapshot \<Rightarrow> string list" where
  "retire_reasons s =
     flag (0 < hs_liquidation_events s) ''liquidation''
     @ flag (\<not> hs_checksum_valid s) ''artifact_checksum_mismatch''
     @ flag (\<not> hs_venue_rules_match s) ''venue_rule_mismatch''
     @ flag (2 \<le> hs_pause_count_90d s) ''two_pauses_within_90d''
     @ flag (hs_holdout_assumptions_invalidated s) ''holdout_assumptions_invalidated''"

definition poor_sharpe :: "health_snapshot \<Rightarrow> bool" where
  "poor_sharpe s \<longleftrightarrow> (case hs_trailing_30d_live_sharpe s of
      None \<Rightarrow> False | Some x \<Rightarrow> flt x (Fin (- (1 / 2))) \<and> 30 \<le> hs_live_sample_count s)"

definition excess_slippage :: "health_snapshot \<Rightarrow> bool" where
  "excess_slippage s \<longleftrightarrow> (case hs_slippage_over_modeled_5d s of
      None \<Rightarrow> False | Some x \<Rightarrow> flt (Fin 2) x)"

definition pause_reasons :: "health_snapshot \<Rightarrow> string list" where
  "pause_reasons s =
     flag (poor_sharpe s) ''trailing_30d_live_sharpe_below_floor''
     @ flag (excess_slippage s) ''realized_slippage_gt_2x_modeled_5d''
     @ flag (hs_fill_rejection_cluster s) ''fill_rejection_cluster''
     @ flag (hs_drawdown_limit_breached s) ''drawdown_limit_breached''
     @ flag (hs_capacity_drift_breached s) ''capacity_drift_breached''
     @ flag (hs_data_quality_degraded s) ''data_quality_degraded''"

definition revalidation_reasons :: "health_snapshot \<Rightarrow> string list" where
  "revalidation_reasons s =
     flag (hs_validation_expired s) ''validation_expired''
     @ flag (hs_scenario_pack_changed s) ''scenario_pack_changed''
     @ flag (hs_venue_api_rules_changed s) ''venue_api_rules_changed''"

definition runbook_for :: "string \<Rightarrow> alert_runbook_row" where
  "runbook_for code = (case map_of default_alert_runbooks code of
      Some r \<Rightarrow> r
    | None \<Rightarrow> dget default_alert_runbooks ''revalidation_required'' (alert_runbook [] [] [] [] []))"

definition make_decision ::
    "health_snapshot \<Rightarrow> string \<Rightarrow> bool \<Rightarrow> string \<Rightarrow> string list \<Rightarrow> lifecycle_decision" where
  "make_decision s target revalidate primary reasons =
     (let runbook = runbook_for (if target = ''paused'' then ''pause_to_paper'' else primary)
      in \<lparr>ld_artifact_id = hs_artifact_id s, ld_source_state = hs_lifecycle_state s,
          ld_target_state = target, ld_revalidation_required = revalidate,
          ld_primary_reason = primary, ld_reasons = reasons,
          ld_runbook_code = ar_alert_code runbook,
          ld_default_automation = ar_default_automation runbook,
          ld_severity = ar_severity runbook\<rparr>)"

definition evaluate_lifecycle_policy :: "health_snapshot \<Rightarrow> lifecycle_decision" where
  "evaluate_lifecycle_policy s =
     (case retire_reasons s of
        r # rs \<Rightarrow> make_decision s ''retired'' False r (r # rs)
      | [] \<Rightarrow>
          (case pause_reasons s of
             r # rs \<Rightarrow> make_decision s ''paused'' False r (r # rs)
           | [] \<Rightarrow>
               if revalidation_reasons s \<noteq> []
               then make_decision s (hs_lifecycle_state s) True ''revalidation_required''
                      (revalidation_reasons s)
               else make_decision s (hs_lifecycle_state s) False ''none'' []))"

section \<open>Closeout evidence and the effects of a decision\<close>

record evidence_validation =
  ev_passed :: bool
  ev_reasons :: "string list"

definition evidence_missing :: "(string \<times> pyval) list \<Rightarrow> string \<Rightarrow> bool" where
  "evidence_missing evidence field \<longleftrightarrow> pget evidence field \<in> {PNone, PStr []}"

definition validate_alert_closeout ::
    "(string, alert_runbook_row) dict \<Rightarrow> string \<Rightarrow> (string \<times> pyval) list \<Rightarrow> evidence_validation" where
  "validate_alert_closeout runbooks code evidence =
     (case map_of runbooks code of
        None \<Rightarrow> \<lparr>ev_passed = False, ev_reasons = [''unknown_runbook:'' @ code]\<rparr>
      | Some r \<Rightarrow>
          (let missing = map ((@) ''missing_closeout_evidence:'')
                 (filter (evidence_missing evidence) (ar_required_evidence r))
           in \<lparr>ev_passed = (missing = []), ev_reasons = missing\<rparr>))"

record deployment_row =
  dr_artifact_id :: string
  dr_rollout_stage :: string
  dr_status :: string
  dr_started_at_utc :: string
  dr_decision :: lifecycle_decision
  dr_evidence :: "(string \<times> pyval) list"

record gov_risk_event =
  gr_risk_event_id :: string
  gr_ts_utc :: string
  gr_reason_code :: string
  gr_severity :: string
  gr_action :: string
  gr_lifecycle_event_id :: string
  gr_evidence :: "(string \<times> pyval) list"

record lifecycle_row =
  lj_lifecycle_event_id :: string
  lj_artifact_id :: string
  lj_source_state :: string
  lj_target_state :: string
  lj_revalidation_required :: bool
  lj_reason_code :: string
  lj_runbook_code :: string
  lj_automation :: string
  lj_severity :: string
  lj_ts_utc :: string
  lj_evidence :: "(string \<times> pyval) list"

record governance_store =
  gs_scenario_packs :: "(string, scenario_pack \<times> string option) dict"
  gs_alert_runbooks :: "(string, alert_runbook_row) dict"
  gs_stages :: "(string, string) dict"
  gs_deployments :: "(string, deployment_row) dict"
  gs_risk_events :: "gov_risk_event list"
  gs_journal :: "lifecycle_row list"

record apply_result =
  ap_applied :: bool
  ap_lifecycle_event_id :: string
  ap_reasons :: "string list"

definition seed_governance_registry ::
    "stable_hash \<Rightarrow> string \<Rightarrow> string option \<Rightarrow> governance_store \<Rightarrow> (string \<times> nat) list \<times> governance_store" where
  "seed_governance_registry H now approved_by st =
     (let packs = build_required_scenario_packs H approved_by
      in ([(''scenario_packs'', length packs), (''alert_runbooks'', length default_alert_runbooks)],
          st\<lparr>gs_scenario_packs :=
               fold (\<lambda>p. AList.update (sc_version p)
                       (p, if named_approver (sc_approved_by p) then Some now else None))
                 packs (gs_scenario_packs st),
             gs_alert_runbooks :=
               fold (\<lambda>r. AList.update (ar_alert_code r) r) (map snd default_alert_runbooks)
                 (gs_alert_runbooks st)\<rparr>))"

definition set_stage :: "string \<Rightarrow> string \<Rightarrow> (string, string) dict \<Rightarrow> (string, string) dict" where
  "set_stage a stage d = map (\<lambda>(k, v). (k, if k = a then stage else v)) d"

definition apply_lifecycle_decision ::
    "string \<Rightarrow> string \<Rightarrow> string \<Rightarrow> (string, alert_runbook_row) dict \<Rightarrow> lifecycle_decision
     \<Rightarrow> (string \<times> pyval) list \<Rightarrow> governance_store \<Rightarrow> apply_result \<times> governance_store" where
  "apply_lifecycle_decision hex1 hex2 now runbooks d evidence st =
     (let validation = validate_alert_closeout runbooks (ld_runbook_code d) evidence;
          event_id = ''lifecycle:'' @ ld_artifact_id d @ '':'' @ hex1
      in if \<not> ev_passed validation
         then (\<lparr>ap_applied = False, ap_lifecycle_event_id = event_id,
                ap_reasons = ev_reasons validation\<rparr>, st)
         else
           (\<lparr>ap_applied = True, ap_lifecycle_event_id = event_id, ap_reasons = []\<rparr>,
            st\<lparr>gs_stages :=
                 (if ld_target_state d \<in> {''paused'', ''retired''}
                  then set_stage (ld_artifact_id d) (ld_target_state d) (gs_stages st)
                  else gs_stages st),
               gs_deployments :=
                 AList.update (''deployment:'' @ ld_artifact_id d @ '':lifecycle'')
                   \<lparr>dr_artifact_id = ld_artifact_id d, dr_rollout_stage = ld_target_state d,
                    dr_status = (if ld_revalidation_required d then ''revalidation_required''
                                 else ld_target_state d),
                    dr_started_at_utc = now, dr_decision = d, dr_evidence = evidence\<rparr>
                   (gs_deployments st),
               gs_risk_events := gs_risk_events st
                 @ [\<lparr>gr_risk_event_id = ''risk:'' @ ld_artifact_id d @ '':'' @ hex2, gr_ts_utc = now,
                     gr_reason_code = ld_primary_reason d, gr_severity = ld_severity d,
                     gr_action = ld_default_automation d, gr_lifecycle_event_id = event_id,
                     gr_evidence = evidence\<rparr>],
               gs_journal := gs_journal st
                 @ [\<lparr>lj_lifecycle_event_id = event_id, lj_artifact_id = ld_artifact_id d,
                     lj_source_state = ld_source_state d, lj_target_state = ld_target_state d,
                     lj_revalidation_required = ld_revalidation_required d,
                     lj_reason_code = ld_primary_reason d, lj_runbook_code = ld_runbook_code d,
                     lj_automation = ld_default_automation d, lj_severity = ld_severity d,
                     lj_ts_utc = now, lj_evidence = evidence\<rparr>]\<rparr>))"

section \<open>The policy as check lists\<close>

definition retire_checks :: "(string \<times> (health_snapshot \<Rightarrow> bool)) list" where
  "retire_checks =
     [(''liquidation'', \<lambda>s. hs_liquidation_events s \<le> 0),
      (''artifact_checksum_mismatch'', hs_checksum_valid),
      (''venue_rule_mismatch'', hs_venue_rules_match),
      (''two_pauses_within_90d'', \<lambda>s. hs_pause_count_90d s < 2),
      (''holdout_assumptions_invalidated'', \<lambda>s. \<not> hs_holdout_assumptions_invalidated s)]"

definition pause_checks :: "(string \<times> (health_snapshot \<Rightarrow> bool)) list" where
  "pause_checks =
     [(''trailing_30d_live_sharpe_below_floor'', \<lambda>s. \<not> poor_sharpe s),
      (''realized_slippage_gt_2x_modeled_5d'', \<lambda>s. \<not> excess_slippage s),
      (''fill_rejection_cluster'', \<lambda>s. \<not> hs_fill_rejection_cluster s),
      (''drawdown_limit_breached'', \<lambda>s. \<not> hs_drawdown_limit_breached s),
      (''capacity_drift_breached'', \<lambda>s. \<not> hs_capacity_drift_breached s),
      (''data_quality_degraded'', \<lambda>s. \<not> hs_data_quality_degraded s)]"

interpretation retirement: check_gate retire_checks retire_reasons "\<lambda>s. retire_reasons s = []"
  by unfold_locales (simp_all add: retire_reasons_def retire_checks_def flag_def not_le not_less)

interpretation pausing: check_gate pause_checks pause_reasons "\<lambda>s. pause_reasons s = []"
  by unfold_locales (simp_all add: pause_reasons_def pause_checks_def flag_def)

definition must_retire :: "health_snapshot \<Rightarrow> bool" where
  "must_retire s \<longleftrightarrow> 0 < hs_liquidation_events s \<or> \<not> hs_checksum_valid s \<or> \<not> hs_venue_rules_match s
     \<or> 2 \<le> hs_pause_count_90d s \<or> hs_holdout_assumptions_invalidated s"

definition must_pause :: "health_snapshot \<Rightarrow> bool" where
  "must_pause s \<longleftrightarrow> poor_sharpe s \<or> excess_slippage s \<or> hs_fill_rejection_cluster s
     \<or> hs_drawdown_limit_breached s \<or> hs_capacity_drift_breached s \<or> hs_data_quality_degraded s"

definition must_revalidate :: "health_snapshot \<Rightarrow> bool" where
  "must_revalidate s \<longleftrightarrow> hs_validation_expired s \<or> hs_scenario_pack_changed s
     \<or> hs_venue_api_rules_changed s"

lemma retire_reasons_Nil_iff: "retire_reasons s = [] \<longleftrightarrow> \<not> must_retire s"
  using retirement.passed_iff_all [of s] by (auto simp: retire_checks_def must_retire_def not_less not_le)

lemma pause_reasons_Nil_iff: "pause_reasons s = [] \<longleftrightarrow> \<not> must_pause s"
  using pausing.passed_iff_all [of s] by (simp add: pause_checks_def must_pause_def)

lemma revalidation_reasons_Nil_iff: "revalidation_reasons s = [] \<longleftrightarrow> \<not> must_revalidate s"
  by (auto simp: revalidation_reasons_def must_revalidate_def)

lemma make_decision_simps [simp]:
  "ld_artifact_id (make_decision s t v p rs) = hs_artifact_id s"
  "ld_source_state (make_decision s t v p rs) = hs_lifecycle_state s"
  "ld_target_state (make_decision s t v p rs) = t"
  "ld_revalidation_required (make_decision s t v p rs) = v"
  "ld_primary_reason (make_decision s t v p rs) = p"
  "ld_reasons (make_decision s t v p rs) = rs"
  by (simp_all add: make_decision_def Let_def)

lemma decision_runbook:
  "ld_runbook_code (make_decision s t v p rs)
     = ar_alert_code (runbook_for (if t = ''paused'' then ''pause_to_paper'' else p))"
  "ld_default_automation (make_decision s t v p rs)
     = ar_default_automation (runbook_for (if t = ''paused'' then ''pause_to_paper'' else p))"
  "ld_severity (make_decision s t v p rs)
     = ar_severity (runbook_for (if t = ''paused'' then ''pause_to_paper'' else p))"
  by (simp_all add: make_decision_def Let_def)

lemma alert_runbook_simps [simp]:
  "ar_alert_code (alert_runbook c s w a e) = c"
  "ar_severity (alert_runbook c s w a e) = s"
  "ar_default_automation (alert_runbook c s w a e) = a"
  "ar_required_evidence (alert_runbook c s w a e) = e"
  by (simp_all add: alert_runbook_def)

text \<open>The runbooks the policy can name, looked up once.\<close>

lemma runbook_lookup:
  "ar_alert_code (runbook_for ''liquidation'') = ''liquidation''"
  "ar_severity (runbook_for ''liquidation'') = ''critical''"
  "ar_default_automation (runbook_for ''liquidation'') = ''rollback''"
  "ar_alert_code (runbook_for ''artifact_checksum_mismatch'') = ''artifact_checksum_mismatch''"
  "ar_severity (runbook_for ''artifact_checksum_mismatch'') = ''critical''"
  "ar_default_automation (runbook_for ''artifact_checksum_mismatch'') = ''rollback''"
  "ar_alert_code (runbook_for ''venue_rule_mismatch'') = ''venue_rule_mismatch''"
  "ar_severity (runbook_for ''venue_rule_mismatch'') = ''critical''"
  "ar_default_automation (runbook_for ''venue_rule_mismatch'') = ''rollback''"
  "ar_alert_code (runbook_for ''two_pauses_within_90d'') = ''two_pauses_within_90d''"
  "ar_severity (runbook_for ''two_pauses_within_90d'') = ''critical''"
  "ar_default_automation (runbook_for ''two_pauses_within_90d'') = ''rollback''"
  "ar_alert_code (runbook_for ''holdout_assumptions_invalidated'') = ''holdout_assumptions_invalidated''"
  "ar_severity (runbook_for ''holdout_assumptions_invalidated'') = ''critical''"
  "ar_default_automation (runbook_for ''holdout_assumptions_invalidated'') = ''rollback''"
  "ar_alert_code (runbook_for ''pause_to_paper'') = ''pause_to_paper''"
  "ar_severity (runbook_for ''pause_to_paper'') = ''warning''"
  "ar_default_automation (runbook_for ''pause_to_paper'') = ''pause''"
  "ar_alert_code (runbook_for ''revalidation_required'') = ''revalidation_required''"
  "ar_severity (runbook_for ''revalidation_required'') = ''warning''"
  "ar_default_automation (runbook_for ''revalidation_required'') = ''manual_review''"
  "ar_alert_code (runbook_for ''none'') = ''none''"
  "ar_severity (runbook_for ''none'') = ''info''"
  "ar_default_automation (runbook_for ''none'') = ''ignore''"
  "ar_alert_code (runbook_for ''drawdown_limit_breached'') = ''drawdown_limit_breached''"
  "ar_severity (runbook_for ''drawdown_limit_breached'') = ''critical''"
  "ar_default_automation (runbook_for ''drawdown_limit_breached'') = ''flatten''"
  by (simp_all add: runbook_for_def default_alert_runbooks_def)

lemma retire_runbook: "r \<in> fst ` set retire_checks \<Longrightarrow>
    ar_severity (runbook_for r) = ''critical'' \<and> ar_default_automation (runbook_for r) = ''rollback''"
  unfolding retire_checks_def by (auto simp: runbook_lookup)

lemmas runbook_values = retire_runbook runbook_lookup

text \<open>The three outcomes of the policy, as one case rule.\<close>

lemma policy_cases:
  obtains (retire) r rs where "must_retire s" "retire_reasons s = r # rs"
      "r \<in> fst ` set retire_checks"
      "evaluate_lifecycle_policy s = make_decision s ''retired'' False r (r # rs)"
  | (pause) r rs where "\<not> must_retire s" "must_pause s" "pause_reasons s = r # rs"
      "evaluate_lifecycle_policy s = make_decision s ''paused'' False r (r # rs)"
  | (revalidate) "\<not> must_retire s" "\<not> must_pause s" "must_revalidate s"
      "evaluate_lifecycle_policy s = make_decision s (hs_lifecycle_state s) True
         ''revalidation_required'' (revalidation_reasons s)"
  | (keep) "\<not> must_retire s" "\<not> must_pause s" "\<not> must_revalidate s"
      "evaluate_lifecycle_policy s = make_decision s (hs_lifecycle_state s) False ''none'' []"
proof (cases "retire_reasons s")
  case (Cons r rs)
  then have "r \<in> fst ` set retire_checks" using retirement.reasons_known [of s] by auto
  with Cons show thesis
    using retire_reasons_Nil_iff [of s] by (intro retire) (simp_all add: evaluate_lifecycle_policy_def)
next
  case Nil
  show thesis
  proof (cases "pause_reasons s")
    case (Cons r rs)
    with Nil show thesis
      using retire_reasons_Nil_iff [of s] pause_reasons_Nil_iff [of s]
      by (intro pause) (simp_all add: evaluate_lifecycle_policy_def)
  next
    case n: Nil
    then show thesis
      using Nil retire_reasons_Nil_iff [of s] pause_reasons_Nil_iff [of s]
        revalidation_reasons_Nil_iff [of s] revalidate keep
      by (cases "must_revalidate s") (simp_all add: evaluate_lifecycle_policy_def)
  qed
qed

text \<open>The lifecycle policy in one table: any hard failure retires the artifact with a critical
  rollback; otherwise any soft failure pauses it with a warning; otherwise its state is kept, and
  only then a stale validation, scenario pack or venue rule set asks for a manual revalidation; the
  reasons are exactly those of the branch taken, without repetition.\<close>

lemma lifecycle_policy_table:
  fixes s
  defines "d \<equiv> evaluate_lifecycle_policy s"
  shows "(ld_target_state d, ld_severity d, ld_default_automation d, ld_revalidation_required d) =
     (if must_retire s then (''retired'', ''critical'', ''rollback'', False)
      else if must_pause s then (''paused'', ''warning'', ''pause'', False)
      else if hs_lifecycle_state s = ''paused''
      then (''paused'', ''warning'', ''pause'', must_revalidate s)
      else if must_revalidate s then (hs_lifecycle_state s, ''warning'', ''manual_review'', True)
      else (hs_lifecycle_state s, ''info'', ''ignore'', False))
    \<and> (ld_reasons d = [] \<longleftrightarrow> \<not> must_retire s \<and> \<not> must_pause s \<and> \<not> must_revalidate s)
    \<and> distinct (ld_reasons d)"
proof -
  have r: "distinct (revalidation_reasons s)" by (simp add: revalidation_reasons_def flag_def)
  show ?thesis
  proof (cases rule: policy_cases [of s])
    case (retire x xs)
    with retirement.reasons_distinct [of s] show ?thesis
      unfolding d_def by (simp add: decision_runbook runbook_values)
  next
    case (pause x xs)
    with pausing.reasons_distinct [of s] show ?thesis
      unfolding d_def by (simp add: decision_runbook runbook_values)
  next
    case revalidate
    with r revalidation_reasons_Nil_iff [of s] show ?thesis
      unfolding d_def by (simp add: decision_runbook runbook_values)
  next
    case keep
    then show ?thesis unfolding d_def by (simp add: decision_runbook runbook_values)
  qed
qed

lemma runbook_known: "\<exists>r. map_of default_alert_runbooks (ar_alert_code (runbook_for c)) = Some r
    \<and> ''operator'' \<in> set (ar_required_evidence r)"
proof (cases "map_of default_alert_runbooks c")
  case None
  then show ?thesis
    by (simp add: runbook_for_def default_alert_runbooks_def dget_def)
next
  case (Some r)
  have all: "\<forall>(k, r) \<in> set default_alert_runbooks. ar_alert_code r = k
      \<and> ''operator'' \<in> set (ar_required_evidence r)"
    by (simp add: default_alert_runbooks_def)
  from map_of_SomeD [OF Some] all Some show ?thesis by (auto simp: runbook_for_def)
qed

lemma decision_runbook_known: "\<exists>r. map_of default_alert_runbooks
      (ld_runbook_code (evaluate_lifecycle_policy s)) = Some r
    \<and> ''operator'' \<in> set (ar_required_evidence r)"
  by (cases rule: policy_cases [of s]) (simp_all add: decision_runbook runbook_known)

lemma set_stage_other: "k \<noteq> a \<Longrightarrow> map_of (set_stage a stage d) k = map_of d k"
  by (induction d) (auto simp: set_stage_def)

lemma set_stage_same: "map_of (set_stage a stage d) a = map_option (\<lambda>_. stage) (map_of d a)"
  by (induction d) (auto simp: set_stage_def)

text \<open>No lifecycle action without evidence: applying a policy decision succeeds exactly when
  every evidence field its runbook demands is present, the operator among them; refused, it leaves
  the tables as they were; applied, it appends one journal row and one risk event with the
  decision's reason and severity, changes no other artifact, and a paused or retired artifact
  carries its new stage.\<close>

lemma lifecycle_action_needs_evidence:
  fixes hex1 hex2 now s evidence st
  defines "d \<equiv> evaluate_lifecycle_policy s"
  defines "res \<equiv> fst (apply_lifecycle_decision hex1 hex2 now default_alert_runbooks d evidence st)"
    and "st' \<equiv> snd (apply_lifecycle_decision hex1 hex2 now default_alert_runbooks d evidence st)"
  shows "(\<exists>r. map_of default_alert_runbooks (ld_runbook_code d) = Some r
        \<and> ''operator'' \<in> set (ar_required_evidence r)
        \<and> (ap_applied res \<longleftrightarrow> (\<forall>f \<in> set (ar_required_evidence r). \<not> evidence_missing evidence f)))
    \<and> (\<not> ap_applied res \<longrightarrow> st' = st)
    \<and> (ap_applied res \<longrightarrow>
         (\<exists>row ev. gs_journal st' = gs_journal st @ [row] \<and> lj_target_state row = ld_target_state d
            \<and> gs_risk_events st' = gs_risk_events st @ [ev]
            \<and> gr_reason_code ev = ld_primary_reason d \<and> gr_severity ev = ld_severity d)
         \<and> (\<forall>k. k \<noteq> hs_artifact_id s \<longrightarrow> map_of (gs_stages st') k = map_of (gs_stages st) k)
         \<and> (ld_target_state d \<in> {''paused'', ''retired''} \<longrightarrow>
              map_of (gs_stages st') (hs_artifact_id s)
              = map_option (\<lambda>_. ld_target_state d) (map_of (gs_stages st) (hs_artifact_id s))))"
proof -
  obtain r where r: "map_of default_alert_runbooks (ld_runbook_code d) = Some r"
      "''operator'' \<in> set (ar_required_evidence r)"
    using decision_runbook_known [of s] unfolding d_def by blast
  have id: "ld_artifact_id d = hs_artifact_id s"
    unfolding d_def by (cases rule: policy_cases [of s]) simp_all
  let ?v = "validate_alert_closeout default_alert_runbooks (ld_runbook_code d) evidence"
  have v: "ev_passed ?v \<longleftrightarrow> (\<forall>f \<in> set (ar_required_evidence r). \<not> evidence_missing evidence f)"
    by (auto simp: validate_alert_closeout_def r Let_def filter_empty_conv)
  have ap: "ap_applied res \<longleftrightarrow> ev_passed ?v"
    by (simp add: res_def apply_lifecycle_decision_def Let_def)
  have "\<not> ev_passed ?v \<longrightarrow> st' = st" by (simp add: st'_def apply_lifecycle_decision_def Let_def)
  moreover have "ev_passed ?v \<longrightarrow>
      (\<exists>row ev. gs_journal st' = gs_journal st @ [row] \<and> lj_target_state row = ld_target_state d
            \<and> gs_risk_events st' = gs_risk_events st @ [ev]
            \<and> gr_reason_code ev = ld_primary_reason d \<and> gr_severity ev = ld_severity d)"
    by (simp add: st'_def apply_lifecycle_decision_def Let_def)
  moreover have "ev_passed ?v \<longrightarrow>
      (\<forall>k. k \<noteq> hs_artifact_id s \<longrightarrow> map_of (gs_stages st') k = map_of (gs_stages st) k)"
    by (auto simp: st'_def apply_lifecycle_decision_def Let_def id set_stage_other)
  moreover have "ev_passed ?v \<longrightarrow> ld_target_state d \<in> {''paused'', ''retired''} \<longrightarrow>
      map_of (gs_stages st') (hs_artifact_id s)
      = map_option (\<lambda>_. ld_target_state d) (map_of (gs_stages st) (hs_artifact_id s))"
    by (auto simp: st'_def apply_lifecycle_decision_def Let_def id set_stage_same)
  ultimately show ?thesis using r v unfolding ap by blast
qed

definition healthy_snapshot :: "string \<Rightarrow> health_snapshot" where
  "healthy_snapshot state =
     \<lparr>hs_artifact_id = ''a1'', hs_lifecycle_state = state, hs_liquidation_events = 0,
      hs_checksum_valid = True, hs_venue_rules_match = True, hs_trailing_30d_live_sharpe = None,
      hs_live_sample_count = 0, hs_slippage_over_modeled_5d = None,
      hs_fill_rejection_cluster = False, hs_pause_count_90d = 0,
      hs_holdout_assumptions_invalidated = False, hs_drawdown_limit_breached = False,
      hs_capacity_drift_breached = False, hs_validation_expired = False,
      hs_scenario_pack_changed = False, hs_venue_api_rules_changed = False,
      hs_data_quality_degraded = False\<rparr>"

definition sample_governance :: "string \<Rightarrow> governance_store" where
  "sample_governance stage =
     \<lparr>gs_scenario_packs = [], gs_alert_runbooks = [], gs_stages = [(''a1'', stage)],
      gs_deployments = [], gs_risk_events = [], gs_journal = []\<rparr>"

definition full_evidence :: "(string \<times> pyval) list" where
  "full_evidence = [(''operator'', PStr ''op''), (''metric_window'', PStr ''30d''),
     (''review_notes'', PStr ''ok'')]"

lemma closeout_ok:
  "ev_passed (validate_alert_closeout default_alert_runbooks ''liquidation'' full_evidence)"
  "ev_passed (validate_alert_closeout default_alert_runbooks ''pause_to_paper'' full_evidence)"
  by (simp_all add: validate_alert_closeout_def default_alert_runbooks_def evidence_missing_def
      full_evidence_def)

lemma lifecycle_action_needs_evidence_witness:
  "let d = evaluate_lifecycle_policy (healthy_snapshot ''paper''\<lparr>hs_liquidation_events := 1\<rparr>);
       out = apply_lifecycle_decision ''1'' ''2'' ''t'' default_alert_runbooks d full_evidence
               (sample_governance ''paper'')
   in ap_applied (fst out) \<and> map_of (gs_stages (snd out)) ''a1'' = Some ''retired''"
proof -
  let ?s = "healthy_snapshot ''paper''\<lparr>hs_liquidation_events := 1\<rparr>"
  let ?out = "apply_lifecycle_decision ''1'' ''2'' ''t'' default_alert_runbooks
      (evaluate_lifecycle_policy ?s) full_evidence (sample_governance ''paper'')"
  have d: "evaluate_lifecycle_policy ?s
      = make_decision ?s ''retired'' False ''liquidation'' [''liquidation'']"
    by (simp add: evaluate_lifecycle_policy_def retire_reasons_def healthy_snapshot_def)
  have "ap_applied (fst ?out)"
    by (simp add: d apply_lifecycle_decision_def decision_runbook runbook_lookup closeout_ok Let_def)
  with lifecycle_action_needs_evidence [of ?s "''1''" "''2''" "''t''" full_evidence
      "sample_governance ''paper''"]
  show ?thesis
    by (simp add: d Let_def) (simp add: healthy_snapshot_def sample_governance_def)
qed

text \<open>The drawdown runbook is never chosen: a breached drawdown limit without a hard failure
  is closed with the pause runbook, a warning that pauses, although the runbook of that alert is
  critical and flattens the position.\<close>

lemma drawdown_breach_only_pauses:
  assumes "hs_drawdown_limit_breached s" and "\<not> must_retire s"
  shows "ld_default_automation (evaluate_lifecycle_policy s) = ''pause''
    \<and> ld_severity (evaluate_lifecycle_policy s) = ''warning''
    \<and> ld_runbook_code (evaluate_lifecycle_policy s) = ''pause_to_paper''
    \<and> ar_default_automation (runbook_for ''drawdown_limit_breached'') = ''flatten''
    \<and> ar_severity (runbook_for ''drawdown_limit_breached'') = ''critical''"
proof -
  have "must_pause s" using assms(1) by (simp add: must_pause_def)
  then show ?thesis
    using assms(2) by (cases rule: policy_cases [of s])
      (simp_all add: decision_runbook runbook_lookup)
qed

lemma drawdown_breach_only_pauses_witness:
  "ld_default_automation (evaluate_lifecycle_policy
     (healthy_snapshot ''pilot_live''\<lparr>hs_drawdown_limit_breached := True\<rparr>)) = ''pause''"
  by (rule drawdown_breach_only_pauses [THEN conjunct1])
    (simp_all add: healthy_snapshot_def must_retire_def)

text \<open>Retirement is not final: a snapshot of a retired artifact with a soft failure yields a
  decision to pause it, and applying that decision moves the stored artifact from retired back to
  paused.\<close>

lemma retired_artifact_is_paused_again:
  "let d = evaluate_lifecycle_policy (healthy_snapshot ''retired''\<lparr>hs_data_quality_degraded := True\<rparr>);
       out = apply_lifecycle_decision hex1 hex2 now default_alert_runbooks d full_evidence
               (sample_governance ''retired'')
   in ld_source_state d = ''retired'' \<and> ld_target_state d = ''paused'' \<and> ap_applied (fst out)
      \<and> map_of (gs_stages (snd out)) ''a1'' = Some ''paused''"
proof -
  let ?s = "healthy_snapshot ''retired''\<lparr>hs_data_quality_degraded := True\<rparr>"
  have d: "evaluate_lifecycle_policy ?s
      = make_decision ?s ''paused'' False ''data_quality_degraded'' [''data_quality_degraded'']"
    by (simp add: evaluate_lifecycle_policy_def retire_reasons_def pause_reasons_def poor_sharpe_def
        excess_slippage_def healthy_snapshot_def)
  show ?thesis
    by (simp add: d apply_lifecycle_decision_def decision_runbook runbook_lookup closeout_ok Let_def)
      (simp add: healthy_snapshot_def sample_governance_def set_stage_def)
qed

end
