(* ===== verification/Optimizer.thy ===== *)
theory Optimizer
  imports PyText Contracts "HOL-Library.Sublist"
begin

text \<open>
  The strategy optimizer (\<open>optimizer/\<close>, with the data it uses from \<open>config/models.py\<close>): parameter
  ranges and their grid, the promotion rule, the phased overnight search, trial budgets and the
  routing of failures.  The evaluator and the validation executor are arguments, as in the code.
\<close>

section \<open>Parameter ranges and grids\<close>

record parameter_range =
  pg_minimum :: pyfloat
  pg_maximum :: pyfloat
  pg_step :: pyfloat
  pg_excluded_values :: "pyval list"

text \<open>\<open>float(v)\<close> on the numbers of the list (booleans are numbers, too).\<close>

fun excluded_floats :: "pyval list \<Rightarrow> pyfloat list result" where
  "excluded_floats [] = Inr []"
| "excluded_floats (v # vs) =
     (case num_of v of
        None \<Rightarrow> excluded_floats vs
      | Some (Fin q) \<Rightarrow>
          (case fl q of
             Fin r \<Rightarrow> rbind (excluded_floats vs) (\<lambda>xs. Inr (Fin r # xs))
           | _ \<Rightarrow> Inl OverflowError)
      | Some x \<Rightarrow> rbind (excluded_floats vs) (\<lambda>xs. Inr (x # xs)))"

fun range_value :: "pyfloat \<Rightarrow> pyval" where
  "range_value (Fin q) = (if of_int \<lfloor>q\<rfloor> = q then PInt \<lfloor>q\<rfloor> else PFloat (Fin q))"
| "range_value x = PFloat x"

text \<open>The guard of the loop: the end of its 100001st round raises.\<close>

fun range_loop :: "nat \<Rightarrow> parameter_range \<Rightarrow> pyfloat list \<Rightarrow> pyfloat \<Rightarrow> pyval list result" where
  "range_loop 0 r excluded current = Inl (ValueError ''parameter range produced too many values'')"
| "range_loop (Suc fuel) r excluded current =
     (if fle current (fadd (pg_maximum r) (fquot (pg_step r) (Fin 1000000)))
      then
        let rounded = round_nd 10 current;
            keep = \<not> list_ex (feq rounded) excluded
        in if fuel = 0 then Inl (ValueError ''parameter range produced too many values'')
           else rbind (range_loop fuel r excluded (fadd current (pg_step r)))
                  (\<lambda>vs. Inr (if keep then range_value rounded # vs else vs))
      else Inr [])"

definition range_values :: "parameter_range \<Rightarrow> pyval list result" where
  "range_values r =
     (if fle (pg_step r) (Fin 0) then Inl (ValueError ''step must be positive'')
      else rbind (excluded_floats (pg_excluded_values r)) (\<lambda>excluded.
             range_loop 100001 r excluded (pg_minimum r)))"

fun count_loop :: "nat \<Rightarrow> int \<Rightarrow> 'a list list \<Rightarrow> nat result" where
  "count_loop count limit [] = Inr count"
| "count_loop count limit (vs # vss) =
     (let c = count * length vs
      in if limit < int c
         then Inl (GridSearchLimitError (''grid expansion would create '' @ nat_text c
                     @ '' permutations, exceeding '' @ int_text limit))
         else count_loop c limit vss)"

definition expand_parameter_grid ::
    "(string, parameter_range) dict \<Rightarrow> int \<Rightarrow> ((string \<times> pyval) list list \<times> nat) result" where
  "expand_parameter_grid ranges max_permutations =
     (if ranges = [] then Inr ([[]], 1)
      else rbind (rmap (range_values \<circ> snd) ranges) (\<lambda>vss.
           rbind (count_loop 1 max_permutations vss) (\<lambda>count.
             Inr (map (zip (map fst ranges)) (product_lists vss), count))))"

section \<open>Backtests, evaluations and the promotion rule\<close>

record backtest_result =
  bk_trade_count :: int
  bk_win_rate :: pyfloat
  bk_gross_pnl :: pyfloat
  bk_net_pnl :: pyfloat
  bk_fee_spend :: pyfloat
  bk_funding_spend :: pyfloat
  bk_sharpe :: pyfloat
  bk_sortino :: pyfloat
  bk_max_drawdown :: pyfloat
  bk_equity_curve :: "pyfloat list"
  bk_liquidation_events :: "string list"
  bk_execution_pressure_summary :: "(string \<times> pyval) list"

record bootstrap_report =
  bs_sample_count :: int
  bs_median_net_profit :: pyfloat
  bs_median_max_drawdown :: pyfloat
  bs_worst_case_net_profit :: pyfloat
  bs_worst_case_drawdown :: pyfloat
  bs_pass_rate :: pyfloat

record promotion_decision =
  pd_decision :: string
  pd_reasons :: "string list"

definition kill_threshold :: "pyfloat \<Rightarrow> pyfloat" where
  "kill_threshold position_leverage = fmul (Fin (- (1 / 4))) (fmax (Fin 1) position_leverage)"

definition promotion_reasons ::
    "backtest_result \<Rightarrow> backtest_result \<Rightarrow> backtest_result \<Rightarrow> backtest_result \<Rightarrow> bootstrap_report
     \<Rightarrow> int \<Rightarrow> pyfloat \<Rightarrow> string list" where
  "promotion_reasons inc_train inc_oos cand_train cand_oos boot min_oos_trades position_leverage =
     flag (bk_trade_count cand_oos < min_oos_trades) ''min_oos_trades''
     @ flag (flt (fmul (fabs (bk_max_drawdown inc_train)) (fl (105 / 100)))
               (fabs (bk_max_drawdown cand_train))) ''train_drawdown_cap''
     @ flag (flt (bk_sharpe cand_oos) (fmul (bk_sharpe inc_oos) (fl (95 / 100)))) ''oos_sharpe_floor''
     @ flag (fle (bs_worst_case_drawdown boot) (kill_threshold position_leverage))
         ''bootstrap_kill_switch''
     @ flag (bk_liquidation_events cand_train \<noteq> [] \<or> bk_liquidation_events cand_oos \<noteq> [])
         ''liquidation_events''"

definition relative_gain :: "pyfloat \<Rightarrow> pyfloat \<Rightarrow> pyfloat result" where
  "relative_gain new old = fdiv (fsub new old) (fmax (fabs old) f_1em9)"

definition evaluate_candidate ::
    "backtest_result \<Rightarrow> backtest_result \<Rightarrow> backtest_result \<Rightarrow> backtest_result \<Rightarrow> bootstrap_report
     \<Rightarrow> int \<Rightarrow> pyfloat \<Rightarrow> promotion_decision result" where
  "evaluate_candidate inc_train inc_oos cand_train cand_oos boot min_oos_trades position_leverage =
     (let reasons = promotion_reasons inc_train inc_oos cand_train cand_oos boot min_oos_trades
                      position_leverage
      in if reasons \<noteq> [] then Inr \<lparr>pd_decision = ''reject'', pd_reasons = reasons\<rparr>
         else
           let incumbent_abs_dd = fmax (fabs (bk_max_drawdown inc_oos)) f_1em9 in
           rbind (relative_gain (bk_sharpe cand_oos) (bk_sharpe inc_oos)) (\<lambda>sharpe_gain.
           rbind (fdiv (fsub incumbent_abs_dd (fabs (bs_worst_case_drawdown boot))) incumbent_abs_dd)
             (\<lambda>floor_dd_improvement.
           rbind (relative_gain (bs_median_net_profit boot) (bk_net_pnl inc_oos)) (\<lambda>profit_gain.
             Inr (if flt sharpe_gain (fl (2 / 100)) \<and> flt floor_dd_improvement (fl (1 / 10))
                     \<and> flt profit_gain (fl (5 / 100))
                  then \<lparr>pd_decision = ''wash'', pd_reasons = [''insufficient_improvement'']\<rparr>
                  else \<lparr>pd_decision = ''accept'', pd_reasons = []\<rparr>)))))"

section \<open>The overnight search\<close>

datatype layer_family =
  BACKBONE | DIRECTIONAL_FILTER | KNOWN_GOOD_FLAT_FILTER | CUSTOM_FLAT_FILTER | EXIT | RISK_GUARD

record layer_spec =
  ly_name :: string
  ly_family :: layer_family
  ly_parameters :: "(string, parameter_range) dict"
  ly_precedence :: int
  ly_eligibility_rules :: "(string, pyval) dict"

record strategy_graph =
  sg_backbone :: string
  sg_layers :: "layer_spec list"
  sg_risk_guards :: "layer_spec list"

definition with_layer :: "strategy_graph \<Rightarrow> layer_spec \<Rightarrow> strategy_graph" where
  "with_layer g layer =
     \<lparr>sg_backbone = sg_backbone g, sg_layers = sg_layers g @ [layer],
      sg_risk_guards = sg_risk_guards g\<rparr>"

record candidate_evaluation =
  ce_layer_name :: string
  ce_decision :: promotion_decision
  ce_train_result :: backtest_result
  ce_oos_result :: backtest_result
  ce_bootstrap_report :: bootstrap_report
  ce_selected_parameters :: "(string, pyval) dict"
  ce_permutation_count :: int
  ce_search_summary :: "pyval list"
  ce_candidate_trials :: "pyval list"

record phase_record =
  ph_phase_name :: string
  ph_layer_name :: string
  ph_decision :: string
  ph_accepted :: bool
  ph_oos_sharpe :: pyfloat
  ph_selected_parameters :: "(string, pyval) dict"
  ph_permutation_count :: int
  ph_search_summary :: "pyval list"
  ph_candidate_trials :: "pyval list"

text \<open>Of the validation protocol, the fields the runner sets or reads.\<close>

record validation_protocol =
  vp_status :: string
  vp_validation_trial_count :: int
  vp_promotion_decision :: promotion_decision

record overnight_run_report =
  rr_status :: string
  rr_final_strategy :: strategy_graph
  rr_phase_records :: "phase_record list"
  rr_holdout_decision :: "promotion_decision option"
  rr_final_evaluation :: candidate_evaluation
  rr_validation_protocol :: "validation_protocol option"

type_synonym evaluator = "strategy_graph \<Rightarrow> layer_spec \<Rightarrow> candidate_evaluation"
type_synonym validation_executor = "strategy_graph \<Rightarrow> phase_record list \<Rightarrow> validation_protocol"

definition legacy_validation_protocol :: "promotion_decision option \<Rightarrow> validation_protocol" where
  "legacy_validation_protocol decision =
     \<lparr>vp_status = ''legacy_validation_missing'', vp_validation_trial_count = 1,
      vp_promotion_decision = (case decision of
         None \<Rightarrow> \<lparr>pd_decision = ''accept'', pd_reasons = []\<rparr> | Some d \<Rightarrow> d)\<rparr>"

definition oos_sharpe :: "candidate_evaluation \<Rightarrow> pyfloat" where
  "oos_sharpe ev = bk_sharpe (ce_oos_result ev)"

definition is_accepted :: "candidate_evaluation \<Rightarrow> bool" where
  "is_accepted ev \<longleftrightarrow> pd_decision (ce_decision ev) = ''accept''"

definition backbone_layer :: "strategy_graph \<Rightarrow> layer_spec" where
  "backbone_layer g =
     \<lparr>ly_name = sg_backbone g, ly_family = BACKBONE, ly_parameters = [], ly_precedence = 0,
      ly_eligibility_rules = []\<rparr>"

definition record_phase :: "string \<Rightarrow> string \<Rightarrow> string \<Rightarrow> bool \<Rightarrow> candidate_evaluation \<Rightarrow> phase_record" where
  "record_phase phase layer decision accepted ev =
     \<lparr>ph_phase_name = phase, ph_layer_name = layer, ph_decision = decision,
      ph_accepted = accepted, ph_oos_sharpe = oos_sharpe ev,
      ph_selected_parameters = ce_selected_parameters ev,
      ph_permutation_count = ce_permutation_count ev,
      ph_search_summary = ce_search_summary ev, ph_candidate_trials = ce_candidate_trials ev\<rparr>"

text \<open>The best accepted layer so far with its Sharpe ratio; a later one must be strictly better.\<close>

fun best_of :: "(layer_spec \<times> candidate_evaluation) list \<Rightarrow> (layer_spec \<times> pyfloat) option
    \<Rightarrow> (layer_spec \<times> pyfloat) option" where
  "best_of [] best = best"
| "best_of ((layer, ev) # evs) best =
     best_of evs
       (if \<not> is_accepted ev then best
        else case best of
               None \<Rightarrow> Some (layer, oos_sharpe ev)
             | Some (l, sharpe) \<Rightarrow>
                 if flt sharpe (oos_sharpe ev) then Some (layer, oos_sharpe ev) else best)"

definition directional_phase ::
    "evaluator \<Rightarrow> strategy_graph \<Rightarrow> layer_spec list \<Rightarrow> strategy_graph \<times> phase_record list" where
  "directional_phase evaluator incumbent directional_layers =
     (let evaluations = map (\<lambda>layer. (layer, evaluator incumbent layer)) directional_layers;
          best = best_of evaluations None;
          records = map (\<lambda>(layer, ev). record_phase ''phase-2'' (ly_name layer)
                      (pd_decision (ce_decision ev))
                      (case best of None \<Rightarrow> False | Some (l, _) \<Rightarrow> ly_name layer = ly_name l) ev)
                    evaluations
      in (case best of None \<Rightarrow> incumbent | Some (l, _) \<Rightarrow> with_layer incumbent l, records))"

fun sequential_phase ::
    "evaluator \<Rightarrow> string \<Rightarrow> strategy_graph \<Rightarrow> layer_spec list \<Rightarrow> strategy_graph \<times> phase_record list" where
  "sequential_phase evaluator phase current [] = (current, [])"
| "sequential_phase evaluator phase current (layer # layers) =
     (let ev = evaluator current layer;
          rest = sequential_phase evaluator phase
                   (if is_accepted ev then with_layer current layer else current) layers
      in (fst rest,
          record_phase phase (ly_name layer) (pd_decision (ce_decision ev)) (is_accepted ev) ev
            # snd rest))"

definition evaluate_current_strategy :: "evaluator \<Rightarrow> strategy_graph \<Rightarrow> candidate_evaluation" where
  "evaluate_current_strategy evaluator g =
     evaluator g (if sg_layers g \<noteq> [] then last (sg_layers g) else backbone_layer g)"

definition reevaluate ::
    "evaluator \<Rightarrow> strategy_graph \<Rightarrow> candidate_evaluation \<Rightarrow> candidate_evaluation" where
  "reevaluate evaluator g final_evaluation =
     (if sg_layers g \<noteq> [] then evaluate_current_strategy evaluator g else final_evaluation)"

definition run_pipeline ::
    "evaluator \<Rightarrow> strategy_graph \<Rightarrow> layer_spec list \<Rightarrow> layer_spec list \<Rightarrow> layer_spec list
     \<Rightarrow> layer_spec list \<Rightarrow> validation_executor option \<Rightarrow> overnight_run_report" where
  "run_pipeline evaluator incumbent directional_layers known_good_filters custom_filters
       exit_layers executor =
     (let backbone_evaluation = evaluator incumbent (backbone_layer incumbent)
      in if flt (oos_sharpe backbone_evaluation) (fl (5 / 100)) then
           \<lparr>rr_status = ''aborted'', rr_final_strategy = incumbent,
            rr_phase_records =
              [record_phase ''phase-1'' (sg_backbone incumbent) ''abort'' False backbone_evaluation],
            rr_holdout_decision = None, rr_final_evaluation = backbone_evaluation,
            rr_validation_protocol = None\<rparr>
         else
           let r1 = record_phase ''phase-1'' (sg_backbone incumbent)
                      (pd_decision (ce_decision backbone_evaluation)) False backbone_evaluation;
               (g2, r2) = directional_phase evaluator incumbent directional_layers;
               e2 = reevaluate evaluator g2 backbone_evaluation;
               (g3, r3) = sequential_phase evaluator ''phase-3'' g2 known_good_filters;
               e3 = reevaluate evaluator g3 e2;
               (g4, r4) = sequential_phase evaluator ''phase-4'' g3 custom_filters;
               e4 = reevaluate evaluator g4 e3;
               (g5, r5) = sequential_phase evaluator ''phase-5'' g4 exit_layers;
               e5 = reevaluate evaluator g5 e4;
               records = r1 # r2 @ r3 @ r4 @ r5;
               protocol = (case executor of
                   None \<Rightarrow> legacy_validation_protocol (Some \<lparr>pd_decision = ''accept'', pd_reasons = []\<rparr>)
                 | Some run \<Rightarrow> run g5 records);
               holdout = vp_promotion_decision protocol
           in \<lparr>rr_status = (if executor \<noteq> None \<and> pd_decision holdout \<noteq> ''accept''
                            then ''blocked'' else ''promoted''),
               rr_final_strategy = g5, rr_phase_records = records,
               rr_holdout_decision = Some holdout, rr_final_evaluation = e5,
               rr_validation_protocol = Some protocol\<rparr>)"

section \<open>Budgets, failures and stopping\<close>

record experiment_budget =
  eb_max_runs :: int
  eb_max_wall_clock_seconds :: int

definition within_budget :: "experiment_budget \<Rightarrow> int \<Rightarrow> int \<Rightarrow> bool" where
  "within_budget b runs elapsed_seconds =
     (if eb_max_runs b < 0 \<or> eb_max_wall_clock_seconds b < 0 then False
      else if runs < 0 \<or> elapsed_seconds < 0 then False
      else runs \<le> eb_max_runs b \<and> elapsed_seconds \<le> eb_max_wall_clock_seconds b)"

record overfit_budget =
  ob_max_trials :: int
  ob_max_strategy_variants :: int
  ob_max_parameter_reuse :: int
  ob_max_failed_gate_retries :: int
  ob_pbo_ceiling :: pyfloat
  ob_multiple_testing_penalty_policy :: string

definition overfit_reasons :: "overfit_budget \<Rightarrow> int \<Rightarrow> int \<Rightarrow> int \<Rightarrow> int \<Rightarrow> pyfloat \<Rightarrow> string list" where
  "overfit_reasons b trials strategy_variants parameter_reuse failed_gate_retries pbo =
     flag (trials < 0) ''negative_trials''
     @ flag (strategy_variants < 0) ''negative_strategy_variants''
     @ flag (parameter_reuse < 0) ''negative_parameter_reuse''
     @ flag (failed_gate_retries < 0) ''negative_failed_gate_retries''
     @ flag (\<not> is_finite pbo) ''non_finite_pbo''
     @ flag (\<not> is_finite (ob_pbo_ceiling b)) ''non_finite_pbo_ceiling''
     @ flag (ob_max_trials b < 0) ''negative_max_trials''
     @ flag (ob_max_strategy_variants b < 0) ''negative_max_strategy_variants''
     @ flag (ob_max_parameter_reuse b < 0) ''negative_max_parameter_reuse''
     @ flag (ob_max_failed_gate_retries b < 0) ''negative_max_failed_gate_retries''
     @ flag (ob_max_trials b < trials) ''max_trials_exceeded''
     @ flag (ob_max_strategy_variants b < strategy_variants) ''max_strategy_variants_exceeded''
     @ flag (ob_max_parameter_reuse b < parameter_reuse) ''max_parameter_reuse_exceeded''
     @ flag (ob_max_failed_gate_retries b < failed_gate_retries) ''max_failed_gate_retries_exceeded''
     @ flag (is_finite pbo \<and> is_finite (ob_pbo_ceiling b) \<and> flt (ob_pbo_ceiling b) pbo)
         ''pbo_ceiling_exceeded''"

record overfit_budget_result =
  obr_passed :: bool
  obr_reasons :: "string list"

definition overfit_evaluate ::
    "overfit_budget \<Rightarrow> int \<Rightarrow> int \<Rightarrow> int \<Rightarrow> int \<Rightarrow> pyfloat \<Rightarrow> overfit_budget_result" where
  "overfit_evaluate b trials strategy_variants parameter_reuse failed_gate_retries pbo =
     (let reasons = overfit_reasons b trials strategy_variants parameter_reuse failed_gate_retries pbo
      in \<lparr>obr_passed = (reasons = []), obr_reasons = reasons\<rparr>)"

record routed_failure =
  rf_failed_gate :: string
  rf_repeated_count :: int
  rf_failure_family :: string
  rf_recommended_action :: string
  rf_memory_reason :: string

definition family_for_gate :: "string \<Rightarrow> string" where
  "family_for_gate gate =
     (if list_ex (\<lambda>token. has_sub token gate) [''holdout'', ''sample'', ''pbo'', ''sharpe'', ''calmar'']
      then ''validation_failures''
      else if list_ex (\<lambda>token. has_sub token gate) [''fill'', ''order'', ''reconcile'']
      then ''execution_failures''
      else if list_ex (\<lambda>token. has_sub token gate) [''data'', ''stale'', ''missing'']
      then ''data_failures''
      else ''agent_policy_failures'')"

definition route_failure :: "string \<Rightarrow> int \<Rightarrow> routed_failure" where
  "route_failure failed_gate repeated_count =
     (let family = family_for_gate failed_gate;
          action =
            (if repeated_count \<ge> 3 then ''stop''
             else if failed_gate \<in> set [''stress'', ''scenario''] then ''stress''
             else if failed_gate \<in> set [''calibration'', ''slippage'', ''funding''] then ''calibrate''
             else ''narrow'')
      in \<lparr>rf_failed_gate = failed_gate, rf_repeated_count = repeated_count,
          rf_failure_family = family, rf_recommended_action = action,
          rf_memory_reason = family @ '':'' @ failed_gate @ '':repeated='' @ int_text repeated_count
            @ '':action='' @ action\<rparr>)"

record search_manifest =
  sm_search_id :: string
  sm_layer_name :: string
  sm_parameter_space_hash :: string
  sm_budget_id :: string

definition should_stop :: "int \<Rightarrow> int \<Rightarrow> bool" where
  "should_stop max_repeated_failures repeated_failures \<longleftrightarrow> max_repeated_failures \<le> repeated_failures"

section \<open>The grid\<close>

lemma range_loop_step:
  assumes "range_loop (Suc fuel) r ex c = Inr vs" "vs \<noteq> []"
  shows "\<exists>ws. fuel \<noteq> 0 \<and> fle c (fadd (pg_maximum r) (fquot (pg_step r) (Fin 1000000)))
    \<and> range_loop fuel r ex (fadd c (pg_step r)) = Inr ws
    \<and> vs = (if \<not> list_ex (feq (round_nd 10 c)) ex then range_value (round_nd 10 c) # ws else ws)"
  using assms by (auto simp: Let_def rbind_Inr_iff split: if_splits)

declare range_loop.simps(2) [simp del]

lemma range_loop_length:
  "range_loop n r ex c = Inr vs \<Longrightarrow> vs = [] \<or> length vs < n"
proof (induction n arbitrary: c vs)
  case (Suc fuel)
  show ?case
  proof (cases "vs = []")
    case False
    from range_loop_step [OF Suc.prems False] obtain ws where ws: "fuel \<noteq> 0"
        "range_loop fuel r ex (fadd c (pg_step r)) = Inr ws" "length vs \<le> Suc (length ws)"
      by (auto split: if_splits)
    from Suc.IH [OF ws(2)] ws(1,3) show ?thesis by auto
  qed simp
qed simp

lemma range_loop_values:
  assumes "range_loop n r ex c = Inr vs" "v \<in> set vs" "fle (Fin 0) (pg_step r)"
    "is_f64 (pg_step r)" "is_f64 c"
  shows "\<exists>x. fle c x \<and> fle x (fadd (pg_maximum r) (fquot (pg_step r) (Fin 1000000)))
    \<and> v = range_value (round_nd 10 x) \<and> \<not> list_ex (feq (round_nd 10 x)) ex"
  using assms
proof (induction n arbitrary: c vs)
  case (Suc fuel)
  let ?top = "fadd (pg_maximum r) (fquot (pg_step r) (Fin 1000000))"
  from Suc.prems(2) have "vs \<noteq> []" by auto
  from range_loop_step [OF Suc.prems(1) this] obtain ws where ws: "fle c ?top"
      "range_loop fuel r ex (fadd c (pg_step r)) = Inr ws"
      "vs = (if \<not> list_ex (feq (round_nd 10 c)) ex then range_value (round_nd 10 c) # ws else ws)"
    by blast
  show ?case
  proof (cases "v \<in> set ws")
    case True
    from Suc.IH [OF ws(2) True] Suc.prems(3,4,5)
    obtain x where x: "fle (fadd c (pg_step r)) x" "fle x ?top" "v = range_value (round_nd 10 x)"
        "\<not> list_ex (feq (round_nd 10 x)) ex"
      by (auto simp: is_f64_fadd)
    have "fadd c (pg_step r) \<noteq> NaN" using x(1) by auto
    then have "fle c (fadd c (pg_step r))" using Suc.prems(3,5) by (intro fadd_ge)
    then show ?thesis using x fle_trans by blast
  next
    case False
    then have "v = range_value (round_nd 10 c)" "\<not> list_ex (feq (round_nd 10 c)) ex"
      using ws(3) Suc.prems(2) by (auto split: if_splits)
    moreover have "fle c c" using ws(1) by (cases c) auto
    ultimately show ?thesis using ws(1) by blast
  qed
qed simp

lemma count_loop_Inr:
  "count_loop c limit vss = Inr n \<Longrightarrow>
     n = c * length (product_lists vss) \<and> (vss \<noteq> [] \<longrightarrow> int n \<le> limit)"
proof (induction c limit vss rule: count_loop.induct)
  case (2 c limit vs vss)
  then show ?case
    by (cases vss)
      (auto simp: Let_def length_product_lists mult.assoc split: if_splits
        simp del: product_lists.simps)
qed simp

lemma range_values_Inr:
  assumes "range_values r = Inr vs"
  shows "length vs \<le> 100000 \<and> \<not> fle (pg_step r) (Fin 0)
    \<and> (\<exists>ex. excluded_floats (pg_excluded_values r) = Inr ex
        \<and> range_loop 100001 r ex (pg_minimum r) = Inr vs)"
proof -
  from assms obtain ex where ex: "\<not> fle (pg_step r) (Fin 0)"
      "excluded_floats (pg_excluded_values r) = Inr ex"
      "range_loop 100001 r ex (pg_minimum r) = Inr vs"
    unfolding range_values_def by (auto simp: rbind_Inr_iff split: if_splits)
  moreover have "length vs \<le> 100000" using range_loop_length [OF ex(3)] by auto
  ultimately show ?thesis by auto
qed

definition grid_value_ok :: "parameter_range \<Rightarrow> pyval \<Rightarrow> bool" where
  "grid_value_ok r v \<longleftrightarrow>
     (\<exists>x ex. v = range_value (round_nd 10 x) \<and> fle (pg_minimum r) x
        \<and> fle x (fadd (pg_maximum r) (fquot (pg_step r) (Fin 1000000)))
        \<and> excluded_floats (pg_excluded_values r) = Inr ex \<and> \<not> list_ex (feq (round_nd 10 x)) ex)"

lemma range_values_ok:
  assumes "range_values r = Inr vs" "v \<in> set vs" "is_f64 (pg_step r)" "is_f64 (pg_minimum r)"
    "pg_step r \<noteq> NaN"
  shows "grid_value_ok r v"
proof -
  from range_values_Inr [OF assms(1)] obtain ex where ex: "\<not> fle (pg_step r) (Fin 0)"
      "excluded_floats (pg_excluded_values r) = Inr ex"
      "range_loop 100001 r ex (pg_minimum r) = Inr vs" by blast
  have "fle (Fin 0) (pg_step r)" using ex(1) assms(5) by (cases "pg_step r") auto
  from range_loop_values [OF ex(3) assms(2) this assms(3,4)] ex(2)
  show ?thesis unfolding grid_value_ok_def by blast
qed

text \<open>A grid is the full cartesian product of the values of its ranges, in the order of the
  keys: the count it reports is its length and respects the cap, every range contributes at most
  100000 values, every assignment has exactly the keys of the ranges, and each value is a rounded
  point between the minimum of its range and the maximum (plus the tolerance of a millionth of a
  step) that is not excluded.
\<close>

lemma grid_is_full_product:
  assumes "expand_parameter_grid ranges max_permutations = Inr (grid, count)" "ranges \<noteq> []"
    and "\<And>k r. (k, r) \<in> set ranges \<Longrightarrow>
           is_f64 (pg_step r) \<and> pg_step r \<noteq> NaN \<and> is_f64 (pg_minimum r)"
  shows "\<exists>vss. map (range_values \<circ> snd) ranges = map Inr vss
    \<and> map (map snd) grid = product_lists vss
    \<and> (\<forall>p \<in> set grid. map fst p = map fst ranges)
    \<and> count = length grid \<and> int count \<le> max_permutations
    \<and> list_all2 (\<lambda>kr vs. length vs \<le> 100000 \<and> (\<forall>v \<in> set vs. grid_value_ok (snd kr) v)) ranges vss"
proof -
  from assms(1,2) obtain vss where vss: "rmap (range_values \<circ> snd) ranges = Inr vss"
      "count_loop 1 max_permutations vss = Inr count"
      "grid = map (zip (map fst ranges)) (product_lists vss)"
    by (auto simp: expand_parameter_grid_def rbind_Inr_iff)
  have len: "length vss = length ranges" by (rule rmap_length [OF vss(1)])
  have plen: "length ws = length ranges" if "ws \<in> set (product_lists vss)" for ws
    using that len in_set_product_lists_length by metis
  have ok: "length vs \<le> 100000 \<and> (\<forall>v \<in> set vs. grid_value_ok (snd kr) v)"
    if i: "i < length ranges" "kr = ranges ! i" "vs = vss ! i" for i kr vs
  proof -
    have "range_values (snd kr) = Inr vs" using rmap_nth [OF vss(1) i(1)] i(2,3) by simp
    moreover have "(fst kr, snd kr) \<in> set ranges" using i by simp
    ultimately show ?thesis
      using range_values_Inr [of "snd kr" vs] range_values_ok [of "snd kr" vs] assms(3) by blast
  qed
  have "vss \<noteq> []" using len assms(2) by auto
  with count_loop_Inr [OF vss(2)] have "count = length grid \<and> int count \<le> max_permutations"
    by (simp add: vss(3))
  moreover have "map (map snd) grid = product_lists vss"
    using plen by (auto simp: vss(3) intro!: map_idI)
  moreover have "\<forall>p \<in> set grid. map fst p = map fst ranges"
    using plen by (auto simp: vss(3))
  moreover have "list_all2 (\<lambda>kr vs. length vs \<le> 100000 \<and> (\<forall>v \<in> set vs. grid_value_ok (snd kr) v)) ranges vss"
    using ok len by (auto simp: list_all2_conv_all_nth)
  ultimately show ?thesis using vss(1) unfolding rmap_Inr_iff by blast
qed

lemma range_loop_numeral:
  "range_loop (numeral k) r ex c =
     (if fle c (fadd (pg_maximum r) (fquot (pg_step r) (Fin 1000000)))
      then if pred_numeral k = 0 then Inl (ValueError ''parameter range produced too many values'')
           else rbind (range_loop (pred_numeral k) r ex (fadd c (pg_step r)))
                  (\<lambda>vs. Inr (if \<not> list_ex (feq (round_nd 10 c)) ex
                             then range_value (round_nd 10 c) # vs else vs))
      else Inr [])"
  by (simp only: numeral_eq_Suc range_loop.simps(2) Let_def)

lemma grid_is_full_product_witness:
  "let r = \<lparr>pg_minimum = Fin 0, pg_maximum = Fin 1000000, pg_step = Fin 1000000,
            pg_excluded_values = []\<rparr>;
       grid = [[(''a'', PInt 0)], [(''a'', PInt 1000000)]]
   in expand_parameter_grid [(''a'', r)] 5 = Inr (grid, 2)
      \<and> (\<exists>vss. map (range_values \<circ> snd) [(''a'', r)] = map Inr vss
          \<and> map (map snd) grid = product_lists vss)"
proof -
  define r where "r = \<lparr>pg_minimum = Fin 0, pg_maximum = Fin 1000000, pg_step = Fin 1000000,
            pg_excluded_values = []\<rparr>"
  have v: "range_values r = Inr [PInt 0, PInt 1000000]"
    using round_nd_whole [of 0 10] round_nd_whole [of 1000000 10]
    by (simp add: range_values_def r_def range_loop_numeral fl_numeral)
  have e: "expand_parameter_grid [(''a'', r)] 5
      = Inr ([[(''a'', PInt 0)], [(''a'', PInt 1000000)]], 2)"
    by (simp add: expand_parameter_grid_def v)
  have r: "is_f64 (pg_step r) \<and> pg_step r \<noteq> NaN \<and> is_f64 (pg_minimum r)"
    by (simp add: r_def is_f64_numeral)
  have "\<exists>vss. map (range_values \<circ> snd) [(''a'', r)] = map Inr vss
      \<and> map (map snd) [[(''a'', PInt 0)], [(''a'', PInt 1000000)]] = product_lists vss"
    apply (rule exE [OF grid_is_full_product [OF e]])
      apply simp
    using r apply (simp del: product_lists.simps)
    apply blast
    done
  with e show ?thesis unfolding Let_def r_def [symmetric] by blast
qed

section \<open>The search only keeps what the evaluator accepts\<close>

fun accepted_chain :: "evaluator \<Rightarrow> strategy_graph \<Rightarrow> layer_spec list \<Rightarrow> bool" where
  "accepted_chain evaluator g [] \<longleftrightarrow> True"
| "accepted_chain evaluator g (l # ls) \<longleftrightarrow>
     is_accepted (evaluator g l) \<and> accepted_chain evaluator (with_layer g l) ls"

lemma accepted_chain_append:
  "accepted_chain ev g (ls @ ms) \<longleftrightarrow>
     accepted_chain ev g ls \<and> accepted_chain ev (foldl with_layer g ls) ms"
  by (induction ls arbitrary: g) auto

lemma foldl_with_layer: "foldl with_layer g ls
  = \<lparr>sg_backbone = sg_backbone g, sg_layers = sg_layers g @ ls, sg_risk_guards = sg_risk_guards g\<rparr>"
  by (induction ls arbitrary: g) (simp_all add: with_layer_def)

lemma sequential_phase_chain:
  "\<exists>ms. fst (sequential_phase ev ph g ls) = foldl with_layer g ms \<and> subseq ms ls
      \<and> accepted_chain ev g ms
      \<and> length ms = length (filter ph_accepted (snd (sequential_phase ev ph g ls)))
      \<and> map ph_layer_name (snd (sequential_phase ev ph g ls)) = map ly_name ls"
proof (induction ls arbitrary: g)
  case (Cons l ls)
  show ?case
  proof (cases "is_accepted (ev g l)")
    case True
    from Cons [of "with_layer g l"] obtain ms where
      "fst (sequential_phase ev ph (with_layer g l) ls) = foldl with_layer (with_layer g l) ms"
      "subseq ms ls" "accepted_chain ev (with_layer g l) ms"
      "length ms = length (filter ph_accepted (snd (sequential_phase ev ph (with_layer g l) ls)))"
      "map ph_layer_name (snd (sequential_phase ev ph (with_layer g l) ls)) = map ly_name ls"
      by blast
    then show ?thesis using True
      by (intro exI [of _ "l # ms"]) (simp add: Let_def record_phase_def)
  next
    case False
    from Cons [of g] obtain ms where
      "fst (sequential_phase ev ph g ls) = foldl with_layer g ms"
      "subseq ms ls" "accepted_chain ev g ms"
      "length ms = length (filter ph_accepted (snd (sequential_phase ev ph g ls)))"
      "map ph_layer_name (snd (sequential_phase ev ph g ls)) = map ly_name ls"
      by blast
    then show ?thesis using False
      by (intro exI [of _ ms]) (auto simp: Let_def record_phase_def)
  qed
qed simp

text \<open>What the directional phase looks for: an accepted candidate that no other accepted one
  beats.\<close>

definition best_choice ::
    "(layer_spec \<times> candidate_evaluation) list \<Rightarrow> (layer_spec \<times> pyfloat) option \<Rightarrow> bool" where
  "best_choice evs best = (case best of
     None \<Rightarrow> (\<forall>(l, ev) \<in> set evs. \<not> is_accepted ev)
   | Some (b, s) \<Rightarrow> (\<exists>ev. (b, ev) \<in> set evs \<and> is_accepted ev \<and> s = oos_sharpe ev)
       \<and> (\<forall>(l, ev) \<in> set evs. is_accepted ev \<longrightarrow> \<not> flt s (oos_sharpe ev)))"

lemma best_choice_snoc:
  assumes "best_choice evs best"
  shows "best_choice (evs @ [(l, ev)]) (best_of [(l, ev)] best)"
proof (cases best)
  case None
  then show ?thesis using assms by (auto simp: best_choice_def)
next
  case (Some bs)
  obtain b s where "bs = (b, s)" by (cases bs)
  with Some assms show ?thesis
    by (auto simp: best_choice_def dest: flt_trans)
qed

lemma best_of_append: "best_of (xs @ ys) best = best_of ys (best_of xs best)"
  by (induction xs best rule: best_of.induct) simp_all

lemma best_of_choice: "best_choice evs (best_of evs None)"
proof (induction evs rule: rev_induct)
  case (snoc x xs)
  obtain l ev where "x = (l, ev)" by (cases x)
  with best_choice_snoc [OF snoc] show ?case by (simp add: best_of_append)
qed (simp add: best_choice_def)

lemma directional_phase_choice:
  "(\<exists>l \<in> set ls. fst (directional_phase ev g ls) = with_layer g l \<and> is_accepted (ev g l)
      \<and> (\<forall>m \<in> set ls. is_accepted (ev g m) \<longrightarrow> \<not> flt (oos_sharpe (ev g l)) (oos_sharpe (ev g m))))
   \<or> (fst (directional_phase ev g ls) = g \<and> (\<forall>m \<in> set ls. \<not> is_accepted (ev g m)))"
proof -
  let ?evs = "map (\<lambda>l. (l, ev g l)) ls"
  have "best_choice ?evs (best_of ?evs None)" by (rule best_of_choice)
  then show ?thesis
    by (cases "best_of ?evs None") (auto simp: best_choice_def directional_phase_def Let_def)
qed

text \<open>No accepted directional layer is missed, and the chosen one is not beaten.\<close>

definition directional_choice :: "evaluator \<Rightarrow> strategy_graph \<Rightarrow> layer_spec list \<Rightarrow> layer_spec list \<Rightarrow> bool" where
  "directional_choice evaluator g directional ds \<longleftrightarrow>
     (case ds of
        [] \<Rightarrow> \<forall>m \<in> set directional. \<not> is_accepted (evaluator g m)
      | [d] \<Rightarrow> d \<in> set directional \<and> (\<forall>m \<in> set directional. is_accepted (evaluator g m) \<longrightarrow>
                \<not> flt (oos_sharpe (evaluator g d)) (oos_sharpe (evaluator g m)))
      | _ \<Rightarrow> False)"

lemma directional_phase_layers:
  "\<exists>ds. fst (directional_phase ev g ls) = foldl with_layer g ds \<and> accepted_chain ev g ds
     \<and> directional_choice ev g ls ds"
  using directional_phase_choice [of ls ev g]
proof
  assume "\<exists>l \<in> set ls. fst (directional_phase ev g ls) = with_layer g l \<and> is_accepted (ev g l)
      \<and> (\<forall>m \<in> set ls. is_accepted (ev g m) \<longrightarrow> \<not> flt (oos_sharpe (ev g l)) (oos_sharpe (ev g m)))"
  then obtain l where "l \<in> set ls" "fst (directional_phase ev g ls) = with_layer g l"
    "is_accepted (ev g l)"
    "\<forall>m \<in> set ls. is_accepted (ev g m) \<longrightarrow> \<not> flt (oos_sharpe (ev g l)) (oos_sharpe (ev g m))"
    by blast
  then show ?thesis by (intro exI [of _ "[l]"]) (simp add: directional_choice_def)
next
  assume "fst (directional_phase ev g ls) = g \<and> (\<forall>m \<in> set ls. \<not> is_accepted (ev g m))"
  then show ?thesis by (intro exI [of _ "[]"]) (simp add: directional_choice_def)
qed

lemma sequential_phase_layers:
  assumes "sequential_phase ev ph g ls = (h, rs)"
  shows "\<exists>ms. h = foldl with_layer g ms \<and> subseq ms ls \<and> accepted_chain ev g ms
    \<and> length rs = length ls"
  using sequential_phase_chain [of ev ph g ls] assms by (metis fst_conv snd_conv length_map)

lemma three_phases:
  assumes "sequential_phase ev p3 g2 known = (g3, r3)" "sequential_phase ev p4 g3 custom = (g4, r4)"
    "sequential_phase ev p5 g4 exits = (g5, r5)"
  shows "\<exists>ms. g5 = foldl with_layer g2 ms \<and> subseq ms (known @ custom @ exits)
    \<and> accepted_chain ev g2 ms \<and> length (r3 @ r4 @ r5) = length (known @ custom @ exits)"
proof -
  obtain ms3 where m3: "g3 = foldl with_layer g2 ms3" "subseq ms3 known"
      "accepted_chain ev g2 ms3" "length r3 = length known"
    using sequential_phase_layers [OF assms(1)] by blast
  obtain ms4 where m4: "g4 = foldl with_layer g3 ms4" "subseq ms4 custom"
      "accepted_chain ev g3 ms4" "length r4 = length custom"
    using sequential_phase_layers [OF assms(2)] by blast
  obtain ms5 where m5: "g5 = foldl with_layer g4 ms5" "subseq ms5 exits"
      "accepted_chain ev g4 ms5" "length r5 = length exits"
    using sequential_phase_layers [OF assms(3)] by blast
  show ?thesis
    using m3 m4 m5
    by (intro exI [of _ "ms3 @ ms4 @ ms5"])
      (auto simp: accepted_chain_append intro!: list_emb_append_mono)
qed

definition gate_layer_ok :: "evaluator \<Rightarrow> strategy_graph \<Rightarrow> bool" where
  "gate_layer_ok evaluator incumbent \<longleftrightarrow>
     \<not> flt (oos_sharpe (evaluator incumbent (backbone_layer incumbent))) (fl (5 / 100))"

text \<open>C36. A nightly run that is not aborted by the backbone's Sharpe ratio ends with the incumbent
  extended by at most one directional layer and then by a subsequence of the filter and exit
  candidates, in their order; each layer was accepted by the evaluator on exactly the strategy it
  was added to; the directional layer is not beaten by any other accepted one, and is missing
  only if none was accepted; the run reports promoted exactly when the validation executor (if
  there is one) accepts the final strategy together with the recorded phases.
\<close>

theorem pipeline_layers_accepted:
  assumes "gate_layer_ok evaluator incumbent"
    and "r = run_pipeline evaluator incumbent directional known custom exits executor"
  shows "\<exists>ds ms. rr_final_strategy r
        = \<lparr>sg_backbone = sg_backbone incumbent, sg_layers = sg_layers incumbent @ ds @ ms,
           sg_risk_guards = sg_risk_guards incumbent\<rparr>
      \<and> accepted_chain evaluator incumbent (ds @ ms)
      \<and> directional_choice evaluator incumbent directional ds
      \<and> subseq ms (known @ custom @ exits)
      \<and> length (rr_phase_records r) = 1 + length (directional @ known @ custom @ exits)
      \<and> (rr_status r = ''promoted'' \<longleftrightarrow>
           (\<forall>run. executor = Some run \<longrightarrow>
              pd_decision (vp_promotion_decision
                (run (rr_final_strategy r) (rr_phase_records r))) = ''accept''))"
proof -
  obtain g2 r2 where p2: "directional_phase evaluator incumbent directional = (g2, r2)"
    by fastforce
  obtain g3 r3 where p3: "sequential_phase evaluator ''phase-3'' g2 known = (g3, r3)" by fastforce
  obtain g4 r4 where p4: "sequential_phase evaluator ''phase-4'' g3 custom = (g4, r4)" by fastforce
  obtain g5 r5 where p5: "sequential_phase evaluator ''phase-5'' g4 exits = (g5, r5)" by fastforce
  obtain ms where ms: "g5 = foldl with_layer g2 ms" "subseq ms (known @ custom @ exits)"
      "accepted_chain evaluator g2 ms" "length (r3 @ r4 @ r5) = length (known @ custom @ exits)"
    using three_phases [OF p3 p4 p5] by blast
  have r2: "length r2 = length directional"
    using p2 by (auto simp: directional_phase_def Let_def)
  obtain ds where ds: "g2 = foldl with_layer incumbent ds" "accepted_chain evaluator incumbent ds"
      "directional_choice evaluator incumbent directional ds"
    using directional_phase_layers [of evaluator incumbent directional] p2 by auto
  have g5: "g5 = foldl with_layer incumbent (ds @ ms)" using ds(1) ms(1) by simp
  have ch: "accepted_chain evaluator incumbent (ds @ ms)"
    using ds(1,2) ms(3) by (simp add: accepted_chain_append)
  have r: "rr_final_strategy r = g5"
    "length (rr_phase_records r) = 1 + length (directional @ known @ custom @ exits)"
    "rr_status r = ''promoted'' \<longleftrightarrow> (\<forall>run. executor = Some run \<longrightarrow>
       pd_decision (vp_promotion_decision (run g5 (rr_phase_records r))) = ''accept'')"
    using assms r2 ms(4)
    by (auto simp: run_pipeline_def gate_layer_ok_def Let_def p2 p3 p4 p5 split: option.splits)
  show ?thesis
    using ds(3) ms(2) ch r by (intro exI [of _ ds] exI [of _ ms]) (simp add: g5 foldl_with_layer)
qed

text \<open>An evaluator that accepts one layer, for concrete runs.\<close>

definition sample_backtest :: "int \<Rightarrow> pyfloat \<Rightarrow> pyfloat \<Rightarrow> backtest_result" where
  "sample_backtest trades sharpe drawdown =
     \<lparr>bk_trade_count = trades, bk_win_rate = Fin 0, bk_gross_pnl = Fin 0, bk_net_pnl = Fin 0,
      bk_fee_spend = Fin 0, bk_funding_spend = Fin 0, bk_sharpe = sharpe, bk_sortino = Fin 1,
      bk_max_drawdown = drawdown, bk_equity_curve = [], bk_liquidation_events = [],
      bk_execution_pressure_summary = []\<rparr>"

definition sample_bootstrap :: "pyfloat \<Rightarrow> bootstrap_report" where
  "sample_bootstrap drawdown =
     \<lparr>bs_sample_count = 1, bs_median_net_profit = Fin 0, bs_median_max_drawdown = Fin 0,
      bs_worst_case_net_profit = Fin 0, bs_worst_case_drawdown = drawdown, bs_pass_rate = Fin 1\<rparr>"

definition sample_evaluator :: "string \<Rightarrow> evaluator" where
  "sample_evaluator good g l =
     \<lparr>ce_layer_name = ly_name l,
      ce_decision = \<lparr>pd_decision = (if ly_name l = good then ''accept'' else ''reject''),
                     pd_reasons = []\<rparr>,
      ce_train_result = sample_backtest 200 (Fin 1) (Fin 0),
      ce_oos_result = sample_backtest 200 (Fin 1) (Fin 0),
      ce_bootstrap_report = sample_bootstrap (Fin 0), ce_selected_parameters = [],
      ce_permutation_count = 1, ce_search_summary = [], ce_candidate_trials = []\<rparr>"

definition sample_layer :: "string \<Rightarrow> layer_spec" where
  "sample_layer n = \<lparr>ly_name = n, ly_family = EXIT, ly_parameters = [], ly_precedence = 0,
     ly_eligibility_rules = []\<rparr>"

definition sample_graph :: strategy_graph where
  "sample_graph = \<lparr>sg_backbone = ''ema'', sg_layers = [], sg_risk_guards = []\<rparr>"

lemma one_not_below_floor: "\<not> flt (Fin 1) (fl (5 / 100))"
proof -
  have "fle (fl (5 / 100)) (fl 1)" by (rule fl_mono) simp
  then have "\<not> flt (fl 1) (fl (5 / 100))" by (rule fle_not_flt)
  then show ?thesis using fl_of_int [of 1] by simp
qed

lemma sample_gate: "gate_layer_ok (sample_evaluator n) g"
  using one_not_below_floor
  by (simp only: gate_layer_ok_def oos_sharpe_def sample_evaluator_def sample_backtest_def
      candidate_evaluation.select_convs backtest_result.select_convs) simp

lemma pipeline_layers_accepted_witness:
  "gate_layer_ok (sample_evaluator ''good'') sample_graph
   \<and> (let r = run_pipeline (sample_evaluator ''good'') sample_graph [sample_layer ''bad'']
               [sample_layer ''good''] [] [] None
      in \<exists>ds ms. sg_layers (rr_final_strategy r) = ds @ ms
          \<and> directional_choice (sample_evaluator ''good'') sample_graph [sample_layer ''bad''] ds
          \<and> subseq ms [sample_layer ''good'']
          \<and> accepted_chain (sample_evaluator ''good'') sample_graph (ds @ ms)
          \<and> rr_status r = ''promoted'')"
proof -
  obtain ds ms where d: "sg_layers (rr_final_strategy (run_pipeline (sample_evaluator ''good'')
        sample_graph [sample_layer ''bad''] [sample_layer ''good''] [] [] None)) = ds @ ms"
    "directional_choice (sample_evaluator ''good'') sample_graph [sample_layer ''bad''] ds"
    "subseq ms [sample_layer ''good'']"
    "accepted_chain (sample_evaluator ''good'') sample_graph (ds @ ms)"
    "rr_status (run_pipeline (sample_evaluator ''good'')
        sample_graph [sample_layer ''bad''] [sample_layer ''good''] [] [] None) = ''promoted''"
    using pipeline_layers_accepted [OF sample_gate refl, of "''good''" sample_graph
        "[sample_layer ''bad'']" "[sample_layer ''good'']" "[]" "[]" None]
    by (auto simp: sample_graph_def)
  then show ?thesis by (auto simp: Let_def sample_gate)
qed

section \<open>The promotion rule\<close>

lemma fdiv_floor: "fdiv x (fmax y f_1em9) = Inr (fquot x (fmax y f_1em9))"
  using fmax_floor_nonzero [of y] by (simp add: fdiv_def)

lemma evaluate_candidate_eq:
  "evaluate_candidate it io ct co b n lev =
     (if promotion_reasons it io ct co b n lev \<noteq> []
      then Inr \<lparr>pd_decision = ''reject'', pd_reasons = promotion_reasons it io ct co b n lev\<rparr>
      else let dd = fmax (fabs (bk_max_drawdown io)) f_1em9 in
        if flt (fquot (fsub (bk_sharpe co) (bk_sharpe io)) (fmax (fabs (bk_sharpe io)) f_1em9)) (fl (2 / 100))
           \<and> flt (fquot (fsub dd (fabs (bs_worst_case_drawdown b))) dd) (fl (1 / 10))
           \<and> flt (fquot (fsub (bs_median_net_profit b) (bk_net_pnl io)) (fmax (fabs (bk_net_pnl io)) f_1em9))
               (fl (5 / 100))
        then Inr \<lparr>pd_decision = ''wash'', pd_reasons = [''insufficient_improvement'']\<rparr>
        else Inr \<lparr>pd_decision = ''accept'', pd_reasons = []\<rparr>)"
  by (simp add: evaluate_candidate_def relative_gain_def fdiv_floor Let_def)

lemma not_flt_iff: "a \<noteq> NaN \<Longrightarrow> b \<noteq> NaN \<Longrightarrow> \<not> flt a b \<longleftrightarrow> fle b a"
  by (cases a; cases b) auto

lemma finite_cases: "is_finite x \<longleftrightarrow> (\<exists>q. x = Fin q)"
  by (cases x) simp_all

lemma fl_cases: "(\<exists>q. fl x = Fin q) \<or> fl x = PInf \<or> fl x = NInf"
  by (simp add: fl_def Let_def)

lemma fquot_fl_not_NaN: "fquot (fl x) (Fin q) \<noteq> NaN"
  using fl_cases [of x] by (auto split: if_splits)

lemma fmax_floor_finite: "is_finite x \<Longrightarrow> is_finite (fmax x f_1em9)"
  using f_1em9_Fin by (auto simp: fmax_def finite_cases)

lemma fsub_quot_not_NaN:
  assumes "is_finite a" "is_finite b" "is_finite c"
  shows "fquot (fsub a b) c \<noteq> NaN"
  using assms fquot_fl_not_NaN by (auto simp: finite_cases fsub_def)

lemma is_finite_fabs [simp]: "is_finite (fabs x) \<longleftrightarrow> is_finite x"
  by (cases x) simp_all

lemma finite_not_NaN: "is_finite x \<Longrightarrow> x \<noteq> NaN"
  by (cases x) simp_all

lemma fmul_finite_not_NaN: "is_finite x \<Longrightarrow> is_finite y \<Longrightarrow> fmul x y \<noteq> NaN"
  by (auto simp: finite_cases)

lemma is_finite_ratio: "0 \<le> q \<Longrightarrow> q \<le> 2 \<Longrightarrow> is_finite (fl q)"
proof -
  assume "0 \<le> q" "q \<le> 2"
  from fl_mono [OF this(1)] fl_mono [OF this(2)] have "fle (fl 0) (fl q)" "fle (fl q) (fl 2)" .
  moreover have "fl 0 = Fin 0" "fl 2 = Fin 2" using fl_of_int [of 0] fl_of_int [of 2] by simp_all
  ultimately show ?thesis by (cases "fl q") simp_all
qed

definition gain :: "pyfloat \<Rightarrow> pyfloat \<Rightarrow> pyfloat" where
  "gain new old = fquot (fsub new old) (fmax (fabs old) f_1em9)"

text \<open>The promotion rule never raises, and on finite figures it accepts a candidate exactly when
  it has enough out-of-sample trades, its training drawdown is at most 105 percent of the
  incumbent's, its out-of-sample Sharpe ratio at least 95 percent of the incumbent's, its worst
  bootstrap drawdown above the leverage-scaled kill threshold, no liquidation happened, and the
  Sharpe ratio gains 2 percent or the drawdown floor improves by 10 percent or the median profit
  gains 5 percent.
\<close>

lemma promotion_rule_exact:
  assumes "is_finite (bk_sharpe io)" "is_finite (bk_sharpe co)" "is_finite (bk_max_drawdown it)"
    "is_finite (bk_max_drawdown ct)" "is_finite (bk_max_drawdown io)" "is_finite (bk_net_pnl io)"
    "is_finite (bs_worst_case_drawdown b)" "is_finite (bs_median_net_profit b)"
    "is_finite leverage"
  shows "\<exists>d. evaluate_candidate it io ct co b min_trades leverage = Inr d
    \<and> (pd_decision d = ''accept'' \<longleftrightarrow>
        min_trades \<le> bk_trade_count co
        \<and> fle (fabs (bk_max_drawdown ct)) (fmul (fabs (bk_max_drawdown it)) (fl (105 / 100)))
        \<and> fle (fmul (bk_sharpe io) (fl (95 / 100))) (bk_sharpe co)
        \<and> flt (fmul (Fin (- (1 / 4))) (fmax (Fin 1) leverage)) (bs_worst_case_drawdown b)
        \<and> bk_liquidation_events ct = [] \<and> bk_liquidation_events co = []
        \<and> (fle (fl (2 / 100)) (gain (bk_sharpe co) (bk_sharpe io))
           \<or> fle (fl (1 / 10)) (fquot (fsub (fmax (fabs (bk_max_drawdown io)) f_1em9)
                 (fabs (bs_worst_case_drawdown b))) (fmax (fabs (bk_max_drawdown io)) f_1em9))
           \<or> fle (fl (5 / 100)) (gain (bs_median_net_profit b) (bk_net_pnl io))))"
proof -
  let ?R = "promotion_reasons it io ct co b min_trades leverage"
  let ?dd = "fmax (fabs (bk_max_drawdown io)) f_1em9"
  have ratio: "is_finite (fl (105 / 100))" "is_finite (fl (95 / 100))"
    by (rule is_finite_ratio; simp)+
  have nn: "fmul (fabs (bk_max_drawdown it)) (fl (105 / 100)) \<noteq> NaN"
    "fmul (bk_sharpe io) (fl (95 / 100)) \<noteq> NaN" "fabs (bk_max_drawdown ct) \<noteq> NaN"
    "bk_sharpe co \<noteq> NaN" "bs_worst_case_drawdown b \<noteq> NaN"
    "fmul (Fin (- (1 / 4))) (fmax (Fin 1) leverage) \<noteq> NaN"
    using assms ratio
    by (simp_all add: fmul_finite_not_NaN finite_not_NaN fmax_def)
  have g: "gain (bk_sharpe co) (bk_sharpe io) \<noteq> NaN"
    "gain (bs_median_net_profit b) (bk_net_pnl io) \<noteq> NaN"
    "fquot (fsub ?dd (fabs (bs_worst_case_drawdown b))) ?dd \<noteq> NaN"
    using assms by (simp_all add: gain_def fsub_quot_not_NaN fmax_floor_finite)
  have R: "?R = [] \<longleftrightarrow> min_trades \<le> bk_trade_count co
      \<and> fle (fabs (bk_max_drawdown ct)) (fmul (fabs (bk_max_drawdown it)) (fl (105 / 100)))
      \<and> fle (fmul (bk_sharpe io) (fl (95 / 100))) (bk_sharpe co)
      \<and> flt (fmul (Fin (- (1 / 4))) (fmax (Fin 1) leverage)) (bs_worst_case_drawdown b)
      \<and> bk_liquidation_events ct = [] \<and> bk_liquidation_events co = []"
    using nn by (auto simp: promotion_reasons_def kill_threshold_def not_flt_iff [symmetric])
  show ?thesis
  proof (cases "?R = []")
    case True
    with g show ?thesis
      using R by (simp add: evaluate_candidate_eq gain_def [symmetric] Let_def not_flt_iff [symmetric])
  next
    case False
    then have "evaluate_candidate it io ct co b min_trades leverage
        = Inr \<lparr>pd_decision = ''reject'', pd_reasons = ?R\<rparr>"
      by (simp add: evaluate_candidate_eq)
    with False R show ?thesis by auto
  qed
qed

lemma promotion_rule_exact_witness:
  "\<exists>d. evaluate_candidate (sample_backtest 200 (Fin 1) (Fin 0)) (sample_backtest 200 (Fin 1) (Fin 0))
      (sample_backtest 90 (Fin 1) (Fin 0)) (sample_backtest 90 (Fin 2) (Fin 0))
      (sample_bootstrap (Fin 0)) 100 (Fin 1) = Inr d \<and> pd_decision d \<noteq> ''accept''"
  using promotion_rule_exact [of "sample_backtest 200 (Fin 1) (Fin 0)"
      "sample_backtest 90 (Fin 2) (Fin 0)" "sample_backtest 200 (Fin 1) (Fin 0)"
      "sample_backtest 90 (Fin 1) (Fin 0)" "sample_bootstrap (Fin 0)" "Fin 1" 100]
  by (auto simp: sample_backtest_def sample_bootstrap_def)

lemma fsub_NaN: "fsub x NaN = NaN" "fsub NaN x = NaN" "fquot NaN x = NaN"
  by (cases x; simp add: fsub_def)+

text \<open>A NaN fails no comparison, so a candidate with NaN figures is accepted.\<close>

lemma nan_candidate_accepted:
  assumes "bk_sharpe co = NaN" "bk_max_drawdown ct = NaN" "bs_worst_case_drawdown b = NaN"
    "min_trades \<le> bk_trade_count co" "bk_liquidation_events ct = []" "bk_liquidation_events co = []"
  shows "evaluate_candidate it io ct co b min_trades leverage
    = Inr \<lparr>pd_decision = ''accept'', pd_reasons = []\<rparr>"
  using assms by (simp add: evaluate_candidate_eq promotion_reasons_def fsub_NaN Let_def)

end
