(* ===== verification/Strategy.thy ===== *)
theory Strategy
  imports Optimizer
begin

text \<open>
  Strategy bookkeeping (\<open>strategy/\<close> without the artifact store and the specification checker):
  the lifecycle table and its manager, the freeze manifest, and the catalog of approved layers.
\<close>

section \<open>Lifecycle\<close>

datatype strategy_state =
    S_CANDIDATE | S_VALIDATED | S_PROMOTED | S_SHADOW | S_PAPER_ACTIVE | S_WATCH | S_DEGRADED
  | S_REDUCE_ONLY | S_QUARANTINED | S_RETIRED

fun strategy_state_value :: "strategy_state \<Rightarrow> string" where
  "strategy_state_value S_CANDIDATE = ''CANDIDATE''"
| "strategy_state_value S_VALIDATED = ''VALIDATED''"
| "strategy_state_value S_PROMOTED = ''PROMOTED''"
| "strategy_state_value S_SHADOW = ''SHADOW''"
| "strategy_state_value S_PAPER_ACTIVE = ''PAPER_ACTIVE''"
| "strategy_state_value S_WATCH = ''WATCH''"
| "strategy_state_value S_DEGRADED = ''DEGRADED''"
| "strategy_state_value S_REDUCE_ONLY = ''REDUCE_ONLY''"
| "strategy_state_value S_QUARANTINED = ''QUARANTINED''"
| "strategy_state_value S_RETIRED = ''RETIRED''"

fun strategy_transitions :: "strategy_state \<Rightarrow> strategy_state list" where
  "strategy_transitions S_CANDIDATE = [S_VALIDATED, S_RETIRED]"
| "strategy_transitions S_VALIDATED = [S_PROMOTED, S_RETIRED]"
| "strategy_transitions S_PROMOTED = [S_SHADOW, S_RETIRED]"
| "strategy_transitions S_SHADOW = [S_PAPER_ACTIVE, S_WATCH, S_RETIRED]"
| "strategy_transitions S_PAPER_ACTIVE = [S_WATCH, S_DEGRADED, S_REDUCE_ONLY, S_RETIRED]"
| "strategy_transitions S_WATCH = [S_PAPER_ACTIVE, S_DEGRADED, S_RETIRED]"
| "strategy_transitions S_DEGRADED = [S_REDUCE_ONLY, S_QUARANTINED, S_RETIRED]"
| "strategy_transitions S_REDUCE_ONLY = [S_QUARANTINED, S_RETIRED]"
| "strategy_transitions S_QUARANTINED = [S_RETIRED]"
| "strategy_transitions S_RETIRED = []"

definition strategy_transition_allowed :: "strategy_state \<Rightarrow> strategy_state \<Rightarrow> bool" where
  "strategy_transition_allowed current target \<longleftrightarrow> target \<in> set (strategy_transitions current)"

record strategy_manager =
  slm_state :: strategy_state

definition slm_transition :: "strategy_manager \<Rightarrow> strategy_state \<Rightarrow> bool \<times> strategy_manager" where
  "slm_transition m target =
     (if \<not> strategy_transition_allowed (slm_state m) target then (False, m)
      else (True, m\<lparr>slm_state := target\<rparr>))"

record strategy_compatibility =
  sc_artifact_id :: string
  sc_compatible :: bool
  sc_reasons :: "string list"

record strategy_health =
  sh_artifact_id :: string
  sh_status :: string
  sh_warnings :: "string list"

record freeze_manifest =
  fz_artifact_id :: string
  fz_strategy_graph_hash :: string
  fz_feature_contract_hash :: string
  fz_code_version :: string
  fz_config_hash :: string
  fz_validation_bundle_hash :: string
  fz_created_at :: string
  fz_expiry_time :: string
  fz_frozen_by :: string

definition freeze_payload :: "freeze_manifest \<Rightarrow> pyval" where
  "freeze_payload f = PDict
     [(''artifact_id'', PStr (fz_artifact_id f)),
      (''strategy_graph_hash'', PStr (fz_strategy_graph_hash f)),
      (''feature_contract_hash'', PStr (fz_feature_contract_hash f)),
      (''code_version'', PStr (fz_code_version f)),
      (''config_hash'', PStr (fz_config_hash f)),
      (''validation_bundle_hash'', PStr (fz_validation_bundle_hash f)),
      (''created_at'', PStr (fz_created_at f)),
      (''expiry_time'', PStr (fz_expiry_time f)),
      (''frozen_by'', PStr (fz_frozen_by f))]"

definition manifest_hash :: "stable_hash \<Rightarrow> freeze_manifest \<Rightarrow> string" where
  "manifest_hash H f = H (freeze_payload f)"

section \<open>The layer catalog\<close>

definition rng :: "rat \<Rightarrow> rat \<Rightarrow> rat \<Rightarrow> parameter_range" where
  "rng lo hi st = \<lparr>pg_minimum = fl lo, pg_maximum = fl hi, pg_step = fl st, pg_excluded_values = []\<rparr>"

definition mk_layer ::
    "string \<Rightarrow> layer_family \<Rightarrow> (string, parameter_range) dict \<Rightarrow> (string, pyval) dict \<Rightarrow> layer_spec" where
  "mk_layer name family parameters rules =
     \<lparr>ly_name = name, ly_family = family, ly_parameters = parameters, ly_precedence = 0,
      ly_eligibility_rules = rules\<rparr>"

definition backbones :: "layer_spec list" where
  "backbones =
     [mk_layer ''mom_squeeze'' BACKBONE [(''entry_stride'', rng 2 10 1)] [],
      mk_layer ''kama_hma'' BACKBONE
        [(''n'', rng 6 20 2), (''f'', rng 2 5 1), (''s'', rng 20 50 5),
         (''theta_trend'', rng (45 / 100) (75 / 100) (5 / 100)),
         (''theta_flat'', rng (15 / 100) (35 / 100) (5 / 100)),
         (''n_hma'', rng 9 55 5), (''p_atr'', rng 10 21 1),
         (''k_stop'', rng (15 / 10) (35 / 10) (5 / 10))]
        [(''constraint'', PStr ''theta_flat < theta_trend - 0.10'')],
      mk_layer ''keltner_fade'' BACKBONE
        [(''p_ema'', rng 14 55 5), (''p_atr'', rng 10 21 1),
         (''m'', rng (15 / 10) (35 / 10) (5 / 10)), (''p_rsi'', rng 7 21 2),
         (''theta_os'', rng 20 35 5), (''theta_ob'', rng 65 80 5),
         (''k_stop'', rng 1 (25 / 10) (5 / 10)), (''t_bars'', rng 5 25 5),
         (''z_threshold'', rng (15 / 10) 3 (5 / 10))] []]"

definition directional_filters :: "layer_spec list" where
  "directional_filters =
     map (\<lambda>n. mk_layer n DIRECTIONAL_FILTER [(''len'', rng 10 60 10)] []) [''ema'', ''kama'', ''hull'']"

definition known_good_flat_filters :: "layer_spec list" where
  "known_good_flat_filters =
     map (\<lambda>n. mk_layer n KNOWN_GOOD_FLAT_FILTER [] [])
       [''flat9'', ''flat11'', ''flat12'', ''flat13'', ''flat14'']"

definition custom_flat_filters :: "layer_spec list" where
  "custom_flat_filters =
     map (\<lambda>n. mk_layer n CUSTOM_FLAT_FILTER [] []) [''adx_weak'', ''choppiness'', ''volume_dead'']"

definition exit_layers :: "layer_spec list" where
  "exit_layers = [mk_layer ''time_stop'' EXIT [(''hold_bars'', rng 1 24 1)] []]"

definition catalog :: "layer_spec list" where
  "catalog = backbones @ directional_filters @ known_good_flat_filters @ custom_flat_filters
     @ exit_layers"

definition get_layer_by_name :: "string \<Rightarrow> layer_spec result" where
  "get_layer_by_name name =
     (case find (\<lambda>layer. ly_name layer = name) catalog of
        None \<Rightarrow> Inl (KeyError (''unknown layer: '' @ name)) | Some layer \<Rightarrow> Inr layer)"

definition resolve_layer_names :: "string list \<Rightarrow> layer_spec list result" where
  "resolve_layer_names names = rmap get_layer_by_name names"

definition catalog_by_family :: "(string \<times> string list) list" where
  "catalog_by_family =
     [(''backbones'', map ly_name backbones),
      (''directional_layers'', map ly_name directional_filters),
      (''known_good_filters'', map ly_name known_good_flat_filters),
      (''custom_filters'', map ly_name custom_flat_filters),
      (''exit_layers'', map ly_name exit_layers)]"

definition approved_layer_names :: "string list" where
  "approved_layer_names = concat (map snd catalog_by_family)"

section \<open>The lifecycle is a machine that can always be retired\<close>

interpretation strategy_life: retirable_machine strategy_transition_allowed
    "\<lambda>s. s = S_RETIRED" S_RETIRED
proof unfold_locales
  show "\<not> strategy_transition_allowed s t" if "s = S_RETIRED" for s t
    using that by (simp add: strategy_transition_allowed_def)
  show "strategy_transition_allowed s S_RETIRED" if "\<not> s = S_RETIRED" for s
    using that by (cases s) (simp_all add: strategy_transition_allowed_def)
qed simp

text \<open>The states after promotion can only be entered through shadow trading; the rank counts how
  far a strategy still is from trading on paper.\<close>

fun promotion_level :: "strategy_state \<Rightarrow> nat" where
  "promotion_level S_CANDIDATE = 0"
| "promotion_level S_VALIDATED = 1"
| "promotion_level S_PROMOTED = 2"
| "promotion_level S_SHADOW = 3"
| "promotion_level _ = 4"

lemma promotion_step:
  "strategy_transition_allowed s t \<Longrightarrow> t = S_RETIRED \<or> promotion_level t \<le> Suc (promotion_level s)"
  by (cases s; cases t) (simp_all add: strategy_transition_allowed_def)

fun slm_run :: "strategy_manager \<Rightarrow> strategy_state list \<Rightarrow> strategy_manager" where
  "slm_run m [] = m"
| "slm_run m (t # ts) = slm_run (snd (slm_transition m t)) ts"

text \<open>What the requests of a run that were accepted are.\<close>

fun slm_accepted :: "strategy_manager \<Rightarrow> strategy_state list \<Rightarrow> strategy_state list" where
  "slm_accepted m [] = []"
| "slm_accepted m (t # ts) =
     (if fst (slm_transition m t) then [t] else []) @ slm_accepted (snd (slm_transition m t)) ts"

lemma slm_run_walk:
  "walk strategy_transition_allowed (slm_state m) (slm_accepted m ts)
   \<and> slm_state (slm_run m ts) = last (slm_state m # slm_accepted m ts)"
proof (induction ts arbitrary: m)
  case (Cons t ts)
  from Cons.IH [of m] Cons.IH [of "m\<lparr>slm_state := t\<rparr>"] show ?case
    by (simp add: slm_transition_def)
qed simp

lemma walk_visits_levels:
  assumes "walk strategy_transition_allowed s ts" "promotion_level s \<le> k" "t \<in> set ts"
    "t \<noteq> S_RETIRED" "k < promotion_level t" "k \<noteq> promotion_level s" "k < 4"
  shows "\<exists>u \<in> set ts. promotion_level u = k \<and> u \<noteq> S_RETIRED"
  using assms
proof (induction ts arbitrary: s)
  case (Cons v vs)
  have sv: "strategy_transition_allowed s v" "walk strategy_transition_allowed v vs"
    using Cons.prems(1) by simp_all
  show ?case
  proof (cases "promotion_level v = k \<and> v \<noteq> S_RETIRED")
    case False
    have "v \<noteq> S_RETIRED"
    proof
      assume "v = S_RETIRED"
      then have "vs = []" using strategy_life.terminal_walk sv(2) by blast
      with Cons.prems(3,4) \<open>v = S_RETIRED\<close> show False by simp
    qed
    with promotion_step [OF sv(1)] have "promotion_level v \<le> Suc (promotion_level s)" by blast
    with False \<open>v \<noteq> S_RETIRED\<close> Cons.prems(2,6) have v: "promotion_level v < k" by force
    with Cons.prems(5) have "t \<noteq> v" by auto
    with Cons.prems v have "\<exists>u \<in> set vs. promotion_level u = k \<and> u \<noteq> S_RETIRED"
      by (intro Cons.IH [OF sv(2)]) auto
    then show ?thesis by auto
  qed auto
qed simp

lemma level_states:
  "u \<noteq> S_RETIRED \<Longrightarrow> promotion_level u = 1 \<longleftrightarrow> u = S_VALIDATED"
  "u \<noteq> S_RETIRED \<Longrightarrow> promotion_level u = 2 \<longleftrightarrow> u = S_PROMOTED"
  "u \<noteq> S_RETIRED \<Longrightarrow> promotion_level u = 3 \<longleftrightarrow> u = S_SHADOW"
  by (cases u; simp)+

text \<open>A lifecycle manager that starts with a candidate and ends up trading on paper has been
  validated, promoted and shadowed on the way, whatever requests it got; unless it is retired it
  can be retired next, and once retired it refuses everything.\<close>

lemma paper_trading_was_earned:
  assumes "slm_state m = S_CANDIDATE"
  shows "(slm_state (slm_run m ts) = S_PAPER_ACTIVE \<longrightarrow>
        {S_VALIDATED, S_PROMOTED, S_SHADOW} \<subseteq> set (slm_accepted m ts))
    \<and> (slm_state (slm_run m ts) \<noteq> S_RETIRED \<longrightarrow>
        fst (slm_transition (slm_run m ts) S_RETIRED))
    \<and> (slm_state (slm_run m ts) = S_RETIRED \<longrightarrow>
        (\<forall>us. slm_run m (ts @ us) = slm_run m ts \<and> slm_accepted (slm_run m ts) us = []))"
proof -
  let ?as = "slm_accepted m ts"
  have w: "walk strategy_transition_allowed S_CANDIDATE ?as"
    "slm_state (slm_run m ts) = last (S_CANDIDATE # ?as)"
    using slm_run_walk [of m ts] assms by simp_all
  have visit: "S_PAPER_ACTIVE \<in> set ?as \<Longrightarrow> 0 < k \<Longrightarrow> k < 4 \<Longrightarrow>
      \<exists>u \<in> set ?as. promotion_level u = k \<and> u \<noteq> S_RETIRED" for k
    using walk_visits_levels [OF w(1), of k S_PAPER_ACTIVE] by simp
  have "S_PAPER_ACTIVE \<in> set ?as" if "slm_state (slm_run m ts) = S_PAPER_ACTIVE"
    using that w(2) last_in_set [of ?as] by (cases "?as = []") simp_all
  then have 1: "slm_state (slm_run m ts) = S_PAPER_ACTIVE \<Longrightarrow>
      {S_VALIDATED, S_PROMOTED, S_SHADOW} \<subseteq> set ?as"
    using visit [of 1] visit [of 2] visit [of 3] level_states by force
  have run_append: "slm_run m (ts @ us) = slm_run (slm_run m ts) us" for us
    by (induction ts arbitrary: m) simp_all
  have stuck: "slm_run n us = n \<and> slm_accepted n us = []" if "slm_state n = S_RETIRED" for n us
    using that by (induction us) (simp_all add: slm_transition_def strategy_life.terminal_stuck)
  show ?thesis
    using 1 strategy_life.can_retire by (simp add: run_append stuck slm_transition_def)
qed

lemma paper_trading_was_earned_witness:
  "slm_state (slm_run \<lparr>slm_state = S_CANDIDATE\<rparr>
       [S_SHADOW, S_VALIDATED, S_PROMOTED, S_SHADOW, S_PAPER_ACTIVE]) = S_PAPER_ACTIVE
   \<and> {S_VALIDATED, S_PROMOTED, S_SHADOW} \<subseteq> set (slm_accepted \<lparr>slm_state = S_CANDIDATE\<rparr>
       [S_SHADOW, S_VALIDATED, S_PROMOTED, S_SHADOW, S_PAPER_ACTIVE])"
proof -
  have "slm_state (slm_run \<lparr>slm_state = S_CANDIDATE\<rparr>
       [S_SHADOW, S_VALIDATED, S_PROMOTED, S_SHADOW, S_PAPER_ACTIVE]) = S_PAPER_ACTIVE"
    by (simp add: slm_transition_def strategy_transition_allowed_def)
  then show ?thesis
    using paper_trading_was_earned [of "\<lparr>slm_state = S_CANDIDATE\<rparr>"
        "[S_SHADOW, S_VALIDATED, S_PROMOTED, S_SHADOW, S_PAPER_ACTIVE]"] by simp
qed

end
