(* ===== verification/StrategyDsl.thy ===== *)
theory StrategyDsl
  imports Strategy
begin

text \<open>
  The bounded strategy specification (\<open>strategy/dsl.py\<close>): the checker of a proposed specification,
  its normal form, and the builder of specifications from a research payload.
\<close>

section \<open>Allowed names\<close>

definition allowed_families :: "string list" where
  "allowed_families = [''momentum'', ''breakout'', ''carry'', ''mean_reversion'', ''regime_overlay'']"

definition allowed_feature_contracts :: "string list" where
  "allowed_feature_contracts =
     [''ohlcv'', ''funding'', ''forecast_feature'', ''open_interest'', ''liquidation'', ''mark_price'',
      ''index_price'', ''premium_index'', ''spread'', ''depth'', ''regime_labels'']"

definition allowed_risk_hooks :: "string list" where
  "allowed_risk_hooks =
     [''max_drawdown'', ''funding_shock'', ''liquidation_guard'', ''venue_profile_guard'',
      ''regime_scope'', ''stale_data_pause'']"

definition allowed_execution_policy_fields :: "string list" where
  "allowed_execution_policy_fields =
     [''venue'', ''signal_tf'', ''execution_tf'', ''order_style'', ''post_only'', ''reduce_only'']"

definition allowed_signal_timeframes :: "string list" where
  "allowed_signal_timeframes = [''1m'', ''15m'', ''1h'']"

definition allowed_execution_timeframes :: "string list" where
  "allowed_execution_timeframes = [''1m'', ''15m'']"

definition allowed_forecast_feature_config_fields :: "string list" where
  "allowed_forecast_feature_config_fields =
     [''provider'', ''model_id'', ''feature_fields'', ''horizon'', ''context_length'',
      ''config_checksum'']"

definition allowed_forecast_feature_fields :: "string list" where
  "allowed_forecast_feature_fields =
     [''timesfm_q50_return'', ''timesfm_direction'', ''timesfm_interval_width'',
      ''timesfm_uncertainty_ratio'', ''timesfm_skew'', ''timesfm_confidence_bucket'']"

definition prohibited_forecast_execution_fields :: "string list" where
  "prohibited_forecast_execution_fields =
     [''raw_forecast_order'', ''forecast_order'', ''forecast_trade_action'', ''emit_buy_sell_size'']"

definition prohibited_free_form_fields :: "string list" where
  "prohibited_free_form_fields =
     [''python_code'', ''source_code'', ''script'', ''code'', ''raw_order_logic'', ''raw_signal_logic'']"

definition allowed_spec_keys :: "string list" where
  "allowed_spec_keys =
     [''family'', ''variant_id'', ''feature_contracts'', ''parameter_schema'', ''risk_hooks'',
      ''execution_policy'', ''structure'', ''forecast_feature_config'']"

definition backbone_to_family :: "(string \<times> string) list" where
  "backbone_to_family =
     [(''mom_squeeze'', ''momentum''), (''kama_hma'', ''momentum''),
      (''keltner_fade'', ''mean_reversion'')]"

definition backbone_names :: "string list" where
  "backbone_names = map ly_name backbones"

lemma backbone_names_eq [code]: "backbone_names = [''mom_squeeze'', ''kama_hma'', ''keltner_fade'']"
  by (simp add: backbone_names_def backbones_def mk_layer_def)

lemma approved_layer_names_eq [code]: "approved_layer_names =
    [''mom_squeeze'', ''kama_hma'', ''keltner_fade'', ''ema'', ''kama'', ''hull'', ''flat9'', ''flat11'',
     ''flat12'', ''flat13'', ''flat14'', ''adx_weak'', ''choppiness'', ''volume_dead'', ''time_stop'']"
  by (simp add: approved_layer_names_def catalog_by_family_def backbones_def directional_filters_def
      known_good_flat_filters_def custom_flat_filters_def exit_layers_def mk_layer_def)

definition structure_lists :: "string list" where
  "structure_lists = [''directional_layers'', ''known_good_filters'', ''custom_filters'', ''exit_layers'']"

section \<open>Normal forms of the parts\<close>

fun str_items :: "pyval list \<Rightarrow> string list" where
  "str_items [] = []"
| "str_items (PStr s # vs) = (if str_strip s \<noteq> [] then s # str_items vs else str_items vs)"
| "str_items (_ # vs) = str_items vs"

fun normalize_string_list :: "pyval \<Rightarrow> string list" where
  "normalize_string_list (PList vs) = sorted_set (str_items vs)"
| "normalize_string_list _ = []"

definition bounds_dict :: "pyfloat \<Rightarrow> pyfloat \<Rightarrow> pyfloat \<Rightarrow> pyval" where
  "bounds_dict mn mx st =
     PDict [(''minimum'', PFloat mn), (''maximum'', PFloat mx), (''step'', PFloat st)]"

fun parse_bounds :: "pyval \<Rightarrow> pyval option result" where
  "parse_bounds (PDict b) =
     rbind (or_none (py_float (pget b ''minimum''))) (\<lambda>mn.
     rbind (or_none (py_float (pget b ''maximum''))) (\<lambda>mx.
     rbind (or_none (py_float (pget b ''step''))) (\<lambda>st.
       Inr (case (mn, mx, st) of
              (Some l, Some h, Some s) \<Rightarrow>
                if flt h l \<or> fle s (Fin 0) then None else Some (bounds_dict l h s)
            | _ \<Rightarrow> None))))"
| "parse_bounds _ = Inr None"

fun schema_entries :: "(string \<times> pyval) list \<Rightarrow> (string \<times> pyval) list result" where
  "schema_entries [] = Inr []"
| "schema_entries ((name, bounds) # rest) =
     rbind (parse_bounds bounds) (\<lambda>b.
     rbind (schema_entries rest) (\<lambda>es.
       Inr (case b of None \<Rightarrow> es | Some d \<Rightarrow> (name, d) # es)))"

fun normalize_parameter_schema :: "pyval \<Rightarrow> (string \<times> pyval) list result" where
  "normalize_parameter_schema (PDict d) = rbind (schema_entries d) (\<lambda>es. Inr (sort_key fst es))"
| "normalize_parameter_schema _ = Inr []"

fun is_scalar :: "pyval \<Rightarrow> bool" where
  "is_scalar (PStr _) = True"
| "is_scalar (PBool _) = True"
| "is_scalar (PInt _) = True"
| "is_scalar (PFloat _) = True"
| "is_scalar _ = False"

definition policy_field_ok :: "string \<Rightarrow> bool" where
  "policy_field_ok f \<longleftrightarrow> f \<notin> set prohibited_forecast_execution_fields
     \<and> f \<in> set allowed_execution_policy_fields"

fun normalize_execution_policy :: "pyval \<Rightarrow> (string \<times> pyval) list \<times> string list" where
  "normalize_execution_policy (PDict d) =
     (sort_key fst (filter (\<lambda>(f, v). policy_field_ok f \<and> is_scalar v) d),
      map (\<lambda>(f, v). ''execution_policy_field_not_allowed:'' @ f)
        (filter (\<lambda>(f, v). \<not> policy_field_ok f) d))"
| "normalize_execution_policy _ = ([], [])"

fun to_int :: "pyval \<Rightarrow> int option result" where
  "to_int (PBool b) = Inr None"
| "to_int v = or_none (py_int v)"

fun nonempty_str :: "pyval \<Rightarrow> bool" where
  "nonempty_str (PStr s) = (s \<noteq> [])"
| "nonempty_str _ = False"

definition positive :: "int option \<Rightarrow> bool" where
  "positive i = (case i of None \<Rightarrow> False | Some n \<Rightarrow> 0 < n)"

definition forecast_issues ::
    "(string \<times> pyval) list \<Rightarrow> int option \<Rightarrow> int option \<Rightarrow> string list \<Rightarrow> string list" where
  "forecast_issues raw horizon context_length feature_fields =
     map (\<lambda>(k, v). ''forecast_feature_config_field_not_allowed:'' @ k)
       (filter (\<lambda>(k, v). k \<notin> set allowed_forecast_feature_config_fields) raw)
     @ flag (\<not> py_eq (pget raw ''provider'') (PStr ''timesfm'')) ''forecast_feature_provider_not_allowed''
     @ flag (\<not> nonempty_str (pget raw ''model_id'')) ''missing_forecast_feature_model_id''
     @ flag (\<not> positive horizon) ''invalid_forecast_feature_horizon''
     @ flag (\<not> positive context_length) ''invalid_forecast_feature_context_length''
     @ flag (\<not> nonempty_str (pget raw ''config_checksum'')) ''missing_forecast_feature_config_checksum''
     @ flag (feature_fields = []) ''missing_forecast_feature_fields''
     @ flag (list_ex (\<lambda>f. f \<notin> set allowed_forecast_feature_fields) feature_fields)
         ''forecast_feature_field_not_allowed''"

fun normalize_forecast_feature_config ::
    "pyval \<Rightarrow> ((string \<times> pyval) list \<times> string list) result" where
  "normalize_forecast_feature_config PNone = Inr ([], [])"
| "normalize_forecast_feature_config (PDict raw) =
     rbind (to_int (pget raw ''horizon'')) (\<lambda>horizon.
     rbind (to_int (pget raw ''context_length'')) (\<lambda>context_length.
       let feature_fields = normalize_string_list (pget raw ''feature_fields'');
           issues = forecast_issues raw horizon context_length feature_fields
       in Inr (if issues \<noteq> [] then ([], issues)
               else ([(''config_checksum'', PStr (py_str (pget raw ''config_checksum''))),
                      (''context_length'', PInt (the context_length)),
                      (''feature_fields'', PList (map PStr feature_fields)),
                      (''horizon'', PInt (the horizon)),
                      (''model_id'', PStr (py_str (pget raw ''model_id''))),
                      (''provider'', PStr ''timesfm'')], []))))"
| "normalize_forecast_feature_config _ = Inr ([], [''invalid_forecast_feature_config''])"

fun normalize_structure :: "pyval \<Rightarrow> (string \<times> pyval) list" where
  "normalize_structure (PDict raw) =
     (let backbone = str_strip (py_str (pget_or raw ''backbone'' (PStr [])));
          lists = (\<lambda>k. normalize_string_list (pget raw k))
      in if backbone \<notin> set approved_layer_names then []
         else if list_ex (\<lambda>k. list_ex (\<lambda>n. n \<notin> set approved_layer_names) (lists k)) structure_lists
         then []
         else [(''backbone'', PStr backbone),
               (''custom_filters'', PList (map PStr (lists ''custom_filters''))),
               (''directional_layers'', PList (map PStr (lists ''directional_layers''))),
               (''exit_layers'', PList (map PStr (lists ''exit_layers''))),
               (''known_good_filters'', PList (map PStr (lists ''known_good_filters'')))])"
| "normalize_structure _ = []"

section \<open>The checker\<close>

record bounded_validation =
  bv_passed :: bool
  bv_reasons :: "string list"
  bv_identity_hash :: "string option"
  bv_normalized_spec :: "(string \<times> pyval) list"

fun is_member :: "pyval \<Rightarrow> string list \<Rightarrow> bool result" where
  "is_member (PStr s) names = Inr (s \<in> set names)"
| "is_member v names =
     (if hashable v then Inr False else Inl (TypeError ''unhashable type''))"

fun blank_or_no_str :: "pyval \<Rightarrow> bool" where
  "blank_or_no_str (PStr s) \<longleftrightarrow> str_strip s = []"
| "blank_or_no_str _ \<longleftrightarrow> True"

definition str_in :: "pyval \<Rightarrow> string list \<Rightarrow> bool" where
  "str_in v names \<longleftrightarrow> (\<exists>s \<in> set names. v = PStr s)"

definition policy_reasons :: "(string \<times> pyval) list \<Rightarrow> string list" where
  "policy_reasons policy =
     (if policy = [] then [''missing_execution_policy'']
      else flag (pget policy ''venue'' \<noteq> PStr ''binance'') ''venue_not_allowed''
           @ flag (\<not> str_in (pget policy ''signal_tf'') allowed_signal_timeframes) ''signal_tf_not_allowed''
           @ flag (\<not> str_in (pget policy ''execution_tf'') allowed_execution_timeframes)
               ''execution_tf_not_allowed'')"

definition structure_reasons :: "pyval \<Rightarrow> (string \<times> pyval) list \<Rightarrow> string list" where
  "structure_reasons raw nform =
     (if raw \<noteq> PNone \<and> nform = [] then [''invalid_structure'']
      else flag (nform \<noteq> [] \<and> \<not> str_in (pget nform ''backbone'') backbone_names)
             ''backbone_not_allowed'')"

definition spec_reasons ::
    "(string \<times> pyval) list \<Rightarrow> bool \<Rightarrow> (string \<times> pyval) list \<Rightarrow> (string \<times> pyval) list \<times> string list
     \<Rightarrow> string list" where
  "spec_reasons spec family_ok schema forecast =
     (let features = normalize_string_list (pget spec ''feature_contracts'');
          (policy, policy_issues) = normalize_execution_policy (pget spec ''execution_policy'');
          (config, forecast_issues) = forecast
      in flag (list_ex (\<lambda>k. k \<in> fst ` set spec) prohibited_free_form_fields) ''free_form_code_not_allowed''
         @ map (\<lambda>(k, v). ''unknown_field:'' @ k)
             (filter (\<lambda>(k, v). k \<notin> set allowed_spec_keys \<and> k \<notin> set prohibited_free_form_fields) spec)
         @ flag (\<not> family_ok) ''family_not_allowed''
         @ flag (blank_or_no_str (pget spec ''variant_id'')) ''missing_variant_id''
         @ flag (features = []) ''missing_feature_contracts''
         @ flag (list_ex (\<lambda>f. f \<notin> set allowed_feature_contracts) features) ''feature_contract_not_allowed''
         @ flag (schema = []) ''missing_parameter_schema''
         @ flag (list_ex (\<lambda>f. f \<notin> set allowed_risk_hooks)
                   (normalize_string_list (pget spec ''risk_hooks''))) ''risk_hook_not_allowed''
         @ policy_issues @ policy_reasons policy
         @ structure_reasons (pget spec ''structure'') (normalize_structure (pget spec ''structure''))
         @ forecast_issues
         @ flag (''forecast_feature'' \<in> set features \<and> config = []) ''missing_forecast_feature_config''
         @ flag (pget spec ''forecast_feature_config'' \<noteq> PNone \<and> ''forecast_feature'' \<notin> set features)
             ''forecast_feature_config_without_contract'')"

definition normalized_spec ::
    "(string \<times> pyval) list \<Rightarrow> (string \<times> pyval) list \<Rightarrow> (string \<times> pyval) list
     \<Rightarrow> (string \<times> pyval) list" where
  "normalized_spec spec schema config =
     [(''family'', PStr (py_str (pget spec ''family''))),
      (''variant_id'', PStr (py_str (pget spec ''variant_id''))),
      (''feature_contracts'', PList (map PStr (normalize_string_list (pget spec ''feature_contracts'')))),
      (''parameter_schema'', PDict schema),
      (''risk_hooks'', PList (map PStr (normalize_string_list (pget spec ''risk_hooks'')))),
      (''execution_policy'', PDict (fst (normalize_execution_policy (pget spec ''execution_policy'')))),
      (''structure'', PDict (normalize_structure (pget spec ''structure''))),
      (''forecast_feature_config'', PDict config)]"

fun validate_spec :: "stable_hash \<Rightarrow> pyval \<Rightarrow> bounded_validation result" where
  "validate_spec H (PDict spec) =
     rbind (is_member (pget spec ''family'') allowed_families) (\<lambda>family_ok.
     rbind (normalize_parameter_schema (pget spec ''parameter_schema'')) (\<lambda>schema.
     rbind (normalize_forecast_feature_config (pget spec ''forecast_feature_config'')) (\<lambda>forecast.
       let reasons = spec_reasons spec family_ok schema forecast;
           nform = normalized_spec spec schema (fst forecast)
       in Inr (if reasons \<noteq> []
               then \<lparr>bv_passed = False, bv_reasons = reasons, bv_identity_hash = None,
                     bv_normalized_spec = []\<rparr>
               else \<lparr>bv_passed = True, bv_reasons = [], bv_identity_hash = Some (H (PDict nform)),
                     bv_normalized_spec = nform\<rparr>))))"
| "validate_spec H _ =
     Inr \<lparr>bv_passed = False, bv_reasons = [''spec_not_object''], bv_identity_hash = None,
          bv_normalized_spec = []\<rparr>"

section \<open>Normal forms are fixed points\<close>

lemma sorted_set_idem [simp]: "sorted_set (sorted_set xs) = sorted_set xs"
  by (rule sorted_distinct_set_unique) simp_all

lemma str_items_PStr: "str_items (map PStr ss) = filter (\<lambda>s. str_strip s \<noteq> []) ss"
  by (induction ss) simp_all

lemma str_items_nonblank: "s \<in> set (str_items vs) \<Longrightarrow> str_strip s \<noteq> []"
  by (induction vs rule: str_items.induct) (auto split: if_splits)

lemma normalize_string_list_nonblank: "s \<in> set (normalize_string_list v) \<Longrightarrow> str_strip s \<noteq> []"
  by (cases v) (auto dest: str_items_nonblank)

lemma normalize_string_list_idem [simp]:
  "normalize_string_list (PList (map PStr (normalize_string_list v))) = normalize_string_list v"
proof -
  have "filter (\<lambda>s. str_strip s \<noteq> []) (normalize_string_list v) = normalize_string_list v"
    by (rule filter_True) (blast dest: normalize_string_list_nonblank)
  then show ?thesis by (cases v) (simp_all add: str_items_PStr)
qed

definition bounds_ok :: "pyval \<Rightarrow> bool" where
  "bounds_ok b \<longleftrightarrow> (\<exists>l h s. b = bounds_dict l h s \<and> \<not> flt h l \<and> \<not> fle s (Fin 0))"

lemma parse_bounds_ok: "parse_bounds v = Inr (Some b) \<Longrightarrow> bounds_ok b"
proof (cases v)
  case (PDict d)
  assume "parse_bounds v = Inr (Some b)"
  then obtain mn mx st where "(Inr (case (mn, mx, st) of
      (Some l, Some h, Some s) \<Rightarrow> if flt h l \<or> fle s (Fin 0) then None else Some (bounds_dict l h s)
    | _ \<Rightarrow> None) :: pyval option result) = Inr (Some b)"
    unfolding PDict parse_bounds.simps rbind_Inr_iff by blast
  then show ?thesis by (auto simp: bounds_ok_def split: option.splits if_splits)
qed simp_all

lemma parse_bounds_idem: "bounds_ok b \<Longrightarrow> parse_bounds b = Inr (Some b)"
  by (auto simp: bounds_ok_def bounds_dict_def)

lemma schema_entries_ok: "schema_entries d = Inr es \<Longrightarrow> \<forall>(n, b) \<in> set es. bounds_ok b"
proof (induction d arbitrary: es)
  case (Cons nb d)
  obtain n b where nb: "nb = (n, b)" by (cases nb)
  with Cons.prems obtain b' es' where "parse_bounds b = Inr b'" "schema_entries d = Inr es'"
      "es = (case b' of None \<Rightarrow> es' | Some x \<Rightarrow> (n, x) # es')"
    by (auto simp: rbind_Inr_iff)
  with Cons.IH [of es'] parse_bounds_ok [of b] show ?case by (auto split: option.splits)
qed simp

lemma schema_entries_idem: "\<forall>(n, b) \<in> set es. bounds_ok b \<Longrightarrow> schema_entries es = Inr es"
  by (induction es) (auto simp: parse_bounds_idem)

lemma sort_key_idem [simp]: "sort_key f (sort_key f xs) = sort_key f xs"
  by (rule sort_key_id_if_sorted) simp

lemma normalize_schema_idem:
  assumes "normalize_parameter_schema v = Inr es"
  shows "normalize_parameter_schema (PDict es) = Inr es"
proof (cases v)
  case (PDict d)
  with assms obtain es' where es': "schema_entries d = Inr es'" "es = sort_key fst es'"
    by (auto simp: rbind_Inr_iff)
  have "\<forall>(n, b) \<in> set es. bounds_ok b" using schema_entries_ok [OF es'(1)] es'(2) by simp
  then have "schema_entries es = Inr es" by (rule schema_entries_idem)
  then show ?thesis by (simp add: es'(2))
qed (use assms in auto)

lemma normalize_policy_idem:
  "normalize_execution_policy (PDict (fst (normalize_execution_policy v)))
   = (fst (normalize_execution_policy v), [])"
proof (cases v)
  case (PDict d)
  let ?n = "sort_key fst (filter (\<lambda>(f, v). policy_field_ok f \<and> is_scalar v) d)"
  have "filter (\<lambda>(f, v). policy_field_ok f \<and> is_scalar v) ?n = ?n"
    "filter (\<lambda>(f, v). \<not> policy_field_ok f) ?n = []"
    by (auto simp: filter_empty_conv intro!: filter_True)
  then show ?thesis using PDict by simp
qed simp_all

lemma approved_names_stripped: "list_all (\<lambda>n. str_strip n = n \<and> n \<noteq> []) approved_layer_names"
  unfolding approved_layer_names_eq by code_simp

definition structure_dict :: "string \<Rightarrow> (string \<Rightarrow> string list) \<Rightarrow> (string \<times> pyval) list" where
  "structure_dict b l =
     [(''backbone'', PStr b), (''custom_filters'', PList (map PStr (l ''custom_filters''))),
      (''directional_layers'', PList (map PStr (l ''directional_layers''))),
      (''exit_layers'', PList (map PStr (l ''exit_layers''))),
      (''known_good_filters'', PList (map PStr (l ''known_good_filters'')))]"

lemma pget_structure_dict [simp]:
  "k \<in> set structure_lists \<Longrightarrow> pget (structure_dict b l) k = PList (map PStr (l k))"
  "pget (structure_dict b l) ''backbone'' = PStr b"
  by (auto simp: structure_dict_def structure_lists_def)

lemma structure_dict_cong:
  "(\<And>k. k \<in> set structure_lists \<Longrightarrow> l k = l' k) \<Longrightarrow> structure_dict b l = structure_dict b l'"
  by (simp add: structure_dict_def structure_lists_def)

lemma normalize_structure_PDict:
  "normalize_structure (PDict raw) =
     (let b = str_strip (py_str (pget_or raw ''backbone'' (PStr [])));
          l = (\<lambda>k. normalize_string_list (pget raw k))
      in if b \<in> set approved_layer_names
            \<and> (\<forall>k \<in> set structure_lists. set (l k) \<subseteq> set approved_layer_names)
         then structure_dict b l else [])"
  by (auto simp: Let_def structure_dict_def list_ex_iff simp del: normalize_string_list.simps)

lemma normalize_structure_shape:
  assumes "normalize_structure v \<noteq> []"
  shows "\<exists>b raw. b \<in> set approved_layer_names
    \<and> (\<forall>k \<in> set structure_lists. set (normalize_string_list (pget raw k)) \<subseteq> set approved_layer_names)
    \<and> normalize_structure v = structure_dict b (\<lambda>k. normalize_string_list (pget raw k))"
proof (cases v)
  case (PDict raw)
  with assms show ?thesis
    unfolding PDict normalize_structure_PDict Let_def by (metis (no_types, lifting))
qed (use assms in simp_all)

lemma normalize_structure_idem:
  assumes "normalize_structure v \<noteq> []"
  shows "normalize_structure (PDict (normalize_structure v)) = normalize_structure v"
proof -
  obtain b raw where b: "b \<in> set approved_layer_names"
    "\<forall>k \<in> set structure_lists. set (normalize_string_list (pget raw k)) \<subseteq> set approved_layer_names"
    "normalize_structure v = structure_dict b (\<lambda>k. normalize_string_list (pget raw k))"
    using normalize_structure_shape [OF assms] by blast
  let ?d = "structure_dict b (\<lambda>k. normalize_string_list (pget raw k))"
  have l: "normalize_string_list (pget ?d k) = normalize_string_list (pget raw k)"
    if "k \<in> set structure_lists" for k
    using that by (simp del: normalize_string_list.simps)
  have "str_strip b = b" using b(1) approved_names_stripped by (simp add: list_all_iff)
  moreover have "pget_or ?d ''backbone'' (PStr []) = PStr b"
    by (simp add: structure_dict_def)
  ultimately have "normalize_structure (PDict ?d)
      = structure_dict b (\<lambda>k. normalize_string_list (pget ?d k))"
    using b(1,2) l by (simp add: normalize_structure_PDict del: normalize_structure.simps)
  also have "\<dots> = ?d" using l by (rule structure_dict_cong)
  finally show ?thesis unfolding b(3) .
qed

lemma normalize_forecast_Inr:
  assumes "normalize_forecast_feature_config v = Inr (c, [])" "v \<noteq> PNone"
  shows "\<exists>cs ctx fs hz mi. c =
      [(''config_checksum'', PStr cs), (''context_length'', PInt ctx),
       (''feature_fields'', PList (map PStr (normalize_string_list fs))), (''horizon'', PInt hz),
       (''model_id'', PStr mi), (''provider'', PStr ''timesfm'')]
     \<and> cs \<noteq> [] \<and> 0 < ctx \<and> normalize_string_list fs \<noteq> []
     \<and> list_all (\<lambda>f. f \<in> set allowed_forecast_feature_fields) (normalize_string_list fs)
     \<and> 0 < hz \<and> mi \<noteq> []"
proof (cases v)
  case (PDict raw)
  with assms obtain hz ctx where i: "forecast_issues raw hz ctx (normalize_string_list (pget raw ''feature_fields'')) = []"
    and c: "c = [(''config_checksum'', PStr (py_str (pget raw ''config_checksum''))),
        (''context_length'', PInt (the ctx)),
        (''feature_fields'', PList (map PStr (normalize_string_list (pget raw ''feature_fields'')))),
        (''horizon'', PInt (the hz)),
        (''model_id'', PStr (py_str (pget raw ''model_id''))),
        (''provider'', PStr ''timesfm'')]"
    by (auto simp: rbind_Inr_iff Let_def split: if_splits)
  have ne: "nonempty_str w \<Longrightarrow> py_str w \<noteq> []" for w by (cases w) simp_all
  from i have "nonempty_str (pget raw ''config_checksum'')" "nonempty_str (pget raw ''model_id'')"
    "positive hz" "positive ctx"
    by (simp_all add: forecast_issues_def)
  with i ne show ?thesis unfolding c
    by (intro exI [of _ "py_str (pget raw ''config_checksum'')"] exI [of _ "the ctx"]
        exI [of _ "pget raw ''feature_fields''"] exI [of _ "the hz"]
        exI [of _ "py_str (pget raw ''model_id'')"])
      (auto simp: forecast_issues_def positive_def list_all_iff list_ex_iff split: option.splits)
qed (use assms in auto)

lemma normalize_forecast_idem:
  assumes "normalize_forecast_feature_config v = Inr (c, [])" "v \<noteq> PNone"
  shows "normalize_forecast_feature_config (PDict c) = Inr (c, []) \<and> c \<noteq> []"
proof -
  obtain cs ctx fs hz mi where c: "c =
      [(''config_checksum'', PStr cs), (''context_length'', PInt ctx),
       (''feature_fields'', PList (map PStr (normalize_string_list fs))), (''horizon'', PInt hz),
       (''model_id'', PStr mi), (''provider'', PStr ''timesfm'')]"
    "cs \<noteq> []" "0 < ctx" "normalize_string_list fs \<noteq> []"
    "list_all (\<lambda>f. f \<in> set allowed_forecast_feature_fields) (normalize_string_list fs)"
    "0 < hz" "mi \<noteq> []"
    using normalize_forecast_Inr [OF assms] by blast
  have "forecast_issues c (Some hz) (Some ctx) (normalize_string_list fs) = []"
    using c by (simp add: forecast_issues_def positive_def list_ex_iff list_all_iff
        allowed_forecast_feature_config_fields_def)
  then show ?thesis
    by (simp add: c(1) Let_def del: normalize_string_list.simps)
qed

lemma spec_passed_cases:
  assumes "validate_spec H v = Inr r" "bv_passed r"
  shows "\<exists>spec schema config. v = PDict spec
    \<and> is_member (pget spec ''family'') allowed_families = Inr True
    \<and> normalize_parameter_schema (pget spec ''parameter_schema'') = Inr schema
    \<and> normalize_forecast_feature_config (pget spec ''forecast_feature_config'') = Inr (config, [])
    \<and> spec_reasons spec True schema (config, []) = []
    \<and> r = \<lparr>bv_passed = True, bv_reasons = [],
          bv_identity_hash = Some (H (PDict (normalized_spec spec schema config))),
          bv_normalized_spec = normalized_spec spec schema config\<rparr>"
proof (cases v)
  case (PDict spec)
  with assms obtain ok schema fc where f: "is_member (pget spec ''family'') allowed_families = Inr ok"
      "normalize_parameter_schema (pget spec ''parameter_schema'') = Inr schema"
      "normalize_forecast_feature_config (pget spec ''forecast_feature_config'') = Inr fc"
      "spec_reasons spec ok schema fc = []"
      "r = \<lparr>bv_passed = True, bv_reasons = [],
          bv_identity_hash = Some (H (PDict (normalized_spec spec schema (fst fc)))),
          bv_normalized_spec = normalized_spec spec schema (fst fc)\<rparr>"
    by (auto simp: rbind_Inr_iff Let_def split: if_splits)
  then have "ok" "snd fc = []"
    by (auto simp: spec_reasons_def Let_def split: prod.splits)
  with PDict f show ?thesis by (cases fc) auto
qed (use assms in auto)

declare normalize_string_list.simps [simp del] normalize_structure.simps [simp del]
  normalize_execution_policy.simps [simp del] normalize_parameter_schema.simps [simp del]
  normalize_forecast_feature_config.simps [simp del] is_member.simps [simp del]

lemma pget_normalized [simp]:
  "pget (normalized_spec spec schema config) ''family'' = PStr (py_str (pget spec ''family''))"
  "pget (normalized_spec spec schema config) ''variant_id'' = PStr (py_str (pget spec ''variant_id''))"
  "pget (normalized_spec spec schema config) ''feature_contracts''
     = PList (map PStr (normalize_string_list (pget spec ''feature_contracts'')))"
  "pget (normalized_spec spec schema config) ''parameter_schema'' = PDict schema"
  "pget (normalized_spec spec schema config) ''risk_hooks''
     = PList (map PStr (normalize_string_list (pget spec ''risk_hooks'')))"
  "pget (normalized_spec spec schema config) ''execution_policy''
     = PDict (fst (normalize_execution_policy (pget spec ''execution_policy'')))"
  "pget (normalized_spec spec schema config) ''structure''
     = PDict (normalize_structure (pget spec ''structure''))"
  "pget (normalized_spec spec schema config) ''forecast_feature_config'' = PDict config"
  by (simp_all add: normalized_spec_def)

lemma normalized_spec_keys: "fst ` set (normalized_spec spec schema config) = set allowed_spec_keys"
  by (auto simp: normalized_spec_def allowed_spec_keys_def)

lemma allowed_keys_not_code: "set allowed_spec_keys \<inter> set prohibited_free_form_fields = {}"
  by (simp add: allowed_spec_keys_def prohibited_free_form_fields_def)

lemma normalized_keys_ok:
  "\<not> list_ex (\<lambda>k. k \<in> fst ` set (normalized_spec spec schema config)) prohibited_free_form_fields"
  "filter (\<lambda>(k, v). k \<notin> set allowed_spec_keys \<and> k \<notin> set prohibited_free_form_fields)
     (normalized_spec spec schema config) = []"
proof -
  show "\<not> list_ex (\<lambda>k. k \<in> fst ` set (normalized_spec spec schema config)) prohibited_free_form_fields"
    unfolding normalized_spec_keys list_ex_iff using allowed_keys_not_code by blast
  have "k \<in> set allowed_spec_keys" if "(k, v) \<in> set (normalized_spec spec schema config)" for k v
    using that normalized_spec_keys [of spec schema config] by force
  then show "filter (\<lambda>(k, v). k \<notin> set allowed_spec_keys \<and> k \<notin> set prohibited_free_form_fields)
     (normalized_spec spec schema config) = []"
    by (auto simp: filter_empty_conv)
qed

lemma str_of_nonblank: "\<not> blank_or_no_str w \<Longrightarrow> w = PStr (py_str w)"
  by (cases w) simp_all

lemma structure_reasons_normalized:
  assumes "structure_reasons v (normalize_structure v) = []"
  shows "structure_reasons (PDict (normalize_structure v))
      (normalize_structure (PDict (normalize_structure v))) = [] \<longleftrightarrow> v \<noteq> PNone"
proof (cases "v = PNone")
  case True
  have "[] \<notin> set approved_layer_names" using approved_names_stripped by (auto simp: list_all_iff)
  then have "normalize_structure (PDict []) = []"
    by (simp add: normalize_structure.simps Let_def str_strip_def)
  with True show ?thesis by (simp add: structure_reasons_def normalize_structure.simps(2))
next
  case False
  with assms have "normalize_structure v \<noteq> []" by (auto simp: structure_reasons_def split: if_splits)
  with normalize_structure_idem [OF this] assms False show ?thesis
    by (simp add: structure_reasons_def split: if_splits)
qed

text \<open>What a normal form still lacks, when the original passed.\<close>

lemma spec_reasons_normalized:
  assumes "spec_reasons spec True schema (config, []) = []"
  shows "spec_reasons (normalized_spec spec schema config) True schema (config', issues) = []
    \<longleftrightarrow> pget spec ''structure'' \<noteq> PNone \<and> issues = []
      \<and> ''forecast_feature'' \<in> set (normalize_string_list (pget spec ''feature_contracts''))
      \<and> config' \<noteq> []"
proof -
  let ?N = "normalized_spec spec schema config"
  have a: "\<not> blank_or_no_str (pget spec ''variant_id'')"
    "normalize_string_list (pget spec ''feature_contracts'') \<noteq> []"
    "\<not> list_ex (\<lambda>f. f \<notin> set allowed_feature_contracts) (normalize_string_list (pget spec ''feature_contracts''))"
    "schema \<noteq> []"
    "\<not> list_ex (\<lambda>f. f \<notin> set allowed_risk_hooks) (normalize_string_list (pget spec ''risk_hooks''))"
    "policy_reasons (fst (normalize_execution_policy (pget spec ''execution_policy''))) = []"
    "structure_reasons (pget spec ''structure'') (normalize_structure (pget spec ''structure'')) = []"
    using assms by (auto simp: spec_reasons_def Let_def case_prod_unfold)
  have "\<not> blank_or_no_str (PStr (py_str (pget spec ''variant_id'')))"
    using str_of_nonblank [OF a(1)] a(1) by metis
  moreover note structure_reasons_normalized [OF a(7)] normalized_keys_ok [of spec schema config]
    normalize_policy_idem [of "pget spec ''execution_policy''"]
  ultimately show ?thesis
    using a by (auto simp: spec_reasons_def Let_def
        simp del: blank_or_no_str.simps)
qed

section \<open>What a passed specification is\<close>

lemma family_member: "is_member v names = Inr True \<longleftrightarrow> (\<exists>s \<in> set names. v = PStr s)"
  by (cases v) (auto simp: is_member.simps)

lemma forecast_empty: "\<exists>issues. normalize_forecast_feature_config (PDict []) = Inr ([], issues) \<and> issues \<noteq> []"
  by (simp add: normalize_forecast_feature_config.simps or_none_def forecast_issues_def Let_def
      normalize_string_list.simps)

text \<open>C37. The normal form of a passed specification is a fixed point exactly when the
  specification has a structure and a forecast configuration: then checking the normal form
  again gives the same normal form and the same identity hash; without one of the two the normal
  form, which writes the missing part as an empty object, is rejected.\<close>

theorem normal_form_roundtrip:
  assumes "validate_spec H (PDict spec) = Inr r" "bv_passed r"
  shows "\<exists>r'. validate_spec H (PDict (bv_normalized_spec r)) = Inr r'
    \<and> (bv_passed r' \<longleftrightarrow> pget spec ''structure'' \<noteq> PNone \<and> pget spec ''forecast_feature_config'' \<noteq> PNone)
    \<and> (bv_passed r' \<longrightarrow> r' = r)"
proof -
  obtain schema config where p: "is_member (pget spec ''family'') allowed_families = Inr True"
    "normalize_parameter_schema (pget spec ''parameter_schema'') = Inr schema"
    "normalize_forecast_feature_config (pget spec ''forecast_feature_config'') = Inr (config, [])"
    "spec_reasons spec True schema (config, []) = []"
    "r = \<lparr>bv_passed = True, bv_reasons = [],
          bv_identity_hash = Some (H (PDict (normalized_spec spec schema config))),
          bv_normalized_spec = normalized_spec spec schema config\<rparr>"
    using spec_passed_cases [OF assms] by blast
  let ?N = "normalized_spec spec schema config"
  have fam: "is_member (PStr (py_str (pget spec ''family''))) allowed_families = Inr True"
    using p(1) unfolding family_member by auto
  have feat: "pget spec ''forecast_feature_config'' \<noteq> PNone \<Longrightarrow>
      ''forecast_feature'' \<in> set (normalize_string_list (pget spec ''feature_contracts''))"
    using p(4) by (auto simp: spec_reasons_def Let_def case_prod_unfold)
  obtain config' issues where fc: "normalize_forecast_feature_config (PDict config) = Inr (config', issues)"
    "pget spec ''forecast_feature_config'' \<noteq> PNone \<longleftrightarrow> issues = [] \<and> config' \<noteq> []"
    "issues = [] \<longrightarrow> config' = config"
  proof (cases "pget spec ''forecast_feature_config'' = PNone")
    case True
    with p(3) have "config = []" by (simp add: normalize_forecast_feature_config.simps)
    with forecast_empty True that show thesis by blast
  next
    case False
    with normalize_forecast_idem [OF p(3)] that show thesis by blast
  qed
  have ok: "spec_reasons ?N True schema (config', issues) = []
      \<longleftrightarrow> pget spec ''structure'' \<noteq> PNone \<and> pget spec ''forecast_feature_config'' \<noteq> PNone"
    using spec_reasons_normalized [OF p(4), of config' issues] fc(2) feat by blast
  have same: "normalized_spec ?N schema config = ?N" if "pget spec ''structure'' \<noteq> PNone"
  proof -
    have "structure_reasons (pget spec ''structure'') (normalize_structure (pget spec ''structure'')) = []"
      using p(4) by (auto simp: spec_reasons_def Let_def case_prod_unfold)
    with that have "normalize_structure (pget spec ''structure'') \<noteq> []"
      by (auto simp: structure_reasons_def split: if_splits)
    from normalize_structure_idem [OF this] normalize_policy_idem [of "pget spec ''execution_policy''"]
    show ?thesis
      unfolding normalized_spec_def [of ?N schema config] pget_normalized
      by (simp add: normalized_spec_def)
  qed
  show ?thesis
    using ok same fc p(2,5) fam normalize_schema_idem [OF p(2)]
    by (auto simp: Let_def)
qed

definition sample_spec :: "(string \<times> pyval) list" where
  "sample_spec =
     [(''family'', PStr ''momentum''), (''variant_id'', PStr ''v1''),
      (''feature_contracts'', PList [PStr ''ohlcv'', PStr ''forecast_feature'']),
      (''parameter_schema'',
        PDict [(''entry_stride'',
          PDict [(''minimum'', PFloat (Fin 2)), (''maximum'', PFloat (Fin 10)), (''step'', PFloat (Fin 1))])]),
      (''risk_hooks'', PList [PStr ''max_drawdown'']),
      (''execution_policy'',
        PDict [(''venue'', PStr ''binance''), (''signal_tf'', PStr ''1h''), (''execution_tf'', PStr ''15m'')]),
      (''structure'',
        PDict [(''backbone'', PStr ''mom_squeeze''), (''exit_layers'', PList [PStr ''time_stop''])]),
      (''forecast_feature_config'',
        PDict [(''provider'', PStr ''timesfm''), (''model_id'', PStr ''m''),
          (''feature_fields'', PList [PStr ''timesfm_skew'']), (''horizon'', PInt 4),
          (''context_length'', PInt 64), (''config_checksum'', PStr ''c'')])]"

lemma sample_spec_passes: "\<exists>r. validate_spec zero_hash (PDict sample_spec) = Inr r \<and> bv_passed r"
proof -
  have "(case validate_spec zero_hash (PDict sample_spec) of Inr r \<Rightarrow> bv_passed r | _ \<Rightarrow> False)"
    by code_simp
  then show ?thesis by (auto split: sum.splits)
qed

theorem normal_form_roundtrip_witness:
  "\<exists>r. validate_spec zero_hash (PDict sample_spec) = Inr r \<and> bv_passed r
     \<and> validate_spec zero_hash (PDict (bv_normalized_spec r)) = Inr r"
proof -
  obtain r where r: "validate_spec zero_hash (PDict sample_spec) = Inr r" "bv_passed r"
    using sample_spec_passes by blast
  have "pget sample_spec ''structure'' \<noteq> PNone \<and> pget sample_spec ''forecast_feature_config'' \<noteq> PNone"
    by (simp add: sample_spec_def)
  with normal_form_roundtrip [OF r] r show ?thesis by auto
qed

text \<open>A bounded forecast configuration names the one provider, a model, a checksum, positive lengths and
  allowed output fields, and nothing else.\<close>

definition bounded_forecast :: "(string \<times> pyval) list \<Rightarrow> bool" where
  "bounded_forecast config \<longleftrightarrow>
     (\<exists>checksum context fields horizon model. config =
        [(''config_checksum'', PStr checksum), (''context_length'', PInt context),
         (''feature_fields'', PList (map PStr fields)), (''horizon'', PInt horizon),
         (''model_id'', PStr model), (''provider'', PStr ''timesfm'')]
      \<and> checksum \<noteq> [] \<and> 0 < context \<and> fields \<noteq> [] \<and> set fields \<subseteq> set allowed_forecast_feature_fields
      \<and> 0 < horizon \<and> model \<noteq> [])"

lemma normalized_forecast_bounded:
  "normalize_forecast_feature_config v = Inr (c, []) \<Longrightarrow> v \<noteq> PNone \<Longrightarrow> bounded_forecast c"
  using normalize_forecast_Inr [of v c] unfolding bounded_forecast_def list_all_iff by blast

lemma forecast_keys:
  "normalize_forecast_feature_config (PDict raw) = Inr (c, []) \<Longrightarrow>
     fst ` set raw \<subseteq> set allowed_forecast_feature_config_fields"
  by (fastforce simp: normalize_forecast_feature_config.simps rbind_Inr_iff Let_def forecast_issues_def
      filter_empty_conv split: if_splits)

text \<open>The ranges of a schema, as the checker compares them: it refuses a range only when the minimum is above
  the maximum or the step is at most zero, which a NaN never is.\<close>

definition range_of :: "pyval \<Rightarrow> (string \<times> pyval) \<Rightarrow> bool" where
  "range_of v nb \<longleftrightarrow>
     (\<exists>d b lo hi st. v = PDict d \<and> (fst nb, PDict b) \<in> set d \<and> snd nb = bounds_dict lo hi st
        \<and> py_float (pget b ''minimum'') = Inr lo \<and> py_float (pget b ''maximum'') = Inr hi
        \<and> py_float (pget b ''step'') = Inr st \<and> \<not> flt hi lo \<and> \<not> fle st (Fin 0))"

lemma or_none_Some: "or_none r = Inr (Some x) \<Longrightarrow> r = Inr x"
  by (auto simp: or_none_def split: sum.splits pyerr.splits if_splits)

lemma parse_bounds_range:
  assumes "parse_bounds v = Inr (Some w)"
  shows "\<exists>b lo hi st. v = PDict b \<and> w = bounds_dict lo hi st
    \<and> py_float (pget b ''minimum'') = Inr lo \<and> py_float (pget b ''maximum'') = Inr hi
    \<and> py_float (pget b ''step'') = Inr st \<and> \<not> flt hi lo \<and> \<not> fle st (Fin 0)"
proof (cases v)
  case (PDict b)
  with assms obtain mn mx st where r: "or_none (py_float (pget b ''minimum'')) = Inr mn"
    "or_none (py_float (pget b ''maximum'')) = Inr mx" "or_none (py_float (pget b ''step'')) = Inr st"
    "(case (mn, mx, st) of (Some l, Some h, Some s) \<Rightarrow> if flt h l \<or> fle s (Fin 0) then None else Some (bounds_dict l h s)
       | _ \<Rightarrow> None) = Some w"
    unfolding PDict parse_bounds.simps rbind_Inr_iff by blast
  from r(4) obtain l h t where "mn = Some l" "mx = Some h" "st = Some t" "w = bounds_dict l h t"
    "\<not> flt h l" "\<not> fle t (Fin 0)"
    by (auto split: option.splits if_splits)
  with r(1-3) PDict show ?thesis by (blast dest: or_none_Some)
qed (use assms in simp_all)

lemma schema_entries_ranges: "schema_entries d = Inr es \<Longrightarrow> nb \<in> set es \<Longrightarrow> range_of (PDict d) nb"
proof (induction d arbitrary: es)
  case (Cons nb' d)
  obtain n b where n: "nb' = (n, b)" by (cases nb')
  with Cons.prems(1) obtain w es' where w: "parse_bounds b = Inr w" "schema_entries d = Inr es'"
      "es = (case w of None \<Rightarrow> es' | Some x \<Rightarrow> (n, x) # es')"
    by (auto simp: rbind_Inr_iff)
  show ?case
  proof (cases "nb \<in> set es'")
    case True
    from Cons.IH [OF w(2) this] show ?thesis by (fastforce simp: range_of_def)
  next
    case False
    then obtain x where "w = Some x" "nb = (n, x)" using w(3) Cons.prems(2) by (auto split: option.splits)
    with parse_bounds_range [of b x] w(1) n show ?thesis unfolding range_of_def by fastforce
  qed
qed simp

lemma normalize_schema_ranges:
  "normalize_parameter_schema v = Inr es \<Longrightarrow> nb \<in> set es \<Longrightarrow> range_of v nb"
  by (cases v) (auto simp: normalize_parameter_schema.simps rbind_Inr_iff dest: schema_entries_ranges)

definition bounded_parts ::
    "string list \<Rightarrow> (string \<times> pyval) list \<Rightarrow> string list \<Rightarrow> (string \<times> pyval) list
     \<Rightarrow> (string \<times> pyval) list \<Rightarrow> (string \<times> pyval) list \<Rightarrow> bool" where
  "bounded_parts features schema hooks policy structure config \<longleftrightarrow>
     features \<noteq> [] \<and> sorted features \<and> distinct features \<and> set features \<subseteq> set allowed_feature_contracts
     \<and> schema \<noteq> []
     \<and> set hooks \<subseteq> set allowed_risk_hooks
     \<and> (\<forall>(f, w) \<in> set policy. f \<in> set allowed_execution_policy_fields \<and> is_scalar w)
     \<and> pget policy ''venue'' = PStr ''binance''
     \<and> str_in (pget policy ''signal_tf'') allowed_signal_timeframes
     \<and> str_in (pget policy ''execution_tf'') allowed_execution_timeframes
     \<and> (structure \<noteq> [] \<longrightarrow> str_in (pget structure ''backbone'') backbone_names
          \<and> (\<forall>k \<in> set structure_lists. \<exists>ns. pget structure k = PList (map PStr ns)
                \<and> set ns \<subseteq> set approved_layer_names))
     \<and> (''forecast_feature'' \<in> set features \<longleftrightarrow> config \<noteq> [])
     \<and> (config \<noteq> [] \<longrightarrow> bounded_forecast config)"

lemma sorted_normalized_list: "sorted (normalize_string_list v)" "distinct (normalize_string_list v)"
  by (cases v; simp add: normalize_string_list.simps)+

lemma policy_keys:
  "snd (normalize_execution_policy (PDict raw)) = [] \<Longrightarrow> fst ` set raw \<subseteq> set allowed_execution_policy_fields"
  by (auto simp: normalize_execution_policy.simps filter_empty_conv policy_field_ok_def)

lemma normalize_policy_ok:
  "\<forall>(f, w) \<in> set (fst (normalize_execution_policy v)). f \<in> set allowed_execution_policy_fields \<and> is_scalar w"
  by (cases v) (auto simp: normalize_execution_policy.simps policy_field_ok_def)

lemma normalize_structure_lists:
  assumes "normalize_structure v \<noteq> []" "k \<in> set structure_lists"
  shows "\<exists>ns. pget (normalize_structure v) k = PList (map PStr ns) \<and> set ns \<subseteq> set approved_layer_names"
  using normalize_structure_shape [OF assms(1)] assms(2) by fastforce

text \<open>C38. The normal form of a specification that passes is bounded.  The specification has no top-level field
  that is unknown or carries free-form code, and neither its execution policy nor its forecast
  configuration has an unknown field.  Its family is an allowed one, and its normal form names only allowed
  features, hooks, policy fields and catalog layers, a Binance execution policy on allowed time frames,
  and a forecast configuration exactly when the forecast feature is requested, with the one provider,
  positive lengths and allowed output fields only.  The parameter schema of the normal form is not empty
  and holds only ranges that the specification gives and whose minimum is not above the maximum and whose
  step is not at most zero; improper ranges are left out silently, and a NaN bound passes these
  comparisons.  The identity hash is the digest of the normal form.\<close>

theorem passed_spec_is_bounded:
  assumes "validate_spec H v = Inr r" "bv_passed r"
  shows "\<exists>spec fam variant features schema hooks policy structure config.
      v = PDict spec \<and> fst ` set spec \<subseteq> set allowed_spec_keys
      \<and> (\<forall>raw. pget spec ''execution_policy'' = PDict raw \<longrightarrow> fst ` set raw \<subseteq> set allowed_execution_policy_fields)
      \<and> (\<forall>raw. pget spec ''forecast_feature_config'' = PDict raw
            \<longrightarrow> fst ` set raw \<subseteq> set allowed_forecast_feature_config_fields)
      \<and> bv_normalized_spec r =
          [(''family'', PStr fam), (''variant_id'', PStr variant),
           (''feature_contracts'', PList (map PStr features)), (''parameter_schema'', PDict schema),
           (''risk_hooks'', PList (map PStr hooks)), (''execution_policy'', PDict policy),
           (''structure'', PDict structure), (''forecast_feature_config'', PDict config)]
      \<and> fam \<in> set allowed_families \<and> str_strip variant \<noteq> []
      \<and> bounded_parts features schema hooks policy structure config
      \<and> (\<forall>nb \<in> set schema. range_of (pget spec ''parameter_schema'') nb)
      \<and> bv_identity_hash r = Some (H (PDict (bv_normalized_spec r)))"
proof -
  obtain spec schema config where p: "v = PDict spec"
    "is_member (pget spec ''family'') allowed_families = Inr True"
    "normalize_parameter_schema (pget spec ''parameter_schema'') = Inr schema"
    "normalize_forecast_feature_config (pget spec ''forecast_feature_config'') = Inr (config, [])"
    "spec_reasons spec True schema (config, []) = []"
    "r = \<lparr>bv_passed = True, bv_reasons = [],
          bv_identity_hash = Some (H (PDict (normalized_spec spec schema config))),
          bv_normalized_spec = normalized_spec spec schema config\<rparr>"
    using spec_passed_cases [OF assms] by blast
  have keys: "fst ` set spec \<subseteq> set allowed_spec_keys"
    using p(5) by (fastforce simp: spec_reasons_def Let_def case_prod_unfold filter_empty_conv list_ex_iff)
  have fam: "py_str (pget spec ''family'') \<in> set allowed_families"
    using p(2) by (auto simp: family_member)
  have var: "str_strip (py_str (pget spec ''variant_id'')) \<noteq> []"
    using p(5) by (cases "pget spec ''variant_id''") (auto simp: spec_reasons_def Let_def case_prod_unfold)
  have none: "pget spec ''forecast_feature_config'' = PNone \<Longrightarrow> config = []"
    using p(4) by (simp add: normalize_forecast_feature_config.simps)
  have forecast: "config \<noteq> [] \<Longrightarrow> bounded_forecast config"
    using none normalized_forecast_bounded [OF p(4)] by blast
  have raw: "pget spec ''forecast_feature_config'' = PDict raw \<Longrightarrow> fst ` set raw \<subseteq> set allowed_forecast_feature_config_fields"
    "pget spec ''execution_policy'' = PDict raw \<Longrightarrow> fst ` set raw \<subseteq> set allowed_execution_policy_fields" for raw
    using forecast_keys [of raw config] policy_keys [of raw] p(4,5)
    by (auto simp: spec_reasons_def Let_def case_prod_unfold)
  let ?fs = "normalize_string_list (pget spec ''feature_contracts'')"
  let ?hs = "normalize_string_list (pget spec ''risk_hooks'')"
  let ?po = "fst (normalize_execution_policy (pget spec ''execution_policy''))"
  let ?st = "normalize_structure (pget spec ''structure'')"
  have rs: "?fs \<noteq> []" "\<not> list_ex (\<lambda>f. f \<notin> set allowed_feature_contracts) ?fs" "schema \<noteq> []"
    "\<not> list_ex (\<lambda>f. f \<notin> set allowed_risk_hooks) ?hs" "policy_reasons ?po = []"
    "structure_reasons (pget spec ''structure'') ?st = []"
    "''forecast_feature'' \<in> set ?fs \<longleftrightarrow> config \<noteq> []"
    using p(5) none by (auto simp: spec_reasons_def Let_def case_prod_unfold)
  have st: "?st \<noteq> [] \<Longrightarrow> str_in (pget ?st ''backbone'') backbone_names"
    using rs(6) by (auto simp: structure_reasons_def split: if_splits)
  have po: "pget ?po ''venue'' = PStr ''binance''"
    "str_in (pget ?po ''signal_tf'') allowed_signal_timeframes"
    "str_in (pget ?po ''execution_tf'') allowed_execution_timeframes"
    using rs(5) by (simp_all add: policy_reasons_def split: if_splits)
  have sub: "set ?fs \<subseteq> set allowed_feature_contracts" "set ?hs \<subseteq> set allowed_risk_hooks"
    using rs(2,4) by (auto simp: list_ex_iff)
  have "bounded_parts ?fs schema ?hs ?po ?st config"
    unfolding bounded_parts_def
    using rs(1,3,7) st po sub sorted_normalized_list forecast
      normalize_policy_ok normalize_structure_lists by simp
  note parts = this
  have form: "bv_normalized_spec r = normalized_spec spec schema config"
    "bv_identity_hash r = Some (H (PDict (bv_normalized_spec r)))" using p(6) by simp_all
  show ?thesis
    by (rule exI [of _ spec], rule exI [of _ "py_str (pget spec ''family'')"],
        rule exI [of _ "py_str (pget spec ''variant_id'')"], rule exI [of _ ?fs], rule exI [of _ schema],
        rule exI [of _ ?hs], rule exI [of _ ?po], rule exI [of _ ?st], rule exI [of _ config])
      (intro conjI allI impI ballI p(1) keys raw fam var parts form(2) normalize_schema_ranges [OF p(3)],
        auto simp: form(1) normalized_spec_def)
qed

theorem passed_spec_is_bounded_witness:
  "\<exists>r fam. validate_spec zero_hash (PDict sample_spec) = Inr r
     \<and> pget (bv_normalized_spec r) ''family'' = PStr fam \<and> fam \<in> set allowed_families"
proof -
  obtain r where r: "validate_spec zero_hash (PDict sample_spec) = Inr r" "bv_passed r"
    using sample_spec_passes by blast
  from passed_spec_is_bounded [OF this] show ?thesis using r(1) by auto
qed

section \<open>Specifications built from a research payload\<close>

definition normalize_signal_timeframe :: "pyval \<Rightarrow> string" where
  "normalize_signal_timeframe raw =
     (let text = str_strip (if truthy raw then py_str raw else ''1h'')
      in dget [(''1min'', ''1m''), (''1minute'', ''1m''), (''1m'', ''1m''), (''15min'', ''15m''),
               (''15minute'', ''15m''), (''15m'', ''15m''), (''1hour'', ''1h''), (''1h'', ''1h'')]
           (str_lower text) text)"

fun layer_grid_entries :: "string \<Rightarrow> (string \<times> pyval) list \<Rightarrow> (string \<times> pyval) list result" where
  "layer_grid_entries layer [] = Inr []"
| "layer_grid_entries layer ((name, bounds) # rest) =
     rbind (parse_bounds bounds) (\<lambda>b.
     rbind (layer_grid_entries layer rest) (\<lambda>es.
       Inr (case b of None \<Rightarrow> es | Some d \<Rightarrow> (layer @ ''.'' @ name, d) # es)))"

fun grid_entries :: "(string \<times> pyval) list \<Rightarrow> (string \<times> pyval) list result" where
  "grid_entries [] = Inr []"
| "grid_entries ((layer, PDict g) # rest) =
     rbind (layer_grid_entries layer g) (\<lambda>es. rbind (grid_entries rest) (\<lambda>fs. Inr (es @ fs)))"
| "grid_entries (_ # rest) = grid_entries rest"

fun catalog_entries :: "string list \<Rightarrow> (string \<times> pyval) list" where
  "catalog_entries [] = []"
| "catalog_entries (layer # rest) =
     (if str_strip layer = [] then []
      else case get_layer_by_name layer of
             Inl _ \<Rightarrow> []
           | Inr spec \<Rightarrow> map (\<lambda>(p, r). (layer @ ''.'' @ p,
                             bounds_dict (pg_minimum r) (pg_maximum r) (pg_step r))) (ly_parameters spec))
     @ catalog_entries rest"

definition parameter_schema_from_payload ::
    "(string \<times> pyval) list \<Rightarrow> string list \<Rightarrow> (string \<times> pyval) list result" where
  "parameter_schema_from_payload payload layer_names =
     rbind (case pget payload ''parameter_grids'' of PDict g \<Rightarrow> grid_entries g | _ \<Rightarrow> Inr []) (\<lambda>es.
       Inr (sort_key fst (dict_of (if es \<noteq> [] then es else catalog_entries layer_names))))"

definition given :: "(string \<times> pyval) list \<Rightarrow> string \<Rightarrow> bool" where
  "given d k \<longleftrightarrow> pget d k \<noteq> PNone"

definition payload_backbone :: "(string \<times> pyval) list \<Rightarrow> string" where
  "payload_backbone payload =
     (let b = (case pget_or payload ''incumbent'' (PDict []) of
                 PDict i \<Rightarrow> str_strip (py_str (pget_or i ''backbone'' (PStr []))) | _ \<Rightarrow> [])
      in if b = [] then str_strip (py_str (pget_or payload ''backbone'' (PStr []))) else b)"

definition payload_features :: "(string \<times> pyval) list \<Rightarrow> string list" where
  "payload_features payload =
     ''ohlcv'' #
     (case pget_or payload ''snapshot'' (PDict []) of
        PDict s \<Rightarrow>
          flag (given s ''funding_rates'') ''funding''
          @ flag (given s ''open_interest'') ''open_interest''
          @ flag (given s ''liquidation_notional'') ''liquidation''
          @ flag (given s ''mark_price'') ''mark_price''
          @ flag (given s ''index_price'') ''index_price''
          @ flag (given s ''spread_bps'') ''spread''
          @ flag (given s ''depth_bid_1bp_usd'' \<or> given s ''depth_ask_1bp_usd'') ''depth''
          @ flag (given s ''regime_id'' \<or> given s ''vol_regime'') ''regime_labels''
          @ flag (given s ''forecast_features'' \<or> given payload ''forecast_feature_config'')
              ''forecast_feature''
      | _ \<Rightarrow> [])"

fun build_spec :: "pyval \<Rightarrow> (string \<times> pyval) list result" where
  "build_spec (PDict payload) =
     (let backbone = payload_backbone payload;
          family = dget backbone_to_family backbone ''momentum'';
          features = payload_features payload;
          lists = (\<lambda>k. normalize_string_list (pget payload k));
          structure = (''backbone'', PStr backbone)
                        # map (\<lambda>k. (k, PList (map PStr (lists k)))) structure_lists;
          hooks = [''max_drawdown'', ''venue_profile_guard'']
                    @ flag (''funding'' \<in> set features) ''funding_shock''
                    @ flag (''liquidation'' \<in> set features) ''liquidation_guard'';
          (signal_tf, execution_tf, venue) =
            (case pget_or payload ''snapshot'' (PDict []) of
               PDict s \<Rightarrow>
                 let tf = normalize_signal_timeframe (pget_or s ''timeframe'' (PStr ''1h''))
                 in (tf, if tf = ''1m'' then ''1m'' else ''15m'', py_str (pget_or s ''venue'' (PStr ''binance'')))
             | _ \<Rightarrow> (''1h'', ''15m'', ''binance''))
      in rbind (parameter_schema_from_payload payload (backbone # concat (map lists structure_lists)))
           (\<lambda>schema. Inr
             ([(''family'', PStr family),
               (''variant_id'', PStr (py_str (pget_or payload ''run_id'' (PStr ''strategy-proposal'')))),
               (''feature_contracts'', PList (map PStr features)),
               (''parameter_schema'', PDict schema),
               (''risk_hooks'', PList (map PStr hooks)),
               (''execution_policy'', PDict
                  [(''venue'', PStr venue), (''signal_tf'', PStr signal_tf),
                   (''execution_tf'', PStr execution_tf)]),
               (''structure'', PDict structure)]
              @ (if given payload ''forecast_feature_config''
                 then [(''forecast_feature_config'', pget payload ''forecast_feature_config'')] else [])
              @ map (\<lambda>f. (f, pget payload f))
                  (filter (\<lambda>f. f \<in> fst ` set payload) prohibited_free_form_fields))))"
| "build_spec _ = Inl (ValueError ''payload_not_object'')"

end
