(* ===== verification/Learning.thy ===== *)
theory Learning
  imports PyText Contracts
begin

text \<open>
  The learning package (\<open>learning/\<close>): model cards and their validation, the registry that serves
  models to the executor, rollback plans, shadow validation, drift reports and the dataset builder.
\<close>

section \<open>Model cards\<close>

definition model_families :: "string list" where
  "model_families =
     [''SlippageModel'', ''ImpactModel'', ''FillProbabilityModel'', ''QueuePositionModel'',
      ''FundingRiskModel'', ''LiquidityRegimeModel'', ''CorrelationModel'', ''StrategyHealthModel'',
      ''ExecutionPolicyModel'', ''CapacityModel'']"

record model_card =
  mc_model_id :: string
  mc_parent_model_id :: "string option"
  mc_family :: string
  mc_training_window :: string
  mc_symbols_used :: "string list"
  mc_features_used :: "string list"
  mc_target :: string
  mc_validation_metric :: "(string \<times> pyfloat) list"
  mc_shadow_result :: "(string \<times> pyval) list"
  mc_paper_result :: "(string \<times> pyval) list"
  mc_approved_modes :: "string list"
  mc_known_failures :: "string list"
  mc_rollback_model_id :: "string option"

record card_validation =
  cv_passed :: bool
  cv_issues :: "string list"

definition no_rollback :: "model_card \<Rightarrow> bool" where
  "no_rollback c \<longleftrightarrow> (case mc_rollback_model_id c of None \<Rightarrow> True | Some r \<Rightarrow> r = [])"

definition card_issues :: "model_card \<Rightarrow> string list" where
  "card_issues c =
     flag (mc_model_id c = []) ''missing_model_id''
     @ flag (mc_family c = []) ''missing_family''
     @ flag (mc_training_window c = []) ''missing_training_window''
     @ flag (mc_target c = []) ''missing_target''
     @ flag (mc_family c \<notin> set model_families) ''unknown_model_family''
     @ flag (mc_symbols_used c = []) ''missing_symbols_used''
     @ flag (mc_features_used c = []) ''missing_features_used''
     @ flag (mc_validation_metric c = []) ''missing_validation_metric''
     @ flag (pget (mc_shadow_result c) ''passed'' \<noteq> PBool True) ''shadow_validation_not_passed''
     @ flag (''paper'' \<in> set (mc_approved_modes c) \<and> pget (mc_paper_result c) ''passed'' \<noteq> PBool True)
         ''paper_validation_not_passed''
     @ flag (no_rollback c) ''missing_rollback_model_id''"

definition validate_model_card :: "model_card \<Rightarrow> card_validation" where
  "validate_model_card c = \<lparr>cv_passed = (card_issues c = []), cv_issues = card_issues c\<rparr>"

section \<open>The registry\<close>

record approval_result =
  ar_approved :: bool
  ar_model_id :: string
  ar_reasons :: "string list"

record model_registry =
  mr_cards :: "(string, model_card) dict"
  mr_approved :: "(string \<times> string, string) dict"

definition mr_new :: model_registry where
  "mr_new = \<lparr>mr_cards = [], mr_approved = []\<rparr>"

definition register_candidate :: "model_card \<Rightarrow> model_registry \<Rightarrow> model_registry" where
  "register_candidate c g = g\<lparr>mr_cards := AList.update (mc_model_id c) c (mr_cards g)\<rparr>"

definition approve_model :: "string \<Rightarrow> string \<Rightarrow> model_registry \<Rightarrow> approval_result \<times> model_registry" where
  "approve_model i mode g =
     (case map_of (mr_cards g) i of
        None \<Rightarrow> (\<lparr>ar_approved = False, ar_model_id = i, ar_reasons = [''missing_model_card'']\<rparr>, g)
      | Some c \<Rightarrow>
          (let reasons = cv_issues (validate_model_card c)
                 @ flag (mode \<notin> set (mc_approved_modes c)) ''mode_not_approved''
           in if reasons \<noteq> [] then (\<lparr>ar_approved = False, ar_model_id = i, ar_reasons = reasons\<rparr>, g)
              else (\<lparr>ar_approved = True, ar_model_id = i, ar_reasons = []\<rparr>,
                    g\<lparr>mr_approved := AList.update (i, mode) i (mr_approved g)\<rparr>)))"

definition model_for_executor :: "string \<Rightarrow> string \<Rightarrow> model_registry \<Rightarrow> model_card result" where
  "model_for_executor i mode g =
     (if map_of (mr_approved g) (i, mode) \<noteq> Some i
      then Inl (ValueError (''model_not_approved:'' @ i @ '':'' @ mode))
      else case map_of (mr_cards g) i of None \<Rightarrow> Inl (KeyError i) | Some c \<Rightarrow> Inr c)"

definition get_card :: "string \<Rightarrow> model_registry \<Rightarrow> model_card option" where
  "get_card i g = map_of (mr_cards g) i"

record rollback_plan =
  rb_allowed :: bool
  rb_model_id :: string
  rb_rollback_model_id :: "string option"
  rb_reason :: string

definition build_model_rollback_plan :: "model_registry \<Rightarrow> string \<Rightarrow> string \<Rightarrow> rollback_plan" where
  "build_model_rollback_plan g i reason =
     (let rollback = (case get_card i g of None \<Rightarrow> None | Some c \<Rightarrow> mc_rollback_model_id c)
      in \<lparr>rb_allowed = (case rollback of None \<Rightarrow> False | Some r \<Rightarrow> r \<noteq> []), rb_model_id = i,
          rb_rollback_model_id = rollback, rb_reason = reason\<rparr>)"

section \<open>Shadow validation and drift\<close>

record shadow_report =
  sr_candidate_model_id :: string
  sr_incumbent_model_id :: string
  sr_passed :: bool
  sr_improvement_ratio :: pyfloat
  sr_promotes_model :: bool

definition mean_abs :: "pyfloat list \<Rightarrow> pyfloat" where
  "mean_abs vs = (if vs = [] then Fin 0 else fquot (py_sum (map fabs vs)) (Fin (of_nat (length vs))))"

definition run_shadow_validation ::
    "string \<Rightarrow> string \<Rightarrow> pyfloat list \<Rightarrow> pyfloat list \<Rightarrow> pyfloat \<Rightarrow> shadow_report" where
  "run_shadow_validation candidate_id incumbent_id candidate_errors incumbent_errors min_ratio =
     (let candidate = mean_abs candidate_errors;
          incumbent = mean_abs incumbent_errors;
          improvement = (if fle incumbent (Fin 0) then Fin 0
                         else fquot (fsub incumbent candidate) incumbent)
      in \<lparr>sr_candidate_model_id = candidate_id, sr_incumbent_model_id = incumbent_id,
          sr_passed = fle min_ratio improvement, sr_improvement_ratio = round_nd 12 improvement,
          sr_promotes_model = False\<rparr>)"

record drift_report =
  dr_warnings :: "string list"
  dr_studies :: "string list"
  dr_direct_trading_change_allowed :: bool

fun replace_all :: "string \<Rightarrow> string \<Rightarrow> string \<Rightarrow> string" where
  "replace_all p r [] = []"
| "replace_all p r (c # s) =
     (if p \<noteq> [] \<and> starts_with p (c # s) then r @ replace_all p r (drop (length p - 1) s)
      else c # replace_all p r s)"

definition detect_learning_drift ::
    "(string, pyfloat) dict \<Rightarrow> (string, pyfloat) dict \<Rightarrow> drift_report" where
  "detect_learning_drift metrics thresholds =
     (let warnings = map (\<lambda>(n, v). ''drift:'' @ n)
            (filter (\<lambda>(n, v). flt (dget thresholds n PInf) (fabs v)) (sort_key fst metrics))
      in \<lparr>dr_warnings = warnings, dr_studies = map (replace_all ''drift:'' ''study:'') warnings,
          dr_direct_trading_change_allowed = False\<rparr>)"

section \<open>The dataset\<close>

record learning_dataset =
  ls_status :: string
  ls_rows :: "(string \<times> pyval) list list"
  ls_direct_trading_change_allowed :: bool

type_synonym row = "(string \<times> pyval) list"

definition first_by_order :: "row list \<Rightarrow> string \<Rightarrow> row" where
  "first_by_order rows order_id =
     (case find (\<lambda>r. py_str (pget r ''order_id'') = order_id) rows of None \<Rightarrow> [] | Some r \<Rightarrow> r)"

definition mean_of :: "pyfloat list \<Rightarrow> pyfloat" where
  "mean_of vs = (if vs = [] then Fin 0
                 else round_nd 12 (fquot (py_sum vs) (Fin (of_nat (length vs)))))"

record dataset_inputs =
  di_orders :: "row list"
  di_fills :: "row list"
  di_rejects :: "row list"
  di_paper_session_telemetry :: "row list"
  di_websocket_quality :: row
  di_book_depth :: "row list"
  di_spread_history :: "pyfloat list"
  di_funding_history :: "pyfloat list"
  di_portfolio_exposures :: "(string, pyfloat) dict"
  di_artifact_performance :: row
  di_validation_history :: "row list"

definition dataset_row :: "dataset_inputs \<Rightarrow> row \<Rightarrow> row result" where
  "dataset_row x order =
     (let order_id = py_str (pget_or order ''order_id'' (PStr []));
          symbol = py_str (pget_or order ''symbol'' (PStr []));
          telemetry = first_by_order (di_paper_session_telemetry x) order_id;
          fill = dget (dict_of (map (\<lambda>r. (py_str (pget r ''order_id''), r)) (di_fills x))) order_id [];
          depth = dget (dict_of (map (\<lambda>r. (py_str (pget r ''symbol''), r)) (di_book_depth x))) symbol []
      in rbind (field_float fill ''fill_price'') (\<lambda>price.
         rbind (field_float fill ''qty'') (\<lambda>qty.
         rbind (field_float telemetry ''spread_bps'') (\<lambda>spread.
         rbind (field_float telemetry ''slip_bps'') (\<lambda>slip.
         rbind (field_float (di_websocket_quality x) ''score'') (\<lambda>score.
         rbind (field_float depth ''depth_notional'') (\<lambda>notional.
           Inr [(''order_id'', PStr order_id), (''symbol'', PStr symbol),
                (''side'', PStr (py_str (pget_or order ''side'' (PStr [])))),
                (''fill_price'', PFloat price), (''qty'', PFloat qty), (''spread_bps'', PFloat spread),
                (''slip_bps'', PFloat slip), (''websocket_quality_score'', PFloat score),
                (''depth_notional'', PFloat notional),
                (''avg_spread_bps'', PFloat (mean_of (di_spread_history x))),
                (''avg_funding'', PFloat (mean_of (di_funding_history x))),
                (''portfolio_exposure'', PFloat (dget (di_portfolio_exposures x) symbol (Fin 0))),
                (''artifact_performance'', PDict (di_artifact_performance x)),
                (''validation_history_count'', PInt (int (length (di_validation_history x)))),
                (''reject_count'', PInt (int (length (di_rejects x))))])))))))"

definition build_learning_dataset :: "dataset_inputs \<Rightarrow> learning_dataset result" where
  "build_learning_dataset x =
     rbind (rmap (dataset_row x) (di_orders x)) (\<lambda>rows.
       Inr \<lparr>ls_status = (if rows = [] then ''empty'' else ''ready''), ls_rows = rows,
            ls_direct_trading_change_allowed = False\<rparr>)"

section \<open>What the executor is served\<close>

datatype registry_op = Register model_card | Approve string string

fun registry_step :: "registry_op \<Rightarrow> model_registry \<Rightarrow> model_registry" where
  "registry_step (Register c) g = register_candidate c g"
| "registry_step (Approve i mode) g = snd (approve_model i mode g)"

definition registry_run :: "registry_op list \<Rightarrow> model_registry" where
  "registry_run ops = fold registry_step ops mr_new"

lemma registry_run_snoc: "registry_run (ops @ [x]) = registry_step x (registry_run ops)"
  by (simp add: registry_run_def)

lemma approve_model_cases:
  "approve_model i mode g = (res, h) \<Longrightarrow>
     (ar_approved res \<and> h = g\<lparr>mr_approved := AList.update (i, mode) i (mr_approved g)\<rparr>
       \<and> (\<exists>c. map_of (mr_cards g) i = Some c \<and> card_issues c = [] \<and> mode \<in> set (mc_approved_modes c)))
     \<or> (\<not> ar_approved res \<and> h = g)"
  by (auto simp: approve_model_def validate_model_card_def Let_def split: option.splits if_splits)

text \<open>The card an approval looked at, and that no later operation replaced it.\<close>

definition approved_card :: "registry_op list \<Rightarrow> string \<Rightarrow> string \<Rightarrow> model_card \<Rightarrow> bool" where
  "approved_card ops i mode c0 \<longleftrightarrow>
     get_card i (registry_run ops) = Some c0 \<and> card_issues c0 = [] \<and> mode \<in> set (mc_approved_modes c0)
     \<and> ar_approved (fst (approve_model i mode (registry_run ops)))"

lemma approved_has_origin:
  "map_of (mr_approved (registry_run ops)) (i, mode) = Some j \<Longrightarrow>
     j = i \<and> (\<exists>pre post c0. ops = pre @ Approve i mode # post \<and> approved_card pre i mode c0)"
proof (induction ops rule: rev_induct)
  case (snoc x ops)
  show ?case
  proof (cases x)
    case (Register c)
    then have "map_of (mr_approved (registry_run ops)) (i, mode) = Some j"
      using snoc.prems by (simp add: registry_run_snoc register_candidate_def)
    from snoc.IH [OF this] show ?thesis by (metis append.assoc append_Cons)
  next
    case (Approve k m)
    obtain res h where a: "approve_model k m (registry_run ops) = (res, h)" by fastforce
    show ?thesis
    proof (cases "map_of (mr_approved (registry_run ops)) (i, mode) = Some j")
      case True
      from snoc.IH [OF this] show ?thesis by (metis append.assoc append_Cons)
    next
      case False
      with snoc.prems Approve a approve_model_cases [OF a]
      have "ar_approved res" "(i, mode) = (k, m)" "j = i"
        "\<exists>c. map_of (mr_cards (registry_run ops)) i = Some c \<and> card_issues c = [] \<and> mode \<in> set (mc_approved_modes c)"
        by (auto simp: registry_run_snoc split: if_splits)
      with Approve a show ?thesis
        by (intro conjI exI [of _ ops] exI [of _ "[]"]) (auto simp: approved_card_def get_card_def)
    qed
  qed
qed (simp add: registry_run_def mr_new_def)

lemma card_kept:
  assumes "\<forall>c. Register c \<in> set post \<longrightarrow> mc_model_id c \<noteq> i"
  shows "map_of (mr_cards (fold registry_step post g)) i = map_of (mr_cards g) i"
  using assms
proof (induction post arbitrary: g)
  case (Cons x post)
  have "map_of (mr_cards (registry_step x g)) i = map_of (mr_cards g) i"
    using Cons.prems approve_model_cases
    by (cases x) (auto simp: register_candidate_def approve_model_def Let_def split: option.split)
  with Cons show ?case by simp
qed simp

text \<open>C39. Whatever card the executor is served for a mode, that model was approved for the mode
  earlier, when the registry held a valid card for it that allows the mode; and if no card was
  registered under the same id since, it is that very card.\<close>

theorem executor_model_was_approved:
  assumes "model_for_executor i mode (registry_run ops) = Inr c"
  shows "\<exists>pre post c0. ops = pre @ Approve i mode # post \<and> approved_card pre i mode c0
    \<and> ((\<forall>d. Register d \<in> set post \<longrightarrow> mc_model_id d \<noteq> i) \<longrightarrow> c = c0)"
proof -
  from assms have a: "map_of (mr_approved (registry_run ops)) (i, mode) = Some i"
    and c: "map_of (mr_cards (registry_run ops)) i = Some c"
    by (auto simp: model_for_executor_def split: if_splits option.splits)
  from approved_has_origin [OF a] obtain pre post c0
    where p: "ops = pre @ Approve i mode # post" "approved_card pre i mode c0" by blast
  have "c = c0" if none: "\<forall>d. Register d \<in> set post \<longrightarrow> mc_model_id d \<noteq> i"
  proof -
    have "registry_run ops = fold registry_step (Approve i mode # post) (registry_run pre)"
      by (simp add: p(1) registry_run_def)
    moreover have "map_of (mr_cards (fold registry_step (Approve i mode # post) (registry_run pre))) i
        = map_of (mr_cards (registry_run pre)) i"
      using none by (intro card_kept) auto
    ultimately show ?thesis using c p(2) by (simp add: approved_card_def get_card_def)
  qed
  with p show ?thesis by blast
qed

definition sample_card :: "string list \<Rightarrow> bool \<Rightarrow> model_card" where
  "sample_card modes shadow =
     \<lparr>mc_model_id = ''m1'', mc_parent_model_id = None, mc_family = ''ImpactModel'',
      mc_training_window = ''2024'', mc_symbols_used = [''BTCUSDT''], mc_features_used = [''depth''],
      mc_target = ''impact'', mc_validation_metric = [(''mae'', Fin 1)],
      mc_shadow_result = [(''passed'', PBool shadow)], mc_paper_result = [(''passed'', PBool True)],
      mc_approved_modes = modes, mc_known_failures = [], mc_rollback_model_id = Some ''m0''\<rparr>"

lemmas sample_card_simps = sample_card_def card_issues_def model_families_def no_rollback_def
  registry_run_def mr_new_def register_candidate_def approve_model_def validate_model_card_def
  model_for_executor_def

theorem executor_model_was_approved_witness:
  "let ops = [Register (sample_card [''paper''] True), Approve ''m1'' ''paper''] in
   model_for_executor ''m1'' ''paper'' (registry_run ops) = Inr (sample_card [''paper''] True)
   \<and> (\<exists>pre post c0. ops = pre @ Approve ''m1'' ''paper'' # post \<and> approved_card pre ''m1'' ''paper'' c0)"
proof -
  have "model_for_executor ''m1'' ''paper''
      (registry_run [Register (sample_card [''paper''] True), Approve ''m1'' ''paper''])
    = Inr (sample_card [''paper''] True)"
    by (simp add: sample_card_simps)
  from this executor_model_was_approved [OF this] show ?thesis unfolding Let_def by blast
qed

text \<open>An approval outlives its card: registering another card under an approved id, here one
  whose shadow validation failed, makes the executor use that card although no approval ever
  looked at it and approving it now would be refused.\<close>

lemma unapproved_card_is_served:
  "let bad = sample_card [''paper''] False;
       g = registry_run [Register (sample_card [''paper''] True), Approve ''m1'' ''paper'', Register bad]
   in model_for_executor ''m1'' ''paper'' g = Inr bad
      \<and> ar_reasons (fst (approve_model ''m1'' ''paper'' g)) = [''shadow_validation_not_passed'']"
  by (simp add: sample_card_simps Let_def)

end
