(* ===== verification/Universe.thy ===== *)
theory Universe
  imports PyText Contracts
begin

text \<open>
  The symbol universe (\<open>universe/\<close>): liquidity rings, the manifest of symbol states with its
  digest, the executor's symbol filter, admission, demotion, quarantine and score cards.
\<close>

section \<open>Rings\<close>

datatype ring = RING_0_CORE | RING_1_LIQUID_MAJORS | RING_2_LARGE_CAP_ALTS | RING_3_RESEARCH | RING_4_EXCLUDED

fun ring_value :: "ring \<Rightarrow> string" where
  "ring_value RING_0_CORE = ''RING_0_CORE''"
| "ring_value RING_1_LIQUID_MAJORS = ''RING_1_LIQUID_MAJORS''"
| "ring_value RING_2_LARGE_CAP_ALTS = ''RING_2_LARGE_CAP_ALTS''"
| "ring_value RING_3_RESEARCH = ''RING_3_RESEARCH''"
| "ring_value RING_4_EXCLUDED = ''RING_4_EXCLUDED''"

fun ring_weight_cap :: "ring \<Rightarrow> pyfloat" where
  "ring_weight_cap RING_0_CORE = fl (1 / 2)"
| "ring_weight_cap RING_1_LIQUID_MAJORS = fl (3 / 10)"
| "ring_weight_cap RING_2_LARGE_CAP_ALTS = fl (15 / 100)"
| "ring_weight_cap RING_3_RESEARCH = Fin 0"
| "ring_weight_cap RING_4_EXCLUDED = Fin 0"

definition ring_for_symbol :: "string \<Rightarrow> ring" where
  "ring_for_symbol s =
     (if s \<in> set [''BTCUSDT'', ''ETHUSDT''] then RING_0_CORE
      else if s \<in> set [''SOLUSDT'', ''BNBUSDT'', ''XRPUSDT''] then RING_1_LIQUID_MAJORS
      else if ends_with ''USDT'' s then RING_3_RESEARCH
      else RING_4_EXCLUDED)"

definition discover_research_symbols :: "string list \<Rightarrow> (string, string) dict" where
  "discover_research_symbols symbols =
     dict_of (map (\<lambda>s. (s, ring_value (ring_for_symbol s))) (filter (ends_with ''USDT'') symbols))"

section \<open>The manifest\<close>

datatype symbol_state =
    EXCLUDED | RESEARCH_ONLY | SHADOW | PAPER_ALLOWED | PAPER_ACTIVE | U_REDUCE_ONLY
  | U_QUARANTINED | U_RETIRED

fun symbol_state_value :: "symbol_state \<Rightarrow> string" where
  "symbol_state_value EXCLUDED = ''EXCLUDED''"
| "symbol_state_value RESEARCH_ONLY = ''RESEARCH_ONLY''"
| "symbol_state_value SHADOW = ''SHADOW''"
| "symbol_state_value PAPER_ALLOWED = ''PAPER_ALLOWED''"
| "symbol_state_value PAPER_ACTIVE = ''PAPER_ACTIVE''"
| "symbol_state_value U_REDUCE_ONLY = ''REDUCE_ONLY''"
| "symbol_state_value U_QUARANTINED = ''QUARANTINED''"
| "symbol_state_value U_RETIRED = ''RETIRED''"

definition paper_states :: "symbol_state list" where
  "paper_states = [PAPER_ALLOWED, PAPER_ACTIVE, U_REDUCE_ONLY]"

record universe_symbol =
  us_symbol :: string
  us_state :: symbol_state
  us_ring :: string
  us_reasons :: "string list"

record universe_manifest =
  um_universe_id :: string
  um_approved_by :: string
  um_symbols :: "(string, universe_symbol) dict"
  um_manifest_hash :: string

definition symbol_dict :: "universe_symbol \<Rightarrow> pyval" where
  "symbol_dict u = PDict
     [(''symbol'', PStr (us_symbol u)), (''state'', PStr (symbol_state_value (us_state u))),
      (''ring'', PStr (us_ring u)), (''reasons'', PList (map PStr (us_reasons u)))]"

definition um_create :: "stable_hash \<Rightarrow> string \<Rightarrow> string \<Rightarrow> universe_manifest" where
  "um_create H universe_id approved_by =
     \<lparr>um_universe_id = universe_id, um_approved_by = approved_by, um_symbols = [],
      um_manifest_hash = H (PDict [])\<rparr>"

definition um_payload :: "universe_manifest \<Rightarrow> pyval" where
  "um_payload m = PDict
     [(''universe_id'', PStr (um_universe_id m)), (''approved_by'', PStr (um_approved_by m)),
      (''symbols'', PDict (map (map_prod id symbol_dict) (sort_key fst (um_symbols m))))]"

definition um_with_hash :: "stable_hash \<Rightarrow> universe_manifest \<Rightarrow> universe_manifest" where
  "um_with_hash H m = m\<lparr>um_manifest_hash := H (um_payload m)\<rparr>"

definition um_add_symbol ::
    "stable_hash \<Rightarrow> string \<Rightarrow> string \<Rightarrow> universe_manifest \<Rightarrow> universe_manifest" where
  "um_add_symbol H symbol ring m =
     um_with_hash H (m\<lparr>um_symbols := AList.update symbol
        \<lparr>us_symbol = symbol, us_state = RESEARCH_ONLY, us_ring = ring, us_reasons = [''new_symbol'']\<rparr>
        (um_symbols m)\<rparr>)"

definition um_with_state ::
    "stable_hash \<Rightarrow> string \<Rightarrow> symbol_state \<Rightarrow> string \<Rightarrow> universe_manifest \<Rightarrow> universe_manifest result" where
  "um_with_state H symbol state reason m =
     (case map_of (um_symbols m) symbol of
        None \<Rightarrow> Inl (KeyError (''symbol_not_in_manifest:'' @ symbol))
      | Some u \<Rightarrow> Inr (um_with_hash H (m\<lparr>um_symbols := AList.update symbol
          (u\<lparr>us_state := state, us_reasons := us_reasons u @ [reason]\<rparr>) (um_symbols m)\<rparr>)))"

definition um_paper_allowed :: "universe_manifest \<Rightarrow> string \<Rightarrow> bool" where
  "um_paper_allowed m symbol =
     (case map_of (um_symbols m) symbol of None \<Rightarrow> False | Some u \<Rightarrow> us_state u \<in> set paper_states)"

definition um_to_dict :: "universe_manifest \<Rightarrow> pyval" where
  "um_to_dict m = PDict
     [(''universe_id'', PStr (um_universe_id m)), (''approved_by'', PStr (um_approved_by m)),
      (''manifest_hash'', PStr (um_manifest_hash m)),
      (''symbols'', PDict (map (map_prod id symbol_dict) (sort_key fst (um_symbols m))))]"

record filter_decision =
  fd_allowed :: bool
  fd_reasons :: "string list"

definition executor_symbol_allowed :: "universe_manifest \<Rightarrow> string \<Rightarrow> filter_decision" where
  "executor_symbol_allowed m symbol =
     (if symbol \<notin> dkeys (um_symbols m)
      then \<lparr>fd_allowed = False, fd_reasons = [''symbol_not_in_manifest'']\<rparr>
      else if \<not> um_paper_allowed m symbol
      then \<lparr>fd_allowed = False, fd_reasons = [''symbol_not_paper_allowed'']\<rparr>
      else \<lparr>fd_allowed = True, fd_reasons = []\<rparr>)"

section \<open>Admission, demotion, quarantine, scores\<close>

record admission_inputs =
  ai_exchange_status_trading :: bool
  ai_usdm_linear_perp :: bool
  ai_history_1h :: bool
  ai_history_15m :: bool
  ai_funding_history :: bool
  ai_mark_price_history :: bool
  ai_open_interest :: bool
  ai_book_depth :: bool
  ai_spread :: bool
  ai_volume :: bool
  ai_capacity :: bool
  ai_slippage_model_confidence :: bool
  ai_funding_stability :: bool
  ai_correlation_cluster :: bool
  ai_scenario_robustness :: bool
  ai_paper_dry_run :: bool

definition admission_checks :: "(string \<times> (admission_inputs \<Rightarrow> bool)) list" where
  "admission_checks =
     [(''exchange_status_trading'', ai_exchange_status_trading),
      (''usdm_linear_perp'', ai_usdm_linear_perp), (''history_1h'', ai_history_1h),
      (''history_15m'', ai_history_15m), (''funding_history'', ai_funding_history),
      (''mark_price_history'', ai_mark_price_history), (''open_interest'', ai_open_interest),
      (''book_depth'', ai_book_depth), (''spread'', ai_spread), (''volume'', ai_volume),
      (''capacity'', ai_capacity), (''slippage_model_confidence'', ai_slippage_model_confidence),
      (''funding_stability'', ai_funding_stability),
      (''correlation_cluster'', ai_correlation_cluster),
      (''scenario_robustness'', ai_scenario_robustness), (''paper_dry_run'', ai_paper_dry_run)]"

record admission_decision =
  ad_paper_eligible :: bool
  ad_rejections :: "string list"

definition evaluate_symbol_admission :: "admission_inputs \<Rightarrow> admission_decision" where
  "evaluate_symbol_admission x =
     (let rejections = failed_checks admission_checks x
      in \<lparr>ad_paper_eligible = (rejections = []), ad_rejections = rejections\<rparr>)"

record demotion_decision =
  de_target_state :: symbol_state
  de_reasons :: "string list"

definition evaluate_symbol_demotion ::
    "bool \<Rightarrow> bool \<Rightarrow> bool \<Rightarrow> bool \<Rightarrow> bool \<Rightarrow> bool \<Rightarrow> demotion_decision" where
  "evaluate_symbol_demotion data_gap liquidity_failure reconciliation_issue slippage_shock
       funding_shock repeated_strategy_failure =
     (let reasons = flag data_gap ''data_gap'' @ flag liquidity_failure ''liquidity_failure''
            @ flag reconciliation_issue ''reconciliation_issue''
            @ flag slippage_shock ''slippage_shock'' @ flag funding_shock ''funding_shock''
            @ flag repeated_strategy_failure ''repeated_strategy_failure''
      in \<lparr>de_target_state = (if reasons \<noteq> [] then U_REDUCE_ONLY else PAPER_ACTIVE),
          de_reasons = reasons\<rparr>)"

definition evaluate_symbol_quarantine :: "bool \<Rightarrow> bool \<Rightarrow> bool \<Rightarrow> demotion_decision" where
  "evaluate_symbol_quarantine data_gap reconciliation_issue venue_rule_change =
     (let reasons = flag data_gap ''data_gap'' @ flag reconciliation_issue ''reconciliation_issue''
            @ flag venue_rule_change ''venue_rule_change''
      in \<lparr>de_target_state = (if reasons \<noteq> [] then U_QUARANTINED else PAPER_ACTIVE),
          de_reasons = reasons\<rparr>)"

record symbol_scorecard =
  ss_symbol :: string
  ss_data_quality :: pyfloat
  ss_liquidity :: pyfloat
  ss_capacity :: pyfloat
  ss_funding_behavior :: pyfloat
  ss_correlation :: pyfloat
  ss_validation :: pyfloat
  ss_paper_health :: pyfloat

definition total_score :: "symbol_scorecard \<Rightarrow> pyfloat" where
  "total_score c = round_nd 12 (fquot (py_sum
     [ss_data_quality c, ss_liquidity c, ss_capacity c, ss_funding_behavior c, ss_correlation c,
      ss_validation c, ss_paper_health c]) (Fin 7))"

section \<open>Admission is a gate\<close>

interpretation admission: check_gate admission_checks
    "\<lambda>x. ad_rejections (evaluate_symbol_admission x)"
    "\<lambda>x. ad_paper_eligible (evaluate_symbol_admission x)"
  by unfold_locales (simp_all add: evaluate_symbol_admission_def admission_checks_def Let_def)

section \<open>Manifest histories\<close>

datatype manifest_op = AddSymbol string string | SetState string symbol_state string

fun manifest_step :: "stable_hash \<Rightarrow> manifest_op \<Rightarrow> universe_manifest \<Rightarrow> universe_manifest" where
  "manifest_step H (AddSymbol s r) m = um_add_symbol H s r m"
| "manifest_step H (SetState s st why) m =
     (case um_with_state H s st why m of Inl _ \<Rightarrow> m | Inr m' \<Rightarrow> m')"

definition manifest_run :: "stable_hash \<Rightarrow> string \<Rightarrow> string \<Rightarrow> manifest_op list \<Rightarrow> universe_manifest" where
  "manifest_run H uid who ops = fold (manifest_step H) ops (um_create H uid who)"

text \<open>The state of a symbol according to the history alone: research after it was added, then
  whatever was set last.\<close>

fun state_after :: "string \<Rightarrow> manifest_op list \<Rightarrow> symbol_state option \<Rightarrow> symbol_state option" where
  "state_after s [] st = st"
| "state_after s (AddSymbol t r # ops) st = state_after s ops (if t = s then Some RESEARCH_ONLY else st)"
| "state_after s (SetState t new why # ops) st =
     state_after s ops (if t = s \<and> st \<noteq> None then Some new else st)"

definition manifest_ok :: "stable_hash \<Rightarrow> universe_manifest \<Rightarrow> bool" where
  "manifest_ok H m \<longleftrightarrow> dict_ok (um_symbols m) \<and> (\<forall>(s, u) \<in> set (um_symbols m). us_symbol u = s)
     \<and> (um_symbols m \<noteq> [] \<longrightarrow> um_manifest_hash m = H (um_payload m))"

lemma payload_hash_irrelevant [simp]: "um_payload (m\<lparr>um_manifest_hash := h\<rparr>) = um_payload m"
  by (simp add: um_payload_def)

lemma update_keeps_all:
  "\<forall>(s, u) \<in> set d. P s u \<Longrightarrow> P k v \<Longrightarrow> \<forall>(s, u) \<in> set (AList.update k v d). P s u"
  by (induction d) auto

lemma set_entry_ok:
  assumes "manifest_ok H m" "us_symbol u = s"
  shows "manifest_ok H (um_with_hash H (m\<lparr>um_symbols := AList.update s u (um_symbols m)\<rparr>))"
proof -
  have "\<forall>(t, w) \<in> set (AList.update s u (um_symbols m)). us_symbol w = t"
    using assms by (intro update_keeps_all) (auto simp: manifest_ok_def)
  then show ?thesis
    using assms by (simp add: manifest_ok_def um_with_hash_def)
qed

lemma manifest_step_ok: "manifest_ok H m \<Longrightarrow> manifest_ok H (manifest_step H x m)"
proof (cases x)
  case (AddSymbol s r)
  assume "manifest_ok H m"
  then show ?thesis by (simp add: AddSymbol um_add_symbol_def set_entry_ok)
next
  case (SetState s st why)
  assume ok: "manifest_ok H m"
  then have "us_symbol u = s" if "map_of (um_symbols m) s = Some u" for u
    using that by (auto simp: manifest_ok_def dest: map_of_SomeD)
  then show ?thesis
    using ok by (auto simp: SetState um_with_state_def split: option.split intro: set_entry_ok)
qed

lemma manifest_run_ok: "manifest_ok H m \<Longrightarrow> manifest_ok H (fold (manifest_step H) ops m)"
  by (induction ops arbitrary: m) (simp_all add: manifest_step_ok)

lemma manifest_run_state:
  "map_option us_state (map_of (um_symbols (fold (manifest_step H) ops m)) s)
   = state_after s ops (map_option us_state (map_of (um_symbols m) s))"
proof (induction ops arbitrary: m)
  case (Cons x ops)
  show ?case
  proof (cases x)
    case (AddSymbol t r)
    then show ?thesis using Cons by (simp add: um_add_symbol_def um_with_hash_def)
  next
    case (SetState t st why)
    then show ?thesis
      using Cons by (auto simp: um_with_state_def um_with_hash_def split: option.split)
  qed
qed simp

text \<open>Over every history of a manifest, entries stay under their own symbol with one entry
  each and the digest is that of the current contents; and the executor is allowed a symbol
  exactly when the last thing said about it, since it was last added, is a paper state.  A symbol
  that is only added is never tradable.\<close>

lemma manifest_history_decides:
  "manifest_ok H (manifest_run H uid who ops)
   \<and> (fd_allowed (executor_symbol_allowed (manifest_run H uid who ops) s)
      \<longleftrightarrow> (case state_after s ops None of None \<Rightarrow> False | Some st \<Rightarrow> st \<in> set paper_states))"
proof
  show "manifest_ok H (manifest_run H uid who ops)"
    unfolding manifest_run_def
    by (rule manifest_run_ok) (simp add: manifest_ok_def um_create_def)
  have "map_option us_state (map_of (um_symbols (manifest_run H uid who ops)) s) = state_after s ops None"
    by (simp add: manifest_run_def manifest_run_state) (simp add: um_create_def)
  then show "fd_allowed (executor_symbol_allowed (manifest_run H uid who ops) s)
      \<longleftrightarrow> (case state_after s ops None of None \<Rightarrow> False | Some st \<Rightarrow> st \<in> set paper_states)"
    by (auto simp: executor_symbol_allowed_def um_paper_allowed_def dkeys_iff not_dkeys_iff
        split: option.splits)
qed

text \<open>The state of a manifest entry has no transition table: a retired symbol goes straight back to
  paper trading, and a symbol that is added again loses its quarantine and its history.\<close>

lemma retired_symbol_returns:
  "state_after s [AddSymbol s r, SetState s U_RETIRED w1, SetState s PAPER_ACTIVE w2] None
   = Some PAPER_ACTIVE"
  by simp

end
