(* ===== verification/Ops.thy ===== *)
theory Ops
  imports PyText Contracts
begin

text \<open>
  Operational guards (\<open>ops/\<close>): configuration diff, kill switch, mode guard, profile permissions,
  release checklist, and the scan for secrets in a nested configuration.
\<close>

section \<open>Configuration diff and kill switch\<close>

definition diff_config ::
    "(string \<times> pyval) list \<Rightarrow> (string \<times> pyval) list \<Rightarrow> (string \<times> (string \<times> pyval) list) list" where
  "diff_config before after =
     map (\<lambda>k. (k, [(''before'', pget before k), (''after'', pget after k)]))
       (filter (\<lambda>k. \<not> py_eq (pget before k) (pget after k))
         (sorted_set (map fst before @ map fst after)))"

record kill_switch =
  ks_engaged :: bool
  ks_force_reduce_only_if_configured :: bool

record kill_switch_result =
  kr_allowed :: bool
  kr_cancel_or_block_new_orders :: bool
  kr_force_reduce_only :: bool
  kr_halt_agent_tools :: bool
  kr_audit_event :: "(string \<times> pyval) list"

definition kill_switch_evaluate :: "kill_switch \<Rightarrow> string \<Rightarrow> kill_switch_result" where
  "kill_switch_evaluate k action =
     (let blocked = ks_engaged k
      in \<lparr>kr_allowed = (\<not> blocked), kr_cancel_or_block_new_orders = blocked,
          kr_force_reduce_only = (blocked \<and> ks_force_reduce_only_if_configured k),
          kr_halt_agent_tools = blocked,
          kr_audit_event = [(''action'', PStr action), (''kill_switch_engaged'', PBool (ks_engaged k))]\<rparr>)"

section \<open>Modes, tools, releases\<close>

record guard_result =
  gd_passed :: bool
  gd_reasons :: "string list"

definition of_reasons :: "string list \<Rightarrow> guard_result" where
  "of_reasons reasons = \<lparr>gd_passed = (reasons = []), gd_reasons = reasons\<rparr>"

record mode_guard =
  md_allowed_modes :: "string list"
  md_live_disabled_enforced :: bool

definition norm_mode :: "string \<Rightarrow> string" where
  "norm_mode m = str_lower (str_strip m)"

definition validate_mode_transition :: "mode_guard \<Rightarrow> string \<Rightarrow> string \<Rightarrow> guard_result" where
  "validate_mode_transition g current_mode target_mode =
     (let current = norm_mode current_mode; target = norm_mode target_mode
      in of_reasons
           (flag (target \<notin> set (map norm_mode (md_allowed_modes g))) (''mode_not_allowed:'' @ target)
            @ flag (md_live_disabled_enforced g \<and> target = ''live'') ''live_disabled_enforced''
            @ flag (current = ''paper'' \<and> target = ''live'') ''paper_to_live_forbidden''))"

definition forbidden_tools :: "string list" where
  "forbidden_tools =
     [''place_order'', ''set_leverage'', ''change_margin_mode'', ''promote_artifact_direct'',
      ''disable_circuit_breaker'']"

record profile_permissions =
  pf_profile :: string
  pf_allowed_tools :: "string list"
  pf_denied_tools :: "string list"

definition paper_execute_profile :: profile_permissions where
  "paper_execute_profile =
     \<lparr>pf_profile = ''paper_execute'',
      pf_allowed_tools = [''get_validation_protocol'', ''list_layers'', ''list_artifacts''],
      pf_denied_tools = forbidden_tools\<rparr>"

definition is_tool_allowed :: "profile_permissions \<Rightarrow> string \<Rightarrow> bool" where
  "is_tool_allowed p tool \<longleftrightarrow> tool \<in> set (pf_allowed_tools p) \<and> tool \<notin> set (pf_denied_tools p)"

record release_checklist =
  rc_local_smoke_passed :: bool
  rc_local_soak_passed :: bool
  rc_no_live_keys :: bool
  rc_live_disabled :: bool
  rc_kill_switch_tested :: bool
  rc_profile_permissions_loaded :: bool

definition release_checks :: "(string \<times> (release_checklist \<Rightarrow> bool)) list" where
  "release_checks =
     [(''local_smoke_not_passed'', rc_local_smoke_passed),
      (''local_soak_not_passed'', rc_local_soak_passed), (''live_keys_present'', rc_no_live_keys),
      (''live_not_disabled'', rc_live_disabled), (''kill_switch_not_tested'', rc_kill_switch_tested),
      (''profile_permissions_not_loaded'', rc_profile_permissions_loaded)]"

definition release_evaluate :: "release_checklist \<Rightarrow> guard_result" where
  "release_evaluate r = of_reasons (failed_checks release_checks r)"

interpretation release: check_gate release_checks "\<lambda>r. gd_reasons (release_evaluate r)"
    "\<lambda>r. gd_passed (release_evaluate r)"
  by unfold_locales (simp_all add: release_evaluate_def of_reasons_def release_checks_def)

section \<open>The scan for secrets\<close>

definition private_key_tokens :: "string list" where
  "private_key_tokens = [''API_KEY'', ''SECRET'', ''PRIVATE_KEY'']"

definition private_key :: "string \<Rightarrow> bool" where
  "private_key key \<longleftrightarrow> list_ex (\<lambda>token. has_sub token (str_upper key)) private_key_tokens"

definition sub_path :: "string \<Rightarrow> string \<Rightarrow> string" where
  "sub_path prefix key = (if prefix = [] then key else prefix @ ''.'' @ key)"

definition index_path :: "string \<Rightarrow> nat \<Rightarrow> string" where
  "index_path prefix i = (if prefix = [] then [] else prefix) @ ''['' @ nat_text i @ '']''"

fun secret_field_paths :: "pyval \<Rightarrow> string \<Rightarrow> string list"
  and dict_secret_paths :: "(string \<times> pyval) list \<Rightarrow> string \<Rightarrow> string list"
  and list_secret_paths :: "pyval list \<Rightarrow> string \<Rightarrow> nat \<Rightarrow> string list" where
  "secret_field_paths (PDict d) prefix = dict_secret_paths d prefix"
| "secret_field_paths (PList vs) prefix = list_secret_paths vs prefix 0"
| "secret_field_paths PNone prefix = []"
| "secret_field_paths (PBool b) prefix = []"
| "secret_field_paths (PInt i) prefix = []"
| "secret_field_paths (PFloat x) prefix = []"
| "secret_field_paths (PStr s) prefix = []"
| "dict_secret_paths [] prefix = []"
| "dict_secret_paths ((key, child) # d) prefix =
     flag (private_key key) (sub_path prefix key)
     @ secret_field_paths child (sub_path prefix key)
     @ dict_secret_paths d prefix"
| "list_secret_paths [] prefix i = []"
| "list_secret_paths (child # vs) prefix i =
     secret_field_paths child (index_path prefix i) @ list_secret_paths vs prefix (Suc i)"

definition secrets_scan :: "(string \<times> pyval) list \<Rightarrow> guard_result" where
  "secrets_scan config =
     of_reasons (map (\<lambda>p. ''private_key_field:'' @ p) (secret_field_paths (PDict config) []))"

text \<open>The keys at any depth of a value, as a relation of its own.\<close>

inductive key_within :: "string \<Rightarrow> pyval \<Rightarrow> bool" where
  here: "(k, v) \<in> set d \<Longrightarrow> key_within k (PDict d)"
| in_dict: "(j, v) \<in> set d \<Longrightarrow> key_within k v \<Longrightarrow> key_within k (PDict d)"
| in_list: "v \<in> set vs \<Longrightarrow> key_within k v \<Longrightarrow> key_within k (PList vs)"

inductive_simps key_within_simps [simp]:
  "key_within k (PDict d)" "key_within k (PList vs)"
  "key_within k PNone" "key_within k (PBool b)" "key_within k (PInt i)" "key_within k (PFloat x)"
  "key_within k (PStr s)"

text \<open>Where a key occurs: the field with its path, at any depth, written the way the scan writes paths.\<close>

inductive field_at :: "pyval \<Rightarrow> string \<Rightarrow> string \<Rightarrow> string \<Rightarrow> bool" where
  here: "(k, v) \<in> set d \<Longrightarrow> field_at (PDict d) prefix k (sub_path prefix k)"
| below_dict: "(j, v) \<in> set d \<Longrightarrow> field_at v (sub_path prefix j) k p \<Longrightarrow> field_at (PDict d) prefix k p"
| below_list: "i < length vs \<Longrightarrow> field_at (vs ! i) (index_path prefix i) k p \<Longrightarrow> field_at (PList vs) prefix k p"

inductive_simps field_at_simps:
  "field_at (PDict d) prefix k p" "field_at (PList vs) prefix k p" "field_at PNone prefix k p"
  "field_at (PBool b) prefix k p" "field_at (PInt i) prefix k p" "field_at (PFloat x) prefix k p"
  "field_at (PStr s) prefix k p"

lemma field_at_Cons: "field_at (PDict ((j, v) # d)) prefix k p \<longleftrightarrow>
    (k = j \<and> p = sub_path prefix j) \<or> field_at v (sub_path prefix j) k p \<or> field_at (PDict d) prefix k p"
  by (auto simp: field_at_simps(1))

lemma field_at_key: "field_at v prefix k p \<Longrightarrow> key_within k v"
  by (induction rule: field_at.induct) (blast intro: key_within.intros nth_mem)+

lemma key_has_field: "key_within k v \<Longrightarrow> \<exists>p. field_at v prefix k p"
proof (induction arbitrary: prefix rule: key_within.induct)
  case (in_list v vs k)
  then obtain i where "i < length vs" "vs ! i = v" by (metis in_set_conv_nth)
  with in_list.IH [of "index_path prefix i"] show ?case by (blast intro: below_list)
qed (blast intro: field_at.intros)+

definition list_field_at :: "pyval list \<Rightarrow> string \<Rightarrow> nat \<Rightarrow> string \<Rightarrow> string \<Rightarrow> bool" where
  "list_field_at vs prefix i k p \<longleftrightarrow> (\<exists>n < length vs. field_at (vs ! n) (index_path prefix (i + n)) k p)"

lemma list_field_at_Nil [simp]: "\<not> list_field_at [] prefix i k p"
  by (simp add: list_field_at_def)

lemma list_field_at_Cons: "list_field_at (v # vs) prefix i k p \<longleftrightarrow>
    field_at v (index_path prefix i) k p \<or> list_field_at vs prefix (Suc i) k p"
  unfolding list_field_at_def
  by (auto simp: less_Suc_eq_0_disj nth_Cons' gr0_conv_Suc)

lemma secret_paths_exact:
  "set (secret_field_paths v prefix) = {p. \<exists>k. field_at v prefix k p \<and> private_key k}"
  "set (dict_secret_paths d prefix) = {p. \<exists>k. field_at (PDict d) prefix k p \<and> private_key k}"
  "set (list_secret_paths vs prefix i) = {p. \<exists>k. list_field_at vs prefix i k p \<and> private_key k}"
proof (induction v prefix and d prefix and vs prefix i
    rule: secret_field_paths_dict_secret_paths_list_secret_paths.induct)
  case (2 vs prefix)
  then show ?case by (simp add: list_field_at_def field_at_simps(2))
next
  case (9 key child d prefix)
  then show ?case by (auto simp: field_at_Cons)
next
  case (11 child vs prefix i)
  then show ?case by (auto simp: list_field_at_Cons)
qed (simp_all add: field_at_simps)

text \<open>C40. The scan reports exactly the private-key fields of a configuration, each under its path: a reason
  is given for every field at any depth, through dictionaries and lists and also below another
  private-key field, whose name contains one of the tokens in upper case, and there is no other reason.
  It passes exactly when no key at any depth is such a name.\<close>

theorem secrets_scan_complete:
  "set (gd_reasons (secrets_scan config)) =
      {''private_key_field:'' @ p | p k. field_at (PDict config) [] k p \<and> private_key k}
   \<and> (gd_passed (secrets_scan config) \<longleftrightarrow> \<not> (\<exists>k. key_within k (PDict config) \<and> private_key k))"
proof -
  have r: "set (gd_reasons (secrets_scan config)) =
      {''private_key_field:'' @ p | p k. field_at (PDict config) [] k p \<and> private_key k}"
    by (auto simp: secrets_scan_def of_reasons_def secret_paths_exact simp del: secret_field_paths.simps)
  have "gd_passed (secrets_scan config) \<longleftrightarrow> set (gd_reasons (secrets_scan config)) = {}"
    by (simp add: secrets_scan_def of_reasons_def del: secret_field_paths.simps)
  also have "\<dots> \<longleftrightarrow> \<not> (\<exists>k. key_within k (PDict config) \<and> private_key k)"
    unfolding r using field_at_key [of "PDict config" "[]"] key_has_field [of _ "PDict config" "[]"]
    by (simp del: key_within_simps) blast
  finally show ?thesis using r by blast
qed

text \<open>Live trading is out of reach of a guard that enforces its being disabled, and from paper in
  any case, whatever the allowed modes and however the mode is written.\<close>

lemma live_mode_unreachable:
  assumes "norm_mode target = ''live''" "md_live_disabled_enforced g \<or> norm_mode current = ''paper''"
  shows "\<not> gd_passed (validate_mode_transition g current target)"
  using assms by (auto simp: validate_mode_transition_def of_reasons_def Let_def)

end
