(* ===== verification/PyMath.thy ===== *)
theory PyMath
  imports PyText "HOL-Library.Product_Lexorder"
begin

text \<open>
  More of Python's numbers: the order in which floats are sorted, \<open>math.sqrt\<close>, fixed-point
  formatting, and the C library's \<open>pow\<close> as a parameter, since its last bit depends on the
  platform.  Sorting agrees with Python's on floats that are not NaN; with a NaN among them the
  order Python produces is an artefact of the sorting algorithm and is not modelled.
\<close>

section \<open>Sorting floats\<close>

fun float_key :: "pyfloat \<Rightarrow> nat \<times> rat" where
  "float_key NInf = (0, 0)"
| "float_key (Fin q) = (1, q)"
| "float_key PInf = (2, 0)"
| "float_key NaN = (3, 0)"

lemma float_key_inj: "float_key x = float_key y \<Longrightarrow> x = y"
  by (cases x; cases y) simp_all

instantiation pyfloat :: linorder
begin

definition less_eq_pyfloat :: "pyfloat \<Rightarrow> pyfloat \<Rightarrow> bool" where
  "less_eq_pyfloat x y \<longleftrightarrow> float_key x \<le> float_key y"

definition less_pyfloat :: "pyfloat \<Rightarrow> pyfloat \<Rightarrow> bool" where
  "less_pyfloat x y \<longleftrightarrow> float_key x < float_key y"

instance
  by standard (auto simp: less_eq_pyfloat_def less_pyfloat_def intro: float_key_inj)

end

lemma sort_order_is_flt: "x \<noteq> NaN \<Longrightarrow> y \<noteq> NaN \<Longrightarrow> x < y \<longleftrightarrow> flt x y"
  by (cases x; cases y) (simp_all add: less_pyfloat_def)

section \<open>Square roots\<close>

function isqrt :: "nat \<Rightarrow> nat" where
  "isqrt n = (if n = 0 then 0
              else let s = 2 * isqrt (n div 4) in if (s + 1) * (s + 1) \<le> n then s + 1 else s)"
  by auto
termination by (relation "measure id") auto

declare isqrt.simps [simp del]

lemma isqrt_bounds: "isqrt n * isqrt n \<le> n \<and> n < (isqrt n + 1) * (isqrt n + 1)"
proof (induction n rule: isqrt.induct)
  case (1 n)
  show ?case
  proof (cases "n = 0")
    case False
    let ?s = "isqrt (n div 4)"
    from 1 [OF False] have "?s * ?s \<le> n div 4" "n div 4 < (?s + 1) * (?s + 1)" by auto
    then have "4 * (?s * ?s) \<le> n" "n < 4 * ((?s + 1) * (?s + 1))" by linarith+
    then have "2 * ?s * (2 * ?s) \<le> n" "n < (2 * ?s + 1 + 1) * (2 * ?s + 1 + 1)"
      by (simp_all add: algebra_simps)
    with False show ?thesis by (subst (1 2 3 4) isqrt.simps) (simp add: Let_def)
  qed (simp add: isqrt.simps)
qed

lemma isqrt_unique: "s * s \<le> n \<Longrightarrow> n < (s + 1) * (s + 1) \<Longrightarrow> isqrt n = s"
  using isqrt_bounds [of n]
  by (metis Suc_eq_plus1 le_less_trans less_Suc_eq_le mult_le_mono nat_less_le not_le)

lemma isqrt_square [simp]: "isqrt (s * s) = s"
  by (rule isqrt_unique) (simp_all add: algebra_simps)

text \<open>
  \<open>math.sqrt\<close> is correctly rounded: \<open>s\<close> is the root with 700 bits after the point, cut off, and
  an inexact root is moved to the middle of its interval, which no rounding boundary hits.
\<close>

definition sqrt_scale :: nat where
  "sqrt_scale = 2 ^ 700"

fun fsqrt :: "pyfloat \<Rightarrow> pyfloat result" where
  "fsqrt (Fin q) =
     (if q < 0 then Inl (ValueError ''math domain error'')
      else let a = q * of_nat (sqrt_scale * sqrt_scale); s = isqrt (nat \<lfloor>a\<rfloor>)
           in Inr (fl (if of_nat (s * s) = a then of_nat s / of_nat sqrt_scale
                       else (2 * of_nat s + 1) / (2 * of_nat sqrt_scale))))"
| "fsqrt NInf = Inl (ValueError ''math domain error'')"
| "fsqrt x = Inr x"

lemma sqrt_scale_pos [simp]: "0 < sqrt_scale"
  by (simp add: sqrt_scale_def)

lemma fsqrt_of_square:
  assumes "\<bar>k\<bar> \<le> 2 ^ 53"
  shows "fsqrt (Fin (of_int k * of_int k)) = Inr (Fin (of_int \<bar>k\<bar>))"
proof -
  let ?n = "nat \<bar>k\<bar> * sqrt_scale"
  have k: "of_int k * of_int k = (of_nat (nat \<bar>k\<bar>) * of_nat (nat \<bar>k\<bar>) :: rat)"
    by (simp add: abs_mult_self_eq flip: of_int_mult)
  have a: "of_int k * of_int k * of_nat (sqrt_scale * sqrt_scale) = (of_nat (?n * ?n) :: rat)"
    unfolding k by (simp only: of_nat_mult mult.assoc mult.left_commute)
  have s: "isqrt (nat \<lfloor>of_int k * of_int k * (of_nat (sqrt_scale * sqrt_scale) :: rat)\<rfloor>) = ?n"
    unfolding a by (simp only: floor_of_nat nat_int isqrt_square)
  have "of_nat ?n / (of_nat sqrt_scale :: rat) = of_int \<bar>k\<bar>" by simp
  moreover have "fl (of_int \<bar>k\<bar>) = Fin (of_int \<bar>k\<bar>)" by (rule fl_of_int) (use assms in simp)
  moreover have "\<not> of_int k * of_int k < (0 :: rat)" by (simp add: not_less)
  ultimately show ?thesis unfolding fsqrt.simps Let_def s unfolding a by simp
qed

lemma fsqrt_nonneg: "fsqrt x = Inr y \<Longrightarrow> x \<noteq> NaN \<Longrightarrow> fle (Fin 0) y"
  by (cases x) (auto simp: Let_def split: if_splits intro!: fl_ge_Fin)

lemma fsqrt_f64: "fsqrt x = Inr y \<Longrightarrow> is_f64 y"
  by (cases x) (auto simp: Let_def split: if_splits)

section \<open>Powers, lengths, formatting\<close>

type_synonym libm_pow = "pyfloat \<Rightarrow> pyfloat \<Rightarrow> pyfloat result"

definition sq_pow :: libm_pow where
  "sq_pow x y = (if y = Fin 2 then Inr (fmul x x) else fsqrt x)"

definition fnat :: "nat \<Rightarrow> pyfloat" where
  "fnat n = fl (of_nat n)"

definition flen :: "'a list \<Rightarrow> pyfloat" where
  "flen xs = fnat (length xs)"

lemma fnat_small: "int n \<le> 2 ^ 53 \<Longrightarrow> fnat n = Fin (of_nat n)"
  using fl_of_int [of "int n"] by (simp add: fnat_def)

text \<open>\<open>f"{x:.nf}"\<close>: the exact value rounded half to even at the last digit.\<close>

definition pad_digits :: "nat \<Rightarrow> string \<Rightarrow> string" where
  "pad_digits n s = replicate (n - length s) CHR ''0'' @ s"

fun fixed_text :: "nat \<Rightarrow> pyfloat \<Rightarrow> string" where
  "fixed_text n (Fin q) =
     (let c = nat (half_even (\<bar>q\<bar> * 10 ^ n))
      in (if q < 0 then ''-'' else []) @ nat_text (c div 10 ^ n)
         @ (if n = 0 then [] else ''.'' @ pad_digits n (nat_text (c mod 10 ^ n))))"
| "fixed_text n PInf = ''inf''"
| "fixed_text n NInf = ''-inf''"
| "fixed_text n NaN = ''nan''"

end
