(* ===== verification/Market.thy ===== *)
theory Market
  imports PyMath
begin

text \<open>
  Market data as the backtests see it and what is computed from it: the snapshot
  (\<open>config/models.py\<close>, \<open>data/schema.py\<close>), trading and funding costs
  (\<open>backtest/execution_costs.py\<close>), market impact (\<open>backtest/market_impact.py\<close>), performance
  figures (\<open>backtest/risk.py\<close>) and the deterministic regime labels (\<open>validation/regimes.py\<close>).
  A timestamp is its instant in microseconds since 1970 together with its \<open>isoformat\<close> text;
  records list the fields that are read.
\<close>

section \<open>Snapshots\<close>

record candle =
  cd_time :: int
  cd_iso :: string
  cd_open :: pyfloat
  cd_high :: pyfloat
  cd_low :: pyfloat
  cd_close :: pyfloat
  cd_volume :: pyfloat

text \<open>A margin or fee tier, \<open>dict[str, float]\<close>: a missing key is \<open>None\<close>.\<close>

record tier =
  tr_max_leverage :: "pyfloat option"
  tr_max_notional :: "pyfloat option"
  tr_maintenance_margin_ratio :: "pyfloat option"
  tr_liquidation_fee_bps :: "pyfloat option"
  tr_partial_liquidation_ratio :: "pyfloat option"
  tr_liquidation_step_schedule :: "pyfloat list option"

record venue_profile =
  vp_maintenance_margin_schedule :: "tier list"
  vp_liquidation_fee_schedule :: "tier list"
  vp_liquidation_style :: string
  vp_partial_liquidation_ratio :: pyfloat
  vp_liquidation_cooldown_bars :: int
  vp_liquidation_mark_price_weight :: pyfloat
  vp_liquidation_mark_premium_bps :: pyfloat
  vp_notes :: "string list"

record data_snapshot =
  sn_snapshot_id :: string
  sn_symbol :: string
  sn_venue :: string
  sn_timeframe :: string
  sn_candles :: "candle list"
  sn_funding_rates :: "pyfloat list"
  sn_open_interest :: "pyfloat list"
  sn_liquidation_notional :: "pyfloat list"
  sn_maker_fee_bps :: pyfloat
  sn_taker_fee_bps :: pyfloat
  sn_spread_bps :: "pyfloat list"
  sn_depth_bid_1bp_usd :: "pyfloat list"
  sn_depth_ask_1bp_usd :: "pyfloat list"
  sn_latency_proxy_ms :: "pyfloat list"
  sn_venue_profile :: "venue_profile option"
  sn_provenance :: "(string \<times> pyval) list"

definition closes_of :: "data_snapshot \<Rightarrow> pyfloat list" where
  "closes_of s = map cd_close (sn_candles s)"

section \<open>Costs\<close>

definition bps_to_decimal :: "pyfloat \<Rightarrow> pyfloat" where
  "bps_to_decimal b = fquot b (Fin 10000)"

definition apply_trade_cost :: "pyfloat \<Rightarrow> pyfloat \<Rightarrow> pyfloat \<Rightarrow> pyfloat" where
  "apply_trade_cost notional fee_bps slippage_bps =
     fmul (fabs notional) (bps_to_decimal (fadd fee_bps slippage_bps))"

definition apply_funding :: "pyfloat \<Rightarrow> pyfloat \<Rightarrow> string \<Rightarrow> pyfloat" where
  "apply_funding notional rate side =
     fmul (fmul (fabs notional) rate) (if side = ''short'' then Fin (-1) else Fin 1)"

definition stress_multiplier :: "string \<Rightarrow> pyfloat" where
  "stress_multiplier regime =
     (if regime = ''crash'' then Fin (3 / 2)
      else if regime = ''short_squeeze'' then fl (135 / 100)
      else if regime = ''liquidity_stress'' then Fin (5 / 4) else Fin 1)"

definition clamp_bps :: "pyfloat \<Rightarrow> pyfloat" where
  "clamp_bps x = fmax (Fin 0) (fmin (Fin 500) x)"

definition compute_dynamic_slippage ::
    "pyfloat \<Rightarrow> pyfloat \<Rightarrow> pyfloat \<Rightarrow> bool \<Rightarrow> string \<Rightarrow> pyfloat \<Rightarrow> pyfloat result" where
  "compute_dynamic_slippage trade_notional volatility open_interest stressed regime fallback =
     (if fle open_interest (Fin 0) then Inr fallback
      else
        let vol = fmax (Fin 0) volatility;
            participation = fquot (fabs trade_notional) open_interest
        in rbind (fsqrt (fmax participation (Fin 0))) (\<lambda>r.
             let base = fmul (fmul (fmul (fl (1 / 10)) r) vol) (Fin 10000)
             in Inr (clamp_bps (fmul base (if stressed then stress_multiplier regime else Fin 1)))))"

text \<open>The coefficients are the defaults of \<open>ImpactCostCoefficients\<close>: 0.10, 0.50 and 0.01.\<close>

definition impact_cost_bps ::
    "libm_pow \<Rightarrow> pyfloat \<Rightarrow> pyfloat \<Rightarrow> pyfloat \<Rightarrow> pyfloat \<Rightarrow> pyfloat \<Rightarrow> pyfloat result" where
  "impact_cost_bps pw q_notional depth_notional sigma_1h spread_bps latency_ms =
     (let depth = fmax depth_notional f_1em9;
          q = fabs q_notional;
          sigma = fmax sigma_1h (Fin 0);
          spread = fmax spread_bps (Fin 0);
          latency = fmax latency_ms (Fin 0)
      in rbind (pw (fquot q depth) (Fin (1 / 2))) (\<lambda>root.
           let temp = fmul (fmul (fmul (fl (1 / 10)) sigma) root) (Fin 10000);
               delay = fmul (fmul (fl (1 / 100)) latency) sigma
           in Inr (clamp_bps (fadd (fadd (fquot spread (Fin 2)) temp) delay))))"

text \<open>The linear-interpolation percentile; the rank is finite, as the list is.\<close>

definition percentile_threshold :: "pyfloat list \<Rightarrow> pyfloat \<Rightarrow> pyfloat" where
  "percentile_threshold values percentile =
     (let xs = sort values; n = length xs;
          rank = fmul (fquot percentile (Fin 100)) (fnat (n - 1));
          lower = (case rank of Fin r \<Rightarrow> nat \<lfloor>r\<rfloor> | _ \<Rightarrow> 0);
          upper = min (lower + 1) (n - 1);
          frac = fsub rank (fnat lower)
      in fadd (fmul (xs ! lower) (fsub (Fin 1) frac)) (fmul (xs ! upper) frac))"

definition compute_oi_stress_flag :: "pyfloat list \<Rightarrow> pyfloat \<Rightarrow> bool" where
  "compute_oi_stress_flag series current \<longleftrightarrow>
     series \<noteq> [] \<and> flt (percentile_threshold series (Fin 90)) current"

section \<open>Performance figures\<close>

text \<open>The peak is at least 1e-9 or NaN whenever it divides.\<close>

definition max_drawdown :: "pyfloat list \<Rightarrow> pyfloat" where
  "max_drawdown curve =
     (case curve of [] \<Rightarrow> Fin 0 | c # _ \<Rightarrow>
        snd (foldl (\<lambda>(peak, worst) v.
               let equity = fmax f_1em9 (fadd (Fin 1) v);
                   peak1 = fmax peak equity;
                   drawdown = fsub (fquot equity peak1) (Fin 1)
               in (peak1, fmin worst drawdown)) (fadd (Fin 1) c, Fin 0) curve))"

definition mean_of :: "pyfloat list \<Rightarrow> pyfloat" where
  "mean_of xs = fquot (py_sum xs) (flen xs)"

definition squared_deviations :: "libm_pow \<Rightarrow> pyfloat \<Rightarrow> pyfloat list \<Rightarrow> pyfloat list result" where
  "squared_deviations pw m xs = rmap (\<lambda>v. pw (fsub v m) (Fin 2)) xs"

definition sharpe_ratio :: "libm_pow \<Rightarrow> pyfloat list \<Rightarrow> pyfloat \<Rightarrow> pyfloat result" where
  "sharpe_ratio pw returns ann =
     (if length returns < 2 then Inr (Fin 0)
      else let mean = mean_of returns in
           rbind (squared_deviations pw mean returns) (\<lambda>sq.
           let variance = fquot (py_sum sq) (fnat (length returns - 1)) in
           if fle variance (Fin 0) then Inr (Fin 0)
           else rbind (fsqrt variance) (\<lambda>sd. Inr (fmul (fquot mean sd) ann))))"

definition sortino_ratio :: "libm_pow \<Rightarrow> pyfloat list \<Rightarrow> pyfloat \<Rightarrow> pyfloat result" where
  "sortino_ratio pw returns ann =
     (if length returns < 2 then Inr (Fin 0)
      else let mean = mean_of returns in
           rbind (rmap (\<lambda>v. pw (fmin (fsub v (Fin 0)) (Fin 0)) (Fin 2)) returns) (\<lambda>sq.
           let downside = mean_of sq in
           if fle downside (Fin 0)
           then Inr (if flt (Fin 0) mean then fmul (Fin 999) ann else Fin 0)
           else rbind (fsqrt downside) (\<lambda>sd. Inr (fmul (fquot (fsub mean (Fin 0)) sd) ann))))"

section \<open>Series\<close>

text \<open>\<open>values[:length]\<close> padded with its last element, or zeros.\<close>

definition fill_to :: "nat \<Rightarrow> pyfloat list \<Rightarrow> pyfloat list" where
  "fill_to n xs =
     xs @ replicate (n - length xs) (if xs = [] then Fin 0 else last xs)"

definition pad_series :: "pyfloat list \<Rightarrow> nat \<Rightarrow> pyfloat list" where
  "pad_series xs n = fill_to n (take n xs)"

lemma length_fill_to [simp]: "length (fill_to n xs) = max n (length xs)"
  by (simp add: fill_to_def)

lemma length_pad_series [simp]: "length (pad_series xs n) = n"
  by (simp add: pad_series_def)

text \<open>The volatility at a bar: the sample deviation of the returns of the last 30 bars.\<close>

definition bar_returns :: "pyfloat list \<Rightarrow> pyfloat list" where
  "bar_returns win =
     map (\<lambda>(a, b). fquot (fsub b a) (fmax a (fl (1 / 10 ^ 12)))) (zip win (tl win))"

definition roll_vol_at :: "libm_pow \<Rightarrow> pyfloat list \<Rightarrow> nat \<Rightarrow> pyfloat result" where
  "roll_vol_at pw closes i =
     (let win = drop (i - 30) (take (i + 1) closes) in
      if length win < 2 then Inr (fl (1 / 100))
      else let rets = bar_returns win in
           rbind (squared_deviations pw (mean_of rets) rets) (\<lambda>sq.
             fsqrt (fmax (fquot (py_sum sq) (fnat (max (length rets - 1) 1))) (Fin 0))))"

definition compute_roll_vol :: "libm_pow \<Rightarrow> pyfloat list \<Rightarrow> pyfloat list result" where
  "compute_roll_vol pw closes = rmap (roll_vol_at pw closes) [0..<length closes]"

fun zscores_from :: "nat \<Rightarrow> pyfloat \<Rightarrow> pyfloat \<Rightarrow> pyfloat list \<Rightarrow> pyfloat list result" where
  "zscores_from i s sq [] = Inr []"
| "zscores_from i s sq (v # vs) =
     (let s1 = fadd s v; sq1 = fadd sq (fmul v v); n = fnat (i + 1); mean = fquot s1 n
      in rbind (if i + 1 < 2 then Inr (Fin 0)
                else let variance = fsub (fquot sq1 n) (fmul mean mean) in
                     rbind (fsqrt (fmax variance (Fin 0))) (\<lambda>std.
                       Inr (if fle std (fl (1 / 10 ^ 12)) then Fin 0
                            else fabs (fquot (fsub v mean) std)))) (\<lambda>z.
         rbind (zscores_from (i + 1) s1 sq1 vs) (\<lambda>zs. Inr (z # zs))))"

definition compute_abs_zscores :: "pyfloat list \<Rightarrow> pyfloat list result" where
  "compute_abs_zscores values = zscores_from 0 (Fin 0) (Fin 0) values"

definition compute_low_percentile_flags :: "pyfloat list \<Rightarrow> pyfloat \<Rightarrow> bool list" where
  "compute_low_percentile_flags values percentile =
     (if values = [] then []
      else map (\<lambda>v. fle v (percentile_threshold values percentile)) values)"

section \<open>Regime labels\<close>

definition median :: "pyfloat list \<Rightarrow> pyfloat" where
  "median values =
     (let xs = sort values; n = length xs in
      if odd n then xs ! (n div 2)
      else fquot (fadd (xs ! (n div 2 - 1)) (xs ! (n div 2))) (Fin 2))"

text \<open>\<open>(a / b) - 1.0\<close>, zero when \<open>b\<close> is.\<close>

definition change :: "pyfloat \<Rightarrow> pyfloat \<Rightarrow> pyfloat" where
  "change a b = (if b = Fin 0 then Fin 0 else fsub (fquot a b) (Fin 1))"

definition regime_at ::
    "pyfloat list \<Rightarrow> pyfloat list \<Rightarrow> pyfloat list \<Rightarrow> pyfloat list \<Rightarrow> pyfloat \<Rightarrow> pyfloat \<Rightarrow> nat \<Rightarrow> string" where
  "regime_at closes funding oi liquidation baseline peak i =
     (let close = closes ! i;
          previous = (if 0 < i then closes ! (i - 1) else close);
          lookback = closes ! (i - 4);
          short_return = change close lookback;
          one_bar = change close previous;
          slope = fsub close lookback;
          drawdown = change close peak;
          fu = funding ! i;
          ratio = fquot (liquidation ! i) (fmax (Fin 1) baseline);
          oi_change = fabs (change (oi ! i) (if 0 < i then oi ! (i - 1) else oi ! i))
      in if fle one_bar (fl (- 9 / 100)) \<or> (fle drawdown (fl (- 18 / 100)) \<and> fle one_bar (Fin 0))
         then ''crash''
         else if fle (fl (7 / 100)) one_bar \<and> fle (fl (1 / 100)) fu \<and> fle (Fin 2) ratio
         then ''short_squeeze''
         else if fle (fl (15 / 1000)) (fabs fu) \<or> fle (fl (12 / 100)) oi_change \<or> fle (Fin (5 / 2)) ratio
         then ''liquidity_stress''
         else if fle (fl (4 / 100)) short_return \<and> flt (Fin 0) slope then ''bull''
         else if fle short_return (fl (- 4 / 100)) \<and> flt slope (Fin 0) \<and> fle drawdown (fl (- 3 / 100))
         then ''bear'' else ''sideways'')"

fun running_peaks :: "pyfloat \<Rightarrow> pyfloat list \<Rightarrow> pyfloat list" where
  "running_peaks p [] = []"
| "running_peaks p (c # cs) = (let q = fmax p c in q # running_peaks q cs)"

definition label_snapshot_regimes :: "data_snapshot \<Rightarrow> string list" where
  "label_snapshot_regimes s =
     (let closes = closes_of s; n = length closes;
          funding = pad_series (sn_funding_rates s) n;
          oi = pad_series (sn_open_interest s) n;
          liquidation = pad_series (sn_liquidation_notional s) n;
          positive = filter (flt (Fin 0)) liquidation;
          baseline = median (if positive = [] then [Fin 1] else positive);
          peaks = running_peaks (closes ! 0) closes
      in map (\<lambda>i. regime_at closes funding oi liquidation baseline (peaks ! i) i) [0..<n])"

lemma length_label_snapshot_regimes: "length (label_snapshot_regimes s) = length (sn_candles s)"
  by (simp add: label_snapshot_regimes_def closes_of_def Let_def)

end
