(* ===== verification/Simulator.thy ===== *)
theory Simulator
  imports Market
begin

text \<open>
  The bar-by-bar strategy simulator (\<open>backtest/simulator.py\<close>): funding settlements between bars,
  margin tiers and liquidation, the three slippage models, partial and adverse fills, and the
  loop over the candles with its result.  An omitted keyword argument (\<open>_UNSET\<close>) is \<open>None\<close>.
\<close>

section \<open>Funding settlements\<close>

definition day_us :: int where
  "day_us = 86400000000"

definition last_day :: int where
  "last_day = 2932896"

definition settlement :: "int \<Rightarrow> int \<Rightarrow> int" where
  "settlement day hour = day * day_us + hour * 3600000000"

text \<open>Days run from the date of \<open>start\<close> to the date of \<open>end\<close>; stepping past 9999-12-31 raises.\<close>

definition count_funding_events_between :: "int \<Rightarrow> int \<Rightarrow> int list \<Rightarrow> nat result" where
  "count_funding_events_between start stop hours =
     (if stop \<le> start then Inr 0
      else if last_day \<le> stop div day_us then Inl OverflowError
      else Inr (length [h. day \<leftarrow> [start div day_us .. stop div day_us], h \<leftarrow> hours,
                          start < settlement day h \<and> settlement day h \<le> stop]))"

definition settlement_hours :: "string \<Rightarrow> int list option" where
  "settlement_hours venue =
     (if str_strip (str_lower venue) \<in> set [''binance'', ''bybit'', ''okx''] then Some [0, 8, 16] else None)"

definition compute_funding_event_counts :: "candle list \<Rightarrow> string \<Rightarrow> nat list result" where
  "compute_funding_event_counts cs venue =
     (if cs = [] then Inr []
      else case settlement_hours venue of
        None \<Rightarrow> Inr (replicate (length cs) 1)
      | Some hours \<Rightarrow>
          rbind (rmap (\<lambda>(a, b). count_funding_events_between (cd_time a) (cd_time b) hours)
                  (zip cs (tl cs))) (\<lambda>ns. Inr (0 # ns)))"

definition bars_per_year :: "(string \<times> nat) list" where
  "bars_per_year =
     [(''1m'', 525600), (''3m'', 175200), (''5m'', 105120), (''15m'', 35040), (''30m'', 17520),
      (''1h'', 8760), (''2h'', 4380), (''4h'', 2190), (''6h'', 1460), (''8h'', 1095), (''12h'', 730),
      (''1d'', 365), (''3d'', 121), (''1w'', 52)]"

definition annualization_factor :: "string \<Rightarrow> pyfloat result" where
  "annualization_factor timeframe =
     (case map_of bars_per_year (str_strip (str_lower timeframe)) of
        None \<Rightarrow> Inr (Fin 1)
      | Some n \<Rightarrow> fsqrt (fnat n))"

section \<open>Prices\<close>

definition liquidation_price :: "pyfloat \<Rightarrow> string \<Rightarrow> pyfloat \<Rightarrow> pyfloat \<Rightarrow> pyfloat" where
  "liquidation_price entry side leverage ratio =
     (if side = ''short''
      then fmul entry (fsub (fadd (Fin 1) (fquot (Fin 1) leverage)) ratio)
      else fmul entry (fadd (fsub (Fin 1) (fquot (Fin 1) leverage)) ratio))"

definition liquidation_trigger_price :: "candle \<Rightarrow> string \<Rightarrow> pyfloat \<Rightarrow> pyfloat \<Rightarrow> pyfloat" where
  "liquidation_trigger_price c side weight premium =
     (if side = ''short''
      then fmul (fadd (fmul (cd_high c) (fsub (Fin 1) weight)) (fmul (cd_close c) weight))
             (fadd (Fin 1) (fquot premium (Fin 10000)))
      else fmul (fadd (fmul (cd_low c) (fsub (Fin 1) weight)) (fmul (cd_close c) weight))
             (fsub (Fin 1) (fquot premium (Fin 10000))))"

definition price_delta :: "pyfloat \<Rightarrow> pyfloat \<Rightarrow> string \<Rightarrow> pyfloat" where
  "price_delta current entry side =
     (if side = ''short'' then fsub entry current else fsub current entry)"

section \<open>Tiers\<close>

definition or_inf :: "pyfloat option \<Rightarrow> pyfloat" where
  "or_inf x = (case x of None \<Rightarrow> PInf | Some f \<Rightarrow> f)"

definition resolve_tier_entry :: "pyfloat \<Rightarrow> pyfloat \<Rightarrow> tier list option \<Rightarrow> tier option" where
  "resolve_tier_entry leverage notional schedule =
     (case schedule of
        None \<Rightarrow> None
      | Some [] \<Rightarrow> None
      | Some ts \<Rightarrow>
          (let tiers = sort_key (\<lambda>t. (or_inf (tr_max_leverage t), or_inf (tr_max_notional t))) ts
           in Some (case filter (\<lambda>t. fle leverage (or_inf (tr_max_leverage t))
                                   \<and> fle notional (or_inf (tr_max_notional t))) tiers of
                      t # _ \<Rightarrow> t
                    | [] \<Rightarrow> last tiers)))"

definition resolve_tier_value ::
    "pyfloat \<Rightarrow> pyfloat \<Rightarrow> pyfloat \<Rightarrow> tier list option \<Rightarrow> (tier \<Rightarrow> pyfloat option) \<Rightarrow> string
     \<Rightarrow> pyfloat result" where
  "resolve_tier_value leverage notional dflt schedule value key =
     (case resolve_tier_entry leverage notional schedule of
        None \<Rightarrow> Inr dflt
      | Some t \<Rightarrow> (case value t of None \<Rightarrow> Inl (KeyError key) | Some v \<Rightarrow> Inr v))"

definition resolve_maintenance_margin_ratio ::
    "pyfloat \<Rightarrow> pyfloat \<Rightarrow> pyfloat \<Rightarrow> tier list option \<Rightarrow> pyfloat result" where
  "resolve_maintenance_margin_ratio leverage notional dflt schedule =
     resolve_tier_value leverage notional dflt schedule tr_maintenance_margin_ratio
       ''maintenance_margin_ratio''"

definition resolve_liquidation_step_behavior ::
    "pyfloat \<Rightarrow> pyfloat \<Rightarrow> bool \<Rightarrow> bool \<Rightarrow> bool \<Rightarrow> pyfloat \<Rightarrow> pyfloat list option \<Rightarrow> tier list option
     \<Rightarrow> pyfloat list option \<times> pyfloat" where
  "resolve_liquidation_step_behavior leverage notional forces_full explicit_ratio explicit_schedule
      dflt_ratio dflt_schedule schedule =
     (if forces_full then (None, Fin 1)
      else if explicit_schedule \<or> explicit_ratio then (dflt_schedule, dflt_ratio)
      else case resolve_tier_entry leverage notional schedule of
        None \<Rightarrow> (dflt_schedule, dflt_ratio)
      | Some t \<Rightarrow>
          (case tr_liquidation_step_schedule t of
             Some (x # xs) \<Rightarrow> (Some (x # xs), dflt_ratio)
           | _ \<Rightarrow> (case tr_partial_liquidation_ratio t of
                     Some r \<Rightarrow> (dflt_schedule, r)
                   | None \<Rightarrow> (dflt_schedule, dflt_ratio))))"

definition liquidation_ratio_for_event :: "pyfloat list option \<Rightarrow> pyfloat \<Rightarrow> nat \<Rightarrow> pyfloat" where
  "liquidation_ratio_for_event schedule ratio step =
     (case schedule of
        Some (x # xs) \<Rightarrow> (x # xs) ! min step (length xs)
      | _ \<Rightarrow> ratio)"

section \<open>Slippage and fills\<close>

definition cascade_multiplier :: "bool \<Rightarrow> pyfloat \<Rightarrow> pyfloat \<Rightarrow> bool \<Rightarrow> pyfloat" where
  "cascade_multiplier stressed funding_z liquidation_z depleted =
     (let n = length (filter id [stressed, flt (Fin 2) (fabs funding_z), flt (Fin 2) liquidation_z, depleted])
      in if 4 \<le> n then Fin (7 / 4) else if n = 3 then Fin (3 / 2)
         else if n = 2 then Fin (5 / 4) else Fin 1)"

record micro_series =
  ms_spread_bps :: "pyfloat list"
  ms_depth_bid :: "pyfloat list"
  ms_depth_ask :: "pyfloat list"
  ms_latency_ms :: "pyfloat list"

text \<open>The precomputed series; the stress signals at one bar are read together.\<close>

record slippage_series =
  sl_realistic :: bool
  sl_dynamic :: bool
  sl_roll_vol :: "pyfloat list"
  sl_oi_stressed :: "bool list"
  sl_regimes :: "string list"
  sl_funding_z :: "pyfloat list"
  sl_liquidation_z :: "pyfloat list"
  sl_depth_depleted :: "bool list"
  sl_open_interest :: "pyfloat list"
  sl_micro :: "micro_series option"

definition cascade_at :: "slippage_series \<Rightarrow> nat \<Rightarrow> pyfloat" where
  "cascade_at v i = cascade_multiplier (sl_oi_stressed v ! i) (sl_funding_z v ! i)
     (sl_liquidation_z v ! i) (sl_depth_depleted v ! i)"

definition depth_at :: "micro_series \<Rightarrow> nat \<Rightarrow> pyfloat" where
  "depth_at m i = fmin (ms_depth_bid m ! i) (ms_depth_ask m ! i)"

definition resolve_slippage_bps ::
    "libm_pow \<Rightarrow> slippage_series \<Rightarrow> pyfloat \<Rightarrow> pyfloat \<Rightarrow> nat \<Rightarrow> pyfloat result" where
  "resolve_slippage_bps pw v flat notional i =
     (case (sl_realistic v, sl_micro v) of
        (True, Some m) \<Rightarrow>
          rbind (impact_cost_bps pw notional (depth_at m i) (sl_roll_vol v ! i) (ms_spread_bps m ! i)
                   (ms_latency_ms m ! i)) (\<lambda>base.
            Inr (fmin (Fin 500) (fmul base (cascade_at v i))))
      | _ \<Rightarrow>
          if sl_dynamic v \<or> sl_realistic v
          then compute_dynamic_slippage notional (sl_roll_vol v ! i)
                 (if i < length (sl_open_interest v) then sl_open_interest v ! i else Fin 0)
                 (sl_oi_stressed v ! i)
                 (if i < length (sl_regimes v) then sl_regimes v ! i else []) flat
          else Inr flat)"

definition resolve_execution_fill_ratio :: "slippage_series \<Rightarrow> pyfloat \<Rightarrow> nat \<Rightarrow> pyfloat" where
  "resolve_execution_fill_ratio v notional i =
     (case sl_micro v of
        None \<Rightarrow> Fin 1
      | Some m \<Rightarrow>
          if fle notional (Fin 0) \<or> \<not> sl_realistic v then Fin 1
          else if fle (depth_at m i) (Fin 0) then Fin 0
          else
            let depth_ratio = fquot (depth_at m i) (fmax notional f_1em9);
                cascade = cascade_at v i; depleted = sl_depth_depleted v ! i
            in if fle (Fin 2) depth_ratio \<and> fle cascade (Fin (5 / 4)) \<and> \<not> depleted then Fin 1
               else
                 let r0 = fmin (Fin 1) depth_ratio;
                     r1 = (if flt (Fin 1) cascade then fquot r0 cascade else r0);
                     r2 = (if depleted \<and> flt depth_ratio (Fin (3 / 2)) then fmul r1 (fl (85 / 100)) else r1)
                 in fmax (fl (5 / 100)) (fmin (Fin 1) r2))"

definition resolve_execution_adverse_fill_bps ::
    "slippage_series \<Rightarrow> pyfloat \<Rightarrow> pyfloat \<Rightarrow> nat \<Rightarrow> pyfloat" where
  "resolve_execution_adverse_fill_bps v slippage fill_ratio i =
     (if \<not> sl_realistic v \<or> fle slippage (Fin 0) then Fin 0
      else
        let cascade = cascade_at v i;
            shortfall = fmax (Fin 0) (fsub (Fin 1) fill_ratio)
        in if flt shortfall (fl (1 / 1000)) \<and> flt slippage (Fin 25) then Fin 0
           else
             let p0 = (if sl_depth_depleted v ! i then fmax shortfall (fl (1 / 10)) else shortfall);
                 p1 = (if sl_oi_stressed v ! i then fadd p0 (fl (5 / 100)) else p0);
                 p2 = (if flt (Fin 2) (fabs (sl_funding_z v ! i)) then fadd p1 (fl (5 / 100)) else p1);
                 p3 = (if flt (Fin 2) (sl_liquidation_z v ! i) then fadd p2 (fl (5 / 100)) else p2)
             in if fle cascade (Fin 1) \<and> flt p3 (fl (1 / 10)) then Fin 0
                else
                  let a0 = fmul slippage (fadd (fl (2 / 10)) (fmin (fl (9 / 10)) p3));
                      a1 = (if flt (Fin 1) cascade
                            then fmul a0 (fmin (Fin (3 / 2)) (fquot cascade (Fin (5 / 4)))) else a0)
                  in fmin (Fin 150) (fmax (Fin 0) a1))"

definition apply_adverse_fill_price :: "pyfloat \<Rightarrow> string \<Rightarrow> bool \<Rightarrow> pyfloat \<Rightarrow> pyfloat" where
  "apply_adverse_fill_price price side is_entry bps =
     (if fle bps (Fin 0) then price
      else
        let m = fquot bps (Fin 10000)
        in if (side = ''long'') = is_entry then fmul price (fadd (Fin 1) m)
           else fmul price (fsub (Fin 1) m))"

section \<open>Microstructure\<close>

definition normalize_numeric_series :: "pyval list \<Rightarrow> nat \<Rightarrow> pyfloat list result" where
  "normalize_numeric_series values n = rbind (rmap py_float (take n values)) (\<lambda>xs. Inr (fill_to n xs))"

definition load_typed_microstructure_series :: "data_snapshot \<Rightarrow> nat \<Rightarrow> micro_series option" where
  "load_typed_microstructure_series s n =
     (if sn_spread_bps s = [] \<or> sn_depth_bid_1bp_usd s = [] \<or> sn_depth_ask_1bp_usd s = []
         \<or> sn_latency_proxy_ms s = [] then None
      else Some \<lparr>ms_spread_bps = pad_series (sn_spread_bps s) n,
                 ms_depth_bid = pad_series (sn_depth_bid_1bp_usd s) n,
                 ms_depth_ask = pad_series (sn_depth_ask_1bp_usd s) n,
                 ms_latency_ms = pad_series (sn_latency_proxy_ms s) n\<rparr>)"

definition load_microstructure_series :: "data_snapshot \<Rightarrow> nat \<Rightarrow> micro_series option result" where
  "load_microstructure_series s n =
     (case load_typed_microstructure_series s n of
        Some m \<Rightarrow> Inr (Some m)
      | None \<Rightarrow>
          (case pget (sn_provenance s) ''microstructure'' of
             PDict d \<Rightarrow>
               (let read = (\<lambda>k f. case pget d k of
                      PList (x # xs) \<Rightarrow> rbind (normalize_numeric_series (x # xs) n) f
                    | _ \<Rightarrow> Inr None)
                in read ''spread_bps'' (\<lambda>spread.
                   read ''depth_bid_1bp_usd'' (\<lambda>bid.
                   read ''depth_ask_1bp_usd'' (\<lambda>ask.
                   read ''latency_proxy_ms'' (\<lambda>latency.
                     Inr (Some \<lparr>ms_spread_bps = spread, ms_depth_bid = bid, ms_depth_ask = ask,
                                ms_latency_ms = latency\<rparr>))))))
           | _ \<Rightarrow> Inr None))"

definition no_slippage_series :: "micro_series option \<Rightarrow> slippage_series" where
  "no_slippage_series m =
     \<lparr>sl_realistic = False, sl_dynamic = False, sl_roll_vol = [], sl_oi_stressed = [], sl_regimes = [],
      sl_funding_z = [], sl_liquidation_z = [], sl_depth_depleted = [], sl_open_interest = [],
      sl_micro = m\<rparr>"

definition prepare_slippage_series ::
    "libm_pow \<Rightarrow> string \<Rightarrow> data_snapshot \<Rightarrow> slippage_series result" where
  "prepare_slippage_series pw model s =
     (let closes = closes_of s; n = length closes in
      rbind (load_microstructure_series s n) (\<lambda>m.
      if model \<noteq> ''dynamic'' \<and> model \<noteq> ''realistic'' then Inr (no_slippage_series m)
      else
        let oi = fill_to n (sn_open_interest s) in
        rbind (compute_roll_vol pw closes) (\<lambda>roll_vol.
        rbind (compute_abs_zscores (fill_to n (sn_funding_rates s))) (\<lambda>funding_z.
        rbind (compute_abs_zscores (fill_to n (sn_liquidation_notional s))) (\<lambda>liquidation_z.
          Inr \<lparr>sl_realistic = (model = ''realistic''), sl_dynamic = (model = ''dynamic''),
               sl_roll_vol = roll_vol,
               sl_oi_stressed = map (\<lambda>i. compute_oi_stress_flag oi (oi ! i)) [0..<n],
               sl_regimes = label_snapshot_regimes s, sl_funding_z = funding_z,
               sl_liquidation_z = liquidation_z,
               sl_depth_depleted = (case m of
                   None \<Rightarrow> replicate n False
                 | Some ms \<Rightarrow> compute_low_percentile_flags (map (depth_at ms) [0..<n]) (Fin 10)),
               sl_open_interest = sn_open_interest s, sl_micro = m\<rparr>)))))"

section \<open>Liquidation settings\<close>

record liquidation_args =
  la_maintenance_margin_ratio :: "pyfloat option"
  la_liquidation_fee_bps :: "pyfloat option"
  la_mark_price_weight :: "pyfloat option"
  la_partial_ratio :: "pyfloat option"
  la_cooldown_bars :: "int option"
  la_step_schedule :: "pyfloat list option option"
  la_mark_premium_bps :: "pyfloat option"
  la_margin_schedule :: "tier list option option"
  la_fee_schedule :: "tier list option option"

record liquidation_config =
  lc_maintenance_margin_ratio :: pyfloat
  lc_liquidation_fee_bps :: pyfloat
  lc_mark_price_weight :: pyfloat
  lc_partial_ratio :: pyfloat
  lc_cooldown_bars :: int
  lc_step_schedule :: "pyfloat list option"
  lc_mark_premium_bps :: pyfloat
  lc_margin_schedule :: "tier list option"
  lc_fee_schedule :: "tier list option"

definition given_or :: "'a option \<Rightarrow> 'a \<Rightarrow> 'a" where
  "given_or x d = (case x of None \<Rightarrow> d | Some v \<Rightarrow> v)"

definition profile_or :: "venue_profile option \<Rightarrow> (venue_profile \<Rightarrow> 'a) \<Rightarrow> 'a \<Rightarrow> 'a" where
  "profile_or p f d = (case p of None \<Rightarrow> d | Some v \<Rightarrow> f v)"

definition resolve_liquidation_style :: "venue_profile option \<Rightarrow> liquidation_args \<Rightarrow> string" where
  "resolve_liquidation_style p a =
     (let candidate = profile_or p (\<lambda>v. str_lower (str_strip (vp_liquidation_style v))) ''full'';
          style = (if candidate \<in> set [''full'', ''partial''] then candidate else ''full'');
          ratio = (case la_partial_ratio a of None \<Rightarrow> False | Some r \<Rightarrow> flt r (Fin 1));
          steps = (case la_step_schedule a of Some (Some xs) \<Rightarrow> list_ex (\<lambda>x. flt x (Fin 1)) xs | _ \<Rightarrow> False)
      in if ratio \<or> steps then ''partial'' else style)"

definition profile_schedule :: "venue_profile option \<Rightarrow> (venue_profile \<Rightarrow> tier list) \<Rightarrow> tier list option" where
  "profile_schedule p f = (case p of None \<Rightarrow> None | Some v \<Rightarrow> if f v = [] then None else Some (f v))"

definition resolve_liquidation_defaults :: "venue_profile option \<Rightarrow> liquidation_args \<Rightarrow> liquidation_config" where
  "resolve_liquidation_defaults p a =
     (let full = (resolve_liquidation_style p a = ''full'') in
      \<lparr>lc_maintenance_margin_ratio = given_or (la_maintenance_margin_ratio a) (fl (1 / 100)),
       lc_liquidation_fee_bps = given_or (la_liquidation_fee_bps a) (Fin 0),
       lc_mark_price_weight =
         given_or (la_mark_price_weight a) (profile_or p vp_liquidation_mark_price_weight (Fin 0)),
       lc_partial_ratio =
         (if full then Fin 1
          else given_or (la_partial_ratio a) (profile_or p vp_partial_liquidation_ratio (Fin 1))),
       lc_cooldown_bars =
         given_or (la_cooldown_bars a) (profile_or p vp_liquidation_cooldown_bars 0),
       lc_step_schedule = (if full then None else given_or (la_step_schedule a) None),
       lc_mark_premium_bps =
         given_or (la_mark_premium_bps a) (profile_or p vp_liquidation_mark_premium_bps (Fin 0)),
       lc_margin_schedule =
         given_or (la_margin_schedule a) (profile_schedule p vp_maintenance_margin_schedule),
       lc_fee_schedule =
         given_or (la_fee_schedule a) (profile_schedule p vp_liquidation_fee_schedule)\<rparr>)"

definition must :: "bool \<Rightarrow> string \<Rightarrow> unit result" where
  "must b msg = raise_unless b (ValueError msg)"

definition out_of_unit :: "pyfloat \<Rightarrow> bool" where
  "out_of_unit x \<longleftrightarrow> fle x (Fin 0) \<or> flt (Fin 1) x"

definition opt_all :: "('a \<Rightarrow> bool) \<Rightarrow> 'a option \<Rightarrow> bool" where
  "opt_all P x \<longleftrightarrow> (case x of None \<Rightarrow> True | Some v \<Rightarrow> P v)"

fun all_ok :: "unit result list \<Rightarrow> unit result" where
  "all_ok [] = Inr ()"
| "all_ok (r # rs) = rbind r (\<lambda>_. all_ok rs)"

lemma all_ok_Inr [simp]: "all_ok rs = Inr u \<longleftrightarrow> list_all (\<lambda>r. r = Inr ()) rs"
  by (induction rs) (auto simp: rbind_Inr_iff)

definition check_margin_tier :: "tier \<Rightarrow> unit result" where
  "check_margin_tier t =
     (case tr_maintenance_margin_ratio t of
        None \<Rightarrow> Inl (ValueError ''maintenance_margin_schedule items must include maintenance_margin_ratio'')
      | Some m \<Rightarrow> all_ok
          [must (tr_max_leverage t \<noteq> None \<or> tr_max_notional t \<noteq> None)
             ''maintenance_margin_schedule items must include max_leverage or max_notional'',
           must (opt_all (\<lambda>x. \<not> fle x (Fin 0)) (tr_max_leverage t))
             ''maintenance_margin_schedule max_leverage must be positive'',
           must (opt_all (\<lambda>x. \<not> fle x (Fin 0)) (tr_max_notional t))
             ''maintenance_margin_schedule max_notional must be positive'',
           must (\<not> flt m (Fin 0) \<and> \<not> fle (Fin 1) m)
             ''maintenance_margin_schedule maintenance_margin_ratio must be between 0.0 and 1.0'',
           must (opt_all (list_all (\<lambda>x. \<not> out_of_unit x)) (tr_liquidation_step_schedule t))
             ''maintenance_margin_schedule liquidation_step_schedule values must be between 0.0 and 1.0'',
           must (opt_all (\<lambda>x. \<not> out_of_unit x) (tr_partial_liquidation_ratio t))
             ''maintenance_margin_schedule partial_liquidation_ratio must be between 0.0 and 1.0''])"

definition check_fee_tier :: "tier \<Rightarrow> unit result" where
  "check_fee_tier t =
     (case tr_liquidation_fee_bps t of
        None \<Rightarrow> Inl (ValueError ''liquidation_fee_schedule items must include liquidation_fee_bps'')
      | Some f \<Rightarrow> all_ok
          [must (tr_max_leverage t \<noteq> None \<or> tr_max_notional t \<noteq> None)
             ''liquidation_fee_schedule items must include max_leverage or max_notional'',
           must (opt_all (\<lambda>x. \<not> fle x (Fin 0)) (tr_max_leverage t))
             ''liquidation_fee_schedule max_leverage must be positive'',
           must (opt_all (\<lambda>x. \<not> fle x (Fin 0)) (tr_max_notional t))
             ''liquidation_fee_schedule max_notional must be positive'',
           must (\<not> flt f (Fin 0)) ''liquidation_fee_schedule liquidation_fee_bps must be non-negative''])"

definition check_simulation ::
    "nat \<Rightarrow> bool list \<Rightarrow> bool list \<Rightarrow> int \<Rightarrow> string \<Rightarrow> pyfloat \<Rightarrow> liquidation_config \<Rightarrow> unit result" where
  "check_simulation n entries exits latency side leverage c = all_ok
     ([must (n = length entries \<and> length entries = length exits) ''snapshot and signals must have equal lengths'',
       must (0 \<le> latency) ''latency_bars must be non-negative'',
       must (side = ''long'' \<or> side = ''short'') (''position_side must be '' @ str_repr ''long'' @ '' or '' @ str_repr ''short''),
       must (\<not> flt leverage (Fin 1)) ''position_leverage must be at least 1.0'',
       must (\<not> flt (lc_maintenance_margin_ratio c) (Fin 0) \<and> \<not> fle (Fin 1) (lc_maintenance_margin_ratio c))
         ''maintenance_margin_ratio must be between 0.0 and 1.0'',
       must (\<not> flt (lc_liquidation_fee_bps c) (Fin 0)) ''liquidation_fee_bps must be non-negative'',
       must (\<not> flt (lc_mark_price_weight c) (Fin 0) \<and> \<not> flt (Fin 1) (lc_mark_price_weight c))
         ''liquidation_mark_price_weight must be between 0.0 and 1.0'',
       must (\<not> out_of_unit (lc_partial_ratio c)) ''partial_liquidation_ratio must be between 0.0 and 1.0'',
       must (0 \<le> lc_cooldown_bars c) ''liquidation_cooldown_bars must be non-negative'',
       must (opt_all (list_all (\<lambda>x. \<not> out_of_unit x)) (lc_step_schedule c))
         ''liquidation_step_schedule values must be between 0.0 and 1.0'',
       must (\<not> flt (lc_mark_premium_bps c) (Fin 0)) ''liquidation_mark_premium_bps must be non-negative'']
      @ map check_margin_tier (given_or (lc_margin_schedule c) [])
      @ map check_fee_tier (given_or (lc_fee_schedule c) []))"

section \<open>The loop over the bars\<close>

record sim_state =
  ss_open :: bool
  ss_size :: pyfloat
  ss_entry_price :: pyfloat
  ss_entry_index :: int
  ss_cooldown_until :: int
  ss_step_index :: nat
  ss_trade_count :: nat
  ss_winning_trades :: nat
  ss_gross_pnl :: pyfloat
  ss_fee_spend :: pyfloat
  ss_funding_spend :: pyfloat
  ss_equity_curve :: "pyfloat list"
  ss_trade_results :: "pyfloat list"
  ss_liquidation_events :: "string list"
  ss_fills :: nat
  ss_partial_fills :: nat
  ss_fill_ratio_sum :: pyfloat
  ss_min_fill_ratio :: pyfloat
  ss_adverse_fills :: nat
  ss_adverse_bps_sum :: pyfloat
  ss_max_adverse_bps :: pyfloat

definition sim_start :: sim_state where
  "sim_start = \<lparr>ss_open = False, ss_size = Fin 0, ss_entry_price = Fin 0, ss_entry_index = -1,
     ss_cooldown_until = -1, ss_step_index = 0, ss_trade_count = 0, ss_winning_trades = 0,
     ss_gross_pnl = Fin 0, ss_fee_spend = Fin 0, ss_funding_spend = Fin 0, ss_equity_curve = [],
     ss_trade_results = [], ss_liquidation_events = [], ss_fills = 0, ss_partial_fills = 0,
     ss_fill_ratio_sum = Fin 0, ss_min_fill_ratio = Fin 1, ss_adverse_fills = 0,
     ss_adverse_bps_sum = Fin 0, ss_max_adverse_bps = Fin 0\<rparr>"

text \<open>What stays fixed over the loop.\<close>

record sim_env =
  se_pow :: libm_pow
  se_candles :: "candle list"
  se_funding_rates :: "pyfloat list"
  se_taker_fee_bps :: pyfloat
  se_entries :: "bool list"
  se_exits :: "bool list"
  se_slippage_bps :: pyfloat
  se_latency :: int
  se_side :: string
  se_leverage :: pyfloat
  se_config :: liquidation_config
  se_explicit_ratio :: bool
  se_explicit_schedule :: bool
  se_forces_full :: bool
  se_series :: slippage_series
  se_event_counts :: "nat list"

definition equity_mark :: "sim_state \<Rightarrow> pyfloat \<Rightarrow> pyfloat" where
  "equity_mark s u = fadd (fsub (fsub (ss_gross_pnl s) (ss_fee_spend s)) (ss_funding_spend s)) u"

definition push_equity :: "pyfloat \<Rightarrow> sim_state \<Rightarrow> sim_state" where
  "push_equity m s = s\<lparr>ss_equity_curve := ss_equity_curve s @ [m]\<rparr>"

definition close_if_flat :: "sim_state \<Rightarrow> sim_state" where
  "close_if_flat s =
     (if fle (ss_size s) f_1em9
      then s\<lparr>ss_open := False, ss_size := Fin 0, ss_entry_price := Fin 0, ss_entry_index := -1\<rparr> else s)"

definition close_at :: "sim_env \<Rightarrow> nat \<Rightarrow> pyfloat" where
  "close_at v i = cd_close (se_candles v ! i)"

definition effective_margin :: "sim_env \<Rightarrow> sim_state \<Rightarrow> pyfloat result" where
  "effective_margin v s =
     resolve_maintenance_margin_ratio (se_leverage v) (fmul (ss_entry_price s) (ss_size s))
       (lc_maintenance_margin_ratio (se_config v)) (lc_margin_schedule (se_config v))"

definition liquidation_qty :: "sim_env \<Rightarrow> sim_state \<Rightarrow> pyfloat" where
  "liquidation_qty v s =
     (let c = se_config v;
          (steps, dflt) = resolve_liquidation_step_behavior (se_leverage v)
             (fmul (ss_entry_price s) (ss_size s)) (se_forces_full v) (se_explicit_ratio v)
             (se_explicit_schedule v) (lc_partial_ratio c) (lc_step_schedule c) (lc_margin_schedule c)
      in fmul (ss_size s) (liquidation_ratio_for_event steps dflt (ss_step_index s)))"

definition book_liquidation ::
    "sim_env \<Rightarrow> nat \<Rightarrow> pyfloat \<Rightarrow> pyfloat \<Rightarrow> pyfloat \<Rightarrow> pyfloat \<Rightarrow> sim_state \<Rightarrow> sim_state" where
  "book_liquidation v i price trigger qty cost s =
     (let gross = fmul (price_delta price (ss_entry_price s) (se_side v)) qty
      in close_if_flat (s\<lparr>ss_fee_spend := fadd (ss_fee_spend s) cost,
           ss_gross_pnl := fadd (ss_gross_pnl s) gross,
           ss_trade_results := ss_trade_results s @ [fsub gross cost],
           ss_trade_count := ss_trade_count s + 1,
           ss_liquidation_events := ss_liquidation_events s @
             [cd_iso (se_candles v ! i) @ '':liquidation@'' @ fixed_text 4 price @ '':trigger=''
              @ fixed_text 4 trigger @ '':size='' @ fixed_text 4 qty],
           ss_size := fsub (ss_size s) qty,
           ss_cooldown_until := int i + lc_cooldown_bars (se_config v),
           ss_step_index := ss_step_index s + 1\<rparr>))"

definition liquidate :: "sim_env \<Rightarrow> nat \<Rightarrow> pyfloat \<Rightarrow> pyfloat \<Rightarrow> sim_state \<Rightarrow> sim_state result" where
  "liquidate v i price trigger s =
     (let c = se_config v; qty = liquidation_qty v s in
      rbind (resolve_tier_value (se_leverage v) (fmul (ss_entry_price s) (ss_size s))
               (lc_liquidation_fee_bps c) (lc_fee_schedule c) tr_liquidation_fee_bps
               ''liquidation_fee_bps'') (\<lambda>fee.
      rbind (resolve_slippage_bps (se_pow v) (se_series v) (se_slippage_bps v) (fmul price qty) i) (\<lambda>slip.
        let cost = apply_trade_cost (fmul price qty) (fadd (se_taker_fee_bps v) fee) slip;
            s1 = book_liquidation v i price trigger qty cost s;
            remaining = (if ss_open s1
              then fmul (price_delta (close_at v i) (ss_entry_price s1) (se_side v)) (ss_size s1)
              else Fin 0)
        in Inr (push_equity (equity_mark s1 remaining) s1))))"

text \<open>A fill at the delayed bar, with its slippage and adverse price; \<open>None\<close> when nothing is filled.\<close>

definition fill_index :: "sim_env \<Rightarrow> nat \<Rightarrow> nat" where
  "fill_index v i = nat (min (int i + se_latency v) (int (length (se_candles v)) - 1))"

definition fill_order ::
    "sim_env \<Rightarrow> nat \<Rightarrow> bool \<Rightarrow> pyfloat \<Rightarrow> sim_state
     \<Rightarrow> (pyfloat \<times> pyfloat \<times> pyfloat \<times> sim_state) option result" where
  "fill_order v i is_entry qty s =
     (let j = fill_index v i; reference = close_at v j;
          ratio = resolve_execution_fill_ratio (se_series v) (fmul reference qty) j;
          executed = fmul qty ratio
      in if fle executed f_1em9 then Inr None
         else rbind (resolve_slippage_bps (se_pow v) (se_series v) (se_slippage_bps v)
                       (fmul reference executed) j) (\<lambda>slip.
           let bps = resolve_execution_adverse_fill_bps (se_series v) slip ratio j;
               price = apply_adverse_fill_price reference (se_side v) is_entry bps;
               s1 = s\<lparr>ss_fills := ss_fills s + 1,
                 ss_fill_ratio_sum := fadd (ss_fill_ratio_sum s) ratio,
                 ss_min_fill_ratio := fmin (ss_min_fill_ratio s) ratio,
                 ss_partial_fills := (if flt ratio (fsub (Fin 1) f_1em9) then ss_partial_fills s + 1
                                      else ss_partial_fills s)\<rparr>;
               s2 = (if flt (Fin 0) bps
                     then s1\<lparr>ss_adverse_fills := ss_adverse_fills s1 + 1,
                       ss_adverse_bps_sum := fadd (ss_adverse_bps_sum s1) bps,
                       ss_max_adverse_bps := fmax (ss_max_adverse_bps s1) bps\<rparr>
                     else s1);
               cost = apply_trade_cost (fmul price executed) (se_taker_fee_bps v)
                        (if flt (Fin 0) bps then Fin 0 else slip)
           in Inr (Some (executed, price, cost, s2))))"

definition book_trade :: "sim_env \<Rightarrow> pyfloat \<Rightarrow> pyfloat \<Rightarrow> pyfloat \<Rightarrow> sim_state \<Rightarrow> sim_state" where
  "book_trade v price qty cost s =
     (let gross = fmul (price_delta price (ss_entry_price s) (se_side v)) qty; net = fsub gross cost
      in s\<lparr>ss_fee_spend := fadd (ss_fee_spend s) cost, ss_gross_pnl := fadd (ss_gross_pnl s) gross,
           ss_trade_results := ss_trade_results s @ [net],
           ss_winning_trades := (if flt (Fin 0) net then ss_winning_trades s + 1 else ss_winning_trades s),
           ss_trade_count := ss_trade_count s + 1\<rparr>)"

definition enter_position :: "sim_env \<Rightarrow> nat \<Rightarrow> pyfloat \<Rightarrow> sim_state \<Rightarrow> sim_state result" where
  "enter_position v i mark s =
     rbind (fill_order v i True (se_leverage v) s) (\<lambda>r. case r of
       None \<Rightarrow> Inr (push_equity mark s)
     | Some (executed, price, cost, s1) \<Rightarrow>
         let s2 = s1\<lparr>ss_fee_spend := fadd (ss_fee_spend s1) cost, ss_open := True, ss_size := executed,
                    ss_entry_price := price, ss_entry_index := int (fill_index v i), ss_step_index := 0\<rparr>
         in Inr (push_equity (equity_mark s2 (Fin 0)) s2))"

definition exit_position :: "sim_env \<Rightarrow> nat \<Rightarrow> pyfloat \<Rightarrow> sim_state \<Rightarrow> sim_state result" where
  "exit_position v i mark s =
     rbind (fill_order v i False (ss_size s) s) (\<lambda>r. case r of
       None \<Rightarrow> Inr (push_equity mark s)
     | Some (executed, price, cost, s1) \<Rightarrow>
         let s2 = book_trade v price executed cost s1;
             s3 = close_if_flat (s2\<lparr>ss_size := fsub (ss_size s2) executed\<rparr>)
         in Inr (push_equity (equity_mark s3 (Fin 0)) s3))"

definition act_on_signals :: "sim_env \<Rightarrow> nat \<Rightarrow> pyfloat \<Rightarrow> sim_state \<Rightarrow> sim_state result" where
  "act_on_signals v i mark s =
     (if \<not> ss_open s \<and> se_entries v ! i then enter_position v i mark s
      else if ss_open s \<and> se_exits v ! i \<and> ss_entry_index s \<le> int i then exit_position v i mark s
      else Inr (push_equity mark s))"

definition charge_funding :: "sim_env \<Rightarrow> nat \<Rightarrow> sim_state \<Rightarrow> sim_state result" where
  "charge_funding v i s =
     (if i < length (se_funding_rates v)
      then let cost = fmul (apply_funding (fmul (close_at v i) (ss_size s)) (se_funding_rates v ! i) (se_side v))
                        (fnat (se_event_counts v ! i))
           in Inr (s\<lparr>ss_funding_spend := fadd (ss_funding_spend s) cost\<rparr>)
      else Inl IndexError)"

definition sim_bar :: "sim_env \<Rightarrow> nat \<Rightarrow> sim_state \<Rightarrow> sim_state result" where
  "sim_bar v i s =
     (if \<not> ss_open s then act_on_signals v i (equity_mark s (Fin 0)) s
      else
        let unrealized = fmul (price_delta (close_at v i) (ss_entry_price s) (se_side v)) (ss_size s);
            c = se_config v
        in rbind (charge_funding v i s) (\<lambda>s1.
           rbind (effective_margin v s1) (\<lambda>margin.
             let price = liquidation_price (ss_entry_price s1) (se_side v) (se_leverage v) margin;
                 trigger = liquidation_trigger_price (se_candles v ! i) (se_side v)
                             (lc_mark_price_weight c) (lc_mark_premium_bps c);
                 hit = (if se_side v = ''long'' then fle trigger price else fle price trigger)
             in if hit \<and> ss_entry_index s1 \<le> int i \<and> ss_cooldown_until s1 < int i
                then liquidate v i price trigger s1
                else act_on_signals v i (equity_mark s1 unrealized) s1)))"

text \<open>A position that is still open is closed at the last bar.\<close>

definition close_out :: "sim_env \<Rightarrow> sim_state \<Rightarrow> sim_state result" where
  "close_out v s =
     (if \<not> ss_open s then Inr s
      else
        let i = length (se_candles v) - 1; price = close_at v i
        in rbind (resolve_slippage_bps (se_pow v) (se_series v) (se_slippage_bps v)
                    (fmul price (ss_size s)) i) (\<lambda>slip.
             let cost = apply_trade_cost (fmul price (ss_size s)) (se_taker_fee_bps v) slip;
                 s1 = book_trade v price (ss_size s) cost s
             in Inr (s1\<lparr>ss_equity_curve := butlast (ss_equity_curve s1) @ [equity_mark s1 (Fin 0)]\<rparr>)))"

record backtest_result =
  br_trade_count :: nat
  br_win_rate :: pyfloat
  br_gross_pnl :: pyfloat
  br_net_pnl :: pyfloat
  br_fee_spend :: pyfloat
  br_funding_spend :: pyfloat
  br_sharpe :: pyfloat
  br_sortino :: pyfloat
  br_max_drawdown :: pyfloat
  br_equity_curve :: "pyfloat list"
  br_liquidation_events :: "string list"
  br_execution_pressure_summary :: "(string \<times> pyval) list"

definition pressure_summary :: "bool \<Rightarrow> sim_state \<Rightarrow> (string \<times> pyval) list" where
  "pressure_summary realistic s =
     (if \<not> realistic \<or> ss_fills s = 0 then []
      else [(''fill_event_count'', PInt (int (ss_fills s))),
            (''partial_fill_event_count'', PInt (int (ss_partial_fills s))),
            (''average_fill_ratio'', PFloat (round_nd 6 (fquot (ss_fill_ratio_sum s) (fnat (ss_fills s))))),
            (''min_fill_ratio'', PFloat (round_nd 6 (ss_min_fill_ratio s)))]
           @ (if ss_adverse_fills s = 0 then []
              else [(''adverse_fill_event_count'', PInt (int (ss_adverse_fills s))),
                    (''average_adverse_fill_bps'',
                       PFloat (round_nd 6 (fquot (ss_adverse_bps_sum s) (fnat (ss_adverse_fills s))))),
                    (''max_adverse_fill_bps'', PFloat (round_nd 6 (ss_max_adverse_bps s)))]))"

definition net_pnl :: "sim_state \<Rightarrow> pyfloat" where
  "net_pnl s = fsub (fsub (ss_gross_pnl s) (ss_fee_spend s)) (ss_funding_spend s)"

definition equity_returns :: "pyfloat list \<Rightarrow> pyfloat list" where
  "equity_returns curve = map (\<lambda>(a, b). fsub b a) (zip curve (tl curve))"

definition sim_result :: "libm_pow \<Rightarrow> bool \<Rightarrow> string \<Rightarrow> sim_state \<Rightarrow> backtest_result result" where
  "sim_result pw realistic timeframe s =
     (let returns = equity_returns (ss_equity_curve s) in
      rbind (annualization_factor timeframe) (\<lambda>ann.
      rbind (sharpe_ratio pw returns ann) (\<lambda>sharpe.
      rbind (sortino_ratio pw returns ann) (\<lambda>sortino.
        Inr \<lparr>br_trade_count = ss_trade_count s,
             br_win_rate = (if ss_trade_count s = 0 then Fin 0
                            else fquot (fnat (ss_winning_trades s)) (fnat (ss_trade_count s))),
             br_gross_pnl = ss_gross_pnl s, br_net_pnl = net_pnl s, br_fee_spend = ss_fee_spend s,
             br_funding_spend = ss_funding_spend s, br_sharpe = sharpe, br_sortino = sortino,
             br_max_drawdown = max_drawdown (ss_equity_curve s), br_equity_curve = ss_equity_curve s,
             br_liquidation_events = ss_liquidation_events s,
             br_execution_pressure_summary = pressure_summary realistic s\<rparr>))))"

definition sim_environment ::
    "libm_pow \<Rightarrow> data_snapshot \<Rightarrow> bool list \<Rightarrow> bool list \<Rightarrow> pyfloat \<Rightarrow> int \<Rightarrow> string \<Rightarrow> pyfloat
     \<Rightarrow> liquidation_args \<Rightarrow> string \<Rightarrow> sim_env result" where
  "sim_environment pw s entries exits slippage latency side leverage a model =
     (let p = sn_venue_profile s; c = resolve_liquidation_defaults p a in
      rbind (check_simulation (length (sn_candles s)) entries exits latency side leverage c) (\<lambda>_.
      rbind (prepare_slippage_series pw model s) (\<lambda>series.
      rbind (compute_funding_event_counts (sn_candles s) (sn_venue s)) (\<lambda>counts.
        Inr \<lparr>se_pow = pw, se_candles = sn_candles s, se_funding_rates = sn_funding_rates s,
             se_taker_fee_bps = sn_taker_fee_bps s, se_entries = entries, se_exits = exits,
             se_slippage_bps = slippage, se_latency = latency, se_side = side, se_leverage = leverage,
             se_config = c, se_explicit_ratio = (la_partial_ratio a \<noteq> None),
             se_explicit_schedule = (la_step_schedule a \<noteq> None),
             se_forces_full = (la_partial_ratio a = None \<and> la_step_schedule a = None
               \<and> profile_or p (\<lambda>v. str_lower (str_strip (vp_liquidation_style v)) = ''full'') False),
             se_series = series, se_event_counts = counts\<rparr>))))"

definition sim_run :: "sim_env \<Rightarrow> sim_state result" where
  "sim_run v = rbind (rfold (sim_bar v) [0..<length (se_candles v)] sim_start) (close_out v)"

definition simulate_strategy ::
    "libm_pow \<Rightarrow> data_snapshot \<Rightarrow> bool list \<Rightarrow> bool list \<Rightarrow> pyfloat \<Rightarrow> int \<Rightarrow> string \<Rightarrow> pyfloat
     \<Rightarrow> liquidation_args \<Rightarrow> string \<Rightarrow> backtest_result result" where
  "simulate_strategy pw s entries exits slippage latency side leverage a model =
     rbind (sim_environment pw s entries exits slippage latency side leverage a model) (\<lambda>v.
     rbind (sim_run v) (\<lambda>st. sim_result pw (model = ''realistic'') (sn_timeframe s) st))"

section \<open>What the loop keeps\<close>

text \<open>What every bar keeps, with \<open>n\<close> bars behind it.\<close>

definition sim_inv :: "nat \<Rightarrow> sim_state \<Rightarrow> bool" where
  "sim_inv n s \<longleftrightarrow> length (ss_equity_curve s) = n
     \<and> (0 < n \<and> \<not> ss_open s \<longrightarrow> last (ss_equity_curve s) = equity_mark s (Fin 0))
     \<and> length (ss_trade_results s) = ss_trade_count s \<and> ss_winning_trades s \<le> ss_trade_count s
     \<and> length (ss_liquidation_events s) \<le> ss_trade_count s \<and> (ss_open s \<longrightarrow> 0 < n)"

lemma equity_mark_simps [simp]:
  "equity_mark (push_equity m s) u = equity_mark s u"
  "ss_open (push_equity m s) = ss_open s" "ss_size (push_equity m s) = ss_size s"
  "ss_entry_index (push_equity m s) = ss_entry_index s"
  "ss_equity_curve (push_equity m s) = ss_equity_curve s @ [m]"
  by (simp_all add: equity_mark_def push_equity_def)

lemma sim_inv_push:
  "sim_inv (Suc n) (push_equity m s) \<longleftrightarrow>
     length (ss_equity_curve s) = n \<and> (\<not> ss_open s \<longrightarrow> m = equity_mark s (Fin 0))
     \<and> length (ss_trade_results s) = ss_trade_count s \<and> ss_winning_trades s \<le> ss_trade_count s
     \<and> length (ss_liquidation_events s) \<le> ss_trade_count s"
  by (auto simp: sim_inv_def) (auto simp: push_equity_def)

lemma close_if_flat_simps [simp]:
  "ss_equity_curve (close_if_flat s) = ss_equity_curve s" "ss_trade_results (close_if_flat s) = ss_trade_results s"
  "ss_trade_count (close_if_flat s) = ss_trade_count s" "ss_winning_trades (close_if_flat s) = ss_winning_trades s"
  "ss_liquidation_events (close_if_flat s) = ss_liquidation_events s"
  "equity_mark (close_if_flat s) u = equity_mark s u"
  by (simp_all add: close_if_flat_def equity_mark_def)

lemma fill_order_frame:
  assumes "fill_order v i e q s = Inr (Some (x, p, c, t))"
  shows "ss_equity_curve t = ss_equity_curve s" "ss_trade_results t = ss_trade_results s"
    "ss_trade_count t = ss_trade_count s" "ss_winning_trades t = ss_winning_trades s"
    "ss_liquidation_events t = ss_liquidation_events s" "ss_open t = ss_open s" "ss_size t = ss_size s"
    "ss_gross_pnl t = ss_gross_pnl s" "ss_fee_spend t = ss_fee_spend s" "ss_funding_spend t = ss_funding_spend s"
    "ss_entry_price t = ss_entry_price s" "ss_entry_index t = ss_entry_index s"
    "ss_cooldown_until t = ss_cooldown_until s" "ss_step_index t = ss_step_index s"
  using assms by (auto simp: fill_order_def Let_def rbind_Inr_iff split: if_splits)

lemma book_trade_simps [simp]:
  "ss_equity_curve (book_trade v p q c s) = ss_equity_curve s"
  "ss_open (book_trade v p q c s) = ss_open s" "ss_size (book_trade v p q c s) = ss_size s"
  "ss_funding_spend (book_trade v p q c s) = ss_funding_spend s"
  "ss_fee_spend (book_trade v p q c s) = fadd (ss_fee_spend s) c"
  "length (ss_trade_results (book_trade v p q c s)) = Suc (length (ss_trade_results s))"
  "ss_trade_count (book_trade v p q c s) = Suc (ss_trade_count s)"
  "ss_liquidation_events (book_trade v p q c s) = ss_liquidation_events s"
  by (simp_all add: book_trade_def Let_def)

lemma book_trade_wins: "ss_winning_trades s \<le> n \<Longrightarrow> ss_winning_trades (book_trade v p q c s) \<le> Suc n"
  by (simp add: book_trade_def Let_def)

lemma enter_position_cases:
  assumes "enter_position v i m s = Inr t"
  obtains "fill_order v i True (se_leverage v) s = Inr None" "t = push_equity m s"
  | x p c u s2 where "fill_order v i True (se_leverage v) s = Inr (Some (x, p, c, u))"
      "s2 = u\<lparr>ss_fee_spend := fadd (ss_fee_spend u) c, ss_open := True, ss_size := x,
              ss_entry_price := p, ss_entry_index := int (fill_index v i), ss_step_index := 0\<rparr>"
      "t = push_equity (equity_mark s2 (Fin 0)) s2"
proof (cases "fill_order v i True (se_leverage v) s")
  case (Inl e)
  with assms show ?thesis by (simp add: enter_position_def)
next
  case (Inr r)
  show ?thesis
  proof (cases r)
    case None
    with assms Inr show ?thesis by (intro that(1)) (simp_all add: enter_position_def)
  next
    case (Some y)
    obtain x p c u where "y = (x, p, c, u)" by (cases y)
    with assms Inr Some show ?thesis by (intro that(2) [OF _ refl]) (auto simp: enter_position_def Let_def)
  qed
qed

lemma exit_position_cases:
  assumes "exit_position v i m s = Inr t"
  obtains "fill_order v i False (ss_size s) s = Inr None" "t = push_equity m s"
  | x p c u s2 s3 where "fill_order v i False (ss_size s) s = Inr (Some (x, p, c, u))"
      "s2 = book_trade v p x c u" "s3 = close_if_flat (s2\<lparr>ss_size := fsub (ss_size s2) x\<rparr>)"
      "t = push_equity (equity_mark s3 (Fin 0)) s3"
proof (cases "fill_order v i False (ss_size s) s")
  case (Inl e)
  with assms show ?thesis by (simp add: exit_position_def)
next
  case (Inr r)
  show ?thesis
  proof (cases r)
    case None
    with assms Inr show ?thesis by (intro that(1)) (simp_all add: exit_position_def)
  next
    case (Some y)
    obtain x p c u where "y = (x, p, c, u)" by (cases y)
    with assms Inr Some show ?thesis by (intro that(2) [OF _ refl refl]) (auto simp: exit_position_def Let_def)
  qed
qed

lemma act_on_signals_inv:
  assumes "sim_inv n s" "act_on_signals v i m s = Inr t" "\<not> ss_open s \<longrightarrow> m = equity_mark s (Fin 0)"
  shows "sim_inv (Suc n) t"
proof -
  have s: "length (ss_equity_curve s) = n" "length (ss_trade_results s) = ss_trade_count s"
      "ss_winning_trades s \<le> ss_trade_count s" "length (ss_liquidation_events s) \<le> ss_trade_count s"
    using assms(1) by (auto simp: sim_inv_def)
  have keep: "sim_inv (Suc n) (push_equity m s)" using s assms(3) by (simp add: sim_inv_push)
  have enter: "sim_inv (Suc n) t" if "enter_position v i m s = Inr t"
    using that
  proof (cases rule: enter_position_cases)
    case (2 x p c u s2)
    with s show ?thesis by (simp add: sim_inv_push fill_order_frame [OF 2(1)])
  qed (use keep in simp)
  have exit: "sim_inv (Suc n) t" if "exit_position v i m s = Inr t"
    using that
  proof (cases rule: exit_position_cases)
    case (2 x p c u s2 s3)
    with s show ?thesis
      using book_trade_wins [of u "ss_trade_count s"]
      by (simp add: sim_inv_push fill_order_frame [OF 2(1)])
  qed (use keep in simp)
  show ?thesis using assms(2) enter exit keep by (auto simp: act_on_signals_def split: if_splits)
qed

lemma book_liquidation_simps [simp]:
  "ss_equity_curve (book_liquidation v i p g q c s) = ss_equity_curve s"
  "length (ss_trade_results (book_liquidation v i p g q c s)) = Suc (length (ss_trade_results s))"
  "ss_trade_count (book_liquidation v i p g q c s) = Suc (ss_trade_count s)"
  "ss_winning_trades (book_liquidation v i p g q c s) = ss_winning_trades s"
  "length (ss_liquidation_events (book_liquidation v i p g q c s)) = Suc (length (ss_liquidation_events s))"
  by (simp_all add: book_liquidation_def Let_def)

lemma liquidate_cases:
  assumes "liquidate v i p g s = Inr t"
  obtains cost s1 where "s1 = book_liquidation v i p g (liquidation_qty v s) cost s"
    "t = push_equity (equity_mark s1 (if ss_open s1
           then fmul (price_delta (close_at v i) (ss_entry_price s1) (se_side v)) (ss_size s1)
           else Fin 0)) s1"
  using assms unfolding liquidate_def Let_def rbind_Inr_iff by blast

lemma liquidate_inv:
  assumes "sim_inv n s" "liquidate v i p g s = Inr t"
  shows "sim_inv (Suc n) t"
  using assms(2)
proof (cases rule: liquidate_cases)
  case (1 cost s1)
  with assms(1) show ?thesis by (simp add: sim_inv_push) (simp add: sim_inv_def)
qed

lemma charge_funding_frame:
  "charge_funding v i s = Inr u \<Longrightarrow> \<exists>x. u = s\<lparr>ss_funding_spend := x\<rparr>"
  by (auto simp: charge_funding_def Let_def split: if_splits)

lemma sim_bar_cases:
  assumes "sim_bar v i s = Inr t"
  obtains "\<not> ss_open s" "act_on_signals v i (equity_mark s (Fin 0)) s = Inr t"
  | u m where "ss_open s" "charge_funding v i s = Inr u" "act_on_signals v i m u = Inr t"
  | u p g where "ss_open s" "charge_funding v i s = Inr u" "liquidate v i p g u = Inr t"
proof (cases "ss_open s")
  case False
  with assms that(1) show ?thesis by (simp add: sim_bar_def)
next
  case True
  with assms obtain u where "charge_funding v i s = Inr u"
    by (cases "charge_funding v i s") (simp_all add: sim_bar_def Let_def)
  with assms True that(2,3) show ?thesis
    by (auto simp: sim_bar_def rbind_Inr_iff Let_def split: if_splits)
qed

lemma sim_bar_inv:
  assumes "sim_inv n s" "sim_bar v i s = Inr t"
  shows "sim_inv (Suc n) t"
  using assms(2)
proof (cases rule: sim_bar_cases)
  case 1
  with assms(1) show ?thesis by (auto intro: act_on_signals_inv)
next
  case (2 u m)
  then obtain x where u: "u = s\<lparr>ss_funding_spend := x\<rparr>" using charge_funding_frame by blast
  with assms(1) 2(1) have "sim_inv n u" "ss_open u" by (simp_all add: sim_inv_def)
  with 2(3) show ?thesis by (auto intro: act_on_signals_inv)
next
  case (3 u p g)
  then obtain x where u: "u = s\<lparr>ss_funding_spend := x\<rparr>" using charge_funding_frame by blast
  with assms(1) 3(1) have "sim_inv n u" by (simp add: sim_inv_def)
  with 3(3) show ?thesis by (auto intro: liquidate_inv)
qed


lemma rfold_upt_Suc: "rfold f [0..<Suc k] s = rbind (rfold f [0..<k] s) (f k)"
  by (simp add: rfold_append) (simp add: rbind_def split: sum.split)

lemma sim_start_inv: "sim_inv 0 sim_start"
  by (simp add: sim_inv_def sim_start_def)

lemma sim_loop_inv: "rfold (sim_bar v) [0..<k] sim_start = Inr s \<Longrightarrow> sim_inv k s"
proof (induction k arbitrary: s)
  case (Suc k)
  then obtain u where "rfold (sim_bar v) [0..<k] sim_start = Inr u" "sim_bar v k u = Inr s"
    by (auto simp: rfold_upt_Suc rbind_Inr_iff simp del: upt_Suc)
  with Suc.IH show ?case by (auto intro: sim_bar_inv)
qed (use sim_start_inv in auto)

lemma close_out_cases:
  assumes "close_out v s = Inr t"
  obtains "\<not> ss_open s" "t = s"
  | p c s1 where "ss_open s" "s1 = book_trade v p (ss_size s) c s"
      "t = s1\<lparr>ss_equity_curve := butlast (ss_equity_curve s1) @ [equity_mark s1 (Fin 0)]\<rparr>"
proof (cases "ss_open s")
  case False
  with assms have "t = s" by (simp add: close_out_def)
  with False show ?thesis by (rule that(1))
next
  case True
  let ?i = "length (se_candles v) - 1"
  let ?r = "resolve_slippage_bps (se_pow v) (se_series v) (se_slippage_bps v) (fmul (close_at v ?i) (ss_size s)) ?i"
  from assms True obtain slip where "?r = Inr slip" by (cases ?r) (simp_all add: close_out_def Let_def)
  with assms True show ?thesis
    by (intro that(2) [where p = "close_at v ?i"
          and c = "apply_trade_cost (fmul (close_at v ?i) (ss_size s)) (se_taker_fee_bps v) slip"])
      (auto simp: close_out_def Let_def)
qed

lemma sim_run_result:
  assumes "sim_run v = Inr t"
  shows "length (ss_equity_curve t) = length (se_candles v)"
    and "se_candles v \<noteq> [] \<Longrightarrow> last (ss_equity_curve t) = equity_mark t (Fin 0)"
    and "ss_winning_trades t \<le> ss_trade_count t"
    and "length (ss_liquidation_events t) \<le> ss_trade_count t"
proof -
  let ?n = "length (se_candles v)"
  from assms obtain s where s: "rfold (sim_bar v) [0..<?n] sim_start = Inr s" "close_out v s = Inr t"
    by (auto simp: sim_run_def rbind_Inr_iff)
  have i: "sim_inv ?n s" by (rule sim_loop_inv [OF s(1)])
  have "length (ss_equity_curve t) = ?n
    \<and> (se_candles v \<noteq> [] \<longrightarrow> last (ss_equity_curve t) = equity_mark t (Fin 0))
    \<and> ss_winning_trades t \<le> ss_trade_count t \<and> length (ss_liquidation_events t) \<le> ss_trade_count t"
    using s(2)
  proof (cases rule: close_out_cases)
    case 1
    with i show ?thesis by (auto simp: sim_inv_def)
  next
    case (2 p c s1)
    have mark: "equity_mark (u\<lparr>ss_equity_curve := xs\<rparr>) x = equity_mark u x" for u xs x
      by (simp add: equity_mark_def)
    from i 2 book_trade_wins [of s "ss_trade_count s"] show ?thesis
      by (auto simp: sim_inv_def mark)
  qed
  then show "length (ss_equity_curve t) = ?n"
    "se_candles v \<noteq> [] \<Longrightarrow> last (ss_equity_curve t) = equity_mark t (Fin 0)"
    "ss_winning_trades t \<le> ss_trade_count t" "length (ss_liquidation_events t) \<le> ss_trade_count t"
    by auto
qed

lemma fadd_zero: "is_f64 x \<Longrightarrow> fadd x (Fin 0) = x"
  by (cases x) (auto simp: fl_of_f64)

lemma is_f64_fadd_any: "is_f64 (fadd x y)"
  by (cases x; cases y) simp_all

lemma equity_mark_is_net: "equity_mark t (Fin 0) = net_pnl t"
  unfolding equity_mark_def net_pnl_def by (rule fadd_zero) (simp add: fsub_def is_f64_fadd_any)

lemma fnat_mono: "m \<le> n \<Longrightarrow> fle (fnat m) (fnat n)"
  unfolding fnat_def by (rule fl_mono) simp

lemma ratio_in_unit:
  assumes "m \<le> n" "0 < n" "fnat n \<noteq> PInf"
  shows "fle (Fin 0) (fquot (fnat m) (fnat n)) \<and> fle (fquot (fnat m) (fnat n)) (Fin 1)"
proof -
  have "fle (fnat 1) (fnat n)" using assms(2) by (intro fnat_mono) simp
  moreover have "fnat 1 = Fin 1" by (simp add: fnat_def)
  ultimately obtain b where b: "fnat n = Fin b" "1 \<le> b" using assms(3) by (cases "fnat n") auto
  have "fle (fnat 0) (fnat m)" by (intro fnat_mono) simp
  with fnat_mono [OF assms(1)] b obtain a where a: "fnat m = Fin a" "0 \<le> a" "a \<le> b"
    by (cases "fnat m") (auto simp: fnat_def)
  have "0 \<le> a / b" "a / b \<le> 1" using a b by auto
  then show ?thesis by (simp add: a b fl_ge_Fin fl_le_Fin)
qed

text \<open>C14. The books of a simulation balance: the equity curve has one entry per candle and ends at the
  net profit, which is the gross profit less fees and funding; liquidations are counted as
  trades, and the win rate lies between zero and one.\<close>

theorem simulation_books_balance:
  assumes "simulate_strategy pw s entries exits slippage latency side leverage a model = Inr r"
    and "fnat (br_trade_count r) \<noteq> PInf"
  shows "length (br_equity_curve r) = length (sn_candles s)
    \<and> (sn_candles s \<noteq> [] \<longrightarrow> last (br_equity_curve r) = br_net_pnl r)
    \<and> br_net_pnl r = fsub (fsub (br_gross_pnl r) (br_fee_spend r)) (br_funding_spend r)
    \<and> length (br_liquidation_events r) \<le> br_trade_count r
    \<and> fle (Fin 0) (br_win_rate r) \<and> fle (br_win_rate r) (Fin 1)"
proof -
  from assms(1) obtain v st where v: "sim_environment pw s entries exits slippage latency side leverage a model = Inr v"
    and st: "sim_run v = Inr st" and r: "sim_result pw (model = ''realistic'') (sn_timeframe s) st = Inr r"
    by (auto simp: simulate_strategy_def rbind_Inr_iff)
  have c: "se_candles v = sn_candles s"
    using v by (auto simp: sim_environment_def rbind_Inr_iff Let_def)
  have f: "br_equity_curve r = ss_equity_curve st" "br_net_pnl r = net_pnl st" "br_gross_pnl r = ss_gross_pnl st"
    "br_fee_spend r = ss_fee_spend st" "br_funding_spend r = ss_funding_spend st"
    "br_trade_count r = ss_trade_count st" "br_liquidation_events r = ss_liquidation_events st"
    "br_win_rate r = (if ss_trade_count st = 0 then Fin 0
       else fquot (fnat (ss_winning_trades st)) (fnat (ss_trade_count st)))"
    using r by (auto simp: sim_result_def rbind_Inr_iff Let_def)
  show ?thesis
    using sim_run_result [OF st] assms(2) ratio_in_unit [of "ss_winning_trades st" "ss_trade_count st"]
    by (auto simp: f c equity_mark_is_net net_pnl_def)
qed

section \<open>No look-ahead\<close>

definition flat_series :: "slippage_series \<Rightarrow> bool" where
  "flat_series v \<longleftrightarrow> \<not> sl_realistic v \<and> \<not> sl_dynamic v"

lemma flat_fill_ratio: "flat_series v \<Longrightarrow> resolve_execution_fill_ratio v x i = Fin 1"
  by (auto simp: flat_series_def resolve_execution_fill_ratio_def split: option.split)

lemma flat_slippage: "flat_series v \<Longrightarrow> resolve_slippage_bps pw v f x i = Inr f"
  by (auto simp: flat_series_def resolve_slippage_bps_def split: option.split bool.split)

lemma flat_adverse: "flat_series v \<Longrightarrow> resolve_execution_adverse_fill_bps v x r i = Fin 0"
  by (simp add: flat_series_def resolve_execution_adverse_fill_bps_def)

lemma flat_fill_order:
  assumes "flat_series (se_series v)"
  shows "fill_order v i e q s =
    (let reference = close_at v (fill_index v i); executed = fmul q (Fin 1)
     in Inr (if fle executed f_1em9 then None
        else Some (executed, reference, apply_trade_cost (fmul reference executed) (se_taker_fee_bps v) (se_slippage_bps v),
          s\<lparr>ss_fills := ss_fills s + 1, ss_fill_ratio_sum := fadd (ss_fill_ratio_sum s) (Fin 1),
            ss_min_fill_ratio := fmin (ss_min_fill_ratio s) (Fin 1),
            ss_partial_fills := (if flt (Fin 1) (fsub (Fin 1) f_1em9) then ss_partial_fills s + 1
                                 else ss_partial_fills s)\<rparr>)))"
  using assms
  by (simp add: fill_order_def flat_fill_ratio flat_slippage flat_adverse apply_adverse_fill_price_def Let_def)

text \<open>Two environments that agree on the bars up to \<open>k\<close>.\<close>

definition same_until :: "nat \<Rightarrow> sim_env \<Rightarrow> sim_env \<Rightarrow> bool" where
  "same_until k v w \<longleftrightarrow> k \<le> length (se_candles v) \<and> k \<le> length (se_candles w)
     \<and> (\<forall>i < k. se_candles v ! i = se_candles w ! i \<and> se_entries v ! i = se_entries w ! i
          \<and> se_exits v ! i = se_exits w ! i \<and> se_event_counts v ! i = se_event_counts w ! i)
     \<and> take k (se_funding_rates v) = take k (se_funding_rates w) \<and> se_taker_fee_bps v = se_taker_fee_bps w
     \<and> se_slippage_bps v = se_slippage_bps w \<and> se_latency v = 0 \<and> se_latency w = 0
     \<and> se_side v = se_side w \<and> se_leverage v = se_leverage w \<and> se_config v = se_config w
     \<and> se_explicit_ratio v = se_explicit_ratio w \<and> se_explicit_schedule v = se_explicit_schedule w
     \<and> se_forces_full v = se_forces_full w \<and> flat_series (se_series v) \<and> flat_series (se_series w)"

lemma take_at: "take k xs = take k ys \<Longrightarrow> i < k \<Longrightarrow> xs ! i = ys ! i"
  by (metis nth_take)

lemma take_cut: "take k xs = take k ys \<Longrightarrow> m \<le> k \<Longrightarrow> take m xs = take m ys"
  by (metis min.absorb1 take_take)

lemma take_agrees:
  "take k xs = take k ys \<Longrightarrow> i < k \<Longrightarrow>
     (i < length xs \<longleftrightarrow> i < length ys) \<and> (i < length xs \<longrightarrow> xs ! i = ys ! i)"
  by (metis length_take min_less_iff_conj nth_take)

lemma same_until_bar:
  assumes "same_until k v w" "i < k"
  shows "sim_bar v i s = sim_bar w i s"
proof -
  note a = assms [unfolded same_until_def]
  have f: "fill_index v i = i" "fill_index w i = i" using a by (auto simp: fill_index_def)
  have c: "close_at v i = close_at w i" using a by (simp add: close_at_def)
  have fill: "fill_order v i e q t = fill_order w i e q t" for e q t
    using a by (simp add: flat_fill_order f c Let_def)
  have rates: "i < length (se_funding_rates v) \<longleftrightarrow> i < length (se_funding_rates w)"
      "i < length (se_funding_rates w) \<Longrightarrow> se_funding_rates v ! i = se_funding_rates w ! i"
    using take_agrees [of k "se_funding_rates v" "se_funding_rates w" i] a by auto
  have "charge_funding v i t = charge_funding w i t" for t
    using rates a by (simp add: charge_funding_def c cong: if_cong)
  then have book: "book_trade v = book_trade w" "liquidation_qty v = liquidation_qty w"
    "charge_funding v i = charge_funding w i" "effective_margin v = effective_margin w"
    using a by (auto simp: fun_eq_iff book_trade_def liquidation_qty_def effective_margin_def c)
  have liq: "book_liquidation v i = book_liquidation w i"
    using a by (auto simp: fun_eq_iff book_liquidation_def)
  have "liquidate v i p g t = liquidate w i p g t" for p g t
    using a by (simp add: liquidate_def book liq flat_slippage c Let_def cong: if_cong)
  moreover have "enter_position v i m t = enter_position w i m t" "exit_position v i m t = exit_position w i m t" for m t
    using a unfolding enter_position_def exit_position_def f fill book by simp_all
  then have "act_on_signals v i m t = act_on_signals w i m t" for m t
    using a by (simp add: act_on_signals_def)
  ultimately show ?thesis using a by (simp add: sim_bar_def book c Let_def cong: if_cong)
qed

lemma same_until_loop:
  "same_until k v w \<Longrightarrow> rfold (sim_bar v) [0..<k] s = rfold (sim_bar w) [0..<k] s"
proof -
  assume k: "same_until k v w"
  have "rfold (sim_bar v) xs s = rfold (sim_bar w) xs s" if "set xs \<subseteq> {..<k}" for xs s
    using that by (induction xs arbitrary: s) (auto simp: same_until_bar [OF k] rbind_def split: sum.split)
  then show ?thesis by force
qed

lemma sim_bar_extends: "sim_bar v i s = Inr t \<Longrightarrow> \<exists>m. ss_equity_curve t = ss_equity_curve s @ [m]"
proof -
  have act: "\<exists>m. ss_equity_curve t = ss_equity_curve u @ [m]" if "act_on_signals v i x u = Inr t" for x u
  proof -
    have "\<exists>m. ss_equity_curve t = ss_equity_curve u @ [m]" if "enter_position v i x u = Inr t"
      using that by (cases rule: enter_position_cases) (auto simp: fill_order_frame)
    moreover have "\<exists>m. ss_equity_curve t = ss_equity_curve u @ [m]" if "exit_position v i x u = Inr t"
      using that by (cases rule: exit_position_cases) (auto simp: fill_order_frame)
    ultimately show ?thesis using that by (auto simp: act_on_signals_def split: if_splits)
  qed
  assume "sim_bar v i s = Inr t"
  then show ?thesis
  proof (cases rule: sim_bar_cases)
    case (2 u m)
    with charge_funding_frame [OF 2(2)] act [OF 2(3)] show ?thesis by auto
  next
    case (3 u p g)
    with charge_funding_frame [OF 3(2)] show ?thesis by (auto elim!: liquidate_cases)
  qed (use act in blast)
qed

lemma sim_loop_extends:
  "rfold (sim_bar v) xs s = Inr t \<Longrightarrow> \<exists>ms. ss_equity_curve t = ss_equity_curve s @ ms"
proof (induction xs arbitrary: s)
  case (Cons x xs)
  then obtain u where u: "sim_bar v x s = Inr u" "rfold (sim_bar v) xs u = Inr t" by (auto simp: rbind_Inr_iff)
  from sim_bar_extends [OF u(1)] Cons.IH [OF u(2)] show ?case by auto
qed simp

lemma close_out_curve: "close_out v s = Inr t \<Longrightarrow> butlast (ss_equity_curve t) = butlast (ss_equity_curve s)"
  by (erule close_out_cases) simp_all

text \<open>The equity of the first bars is what the loop had marked when it passed them; only the last mark of a
  run is replaced when the position is closed out.\<close>

lemma run_prefix:
  assumes "sim_run v = Inr s" "k \<le> length (se_candles v)"
  obtains t where "rfold (sim_bar v) [0..<k] sim_start = Inr t"
    "\<And>j. j \<le> k \<Longrightarrow> j < length (se_candles v) \<Longrightarrow> take j (ss_equity_curve s) = take j (ss_equity_curve t)"
proof -
  let ?n = "length (se_candles v)"
  from assms(1) obtain s1 where s1: "rfold (sim_bar v) [0..<?n] sim_start = Inr s1" "close_out v s1 = Inr s"
    by (auto simp: sim_run_def rbind_Inr_iff)
  have n: "[0..<?n] = [0..<k] @ [k..<?n]" using upt_add_eq_append [of 0 k "?n - k"] assms(2) by simp
  from s1(1) obtain t where t: "rfold (sim_bar v) [0..<k] sim_start = Inr t" "rfold (sim_bar v) [k..<?n] t = Inr s1"
    unfolding n rfold_append rbind_Inr_iff by blast
  obtain ms where ms: "ss_equity_curve s1 = ss_equity_curve t @ ms" using sim_loop_extends [OF t(2)] by blast
  have l: "length (ss_equity_curve t) = k" "length (ss_equity_curve s1) = ?n" "length (ss_equity_curve s) = ?n"
    using sim_loop_inv [OF t(1)] sim_loop_inv [OF s1(1)] sim_run_result(1) [OF assms(1)] by (simp_all add: sim_inv_def)
  have "take j (ss_equity_curve s) = take j (ss_equity_curve t)" if "j \<le> k" "j < ?n" for j
  proof -
    have "take j (ss_equity_curve s) = take j (butlast (ss_equity_curve s))"
      using that l by (simp add: take_butlast)
    also have "\<dots> = take j (butlast (ss_equity_curve s1))" unfolding close_out_curve [OF s1(2)] ..
    also have "\<dots> = take j (ss_equity_curve s1)" using that l by (simp add: take_butlast)
    also have "\<dots> = take j (ss_equity_curve t)" using that l(1) by (simp add: ms)
    finally show ?thesis .
  qed
  with t(1) that show thesis by blast
qed

lemma same_until_run:
  assumes "same_until k v w" "sim_run v = Inr s" "sim_run w = Inr t"
    and "j \<le> k" "j < length (se_candles v)" "j < length (se_candles w)"
  shows "take j (ss_equity_curve t) = take j (ss_equity_curve s)"
proof -
  have k: "k \<le> length (se_candles v)" "k \<le> length (se_candles w)" using assms(1) by (simp_all add: same_until_def)
  obtain a where a: "rfold (sim_bar v) [0..<k] sim_start = Inr a"
    "take j (ss_equity_curve s) = take j (ss_equity_curve a)"
    using run_prefix [OF assms(2) k(1)] assms(4,5) by blast
  obtain b where b: "rfold (sim_bar w) [0..<k] sim_start = Inr b"
    "take j (ss_equity_curve t) = take j (ss_equity_curve b)"
    using run_prefix [OF assms(3) k(2)] assms(4,6) by blast
  from a(1) b(1) same_until_loop [OF assms(1)] have "a = b" by simp
  with a(2) b(2) show ?thesis by simp
qed

lemma rmap_take: "rmap f xs = Inr ys \<Longrightarrow> rmap f (take m xs) = Inr (take m ys)"
  unfolding rmap_Inr_iff by (metis take_map)

lemma zip_shift_take: "zip (x # take m xs) (take m xs) = take m (zip (x # xs) xs)"
proof (induction xs arbitrary: x m)
  case (Cons y ys)
  then show ?case by (cases m) simp_all
qed simp

lemma event_counts_take:
  assumes "compute_funding_event_counts cs venue = Inr ns"
  shows "compute_funding_event_counts (take k cs) venue = Inr (take k ns)"
proof (cases "cs = [] \<or> k = 0")
  case False
  then obtain c ds m where c: "cs = c # ds" "k = Suc m" by (metis list.exhaust not0_implies_Suc)
  show ?thesis
  proof (cases "settlement_hours venue")
    case None
    with assms c show ?thesis by (auto simp: compute_funding_event_counts_def min_def)
  next
    case (Some hours)
    with assms c obtain ms where "rmap (\<lambda>(a, b). count_funding_events_between (cd_time a) (cd_time b) hours)
        (zip (c # ds) ds) = Inr ms" "ns = 0 # ms"
      by (auto simp: compute_funding_event_counts_def rbind_Inr_iff)
    with Some c rmap_take [of _ "zip (c # ds) ds" ms m] show ?thesis
      by (simp add: compute_funding_event_counts_def zip_shift_take)
  qed
qed (use assms in \<open>auto simp: compute_funding_event_counts_def\<close>)

lemma event_counts_length:
  "compute_funding_event_counts cs venue = Inr ns \<Longrightarrow> length ns = length cs"
  by (cases cs) (auto simp: compute_funding_event_counts_def rbind_Inr_iff dest: rmap_length split: option.splits)


lemma sim_environment_Inr:
  assumes "sim_environment pw s entries exits slippage latency side leverage a model = Inr v"
  shows "se_candles v = sn_candles s" "length entries = length (sn_candles s)"
    "length exits = length (sn_candles s)"
    "compute_funding_event_counts (sn_candles s) (sn_venue s) = Inr (se_event_counts v)"
    "prepare_slippage_series pw model s = Inr (se_series v)"
    "se_entries v = entries" "se_exits v = exits" "se_latency v = latency"
  using assms
  by (auto simp: sim_environment_def rbind_Inr_iff Let_def check_simulation_def must_def)

lemma flat_no_series: "flat_series (no_slippage_series m)"
  by (simp add: flat_series_def no_slippage_series_def)

lemma flat_environment:
  assumes "sim_environment pw s entries exits slippage latency side leverage a ''flat'' = Inr v"
  shows "flat_series (se_series v)"
proof -
  from sim_environment_Inr(5) [OF assms] obtain m where "no_slippage_series m = se_series v"
    by (auto simp: prepare_slippage_series_def rbind_Inr_iff Let_def)
  then show ?thesis using flat_no_series [of m] by simp
qed

text \<open>C15. A simulation with flat slippage and without latency never looks ahead: two runs whose candles,
  funding rates and signals agree on the first \<open>k\<close> bars and are arbitrary afterwards, on a market that
  agrees in all else, have the same equity at each of these bars, except at the last bar of a run, where
  the open position is closed out.  In particular neither later prices nor later funding rates nor later
  signals matter.\<close>

theorem simulation_has_no_lookahead:
  assumes "simulate_strategy pw s entries exits slippage 0 side leverage a ''flat'' = Inr r"
    and "simulate_strategy pw (s\<lparr>sn_candles := candles', sn_funding_rates := rates'\<rparr>) entries' exits'
           slippage 0 side leverage a ''flat'' = Inr r'"
    and "take k candles' = take k (sn_candles s)" "take k rates' = take k (sn_funding_rates s)"
    and "take k entries' = take k entries" "take k exits' = take k exits"
    and "i < k" "Suc i < length (sn_candles s)" "Suc i < length candles'"
  shows "br_equity_curve r' ! i = br_equity_curve r ! i"
proof -
  let ?s = "s\<lparr>sn_candles := candles', sn_funding_rates := rates'\<rparr>"
  define m where "m = min k (min (length (sn_candles s)) (length candles'))"
  have m: "m \<le> k" "m \<le> length (sn_candles s)" "m \<le> length candles'" by (simp_all add: m_def)
  from assms(1) obtain v st where v: "sim_environment pw s entries exits slippage 0 side leverage a ''flat'' = Inr v"
    and st: "sim_run v = Inr st" "br_equity_curve r = ss_equity_curve st"
    by (auto simp: simulate_strategy_def sim_result_def Let_def rbind_Inr_iff)
  from assms(2) obtain w t where w: "sim_environment pw ?s entries' exits' slippage 0 side leverage a ''flat'' = Inr w"
    and t: "sim_run w = Inr t" "br_equity_curve r' = ss_equity_curve t"
    by (auto simp: simulate_strategy_def sim_result_def Let_def rbind_Inr_iff)
  note ev = sim_environment_Inr [OF v] and ew = sim_environment_Inr [OF w]
  note cut = take_cut [OF _ m(1)]
  note cs = cut [OF assms(3)] and rates = cut [OF assms(4)] and sg = cut [OF assms(5)] cut [OF assms(6)]
  have counts: "take m (se_event_counts w) = take m (se_event_counts v)"
    using event_counts_take [OF ev(4), of m] event_counts_take [OF ew(4), of m] cs by simp
  have bars: "se_candles v ! i = se_candles w ! i \<and> se_entries v ! i = se_entries w ! i
      \<and> se_exits v ! i = se_exits w ! i \<and> se_event_counts v ! i = se_event_counts w ! i" if "i < m" for i
    unfolding ev(1,6,7) ew(1,6,7)
    using take_at [OF cs that] take_at [OF sg(1) that] take_at [OF sg(2) that] take_at [OF counts that] by simp
  have rest: "se_funding_rates v = sn_funding_rates s \<and> se_funding_rates w = rates'
     \<and> se_taker_fee_bps v = se_taker_fee_bps w \<and> se_slippage_bps v = se_slippage_bps w
     \<and> se_side v = se_side w \<and> se_leverage v = se_leverage w \<and> se_config v = se_config w
     \<and> se_explicit_ratio v = se_explicit_ratio w \<and> se_explicit_schedule v = se_explicit_schedule w
     \<and> se_forces_full v = se_forces_full w"
    using v w by (auto simp: sim_environment_def rbind_Inr_iff Let_def)
  have same: "same_until m v w"
    unfolding same_until_def
    using ev(1,8) ew(1,8) rest bars rates m flat_environment [OF v] flat_environment [OF w] by simp
  have "Suc i \<le> m" using assms(7-9) by (simp add: m_def)
  from same_until_run [OF same st(1) t(1) this] ev(1) ew(1) assms(8,9)
  have "take (Suc i) (ss_equity_curve t) = take (Suc i) (ss_equity_curve st)" by simp
  from take_at [OF this, of i] show ?thesis unfolding st(2) t(2) by simp
qed

section \<open>Funding settlements are counted once\<close>

lemma length_by_hour:
  "length [h. day \<leftarrow> days, h \<leftarrow> hours, P day h] = (\<Sum>h\<leftarrow>hours. length (filter (\<lambda>day. P day h) days))"
proof (induction days)
  case (Cons day days)
  have "(\<Sum>h\<leftarrow>hours. length (filter (\<lambda>day. P day h) (day # days)))
      = length [h. h \<leftarrow> hours, P day h] + (\<Sum>h\<leftarrow>hours. length (filter (\<lambda>day. P day h) days))" for hours
    by (induction hours) simp_all
  with Cons show ?case by simp
qed simp

lemma int_div_less_iff: "0 < d \<Longrightarrow> a div d < n \<longleftrightarrow> a < n * d" for a d n :: int
  using floor_less_iff [of "of_int a / (of_int d :: rat)" n]
  by (simp add: floor_divide_of_int_eq pos_divide_less_eq flip: of_int_mult)

lemma days_with_settlement:
  assumes "start \<le> stop" "0 \<le> h" "h < 24"
  shows "length (filter (\<lambda>day. start < settlement day h \<and> settlement day h \<le> stop)
      [start div day_us .. stop div day_us])
    = nat ((stop - h * 3600000000) div day_us - (start - h * 3600000000) div day_us)"
proof -
  let ?x = "h * 3600000000"
  have x: "0 \<le> ?x" "?x < day_us" using assms(2,3) by (simp_all add: day_us_def)
  have in_day: "start < settlement day h \<and> settlement day h \<le> stop \<longleftrightarrow>
      (start - ?x) div day_us < day \<and> day \<le> (stop - ?x) div day_us" for day
    using int_div_less_iff [of day_us "start - ?x" day] int_div_less_iff [of day_us "stop - ?x" day]
    by (auto simp: settlement_def day_us_def)
  have "{day \<in> {start div day_us .. stop div day_us}. start < settlement day h \<and> settlement day h \<le> stop}
      = {(start - ?x) div day_us <.. (stop - ?x) div day_us}"
  proof -
    have "start div day_us \<le> day" if "(start - ?x) div day_us < day" for day
    proof -
      have "start div day_us \<le> (start - ?x) div day_us + 1"
        using x int_div_less_iff [of day_us "start - ?x" "start div day_us - 1"]
          int_div_less_iff [of day_us start "start div day_us"] by (auto simp: day_us_def)
      with that show ?thesis by simp
    qed
    moreover have "day \<le> stop div day_us" if "day \<le> (stop - ?x) div day_us" for day
      using that zdiv_mono1 [of "stop - ?x" stop day_us] x by (simp add: day_us_def)
    ultimately show ?thesis unfolding in_day by auto
  qed
  then have days: "set (filter (\<lambda>day. start < settlement day h \<and> settlement day h \<le> stop)
      [start div day_us .. stop div day_us]) = {(start - ?x) div day_us <.. (stop - ?x) div day_us}"
    by simp
  have "distinct (filter (\<lambda>day. start < settlement day h \<and> settlement day h \<le> stop)
      [start div day_us .. stop div day_us])" by simp
  from distinct_card [OF this, symmetric] show ?thesis unfolding days card_greaterThanAtMost_int .
qed

text \<open>Funding is charged at every settlement exactly once: between two instants the count is, for
  each settlement hour, the number of days whose settlement lies after the first and not after the
  second, so the counts of adjoining bars add up to the count over both.\<close>

lemma funding_settlements_counted_once:
  assumes "start \<le> stop" "stop div day_us < last_day" "\<forall>h \<in> set hours. 0 \<le> h \<and> h < 24"
  shows "count_funding_events_between start stop hours =
      Inr (nat (\<Sum>h\<leftarrow>hours. (stop - h * 3600000000) div day_us - (start - h * 3600000000) div day_us))
    \<and> (\<forall>mid l m n. start \<le> mid \<and> mid \<le> stop \<and> count_funding_events_between start mid hours = Inr l
         \<and> count_funding_events_between mid stop hours = Inr m
         \<and> count_funding_events_between start stop hours = Inr n \<longrightarrow> n = l + m)"
proof -
  define days where "days = (\<lambda>h t. (t - h * 3600000000) div day_us)"
  have mono: "days h a \<le> days h b" if "a \<le> b" for h a b
    unfolding days_def using that by (intro zdiv_mono1) (simp_all add: day_us_def)
  have count: "count_funding_events_between a b hours = Inr (nat (\<Sum>h\<leftarrow>hours. days h b - days h a))"
    if "a \<le> b" "b \<le> stop" for a b
  proof (cases "a = b")
    case False
    have "b div day_us \<le> stop div day_us" using that by (intro zdiv_mono1) (simp_all add: day_us_def)
    with False that assms(2) have "count_funding_events_between a b hours =
        Inr (\<Sum>h\<leftarrow>hours. length (filter (\<lambda>day. a < settlement day h \<and> settlement day h \<le> b)
          [a div day_us .. b div day_us]))"
      by (simp add: count_funding_events_between_def length_by_hour)
    also have "... = Inr (\<Sum>h\<leftarrow>hours. nat (days h b - days h a))"
      using days_with_settlement [OF that(1)] assms(3)
      by (intro arg_cong [where f = Inr] arg_cong [where f = sum_list] map_cong) (auto simp: days_def)
    also have "(\<Sum>h\<leftarrow>hours. nat (days h b - days h a)) = nat (\<Sum>h\<leftarrow>hours. days h b - days h a)"
    proof -
      have "0 \<le> (\<Sum>h\<leftarrow>hs. days h b - days h a)" for hs
        using mono [OF that(1)] by (auto intro!: sum_list_nonneg)
      with mono [OF that(1)] show ?thesis by (induction hours) (simp_all add: nat_add_distrib)
    qed
    finally show ?thesis .
  qed (simp add: count_funding_events_between_def)
  have "nat (\<Sum>h\<leftarrow>hours. days h stop - days h start)
      = nat (\<Sum>h\<leftarrow>hours. days h mid - days h start) + nat (\<Sum>h\<leftarrow>hours. days h stop - days h mid)"
    if "start \<le> mid" "mid \<le> stop" for mid
  proof -
    have "0 \<le> (\<Sum>h\<leftarrow>hours. days h mid - days h start)" "0 \<le> (\<Sum>h\<leftarrow>hours. days h stop - days h mid)"
      using mono that by (auto intro!: sum_list_nonneg)
    moreover have "(\<Sum>h\<leftarrow>hours. days h stop - days h start)
        = (\<Sum>h\<leftarrow>hours. days h mid - days h start) + (\<Sum>h\<leftarrow>hours. days h stop - days h mid)"
      by (induction hours) simp_all
    ultimately show ?thesis by (simp add: nat_add_distrib)
  qed
  note split = this
  show ?thesis
  proof (intro conjI allI impI)
    show "count_funding_events_between start stop hours =
      Inr (nat (\<Sum>h\<leftarrow>hours. (stop - h * 3600000000) div day_us - (start - h * 3600000000) div day_us))"
      using count [OF assms(1) order_refl] by (simp only: days_def)
  next
    fix mid l m n
    assume "start \<le> mid \<and> mid \<le> stop \<and> count_funding_events_between start mid hours = Inr l
      \<and> count_funding_events_between mid stop hours = Inr m \<and> count_funding_events_between start stop hours = Inr n"
    then show "n = l + m"
      using count [of start mid] count [of mid stop] count [OF assms(1) order_refl] split [of mid] by simp
  qed
qed

lemma funding_settlements_counted_once_witness:
  "count_funding_events_between 0 (day_us + 1) [0, 8, 16] = Inr 3"
  using funding_settlements_counted_once [of 0 "day_us + 1" "[0, 8, 16]"]
  by (simp add: day_us_def last_day_def)

section \<open>A simulation evaluated\<close>

definition flat_bar :: "int \<Rightarrow> rat \<Rightarrow> candle" where
  "flat_bar t p = \<lparr>cd_time = t, cd_iso = ''t'', cd_open = Fin p, cd_high = Fin p, cd_low = Fin p,
     cd_close = Fin p, cd_volume = Fin 1\<rparr>"

definition sample_market :: "candle list \<Rightarrow> data_snapshot" where
  "sample_market cs =
     \<lparr>sn_snapshot_id = ''s1'', sn_symbol = ''BTCUSDT'', sn_venue = ''binance'', sn_timeframe = ''tick'', sn_candles = cs,
      sn_funding_rates = [Fin 0, Fin 0], sn_open_interest = [], sn_liquidation_notional = [],
      sn_maker_fee_bps = Fin 0, sn_taker_fee_bps = Fin 0, sn_spread_bps = [], sn_depth_bid_1bp_usd = [],
      sn_depth_ask_1bp_usd = [], sn_latency_proxy_ms = [], sn_venue_profile = None, sn_provenance = []\<rparr>"

definition plain_args :: liquidation_args where
  "plain_args = \<lparr>la_maintenance_margin_ratio = Some (Fin 0), la_liquidation_fee_bps = None,
     la_mark_price_weight = None, la_partial_ratio = None, la_cooldown_bars = None,
     la_step_schedule = None, la_mark_premium_bps = None, la_margin_schedule = None, la_fee_schedule = None\<rparr>"

lemma one_above_dust: "\<not> fle (Fin 1) f_1em9" "fle (Fin 0) f_1em9"
proof -
  obtain q where q: "f_1em9 = Fin q" "1 / 2 ^ 30 \<le> q" "q \<le> 1 / 2 ^ 29" using f_1em9_Fin by blast
  have "0 < q" by (rule less_le_trans [OF _ q(2)]) simp
  moreover have "q < 1" by (rule le_less_trans [OF q(3)]) simp
  ultimately show "\<not> fle (Fin 1) f_1em9" "fle (Fin 0) f_1em9" by (simp_all add: q(1))
qed

definition sample_env :: "libm_pow \<Rightarrow> candle list \<Rightarrow> bool list \<Rightarrow> nat list \<Rightarrow> sim_env" where
  "sample_env pw cs entries counts =
     \<lparr>se_pow = pw, se_candles = cs, se_funding_rates = [Fin 0, Fin 0], se_taker_fee_bps = Fin 0,
      se_entries = entries, se_exits = map (\<lambda>_. False) cs, se_slippage_bps = Fin 0, se_latency = 0,
      se_side = ''long'', se_leverage = Fin 1,
      se_config = \<lparr>lc_maintenance_margin_ratio = Fin 0, lc_liquidation_fee_bps = Fin 0,
        lc_mark_price_weight = Fin 0, lc_partial_ratio = Fin 1, lc_cooldown_bars = 0,
        lc_step_schedule = None, lc_mark_premium_bps = Fin 0, lc_margin_schedule = None, lc_fee_schedule = None\<rparr>,
      se_explicit_ratio = False, se_explicit_schedule = False, se_forces_full = False,
      se_series = no_slippage_series None, se_event_counts = counts\<rparr>"

lemma sample_environment:
  assumes "compute_funding_event_counts cs ''binance'' = Inr counts" "length entries = length cs"
  shows "sim_environment pw (sample_market cs) entries (map (\<lambda>_. False) cs) (Fin 0) 0 ''long'' (Fin 1) plain_args ''flat''
    = Inr (sample_env pw cs entries counts)"
  by (simp add: sim_environment_def sample_market_def plain_args_def sample_env_def assms check_simulation_def must_def
      resolve_liquidation_defaults_def resolve_liquidation_style_def given_or_def profile_or_def profile_schedule_def
      out_of_unit_def opt_all_def prepare_slippage_series_def load_microstructure_series_def
      load_typed_microstructure_series_def)

lemma sample_settlements:
  "settlement_hours ''binance'' = Some [0, 8, 16]"
  "count_funding_events_between 0 28800000000 [0, 8, 16] = Inr 1"
  by code_simp+

lemma sample_counts:
  "compute_funding_event_counts [flat_bar 0 100, flat_bar 28800000000 p] ''binance'' = Inr [0, 1]"
  by (simp_all add: compute_funding_event_counts_def sample_settlements flat_bar_def)

definition sample_position :: "pyfloat list \<Rightarrow> sim_state" where
  "sample_position curve = sim_start\<lparr>ss_open := True, ss_size := Fin 1, ss_entry_price := Fin 100,
     ss_entry_index := 0, ss_fills := 1, ss_fill_ratio_sum := Fin 1, ss_equity_curve := curve\<rparr>"

lemma free_of_cost: "apply_trade_cost (Fin x) (Fin 0) (Fin 0) = Fin 0"
  by (simp add: apply_trade_cost_def bps_to_decimal_def)

lemma sample_flat: "flat_series (se_series (sample_env pw cs entries counts))"
  by (simp add: sample_env_def flat_no_series)

lemma no_partial_fill: "\<not> flt (Fin 1) (fsub (Fin 1) f_1em9)"
proof -
  obtain q where q: "f_1em9 = Fin q" "1 / 2 ^ 30 \<le> q" using f_1em9_Fin by blast
  have "0 \<le> q" by (rule order_trans [OF _ q(2)]) simp
  then have "fle (fl (1 - q)) (Fin 1)" by (intro fl_le_Fin) simp_all
  then show ?thesis using fle_not_flt by (simp add: q(1) fsub_def)
qed

lemma sample_bar0:
  assumes "cs = flat_bar 0 100 # ds" "entries = True # es"
  shows "sim_bar (sample_env pw cs entries counts) 0 sim_start = Inr (sample_position [Fin 0])"
  using assms
  by (simp add: sim_bar_def act_on_signals_def enter_position_def flat_fill_order [OF sample_flat] Let_def
      fill_index_def close_at_def)
    (simp add: sample_env_def flat_bar_def free_of_cost sim_start_def sample_position_def fl_numeral fmin_def
      push_equity_def equity_mark_def fsub_def one_above_dust no_partial_fill [unfolded fsub_def])

lemma sample_bar1:
  assumes "p = 104 \<or> p = 108"
  shows "sim_bar (sample_env pw [flat_bar 0 100, flat_bar 28800000000 p] [True, False] [0, 1]) 1
     (sample_position [Fin 0]) = Inr (sample_position [Fin 0, Fin (p - 100)])"
  using assms
  by (elim disjE; simp add: sim_bar_def act_on_signals_def Let_def charge_funding_def apply_funding_def close_at_def
      effective_margin_def resolve_maintenance_margin_ratio_def resolve_tier_value_def resolve_tier_entry_def
      sample_env_def flat_bar_def sample_position_def sim_start_def fl_numeral fnat_def fsub_def
      liquidation_price_def liquidation_trigger_price_def price_delta_def push_equity_def equity_mark_def)

lemma sample_close_out:
  assumes "cs = flat_bar 0 100 # ds" "curve \<noteq> []" "cd_close (last cs) = Fin p" "\<bar>p\<bar> \<le> 1000" "p \<in> \<int>"
  shows "\<exists>t. close_out (sample_env pw cs entries counts) (sample_position curve) = Inr t
     \<and> ss_equity_curve t = butlast curve @ [Fin (p - 100)] \<and> ss_trade_count t = 1"
proof -
  from assms(5) obtain k where k: "p = of_int k" by (auto elim: Ints_cases)
  have "fl (of_int k) = Fin (of_int k)" "fl (of_int (k - 100)) = Fin (of_int (k - 100))"
    using assms(4) k by (intro fl_of_int; simp)+
  then have "fl p = Fin p" "fl (p - 100) = Fin (p - 100)" by (simp_all add: k)
  moreover have "close_at (sample_env pw cs entries counts) (length (se_candles (sample_env pw cs entries counts)) - 1) = Fin p"
  proof -
    have "cs ! (length cs - 1) = last cs" using assms(1) by (simp add: last_conv_nth)
    then show ?thesis using assms(3) by (simp add: close_at_def sample_env_def)
  qed
  moreover have "se_taker_fee_bps (sample_env pw cs entries counts) = Fin 0"
    "se_slippage_bps (sample_env pw cs entries counts) = Fin 0" "se_side (sample_env pw cs entries counts) = ''long''"
    by (simp_all add: sample_env_def)
  ultimately show ?thesis
    unfolding close_out_def Let_def flat_slippage [OF sample_flat]
    by (simp add: sample_position_def sim_start_def free_of_cost)
      ((simp add: book_trade_def Let_def price_delta_def)?, (simp add: fsub_def)?, simp add: equity_mark_def fsub_def)
qed

lemma sample_annualization: "annualization_factor ''tick'' = Inr (Fin 1)"
proof -
  have "str_strip (str_lower ''tick'') = ''tick''" by code_simp
  then have h: "map_of bars_per_year (str_strip (str_lower ''tick'')) = None" by (simp only:) (simp add: bars_per_year_def)
  show ?thesis unfolding annualization_factor_def h by simp
qed

lemma sample_result:
  assumes "length (ss_equity_curve st) \<le> 2"
  shows "\<exists>r. sim_result pw False ''tick'' st = Inr r
     \<and> br_equity_curve r = ss_equity_curve st \<and> br_trade_count r = ss_trade_count st"
proof -
  have short: "length (equity_returns (ss_equity_curve st)) < 2" using assms by (simp add: equity_returns_def)
  show ?thesis
    unfolding sim_result_def sharpe_ratio_def sortino_ratio_def Let_def if_P [OF short] sample_annualization
    by simp
qed

lemma sample_simulation:
  assumes "p = 104 \<or> p = 108"
  shows "\<exists>r. simulate_strategy pw (sample_market [flat_bar 0 100, flat_bar 28800000000 p]) [True, False] [False, False]
      (Fin 0) 0 ''long'' (Fin 1) plain_args ''flat'' = Inr r
     \<and> br_equity_curve r = [Fin 0, Fin (p - 100)] \<and> br_trade_count r = 1"
proof -
  let ?cs = "[flat_bar 0 100, flat_bar 28800000000 p]"
  let ?v = "sample_env pw ?cs [True, False] [0, 1]"
  have int: "\<bar>p\<bar> \<le> 1000" "p \<in> \<int>" using assms by auto
  obtain t where t: "close_out ?v (sample_position [Fin 0, Fin (p - 100)]) = Inr t"
      "ss_equity_curve t = [Fin 0, Fin (p - 100)]" "ss_trade_count t = 1"
    using sample_close_out [OF _ _ _ int, of ?cs "[flat_bar 28800000000 p]" "[Fin 0, Fin (p - 100)]" pw "[True, False]" "[0, 1]"]
    by (auto simp: flat_bar_def)
  have "rfold (sim_bar ?v) [0..<2] sim_start = Inr (sample_position [Fin 0, Fin (p - 100)])"
    using sample_bar0 [of ?cs "[flat_bar 28800000000 p]" "[True, False]" "[False]" pw "[0, 1]"]
      sample_bar1 [OF assms, of pw] by (simp add: upt_rec)
  moreover have "length (se_candles ?v) = 2" by (simp add: sample_env_def)
  ultimately have "sim_run ?v = Inr t" using t(1) by (simp add: sim_run_def)
  moreover obtain r where "sim_result pw False ''tick'' t = Inr r" "br_equity_curve r = [Fin 0, Fin (p - 100)]" "br_trade_count r = 1"
    using sample_result [of t pw] t by auto
  moreover have "sim_environment pw (sample_market ?cs) [True, False] [False, False] (Fin 0) 0 ''long'' (Fin 1)
      plain_args ''flat'' = Inr ?v"
    using sample_environment [OF sample_counts, of "[True, False]" p pw] by simp
  ultimately show ?thesis by (simp add: simulate_strategy_def) (simp add: sample_market_def)
qed

theorem simulation_books_balance_witness:
  "\<exists>r. simulate_strategy sq_pow (sample_market [flat_bar 0 100, flat_bar 28800000000 104]) [True, False] [False, False]
      (Fin 0) 0 ''long'' (Fin 1) plain_args ''flat'' = Inr r
     \<and> last (br_equity_curve r) = Fin 4 \<and> br_net_pnl r = Fin 4"
proof -
  obtain r where r: "simulate_strategy sq_pow (sample_market [flat_bar 0 100, flat_bar 28800000000 104])
      [True, False] [False, False] (Fin 0) 0 ''long'' (Fin 1) plain_args ''flat'' = Inr r"
    "br_equity_curve r = [Fin 0, Fin 4]" "br_trade_count r = 1" using sample_simulation [of 104] by auto
  have "fnat (br_trade_count r) \<noteq> PInf" by (simp add: r(3) fnat_def)
  from simulation_books_balance [OF r(1) this] r show ?thesis by (simp add: sample_market_def)
qed

theorem simulation_has_no_lookahead_witness:
  "\<exists>r q. simulate_strategy sq_pow (sample_market [flat_bar 0 100, flat_bar 28800000000 104]) [True, False] [False, False]
      (Fin 0) 0 ''long'' (Fin 1) plain_args ''flat'' = Inr r
     \<and> simulate_strategy sq_pow (sample_market [flat_bar 0 100, flat_bar 28800000000 108]) [True, False] [False, False]
      (Fin 0) 0 ''long'' (Fin 1) plain_args ''flat'' = Inr q
     \<and> br_equity_curve q ! 0 = br_equity_curve r ! 0 \<and> br_equity_curve q ! 1 \<noteq> br_equity_curve r ! 1"
proof -
  let ?late = "[flat_bar 0 100, flat_bar 28800000000 108]"
  obtain r where r: "simulate_strategy sq_pow (sample_market [flat_bar 0 100, flat_bar 28800000000 104])
      [True, False] [False, False] (Fin 0) 0 ''long'' (Fin 1) plain_args ''flat'' = Inr r"
    "br_equity_curve r = [Fin 0, Fin 4]" using sample_simulation [of 104] by auto
  obtain q where q: "simulate_strategy sq_pow (sample_market ?late) [True, False] [False, False]
      (Fin 0) 0 ''long'' (Fin 1) plain_args ''flat'' = Inr q" "br_equity_curve q = [Fin 0, Fin 8]"
    using sample_simulation [of 108] by auto
  have later: "sample_market [flat_bar 0 100, flat_bar 28800000000 104]
      \<lparr>sn_candles := ?late, sn_funding_rates := [Fin 0, Fin 0]\<rparr> = sample_market ?late"
    by (simp add: sample_market_def)
  have "br_equity_curve q ! 0 = br_equity_curve r ! 0"
    by (rule simulation_has_no_lookahead [OF r(1) q(1) [folded later], of 1]) (simp_all add: sample_market_def)
  with r q show ?thesis by simp
qed

end
