(* ===== verification/BatchSimulator.thy ===== *)
theory BatchSimulator
  imports Simulator
begin

text \<open>
  The batch simulator (\<open>backtest/simulator_numba.py\<close>): many signal sets over one price series, by a
  compiled kernel when Numba is available and by a Python reference otherwise.  The two loops are
  the same text around different helper calls, so the loop (\<open>batch_bar\<close>) is written once over a
  record of these calls, \<open>reference_ops\<close> and \<open>kernel_ops\<close>.  Compiled code is read with Python's
  meaning, except that it does not check indices; lists are read here through Python's rule.
\<close>

section \<open>The slippage context\<close>

definition normalize_float_series :: "pyfloat list option \<Rightarrow> nat \<Rightarrow> pyfloat list" where
  "normalize_float_series values n = pad_series (given_or values []) n"

definition normalize_stress_regimes :: "string list option \<Rightarrow> nat \<Rightarrow> string list" where
  "normalize_stress_regimes values n =
     (let xs = take n (given_or values [])
      in xs @ replicate (n - length xs) (if xs = [] then [] else last xs))"

definition batch_percentile_threshold :: "pyfloat list \<Rightarrow> pyfloat \<Rightarrow> pyfloat" where
  "batch_percentile_threshold values p = (if values = [] then Fin 0 else percentile_threshold values p)"

record slippage_context =
  sc_open_interest :: "pyfloat list"
  sc_roll_vol :: "pyfloat list"
  sc_oi_stressed :: "bool list"
  sc_funding_z :: "pyfloat list"
  sc_liquidation_z :: "pyfloat list"
  sc_depth_depleted :: "bool list"
  sc_regime_multiplier :: "pyfloat list"
  sc_spread_bps :: "pyfloat list"
  sc_depth_bid :: "pyfloat list"
  sc_depth_ask :: "pyfloat list"
  sc_latency_ms :: "pyfloat list"
  sc_micro_available :: bool

text \<open>What the batch shares: the series, the fees and the liquidation settings.\<close>

record batch_market =
  bm_closes :: "pyfloat list"
  bm_highs :: "pyfloat list"
  bm_lows :: "pyfloat list"
  bm_funding_rates :: "pyfloat list"
  bm_open_interest :: "pyfloat list option"
  bm_liquidation_notional :: "pyfloat list option"
  bm_spread_bps :: "pyfloat list option"
  bm_depth_bid :: "pyfloat list option"
  bm_depth_ask :: "pyfloat list option"
  bm_latency_ms :: "pyfloat list option"
  bm_stress_regimes :: "string list option"
  bm_event_counts :: "nat list option"
  bm_taker_fee_bps :: pyfloat
  bm_side :: string
  bm_leverage :: pyfloat
  bm_margin_ratio :: pyfloat
  bm_liquidation_fee_bps :: pyfloat
  bm_mark_price_weight :: pyfloat
  bm_mark_premium_bps :: pyfloat
  bm_partial_ratio :: pyfloat
  bm_cooldown_bars :: int
  bm_step_schedule :: "pyfloat list option"
  bm_margin_schedule :: "tier list option"
  bm_fee_schedule :: "tier list option"
  bm_slippage_model :: string

definition nonempty_series :: "pyfloat list option \<Rightarrow> bool" where
  "nonempty_series xs \<longleftrightarrow> (case xs of None \<Rightarrow> False | Some ys \<Rightarrow> ys \<noteq> [])"

definition prepare_slippage_context :: "libm_pow \<Rightarrow> batch_market \<Rightarrow> slippage_context result" where
  "prepare_slippage_context pw b =
     (let n = length (bm_closes b);
          oi = normalize_float_series (bm_open_interest b) n;
          bid = normalize_float_series (bm_depth_bid b) n;
          ask = normalize_float_series (bm_depth_ask b) n;
          threshold = batch_percentile_threshold oi (Fin 90);
          depth = map (\<lambda>i. fmin (bid ! i) (ask ! i)) [0..<n]
      in rbind (compute_roll_vol pw (bm_closes b)) (\<lambda>roll_vol.
         rbind (compute_abs_zscores (normalize_float_series (Some (bm_funding_rates b)) n)) (\<lambda>funding_z.
         rbind (compute_abs_zscores (normalize_float_series (bm_liquidation_notional b) n)) (\<lambda>liquidation_z.
           Inr \<lparr>sc_open_interest = oi, sc_roll_vol = roll_vol,
                sc_oi_stressed = map (\<lambda>v. flt threshold v) oi,
                sc_funding_z = funding_z, sc_liquidation_z = liquidation_z,
                sc_depth_depleted = (if list_ex (\<lambda>d. d \<noteq> Fin 0) depth
                                     then compute_low_percentile_flags depth (Fin 10) else replicate n False),
                sc_regime_multiplier =
                  map stress_multiplier (normalize_stress_regimes (bm_stress_regimes b) n),
                sc_spread_bps = normalize_float_series (bm_spread_bps b) n,
                sc_depth_bid = bid, sc_depth_ask = ask,
                sc_latency_ms = normalize_float_series (bm_latency_ms b) n,
                sc_micro_available = (nonempty_series (bm_spread_bps b) \<and> nonempty_series (bm_depth_bid b)
                  \<and> nonempty_series (bm_depth_ask b) \<and> nonempty_series (bm_latency_ms b))\<rparr>))))"

definition model_name :: "string \<Rightarrow> string" where
  "model_name model = str_lower (str_strip model)"

definition context_cascade :: "slippage_context \<Rightarrow> nat \<Rightarrow> pyfloat" where
  "context_cascade c i = cascade_multiplier (sc_oi_stressed c ! i) (sc_funding_z c ! i)
     (sc_liquidation_z c ! i) (sc_depth_depleted c ! i)"

section \<open>The helpers of the reference\<close>

definition resolve_batch_slippage_bps ::
    "libm_pow \<Rightarrow> slippage_context \<Rightarrow> string \<Rightarrow> pyfloat \<Rightarrow> pyfloat \<Rightarrow> nat \<Rightarrow> pyfloat result" where
  "resolve_batch_slippage_bps pw c model flat notional i =
     (if model_name model = ''flat'' then Inr flat
      else if model_name model = ''realistic'' \<and> sc_micro_available c
      then rbind (impact_cost_bps pw notional (fmin (sc_depth_bid c ! i) (sc_depth_ask c ! i))
                    (sc_roll_vol c ! i) (sc_spread_bps c ! i) (sc_latency_ms c ! i)) (\<lambda>base.
             Inr (fmin (Fin 500) (fmul base (context_cascade c i))))
      else rbind (compute_dynamic_slippage notional (sc_roll_vol c ! i) (sc_open_interest c ! i)
                    (sc_oi_stressed c ! i) [] flat) (\<lambda>bps.
             Inr (if sc_oi_stressed c ! i then fmin (Fin 500) (fmul bps (sc_regime_multiplier c ! i)) else bps)))"

definition resolve_batch_execution_fill_ratio ::
    "slippage_context \<Rightarrow> string \<Rightarrow> pyfloat \<Rightarrow> nat \<Rightarrow> pyfloat" where
  "resolve_batch_execution_fill_ratio c model notional i =
     (if fle notional (Fin 0) \<or> model_name model \<noteq> ''realistic'' \<or> \<not> sc_micro_available c then Fin 1
      else
        let depth = fmin (sc_depth_bid c ! i) (sc_depth_ask c ! i)
        in if fle depth (Fin 0) then Fin 0
           else
             let depth_ratio = fquot depth (fmax notional f_1em9);
                 cascade = context_cascade c i; depleted = sc_depth_depleted c ! i
             in if fle (Fin 2) depth_ratio \<and> fle cascade (Fin (5 / 4)) \<and> \<not> depleted then Fin 1
                else
                  let r0 = fmin (Fin 1) depth_ratio;
                      r1 = (if flt (Fin 1) cascade then fquot r0 cascade else r0);
                      r2 = (if depleted \<and> flt depth_ratio (Fin (3 / 2)) then fmul r1 (fl (85 / 100)) else r1)
                  in fmax (fl (5 / 100)) (fmin (Fin 1) r2))"

definition batch_liquidation_trigger_price ::
    "pyfloat \<Rightarrow> pyfloat \<Rightarrow> pyfloat \<Rightarrow> bool \<Rightarrow> pyfloat \<Rightarrow> pyfloat \<Rightarrow> pyfloat" where
  "batch_liquidation_trigger_price close high low is_short weight premium =
     (if is_short
      then fmul (fadd (fmul high (fsub (Fin 1) weight)) (fmul close weight))
             (fadd (Fin 1) (fquot premium (Fin 10000)))
      else fmul (fadd (fmul low (fsub (Fin 1) weight)) (fmul close weight))
             (fsub (Fin 1) (fquot premium (Fin 10000))))"

section \<open>The loop\<close>

record batch_state =
  bs_open :: bool
  bs_size :: pyfloat
  bs_entry_price :: pyfloat
  bs_entry_index :: int
  bs_cooldown_until :: int
  bs_step_index :: nat
  bs_trade_count :: nat
  bs_winning_trades :: nat
  bs_gross_pnl :: pyfloat
  bs_fee_spend :: pyfloat
  bs_funding_spend :: pyfloat
  bs_equity_curve :: "pyfloat list"
  bs_fills :: nat
  bs_partial_fills :: nat
  bs_fill_ratio_sum :: pyfloat
  bs_min_fill_ratio :: pyfloat
  bs_adverse_fills :: nat
  bs_adverse_bps_sum :: pyfloat
  bs_max_adverse_bps :: pyfloat

definition batch_start :: batch_state where
  "batch_start =
     \<lparr>bs_open = False, bs_size = Fin 0, bs_entry_price = Fin 0, bs_entry_index = -1,
      bs_cooldown_until = -1, bs_step_index = 0, bs_trade_count = 0, bs_winning_trades = 0,
      bs_gross_pnl = Fin 0, bs_fee_spend = Fin 0, bs_funding_spend = Fin 0, bs_equity_curve = [],
      bs_fills = 0, bs_partial_fills = 0, bs_fill_ratio_sum = Fin 0, bs_min_fill_ratio = Fin 1,
      bs_adverse_fills = 0, bs_adverse_bps_sum = Fin 0, bs_max_adverse_bps = Fin 0\<rparr>"

text \<open>
  The calls in which the two loops differ: the margin ratio at a notional, the share liquidated at a
  notional and step, the liquidation fee at a notional, the slippage of a notional at a bar, the
  executed size with its fill ratio (reference price, requested size, bar), the adverse move
  (slippage, fill ratio, bar) and the fill price (reference price, entry or exit, adverse move).
\<close>

record batch_ops =
  bo_margin :: "pyfloat \<Rightarrow> pyfloat result"
  bo_liquidation_ratio :: "pyfloat \<Rightarrow> nat \<Rightarrow> pyfloat"
  bo_liquidation_fee :: "pyfloat \<Rightarrow> pyfloat result"
  bo_slippage :: "pyfloat \<Rightarrow> nat \<Rightarrow> pyfloat result"
  bo_fill :: "pyfloat \<Rightarrow> pyfloat \<Rightarrow> nat \<Rightarrow> pyfloat \<times> pyfloat"
  bo_adverse :: "pyfloat \<Rightarrow> pyfloat \<Rightarrow> nat \<Rightarrow> pyfloat"
  bo_fill_price :: "pyfloat \<Rightarrow> bool \<Rightarrow> pyfloat \<Rightarrow> pyfloat"

text \<open>\<open>xs[i]\<close>: a negative index counts from the end.\<close>

definition py_position :: "nat \<Rightarrow> int \<Rightarrow> nat result" where
  "py_position n i =
     (let j = (if i < 0 then i + int n else i)
      in if 0 \<le> j \<and> j < int n then Inr (nat j) else Inl IndexError)"

definition py_index :: "'a list \<Rightarrow> int \<Rightarrow> 'a result" where
  "py_index xs i = rbind (py_position (length xs) i) (\<lambda>j. Inr (xs ! j))"

definition batch_books :: "batch_state \<Rightarrow> pyfloat" where
  "batch_books s = fsub (fsub (bs_gross_pnl s) (bs_fee_spend s)) (bs_funding_spend s)"

definition push_mark :: "pyfloat \<Rightarrow> batch_state \<Rightarrow> batch_state" where
  "push_mark m s = s\<lparr>bs_equity_curve := bs_equity_curve s @ [m]\<rparr>"

definition batch_gross :: "batch_market \<Rightarrow> batch_state \<Rightarrow> pyfloat \<Rightarrow> pyfloat \<Rightarrow> pyfloat" where
  "batch_gross b s price qty =
     fmul (if bm_side b = ''short'' then fsub (bs_entry_price s) price
           else fsub price (bs_entry_price s)) qty"

definition batch_cost :: "pyfloat \<Rightarrow> pyfloat \<Rightarrow> pyfloat \<Rightarrow> pyfloat" where
  "batch_cost price qty bps = fmul (fmul price qty) (fquot bps (Fin 10000))"

definition batch_counts :: "batch_market \<Rightarrow> nat list" where
  "batch_counts b = given_or (bm_event_counts b) (replicate (length (bm_closes b)) 1)"

definition batch_funding :: "batch_market \<Rightarrow> nat \<Rightarrow> batch_state \<Rightarrow> batch_state result" where
  "batch_funding b i s =
     rbind (py_index (bm_funding_rates b) (int i)) (\<lambda>rate.
     rbind (py_index (batch_counts b) (int i)) (\<lambda>count.
       let direction = (if bm_side b = ''short'' then Fin (-1) else Fin 1);
           cost = fmul (fmul (fmul (fabs (fmul (bm_closes b ! i) (bs_size s))) rate) direction) (fnat count)
       in Inr (s\<lparr>bs_funding_spend := fadd (bs_funding_spend s) cost\<rparr>)))"

definition batch_liquidation_price :: "batch_market \<Rightarrow> pyfloat \<Rightarrow> pyfloat \<Rightarrow> pyfloat result" where
  "batch_liquidation_price b entry margin =
     rbind (fdiv (Fin 1) (bm_leverage b)) (\<lambda>inverse.
       let factor = fsub inverse margin
       in Inr (fmul entry (if bm_side b = ''short'' then fadd (Fin 1) factor else fsub (Fin 1) factor)))"

text \<open>A full liquidation forgets its cooldown and step.\<close>

definition batch_liquidate ::
    "batch_ops \<Rightarrow> batch_market \<Rightarrow> nat \<Rightarrow> pyfloat \<Rightarrow> batch_state \<Rightarrow> batch_state result" where
  "batch_liquidate ops b i price s =
     (let notional = fmul (bs_entry_price s) (bs_size s);
          qty = fmul (bs_size s) (bo_liquidation_ratio ops notional (bs_step_index s))
      in rbind (bo_liquidation_fee ops notional) (\<lambda>fee.
         rbind (bo_slippage ops (fmul price qty) i) (\<lambda>slip.
           let cost = batch_cost price qty (fadd (fadd (bm_taker_fee_bps b) slip) fee);
               s1 = s\<lparr>bs_fee_spend := fadd (bs_fee_spend s) cost,
                      bs_gross_pnl := fadd (bs_gross_pnl s) (batch_gross b s price qty),
                      bs_trade_count := bs_trade_count s + 1,
                      bs_size := fsub (bs_size s) qty,
                      bs_cooldown_until := int i + bm_cooldown_bars b,
                      bs_step_index := bs_step_index s + 1\<rparr>
           in if fle (bs_size s1) f_1em9
              then let s2 = s1\<lparr>bs_open := False, bs_size := Fin 0, bs_entry_price := Fin 0,
                               bs_entry_index := -1, bs_cooldown_until := -1, bs_step_index := 0\<rparr>
                   in Inr (push_mark (batch_books s2) s2)
              else Inr (push_mark (fadd (batch_books s1) (batch_gross b s1 (bm_closes b ! i) (bs_size s1))) s1))))"

text \<open>
  A fill at the delayed bar: the executed size, the fill price and the cost, with the fill
  statistics; \<open>None\<close> when nothing is filled.
\<close>

definition batch_fill ::
    "batch_ops \<Rightarrow> batch_market \<Rightarrow> int \<Rightarrow> bool \<Rightarrow> pyfloat \<Rightarrow> batch_state
     \<Rightarrow> (pyfloat \<times> pyfloat \<times> pyfloat \<times> batch_state) option result" where
  "batch_fill ops b k is_entry qty s =
     rbind (py_position (length (bm_closes b)) k) (\<lambda>j.
       let reference = bm_closes b ! j; (executed, ratio) = bo_fill ops reference qty j
       in if fle executed f_1em9 then Inr None
          else rbind (bo_slippage ops (fmul reference executed) j) (\<lambda>slip.
            let bps = bo_adverse ops slip ratio j;
                price = bo_fill_price ops reference is_entry bps;
                s1 = s\<lparr>bs_fills := bs_fills s + 1,
                       bs_fill_ratio_sum := fadd (bs_fill_ratio_sum s) ratio,
                       bs_min_fill_ratio := fmin (bs_min_fill_ratio s) ratio,
                       bs_partial_fills := (if flt ratio (fsub (Fin 1) f_1em9) then bs_partial_fills s + 1
                                            else bs_partial_fills s)\<rparr>;
                s2 = (if flt (Fin 0) bps
                      then s1\<lparr>bs_adverse_fills := bs_adverse_fills s1 + 1,
                              bs_adverse_bps_sum := fadd (bs_adverse_bps_sum s1) bps,
                              bs_max_adverse_bps := fmax (bs_max_adverse_bps s1) bps\<rparr>
                      else s1)
            in Inr (Some (executed, price, batch_cost price executed (fadd (bm_taker_fee_bps b) slip), s2))))"

definition batch_book_trade ::
    "batch_market \<Rightarrow> pyfloat \<Rightarrow> pyfloat \<Rightarrow> pyfloat \<Rightarrow> batch_state \<Rightarrow> batch_state" where
  "batch_book_trade b price qty cost s =
     (let gross = batch_gross b s price qty
      in s\<lparr>bs_fee_spend := fadd (bs_fee_spend s) cost, bs_gross_pnl := fadd (bs_gross_pnl s) gross,
           bs_trade_count := bs_trade_count s + 1,
           bs_winning_trades := (if flt (Fin 0) (fsub gross cost) then bs_winning_trades s + 1
                                 else bs_winning_trades s)\<rparr>)"

definition batch_fill_index :: "batch_market \<Rightarrow> int \<Rightarrow> nat \<Rightarrow> int" where
  "batch_fill_index b latency i = min (int i + latency) (int (length (bm_closes b)) - 1)"

definition batch_enter ::
    "batch_ops \<Rightarrow> batch_market \<Rightarrow> int \<Rightarrow> nat \<Rightarrow> pyfloat \<Rightarrow> batch_state \<Rightarrow> batch_state result" where
  "batch_enter ops b latency i mark s =
     (let k = batch_fill_index b latency i
      in rbind (batch_fill ops b k True (bm_leverage b) s) (\<lambda>r. case r of
           None \<Rightarrow> Inr (push_mark mark s)
         | Some (executed, price, cost, s1) \<Rightarrow>
             let s2 = s1\<lparr>bs_fee_spend := fadd (bs_fee_spend s1) cost, bs_open := True, bs_size := executed,
                         bs_entry_price := price, bs_entry_index := k, bs_cooldown_until := -1,
                         bs_step_index := 0\<rparr>
             in Inr (push_mark (batch_books s2) s2)))"

definition batch_exit ::
    "batch_ops \<Rightarrow> batch_market \<Rightarrow> int \<Rightarrow> nat \<Rightarrow> pyfloat \<Rightarrow> batch_state \<Rightarrow> batch_state result" where
  "batch_exit ops b latency i mark s =
     rbind (batch_fill ops b (batch_fill_index b latency i) False (bs_size s) s) (\<lambda>r. case r of
       None \<Rightarrow> Inr (push_mark mark s)
     | Some (executed, price, cost, s1) \<Rightarrow>
         let s2 = batch_book_trade b price executed cost s1;
             s3 = s2\<lparr>bs_size := fsub (bs_size s2) executed\<rparr>;
             s4 = (if fle (bs_size s3) f_1em9
                   then s3\<lparr>bs_open := False, bs_size := Fin 0, bs_entry_price := Fin 0, bs_entry_index := -1\<rparr>
                   else s3)
         in Inr (push_mark (batch_books s4) s4))"

definition batch_act ::
    "batch_ops \<Rightarrow> batch_market \<Rightarrow> bool list \<Rightarrow> bool list \<Rightarrow> int \<Rightarrow> nat \<Rightarrow> pyfloat \<Rightarrow> batch_state
     \<Rightarrow> batch_state result" where
  "batch_act ops b entries exits latency i mark s =
     (if bs_open s
      then rbind (py_index exits (int i)) (\<lambda>x.
             if x \<and> bs_entry_index s \<le> int i then batch_exit ops b latency i mark s
             else Inr (push_mark mark s))
      else rbind (py_index entries (int i)) (\<lambda>x.
             if x then batch_enter ops b latency i mark s else Inr (push_mark mark s)))"

definition batch_bar ::
    "batch_ops \<Rightarrow> batch_market \<Rightarrow> bool list \<Rightarrow> bool list \<Rightarrow> int \<Rightarrow> nat \<Rightarrow> batch_state \<Rightarrow> batch_state result" where
  "batch_bar ops b entries exits latency i s =
     (if \<not> bs_open s then batch_act ops b entries exits latency i (batch_books s) s
      else
        let close = bm_closes b ! i; unrealized = batch_gross b s close (bs_size s)
        in rbind (batch_funding b i s) (\<lambda>s1.
           rbind (bo_margin ops (fmul (bs_entry_price s1) (bs_size s1))) (\<lambda>margin.
           rbind (batch_liquidation_price b (bs_entry_price s1) margin) (\<lambda>price.
           rbind (py_index (bm_highs b) (int i)) (\<lambda>high.
           rbind (py_index (bm_lows b) (int i)) (\<lambda>low.
             let trigger = batch_liquidation_trigger_price close high low (bm_side b = ''short'')
                             (bm_mark_price_weight b) (bm_mark_premium_bps b);
                 liquidated = (if bm_side b = ''short'' then fle price trigger else fle trigger price)
             in if liquidated \<and> bs_entry_index s1 < int i \<and> bs_cooldown_until s1 < int i
                then batch_liquidate ops b i price s1
                else batch_act ops b entries exits latency i (fadd (batch_books s1) unrealized) s1))))))"

definition batch_close_out :: "batch_ops \<Rightarrow> batch_market \<Rightarrow> batch_state \<Rightarrow> batch_state result" where
  "batch_close_out ops b s =
     (if \<not> bs_open s then Inr s
      else
        let i = length (bm_closes b) - 1; price = bm_closes b ! i
        in rbind (bo_slippage ops (fmul price (bs_size s)) i) (\<lambda>slip.
             let s1 = batch_book_trade b price (bs_size s)
                        (batch_cost price (bs_size s) (fadd (bm_taker_fee_bps b) slip)) s
             in Inr (s1\<lparr>bs_equity_curve := butlast (bs_equity_curve s1) @ [batch_books s1]\<rparr>)))"

definition batch_run ::
    "batch_ops \<Rightarrow> batch_market \<Rightarrow> bool list \<Rightarrow> bool list \<Rightarrow> int \<Rightarrow> batch_state result" where
  "batch_run ops b entries exits latency =
     rbind (rfold (batch_bar ops b entries exits latency) [0..<length (bm_closes b)] batch_start)
       (batch_close_out ops b)"

section \<open>The reference\<close>

text \<open>What the adverse fill model reads of the context.\<close>

definition stress_view :: "slippage_context \<Rightarrow> bool \<Rightarrow> slippage_series" where
  "stress_view c realistic =
     (no_slippage_series None)\<lparr>sl_realistic := realistic, sl_oi_stressed := sc_oi_stressed c,
        sl_funding_z := sc_funding_z c, sl_liquidation_z := sc_liquidation_z c,
        sl_depth_depleted := sc_depth_depleted c\<rparr>"

definition reference_liquidation_ratio :: "batch_market \<Rightarrow> pyfloat \<Rightarrow> nat \<Rightarrow> pyfloat" where
  "reference_liquidation_ratio b notional step =
     (let (steps, ratio) = resolve_liquidation_step_behavior (bm_leverage b) notional False
            (bm_partial_ratio b \<noteq> Fin 1) (bm_step_schedule b \<noteq> None) (bm_partial_ratio b)
            (bm_step_schedule b) (bm_margin_schedule b)
      in liquidation_ratio_for_event steps ratio step)"

definition reference_ops ::
    "libm_pow \<Rightarrow> slippage_context \<Rightarrow> batch_market \<Rightarrow> pyfloat \<Rightarrow> batch_ops" where
  "reference_ops pw c b slippage =
     \<lparr>bo_margin = (\<lambda>notional. resolve_maintenance_margin_ratio (bm_leverage b) notional
         (bm_margin_ratio b) (bm_margin_schedule b)),
      bo_liquidation_ratio = reference_liquidation_ratio b,
      bo_liquidation_fee = (\<lambda>notional. resolve_tier_value (bm_leverage b) notional
         (bm_liquidation_fee_bps b) (bm_fee_schedule b) tr_liquidation_fee_bps ''liquidation_fee_bps''),
      bo_slippage = resolve_batch_slippage_bps pw c (bm_slippage_model b) slippage,
      bo_fill = (\<lambda>reference qty i.
         let ratio = resolve_batch_execution_fill_ratio c (bm_slippage_model b) (fmul reference qty) i
         in (fmul qty ratio, ratio)),
      bo_adverse = resolve_execution_adverse_fill_bps
         (stress_view c (model_name (bm_slippage_model b) = ''realistic'')),
      bo_fill_price = (\<lambda>reference is_entry bps. apply_adverse_fill_price reference (bm_side b) is_entry bps)\<rparr>"

record batch_sim_result =
  br_trades :: nat
  br_wins :: nat
  br_gross :: pyfloat
  br_fees :: pyfloat
  br_funding :: pyfloat
  br_net :: pyfloat
  br_curve :: "pyfloat list"
  br_pressure :: "(string \<times> pyval) list"

definition batch_win_rate :: "batch_sim_result \<Rightarrow> pyfloat" where
  "batch_win_rate r = (if br_trades r = 0 then Fin 0 else fquot (fnat (br_wins r)) (fnat (br_trades r)))"

definition batch_pressure :: "bool \<Rightarrow> batch_state \<Rightarrow> (string \<times> pyval) list" where
  "batch_pressure realistic s =
     (if \<not> realistic \<or> bs_fills s = 0 then []
      else [(''fill_event_count'', PInt (int (bs_fills s))),
            (''partial_fill_event_count'', PInt (int (bs_partial_fills s))),
            (''average_fill_ratio'', PFloat (round_nd 6 (fquot (bs_fill_ratio_sum s) (fnat (bs_fills s))))),
            (''min_fill_ratio'', PFloat (round_nd 6 (bs_min_fill_ratio s)))]
           @ (if bs_adverse_fills s = 0 then []
              else [(''adverse_fill_event_count'', PInt (int (bs_adverse_fills s))),
                    (''average_adverse_fill_bps'',
                       PFloat (round_nd 6 (fquot (bs_adverse_bps_sum s) (fnat (bs_adverse_fills s))))),
                    (''max_adverse_fill_bps'', PFloat (round_nd 6 (bs_max_adverse_bps s)))]))"

definition batch_result :: "bool \<Rightarrow> batch_state \<Rightarrow> batch_sim_result" where
  "batch_result realistic s =
     \<lparr>br_trades = bs_trade_count s, br_wins = bs_winning_trades s, br_gross = bs_gross_pnl s,
      br_fees = bs_fee_spend s, br_funding = bs_funding_spend s, br_net = batch_books s,
      br_curve = bs_equity_curve s, br_pressure = batch_pressure realistic s\<rparr>"

definition simulate_single_python ::
    "libm_pow \<Rightarrow> batch_market \<Rightarrow> bool list \<Rightarrow> bool list \<Rightarrow> pyfloat \<Rightarrow> int \<Rightarrow> batch_sim_result result" where
  "simulate_single_python pw b entries exits slippage latency =
     rbind (prepare_slippage_context pw b) (\<lambda>c.
     rbind (batch_run (reference_ops pw c b slippage) b entries exits latency) (\<lambda>s.
       Inr (batch_result (model_name (bm_slippage_model b) = ''realistic'') s)))"

section \<open>The kernel\<close>

definition sort_tier_schedule :: "tier list option \<Rightarrow> tier list" where
  "sort_tier_schedule schedule =
     sort_key (\<lambda>t. (or_inf (tr_max_leverage t), or_inf (tr_max_notional t))) (given_or schedule [])"

text \<open>
  A row of the kernel's tier arrays.  The step matrix is padded with zeros to a common width; the
  padding is never read, as the step index stays below the row's length.
\<close>

record kernel_tier =
  kt_max_leverage :: pyfloat
  kt_max_notional :: pyfloat
  kt_value :: pyfloat
  kt_partial_ratio :: pyfloat
  kt_steps :: "pyfloat list"

definition kernel_row :: "tier \<Rightarrow> pyfloat \<Rightarrow> kernel_tier" where
  "kernel_row t v =
     \<lparr>kt_max_leverage = or_inf (tr_max_leverage t), kt_max_notional = or_inf (tr_max_notional t),
      kt_value = v, kt_partial_ratio = given_or (tr_partial_liquidation_ratio t) (Fin 0),
      kt_steps = given_or (tr_liquidation_step_schedule t) []\<rparr>"

definition kernel_rows :: "(tier \<Rightarrow> pyfloat option) \<Rightarrow> string \<Rightarrow> tier list option \<Rightarrow> kernel_tier list result" where
  "kernel_rows value key schedule =
     rmap (\<lambda>t. case value t of None \<Rightarrow> Inl (KeyError key) | Some v \<Rightarrow> Inr (kernel_row t v))
       (sort_tier_schedule schedule)"

definition kernel_select :: "pyfloat \<Rightarrow> pyfloat \<Rightarrow> kernel_tier list \<Rightarrow> kernel_tier option" where
  "kernel_select leverage notional rows =
     (case filter (\<lambda>r. fle leverage (kt_max_leverage r) \<and> fle notional (kt_max_notional r)) rows of
        r # _ \<Rightarrow> Some r
      | [] \<Rightarrow> if rows = [] then None else Some (last rows))"

definition kernel_value :: "pyfloat \<Rightarrow> pyfloat \<Rightarrow> kernel_tier list \<Rightarrow> pyfloat \<Rightarrow> pyfloat" where
  "kernel_value leverage notional rows dflt =
     (case kernel_select leverage notional rows of None \<Rightarrow> dflt | Some r \<Rightarrow> kt_value r)"

definition kernel_liquidation_ratio ::
    "batch_market \<Rightarrow> kernel_tier list \<Rightarrow> pyfloat \<Rightarrow> nat \<Rightarrow> pyfloat" where
  "kernel_liquidation_ratio b rows notional step =
     (let explicit = given_or (bm_step_schedule b) []; ratio = bm_partial_ratio b;
          (steps, r) =
            (if explicit = [] \<and> ratio = Fin 1 \<and> bm_cooldown_bars b = 0
             then case kernel_select (bm_leverage b) notional rows of
                    None \<Rightarrow> ([], ratio)
                  | Some t \<Rightarrow>
                      if kt_steps t \<noteq> [] then (kt_steps t, ratio)
                      else ([], if flt (Fin 0) (kt_partial_ratio t) then kt_partial_ratio t else ratio)
             else (explicit, ratio))
      in if steps = [] then r else steps ! (if length steps \<le> step then length steps - 1 else step))"

definition slippage_model_code :: "string \<Rightarrow> nat" where
  "slippage_model_code model =
     (if model_name model = ''realistic'' then 2 else if model_name model = ''dynamic'' then 1 else 0)"

definition kernel_depth :: "slippage_context \<Rightarrow> nat \<Rightarrow> pyfloat" where
  "kernel_depth c i =
     (if flt (sc_depth_ask c ! i) (sc_depth_bid c ! i) then sc_depth_ask c ! i else sc_depth_bid c ! i)"

definition kernel_slippage ::
    "libm_pow \<Rightarrow> slippage_context \<Rightarrow> nat \<Rightarrow> pyfloat \<Rightarrow> pyfloat \<Rightarrow> nat \<Rightarrow> pyfloat result" where
  "kernel_slippage pw c code flat notional i =
     (let cap = (\<lambda>x. if flt (Fin 500) x then Fin 500 else x); vol = sc_roll_vol c ! i in
      if code = 0 then Inr flat
      else if code = 2 \<and> sc_micro_available c then
        let depth = (if flt (kernel_depth c i) f_1em9 then f_1em9 else kernel_depth c i)
        in rbind (pw (fquot (fabs notional) depth) (Fin (1 / 2))) (\<lambda>root.
             let temp = fmul (fmul (fmul (fl (1 / 10)) vol) root) (Fin 10000);
                 delay = fmul (fmul (fl (1 / 100)) (sc_latency_ms c ! i)) vol;
                 base = cap (fadd (fadd (fquot (sc_spread_bps c ! i) (Fin 2)) temp) delay)
             in Inr (cap (fmul base (context_cascade c i))))
      else if fle (sc_open_interest c ! i) (Fin 0) then Inr flat
      else
        rbind (fsqrt (fmax (fquot (fabs notional) (sc_open_interest c ! i)) (Fin 0))) (\<lambda>root.
          let base = fmul (fmul (fmul (fl (1 / 10)) root) vol) (Fin 10000);
              capped = cap (if sc_oi_stressed c ! i then fmul base (sc_regime_multiplier c ! i) else base)
          in Inr (if flt capped (Fin 0) then Fin 0 else capped)))"

definition kernel_fill_ratio :: "slippage_context \<Rightarrow> nat \<Rightarrow> pyfloat \<Rightarrow> nat \<Rightarrow> pyfloat" where
  "kernel_fill_ratio c code notional i =
     (if fle notional (Fin 0) \<or> code \<noteq> 2 \<or> \<not> sc_micro_available c then Fin 1
      else if fle (kernel_depth c i) (Fin 0) then Fin 0
      else
        let depth_ratio = fquot (kernel_depth c i) (fmax notional f_1em9);
            cascade = context_cascade c i; depleted = sc_depth_depleted c ! i
        in if fle (Fin 2) depth_ratio \<and> fle cascade (Fin (5 / 4)) \<and> \<not> depleted then Fin 1
           else
             let r0 = (if flt (Fin 1) depth_ratio then Fin 1 else depth_ratio);
                 r1 = (if flt (Fin 1) cascade then fquot r0 cascade else r0);
                 r2 = (if depleted \<and> flt depth_ratio (Fin (3 / 2)) then fmul r1 (fl (85 / 100)) else r1)
             in if flt r2 (fl (5 / 100)) then fl (5 / 100) else if flt (Fin 1) r2 then Fin 1 else r2)"

definition kernel_adverse :: "slippage_context \<Rightarrow> nat \<Rightarrow> pyfloat \<Rightarrow> pyfloat \<Rightarrow> nat \<Rightarrow> pyfloat" where
  "kernel_adverse c code slippage fill_ratio i =
     (if code \<noteq> 2 \<or> fle slippage (Fin 0) then Fin 0
      else
        let cascade = context_cascade c i; s0 = fsub (Fin 1) fill_ratio;
            shortfall = (if flt s0 (Fin 0) then Fin 0 else s0)
        in if flt shortfall (fl (1 / 1000)) \<and> flt slippage (Fin 25) then Fin 0
           else
             let p0 = (if sc_depth_depleted c ! i \<and> flt shortfall (fl (1 / 10)) then fl (1 / 10) else shortfall);
                 p1 = (if sc_oi_stressed c ! i then fadd p0 (fl (5 / 100)) else p0);
                 p2 = (if flt (Fin 2) (fabs (sc_funding_z c ! i)) then fadd p1 (fl (5 / 100)) else p1);
                 p3 = (if flt (Fin 2) (sc_liquidation_z c ! i) then fadd p2 (fl (5 / 100)) else p2)
             in if fle cascade (Fin 1) \<and> flt p3 (fl (1 / 10)) then Fin 0
                else
                  let p = (if flt (fl (9 / 10)) p3 then fl (9 / 10) else p3);
                      a0 = fmul slippage (fadd (fl (2 / 10)) p);
                      k = (if flt (Fin (3 / 2)) (fquot cascade (Fin (5 / 4))) then Fin (3 / 2)
                           else fquot cascade (Fin (5 / 4)));
                      a1 = (if flt (Fin 1) cascade then fmul a0 k else a0);
                      a2 = (if flt a1 (Fin 0) then Fin 0 else a1)
                  in if flt (Fin 150) a2 then Fin 150 else a2)"

definition kernel_fill_price :: "batch_market \<Rightarrow> pyfloat \<Rightarrow> bool \<Rightarrow> pyfloat \<Rightarrow> pyfloat" where
  "kernel_fill_price b reference is_entry bps =
     (if \<not> flt (Fin 0) bps then reference
      else let m = fquot bps (Fin 10000)
           in fmul reference (if (bm_side b = ''short'') = is_entry then fsub (Fin 1) m else fadd (Fin 1) m))"

definition kernel_ops ::
    "libm_pow \<Rightarrow> slippage_context \<Rightarrow> batch_market \<Rightarrow> kernel_tier list \<Rightarrow> kernel_tier list \<Rightarrow> pyfloat \<Rightarrow> batch_ops" where
  "kernel_ops pw c b margins fees slippage =
     (let code = slippage_model_code (bm_slippage_model b) in
      \<lparr>bo_margin = (\<lambda>notional. Inr (kernel_value (bm_leverage b) notional margins (bm_margin_ratio b))),
       bo_liquidation_ratio = kernel_liquidation_ratio b margins,
       bo_liquidation_fee =
         (\<lambda>notional. Inr (kernel_value (bm_leverage b) notional fees (bm_liquidation_fee_bps b))),
       bo_slippage = kernel_slippage pw c code slippage,
       bo_fill = (\<lambda>reference qty i.
         let executed = fmul qty (kernel_fill_ratio c code (fmul reference qty) i)
         in (executed, if flt f_1em9 qty then fquot executed qty else Fin 0)),
       bo_adverse = kernel_adverse c code,
       bo_fill_price = kernel_fill_price b\<rparr>)"

definition simulate_core ::
    "libm_pow \<Rightarrow> slippage_context \<Rightarrow> batch_market \<Rightarrow> kernel_tier list \<Rightarrow> kernel_tier list
     \<Rightarrow> bool list \<Rightarrow> bool list \<Rightarrow> pyfloat \<Rightarrow> int \<Rightarrow> batch_sim_result result" where
  "simulate_core pw c b margins fees entries exits slippage latency =
     rbind (batch_run (kernel_ops pw c b margins fees slippage) b entries exits latency) (\<lambda>s.
       Inr (batch_result (slippage_model_code (bm_slippage_model b) = 2) s))"

section \<open>The batch\<close>

text \<open>
  The compiled kernel is an argument: absent without Numba, and possibly failing at run time.  The
  model of its source is \<open>simulate_core\<close>.
\<close>

type_synonym batch_kernel =
  "slippage_context \<Rightarrow> kernel_tier list \<Rightarrow> kernel_tier list \<Rightarrow> bool list \<Rightarrow> bool list \<Rightarrow> pyfloat \<Rightarrow> int
   \<Rightarrow> batch_sim_result result"

datatype fallback_reason = Numba_unavailable | Kernel_failed pyerr

record batch_telemetry =
  bt_numba_available :: bool
  bt_numba_used :: bool
  bt_fallback_reason :: "fallback_reason option"
  bt_fallback_count :: nat

definition param_list :: "'a list option \<Rightarrow> 'a \<Rightarrow> nat \<Rightarrow> 'a list" where
  "param_list given dflt n = (if given_or given [] = [] then replicate n dflt else given_or given [])"

text \<open>Runs the sets in order up to the first exception: the results so far and the exception.\<close>

fun run_sets :: "('s \<Rightarrow> 'r result) \<Rightarrow> 's list \<Rightarrow> 'r list \<times> pyerr option" where
  "run_sets f [] = ([], None)"
| "run_sets f (s # ss) =
     (case f s of
        Inl e \<Rightarrow> ([], Some e)
      | Inr r \<Rightarrow> (let (rs, e) = run_sets f ss in (r # rs, e)))"

definition signal_sets :: "(bool list \<times> bool list) list \<Rightarrow> (nat \<times> bool list \<times> bool list) list" where
  "signal_sets signals = zip [0..<length signals] signals"

definition kernel_results ::
    "batch_kernel \<Rightarrow> slippage_context \<Rightarrow> batch_market \<Rightarrow> pyfloat list \<Rightarrow> int list
     \<Rightarrow> (bool list \<times> bool list) list \<Rightarrow> batch_sim_result list \<times> pyerr option" where
  "kernel_results jit c b slippages latencies signals =
     (case rbind (kernel_rows tr_maintenance_margin_ratio ''maintenance_margin_ratio'' (bm_margin_schedule b)) (\<lambda>margins.
           rbind (kernel_rows tr_liquidation_fee_bps ''liquidation_fee_bps'' (bm_fee_schedule b)) (\<lambda>fees.
             Inr (margins, fees))) of
        Inl e \<Rightarrow> ([], Some e)
      | Inr (margins, fees) \<Rightarrow>
          run_sets (\<lambda>(i, entries, exits).
            rbind (py_index slippages (int i)) (\<lambda>slippage.
            rbind (py_index latencies (int i)) (\<lambda>latency.
              jit c margins fees entries exits slippage latency))) (signal_sets signals))"

definition reference_results ::
    "libm_pow \<Rightarrow> batch_market \<Rightarrow> pyfloat list \<Rightarrow> int list \<Rightarrow> (bool list \<times> bool list) list
     \<Rightarrow> batch_sim_result list result" where
  "reference_results pw b slippages latencies signals =
     rmap (\<lambda>(i, entries, exits).
       rbind (py_index slippages (int i)) (\<lambda>slippage.
       rbind (py_index latencies (int i)) (\<lambda>latency.
         simulate_single_python pw b entries exits slippage latency))) (signal_sets signals)"

definition simulate_strategy_batch ::
    "libm_pow \<Rightarrow> batch_kernel option \<Rightarrow> batch_market \<Rightarrow> (bool list \<times> bool list) list
     \<Rightarrow> pyfloat list option \<Rightarrow> int list option
     \<Rightarrow> (batch_sim_result list \<times> batch_telemetry option) result" where
  "simulate_strategy_batch pw jit b signals param_slippage param_latency =
     (if signals = [] then Inr ([], None)
      else
        let n = length signals;
            slippages = param_list param_slippage (Fin 0) n; latencies = param_list param_latency 0 n
        in rbind (prepare_slippage_context pw b) (\<lambda>c.
           let (done, failure) =
                 (case jit of None \<Rightarrow> ([], None) | Some k \<Rightarrow> kernel_results k c b slippages latencies signals)
           in if jit \<noteq> None \<and> failure = None
              then Inr (done, Some \<lparr>bt_numba_available = True, bt_numba_used = True,
                                    bt_fallback_reason = None, bt_fallback_count = 0\<rparr>)
              else
                rbind (reference_results pw b slippages latencies signals) (\<lambda>rs.
                  Inr (done @ rs, Some \<lparr>bt_numba_available = (jit \<noteq> None), bt_numba_used = False,
                    bt_fallback_reason = Some (case failure of None \<Rightarrow> Numba_unavailable
                                                | Some e \<Rightarrow> Kernel_failed e),
                    bt_fallback_count = (if failure = None then 0 else 1)\<rparr>))))"

section \<open>The two loops agree\<close>

text \<open>Equal up to the fill statistics, which only the realistic model reports.\<close>

definition same_books :: "batch_state \<Rightarrow> batch_state \<Rightarrow> bool" where
  "same_books s t \<longleftrightarrow>
     s\<lparr>bs_partial_fills := 0, bs_fill_ratio_sum := Fin 0, bs_min_fill_ratio := Fin 0\<rparr>
     = t\<lparr>bs_partial_fills := 0, bs_fill_ratio_sum := Fin 0, bs_min_fill_ratio := Fin 0\<rparr>"

lemma same_books_refl [simp]: "same_books s s"
  by (simp add: same_books_def)

lemma same_booksE:
  assumes "same_books s t"
  obtains p r m where "t = s\<lparr>bs_partial_fills := p, bs_fill_ratio_sum := r, bs_min_fill_ratio := m\<rparr>"
proof -
  have "t = s\<lparr>bs_partial_fills := bs_partial_fills t, bs_fill_ratio_sum := bs_fill_ratio_sum t,
              bs_min_fill_ratio := bs_min_fill_ratio t\<rparr>"
    using assms by (cases s; cases t) (simp add: same_books_def)
  then show thesis by (rule that)
qed

definition ops_agree :: "batch_ops \<Rightarrow> batch_ops \<Rightarrow> bool" where
  "ops_agree o1 o2 \<longleftrightarrow> bo_margin o1 = bo_margin o2 \<and> bo_liquidation_ratio o1 = bo_liquidation_ratio o2
     \<and> bo_liquidation_fee o1 = bo_liquidation_fee o2 \<and> bo_slippage o1 = bo_slippage o2
     \<and> (\<forall>x q i. fst (bo_fill o1 x q i) = fst (bo_fill o2 x q i))
     \<and> (\<forall>slip r i. bo_adverse o1 slip r i = Fin 0 \<and> bo_adverse o2 slip r i = Fin 0)
     \<and> (\<forall>x e. bo_fill_price o1 x e (Fin 0) = x \<and> bo_fill_price o2 x e (Fin 0) = x)"

lemma rbind_rel:
  assumes "rel_sum (=) R m n" "\<And>a b. R a b \<Longrightarrow> rel_sum (=) S (f a) (g b)"
  shows "rel_sum (=) S (rbind m f) (rbind n g)"
  using assms by (cases m; cases n) auto

lemma rbind_same: "(\<And>a. rel_sum (=) S (f a) (g a)) \<Longrightarrow> rel_sum (=) S (rbind m f) (rbind m g)"
  by (rule rbind_rel [where R = "(=)"]) (auto simp: sum.rel_eq)

definition same_fill ::
    "(pyfloat \<times> pyfloat \<times> pyfloat \<times> batch_state) option \<Rightarrow> (pyfloat \<times> pyfloat \<times> pyfloat \<times> batch_state) option \<Rightarrow> bool" where
  "same_fill = rel_option (rel_prod (=) (rel_prod (=) (rel_prod (=) same_books)))"

lemma batch_fill_same:
  assumes "ops_agree o1 o2" "same_books s t"
  shows "rel_sum (=) same_fill (batch_fill o1 b k e q s) (batch_fill o2 b k e q t)"
proof -
  obtain p r m where t: "t = s\<lparr>bs_partial_fills := p, bs_fill_ratio_sum := r, bs_min_fill_ratio := m\<rparr>"
    using assms(2) by (rule same_booksE)
  note agree = assms(1) [unfolded ops_agree_def]
  show ?thesis
    unfolding batch_fill_def
  proof (rule rbind_same, goal_cases)
    case (1 j)
    obtain x r1 where f1: "bo_fill o1 (bm_closes b ! j) q j = (x, r1)" by fastforce
    obtain y r2 where f2: "bo_fill o2 (bm_closes b ! j) q j = (y, r2)" by fastforce
    have "y = x" using agree f1 f2 by (metis fst_conv)
    then show ?case
      using agree by (auto simp: f1 f2 t Let_def same_fill_def same_books_def intro!: rbind_same)
  qed
qed

lemma push_mark_same: "same_books s t \<Longrightarrow> same_books (push_mark m s) (push_mark m t)"
  by (erule same_booksE) (simp add: push_mark_def same_books_def)

lemma batch_books_same: "same_books s t \<Longrightarrow> batch_books t = batch_books s"
  by (erule same_booksE) (simp add: batch_books_def)

lemma same_fillE:
  assumes "same_fill x y"
  obtains "x = None" "y = None"
  | e price c u p r m where "x = Some (e, price, c, u)"
      "y = Some (e, price, c, u\<lparr>bs_partial_fills := p, bs_fill_ratio_sum := r, bs_min_fill_ratio := m\<rparr>)"
proof (cases x)
  case None
  with assms have "y = None" by (simp add: same_fill_def)
  with None show thesis by (rule that(1))
next
  case (Some z)
  obtain e price c u where z: "z = (e, price, c, u)" by (cases z)
  with assms Some obtain v where y: "y = Some (e, price, c, v)" "same_books u v"
    by (cases y) (auto simp: same_fill_def)
  from y(2) obtain p r m where "v = u\<lparr>bs_partial_fills := p, bs_fill_ratio_sum := r, bs_min_fill_ratio := m\<rparr>"
    by (rule same_booksE)
  with y(1) Some z show thesis by (intro that(2)) simp_all
qed

lemma batch_enter_same:
  assumes "ops_agree o1 o2" "same_books s t"
  shows "rel_sum (=) same_books (batch_enter o1 b latency i mark s) (batch_enter o2 b latency i mark t)"
  unfolding batch_enter_def Let_def
proof (rule rbind_rel [OF batch_fill_same [OF assms]], goal_cases)
  case (1 x y)
  then show ?case
    by (rule same_fillE) (simp_all add: push_mark_same [OF assms(2)], simp add: push_mark_def batch_books_def same_books_def)
qed

lemma batch_exit_same:
  assumes "ops_agree o1 o2" "same_books s t"
  shows "rel_sum (=) same_books (batch_exit o1 b latency i mark s) (batch_exit o2 b latency i mark t)"
proof -
  have q: "bs_size t = bs_size s" using assms(2) by (rule same_booksE) simp
  show ?thesis
    unfolding batch_exit_def Let_def q
  proof (rule rbind_rel [OF batch_fill_same [OF assms]], goal_cases)
    case (1 x y)
    then show ?case
      by (rule same_fillE) (simp_all add: push_mark_same [OF assms(2)],
        simp add: push_mark_def batch_books_def batch_book_trade_def batch_gross_def Let_def same_books_def)
  qed
qed

lemma batch_act_same:
  assumes "ops_agree o1 o2" "same_books s t"
  shows "rel_sum (=) same_books (batch_act o1 b en ex latency i mark s) (batch_act o2 b en ex latency i mark t)"
proof -
  have "bs_open t = bs_open s" "bs_entry_index t = bs_entry_index s"
    using assms(2) by (auto elim: same_booksE)
  then show ?thesis
    using batch_enter_same [OF assms] batch_exit_same [OF assms] push_mark_same [OF assms(2)]
    by (auto simp: batch_act_def intro!: rbind_same)
qed

lemma batch_liquidate_same:
  assumes "ops_agree o1 o2" "same_books s t"
  shows "rel_sum (=) same_books (batch_liquidate o1 b i price s) (batch_liquidate o2 b i price t)"
proof -
  obtain p r m where t: "t = s\<lparr>bs_partial_fills := p, bs_fill_ratio_sum := r, bs_min_fill_ratio := m\<rparr>"
    using assms(2) by (rule same_booksE)
  show ?thesis
    using assms(1) unfolding batch_liquidate_def t ops_agree_def
    by (auto simp: Let_def push_mark_def batch_books_def batch_gross_def same_books_def intro!: rbind_same)
qed

lemma batch_funding_same:
  "same_books s t \<Longrightarrow> rel_sum (=) same_books (batch_funding b i s) (batch_funding b i t)"
  by (erule same_booksE) (auto simp: batch_funding_def Let_def same_books_def intro!: rbind_same)

lemma batch_bar_same:
  assumes "ops_agree o1 o2" "same_books s t"
  shows "rel_sum (=) same_books (batch_bar o1 b en ex latency i s) (batch_bar o2 b en ex latency i t)"
proof -
  have same: "bs_open t = bs_open s" "bs_size t = bs_size s" "bs_entry_price t = bs_entry_price s"
      "batch_books t = batch_books s" "batch_gross b t = batch_gross b s"
    using assms(2) by (auto elim!: same_booksE simp: batch_books_def batch_gross_def fun_eq_iff)
  have margin: "bo_margin o2 = bo_margin o1" using assms(1) by (simp add: ops_agree_def)
  show ?thesis
  proof (cases "bs_open s")
    case False
    then show ?thesis using batch_act_same [OF assms] by (simp add: batch_bar_def same)
  next
    case True
    show ?thesis
      unfolding batch_bar_def same Let_def if_not_P [OF not_not [THEN iffD2, OF True]]
    proof (rule rbind_rel [OF batch_funding_same [OF assms(2)]], goal_cases)
      case (1 u v)
      then have same1: "bs_size v = bs_size u" "bs_entry_price v = bs_entry_price u"
          "bs_entry_index v = bs_entry_index u" "bs_cooldown_until v = bs_cooldown_until u"
          "batch_books v = batch_books u"
        by (auto elim!: same_booksE simp: batch_books_def)
      show ?case
        unfolding same1 margin
        using batch_liquidate_same [OF assms(1) 1] batch_act_same [OF assms(1) 1]
        by (intro rbind_same) auto
    qed
  qed
qed

lemma rfold_rel:
  assumes "\<And>x s t. R s t \<Longrightarrow> rel_sum (=) R (f x s) (g x t)" "R s t"
  shows "rel_sum (=) R (rfold f xs s) (rfold g xs t)"
  using assms(2)
proof (induction xs arbitrary: s t)
  case (Cons x xs)
  show ?case
    using rbind_rel [OF assms(1) [OF Cons.prems] Cons.IH] by simp
qed simp

lemma batch_close_out_same:
  assumes "ops_agree o1 o2" "same_books s t"
  shows "rel_sum (=) same_books (batch_close_out o1 b s) (batch_close_out o2 b t)"
proof -
  obtain p r m where t: "t = s\<lparr>bs_partial_fills := p, bs_fill_ratio_sum := r, bs_min_fill_ratio := m\<rparr>"
    using assms(2) by (rule same_booksE)
  show ?thesis
    using assms(1) unfolding batch_close_out_def t ops_agree_def
    by (auto simp: Let_def batch_book_trade_def batch_books_def batch_gross_def same_books_def intro!: rbind_same)
qed

lemma batch_run_same:
  assumes "ops_agree o1 o2"
  shows "rel_sum (=) same_books (batch_run o1 b en ex latency) (batch_run o2 b en ex latency)"
  unfolding batch_run_def
  by (intro rbind_rel [where R = same_books] rfold_rel batch_bar_same batch_close_out_same assms) simp_all

lemma set_sort_tier_schedule [simp]: "set (sort_tier_schedule schedule) = set (given_or schedule [])"
  by (simp add: sort_tier_schedule_def)

lemma resolve_tier_entry_select:
  "resolve_tier_entry leverage notional schedule =
     (case filter (\<lambda>t. fle leverage (or_inf (tr_max_leverage t)) \<and> fle notional (or_inf (tr_max_notional t)))
        (sort_tier_schedule schedule) of
        t # _ \<Rightarrow> Some t
      | [] \<Rightarrow> if sort_tier_schedule schedule = [] then None else Some (last (sort_tier_schedule schedule)))"
proof (cases "given_or schedule []")
  case Nil
  then show ?thesis
    by (auto simp: resolve_tier_entry_def sort_tier_schedule_def given_or_def split: option.splits)
next
  case (Cons t ts)
  then have s: "schedule = Some (t # ts)" by (cases schedule) (simp_all add: given_or_def)
  have "sort_tier_schedule schedule \<noteq> []"
    using Cons by (simp add: sort_tier_schedule_def flip: length_0_conv)
  then show ?thesis
    unfolding s by (simp add: resolve_tier_entry_def sort_tier_schedule_def given_or_def Let_def split: list.split)
qed

lemma rmap_some:
  "rmap (\<lambda>t. case value t of None \<Rightarrow> Inl e | Some v \<Rightarrow> Inr (g t v)) ts = Inr rows \<longleftrightarrow>
     (\<forall>t \<in> set ts. value t \<noteq> None) \<and> rows = map (\<lambda>t. g t (the (value t))) ts"
  by (induction ts arbitrary: rows) (auto simp: rbind_Inr_iff split: option.splits)

lemma kernel_select_cases:
  assumes "kernel_rows value key schedule = Inr rows"
  obtains "resolve_tier_entry leverage notional schedule = None" "kernel_select leverage notional rows = None"
  | t v where "resolve_tier_entry leverage notional schedule = Some t" "value t = Some v"
      "t \<in> set (given_or schedule [])" "kernel_select leverage notional rows = Some (kernel_row t v)"
proof -
  let ?ts = "sort_tier_schedule schedule" and ?row = "\<lambda>t. kernel_row t (the (value t))"
  let ?fits = "\<lambda>t. fle leverage (or_inf (tr_max_leverage t)) \<and> fle notional (or_inf (tr_max_notional t))"
  from assms have present: "\<And>t. t \<in> set ?ts \<Longrightarrow> value t \<noteq> None" and rows: "rows = map ?row ?ts"
    by (simp_all add: kernel_rows_def rmap_some)
  have entry: "resolve_tier_entry leverage notional schedule =
      (case filter ?fits ?ts of t # _ \<Rightarrow> Some t | [] \<Rightarrow> if ?ts = [] then None else Some (last ?ts))"
    by (rule resolve_tier_entry_select)
  have "filter (\<lambda>r. fle leverage (kt_max_leverage r) \<and> fle notional (kt_max_notional r)) rows = map ?row (filter ?fits ?ts)"
    unfolding rows filter_map by (simp add: kernel_row_def o_def)
  then have select: "kernel_select leverage notional rows = map_option ?row (resolve_tier_entry leverage notional schedule)"
    unfolding kernel_select_def entry by (auto simp: rows last_map split: list.split)
  show thesis
  proof (cases "resolve_tier_entry leverage notional schedule")
    case None
    with select show thesis by (intro that(1)) simp_all
  next
    case (Some t)
    have "t \<in> set ?ts"
      using Some unfolding resolve_tier_entry_select
      by (auto simp del: set_sort_tier_schedule split: list.splits if_splits dest!: filter_eq_ConsD)
    with present [OF this] Some select show thesis by (intro that(2)) auto
  qed
qed

lemma kernel_value_resolved:
  assumes "kernel_rows value key schedule = Inr rows"
  shows "resolve_tier_value leverage notional dflt schedule value key = Inr (kernel_value leverage notional rows dflt)"
  by (rule kernel_select_cases [OF assms, of leverage notional])
    (simp_all add: resolve_tier_value_def kernel_value_def kernel_row_def)

text \<open>
  Where the two liquidation step rules agree: no cooldown next to margin tiers, no empty explicit
  schedule, no tier with a partial ratio that is not positive.
\<close>

definition steps_agree :: "batch_market \<Rightarrow> bool" where
  "steps_agree b \<longleftrightarrow>
     (bm_cooldown_bars b = 0 \<or> given_or (bm_margin_schedule b) [] = []) \<and> bm_step_schedule b \<noteq> Some []
     \<and> list_all (\<lambda>t. case tr_partial_liquidation_ratio t of None \<Rightarrow> True | Some r \<Rightarrow> flt (Fin 0) r)
         (given_or (bm_margin_schedule b) [])"

lemma liquidation_ratio_list:
  "liquidation_ratio_for_event (Some xs) r k = (if xs = [] then r else xs ! (if length xs \<le> k then length xs - 1 else k))"
  "liquidation_ratio_for_event None r k = r"
  by (auto simp: liquidation_ratio_for_event_def min_def split: list.split)

lemma kernel_ratio_agrees:
  assumes "kernel_rows tr_maintenance_margin_ratio key (bm_margin_schedule b) = Inr rows" "steps_agree b"
  shows "kernel_liquidation_ratio b rows notional k = reference_liquidation_ratio b notional k"
proof (cases "bm_step_schedule b = None \<and> bm_partial_ratio b = Fin 1")
  case False
  with assms(2) show ?thesis
    by (cases "bm_step_schedule b")
      (auto simp: kernel_liquidation_ratio_def reference_liquidation_ratio_def resolve_liquidation_step_behavior_def
        given_or_def steps_agree_def liquidation_ratio_list Let_def)
next
  case True
  show ?thesis
  proof (rule kernel_select_cases [OF assms(1), of "bm_leverage b" notional])
    assume "resolve_tier_entry (bm_leverage b) notional (bm_margin_schedule b) = None"
      "kernel_select (bm_leverage b) notional rows = None"
    with True show ?thesis
      by (simp add: kernel_liquidation_ratio_def reference_liquidation_ratio_def
          resolve_liquidation_step_behavior_def given_or_def liquidation_ratio_list Let_def)
  next
    fix t v
    assume *: "resolve_tier_entry (bm_leverage b) notional (bm_margin_schedule b) = Some t"
      "t \<in> set (given_or (bm_margin_schedule b) [])"
      "kernel_select (bm_leverage b) notional rows = Some (kernel_row t v)"
    from *(2) have "bm_cooldown_bars b = 0"
      "case tr_partial_liquidation_ratio t of None \<Rightarrow> True | Some r \<Rightarrow> flt (Fin 0) r"
      using assms(2) by (auto simp: steps_agree_def list_all_iff)
    with True * show ?thesis
      by (cases "tr_liquidation_step_schedule t"; cases "tr_partial_liquidation_ratio t")
        (auto simp: kernel_liquidation_ratio_def reference_liquidation_ratio_def kernel_row_def
          resolve_liquidation_step_behavior_def given_or_def liquidation_ratio_list Let_def split: list.split)
  qed
qed

lemma flat_ops_agree:
  assumes "model_name (bm_slippage_model b) = ''flat''" "steps_agree b"
    and "kernel_rows tr_maintenance_margin_ratio ''maintenance_margin_ratio'' (bm_margin_schedule b) = Inr margins"
    and "kernel_rows tr_liquidation_fee_bps ''liquidation_fee_bps'' (bm_fee_schedule b) = Inr fees"
  shows "ops_agree (kernel_ops pw c b margins fees slippage) (reference_ops pw c b slippage)"
  using assms(1)
  by (simp add: ops_agree_def kernel_ops_def reference_ops_def Let_def fun_eq_iff slippage_model_code_def
      kernel_value_resolved [OF assms(3)] kernel_value_resolved [OF assms(4)] resolve_maintenance_margin_ratio_def
      kernel_ratio_agrees [OF assms(3,2)] kernel_slippage_def resolve_batch_slippage_bps_def
      kernel_fill_ratio_def resolve_batch_execution_fill_ratio_def kernel_adverse_def
      resolve_execution_adverse_fill_bps_def stress_view_def kernel_fill_price_def apply_adverse_fill_price_def)

lemma same_books_result: "same_books s t \<Longrightarrow> batch_result False t = batch_result False s"
  by (erule same_booksE) (simp add: batch_result_def batch_pressure_def batch_books_def)

lemma simulate_core_flat:
  assumes "model_name (bm_slippage_model b) = ''flat''" "steps_agree b"
    and "kernel_rows tr_maintenance_margin_ratio ''maintenance_margin_ratio'' (bm_margin_schedule b) = Inr margins"
    and "kernel_rows tr_liquidation_fee_bps ''liquidation_fee_bps'' (bm_fee_schedule b) = Inr fees"
    and "prepare_slippage_context pw b = Inr c"
  shows "simulate_core pw c b margins fees en ex slippage latency = simulate_single_python pw b en ex slippage latency"
proof -
  have "rel_sum (=) same_books (batch_run (kernel_ops pw c b margins fees slippage) b en ex latency)
      (batch_run (reference_ops pw c b slippage) b en ex latency)"
    by (rule batch_run_same [OF flat_ops_agree [OF assms(1-4)]])
  then show ?thesis
    unfolding simulate_core_def simulate_single_python_def assms(5) rbind_simps
    using assms(1) by (auto simp: slippage_model_code_def rel_sum.simps same_books_result)
qed

lemma run_sets_rmap:
  "run_sets f ss = (rs, x) \<Longrightarrow> rmap f ss = (case x of None \<Rightarrow> Inr rs | Some e \<Rightarrow> Inl e)"
proof (induction ss arbitrary: rs x)
  case (Cons s ss)
  obtain r y where r: "run_sets f ss = (r, y)" by fastforce
  with Cons.prems Cons.IH [OF r] show ?case by (cases "f s"; cases y) auto
qed auto

lemma run_sets_agree:
  assumes "run_sets f ss = (rs, x)" "\<And>s. s \<in> set ss \<Longrightarrow> f s = g s"
  shows "rmap g ss = (case x of None \<Rightarrow> Inr rs | Some e \<Rightarrow> Inl e)"
proof -
  have "rmap g ss = rmap f ss" using assms(2) by (intro rmap_cong) auto
  then show ?thesis using run_sets_rmap [OF assms(1)] by simp
qed

text \<open>C16. With the flat slippage model the compiled kernel and the Python reference give the same batch -
  the same results for every signal set, delay, tier schedule and side, or the same exception - provided
  the liquidation step rules of the two do not fall apart (no cooldown next to margin tiers, no empty step
  schedule, positive tier ratios) and every margin and fee tier carries its value.\<close>

theorem batch_kernel_matches_reference:
  assumes "model_name (bm_slippage_model b) = ''flat''" "steps_agree b"
    and "\<forall>t \<in> set (given_or (bm_margin_schedule b) []). tr_maintenance_margin_ratio t \<noteq> None"
    and "\<forall>t \<in> set (given_or (bm_fee_schedule b) []). tr_liquidation_fee_bps t \<noteq> None"
  shows "map_sum id fst (simulate_strategy_batch pw (Some (\<lambda>c. simulate_core pw c b)) b signals slippages latencies)
    = map_sum id fst (simulate_strategy_batch pw None b signals slippages latencies)"
proof -
  obtain margins where m: "kernel_rows tr_maintenance_margin_ratio ''maintenance_margin_ratio'' (bm_margin_schedule b) = Inr margins"
    using assms(3) by (simp add: kernel_rows_def rmap_some)
  obtain fees where f: "kernel_rows tr_liquidation_fee_bps ''liquidation_fee_bps'' (bm_fee_schedule b) = Inr fees"
    using assms(4) by (simp add: kernel_rows_def rmap_some)
  show ?thesis
  proof (cases "signals = [] \<or> (\<exists>e. prepare_slippage_context pw b = Inl e)")
    case False
    then obtain c where c: "prepare_slippage_context pw b = Inr c" and s: "signals \<noteq> []"
      by (cases "prepare_slippage_context pw b") auto
    let ?ss = "param_list slippages (Fin 0) (length signals)" and ?ls = "param_list latencies 0 (length signals)"
    have same: "simulate_core pw c b margins fees = simulate_single_python pw b"
      by (intro ext simulate_core_flat [OF assms(1,2) m f c])
    obtain rs x where k: "kernel_results (\<lambda>c. simulate_core pw c b) c b ?ss ?ls signals = (rs, x)" by fastforce
    then have "reference_results pw b ?ss ?ls signals = (case x of None \<Rightarrow> Inr rs | Some e \<Rightarrow> Inl e)"
      unfolding reference_results_def kernel_results_def m f rbind_simps sum.case prod.case
      by (rule run_sets_agree) (simp add: same)
    with k s show ?thesis by (cases x) (simp_all add: simulate_strategy_batch_def c Let_def)
  qed (auto simp: simulate_strategy_batch_def)
qed

lemma signal_sets_nth:
  "k \<le> length signals \<Longrightarrow> take k (signal_sets signals) = map (\<lambda>i. (i, fst (signals ! i), snd (signals ! i))) [0..<k]"
  by (rule nth_equalityI) (simp_all add: signal_sets_def case_prod_unfold)

lemma run_sets_stops:
  assumes "length xs = length done" "\<forall>i < length done. f (xs ! i) = Inr (done ! i)" "f y = Inl e"
  shows "run_sets f (xs @ y # ys) = (done, Some e)"
  using assms
proof (induction xs arbitrary: "done")
  case (Cons x xs)
  then obtain r rs where d: "done = r # rs" by (cases "done") auto
  with Cons.prems have "f x = Inr r" "\<forall>i < length rs. f (xs ! i) = Inr (rs ! i)" by force+
  with Cons.IH [of rs] Cons.prems d show ?case by simp
qed simp

text \<open>C17. A kernel that fails midway leaves its partial results in the list: if it finishes the first \<open>k\<close>
  signal sets and fails on the next one, the batch does not fail but returns those \<open>k\<close> results followed by
  the reference's results for all sets.  The list then has \<open>k\<close> entries too many, its entry \<open>k + i\<close> is the one
  of set \<open>i\<close>, and the telemetry reports one fallback with the kernel's exception.\<close>

theorem failed_kernel_shifts_results:
  assumes "prepare_slippage_context pw b = Inr c"
    and "kernel_rows tr_maintenance_margin_ratio ''maintenance_margin_ratio'' (bm_margin_schedule b) = Inr margins"
    and "kernel_rows tr_liquidation_fee_bps ''liquidation_fee_bps'' (bm_fee_schedule b) = Inr fees"
    and "ss = param_list slippages (Fin 0) (length signals)" "ls = param_list latencies 0 (length signals)"
    and "length done < length signals" "length done < length ss" "length done < length ls"
    and "\<forall>i < length done. jit c margins fees (fst (signals ! i)) (snd (signals ! i)) (ss ! i) (ls ! i) = Inr (done ! i)"
    and "jit c margins fees (fst (signals ! length done)) (snd (signals ! length done)) (ss ! length done) (ls ! length done) = Inl e"
    and "simulate_strategy_batch pw None b signals slippages latencies = Inr (ref, t)"
  shows "\<exists>tel. simulate_strategy_batch pw (Some jit) b signals slippages latencies = Inr (done @ ref, Some tel)
    \<and> bt_fallback_reason tel = Some (Kernel_failed e) \<and> bt_fallback_count tel = 1
    \<and> length (done @ ref) = length signals + length done
    \<and> (\<forall>i < length signals. (done @ ref) ! (length done + i) = ref ! i)"
proof -
  let ?k = "length done"
  let ?f = "\<lambda>(i, entries, exits). rbind (py_index ss (int i)) (\<lambda>slippage.
      rbind (py_index ls (int i)) (\<lambda>latency. jit c margins fees entries exits slippage latency))"
  have ne: "signals \<noteq> []" using assms(6) by auto
  have index: "py_index ss (int i) = Inr (ss ! i)" "py_index ls (int i) = Inr (ls ! i)" if "i \<le> ?k" for i
    using that assms(7,8) by (simp_all add: py_index_def py_position_def)
  have "signal_sets signals = take (Suc ?k) (signal_sets signals) @ drop (Suc ?k) (signal_sets signals)" by simp
  also have "take (Suc ?k) (signal_sets signals)
      = map (\<lambda>i. (i, fst (signals ! i), snd (signals ! i))) [0..<?k] @ [(?k, fst (signals ! ?k), snd (signals ! ?k))]"
    using signal_sets_nth [of "Suc ?k" signals] assms(6) by simp
  finally obtain ys where sets: "signal_sets signals
      = map (\<lambda>i. (i, fst (signals ! i), snd (signals ! i))) [0..<?k] @ (?k, fst (signals ! ?k), snd (signals ! ?k)) # ys"
    by simp
  have "run_sets ?f (signal_sets signals) = (done, Some e)"
    unfolding sets by (rule run_sets_stops) (use assms(9,10) index in \<open>simp_all add: case_prod_unfold\<close>)
  then have kernel: "kernel_results jit c b ss ls signals = (done, Some e)"
    by (simp add: kernel_results_def assms(2,3))
  have r: "reference_results pw b ss ls signals = Inr ref"
    using assms(11) ne by (auto simp: simulate_strategy_batch_def assms(1) rbind_Inr_iff Let_def assms(4,5))
  have "length ref = length signals"
    using rmap_length [OF r [unfolded reference_results_def]] by (simp add: signal_sets_def)
  then show ?thesis
    using ne r kernel by (simp add: simulate_strategy_batch_def assms(1) Let_def assms(4,5))
qed

section \<open>A batch evaluated\<close>

definition sample_batch :: "pyfloat list \<Rightarrow> tier list option \<Rightarrow> batch_market" where
  "sample_batch closes tiers =
     \<lparr>bm_closes = closes, bm_highs = closes, bm_lows = closes, bm_funding_rates = map (\<lambda>_. Fin 0) closes,
      bm_open_interest = None, bm_liquidation_notional = None, bm_spread_bps = None, bm_depth_bid = None,
      bm_depth_ask = None, bm_latency_ms = None, bm_stress_regimes = None, bm_event_counts = None,
      bm_taker_fee_bps = Fin 0, bm_side = ''long'', bm_leverage = Fin 1, bm_margin_ratio = Fin 0,
      bm_liquidation_fee_bps = Fin 0, bm_mark_price_weight = Fin 0, bm_mark_premium_bps = Fin 0,
      bm_partial_ratio = Fin 1, bm_cooldown_bars = 0, bm_step_schedule = None, bm_margin_schedule = tiers,
      bm_fee_schedule = None, bm_slippage_model = ''flat''\<rparr>"

definition sample_tier :: tier where
  "sample_tier = \<lparr>tr_max_leverage = Some (Fin 10), tr_max_notional = None,
     tr_maintenance_margin_ratio = Some (Fin (1 / 64)), tr_liquidation_fee_bps = None,
     tr_partial_liquidation_ratio = Some (Fin (1 / 2)), tr_liquidation_step_schedule = None\<rparr>"

lemma flat_name: "model_name ''flat'' = ''flat''"
  by code_simp

theorem batch_kernel_matches_reference_witness:
  "map_sum id fst (simulate_strategy_batch sq_pow
      (Some (\<lambda>c. simulate_core sq_pow c (sample_batch [Fin 100, Fin 104] (Some [sample_tier]))))
      (sample_batch [Fin 100, Fin 104] (Some [sample_tier])) [([True, False], [False, True])] None None)
   = map_sum id fst (simulate_strategy_batch sq_pow None
      (sample_batch [Fin 100, Fin 104] (Some [sample_tier])) [([True, False], [False, True])] None None)"
  by (rule batch_kernel_matches_reference)
    (simp_all add: sample_batch_def sample_tier_def flat_name steps_agree_def given_or_def)

text \<open>A kernel that fails on sets with slippage.\<close>

definition failing_kernel :: batch_kernel where
  "failing_kernel c margins fees entries exits slippage latency =
     (if slippage = Fin 0 then Inr (batch_result False batch_start) else Inl ZeroDivisionError)"

lemma empty_context: "\<exists>c. prepare_slippage_context sq_pow (sample_batch [] None) = Inr c"
  by (simp add: prepare_slippage_context_def sample_batch_def compute_roll_vol_def compute_abs_zscores_def
      normalize_float_series_def pad_series_def fill_to_def given_or_def)

lemma empty_reference:
  "simulate_single_python sq_pow (sample_batch [] None) [] [] slippage latency = Inr (batch_result False batch_start)"
proof -
  have b: "bm_closes (sample_batch [] None) = []" "model_name (bm_slippage_model (sample_batch [] None)) = ''flat''"
    by (simp_all add: sample_batch_def flat_name)
  have "batch_run ops (sample_batch [] None) [] [] latency = Inr batch_start" for ops
    by (simp add: batch_run_def b) (simp add: batch_close_out_def batch_start_def)
  with empty_context show ?thesis by (auto simp: simulate_single_python_def b)
qed

theorem failed_kernel_shifts_results_witness:
  "\<exists>out t. simulate_strategy_batch sq_pow (Some failing_kernel) (sample_batch [] None) [([], []), ([], [])]
       (Some [Fin 0, Fin 1]) None = Inr (out, t) \<and> length out = 3"
proof -
  obtain c where c: "prepare_slippage_context sq_pow (sample_batch [] None) = Inr c" using empty_context by blast
  let ?r = "batch_result False batch_start" and ?signals = "[([], []), ([], [])] :: (bool list \<times> bool list) list"
  have sets: "signal_sets ?signals = [(0, [], []), (1, [], [])]" by (simp add: signal_sets_def upt_rec)
  have lists: "[Fin 0, Fin 1] = param_list (Some [Fin 0, Fin 1]) (Fin 0) (length ?signals)"
    "[0, 0] = param_list None (0 :: int) (length ?signals)"
    by (simp_all add: param_list_def given_or_def)
  have index: "py_index [a, b] (int 0) = Inr a" "py_index [a, b] (int 1) = Inr b" for a b :: 'a
    by (simp_all add: py_index_def py_position_def)
  have rows: "kernel_rows v k (bm_margin_schedule (sample_batch [] None)) = Inr []"
    "kernel_rows v k (bm_fee_schedule (sample_batch [] None)) = Inr []" for v k
    by (simp_all add: kernel_rows_def sort_tier_schedule_def given_or_def sample_batch_def)
  have r: "reference_results sq_pow (sample_batch [] None) [Fin 0, Fin 1] [0, 0] ?signals = Inr [?r, ?r]"
    unfolding reference_results_def sets by (simp add: index [unfolded of_nat_0 of_nat_1] empty_reference)
  obtain t where ref: "simulate_strategy_batch sq_pow None (sample_batch [] None) ?signals
      (Some [Fin 0, Fin 1]) None = Inr ([?r, ?r], t)"
    unfolding simulate_strategy_batch_def Let_def lists [symmetric] c rbind_simps option.case r by simp
  have "\<exists>tel. simulate_strategy_batch sq_pow (Some failing_kernel) (sample_batch [] None) ?signals (Some [Fin 0, Fin 1]) None
        = Inr ([?r] @ [?r, ?r], Some tel)
    \<and> bt_fallback_reason tel = Some (Kernel_failed ZeroDivisionError) \<and> bt_fallback_count tel = 1
    \<and> length ([?r] @ [?r, ?r]) = length ?signals + length [?r]
    \<and> (\<forall>i < length ?signals. ([?r] @ [?r, ?r]) ! (length [?r] + i) = [?r, ?r] ! i)"
    by (rule failed_kernel_shifts_results [OF c rows(1) rows(2) lists _ _ _ _ _ ref]) (simp_all add: failing_kernel_def)
  then show ?thesis by auto
qed

end
