(* ===== verification/Statistics.thy ===== *)
theory Statistics
  imports Market
begin

text \<open>
  The statistics of the validation: Sharpe ratio evidence (\<open>validation/statistics.py\<close>),
  combinatorial purged cross validation (\<open>validation/cpcv.py\<close>), false discovery rates and the
  probability of overfitting (\<open>validation/overfitting.py\<close>).  The power, the logarithm and the
  normal distribution of the standard library are parameters; a NumPy computation is one, too.
\<close>

section \<open>Sharpe ratio evidence\<close>

text \<open>\<open>NormalDist\<close>: \<open>cdf\<close>, and \<open>inv_cdf\<close>, which raises outside the open unit interval.\<close>

record normal_dist =
  nd_cdf :: "pyfloat \<Rightarrow> pyfloat"
  nd_inv_cdf :: "pyfloat \<Rightarrow> pyfloat result"

text \<open>The true division of two integers is correctly rounded.\<close>

definition int_quot :: "int \<Rightarrow> int \<Rightarrow> pyfloat" where
  "int_quot a b = fl (of_int a / of_int b)"

definition compute_observed_sharpe_ratio :: "libm_pow \<Rightarrow> pyfloat list \<Rightarrow> pyfloat result" where
  "compute_observed_sharpe_ratio pw xs =
     (if length xs < 2 then Inr (Fin 0)
      else rbind (squared_deviations pw (mean_of xs) xs) (\<lambda>sq.
        let variance = fquot (py_sum sq) (fnat (length xs - 1)) in
        if fle variance (Fin 0) then Inr (Fin 0)
        else rbind (fsqrt variance) (\<lambda>sd. Inr (fquot (mean_of xs) sd))))"

definition centered :: "pyfloat list \<Rightarrow> pyfloat list" where
  "centered xs = map (\<lambda>v. fsub v (mean_of xs)) xs"

definition centered_variance :: "pyfloat list \<Rightarrow> pyfloat" where
  "centered_variance xs = fquot (py_sum (map (\<lambda>c. fmul c c) (centered xs))) (fnat (length xs - 1))"

definition compute_sample_skewness :: "libm_pow \<Rightarrow> pyfloat list \<Rightarrow> pyfloat result" where
  "compute_sample_skewness pw xs =
     (let n = int (length xs) in
      if n < 3 then Inr (Fin 0)
      else if fle (centered_variance xs) (Fin 0) then Inr (Fin 0)
      else rbind (fsqrt (centered_variance xs)) (\<lambda>sd.
           rbind (rmap (\<lambda>c. pw (fquot c sd) (Fin 3)) (centered xs)) (\<lambda>cubes.
             Inr (fmul (int_quot n ((n - 1) * (n - 2))) (py_sum cubes)))))"

definition compute_sample_kurtosis :: "libm_pow \<Rightarrow> pyfloat list \<Rightarrow> pyfloat result" where
  "compute_sample_kurtosis pw xs =
     (let n = int (length xs) in
      if n < 4 then Inr (Fin 3)
      else if fle (centered_variance xs) (Fin 0) then Inr (Fin 3)
      else rbind (fsqrt (centered_variance xs)) (\<lambda>sd.
           rbind (rmap (\<lambda>c. pw (fquot c sd) (Fin 4)) (centered xs)) (\<lambda>fourths.
             let coefficient = int_quot (n * (n + 1)) ((n - 1) * (n - 2) * (n - 3));
                 correction = int_quot (3 * (n - 1) ^ 2) ((n - 2) * (n - 3))
             in Inr (fadd (fsub (fmul coefficient (py_sum fourths)) correction) (Fin 3)))))"

definition estimate_sharpe_ratio_standard_error ::
    "libm_pow \<Rightarrow> pyfloat list \<Rightarrow> pyfloat option \<Rightarrow> pyfloat result" where
  "estimate_sharpe_ratio_standard_error pw xs observed =
     (if length xs < 2 then Inr (Fin 0)
      else rbind (case observed of None \<Rightarrow> compute_observed_sharpe_ratio pw xs | Some s \<Rightarrow> Inr s) (\<lambda>sharpe.
           rbind (compute_sample_skewness pw xs) (\<lambda>skewness.
           rbind (compute_sample_kurtosis pw xs) (\<lambda>kurtosis.
           rbind (pw sharpe (Fin 2)) (\<lambda>square.
             let variance = fquot (fadd (fsub (Fin 1) (fmul skewness sharpe))
                   (fmul (fquot (fsub kurtosis (Fin 1)) (Fin 4)) square)) (fnat (length xs - 1))
             in fsqrt (fmax variance (Fin 0)))))))"

definition compute_probabilistic_sharpe_ratio ::
    "libm_pow \<Rightarrow> normal_dist \<Rightarrow> pyfloat list \<Rightarrow> pyfloat \<Rightarrow> pyfloat result" where
  "compute_probabilistic_sharpe_ratio pw nd xs benchmark =
     (if length xs < 2 then Inr (Fin (1 / 2))
      else rbind (compute_observed_sharpe_ratio pw xs) (\<lambda>observed.
           rbind (estimate_sharpe_ratio_standard_error pw xs (Some observed)) (\<lambda>error.
             Inr (if fle error (Fin 0) then (if flt benchmark observed then Fin 1 else Fin (1 / 2))
                  else fmax (Fin 0) (fmin (Fin 1) (nd_cdf nd (fquot (fsub observed benchmark) error)))))))"

definition euler_gamma :: pyfloat where
  "euler_gamma = fl (5772156649015329 / 10 ^ 16)"

definition math_e :: pyfloat where
  "math_e = fl (2718281828459045 / 10 ^ 15)"

definition estimate_deflated_sharpe_benchmark :: "normal_dist \<Rightarrow> pyfloat \<Rightarrow> int \<Rightarrow> pyfloat result" where
  "estimate_deflated_sharpe_benchmark nd error trial_count =
     (let trials = max 1 trial_count in
      if trials \<le> 1 \<or> fle error (Fin 0) then Inr (Fin 0)
      else rbind (nd_inv_cdf nd (fsub (Fin 1) (int_quot 1 trials))) (\<lambda>first.
           rbind (nd_inv_cdf nd (fsub (Fin 1) (fquot (Fin 1) (fmul (fl (of_int trials)) math_e)))) (\<lambda>second.
             Inr (fmul error (fadd (fmul (fsub (Fin 1) euler_gamma) first) (fmul euler_gamma second))))))"

definition compute_deflated_sharpe_ratio ::
    "libm_pow \<Rightarrow> normal_dist \<Rightarrow> pyfloat list \<Rightarrow> int \<Rightarrow> pyfloat result" where
  "compute_deflated_sharpe_ratio pw nd xs trial_count =
     (let trials = max 1 trial_count in
      if trials \<le> 1 then compute_probabilistic_sharpe_ratio pw nd xs (Fin 0)
      else rbind (compute_observed_sharpe_ratio pw xs) (\<lambda>observed.
           rbind (estimate_sharpe_ratio_standard_error pw xs (Some observed)) (\<lambda>error.
           rbind (estimate_deflated_sharpe_benchmark nd error trials) (\<lambda>benchmark.
             compute_probabilistic_sharpe_ratio pw nd xs benchmark))))"

definition math_ceil :: "pyfloat \<Rightarrow> int result" where
  "math_ceil x = (case x of Fin q \<Rightarrow> Inr \<lceil>q\<rceil> | NaN \<Rightarrow> Inl (ValueError ''cannot convert float NaN to integer'')
                    | _ \<Rightarrow> Inl OverflowError)"

definition compute_minimum_backtest_length ::
    "libm_pow \<Rightarrow> normal_dist \<Rightarrow> pyfloat list \<Rightarrow> pyfloat \<Rightarrow> pyfloat \<Rightarrow> int result" where
  "compute_minimum_backtest_length pw nd xs target_sharpe target_psr =
     (if length xs < 4 then Inr 0
      else rbind (compute_observed_sharpe_ratio pw xs) (\<lambda>observed.
        if fle observed target_sharpe then Inr 9999999
        else rbind (compute_sample_skewness pw xs) (\<lambda>skew.
             rbind (compute_sample_kurtosis pw xs) (\<lambda>kurt.
             rbind (pw observed (Fin 2)) (\<lambda>square.
             rbind (nd_inv_cdf nd target_psr) (\<lambda>z.
             rbind (pw (fquot z (fsub observed target_sharpe)) (Fin 2)) (\<lambda>ratio.
               let k = fadd (fsub (fadd (Fin 1) (fmul (Fin (1 / 2)) square)) (fmul skew observed))
                         (fmul (fquot (fsub kurt (Fin 3)) (Fin 4)) square)
               in math_ceil (fadd (Fin 1) (fmul (fmax (fl (1 / 10000)) k) ratio)))))))))"

section \<open>Combinatorial purged cross validation\<close>

fun combinations :: "'a list \<Rightarrow> nat \<Rightarrow> 'a list list" where
  "combinations xs 0 = [[]]"
| "combinations [] (Suc k) = []"
| "combinations (x # xs) (Suc k) = map ((#) x) (combinations xs k) @ combinations xs (Suc k)"

record cpcv_config =
  cc_n_blocks :: int
  cc_n_test_blocks :: int
  cc_purge_bars :: int
  cc_embargo_bars :: int

definition resolve_cpcv_config :: "int \<Rightarrow> int \<Rightarrow> int option \<Rightarrow> int \<Rightarrow> int \<Rightarrow> int \<Rightarrow> int \<Rightarrow> cpcv_config" where
  "resolve_cpcv_config n_blocks n_test_blocks purge embargo feature_lookback barrier_horizon holding_horizon =
     (let purge0 = (case purge of None \<Rightarrow> 0 | Some p \<Rightarrow> p);
          resolved = max (max (max purge0 feature_lookback) barrier_horizon) holding_horizon
      in \<lparr>cc_n_blocks = max 2 n_blocks, cc_n_test_blocks = max 1 n_test_blocks,
          cc_purge_bars = max 0 resolved, cc_embargo_bars = max 0 embargo\<rparr>)"

definition sharpe_like :: "libm_pow \<Rightarrow> pyfloat list \<Rightarrow> pyfloat result" where
  "sharpe_like pw xs =
     (if length xs < 2 then Inr (Fin 0)
      else rbind (squared_deviations pw (mean_of xs) xs) (\<lambda>sq.
        let variance = fquot (py_sum sq) (fnat (length xs - 1)) in
        if fle variance (Fin 0) then Inr (Fin 0)
        else rbind (pw variance (Fin (1 / 2))) (\<lambda>sd. Inr (fquot (mean_of xs) sd))))"

definition quantile :: "pyfloat list \<Rightarrow> pyfloat \<Rightarrow> pyfloat" where
  "quantile xs q =
     (if xs = [] then Fin 0
      else if length xs = 1 then hd xs
      else
        let rank = fmul (fmin (fmax q (Fin 0)) (Fin 1)) (fnat (length xs - 1));
            lower = (case rank of Fin r \<Rightarrow> nat \<lfloor>r\<rfloor> | _ \<Rightarrow> 0);
            upper = min (lower + 1) (length xs - 1);
            frac = fsub rank (fnat lower)
        in fadd (fmul (xs ! lower) (fsub (Fin 1) frac)) (fmul (xs ! upper) frac))"

record cpcv_metrics =
  cm_n_blocks :: int
  cm_n_test_blocks :: int
  cm_path_count :: nat
  cm_path_sharpes :: "pyfloat list"
  cm_median_sharpe :: pyfloat
  cm_p10_sharpe :: pyfloat

definition build_cpcv_path_metrics :: "libm_pow \<Rightarrow> pyfloat list list \<Rightarrow> int \<Rightarrow> int \<Rightarrow> cpcv_metrics result" where
  "build_cpcv_path_metrics pw fold_returns n_blocks n_test_blocks =
     (if \<not> (8 \<le> n_blocks \<and> n_blocks \<le> 16) then Inl (ValueError ''n_blocks must be in the v3 range [8, 16]'')
      else if n_test_blocks \<noteq> 2 \<and> n_test_blocks \<noteq> 3 then Inl (ValueError ''n_test_blocks must be 2 or 3'')
      else if int (length fold_returns) \<noteq> n_blocks
      then Inl (ValueError ''fold_returns length must match n_blocks'')
      else rbind (rmap (sharpe_like pw) fold_returns) (\<lambda>scores.
        let paths = sort (map (\<lambda>combo. mean_of (map ((!) scores) combo))
                       (combinations [0..<nat n_blocks] (nat n_test_blocks)))
        in Inr \<lparr>cm_n_blocks = n_blocks, cm_n_test_blocks = n_test_blocks, cm_path_count = length paths,
                cm_path_sharpes = paths,
                cm_median_sharpe = (if paths = [] then Fin 0 else median paths),
                cm_p10_sharpe = quantile paths (fl (1 / 10))\<rparr>))"

section \<open>False discovery rates\<close>

text \<open>The loop from the largest p-value down; the rank is what is left to visit.\<close>

definition bh_candidate :: "nat \<Rightarrow> nat \<Rightarrow> pyfloat \<Rightarrow> pyfloat" where
  "bh_candidate count rank p = fquot (fmul p (fnat count)) (fnat rank)"

fun bh_loop :: "nat \<Rightarrow> pyfloat \<Rightarrow> (nat \<times> pyfloat) list \<Rightarrow> (nat \<times> pyfloat) list" where
  "bh_loop count running [] = []"
| "bh_loop count running ((i, p) # rest) =
     (let running1 = fmin running (fmin (Fin 1) (bh_candidate count (length rest + 1) p))
      in (i, running1) # bh_loop count running1 rest)"

record fdr_report =
  fr_adjusted :: "pyfloat list"
  fr_rejected :: "bool list"

definition bh_ordered :: "pyfloat list \<Rightarrow> (nat \<times> pyfloat) list" where
  "bh_ordered ps = sort_key snd (zip [0..<length ps] ps)"

definition compute_benjamini_hochberg_fdr :: "pyfloat list \<Rightarrow> pyfloat \<Rightarrow> fdr_report" where
  "compute_benjamini_hochberg_fdr ps alpha =
     (let loop = bh_loop (length ps) (Fin 1) (rev (bh_ordered ps));
          adjusted = map (\<lambda>i. case map_of loop i of None \<Rightarrow> Fin 1 | Some q \<Rightarrow> q) [0..<length ps]
      in \<lparr>fr_adjusted = adjusted, fr_rejected = map (\<lambda>q. fle q alpha) adjusted\<rparr>)"

section \<open>The probability of overfitting\<close>

definition column_means :: "pyfloat list list \<Rightarrow> nat list \<Rightarrow> pyfloat list" where
  "column_means matrix rows =
     map (\<lambda>j. mean_of (map (\<lambda>i. matrix ! i ! j) rows)) [0..<length (hd matrix)]"

text \<open>\<open>max(range(n), key=...)\<close>: the first index with the greatest score.\<close>

definition best_index :: "pyfloat list \<Rightarrow> nat" where
  "best_index scores =
     foldl (\<lambda>best j. if flt (scores ! best) (scores ! j) then j else best) 0 [0..<length scores]"

text \<open>The position of a value in the stable order of all.\<close>

definition rank_of :: "pyfloat list \<Rightarrow> nat \<Rightarrow> nat" where
  "rank_of scores j = length (takeWhile (\<lambda>i. i \<noteq> j) (sort_key ((!) scores) [0..<length scores]))"

record pbo_report =
  pr_pbo :: pyfloat
  pr_logits :: "pyfloat list"
  pr_selected_models :: "nat list"

definition cscv_split ::
    "(pyfloat \<Rightarrow> pyfloat result) \<Rightarrow> pyfloat list list \<Rightarrow> nat list \<Rightarrow> (pyfloat \<times> nat) result" where
  "cscv_split logf matrix train =
     (let test = filter (\<lambda>i. i \<notin> set train) [0..<length matrix];
          winner = best_index (column_means matrix train);
          p0 = fquot (fadd (fnat (rank_of (column_means matrix test) winner)) (Fin 1)) (fnat (length (hd matrix)));
          p = fmin (fmax p0 f_1em9) (fsub (Fin 1) f_1em9)
      in rbind (logf (fquot p (fsub (Fin 1) p))) (\<lambda>logit. Inr (logit, winner)))"

definition compute_cscv_pbo_pure_python ::
    "(pyfloat \<Rightarrow> pyfloat result) \<Rightarrow> pyfloat list list \<Rightarrow> int \<Rightarrow> pbo_report result" where
  "compute_cscv_pbo_pure_python logf matrix s =
     (if length matrix < 2 \<or> list_ex (\<lambda>row. length row < 2) matrix
      then Inl (ValueError ''perf_matrix must be a 2D matrix with at least 2 rows and 2 columns'')
      else if list_ex (\<lambda>row. length row \<noteq> length (hd matrix)) matrix
      then Inl (ValueError ''perf_matrix rows must all have the same length'')
      else if s < 2 \<or> s mod 2 \<noteq> 0
      then Inl (ValueError ''S must be an even integer greater than or equal to 2'')
      else if int (length matrix) \<noteq> s
      then Inl (ValueError ''perf_matrix row count must match S; silent truncation is not allowed'')
      else rbind (rmap (cscv_split logf matrix) (combinations [0..<nat s] (nat s div 2))) (\<lambda>splits.
        let logits = map fst splits
        in Inr \<lparr>pr_pbo = int_quot (int (length (filter (\<lambda>v. flt v (Fin 0)) logits))) (int (max 1 (length logits))),
                pr_logits = logits, pr_selected_models = map snd splits\<rparr>))"

text \<open>With NumPy installed its own computation is used.\<close>

definition compute_cscv_pbo ::
    "(pyfloat list list \<Rightarrow> int \<Rightarrow> pbo_report result) option \<Rightarrow> (pyfloat \<Rightarrow> pyfloat result)
     \<Rightarrow> pyfloat list list \<Rightarrow> int \<Rightarrow> pbo_report result" where
  "compute_cscv_pbo np logf matrix s =
     (case np of Some f \<Rightarrow> f matrix s | None \<Rightarrow> compute_cscv_pbo_pure_python logf matrix s)"

section \<open>Every path once\<close>

lemma length_combinations: "length (combinations xs k) = length xs choose k"
  by (induction xs k rule: combinations.induct) simp_all

lemma combinations_subseqs: "set (combinations xs k) = {ys \<in> set (subseqs xs). length ys = k}"
proof (induction xs k rule: combinations.induct)
  case (3 x xs k)
  then show ?case by (auto simp: Let_def)
next
  case (1 xs)
  have "[] \<in> set (subseqs xs)" by (induction xs) (auto simp: Let_def)
  then show ?case by auto
qed auto

text \<open>Cross validation aggregates every combination of test blocks exactly once: a result has as many
  paths as there are combinations, their scores are the block score means in ascending order, and
  the configuration is refused outside 8 to 16 blocks with 2 or 3 test blocks.\<close>

lemma cpcv_paths_complete:
  assumes "build_cpcv_path_metrics pw folds n k = Inr m"
  shows "8 \<le> n \<and> n \<le> 16 \<and> (k = 2 \<or> k = 3) \<and> int (length folds) = n
    \<and> cm_path_count m = nat n choose nat k \<and> length (cm_path_sharpes m) = cm_path_count m
    \<and> sorted (cm_path_sharpes m)
    \<and> (\<exists>scores. rmap (sharpe_like pw) folds = Inr scores
        \<and> set (cm_path_sharpes m) = (\<lambda>combo. mean_of (map ((!) scores) combo)) `
            {combo. combo \<in> set (subseqs [0..<nat n]) \<and> length combo = nat k})"
proof -
  have g: "8 \<le> n" "n \<le> 16" "k = 2 \<or> k = 3" "int (length folds) = n"
    using assms by (simp_all add: build_cpcv_path_metrics_def split: if_splits)
  let ?paths = "\<lambda>scores. sort (map (\<lambda>combo. mean_of (map ((!) scores) combo)) (combinations [0..<nat n] (nat k)))"
  from assms g obtain scores where s: "rmap (sharpe_like pw) folds = Inr scores"
    and m: "cm_path_count m = length (?paths scores)" "cm_path_sharpes m = ?paths scores"
    by (auto simp: build_cpcv_path_metrics_def rbind_Inr_iff Let_def)
  show ?thesis
    unfolding m using g s by (auto simp: length_combinations combinations_subseqs)
qed

section \<open>The step-up procedure\<close>

lemma bh_loop_length [simp]: "length (bh_loop c r xs) = length xs"
  by (induction c r xs rule: bh_loop.induct) (simp_all add: Let_def)

lemma bh_loop_fst [simp]: "map fst (bh_loop c r xs) = map fst xs"
  by (induction c r xs rule: bh_loop.induct) (simp_all add: Let_def)

lemma fmin_one_le: "fle (fmin (Fin 1) x) a \<longleftrightarrow> fle (Fin 1) a \<or> fle x a"
  by (cases x; cases a) (auto simp: fmin_def)

lemma fmin_le:
  assumes "r \<noteq> NaN" "x \<noteq> NaN"
  shows "fle (fmin r x) a \<longleftrightarrow> fle r a \<or> fle x a"
  using assms by (cases r; cases x; cases a) (auto simp: fmin_def)

lemma fmin_one_not_NaN [simp]: "fmin (Fin 1) x \<noteq> NaN"
  by (cases x) (auto simp: fmin_def)

lemma fmin_not_NaN: "r \<noteq> NaN \<Longrightarrow> x \<noteq> NaN \<Longrightarrow> fmin r x \<noteq> NaN"
  by (simp add: fmin_def)

lemma bh_loop_le:
  assumes "j < length xs" "r \<noteq> NaN" "fle (Fin 1) a \<longrightarrow> fle r a"
  shows "fle (snd (bh_loop c r xs ! j)) a \<longleftrightarrow>
    fle r a \<or> (\<exists>k \<le> j. fle (bh_candidate c (length xs - k) (snd (xs ! k))) a)"
  using assms
proof (induction c r xs arbitrary: j rule: bh_loop.induct)
  case (2 c r i p rest)
  let ?x = "fmin (Fin 1) (bh_candidate c (length rest + 1) p)"
  have le: "fle (fmin r ?x) a \<longleftrightarrow> fle r a \<or> fle (bh_candidate c (length rest + 1) p) a"
    using 2(3,4) by (auto simp: fmin_le fmin_one_le)
  show ?case
  proof (cases j)
    case 0
    then show ?thesis using le by (simp add: Let_def)
  next
    case (Suc j')
    have "fle (snd (bh_loop c (fmin r ?x) rest ! j')) a \<longleftrightarrow> fle (fmin r ?x) a
        \<or> (\<exists>k \<le> j'. fle (bh_candidate c (length rest - k) (snd (rest ! k))) a)"
      by (rule 2(1) [OF refl]) (use Suc 2(2-4) le in \<open>auto simp: fmin_not_NaN\<close>)
    moreover have "(\<exists>k \<le> Suc j'. fle (bh_candidate c (length ((i, p) # rest) - k) (snd (((i, p) # rest) ! k))) a)
        \<longleftrightarrow> fle (bh_candidate c (length rest + 1) p) a
          \<or> (\<exists>k \<le> j'. fle (bh_candidate c (length rest - k) (snd (rest ! k))) a)"
      by (auto simp: less_Suc_eq_le [symmetric] Ex_less_Suc2)
    ultimately show ?thesis using le Suc by (auto simp: Let_def)
  qed
qed simp


lemma length_bh_ordered [simp]: "length (bh_ordered ps) = length ps"
  by (simp add: bh_ordered_def)

lemma distinct_bh_ordered: "distinct (map fst (bh_ordered ps))"
proof -
  have "distinct (zip [0..<length ps] ps)" "inj_on fst (set (zip [0..<length ps] ps))"
    by (auto simp: distinct_zipI1 inj_on_def set_zip)
  then show ?thesis by (simp add: bh_ordered_def distinct_map)
qed

text \<open>The false discovery rate control is the step-up procedure: with the p-values in ascending order
  the hypothesis at a position is rejected exactly if alpha is at least one or, at this position or
  a later one of rank k, p * m / k is at most alpha.\<close>

lemma fdr_is_step_up:
  assumes "r < length ps" "bh_ordered ps ! r = (i, p)"
  shows "sorted (map snd (bh_ordered ps)) \<and> i < length ps \<and> ps ! i = p
    \<and> (fr_rejected (compute_benjamini_hochberg_fdr ps alpha) ! i \<longleftrightarrow>
        fle (Fin 1) alpha \<or> (\<exists>k. r \<le> k \<and> k < length ps
          \<and> fle (bh_candidate (length ps) (k + 1) (snd (bh_ordered ps ! k))) alpha))"
proof -
  let ?m = "length ps" and ?ord = "bh_ordered ps"
  let ?loop = "bh_loop ?m (Fin 1) (rev ?ord)" and ?j = "?m - 1 - r"
  have "(i, p) \<in> set ?ord" using assms by (metis length_bh_ordered nth_mem)
  then have i: "i < ?m" "ps ! i = p" by (auto simp: bh_ordered_def set_zip)
  have j: "?j < ?m" using assms(1) by simp
  have nth: "rev ?ord ! k = ?ord ! (?m - 1 - k)" if "k < ?m" for k
    using that by (simp add: rev_nth)
  have at_j: "rev ?ord ! ?j = (i, p)" using assms by (simp add: nth)
  have "fst (?loop ! ?j) = i"
    using bh_loop_fst [of ?m "Fin 1" "rev ?ord"] j at_j by (metis bh_loop_length fst_conv length_bh_ordered length_rev nth_map)
  then have "(i, snd (?loop ! ?j)) \<in> set ?loop"
    using j by (metis bh_loop_length length_bh_ordered length_rev nth_mem prod.collapse)
  moreover have "distinct (map fst ?loop)"
    using distinct_bh_ordered [of ps] by (simp add: rev_map [symmetric])
  ultimately have "map_of ?loop i = Some (snd (?loop ! ?j))" by simp
  then have "fr_rejected (compute_benjamini_hochberg_fdr ps alpha) ! i \<longleftrightarrow> fle (snd (?loop ! ?j)) alpha"
    using i(1) by (simp add: compute_benjamini_hochberg_fdr_def Let_def)
  also have "\<dots> \<longleftrightarrow> fle (Fin 1) alpha
      \<or> (\<exists>k \<le> ?j. fle (bh_candidate ?m (?m - k) (snd (rev ?ord ! k))) alpha)"
    using bh_loop_le [of ?j "rev ?ord" "Fin 1" alpha ?m] j by simp
  also have "(\<exists>k \<le> ?j. fle (bh_candidate ?m (?m - k) (snd (rev ?ord ! k))) alpha) \<longleftrightarrow>
      (\<exists>k. r \<le> k \<and> k < ?m \<and> fle (bh_candidate ?m (k + 1) (snd (?ord ! k))) alpha)"
  proof
    assume "\<exists>k \<le> ?j. fle (bh_candidate ?m (?m - k) (snd (rev ?ord ! k))) alpha"
    then obtain k where k: "k \<le> ?j" "fle (bh_candidate ?m (?m - k) (snd (rev ?ord ! k))) alpha" by blast
    have "rev ?ord ! k = ?ord ! (?m - 1 - k)" by (rule nth) (use k(1) j in simp)
    moreover have "?m - 1 - k + 1 = ?m - k" "r \<le> ?m - 1 - k" "?m - 1 - k < ?m" using k(1) assms(1) by simp_all
    ultimately show "\<exists>k. r \<le> k \<and> k < ?m \<and> fle (bh_candidate ?m (k + 1) (snd (?ord ! k))) alpha"
      using k(2) by metis
  next
    assume "\<exists>k. r \<le> k \<and> k < ?m \<and> fle (bh_candidate ?m (k + 1) (snd (?ord ! k))) alpha"
    then obtain k where k: "r \<le> k" "k < ?m" "fle (bh_candidate ?m (k + 1) (snd (?ord ! k))) alpha" by blast
    have "rev ?ord ! (?m - 1 - k) = ?ord ! k" using nth [of "?m - 1 - k"] k(2) by simp
    moreover have "?m - (?m - 1 - k) = k + 1" "?m - 1 - k \<le> ?j" using k(1,2) by simp_all
    ultimately show "\<exists>k \<le> ?j. fle (bh_candidate ?m (?m - k) (snd (rev ?ord ! k))) alpha"
      using k(3) by metis
  qed
  finally show ?thesis using i by (simp add: bh_ordered_def)
qed

lemma fdr_is_step_up_witness:
  "\<not> fr_rejected (compute_benjamini_hochberg_fdr [Fin (1 / 2), Fin (1 / 8)] (Fin (1 / 4))) ! 0
   \<and> fr_rejected (compute_benjamini_hochberg_fdr [Fin (1 / 2), Fin (1 / 8)] (Fin (1 / 4))) ! 1"
proof -
  have o: "bh_ordered [Fin (1 / 2), Fin (1 / 8)] = [(1, Fin (1 / 8)), (0, Fin (1 / 2))]"
    by (simp add: bh_ordered_def less_eq_pyfloat_def upt_rec)
  have e: "(\<exists>k. r \<le> k \<and> k < Suc (Suc 0) \<and> P k) \<longleftrightarrow> r = 0 \<and> P 0 \<or> r \<le> 1 \<and> P 1" for P and r :: nat
    by (auto simp: less_Suc_eq)
  have e0: "(\<exists>k < Suc (Suc 0). P k) \<longleftrightarrow> P 0 \<or> P 1" for P :: "nat \<Rightarrow> bool"
    by (auto simp: less_Suc_eq)
  have "fl (1 / 4) = Fin (1 / 4)" "fl (1 / 2) = Fin (1 / 2)"
    using fl_dyadic [of 1 2] fl_dyadic [of 1 1] by simp_all
  then have c: "bh_candidate (Suc (Suc 0)) (Suc 0) (Fin (1 / 8)) = Fin (1 / 4)"
      "bh_candidate (Suc (Suc 0)) (Suc (Suc 0)) (Fin (1 / 2)) = Fin (1 / 2)"
    by (simp_all add: bh_candidate_def fnat_def fl_numeral)
  show ?thesis
    using fdr_is_step_up [of 1 "[Fin (1 / 2), Fin (1 / 8)]" 0 "Fin (1 / 2)" "Fin (1 / 4)"]
      fdr_is_step_up [of 0 "[Fin (1 / 2), Fin (1 / 8)]" 1 "Fin (1 / 8)" "Fin (1 / 4)"]
    by (simp add: o e e0 c)
qed

lemma cpcv_paths_complete_witness:
  "\<exists>m. build_cpcv_path_metrics sq_pow (replicate 8 []) 8 2 = Inr m \<and> cm_path_count m = 28"
proof -
  have "rmap (sharpe_like sq_pow) (replicate n []) = Inr (replicate n (Fin 0))" for n
    by (induction n) (simp_all add: sharpe_like_def)
  then obtain m where m: "build_cpcv_path_metrics sq_pow (replicate 8 []) 8 2 = Inr m"
    by (simp add: build_cpcv_path_metrics_def Let_def)
  have "(8 choose 2) = (28 :: nat)" by (simp add: choose_two)
  with cpcv_paths_complete [OF m] m show ?thesis by auto
qed

end
