(* ===== verification/Splits.thy ===== *)
theory Splits
  imports Statistics PyText
begin

text \<open>
  How a snapshot is cut for validation: derived snapshots (\<open>data/snapshots.py\<close>), the in-sample,
  selection and holdout windows (\<open>validation/splits.py\<close>), the regime analysis with its crisis
  windows (\<open>validation/regimes.py\<close>) and the bundle checks (\<open>data/validate.py\<close>).  The hidden
  Markov and change point labels are a parameter.
\<close>

section \<open>Derived snapshots\<close>

definition set_default :: "(string \<times> pyval) list \<Rightarrow> string \<Rightarrow> pyval \<Rightarrow> (string \<times> pyval) list" where
  "set_default d k v = (if map_of d k = None then d @ [(k, v)] else d)"

definition dict_update :: "(string \<times> pyval) list \<Rightarrow> (string \<times> pyval) list \<Rightarrow> (string \<times> pyval) list" where
  "dict_update d e = foldl (\<lambda>d (k, v). AList.update k v d) d e"

text \<open>The keyword arguments that replace a series are one function on the snapshot.\<close>

definition clone_snapshot ::
    "string \<Rightarrow> (data_snapshot \<Rightarrow> data_snapshot) \<Rightarrow> (string \<times> pyval) list \<Rightarrow> data_snapshot \<Rightarrow> data_snapshot" where
  "clone_snapshot new_id replace updates s =
     (let p = sn_provenance s;
          p1 = (if new_id \<noteq> sn_snapshot_id s
                then set_default p ''derived_from_snapshot_id'' (PStr (sn_snapshot_id s)) else p)
      in (replace s)\<lparr>sn_snapshot_id := new_id, sn_provenance := dict_update p1 updates\<rparr>)"

definition py_slice :: "nat \<Rightarrow> nat \<Rightarrow> 'a list \<Rightarrow> 'a list" where
  "py_slice a b xs = take (b - a) (drop a xs)"

definition slice_snapshot :: "data_snapshot \<Rightarrow> nat \<Rightarrow> nat \<Rightarrow> string \<Rightarrow> data_snapshot" where
  "slice_snapshot s a b suffix =
     clone_snapshot (sn_snapshot_id s @ '':'' @ suffix)
       (\<lambda>s. s\<lparr>sn_candles := py_slice a b (sn_candles s),
              sn_funding_rates := py_slice a b (sn_funding_rates s),
              sn_open_interest := py_slice a b (sn_open_interest s),
              sn_liquidation_notional := py_slice a b (sn_liquidation_notional s),
              sn_spread_bps := py_slice a b (sn_spread_bps s),
              sn_depth_bid_1bp_usd := py_slice a b (sn_depth_bid_1bp_usd s),
              sn_depth_ask_1bp_usd := py_slice a b (sn_depth_ask_1bp_usd s),
              sn_latency_proxy_ms := py_slice a b (sn_latency_proxy_ms s)\<rparr>)
       [(''transformation'', PStr ''slice''), (''start_index'', PInt (int a)), (''end_index'', PInt (int b))] s"

definition assert_candidate_feature_quality :: "data_snapshot \<Rightarrow> unit result" where
  "assert_candidate_feature_quality s =
     (let failed = (case pget (sn_provenance s) ''feature_quality_report'' of
            PDict r \<Rightarrow> if pget r ''passed'' = PBool False
                      then Some (''feature quality failed: '' @ py_str (pget_or r ''issues'' (PList []))) else None
          | _ \<Rightarrow> None)
      in case failed of
           Some m \<Rightarrow> Inl (ValueError m)
         | None \<Rightarrow> if pget (sn_provenance s) ''feature_quality_status'' = PStr ''failed''
                   then Inl (ValueError ''feature quality failed'') else Inr ())"

section \<open>Crisis windows\<close>

definition crisis_regimes :: "string list" where
  "crisis_regimes = [''crash'', ''liquidity_stress'', ''short_squeeze'']"

record crisis_window =
  cw_name :: string
  cw_snapshot :: data_snapshot
  cw_start :: nat
  cw_end :: nat
  cw_regime :: string

text \<open>The labels from position \<open>i\<close> on; \<open>active\<close> is the open window, its label and start.\<close>

fun crisis_scan :: "nat \<Rightarrow> (string \<times> nat) option \<Rightarrow> string list \<Rightarrow> (string \<times> nat \<times> nat) list" where
  "crisis_scan i active [] = (case active of None \<Rightarrow> [] | Some (l, a) \<Rightarrow> [(l, a, i)])"
| "crisis_scan i active (x # xs) =
     (let closed = (case active of None \<Rightarrow> [] | Some (l, a) \<Rightarrow> [(l, a, i)]) in
      if x \<in> set crisis_regimes
      then if map_option fst active = Some x then crisis_scan (i + 1) active xs
           else closed @ crisis_scan (i + 1) (Some (x, i)) xs
      else closed @ crisis_scan (i + 1) None xs)"

definition window_name :: "string \<Rightarrow> nat \<Rightarrow> string" where
  "window_name label n = map (\<lambda>c. if c = CHR ''_'' then CHR ''-'' else c) label @ ''-'' @ nat_text n"

definition build_crisis_windows :: "data_snapshot \<Rightarrow> string list \<Rightarrow> crisis_window list" where
  "build_crisis_windows s labels =
     (let runs = crisis_scan 0 None labels in
      map (\<lambda>k. let (l, a, b) = runs ! k;
                   name = window_name l (length (filter (\<lambda>r. fst r = l) (take (k + 1) runs)))
               in \<lparr>cw_name = name, cw_snapshot = slice_snapshot s a b name, cw_start = a, cw_end = b,
                   cw_regime = l\<rparr>) [0..<length runs])"

section \<open>Regime analysis\<close>

definition label_counts :: "string list \<Rightarrow> (string \<times> nat) list" where
  "label_counts labels = map (\<lambda>l. (l, count_list labels l)) (rev (remdups (rev labels)))"

definition most_common :: "(string \<times> nat) list \<Rightarrow> string option" where
  "most_common counts =
     map_option fst (foldl (\<lambda>best c. case best of None \<Rightarrow> Some c | Some b \<Rightarrow> if snd b < snd c then Some c else best)
       None counts)"

definition bucket_funding :: "pyfloat \<Rightarrow> string" where
  "bucket_funding v =
     (if fle (fl (1 / 100)) v then ''positive_extreme''
      else if fle (fl (1 / 1000)) v then ''positive''
      else if fle v (fl (- 1 / 100)) then ''negative_extreme''
      else if fle v (fl (- 1 / 1000)) then ''negative'' else ''flat'')"

definition bucket_volatility :: "pyfloat \<Rightarrow> string" where
  "bucket_volatility v =
     (if fle (fl (4 / 100)) v then ''high'' else if fle (fl (15 / 1000)) v then ''medium'' else ''low'')"

definition bucket_open_interest :: "pyfloat \<Rightarrow> string" where
  "bucket_open_interest v =
     (if fle (fl (15 / 100)) v then ''rising_fast''
      else if fle (fl (3 / 100)) v then ''rising''
      else if fle v (fl (- 15 / 100)) then ''falling_fast''
      else if fle v (fl (- 3 / 100)) then ''falling'' else ''flat'')"

definition stddev :: "libm_pow \<Rightarrow> pyfloat list \<Rightarrow> pyfloat result" where
  "stddev pw xs =
     (if length xs < 2 then Inr (Fin 0)
      else rbind (squared_deviations pw (mean_of xs) xs) (\<lambda>sq.
             fsqrt (fquot (py_sum sq) (fnat (length xs - 1)))))"

definition derive_regime_state ::
    "libm_pow \<Rightarrow> (pyfloat \<Rightarrow> pyfloat result) \<Rightarrow> data_snapshot \<Rightarrow> string list \<Rightarrow> (string \<times> pyval) list result" where
  "derive_regime_state pw logf s labels =
     (let closes = closes_of s; n = length closes in
      if n = 0
      then Inr [(''dominant_regime'', PStr ''unknown''), (''funding_bucket'', PStr ''flat''),
                (''volatility_bucket'', PStr ''low''), (''open_interest_bucket'', PStr ''flat''),
                (''regime_state_key'', PStr ''unknown|flat|low|flat'')]
      else
        let dominant = (case most_common (label_counts labels) of None \<Rightarrow> ''unknown'' | Some l \<Rightarrow> l);
            funding = mean_of (pad_series (sn_funding_rates s) n);
            oi = pad_series (sn_open_interest s) n;
            oi_change = change (last oi) (hd oi)
        in rbind (rmap (\<lambda>(a, b). logf (fquot b a))
                    (filter (\<lambda>(a, b). flt (Fin 0) a \<and> flt (Fin 0) b) (zip closes (tl closes)))) (\<lambda>rets.
           rbind (stddev pw rets) (\<lambda>vol.
             let f = bucket_funding funding; v = bucket_volatility vol; o' = bucket_open_interest oi_change
             in Inr [(''dominant_regime'', PStr dominant), (''funding_bucket'', PStr f),
                     (''volatility_bucket'', PStr v), (''open_interest_bucket'', PStr o'),
                     (''average_funding_rate'', PFloat (round_nd 10 funding)),
                     (''realized_volatility'', PFloat (round_nd 10 vol)),
                     (''open_interest_change'', PFloat (round_nd 10 oi_change)),
                     (''regime_state_key'', PStr (dominant @ ''|'' @ f @ ''|'' @ v @ ''|'' @ o'))])))"

record regime_analysis =
  ra_labels :: "string list"
  ra_coverage :: "(string \<times> pyfloat) list"
  ra_crisis_coverage :: "(string \<times> pyfloat) list"
  ra_crisis_windows :: "crisis_window list"
  ra_model_name :: string
  ra_metadata :: "(string \<times> pyval) list"

definition build_regime_analysis ::
    "data_snapshot \<Rightarrow> string list \<Rightarrow> string \<Rightarrow> (string \<times> pyval) list \<Rightarrow> regime_analysis" where
  "build_regime_analysis s labels model metadata =
     (let windows = build_crisis_windows s labels; n = max 1 (int (length labels));
          lengths = map (\<lambda>l. (l, sum_list (map (\<lambda>w. cw_end w - cw_start w)
                      (filter (\<lambda>w. cw_regime w = l) windows)))) (sorted_set (map cw_regime windows))
      in \<lparr>ra_labels = labels,
          ra_coverage = map (\<lambda>l. (l, int_quot (int (count_list labels l)) n)) (sorted_set labels),
          ra_crisis_coverage = map (\<lambda>(l, k). (l, int_quot (int k) n)) lengths,
          ra_crisis_windows = windows, ra_model_name = model, ra_metadata = metadata\<rparr>)"

definition analyze_regimes ::
    "libm_pow \<Rightarrow> (pyfloat \<Rightarrow> pyfloat result) \<Rightarrow> data_snapshot \<Rightarrow> regime_analysis result" where
  "analyze_regimes pw logf s =
     (let labels = label_snapshot_regimes s in
      rbind (derive_regime_state pw logf s labels) (\<lambda>state.
        Inr (build_regime_analysis s labels ''deterministic'' state)))"

definition analyze_regimes_model ::
    "libm_pow \<Rightarrow> (pyfloat \<Rightarrow> pyfloat result) \<Rightarrow> (string \<Rightarrow> data_snapshot \<Rightarrow> int \<Rightarrow> regime_analysis result)
     \<Rightarrow> string \<Rightarrow> int \<Rightarrow> data_snapshot \<Rightarrow> regime_analysis result" where
  "analyze_regimes_model pw logf statistical model_name n_states s =
     (let model = str_lower (str_strip (if model_name = [] then ''deterministic'' else model_name)) in
      if model \<in> set [''deterministic'', ''baseline''] then analyze_regimes pw logf s
      else if model \<in> set [''hmm'', ''hsmm'', ''bocpd''] then statistical model s n_states
      else Inl (ValueError ''regime_model must be one of deterministic, hmm, hsmm, bocpd''))"

section \<open>Splits\<close>

record split_window =
  sw_snapshot :: data_snapshot
  sw_start :: nat
  sw_end :: nat

record split_pack =
  sp_in_sample :: split_window
  sp_selection_oos :: split_window
  sp_final_holdout :: split_window
  sp_bootstrap_source :: split_window
  sp_regimes :: regime_analysis

text \<open>\<open>int(total * 0.60)\<close>, with the literal given in hundredths.\<close>

definition share_of :: "nat \<Rightarrow> nat \<Rightarrow> nat" where
  "share_of n share = (case fmul (fnat n) (fl (of_nat share / 100)) of Fin q \<Rightarrow> nat (trunc_rat q) | _ \<Rightarrow> 0)"

definition build_split_pack ::
    "(data_snapshot \<Rightarrow> regime_analysis result) \<Rightarrow> data_snapshot \<Rightarrow> split_pack result" where
  "build_split_pack analyze s =
     rbind (assert_candidate_feature_quality s) (\<lambda>_.
     (let n = length (sn_candles s) in
      if n < 5 then Inl (ValueError ''snapshot must contain at least 5 candles'')
      else
        let a = share_of n 60; b = a + share_of n 20;
            in_sample = slice_snapshot s 0 a ''in-sample'';
            window = \<lparr>sw_snapshot = in_sample, sw_start = 0, sw_end = length (sn_candles in_sample)\<rparr>
        in rbind (analyze s) (\<lambda>regimes.
             Inr \<lparr>sp_in_sample = window,
                  sp_selection_oos = \<lparr>sw_snapshot = slice_snapshot s a b ''selection-oos'', sw_start = a, sw_end = b\<rparr>,
                  sp_final_holdout = \<lparr>sw_snapshot = slice_snapshot s b n ''final-holdout'', sw_start = b, sw_end = n\<rparr>,
                  sp_bootstrap_source = window, sp_regimes = regimes\<rparr>)))"

section \<open>Bundle checks\<close>

definition expected_step_seconds :: "string \<Rightarrow> int" where
  "expected_step_seconds timeframe =
     (case map_of [(''1Min'', 60), (''5Min'', 300), (''15Min'', 900), (''30Min'', 1800), (''1Hour'', 3600),
        (''2Hour'', 7200), (''4Hour'', 14400), (''1Day'', 86400)] timeframe of
        None \<Rightarrow> 3600 | Some s \<Rightarrow> s)"

record snapshot_bundle =
  bu_timestamps :: "string list"
  bu_opens :: "pyfloat list option"
  bu_highs :: "pyfloat list option"
  bu_lows :: "pyfloat list option"
  bu_closes :: "pyfloat list option"
  bu_volumes :: "pyfloat list option"
  bu_funding_rates :: "pyfloat list"
  bu_open_interest :: "pyfloat list"
  bu_liquidation_notional :: "pyfloat list"
  bu_timeframe :: string

definition series_or_nil :: "'a list option \<Rightarrow> 'a list" where
  "series_or_nil xs = (case xs of None \<Rightarrow> [] | Some ys \<Rightarrow> ys)"

definition price_sane :: "pyfloat \<Rightarrow> pyfloat \<Rightarrow> pyfloat \<Rightarrow> pyfloat \<Rightarrow> bool" where
  "price_sane p_open high low p_close \<longleftrightarrow>
     (if fle (fmin (fmin (fmin p_open high) low) p_close) (Fin 0) then False
      else if flt high low then False
      else if flt high (fmax p_open p_close) then False
      else \<not> flt (fmin p_open p_close) low)"

fun price_sanity_count :: "pyfloat list \<Rightarrow> pyfloat list \<Rightarrow> pyfloat list \<Rightarrow> pyfloat list \<Rightarrow> nat" where
  "price_sanity_count (a # os) (h # hs) (l # ls) (c # cs) =
     (if price_sane a h l c then 0 else 1) + price_sanity_count os hs ls cs"
| "price_sanity_count _ _ _ _ = 0"

definition length_mismatch_count :: "nat \<Rightarrow> pyfloat list option list \<Rightarrow> nat" where
  "length_mismatch_count n series =
     length (filter (\<lambda>xs. case xs of None \<Rightarrow> False | Some ys \<Rightarrow> length ys \<noteq> n) series)"

text \<open>Whole seconds between two instants given in microseconds, cut towards zero.\<close>

definition seconds_between :: "int \<Rightarrow> int \<Rightarrow> int" where
  "seconds_between a b = (case int_quot (b - a) 1000000 of Fin q \<Rightarrow> trunc_rat q | _ \<Rightarrow> 0)"

definition count_flag :: "string \<Rightarrow> nat \<Rightarrow> string list" where
  "count_flag name n = flag (0 < n) (name @ ''='' @ nat_text n)"

definition bundle_warnings :: "snapshot_bundle \<Rightarrow> int list \<Rightarrow> string list" where
  "bundle_warnings u instants =
     (let n = length (bu_timestamps u); negative = (\<lambda>xs. length (filter (\<lambda>v. flt v (Fin 0)) xs)) in
      count_flag ''duplicate_timestamp_count'' (n - card (set (bu_timestamps u)))
      @ count_flag ''timestamp_gap_count'' (length (filter
          (\<lambda>(a, b). seconds_between a b \<noteq> expected_step_seconds (bu_timeframe u)) (zip instants (tl instants))))
      @ count_flag ''series_length_mismatch_count'' (length_mismatch_count n
          [Some (bu_funding_rates u), Some (bu_open_interest u), Some (bu_liquidation_notional u),
           bu_opens u, bu_highs u, bu_lows u, bu_closes u, bu_volumes u])
      @ count_flag ''price_sanity_count'' (price_sanity_count (series_or_nil (bu_opens u))
          (series_or_nil (bu_highs u)) (series_or_nil (bu_lows u)) (series_or_nil (bu_closes u)))
      @ count_flag ''negative_volume_count'' (negative (series_or_nil (bu_volumes u)))
      @ count_flag ''negative_open_interest_count'' (negative (bu_open_interest u))
      @ count_flag ''negative_liquidation_notional_count'' (negative (bu_liquidation_notional u))
      @ count_flag ''funding_rate_clamp_count'' (length (filter (\<lambda>v. flt (fl (20 / 100)) (fabs v)) (bu_funding_rates u))))"

text \<open>\<open>datetime.fromisoformat\<close> is a parameter: the instant of a text, or the exception.\<close>

definition validate_snapshot_bundle :: "(string \<Rightarrow> int result) \<Rightarrow> snapshot_bundle \<Rightarrow> (string list \<times> bool) result" where
  "validate_snapshot_bundle instant u =
     rbind (rmap instant (bu_timestamps u)) (\<lambda>instants.
       let warnings = bundle_warnings u instants in Inr (warnings, warnings = []))"

section \<open>The windows are the runs\<close>

definition crisis_run :: "string list \<Rightarrow> string \<Rightarrow> nat \<Rightarrow> nat \<Rightarrow> bool" where
  "crisis_run labels l a b \<longleftrightarrow> l \<in> set crisis_regimes \<and> a < b \<and> b \<le> length labels
     \<and> (\<forall>i. a \<le> i \<and> i < b \<longrightarrow> labels ! i = l)
     \<and> (0 < a \<longrightarrow> labels ! (a - 1) \<noteq> l) \<and> (b < length labels \<longrightarrow> labels ! b \<noteq> l)"

text \<open>The open window before position \<open>i\<close>: a run that has not ended yet.\<close>

definition open_run :: "string list \<Rightarrow> nat \<Rightarrow> (string \<times> nat) option \<Rightarrow> bool" where
  "open_run labels i active \<longleftrightarrow>
     (case active of
        None \<Rightarrow> 0 < i \<longrightarrow> labels ! (i - 1) \<notin> set crisis_regimes
      | Some (l, a) \<Rightarrow> l \<in> set crisis_regimes \<and> a < i \<and> (\<forall>j. a \<le> j \<and> j < i \<longrightarrow> labels ! j = l)
          \<and> (0 < a \<longrightarrow> labels ! (a - 1) \<noteq> l))"

definition open_start :: "nat \<Rightarrow> (string \<times> nat) option \<Rightarrow> nat" where
  "open_start i active = (case active of None \<Rightarrow> i | Some (l, a) \<Rightarrow> a)"

definition scan_ok :: "string list \<Rightarrow> nat \<Rightarrow> (string \<times> nat \<times> nat) list \<Rightarrow> bool" where
  "scan_ok labels start ws \<longleftrightarrow>
     (\<forall>(l, a, b) \<in> set ws. crisis_run labels l a b \<and> start \<le> a)
     \<and> sorted_wrt (\<lambda>(l, a, b) (l', a', b'). b \<le> a') ws
     \<and> (\<forall>j. start \<le> j \<and> j < length labels \<and> labels ! j \<in> set crisis_regimes
         \<longrightarrow> (\<exists>(l, a, b) \<in> set ws. a \<le> j \<and> j < b))"

lemma scan_ok_skip:
  assumes "scan_ok labels (i + 1) ws" "labels ! i \<notin> set crisis_regimes"
  shows "scan_ok labels i ws"
proof -
  have "i + 1 \<le> j" if "i \<le> j" "labels ! j \<in> set crisis_regimes" for j
    using that assms(2) by (cases "i = j") auto
  then show ?thesis using assms(1) unfolding scan_ok_def by fastforce
qed

lemma scan_ok_close:
  assumes "scan_ok labels i ws" "crisis_run labels l a i"
  shows "scan_ok labels a ((l, a, i) # ws)"
proof -
  have a: "a < i" using assms(2) by (simp add: crisis_run_def)
  have ws: "crisis_run labels l' a' b' \<and> i \<le> a'" if "(l', a', b') \<in> set ws" for l' a' b'
    using assms(1) that by (auto simp: scan_ok_def)
  have "\<exists>(l', a', b') \<in> set ((l, a, i) # ws). a' \<le> j \<and> j < b'"
    if "a \<le> j" "j < length labels" "labels ! j \<in> set crisis_regimes" for j
  proof (cases "j < i")
    case False
    then have "\<exists>(l', a', b') \<in> set ws. a' \<le> j \<and> j < b'" using assms(1) that by (simp add: scan_ok_def)
    then show ?thesis by auto
  qed (use that in simp)
  moreover have "sorted_wrt (\<lambda>(l, a, b) (l', a', b'). b \<le> a') ((l, a, i) # ws)"
    using assms(1) ws by (auto simp: scan_ok_def)
  moreover have "\<forall>(l', a', b') \<in> set ((l, a, i) # ws). crisis_run labels l' a' b' \<and> a \<le> a'"
    using ws a assms(2) by fastforce
  ultimately show ?thesis unfolding scan_ok_def by blast
qed

lemma crisis_scan_ok:
  assumes "labels = ps @ xs" "i = length ps" "open_run labels i active"
  shows "scan_ok labels (open_start i active) (crisis_scan i active xs)"
  using assms
proof (induction i active xs arbitrary: ps rule: crisis_scan.induct)
  case (1 i active)
  then show ?case
    by (cases active) (auto simp: scan_ok_def crisis_run_def open_run_def open_start_def)
next
  case (2 i active x xs)
  have nth: "labels ! i = x" "i < length labels" using 2(4,5) by simp_all
  have tl: "labels = (ps @ [x]) @ xs" "i + 1 = length (ps @ [x])" using 2(4,5) by simp_all
  have closes: "scan_ok labels (open_start i active) ((case active of None \<Rightarrow> [] | Some (l, a) \<Rightarrow> [(l, a, i)]) @ ws)"
    if "scan_ok labels i ws" "map_option fst active \<noteq> Some x" for ws
  proof (cases active)
    case (Some la)
    obtain l a where la: "la = (l, a)" by fastforce
    have "crisis_run labels l a i"
      using 2(6) nth that(2) Some la by (auto simp: open_run_def crisis_run_def)
    then show ?thesis using scan_ok_close [OF that(1)] by (simp add: Some la open_start_def)
  qed (use that in \<open>simp add: open_start_def\<close>)
  show ?case
  proof (cases "x \<in> set crisis_regimes")
    case True
    show ?thesis
    proof (cases "map_option fst active = Some x")
      case same: True
      then obtain a where a: "active = Some (x, a)" by auto
      have "open_run labels (i + 1) active" using 2(6) nth by (auto simp: open_run_def a less_Suc_eq)
      from 2(1) [OF refl True same tl this] show ?thesis using True same by (simp add: a open_start_def)
    next
      case False
      have "open_run labels (i + 1) (Some (x, i))"
        using 2(6) nth True False by (auto simp: open_run_def less_Suc_eq split: option.splits)
      from 2(2) [OF refl True False tl this] have "scan_ok labels i (crisis_scan (i + 1) (Some (x, i)) xs)"
        by (simp add: open_start_def)
      from closes [OF this False] show ?thesis using True False by (simp add: Let_def)
    qed
  next
    case False
    have "open_run labels (i + 1) None" using nth False by (simp add: open_run_def)
    from 2(3) [OF refl False tl this] have "scan_ok labels i (crisis_scan (i + 1) None xs)"
      using scan_ok_skip [of labels i] nth False by (simp add: open_start_def)
    moreover have "map_option fst active \<noteq> Some x" using 2(6) False by (auto simp: open_run_def)
    ultimately show ?thesis using closes False by (simp add: Let_def)
  qed
qed


lemma crisis_runD:
  assumes "crisis_run labels l a b"
  shows "a \<le> i \<Longrightarrow> i < b \<Longrightarrow> labels ! i = l" "l \<in> set crisis_regimes"
    "b < length labels \<Longrightarrow> labels ! b \<noteq> l" "0 < a \<Longrightarrow> labels ! (a - 1) \<noteq> l" "a < b" "b \<le> length labels"
  using assms by (simp_all add: crisis_run_def)

lemma scan_okD:
  assumes "scan_ok labels start ws"
  shows "(l, a, b) \<in> set ws \<Longrightarrow> crisis_run labels l a b"
    and "start \<le> j \<Longrightarrow> j < length labels \<Longrightarrow> labels ! j \<in> set crisis_regimes \<Longrightarrow>
      \<exists>l a b. (l, a, b) \<in> set ws \<and> a \<le> j \<and> j < b"
proof -
  show "(l, a, b) \<in> set ws \<Longrightarrow> crisis_run labels l a b" using assms by (auto simp: scan_ok_def)
  assume "start \<le> j" "j < length labels" "labels ! j \<in> set crisis_regimes"
  then have "\<exists>(l, a, b) \<in> set ws. a \<le> j \<and> j < b" using assms by (simp add: scan_ok_def)
  then show "\<exists>l a b. (l, a, b) \<in> set ws \<and> a \<le> j \<and> j < b" by blast
qed

lemma crisis_scan_windows: "scan_ok labels 0 (crisis_scan 0 None labels)"
  using crisis_scan_ok [of labels "[]" labels 0 None] by (simp add: open_run_def open_start_def)

text \<open>The crisis windows are exactly the maximal runs of one crisis label: every window covers bars of its
  label only and cannot be extended, windows follow each other in time without overlap, and every
  bar with a crisis label lies in one; each window's snapshot holds exactly its bars.\<close>

lemma crisis_windows_are_runs:
  "(\<forall>w \<in> set (build_crisis_windows s labels). crisis_run labels (cw_regime w) (cw_start w) (cw_end w)
      \<and> sn_candles (cw_snapshot w) = take (cw_end w - cw_start w) (drop (cw_start w) (sn_candles s)))
   \<and> sorted_wrt (\<lambda>v w. cw_end v \<le> cw_start w) (build_crisis_windows s labels)
   \<and> (\<forall>i < length labels. labels ! i \<in> set crisis_regimes \<longleftrightarrow>
       (\<exists>w \<in> set (build_crisis_windows s labels). cw_start w \<le> i \<and> i < cw_end w))"
proof -
  let ?runs = "crisis_scan 0 None labels" and ?ws = "build_crisis_windows s labels"
  have ok: "scan_ok labels 0 ?runs" by (rule crisis_scan_windows)
  have len: "length ?ws = length ?runs" by (simp add: build_crisis_windows_def Let_def)
  have nth: "cw_regime (?ws ! k) = fst (?runs ! k) \<and> cw_start (?ws ! k) = fst (snd (?runs ! k))
      \<and> cw_end (?ws ! k) = snd (snd (?runs ! k))
      \<and> sn_candles (cw_snapshot (?ws ! k)) = py_slice (cw_start (?ws ! k)) (cw_end (?ws ! k)) (sn_candles s)"
    if "k < length ?runs" for k
    using that by (simp add: build_crisis_windows_def Let_def case_prod_unfold slice_snapshot_def clone_snapshot_def)
  have runs: "crisis_run labels (cw_regime w) (cw_start w) (cw_end w)
      \<and> sn_candles (cw_snapshot w) = take (cw_end w - cw_start w) (drop (cw_start w) (sn_candles s))"
    if "w \<in> set ?ws" for w
  proof -
    from that obtain k where k: "k < length ?runs" "w = ?ws ! k" by (metis in_set_conv_nth len)
    have "?runs ! k \<in> set ?runs" using k(1) by simp
    then have "crisis_run labels (fst (?runs ! k)) (fst (snd (?runs ! k))) (snd (snd (?runs ! k)))"
      using scan_okD(1) [OF ok, of "fst (?runs ! k)" "fst (snd (?runs ! k))" "snd (snd (?runs ! k))"] by simp
    with nth [OF k(1)] show ?thesis by (simp add: k(2) py_slice_def)
  qed
  moreover have "sorted_wrt (\<lambda>v w. cw_end v \<le> cw_start w) ?ws"
  proof (unfold sorted_wrt_iff_nth_less, intro allI impI)
    fix k m assume "k < m" "m < length ?ws"
    then have "(\<lambda>(l, a, b) (l', a', b'). b \<le> a') (?runs ! k) (?runs ! m)"
      using ok len unfolding scan_ok_def by (simp add: sorted_wrt_iff_nth_less)
    with \<open>k < m\<close> \<open>m < length ?ws\<close> len nth [of k] nth [of m] show "cw_end (?ws ! k) \<le> cw_start (?ws ! m)"
      by (simp add: case_prod_unfold)
  qed
  moreover have "labels ! i \<in> set crisis_regimes \<longleftrightarrow> (\<exists>w \<in> set ?ws. cw_start w \<le> i \<and> i < cw_end w)"
    if i: "i < length labels" for i
  proof
    assume "labels ! i \<in> set crisis_regimes"
    then obtain l a b where r: "(l, a, b) \<in> set ?runs" "a \<le> i" "i < b"
      using scan_okD(2) [OF ok, of i] i by blast
    from r(1) obtain k where k: "k < length ?runs" "?runs ! k = (l, a, b)" by (metis in_set_conv_nth)
    with nth [OF k(1)] r have "cw_start (?ws ! k) \<le> i" "i < cw_end (?ws ! k)" by simp_all
    moreover have "?ws ! k \<in> set ?ws" using k(1) len by simp
    ultimately show "\<exists>w \<in> set ?ws. cw_start w \<le> i \<and> i < cw_end w" by blast
  next
    assume "\<exists>w \<in> set ?ws. cw_start w \<le> i \<and> i < cw_end w"
    then obtain w where w: "w \<in> set ?ws" "cw_start w \<le> i" "i < cw_end w" by blast
    from runs [OF w(1)] have r: "crisis_run labels (cw_regime w) (cw_start w) (cw_end w)" ..
    show "labels ! i \<in> set crisis_regimes" using crisis_runD(1) [OF r w(2,3)] crisis_runD(2) [OF r] by simp
  qed
  ultimately show ?thesis by blast
qed


definition sample_bars :: "nat \<Rightarrow> data_snapshot" where
  "sample_bars n =
     \<lparr>sn_snapshot_id = ''s1'', sn_symbol = ''BTCUSDT'', sn_venue = ''binance'', sn_timeframe = ''1h'',
      sn_candles = map (\<lambda>i. \<lparr>cd_time = 3600000000 * int i, cd_iso = [], cd_open = Fin 100, cd_high = Fin 100,
        cd_low = Fin 100, cd_close = Fin 100, cd_volume = Fin 1\<rparr>) [0..<n],
      sn_funding_rates = [], sn_open_interest = [], sn_liquidation_notional = [], sn_maker_fee_bps = Fin 0,
      sn_taker_fee_bps = Fin 0, sn_spread_bps = [], sn_depth_bid_1bp_usd = [], sn_depth_ask_1bp_usd = [],
      sn_latency_proxy_ms = [], sn_venue_profile = None, sn_provenance = []\<rparr>"

lemma crisis_windows_are_runs_witness:
  "\<exists>w \<in> set (build_crisis_windows (sample_bars 4) [''bull'', ''crash'', ''crash'', ''short_squeeze'']).
     cw_start w = 1 \<and> cw_end w = 3 \<and> cw_regime w = ''crash''"
proof -
  let ?ls = "[''bull'', ''crash'', ''crash'', ''short_squeeze'']"
  note facts = crisis_windows_are_runs [of "sample_bars 4" ?ls]
  have "1 < length ?ls" "?ls ! 1 \<in> set crisis_regimes" by (simp_all add: crisis_regimes_def)
  with facts [THEN conjunct2, THEN conjunct2, rule_format, of 1]
  obtain w where w: "w \<in> set (build_crisis_windows (sample_bars 4) ?ls)" "cw_start w \<le> 1" "1 < cw_end w"
    by blast
  from facts [THEN conjunct1] w(1) have r: "crisis_run ?ls (cw_regime w) (cw_start w) (cw_end w)" by blast
  have at_bar: "?ls ! i = cw_regime w" if "cw_start w \<le> i" "i < cw_end w" for i
    by (rule crisis_runD(1) [OF r that])
  from at_bar [OF w(2,3)] have l: "cw_regime w = ''crash''" by simp
  have "cw_start w \<noteq> 0" using at_bar [of 0] w(3) l by auto
  moreover have "\<not> 3 < cw_end w" using at_bar [of 3] w(2) l by (auto simp: eval_nat_numeral)
  moreover have "cw_end w \<noteq> 2" using crisis_runD(3) [OF r] l by (auto simp: eval_nat_numeral)
  ultimately have "cw_start w = 1" "cw_end w = 3" using w(2,3) by simp_all
  with w(1) l show ?thesis by blast
qed

section \<open>Three parts\<close>

text \<open>The literal \<open>0.20\<close> lies just above a fifth, the literal \<open>0.60\<close> above a half.\<close>

lemma fl_fifth: "fl (of_nat 20 / 100) = Fin (3602879701896397 / 2 ^ 54)"
proof -
  have u: "(20 / 100) * unit64 / 2 ^ 1019 = 36028797018963968 / 5" by (simp add: unit64_def)
  have f: "\<lfloor>36028797018963968 / 5 :: rat\<rfloor> = 7205759403792793" by (rule floor_unique) simp_all
  have "ulp_exp ((20 / 100) * unit64) = 1019"
    by (rule ulp_exp_eqI) (simp_all add: unit64_def)
  moreover have "half_even (36028797018963968 / 5) = 7205759403792794"
    unfolding half_even_def f by simp
  ultimately have "rnd64 (20 / 100) = 3602879701896397 / 2 ^ 54"
    unfolding rnd64_def grid_round_def u [symmetric] by (simp add: unit64_def)
  then have "fl (20 / 100) = Fin (3602879701896397 / 2 ^ 54)" by (simp add: fl_def limit64_def)
  then show ?thesis by simp
qed

lemma fl_three_fifths: "\<exists>q. fl (of_nat 60 / 100) = Fin q \<and> 1 / 2 \<le> q \<and> q \<le> 39 / 64"
proof -
  have a: "rnd64 (1 / 2) = 1 / 2" "rnd64 (39 / 64) = 39 / 64"
    using rnd64_dyadic [of 1 1] rnd64_dyadic [of 39 6] by simp_all
  have b: "1 / 2 \<le> rnd64 (60 / 100)" "rnd64 (60 / 100) \<le> 39 / 64"
    by (rule rnd64_between [OF a(1) a(2)]; simp)+
  moreover have "rnd64 (60 / 100) < limit64"
    using b(2) small_less_limit64 [of "39 / 64"] by simp
  ultimately show ?thesis using limit64_pos by (auto simp: fl_def Let_def)
qed

lemma share_of_bounds:
  assumes s: "fl (of_nat s / 100) = Fin q" "0 \<le> q" "q \<le> of_int k / 64" and k: "0 \<le> k" "k \<le> 64" and n: "n \<le> 2 ^ 40"
    and m: "of_nat m \<le> of_nat n * q" "m \<le> 2 ^ 40"
  shows "m \<le> share_of n s" "64 * share_of n s \<le> nat k * n"
proof -
  have N: "fnat n = Fin (of_nat n)" using fl_of_int [of "int n"] n by (simp add: fnat_def)
  have kn: "\<bar>k * int n\<bar> \<le> 2 ^ 53"
  proof -
    have "k * int n \<le> 64 * 2 ^ 40" using k n by (intro mult_mono) auto
    then show ?thesis using k by simp
  qed
  have e: "rnd64 (of_int (k * int n) / 2 ^ 6) = of_int (k * int n) / 2 ^ 6" by (rule rnd64_dyadic [OF kn]) simp
  have "of_nat n * q \<le> of_nat n * (of_int k / 64)" using s(3) by (intro mult_left_mono) simp_all
  then have le: "of_nat n * q \<le> of_int (k * int n) / 2 ^ 6" by (simp add: mult.commute)
  define r where "r = rnd64 (of_nat n * q)"
  have rm: "rnd64 (of_nat m) = of_nat m" using rnd64_of_int [of "int m"] m(2) by simp
  have r: "of_nat m \<le> r" "r \<le> of_int (k * int n) / 2 ^ 6"
    unfolding r_def using rnd64_between [OF rm e m(1) le] .
  have r0: "0 \<le> r" unfolding r_def using s(2) by (intro rnd64_nonneg) simp
  have "of_int (k * int n) \<le> (2 :: rat) ^ 53" using kn by (metis abs_le_D1 of_int_le_iff of_int_numeral of_int_power)
  then have "r < limit64" using r(2) small_less_limit64 [of r] by simp
  then have "fmul (fnat n) (fl (of_nat s / 100)) = Fin r"
    using r0 limit64_pos unfolding N s(1) by (simp add: fl_def Let_def r_def)
  then have eq: "share_of n s = nat \<lfloor>r\<rfloor>" using r0 by (simp add: share_of_def trunc_rat_def)
  show "m \<le> share_of n s" unfolding eq using r(1) by (simp add: le_nat_iff le_floor_iff)
  have "of_int \<lfloor>r\<rfloor> * 64 \<le> (of_int (k * int n) :: rat)" 

  proof -
    have "r * 64 \<le> of_int (k * int n)" using r(2) by (simp add: field_simps)
    then show ?thesis using of_int_floor_le [of r] by linarith
  qed
  then have "of_int (\<lfloor>r\<rfloor> * 64) \<le> (of_int (k * int n) :: rat)" by simp
  then have "\<lfloor>r\<rfloor> * 64 \<le> k * int n" unfolding of_int_le_iff .
  moreover have "0 \<le> \<lfloor>r\<rfloor>" using r0 by simp
  ultimately have "int (64 * nat \<lfloor>r\<rfloor>) \<le> int (nat k * n)" using k by simp
  then show "64 * share_of n s \<le> nat k * n" unfolding eq by linarith
qed

lemma split_points:
  assumes "5 \<le> n" "n \<le> 2 ^ 40"
  shows "2 \<le> share_of n 60" "1 \<le> share_of n 20"
    "share_of n 60 + share_of n 20 < n"
proof -
  obtain q where q: "fl (of_nat 60 / 100) = Fin q" "1 / 2 \<le> q" "q \<le> 39 / 64" using fl_three_fifths by blast
  have five: "(5 :: rat) \<le> of_nat n" using assms(1) by (metis of_nat_le_iff of_nat_numeral)
  have "(5 :: rat) * (1 / 2) \<le> of_nat n * q" using five q(2) by (intro mult_mono) simp_all
  then have "of_nat 2 \<le> of_nat n * q" by simp
  then have a: "2 \<le> share_of n 60" "64 * share_of n 60 \<le> nat 39 * n"
    using share_of_bounds [OF q(1), of 39 n 2] q(2,3) assms(2) by auto
  have "(5 :: rat) * (3602879701896397 / 2 ^ 54) \<le> of_nat n * (3602879701896397 / 2 ^ 54)"
    using five by (rule mult_right_mono) simp
  then have "of_nat 1 \<le> of_nat n * (3602879701896397 / 2 ^ 54 :: rat)" by simp
  then have b: "1 \<le> share_of n 20" "64 * share_of n 20 \<le> nat 13 * n"
    using share_of_bounds [OF fl_fifth, of 13 n 1] assms(2) by auto
  show "2 \<le> share_of n 60" "1 \<le> share_of n 20" using a(1) b(1) .
  show "share_of n 60 + share_of n 20 < n" 
    using a(2) b(2) assms(1) by simp
qed

lemma py_slice_parts: "a \<le> b \<Longrightarrow> b \<le> length xs \<Longrightarrow> py_slice 0 a xs @ py_slice a b xs @ py_slice b (length xs) xs = xs"
  by (simp add: py_slice_def flip: take_add append_assoc)

lemma slice_snapshot_candles [simp]: "sn_candles (slice_snapshot s a b suffix) = py_slice a b (sn_candles s)"
  by (simp add: slice_snapshot_def clone_snapshot_def Let_def)

lemma build_split_packD:
  assumes "build_split_pack analyze s = Inr p"
  obtains a b n in_sample regimes where "5 \<le> n" "n = length (sn_candles s)" "a = share_of n 60"
    "b = a + share_of n 20" "in_sample = slice_snapshot s 0 a ''in-sample''"
    "p = \<lparr>sp_in_sample = \<lparr>sw_snapshot = in_sample, sw_start = 0, sw_end = length (sn_candles in_sample)\<rparr>,
          sp_selection_oos = \<lparr>sw_snapshot = slice_snapshot s a b ''selection-oos'', sw_start = a, sw_end = b\<rparr>,
          sp_final_holdout = \<lparr>sw_snapshot = slice_snapshot s b n ''final-holdout'', sw_start = b, sw_end = n\<rparr>,
          sp_bootstrap_source = \<lparr>sw_snapshot = in_sample, sw_start = 0, sw_end = length (sn_candles in_sample)\<rparr>,
          sp_regimes = regimes\<rparr>"
proof -
  let ?n = "length (sn_candles s)"
  let ?a = "share_of ?n 60" let ?b = "?a + share_of ?n 20" let ?i = "slice_snapshot s 0 ?a ''in-sample''"
  let ?w = "\<lparr>sw_snapshot = ?i, sw_start = 0, sw_end = length (sn_candles ?i)\<rparr>"
  have five: "5 \<le> ?n" using assms
    by (auto simp: build_split_pack_def Let_def rbind_Inr_iff split: if_splits)
  then obtain regimes where "p = \<lparr>sp_in_sample = ?w, sp_selection_oos = \<lparr>sw_snapshot = slice_snapshot s ?a ?b ''selection-oos'', sw_start = ?a, sw_end = ?b\<rparr>,
          sp_final_holdout = \<lparr>sw_snapshot = slice_snapshot s ?b ?n ''final-holdout'', sw_start = ?b, sw_end = ?n\<rparr>,
          sp_bootstrap_source = ?w, sp_regimes = regimes\<rparr>"
    using assms by (auto simp: build_split_pack_def Let_def rbind_Inr_iff)
  then show ?thesis by (rule that [OF five refl refl refl refl])
qed

text \<open>C20. A split pack cuts the candles into three parts without gap or overlap: in-sample, selection and
  final holdout are none of them empty, each begins where the one before ends, and together they are
  the snapshot's candles in order.  The bootstrap draws from the in-sample part only.\<close>

theorem splits_partition:
  assumes "build_split_pack analyze s = Inr p" "length (sn_candles s) \<le> 2 ^ 40"
  shows "sn_candles (sw_snapshot (sp_in_sample p)) @ sn_candles (sw_snapshot (sp_selection_oos p))
           @ sn_candles (sw_snapshot (sp_final_holdout p)) = sn_candles s
    \<and> sw_start (sp_in_sample p) = 0 \<and> 0 < sw_end (sp_in_sample p)
    \<and> sw_start (sp_selection_oos p) = sw_end (sp_in_sample p) \<and> sw_start (sp_selection_oos p) < sw_end (sp_selection_oos p)
    \<and> sw_start (sp_final_holdout p) = sw_end (sp_selection_oos p) \<and> sw_start (sp_final_holdout p) < sw_end (sp_final_holdout p)
    \<and> sw_end (sp_final_holdout p) = length (sn_candles s)
    \<and> sp_bootstrap_source p = sp_in_sample p"
proof -
  obtain a b n in_sample regimes where n: "5 \<le> n" "n = length (sn_candles s)" and a: "a = share_of n 60"
    and b: "b = a + share_of n 20" and i: "in_sample = slice_snapshot s 0 a ''in-sample''"
    and p: "p = \<lparr>sp_in_sample = \<lparr>sw_snapshot = in_sample, sw_start = 0, sw_end = length (sn_candles in_sample)\<rparr>,
          sp_selection_oos = \<lparr>sw_snapshot = slice_snapshot s a b ''selection-oos'', sw_start = a, sw_end = b\<rparr>,
          sp_final_holdout = \<lparr>sw_snapshot = slice_snapshot s b n ''final-holdout'', sw_start = b, sw_end = n\<rparr>,
          sp_bootstrap_source = \<lparr>sw_snapshot = in_sample, sw_start = 0, sw_end = length (sn_candles in_sample)\<rparr>,
          sp_regimes = regimes\<rparr>"
    using assms(1) by (rule build_split_packD)
  have pts: "2 \<le> a" "a < b" "b < n" using split_points [OF n(1)] n(2) assms(2) unfolding a b by auto
  then have len: "length (sn_candles in_sample) = a" using n(2) by (simp add: i py_slice_def)
  show ?thesis using pts len n(2) py_slice_parts [of a b "sn_candles s"] unfolding p by (simp add: i)
qed

theorem splits_partition_witness:
  "\<exists>p. build_split_pack (\<lambda>s. Inr (build_regime_analysis s [] ''none'' [])) (sample_bars 9) = Inr p
     \<and> sn_candles (sw_snapshot (sp_in_sample p)) @ sn_candles (sw_snapshot (sp_selection_oos p))
         @ sn_candles (sw_snapshot (sp_final_holdout p)) = sn_candles (sample_bars 9)
     \<and> sw_start (sp_final_holdout p) < 9"
proof -
  have len: "length (sn_candles (sample_bars 9)) = 9" by (simp add: sample_bars_def)
  have "assert_candidate_feature_quality (sample_bars 9) = Inr ()"
    by (simp add: assert_candidate_feature_quality_def sample_bars_def pget_def)
  then obtain p where p: "build_split_pack (\<lambda>s. Inr (build_regime_analysis s [] ''none'' [])) (sample_bars 9) = Inr p"
    by (simp add: build_split_pack_def len Let_def)
  have "length (sn_candles (sample_bars 9)) \<le> 2 ^ 40" unfolding len by simp
  from splits_partition [OF p this] p len show ?thesis by auto
qed

end
