(* ===== verification/Gates.thy ===== *)
theory Gates
  imports Optimizer Splits Contracts
begin

text \<open>
  The gates between a validated strategy and its promotion: the validation gate specification
  (\<open>validation/gate_spec.py\<close>), the minimum sample gate, the promotion gates of the venue
  (\<open>validation/promotion.py\<close>), the candidate governance (\<open>validation/phase4_governance.py\<close>) and the
  comparison of validation bundles (\<open>validation/bundle.py\<close>).  Reports are dynamic values; an object
  passed as a report is read as the dictionary of its fields.
\<close>

section \<open>Fields of a report\<close>

definition rep_field :: "pyval \<Rightarrow> string \<Rightarrow> pyval" where
  "rep_field report name = (case report of PDict d \<Rightarrow> pget d name | _ \<Rightarrow> PNone)"

text \<open>A number that is not a boolean, as a float.\<close>

definition number_or_none :: "pyval \<Rightarrow> pyfloat option result" where
  "number_or_none v =
     (case v of
        PInt i \<Rightarrow> rbind (of_pyint i) (\<lambda>x. Inr (Some x))
      | PFloat x \<Rightarrow> Inr (Some x)
      | _ \<Rightarrow> Inr None)"

definition float_field :: "pyval \<Rightarrow> string \<Rightarrow> pyfloat option result" where
  "float_field report name = number_or_none (rep_field report name)"

definition bool_field :: "pyval \<Rightarrow> string \<Rightarrow> bool option" where
  "bool_field report name = (case rep_field report name of PBool b \<Rightarrow> Some b | _ \<Rightarrow> None)"

text \<open>The row whose multiplier is five.\<close>

fun row_field_5x :: "string \<Rightarrow> pyval list \<Rightarrow> pyfloat option result" where
  "row_field_5x name [] = Inr None"
| "row_field_5x name (row # rows) =
     rbind (float_field row ''multiplier'') (\<lambda>m.
     rbind (case m of None \<Rightarrow> Inr 0 | Some x \<Rightarrow> if x = Fin 0 then Inr 0 else py_int (PFloat x)) (\<lambda>k.
       if k = 5 then float_field row name else row_field_5x name rows))"

definition rows_field_5x :: "pyval \<Rightarrow> string \<Rightarrow> pyfloat option result" where
  "rows_field_5x report name =
     (case rep_field report ''rows'' of PList rows \<Rightarrow> row_field_5x name rows | _ \<Rightarrow> Inr None)"

definition capacity_5x_edge_degradation :: "pyval \<Rightarrow> pyfloat option result" where
  "capacity_5x_edge_degradation report =
     rbind (float_field report ''capacity_5x_edge_erosion'') (\<lambda>direct.
       if direct \<noteq> None then Inr direct
       else rbind (float_field report ''capacity_5x_edge_degradation'') (\<lambda>direct.
         if direct \<noteq> None then Inr direct else rows_field_5x report ''edge_erosion_ratio''))"

definition capacity_5x_fill_completion :: "pyval \<Rightarrow> pyfloat option result" where
  "capacity_5x_fill_completion report =
     rbind (float_field report ''capacity_5x_fill_completion'') (\<lambda>direct.
       if direct \<noteq> None then Inr direct else rows_field_5x report ''modeled_fill_completion_rate'')"

definition scenario_values_true :: "pyval \<Rightarrow> bool" where
  "scenario_values_true v =
     (case v of PDict d \<Rightarrow> list_all (\<lambda>(k, b). b = PBool True) d | _ \<Rightarrow> v = PBool True)"

definition scenario_matrix_passed :: "pyval \<Rightarrow> bool option" where
  "scenario_matrix_passed report =
     (let explicit = bool_field report ''passed'' in
      if explicit = Some False then Some False
      else case rep_field report ''regime_scenario_pass_matrix'' of
             PDict (r # rs) \<Rightarrow> Some (list_all (\<lambda>(k, v). scenario_values_true v) (r # rs))
           | _ \<Rightarrow> explicit)"

definition report_passed :: "pyval \<Rightarrow> bool option" where
  "report_passed report =
     (case bool_field report ''passed'' of
        Some b \<Rightarrow> Some b
      | None \<Rightarrow> (case rep_field report ''regime_pass_matrix'' of
                  PDict (r # rs) \<Rightarrow> Some (list_all (\<lambda>(k, v). v = PBool True) (r # rs))
                | _ \<Rightarrow> None))"

section \<open>The gate specification\<close>

record gate_result =
  vg_name :: string
  vg_passed :: bool
  vg_actual :: pyval
  vg_threshold :: pyval
  vg_severity :: string
  vg_reason :: string
  vg_evidence_refs :: "string list"

record gate_spec =
  gs_holdout_sharpe_floor :: pyfloat
  gs_final_holdout_calmar_floor :: pyfloat
  gs_holdout_drawdown_cap :: pyfloat
  gs_max_edge_degradation :: pyfloat
  gs_min_fill_completion :: pyfloat
  gs_turnover_required :: bool
  gs_min_oos_trades_required :: bool
  gs_min_oos_trades :: int
  gs_scenario_required :: bool
  gs_regime_required :: bool

definition prd_safe :: gate_spec where
  "prd_safe = \<lparr>gs_holdout_sharpe_floor = Fin 1, gs_final_holdout_calmar_floor = fl (75 / 100),
     gs_holdout_drawdown_cap = fl (- 20 / 100), gs_max_edge_degradation = fl (25 / 100),
     gs_min_fill_completion = fl (95 / 100), gs_turnover_required = True, gs_min_oos_trades_required = True,
     gs_min_oos_trades = 120, gs_scenario_required = True, gs_regime_required = True\<rparr>"

definition calmar_of :: "(pyfloat \<Rightarrow> pyfloat) \<Rightarrow> backtest_result \<Rightarrow> pyfloat" where
  "calmar_of rounding r =
     (let drawdown = fabs (bk_max_drawdown r) in
      if fle drawdown (fl (1 / 10 ^ 12)) then (if flt (Fin 0) (bk_net_pnl r) then Fin 999 else Fin 0)
      else rounding (fquot (bk_net_pnl r) drawdown))"

definition compute_final_holdout_calmar :: "backtest_result \<Rightarrow> pyfloat" where
  "compute_final_holdout_calmar = calmar_of (round_nd 12)"

definition gate :: "string \<Rightarrow> pyval \<Rightarrow> pyval \<Rightarrow> bool \<Rightarrow> string \<Rightarrow> string list \<Rightarrow> gate_result" where
  "gate name actual threshold passed reason refs =
     \<lparr>vg_name = name, vg_passed = passed, vg_actual = actual, vg_threshold = threshold, vg_severity = ''hard'',
      vg_reason = (if passed then [] else reason), vg_evidence_refs = refs\<rparr>"

fun opt_float :: "pyfloat option \<Rightarrow> pyval" where
  "opt_float None = PNone"
| "opt_float (Some x) = PFloat x"

fun opt_bool :: "bool option \<Rightarrow> pyval" where
  "opt_bool None = PNone"
| "opt_bool (Some b) = PBool b"

definition capacity_passed :: "pyfloat \<Rightarrow> pyfloat \<Rightarrow> pyfloat option \<Rightarrow> pyfloat option \<Rightarrow> bool" where
  "capacity_passed max_edge min_fill edge fill \<longleftrightarrow>
     (case edge of None \<Rightarrow> False | Some e \<Rightarrow> flt e max_edge)
     \<and> (case fill of None \<Rightarrow> False | Some f \<Rightarrow> fle min_fill f)"

definition evaluate_validation_gate_spec ::
    "backtest_result \<Rightarrow> backtest_result option \<Rightarrow> pyval \<Rightarrow> pyval \<Rightarrow> pyval \<Rightarrow> gate_spec option \<Rightarrow> gate_result list result" where
  "evaluate_validation_gate_spec holdout selection capacity scenario regime spec =
     (let g = (case spec of None \<Rightarrow> prd_safe | Some g \<Rightarrow> g);
          calmar = compute_final_holdout_calmar holdout;
          trades = bk_trade_count (case selection of None \<Rightarrow> holdout | Some r \<Rightarrow> r) in
      rbind (capacity_5x_edge_degradation capacity) (\<lambda>edge.
      rbind (capacity_5x_fill_completion capacity) (\<lambda>fill.
        let turnover = bool_field capacity ''turnover_within_budget'';
            scenarios = scenario_matrix_passed scenario; regimes = report_passed regime in
        Inr ([gate ''final_holdout_sharpe'' (PFloat (bk_sharpe holdout)) (PFloat (gs_holdout_sharpe_floor g))
                (fle (gs_holdout_sharpe_floor g) (bk_sharpe holdout)) ''final_holdout_sharpe_below_floor''
                [''holdout_summary''],
              gate ''final_holdout_calmar'' (PFloat calmar) (PFloat (gs_final_holdout_calmar_floor g))
                (fle (gs_final_holdout_calmar_floor g) calmar) ''final_holdout_calmar_below_floor''
                [''holdout_summary''],
              gate ''final_holdout_drawdown'' (PFloat (bk_max_drawdown holdout)) (PFloat (gs_holdout_drawdown_cap g))
                (fle (gs_holdout_drawdown_cap g) (bk_max_drawdown holdout)) ''final_holdout_drawdown_breached_cap''
                [''holdout_summary''],
              gate ''capacity_5x'' (opt_float edge) (PFloat (gs_max_edge_degradation g))
                (capacity_passed (gs_max_edge_degradation g) (gs_min_fill_completion g) edge fill)
                ''capacity_5x_degradation_or_fill_failed'' [''capacity_report'']]
             @ flag (gs_turnover_required g)
                 (gate ''turnover_budget'' (opt_bool turnover) (PBool True) (turnover = Some True)
                    (if turnover = Some False then ''turnover_budget_exceeded'' else ''turnover_budget_missing'')
                    [''capacity_report''])
             @ flag (gs_min_oos_trades_required g)
                 (gate ''min_oos_trades'' (PInt trades) (PInt (gs_min_oos_trades g)) (gs_min_oos_trades g \<le> trades)
                    ''min_oos_trades_below_floor'' [''selection_oos_summary'', ''holdout_summary''])
             @ flag (gs_scenario_required g)
                 (gate ''scenario_pass_matrix'' (opt_bool scenarios) (PBool True) (scenarios = Some True)
                    ''scenario_pass_matrix_failed'' [''scenario_report'', ''regime_scenario_pass_matrix''])
             @ flag (gs_regime_required g)
                 (gate ''regime_pass_matrix'' (opt_bool regimes) (PBool True) (regimes = Some True)
                    ''regime_pass_matrix_failed'' [''regime_report''])))))"

definition gate_results_to_dict :: "gate_result list \<Rightarrow> (string, bool) dict" where
  "gate_results_to_dict gs = dict_of (map (\<lambda>g. (vg_name g, vg_passed g)) gs)"

definition gate_detail :: "gate_result \<Rightarrow> pyval" where
  "gate_detail g = PDict [(''name'', PStr (vg_name g)), (''passed'', PBool (vg_passed g)), (''actual'', vg_actual g),
     (''threshold'', vg_threshold g), (''severity'', PStr (vg_severity g)), (''reason'', PStr (vg_reason g)),
     (''evidence_refs'', PList (map PStr (vg_evidence_refs g)))]"

section \<open>The minimum sample gate\<close>

record min_sample_gate =
  mg_min_oos_trades :: int
  mg_min_final_holdout_trades :: int
  mg_min_regime_coverage :: pyfloat

record sample_counts =
  sc_oos_trades :: int
  sc_final_holdout_trades :: int
  sc_regime_coverage :: pyfloat

definition min_sample_reasons :: "min_sample_gate \<Rightarrow> sample_counts \<Rightarrow> string list" where
  "min_sample_reasons g c =
     flag (mg_min_oos_trades g < 0) ''min_oos_trades_threshold_negative''
     @ flag (mg_min_final_holdout_trades g < 0) ''min_final_holdout_trades_threshold_negative''
     @ flag (\<not> is_finite (mg_min_regime_coverage g)) ''min_regime_coverage_threshold_non_finite''
     @ flag (sc_oos_trades c < 0) ''oos_trades_negative''
     @ flag (sc_final_holdout_trades c < 0) ''final_holdout_trades_negative''
     @ flag (\<not> is_finite (sc_regime_coverage c)) ''regime_coverage_non_finite''
     @ flag (sc_oos_trades c < mg_min_oos_trades g) ''min_oos_trades_not_met''
     @ flag (sc_final_holdout_trades c < mg_min_final_holdout_trades g) ''min_final_holdout_trades_not_met''
     @ flag (is_finite (sc_regime_coverage c) \<and> flt (sc_regime_coverage c) (mg_min_regime_coverage g))
         ''min_regime_coverage_not_met''"

definition min_sample_evaluate :: "min_sample_gate \<Rightarrow> sample_counts \<Rightarrow> bool \<times> string list" where
  "min_sample_evaluate g c = (let reasons = min_sample_reasons g c in (reasons = [], reasons))"

definition failed_gates :: "(string, bool) dict \<Rightarrow> string list" where
  "failed_gates gates = sort (map fst (filter (\<lambda>(name, passed). \<not> passed) gates))"

text \<open>Every reason is a failed check of the list and the other way round.\<close>

definition min_sample_checks :: "(string \<times> (min_sample_gate \<times> sample_counts \<Rightarrow> bool)) list" where
  "min_sample_checks =
     [(''min_oos_trades_threshold_negative'', \<lambda>(g, c). 0 \<le> mg_min_oos_trades g),
      (''min_final_holdout_trades_threshold_negative'', \<lambda>(g, c). 0 \<le> mg_min_final_holdout_trades g),
      (''min_regime_coverage_threshold_non_finite'', \<lambda>(g, c). is_finite (mg_min_regime_coverage g)),
      (''oos_trades_negative'', \<lambda>(g, c). 0 \<le> sc_oos_trades c),
      (''final_holdout_trades_negative'', \<lambda>(g, c). 0 \<le> sc_final_holdout_trades c),
      (''regime_coverage_non_finite'', \<lambda>(g, c). is_finite (sc_regime_coverage c)),
      (''min_oos_trades_not_met'', \<lambda>(g, c). mg_min_oos_trades g \<le> sc_oos_trades c),
      (''min_final_holdout_trades_not_met'', \<lambda>(g, c). mg_min_final_holdout_trades g \<le> sc_final_holdout_trades c),
      (''min_regime_coverage_not_met'', \<lambda>(g, c). is_finite (sc_regime_coverage c)
         \<longrightarrow> \<not> flt (sc_regime_coverage c) (mg_min_regime_coverage g))]"

lemma min_sample_reasons_eq: "min_sample_reasons g c = failed_checks min_sample_checks (g, c)"
  by (simp add: min_sample_reasons_def min_sample_checks_def flag_def not_le)

interpretation min_sample: check_gate min_sample_checks "\<lambda>(g, c). snd (min_sample_evaluate g c)"
    "\<lambda>(g, c). fst (min_sample_evaluate g c)"
proof unfold_locales
  fix i :: "min_sample_gate \<times> sample_counts"
  obtain g c where i: "i = (g, c)" by (cases i)
  show "(\<lambda>(g, c). snd (min_sample_evaluate g c)) i = failed_checks min_sample_checks i"
    by (simp add: i min_sample_evaluate_def Let_def min_sample_reasons_eq)
  show "(\<lambda>(g, c). fst (min_sample_evaluate g c)) i \<longleftrightarrow> (\<lambda>(g, c). snd (min_sample_evaluate g c)) i = []"
    by (simp add: i min_sample_evaluate_def Let_def)
  show "distinct (map fst min_sample_checks)" by (simp add: min_sample_checks_def)
qed

section \<open>The staged protocol\<close>

record stage_result =
  sr_stage_name :: string
  sr_passed :: bool
  sr_reasons :: "string list"
  sr_metrics :: "(string \<times> pyval) list"

text \<open>All fields of the validation protocol.\<close>

record staged_protocol = validation_protocol +
  vp_stage_results :: "stage_result list"
  vp_probabilistic_sharpe_ratio :: "pyfloat option"
  vp_deflated_sharpe_ratio :: "pyfloat option"
  vp_pbo_score :: "pyfloat option"
  vp_spa_pvalue :: "pyfloat option"
  vp_in_sample_permutation_pvalue :: "pyfloat option"
  vp_walk_forward_permutation_pvalue :: "pyfloat option"
  vp_in_sample_summary :: "(string \<times> pyval) list"
  vp_selection_oos_summary :: "(string \<times> pyval) list"
  vp_holdout_summary :: "(string \<times> pyval) list"
  vp_cpcv_config :: "(string \<times> pyval) list"
  vp_purge_bars :: "int option"
  vp_embargo_bars :: "int option"
  vp_n_blocks :: "int option"
  vp_n_test_blocks :: "int option"
  vp_min_backtest_length :: "int option"
  vp_min_trade_count :: "int option"
  vp_gate_results :: "(string, bool) dict"
  vp_gate_details :: "pyval list"

section \<open>The promotion gates of the venue\<close>

definition v3_baseline_set :: "string list" where
  "v3_baseline_set = [''no_trade'', ''always_long'', ''always_short'', ''simple_1h_momentum'',
     ''simple_1h_breakout'', ''simple_carry_funding'']"

record v3_inputs =
  vi_snapshot :: data_snapshot
  vi_protocol :: staged_protocol
  vi_holdout_result :: backtest_result
  vi_execution_model_id :: string
  vi_signal_timeframe :: string
  vi_execution_timeframe :: string
  vi_walk_forward_fold_count :: int
  vi_position_episode_count :: int
  vi_months_of_data :: pyfloat
  vi_cpcv_metrics :: "(string \<times> pyval) list"
  vi_baseline_results :: "(string, backtest_result) dict"
  vi_capacity_report :: "(string \<times> pyval) list"
  vi_parameter_surface :: "(string \<times> pyval) list"
  vi_bootstrap_report :: "(string \<times> pyval) list"
  vi_regime_report :: "(string \<times> pyval) list"
  vi_reproducible :: bool
  vi_execution_rule_failures :: "string list"

record v3_bundle =
  vb_status :: string
  vb_decision :: promotion_decision
  vb_primary_failure_code :: "string option"
  vb_secondary_failure_codes :: "string list"
  vb_gate_results :: "(string, bool) dict"
  vb_metrics :: "(string \<times> pyval) list"
  vb_baseline_set :: "string list"

definition v3_failure_mapping :: "(string \<times> string) list" where
  "v3_failure_mapping =
     [(''venue_model'', ''venue_model_mismatch''), (''validation_method'', ''cpcv_fail''),
      (''data_length'', ''data_gap''), (''walk_forward_folds'', ''insufficient_trades''),
      (''trade_or_episode_count'', ''insufficient_trades''), (''positive_post_cost'', ''negative_post_cost''),
      (''sharpe'', ''holdout_fail''), (''calmar'', ''holdout_fail''), (''max_drawdown'', ''dd_fail''),
      (''turnover_budget'', ''capacity_fail''), (''capacity_5x'', ''capacity_fail''), (''dsr'', ''dsr_fail''),
      (''pbo'', ''pbo_fail''), (''spa'', ''spa_fail''), (''cpcv'', ''cpcv_fail''),
      (''no_liquidation'', ''liquidation_fail''), (''execution_rules'', ''execution_rule_fail''),
      (''baseline_set'', ''holdout_fail''), (''parameter_plateau'', ''slippage_fragile''),
      (''bootstrap_monte_carlo'', ''holdout_fail''), (''regime_conditional'', ''regime_specific_only''),
      (''reproducibility'', ''contract_error'')]"

definition failure_step :: "string \<times> bool \<Rightarrow> string list \<Rightarrow> string list result" where
  "failure_step g codes =
     (if snd g then Inr codes
      else case map_of v3_failure_mapping (fst g) of
             None \<Rightarrow> Inl (KeyError (fst g))
           | Some code \<Rightarrow> Inr (if code \<in> set codes then codes else codes @ [code]))"

definition failure_codes :: "(string, bool) dict \<Rightarrow> string list result" where
  "failure_codes gates = rfold failure_step gates []"

text \<open>The configuration of the cross validation; a later test is only read when the earlier ones hold.\<close>

definition int_item :: "(string \<times> pyval) list \<Rightarrow> string \<Rightarrow> int result" where
  "int_item d k = py_int (pget_or d k (PInt 0))"

definition cpcv_method_ok :: "(string \<times> pyval) list \<Rightarrow> bool result" where
  "cpcv_method_ok config =
     (if \<not> py_eq (pget config ''method'') (PStr ''combinatorial_purged_cv'') then Inr False
      else rbind (int_item config ''n_blocks'') (\<lambda>b. if \<not> (8 \<le> b \<and> b < 17) then Inr False
      else rbind (int_item config ''n_test_blocks'') (\<lambda>t. if t \<notin> {2, 3} then Inr False
      else rbind (int_item config ''purge_bars'') (\<lambda>p. if \<not> 0 \<le> p then Inr False
      else rbind (int_item config ''embargo_bars'') (\<lambda>e. Inr (0 \<le> e))))))"

definition some_and :: "(pyfloat \<Rightarrow> bool) \<Rightarrow> pyfloat option \<Rightarrow> bool" where
  "some_and P x = (case x of None \<Rightarrow> False | Some v \<Rightarrow> P v)"

definition v3_gates ::
    "v3_inputs \<Rightarrow> pyfloat option \<Rightarrow> pyfloat option \<Rightarrow> pyfloat option \<Rightarrow> pyfloat option \<Rightarrow> bool \<Rightarrow> (string, bool) dict" where
  "v3_gates v mid p10 edge fill method_ok =
     (let holdout = vi_holdout_result v; protocol = vi_protocol v in
      [(''venue_model'', str_lower (sn_venue (vi_snapshot v)) = ''binance''
          \<and> vi_execution_model_id v = ''binance_usdm_v3''
          \<and> vi_signal_timeframe v = ''1h'' \<and> vi_execution_timeframe v = ''15m''),
       (''validation_method'', method_ok),
       (''data_length'', fle (Fin 18) (vi_months_of_data v)
          \<or> truthy (pget (sn_provenance (vi_snapshot v)) ''all_data_since_listing'')),
       (''walk_forward_folds'', 8 \<le> vi_walk_forward_fold_count v),
       (''trade_or_episode_count'', 120 \<le> bk_trade_count holdout \<or> 30 \<le> vi_position_episode_count v),
       (''positive_post_cost'', flt (Fin 0) (bk_net_pnl holdout)),
       (''sharpe'', fle (Fin 1) (bk_sharpe holdout)),
       (''calmar'', fle (fl (75 / 100)) (calmar_of id holdout)),
       (''max_drawdown'', fle (fl (- 20 / 100)) (bk_max_drawdown holdout)),
       (''turnover_budget'', truthy (pget_or (vi_capacity_report v) ''turnover_within_budget'' (PBool False))),
       (''capacity_5x'', capacity_passed (fl (25 / 100)) (fl (95 / 100)) edge fill),
       (''dsr'', some_and (fle (fl (95 / 100))) (vp_deflated_sharpe_ratio protocol)),
       (''pbo'', some_and (\<lambda>x. flt x (fl (20 / 100))) (vp_pbo_score protocol)),
       (''spa'', some_and (\<lambda>x. flt x (fl (5 / 100))) (vp_spa_pvalue protocol)),
       (''cpcv'', some_and (flt (fl (75 / 100))) mid \<and> some_and (flt (Fin 0)) p10),
       (''no_liquidation'', bk_liquidation_events holdout = []),
       (''execution_rules'', vi_execution_rule_failures v = []),
       (''baseline_set'', list_all (\<lambda>n. n \<in> dkeys (vi_baseline_results v)) v3_baseline_set),
       (''parameter_plateau'', truthy (pget_or (vi_parameter_surface v) ''plateau_ok'' (PBool False))),
       (''bootstrap_monte_carlo'', truthy (pget_or (vi_bootstrap_report v) ''passed'' (PBool False))),
       (''regime_conditional'', truthy (pget_or (vi_regime_report v) ''passed'' (PBool False))),
       (''reproducibility'', vi_reproducible v)])"

definition evaluate_v3_promotion_gates :: "v3_inputs \<Rightarrow> v3_bundle result" where
  "evaluate_v3_promotion_gates v =
     rbind (number_or_none (pget (vi_cpcv_metrics v) ''median_sharpe'')) (\<lambda>mid.
     rbind (number_or_none (pget (vi_cpcv_metrics v) ''p10_sharpe'')) (\<lambda>p10.
     rbind (number_or_none (pget (vi_capacity_report v) ''capacity_5x_edge_erosion'')) (\<lambda>edge.
     rbind (number_or_none (pget (vi_capacity_report v) ''capacity_5x_fill_completion'')) (\<lambda>fill.
     rbind (cpcv_method_ok (vp_cpcv_config (vi_protocol v))) (\<lambda>method_ok.
       let gates = v3_gates v mid p10 edge fill method_ok; holdout = vi_holdout_result v in
       rbind (failure_codes gates) (\<lambda>codes.
         Inr \<lparr>vb_status = (if codes = [] then ''passed'' else ''failed''),
              vb_decision = (if codes = [] then \<lparr>pd_decision = ''accept'', pd_reasons = []\<rparr>
                             else \<lparr>pd_decision = ''reject'', pd_reasons = codes\<rparr>),
              vb_primary_failure_code = (case codes of [] \<Rightarrow> None | c # _ \<Rightarrow> Some c),
              vb_secondary_failure_codes = tl codes,
              vb_gate_results = gates,
              vb_metrics = [(''net_pnl'', PFloat (bk_net_pnl holdout)), (''sharpe'', PFloat (bk_sharpe holdout)),
                (''calmar'', PFloat (calmar_of id holdout)), (''max_drawdown'', PFloat (bk_max_drawdown holdout)),
                (''dsr'', opt_float (vp_deflated_sharpe_ratio (vi_protocol v))),
                (''pbo'', opt_float (vp_pbo_score (vi_protocol v))),
                (''spa_pvalue'', opt_float (vp_spa_pvalue (vi_protocol v))),
                (''cpcv_median_sharpe'', opt_float mid), (''cpcv_p10_sharpe'', opt_float p10),
                (''capacity_5x_edge_erosion'', opt_float edge), (''capacity_5x_fill_completion'', opt_float fill)],
              vb_baseline_set = v3_baseline_set\<rparr>))))))"

definition decision_payload :: "promotion_decision \<Rightarrow> pyval" where
  "decision_payload d = PDict [(''decision'', PStr (pd_decision d)), (''reasons'', PList (map PStr (pd_reasons d)))]"

definition bundle_to_dict :: "v3_bundle \<Rightarrow> (string \<times> pyval) list" where
  "bundle_to_dict b =
     [(''status'', PStr (vb_status b)), (''decision'', decision_payload (vb_decision b)),
      (''primary_failure_code'', case vb_primary_failure_code b of None \<Rightarrow> PNone | Some c \<Rightarrow> PStr c),
      (''secondary_failure_codes'', PList (map PStr (vb_secondary_failure_codes b))),
      (''gate_results'', PDict (map (\<lambda>(k, p). (k, PBool p)) (vb_gate_results b))),
      (''metrics'', PDict (vb_metrics b)), (''baseline_set'', PList (map PStr (vb_baseline_set b)))]"

definition append_v3_gate_stage :: "staged_protocol \<Rightarrow> v3_bundle \<Rightarrow> staged_protocol" where
  "append_v3_gate_stage p b =
     (let passed = (vb_status b = ''passed'');
          stage = \<lparr>sr_stage_name = ''binance_usdm_v3_promotion'', sr_passed = passed,
                   sr_reasons = (if passed then [] else pd_reasons (vb_decision b)), sr_metrics = bundle_to_dict b\<rparr>
      in p\<lparr>vp_status := (if passed \<and> vp_status p = ''passed'' then ''passed'' else ''failed''),
            vp_stage_results := vp_stage_results p @ [stage],
            vp_gate_results := foldl (\<lambda>d (k, x). AList.update (''v3_'' @ k) x d) (vp_gate_results p) (vb_gate_results b),
            vp_promotion_decision := (if passed then vp_promotion_decision p else vb_decision b)\<rparr>)"

section \<open>Candidate governance\<close>

definition required_ablation_layers :: "string list" where
  "required_ablation_layers = [''backbone'', ''directional_filters'', ''flat_filters'', ''exits'', ''risk_hooks'',
     ''execution_policy'']"

definition failure_route_actions :: "(string \<times> string) list" where
  "failure_route_actions =
     [(''slippage_fragile'', ''cost_execution_research''), (''regime_specific_only'', ''regime_scope_research''),
      (''capacity_fail'', ''sizing_liquidity_research''), (''feature_leakage'', ''block_candidate'')]"

definition hard_gate_names :: "string list" where
  "hard_gate_names = [''dsr'', ''pbo'', ''spa'', ''cpcv'', ''capacity_5x'', ''no_liquidation'', ''max_drawdown'',
     ''execution_rules'']"

record metric_snapshot =
  ms_net_post_cost_return :: pyfloat
  ms_cpcv_p10_sharpe :: pyfloat
  ms_pbo_score :: pyfloat
  ms_deflated_sharpe_ratio :: pyfloat
  ms_spa_pvalue :: pyfloat
  ms_bootstrap_survival :: pyfloat
  ms_plateau_width :: pyfloat
  ms_oos_decay :: pyfloat
  ms_regime_coverage :: pyfloat
  ms_capacity_5x_edge_erosion :: pyfloat
  ms_cross_symbol_pass_rate :: pyfloat
  ms_paper_forward_score :: "pyfloat option"

record ablation_result =
  ab_layer :: string
  ab_full_return :: pyfloat
  ab_ablated_return :: pyfloat

definition contribution :: "ablation_result \<Rightarrow> pyfloat" where
  "contribution a = fsub (ab_full_return a) (ab_ablated_return a)"

record champion_snapshot =
  ch_artifact_id :: string
  ch_net_post_cost_return :: pyfloat
  ch_hard_gate_results :: "(string, bool) dict"

record governance_inputs =
  gi_candidate_id :: string
  gi_metrics :: metric_snapshot
  gi_ablations :: "ablation_result list"
  gi_gate_results :: "(string, bool) dict"
  gi_champion :: "champion_snapshot option"
  gi_failure_codes :: "string list"
  gi_robustness_floor :: pyfloat
  gi_paper_forward_floor :: pyfloat

record next_action =
  na_action :: string
  na_secondary_actions :: "string list"

record champion_challenger =
  cc_status :: string
  cc_weakened_hard_gates :: "string list"
  cc_payload :: "(string \<times> pyval) list"

record governance_report =
  gr_candidate_id :: string
  gr_status :: string
  gr_robustness_score :: pyfloat
  gr_component_scores :: "(string \<times> pyfloat) list"
  gr_ablations :: "(string, pyval) dict"
  gr_champion_challenger :: champion_challenger
  gr_next_action :: next_action
  gr_paper_forward_score :: "pyfloat option"
  gr_promotion_decision :: promotion_decision

definition clamp_unit :: "pyfloat \<Rightarrow> pyfloat" where
  "clamp_unit x = fmax (Fin 0) (fmin (Fin 1) x)"

text \<open>The divisors are positive literals.\<close>

definition component_scores :: "metric_snapshot \<Rightarrow> (string \<times> pyfloat) list" where
  "component_scores m =
     map (\<lambda>(k, x). (k, round_nd 6 x))
       ([(''cpcv_p10'', clamp_unit (fquot (fadd (ms_cpcv_p10_sharpe m) (fl (2 / 10))) (fl (6 / 10)))),
         (''pbo'', clamp_unit (fquot (fsub (fl (20 / 100)) (ms_pbo_score m)) (fl (20 / 100)))),
         (''dsr'', clamp_unit (fquot (fsub (ms_deflated_sharpe_ratio m) (fl (1 / 2))) (fl (1 / 2)))),
         (''spa'', clamp_unit (fquot (fsub (fl (10 / 100)) (ms_spa_pvalue m)) (fl (10 / 100)))),
         (''bootstrap_survival'', clamp_unit (ms_bootstrap_survival m)),
         (''plateau_width'', clamp_unit (fquot (ms_plateau_width m) (fl (25 / 100)))),
         (''oos_decay'', clamp_unit (fsub (Fin 1) (fquot (ms_oos_decay m) (fl (1 / 2))))),
         (''regime_coverage'', clamp_unit (ms_regime_coverage m)),
         (''capacity_5x'', clamp_unit (fsub (Fin 1) (fquot (ms_capacity_5x_edge_erosion m) (fl (25 / 100))))),
         (''cross_symbol_portability'', clamp_unit (ms_cross_symbol_pass_rate m))]
        @ (case ms_paper_forward_score m of None \<Rightarrow> [] | Some x \<Rightarrow> [(''paper_forward'', clamp_unit x)]))"

definition ablation_payload :: "ablation_result list \<Rightarrow> (string, pyval) dict" where
  "ablation_payload as = dict_of (map (\<lambda>a. (ab_layer a, PDict [(''full_return'', PFloat (ab_full_return a)),
     (''ablated_return'', PFloat (ab_ablated_return a)), (''contribution'', PFloat (round_nd 6 (contribution a)))])) as)"

definition champion_challenger_of :: "governance_inputs \<Rightarrow> champion_challenger" where
  "champion_challenger_of g =
     (case gi_champion g of
        None \<Rightarrow> \<lparr>cc_status = ''no_champion'', cc_weakened_hard_gates = [],
                 cc_payload = [(''required_return_delta'', PNone)]\<rparr>
      | Some c \<Rightarrow>
          let weakened = filter (\<lambda>n. map_of (ch_hard_gate_results c) n = Some True
                           \<and> map_of (gi_gate_results g) n = Some False) hard_gate_names;
              delta = fsub (ms_net_post_cost_return (gi_metrics g)) (ch_net_post_cost_return c)
          in \<lparr>cc_status = (if weakened \<noteq> [] then ''hard_gate_weakened''
                           else if fle delta (Fin 0) then ''challenger_loses'' else ''challenger_wins''),
              cc_weakened_hard_gates = weakened,
              cc_payload = [(''champion_artifact_id'', PStr (ch_artifact_id c)),
                (''champion_net_post_cost_return'', PFloat (ch_net_post_cost_return c)),
                (''challenger_net_post_cost_return'', PFloat (ms_net_post_cost_return (gi_metrics g))),
                (''return_delta'', PFloat (round_nd 6 delta))]\<rparr>)"

definition route_step :: "string list \<Rightarrow> string \<Rightarrow> string list" where
  "route_step actions code =
     (case map_of failure_route_actions code of
        None \<Rightarrow> actions
      | Some a \<Rightarrow> if a \<in> set actions then actions else actions @ [a])"

definition route_failure_taxonomy :: "string list \<Rightarrow> next_action" where
  "route_failure_taxonomy codes =
     (let actions = foldl route_step [] codes in
      if ''block_candidate'' \<in> set actions
      then \<lparr>na_action = ''block_candidate'',
            na_secondary_actions = filter (\<lambda>a. a \<noteq> ''block_candidate'') actions\<rparr>
      else case actions of
             [] \<Rightarrow> \<lparr>na_action = ''promote_to_paper_forward_review'', na_secondary_actions = []\<rparr>
           | a # as \<Rightarrow> \<lparr>na_action = a, na_secondary_actions = as\<rparr>)"

definition metric_reasons :: "governance_inputs \<Rightarrow> pyfloat \<Rightarrow> string list" where
  "metric_reasons g score =
     (let m = gi_metrics g in
      flag (flt score (gi_robustness_floor g)) ''robustness_score_below_floor''
      @ flag (fle (ms_cpcv_p10_sharpe m) (Fin 0)) ''cpcv_p10_fail''
      @ flag (fle (fl (20 / 100)) (ms_pbo_score m)) ''pbo_fail''
      @ flag (flt (ms_deflated_sharpe_ratio m) (fl (95 / 100))) ''dsr_fail''
      @ flag (fle (fl (5 / 100)) (ms_spa_pvalue m)) ''spa_fail''
      @ flag (flt (ms_bootstrap_survival m) (fl (60 / 100))) ''bootstrap_survival_fail''
      @ flag (flt (ms_plateau_width m) (fl (10 / 100))) ''plateau_width_fail''
      @ flag (flt (fl (40 / 100)) (ms_oos_decay m)) ''oos_decay_fail''
      @ flag (flt (ms_regime_coverage m) (fl (50 / 100))) ''regime_specific_only''
      @ flag (fle (fl (25 / 100)) (ms_capacity_5x_edge_erosion m)) ''capacity_fail''
      @ flag (flt (ms_cross_symbol_pass_rate m) (fl (67 / 100))) ''cross_symbol_portability_fail''
      @ flag (case ms_paper_forward_score m of None \<Rightarrow> False | Some x \<Rightarrow> flt x (gi_paper_forward_floor g))
          ''paper_forward_fail'')"

definition code_step :: "string list \<Rightarrow> string \<Rightarrow> string list" where
  "code_step reasons code =
     (if code = ''feature_leakage'' \<or> code \<notin> set reasons \<and> code \<in> fst ` set failure_route_actions
      then reasons @ [code] else reasons)"

text \<open>\<open>_unique\<close>: the first occurrences.\<close>

fun first_occurrences :: "string list \<Rightarrow> string list \<Rightarrow> string list" where
  "first_occurrences seen [] = []"
| "first_occurrences seen (v # vs) =
     (if v \<in> set seen then first_occurrences seen vs else v # first_occurrences (v # seen) vs)"

definition rejection_reasons ::
    "governance_inputs \<Rightarrow> pyfloat \<Rightarrow> (string, pyval) dict \<Rightarrow> champion_challenger \<Rightarrow> string list" where
  "rejection_reasons g score ablations cc =
     first_occurrences [] (foldl code_step
       (metric_reasons g score
        @ map ((@) ''missing_ablation:'') (filter (\<lambda>l. l \<notin> dkeys ablations) required_ablation_layers)
        @ flag (cc_status cc = ''challenger_loses'') ''champion_challenger_return_fail''
        @ map ((@) ''champion_challenger_hard_gate_weakened:'') (cc_weakened_hard_gates cc))
       (gi_failure_codes g))"

definition robustness_of :: "(string \<times> pyfloat) list \<Rightarrow> pyfloat" where
  "robustness_of components = round_nd 6 (fquot (py_sum (map snd components)) (flen components))"

definition build_candidate_governance_report :: "governance_inputs \<Rightarrow> governance_report" where
  "build_candidate_governance_report g =
     (let components = component_scores (gi_metrics g); score = robustness_of components;
          ablations = ablation_payload (gi_ablations g); cc = champion_challenger_of g;
          reasons = rejection_reasons g score ablations cc
      in \<lparr>gr_candidate_id = gi_candidate_id g, gr_status = (if reasons = [] then ''passed'' else ''failed''),
          gr_robustness_score = score, gr_component_scores = components, gr_ablations = ablations,
          gr_champion_challenger = cc,
          gr_next_action = (if reasons \<noteq> [] then route_failure_taxonomy (gi_failure_codes g)
             else \<lparr>na_action = ''promote_to_paper_forward_review'', na_secondary_actions = []\<rparr>),
          gr_paper_forward_score = ms_paper_forward_score (gi_metrics g),
          gr_promotion_decision = (if reasons = [] then \<lparr>pd_decision = ''accept'', pd_reasons = []\<rparr>
             else \<lparr>pd_decision = ''reject'', pd_reasons = reasons\<rparr>)\<rparr>)"

definition report_to_dict :: "governance_report \<Rightarrow> (string \<times> pyval) list" where
  "report_to_dict r =
     [(''candidate_id'', PStr (gr_candidate_id r)), (''status'', PStr (gr_status r)),
      (''robustness_score'', PFloat (gr_robustness_score r)),
      (''component_scores'', PDict (map (\<lambda>(k, x). (k, PFloat x)) (gr_component_scores r))),
      (''ablations'', PDict (gr_ablations r)),
      (''champion_challenger'', PDict ((''status'', PStr (cc_status (gr_champion_challenger r)))
         # cc_payload (gr_champion_challenger r)
         @ [(''weakened_hard_gates'', PList (map PStr (cc_weakened_hard_gates (gr_champion_challenger r))))])),
      (''next_action'', PDict [(''action'', PStr (na_action (gr_next_action r))),
         (''secondary_actions'', PList (map PStr (na_secondary_actions (gr_next_action r))))]),
      (''paper_forward_score'', opt_float (gr_paper_forward_score r)),
      (''promotion_decision'', decision_payload (gr_promotion_decision r))]"

definition append_phase4_governance_stage :: "staged_protocol \<Rightarrow> governance_report \<Rightarrow> staged_protocol" where
  "append_phase4_governance_stage p r =
     (let passed = (gr_status r = ''passed'');
          stage = \<lparr>sr_stage_name = ''phase4_candidate_governance'', sr_passed = passed,
                   sr_reasons = pd_reasons (gr_promotion_decision r), sr_metrics = report_to_dict r\<rparr>
      in p\<lparr>vp_status := (if vp_status p = ''passed'' \<and> passed then ''passed'' else ''failed''),
            vp_stage_results := vp_stage_results p @ [stage],
            vp_gate_results := AList.update ''phase4_candidate_governance'' passed (vp_gate_results p),
            vp_promotion_decision := (if passed then vp_promotion_decision p else gr_promotion_decision r)\<rparr>)"

definition extract_phase4_governance_report :: "staged_protocol \<Rightarrow> (string \<times> pyval) list" where
  "extract_phase4_governance_report p =
     (case find (\<lambda>s. sr_stage_name s = ''phase4_candidate_governance'') (rev (vp_stage_results p)) of
        None \<Rightarrow> [] | Some s \<Rightarrow> sr_metrics s)"

section \<open>Comparing validation bundles\<close>

definition failed_validation_gate_names :: "pyval \<Rightarrow> string list" where
  "failed_validation_gate_names raw =
     (case raw of
        PDict d \<Rightarrow> filter (\<lambda>k. pget d k = PBool False) (sort (map fst d))
      | _ \<Rightarrow> [])"

definition keep_some :: "string \<Rightarrow> pyval \<Rightarrow> (string \<times> pyval) list" where
  "keep_some k v = flag (v \<noteq> PNone) (k, v)"

definition override :: "pyval \<Rightarrow> pyval \<Rightarrow> pyval" where
  "override v w = (if v \<noteq> PNone then v else w)"

definition normalize_validation_bundle :: "pyval \<Rightarrow> pyval \<Rightarrow> pyval \<Rightarrow> (string \<times> pyval) list" where
  "normalize_validation_bundle protocol dsr psr =
     (case protocol of
        PDict d \<Rightarrow>
          keep_some ''status'' (pget d ''status'')
          @ keep_some ''deflated_sharpe_ratio'' (override dsr (pget d ''deflated_sharpe_ratio''))
          @ keep_some ''probabilistic_sharpe_ratio'' (override psr (pget d ''probabilistic_sharpe_ratio''))
          @ keep_some ''pbo_score'' (pget d ''pbo_score'') @ keep_some ''spa_pvalue'' (pget d ''spa_pvalue'')
          @ concat (map (\<lambda>k. keep_some k (pget d k)) [''purge_bars'', ''embargo_bars'', ''n_blocks'',
              ''n_test_blocks'', ''min_backtest_length'', ''min_trade_count''])
          @ concat (map (\<lambda>k. case pget d k of PDict (x # xs) \<Rightarrow> [(k, PDict (x # xs))] | _ \<Rightarrow> [])
              [''cpcv_config'', ''in_sample_summary'', ''selection_oos_summary'', ''holdout_summary''])
          @ [(''failed_gates'', PList (map PStr (failed_validation_gate_names (pget d ''validation_gate_results''))))]
      | _ \<Rightarrow> [])"

definition changed_fields ::
    "(string \<times> pyval) list \<Rightarrow> (string \<times> pyval) list \<Rightarrow> (string \<times> pyval \<times> pyval) list" where
  "changed_fields left right =
     map (\<lambda>k. (k, pget left k, pget right k))
       (filter (\<lambda>k. \<not> py_eq (pget left k) (pget right k)) (sorted_set (map fst left @ map fst right)))"

definition compare_validation_bundles ::
    "pyval \<Rightarrow> pyval \<Rightarrow> pyval \<Rightarrow> pyval \<Rightarrow> pyval \<Rightarrow> pyval
     \<Rightarrow> (string \<times> pyval) list \<times> (string \<times> pyval) list \<times> (string \<times> pyval \<times> pyval) list" where
  "compare_validation_bundles left right left_dsr left_psr right_dsr right_psr =
     (let l = normalize_validation_bundle left left_dsr left_psr;
          r = normalize_validation_bundle right right_dsr right_psr
      in (l, r, changed_fields l r))"

section \<open>What the gates decide\<close>

lemma failure_step_simps:
  "failure_step (n, True) cs = Inr cs"
  "map_of v3_failure_mapping n = Some c \<Longrightarrow> failure_step (n, False) cs = Inr (if c \<in> set cs then cs else cs @ [c])"
  "map_of v3_failure_mapping n = None \<Longrightarrow> failure_step (n, False) cs = Inl (KeyError n)"
  by (simp_all add: failure_step_def)

lemma failure_step_total:
  assumes "rfold failure_step gs cs = Inr ds" "distinct cs"
  shows "set ds = set cs \<union> {c. \<exists>n. (n, False) \<in> set gs \<and> map_of v3_failure_mapping n = Some c}" "distinct ds"
proof -
  have "set ds = set cs \<union> {c. \<exists>n. (n, False) \<in> set gs \<and> map_of v3_failure_mapping n = Some c} \<and> distinct ds"
    using assms
  proof (induction gs arbitrary: cs)
    case (Cons g gs)
    obtain n p where g: "g = (n, p)" by (cases g)
    show ?case
    proof (cases p)
      case True
      then show ?thesis using Cons.IH [of cs] Cons.prems by (auto simp: g failure_step_simps)
    next
      case False
      then obtain c where c: "map_of v3_failure_mapping n = Some c"
        using Cons.prems by (cases "map_of v3_failure_mapping n") (auto simp: g failure_step_simps)
      let ?cs = "if c \<in> set cs then cs else cs @ [c]"
      have "rfold failure_step gs ?cs = Inr ds" "distinct ?cs" using Cons.prems c False by (auto simp: g failure_step_simps)
      note IH = Cons.IH [OF this]
      have "{d. \<exists>m. (m, False) \<in> set (g # gs) \<and> map_of v3_failure_mapping m = Some d}
          = insert c {d. \<exists>m. (m, False) \<in> set gs \<and> map_of v3_failure_mapping m = Some d}"
        using c False by (auto simp: g)
      then show ?thesis using IH by auto
    qed
  qed simp
  then show "set ds = set cs \<union> {c. \<exists>n. (n, False) \<in> set gs \<and> map_of v3_failure_mapping n = Some c}" "distinct ds"
    by simp_all
qed

lemma v3_gates_named: "map fst (v3_gates v mid p10 edge fill ok) = map fst v3_failure_mapping"
  by (simp add: v3_gates_def v3_failure_mapping_def Let_def)

lemma failure_codes_total:
  assumes "set (map fst gs) \<subseteq> set (map fst v3_failure_mapping)"
  shows "\<exists>codes. rfold failure_step gs cs = Inr codes"
  using assms
proof (induction gs arbitrary: cs)
  case (Cons g gs)
  then have "map_of v3_failure_mapping (fst g) \<noteq> None" by (auto simp: map_of_eq_None_iff)
  then show ?case using Cons by (auto simp: failure_step_def)
qed simp

lemma mapping_total: "n \<in> set (map fst v3_failure_mapping) \<Longrightarrow> \<exists>c. map_of v3_failure_mapping n = Some c"
  by (metis map_of_eq_None_iff option.exhaust set_map)

lemma evaluate_v3D:
  assumes "evaluate_v3_promotion_gates v = Inr b"
  obtains mid p10 edge fill ok codes where
    "number_or_none (pget (vi_cpcv_metrics v) ''median_sharpe'') = Inr mid"
    "number_or_none (pget (vi_cpcv_metrics v) ''p10_sharpe'') = Inr p10"
    "number_or_none (pget (vi_capacity_report v) ''capacity_5x_edge_erosion'') = Inr edge"
    "number_or_none (pget (vi_capacity_report v) ''capacity_5x_fill_completion'') = Inr fill"
    "cpcv_method_ok (vp_cpcv_config (vi_protocol v)) = Inr ok"
    "vb_gate_results b = v3_gates v mid p10 edge fill ok"
    "failure_codes (vb_gate_results b) = Inr codes"
    "vb_status b = (if codes = [] then ''passed'' else ''failed'')"
    "vb_decision b = (if codes = [] then \<lparr>pd_decision = ''accept'', pd_reasons = []\<rparr>
                      else \<lparr>pd_decision = ''reject'', pd_reasons = codes\<rparr>)"
proof -
  obtain mid p10 edge fill ok codes where
    e: "number_or_none (pget (vi_cpcv_metrics v) ''median_sharpe'') = Inr mid"
      "number_or_none (pget (vi_cpcv_metrics v) ''p10_sharpe'') = Inr p10"
      "number_or_none (pget (vi_capacity_report v) ''capacity_5x_edge_erosion'') = Inr edge"
      "number_or_none (pget (vi_capacity_report v) ''capacity_5x_fill_completion'') = Inr fill"
      "cpcv_method_ok (vp_cpcv_config (vi_protocol v)) = Inr ok"
      "failure_codes (v3_gates v mid p10 edge fill ok) = Inr codes"
    using assms unfolding evaluate_v3_promotion_gates_def Let_def rbind_Inr_iff by blast
  then have b: "vb_gate_results b = v3_gates v mid p10 edge fill ok"
      "vb_status b = (if codes = [] then ''passed'' else ''failed'')"
      "vb_decision b = (if codes = [] then \<lparr>pd_decision = ''accept'', pd_reasons = []\<rparr>
                        else \<lparr>pd_decision = ''reject'', pd_reasons = codes\<rparr>)"
    using assms by (auto simp: evaluate_v3_promotion_gates_def Let_def)
  show ?thesis
    using e(6) b(1) by (intro that [OF e(1-5) b(1) _ b(2,3)]) simp
qed

lemma gate_value: "(n, p) \<in> set (v3_gates v mid p10 edge fill ok) \<Longrightarrow> (n, q) \<in> set (v3_gates v mid p10 edge fill ok) \<Longrightarrow> p = q"
proof -
  have "distinct (map fst v3_failure_mapping)" by (simp add: v3_failure_mapping_def)
  then show "(n, p) \<in> set (v3_gates v mid p10 edge fill ok) \<Longrightarrow> (n, q) \<in> set (v3_gates v mid p10 edge fill ok) \<Longrightarrow> p = q"
    by (metis eq_key_imp_eq_value v3_gates_named)
qed

text \<open>C19. The venue's promotion gate accepts exactly when all 22 gates pass, and rejects with the codes of the
  failed gates, each once.  An accepted candidate earned money after costs on the holdout with a
  Sharpe ratio of at least one, stayed within the drawdown cap, was never liquidated, broke no execution
  rule, and its deflated Sharpe ratio, overfitting probability and predictive ability are within bounds.\<close>

theorem v3_promotion_exact:
  assumes "evaluate_v3_promotion_gates v = Inr b"
  shows "length (vb_gate_results b) = 22
    \<and> (pd_decision (vb_decision b) = ''accept'' \<longleftrightarrow> (\<forall>(n, p) \<in> set (vb_gate_results b). p))
    \<and> distinct (pd_reasons (vb_decision b))
    \<and> set (pd_reasons (vb_decision b))
        = {c. \<exists>n. (n, False) \<in> set (vb_gate_results b) \<and> map_of v3_failure_mapping n = Some c}
    \<and> (pd_decision (vb_decision b) = ''accept'' \<longrightarrow>
         flt (Fin 0) (bk_net_pnl (vi_holdout_result v)) \<and> fle (Fin 1) (bk_sharpe (vi_holdout_result v))
         \<and> fle (fl (- 20 / 100)) (bk_max_drawdown (vi_holdout_result v))
         \<and> bk_liquidation_events (vi_holdout_result v) = [] \<and> vi_execution_rule_failures v = []
         \<and> (120 \<le> bk_trade_count (vi_holdout_result v) \<or> 30 \<le> vi_position_episode_count v)
         \<and> (\<exists>x. vp_deflated_sharpe_ratio (vi_protocol v) = Some x \<and> fle (fl (95 / 100)) x)
         \<and> (\<exists>x. vp_pbo_score (vi_protocol v) = Some x \<and> flt x (fl (20 / 100)))
         \<and> (\<exists>x. vp_spa_pvalue (vi_protocol v) = Some x \<and> flt x (fl (5 / 100))))"
proof -
  obtain mid p10 edge fill ok codes where gates: "vb_gate_results b = v3_gates v mid p10 edge fill ok"
    and codes: "failure_codes (vb_gate_results b) = Inr codes"
    and decision: "vb_decision b = (if codes = [] then \<lparr>pd_decision = ''accept'', pd_reasons = []\<rparr>
                      else \<lparr>pd_decision = ''reject'', pd_reasons = codes\<rparr>)"
    using assms by (rule evaluate_v3D)
  have len: "length (vb_gate_results b) = 22" unfolding gates v3_gates_def Let_def by simp
  have set_codes: "set codes = {c. \<exists>n. (n, False) \<in> set (vb_gate_results b) \<and> map_of v3_failure_mapping n = Some c}"
    and dist: "distinct codes"
    using failure_step_total [of "vb_gate_results b" "[]" codes] codes by (simp_all add: failure_codes_def)
  have all: "codes = [] \<longleftrightarrow> (\<forall>(n, p) \<in> set (vb_gate_results b). p)"
  proof
    assume "codes = []"
    then have none: "\<not> (\<exists>n. (n, False) \<in> set (vb_gate_results b) \<and> map_of v3_failure_mapping n = Some c)" for c
      using set_codes by auto
    have "p" if "(n, p) \<in> set (vb_gate_results b)" for n p
    proof (rule ccontr)
      assume "\<not> p"
      have "n \<in> set (map fst v3_failure_mapping)" using that v3_gates_named gates by (metis image_eqI fst_conv set_map)
      with mapping_total none that \<open>\<not> p\<close> show False by fastforce
    qed
    then show "\<forall>(n, p) \<in> set (vb_gate_results b). p" by blast
  next
    assume "\<forall>(n, p) \<in> set (vb_gate_results b). p"
    then have "set codes = {}" unfolding set_codes by fastforce
    then show "codes = []" by simp
  qed
  have acc: "pd_decision (vb_decision b) = ''accept'' \<longleftrightarrow> codes = []" "pd_reasons (vb_decision b) = codes"
    unfolding decision by simp_all
  have facts: "flt (Fin 0) (bk_net_pnl (vi_holdout_result v)) \<and> fle (Fin 1) (bk_sharpe (vi_holdout_result v))
         \<and> fle (fl (- 20 / 100)) (bk_max_drawdown (vi_holdout_result v))
         \<and> bk_liquidation_events (vi_holdout_result v) = [] \<and> vi_execution_rule_failures v = []
         \<and> (120 \<le> bk_trade_count (vi_holdout_result v) \<or> 30 \<le> vi_position_episode_count v)
         \<and> (\<exists>x. vp_deflated_sharpe_ratio (vi_protocol v) = Some x \<and> fle (fl (95 / 100)) x)
         \<and> (\<exists>x. vp_pbo_score (vi_protocol v) = Some x \<and> flt x (fl (20 / 100)))
         \<and> (\<exists>x. vp_spa_pvalue (vi_protocol v) = Some x \<and> flt x (fl (5 / 100)))"
    if "\<forall>(n, p) \<in> set (vb_gate_results b). p"
    using that unfolding gates v3_gates_def Let_def some_and_def by (auto split: option.splits)
  show ?thesis using len set_codes dist all acc facts by auto
qed

lemma first_occurrences_Nil_iff: "first_occurrences [] vs = [] \<longleftrightarrow> vs = []"
  by (cases vs) simp_all

lemma code_step_fold_Nil_iff:
  "foldl code_step reasons codes = [] \<longleftrightarrow> reasons = [] \<and> set codes \<inter> fst ` set failure_route_actions = {}"
proof (induction codes arbitrary: reasons)
  case (Cons c cs)
  have "code_step reasons c = [] \<longleftrightarrow> reasons = [] \<and> c \<notin> fst ` set failure_route_actions"
    by (auto simp: code_step_def failure_route_actions_def)
  then show ?case unfolding foldl.simps Cons.IH by auto
qed simp

lemma no_missing_ablation:
  "filter (\<lambda>l. l \<notin> dkeys (ablation_payload as)) required_ablation_layers = []
     \<longleftrightarrow> set required_ablation_layers \<subseteq> ab_layer ` set as"
  by (auto simp: ablation_payload_def filter_empty_conv image_image)

definition champion_beaten :: "governance_inputs \<Rightarrow> bool" where
  "champion_beaten g =
     (case gi_champion g of
        None \<Rightarrow> True
      | Some c \<Rightarrow> filter (\<lambda>n. map_of (ch_hard_gate_results c) n = Some True
                    \<and> map_of (gi_gate_results g) n = Some False) hard_gate_names = []
          \<and> \<not> fle (fsub (ms_net_post_cost_return (gi_metrics g)) (ch_net_post_cost_return c)) (Fin 0))"

lemma champion_beaten_iff:
  "champion_beaten g \<longleftrightarrow> cc_status (champion_challenger_of g) \<noteq> ''challenger_loses''
     \<and> cc_weakened_hard_gates (champion_challenger_of g) = []"
proof (cases "gi_champion g")
  case (Some c)
  show ?thesis unfolding champion_beaten_def champion_challenger_of_def Let_def Some option.case
    by (simp split: if_splits)
qed (simp add: champion_beaten_def champion_challenger_of_def)

text \<open>The governance report accepts a candidate exactly when its robustness score reaches the floor, no
  metric violates its threshold, every ablation layer was measured, it beats the champion without
  weakening one of the champion's hard gates, and no routed failure code is attached; otherwise it
  rejects it.\<close>

lemma governance_accepts_exactly:
  "pd_decision (gr_promotion_decision (build_candidate_governance_report g)) = ''accept'' \<longleftrightarrow>
     (let m = gi_metrics g in
        \<not> flt (gr_robustness_score (build_candidate_governance_report g)) (gi_robustness_floor g)
        \<and> \<not> fle (ms_cpcv_p10_sharpe m) (Fin 0) \<and> \<not> fle (fl (20 / 100)) (ms_pbo_score m)
        \<and> \<not> flt (ms_deflated_sharpe_ratio m) (fl (95 / 100)) \<and> \<not> fle (fl (5 / 100)) (ms_spa_pvalue m)
        \<and> \<not> flt (ms_bootstrap_survival m) (fl (60 / 100)) \<and> \<not> flt (ms_plateau_width m) (fl (10 / 100))
        \<and> \<not> flt (fl (40 / 100)) (ms_oos_decay m) \<and> \<not> flt (ms_regime_coverage m) (fl (50 / 100))
        \<and> \<not> fle (fl (25 / 100)) (ms_capacity_5x_edge_erosion m)
        \<and> \<not> flt (ms_cross_symbol_pass_rate m) (fl (67 / 100))
        \<and> \<not> some_and (\<lambda>x. flt x (gi_paper_forward_floor g)) (ms_paper_forward_score m)
        \<and> set required_ablation_layers \<subseteq> ab_layer ` set (gi_ablations g)
        \<and> champion_beaten g
        \<and> set (gi_failure_codes g) \<inter> fst ` set failure_route_actions = {})"
proof -
  let ?score = "robustness_of (component_scores (gi_metrics g))"
  let ?reasons = "rejection_reasons g ?score (ablation_payload (gi_ablations g)) (champion_challenger_of g)"
  have score: "gr_robustness_score (build_candidate_governance_report g) = ?score"
    by (simp add: build_candidate_governance_report_def Let_def)
  have "pd_decision (gr_promotion_decision (build_candidate_governance_report g)) = ''accept'' \<longleftrightarrow> ?reasons = []"
    by (simp add: build_candidate_governance_report_def Let_def)
  also have "\<dots> \<longleftrightarrow> metric_reasons g ?score = []
      \<and> set required_ablation_layers \<subseteq> ab_layer ` set (gi_ablations g)
      \<and> champion_beaten g \<and> set (gi_failure_codes g) \<inter> fst ` set failure_route_actions = {}"
    unfolding rejection_reasons_def first_occurrences_Nil_iff code_step_fold_Nil_iff champion_beaten_iff
      append_is_Nil_conv map_is_Nil_conv no_missing_ablation flag_Nil_iff by blast
  also have "metric_reasons g ?score = [] \<longleftrightarrow>
     (let m = gi_metrics g in
        \<not> flt ?score (gi_robustness_floor g)
        \<and> \<not> fle (ms_cpcv_p10_sharpe m) (Fin 0) \<and> \<not> fle (fl (20 / 100)) (ms_pbo_score m)
        \<and> \<not> flt (ms_deflated_sharpe_ratio m) (fl (95 / 100)) \<and> \<not> fle (fl (5 / 100)) (ms_spa_pvalue m)
        \<and> \<not> flt (ms_bootstrap_survival m) (fl (60 / 100)) \<and> \<not> flt (ms_plateau_width m) (fl (10 / 100))
        \<and> \<not> flt (fl (40 / 100)) (ms_oos_decay m) \<and> \<not> flt (ms_regime_coverage m) (fl (50 / 100))
        \<and> \<not> fle (fl (25 / 100)) (ms_capacity_5x_edge_erosion m)
        \<and> \<not> flt (ms_cross_symbol_pass_rate m) (fl (67 / 100))
        \<and> \<not> some_and (\<lambda>x. flt x (gi_paper_forward_floor g)) (ms_paper_forward_score m))"
    unfolding metric_reasons_def Let_def append_is_Nil_conv flag_Nil_iff some_and_def by (rule refl)
  finally show ?thesis unfolding score Let_def by blast
qed

text \<open>Later gates only tighten: the protocol with the venue's and the governance's stage appended is passed
  exactly when the protocol, the venue bundle and the governance report are, it accepts only if all
  three accept, and the governance report can be read back from it.\<close>

lemma later_gates_only_tighten:
  assumes "evaluate_v3_promotion_gates v = Inr b" "r = build_candidate_governance_report g"
    "q = append_phase4_governance_stage (append_v3_gate_stage p b) r"
  shows "(vp_status q = ''passed'' \<longleftrightarrow> vp_status p = ''passed'' \<and> vb_status b = ''passed'' \<and> gr_status r = ''passed'')
    \<and> (pd_decision (vp_promotion_decision q) = ''accept'' \<longleftrightarrow>
         pd_decision (vp_promotion_decision p) = ''accept'' \<and> pd_decision (vb_decision b) = ''accept''
         \<and> pd_decision (gr_promotion_decision r) = ''accept'')
    \<and> take (length (vp_stage_results p)) (vp_stage_results q) = vp_stage_results p
    \<and> extract_phase4_governance_report q = report_to_dict r"
proof -
  obtain mid p10 edge fill ok codes where b: "vb_status b = (if codes = [] then ''passed'' else ''failed'')"
    "vb_decision b = (if codes = [] then \<lparr>pd_decision = ''accept'', pd_reasons = []\<rparr>
                      else \<lparr>pd_decision = ''reject'', pd_reasons = codes\<rparr>)"
    using assms(1) by (rule evaluate_v3D)
  obtain reasons where r: "gr_status r = (if reasons = [] then ''passed'' else ''failed'')"
    "gr_promotion_decision r = (if reasons = [] then \<lparr>pd_decision = ''accept'', pd_reasons = []\<rparr>
             else \<lparr>pd_decision = ''reject'', pd_reasons = reasons\<rparr>)"
    using assms(2) by (simp add: build_candidate_governance_report_def Let_def)
  show ?thesis
    unfolding assms(3) append_phase4_governance_stage_def append_v3_gate_stage_def extract_phase4_governance_report_def
    by (simp add: Let_def b r)
qed

section \<open>Witnesses\<close>

definition sample_result :: backtest_result where
  "sample_result = \<lparr>bk_trade_count = 0, bk_win_rate = Fin 0, bk_gross_pnl = Fin 0, bk_net_pnl = Fin 0,
     bk_fee_spend = Fin 0, bk_funding_spend = Fin 0, bk_sharpe = Fin 0, bk_sortino = Fin 0,
     bk_max_drawdown = Fin 0, bk_equity_curve = [], bk_liquidation_events = [],
     bk_execution_pressure_summary = []\<rparr>"

definition sample_protocol :: staged_protocol where
  "sample_protocol = \<lparr>vp_status = ''passed'', vp_validation_trial_count = 1,
     vp_promotion_decision = \<lparr>pd_decision = ''accept'', pd_reasons = []\<rparr>, vp_stage_results = [],
     vp_probabilistic_sharpe_ratio = None, vp_deflated_sharpe_ratio = None, vp_pbo_score = None,
     vp_spa_pvalue = None, vp_in_sample_permutation_pvalue = None, vp_walk_forward_permutation_pvalue = None,
     vp_in_sample_summary = [], vp_selection_oos_summary = [], vp_holdout_summary = [], vp_cpcv_config = [],
     vp_purge_bars = None, vp_embargo_bars = None, vp_n_blocks = None, vp_n_test_blocks = None,
     vp_min_backtest_length = None, vp_min_trade_count = None, vp_gate_results = [], vp_gate_details = []\<rparr>"

definition sample_v3 :: v3_inputs where
  "sample_v3 = \<lparr>vi_snapshot = sample_bars 5, vi_protocol = sample_protocol, vi_holdout_result = sample_result,
     vi_execution_model_id = ''binance_usdm_v3'', vi_signal_timeframe = ''1h'', vi_execution_timeframe = ''15m'',
     vi_walk_forward_fold_count = 8, vi_position_episode_count = 30, vi_months_of_data = Fin 24,
     vi_cpcv_metrics = [], vi_baseline_results = [], vi_capacity_report = [], vi_parameter_surface = [],
     vi_bootstrap_report = [], vi_regime_report = [], vi_reproducible = True, vi_execution_rule_failures = []\<rparr>"

definition sample_governance :: governance_inputs where
  "sample_governance = \<lparr>gi_candidate_id = ''c1'',
     gi_metrics = \<lparr>ms_net_post_cost_return = Fin 1, ms_cpcv_p10_sharpe = Fin 1, ms_pbo_score = Fin 0,
       ms_deflated_sharpe_ratio = Fin 1, ms_spa_pvalue = Fin 0, ms_bootstrap_survival = Fin 1,
       ms_plateau_width = Fin 1, ms_oos_decay = Fin 0, ms_regime_coverage = Fin 1,
       ms_capacity_5x_edge_erosion = Fin 0, ms_cross_symbol_pass_rate = Fin 1, ms_paper_forward_score = None\<rparr>,
     gi_ablations = [], gi_gate_results = [], gi_champion = None, gi_failure_codes = [''feature_leakage''],
     gi_robustness_floor = Fin 0, gi_paper_forward_floor = Fin 0\<rparr>"

lemma sample_v3_evaluates: "\<exists>b. evaluate_v3_promotion_gates sample_v3 = Inr b"
proof -
  have ok: "cpcv_method_ok (vp_cpcv_config (vi_protocol sample_v3)) = Inr False"
    by (simp add: cpcv_method_ok_def sample_v3_def sample_protocol_def)
  have none: "number_or_none (pget (vi_cpcv_metrics sample_v3) k) = Inr None"
    "number_or_none (pget (vi_capacity_report sample_v3) k) = Inr None" for k
    by (simp_all add: number_or_none_def sample_v3_def)
  have "set (map fst (v3_gates sample_v3 None None None None False)) \<subseteq> set (map fst v3_failure_mapping)"
    unfolding v3_gates_named by (rule subset_refl)
  from failure_codes_total [OF this, of "[]"]
  obtain codes where "failure_codes (v3_gates sample_v3 None None None None False) = Inr codes"
    unfolding failure_codes_def by blast
  then show ?thesis unfolding evaluate_v3_promotion_gates_def none ok by (simp add: Let_def)
qed

theorem v3_promotion_exact_witness:
  "\<exists>b. evaluate_v3_promotion_gates sample_v3 = Inr b \<and> length (vb_gate_results b) = 22
     \<and> pd_decision (vb_decision b) \<noteq> ''accept''"
proof -
  obtain b where b: "evaluate_v3_promotion_gates sample_v3 = Inr b" using sample_v3_evaluates by blast
  have "bk_net_pnl (vi_holdout_result sample_v3) = Fin 0" by (simp add: sample_v3_def sample_result_def)
  with v3_promotion_exact [OF b] b show ?thesis by auto
qed

lemma later_gates_only_tighten_witness:
  "\<exists>b. evaluate_v3_promotion_gates sample_v3 = Inr b
     \<and> pd_decision (vp_promotion_decision (append_phase4_governance_stage (append_v3_gate_stage sample_protocol b)
          (build_candidate_governance_report sample_governance))) \<noteq> ''accept''"
proof -
  obtain b where b: "evaluate_v3_promotion_gates sample_v3 = Inr b" using sample_v3_evaluates by blast
  have "\<not> set required_ablation_layers \<subseteq> ab_layer ` set (gi_ablations sample_governance)"
    by (simp add: required_ablation_layers_def sample_governance_def)
  then have "rejection_reasons sample_governance s (ablation_payload (gi_ablations sample_governance)) c \<noteq> []" for s c
    unfolding rejection_reasons_def first_occurrences_Nil_iff code_step_fold_Nil_iff
      append_is_Nil_conv map_is_Nil_conv no_missing_ablation by blast
  then have "pd_decision (gr_promotion_decision (build_candidate_governance_report sample_governance)) \<noteq> ''accept''"
    by (simp add: build_candidate_governance_report_def Let_def)
  with later_gates_only_tighten [OF b refl refl] b show ?thesis by blast
qed

end
