(* ===== verification/Protocol.thy ===== *)
theory Protocol
  imports Gates "HOL-Library.Multiset"
begin

text \<open>
  The validation run: permutation tests (\<open>validation/permutation.py\<close>), the superior predictive
  ability test (\<open>validation/spa.py\<close>) and the protocol that runs the stages on a split pack, decides by
  the enforced gates and reports every stage (\<open>validation/protocol.py\<close>).  The evaluator of a strategy
  is a parameter, as in the code; so are the generator's shuffle and the third-party test.
\<close>

section \<open>Permutation tests\<close>

definition item :: "'a list \<Rightarrow> nat \<Rightarrow> 'a result" where
  "item xs i = (if i < length xs then Inr (xs ! i) else Inl IndexError)"

text \<open>One bar of the permuted path: the return of its source bar, applied to the close before it.\<close>

definition permuted_candle :: "candle list \<Rightarrow> pyfloat \<Rightarrow> nat \<Rightarrow> nat \<Rightarrow> candle" where
  "permuted_candle candles previous_close output source =
     (let bar = candles ! source; prior_close = cd_close (candles ! (source - 1));
          close_return = (if prior_close = Fin 0 then Fin 0 else fsub (fquot (cd_close bar) prior_close) (Fin 1));
          next_close = fmul previous_close (fadd (Fin 1) close_return);
          range = fmax (fmax (fabs (fsub (cd_high bar) (cd_low bar))) (fabs (fsub next_close previous_close)))
                    (fl (1 / 10 ^ 6))
      in \<lparr>cd_time = cd_time (candles ! output), cd_iso = cd_iso (candles ! output), cd_open = previous_close,
          cd_high = fadd (fmax previous_close next_close) (fmul (Fin (1 / 4)) range),
          cd_low = fmax f_1em9 (fsub (fmin previous_close next_close) (fmul (Fin (1 / 4)) range)),
          cd_close = next_close, cd_volume = cd_volume bar\<rparr>)"

fun permuted_from :: "candle list \<Rightarrow> pyfloat \<Rightarrow> nat \<Rightarrow> nat list \<Rightarrow> candle list" where
  "permuted_from candles previous_close output [] = []"
| "permuted_from candles previous_close output (source # sources) =
     (let c = permuted_candle candles previous_close output source
      in c # permuted_from candles (cd_close c) (output + 1) sources)"

definition permuted_series :: "'a list \<Rightarrow> nat list \<Rightarrow> 'a list result" where
  "permuted_series xs permutation = rmap (item xs) (0 # permutation)"

text \<open>\<open>random.Random(seed).shuffle\<close> is a parameter: the list after the shuffle.\<close>

definition permute_snapshot_path ::
    "(int \<Rightarrow> nat list \<Rightarrow> nat list) \<Rightarrow> data_snapshot \<Rightarrow> int \<Rightarrow> data_snapshot result" where
  "permute_snapshot_path shuffle s seed =
     (let n = length (sn_candles s) in
      if n \<le> 1 then Inr s
      else
        let permutation = shuffle seed [1..<n]; first = hd (sn_candles s);
            candles = first # permuted_from (sn_candles s) (cd_close first) 1 permutation
        in rbind (permuted_series (sn_funding_rates s) permutation) (\<lambda>funding.
           rbind (permuted_series (sn_open_interest s) permutation) (\<lambda>interest.
           rbind (permuted_series (sn_liquidation_notional s) permutation) (\<lambda>liquidation.
             Inr (clone_snapshot (sn_snapshot_id s @ '':permuted:'' @ int_text seed)
                    (\<lambda>s. s\<lparr>sn_candles := candles, sn_funding_rates := funding, sn_open_interest := interest,
                           sn_liquidation_notional := liquidation\<rparr>)
                    [(''transformation'', PStr ''permutation''), (''seed'', PInt seed)] s)))))"

record permutation_result =
  pe_stage_name :: string
  pe_metric_name :: string
  pe_observed_metric :: pyfloat
  pe_exceedance_count :: nat
  pe_permutation_count :: int
  pe_pvalue :: pyfloat
  pe_seed :: int

type_synonym snapshot_evaluator = "data_snapshot \<Rightarrow> strategy_graph \<Rightarrow> backtest_result result"

definition run_permutation_test ::
    "(int \<Rightarrow> nat list \<Rightarrow> nat list) \<Rightarrow> string \<Rightarrow> data_snapshot \<Rightarrow> strategy_graph \<Rightarrow> snapshot_evaluator
     \<Rightarrow> int \<Rightarrow> int \<Rightarrow> permutation_result result" where
  "run_permutation_test shuffle stage s strategy evaluate rounds seed =
     (let effective = max 1 rounds in
      rbind (evaluate s strategy) (\<lambda>result.
      rbind (rmap (\<lambda>offset. rbind (permute_snapshot_path shuffle s (seed + int offset)) (\<lambda>permuted.
                     rbind (evaluate permuted strategy) (\<lambda>r. Inr (bk_sharpe r))))
               [0..<nat effective]) (\<lambda>metrics.
        let exceedance = length (filter (\<lambda>m. fle (bk_sharpe result) m) metrics)
        in Inr \<lparr>pe_stage_name = stage, pe_metric_name = ''sharpe'', pe_observed_metric = bk_sharpe result,
                pe_exceedance_count = exceedance, pe_permutation_count = effective,
                pe_pvalue = int_quot (1 + int exceedance) (effective + 1), pe_seed = seed\<rparr>)))"

definition run_in_sample_permutation_test ::
    "(int \<Rightarrow> nat list \<Rightarrow> nat list) \<Rightarrow> data_snapshot \<Rightarrow> strategy_graph \<Rightarrow> snapshot_evaluator \<Rightarrow> int \<Rightarrow> int
     \<Rightarrow> permutation_result result" where
  "run_in_sample_permutation_test shuffle = run_permutation_test shuffle ''in_sample_permutation''"

definition run_walk_forward_permutation_test ::
    "(int \<Rightarrow> nat list \<Rightarrow> nat list) \<Rightarrow> data_snapshot \<Rightarrow> strategy_graph \<Rightarrow> snapshot_evaluator \<Rightarrow> int \<Rightarrow> int
     \<Rightarrow> permutation_result result" where
  "run_walk_forward_permutation_test shuffle = run_permutation_test shuffle ''walk_forward_permutation''"

section \<open>Superior predictive ability\<close>

text \<open>The test class of \<open>arch\<close> is absent or a function from benchmark, models, block size and
  repetitions to the p-values.\<close>

type_synonym spa_class = "(pyfloat list \<Rightarrow> pyfloat list list \<Rightarrow> int \<Rightarrow> int \<Rightarrow> pyfloat list result) option"

record spa_report =
  sa_status :: string
  sa_available :: bool
  sa_enforced :: bool
  sa_pvalues :: "pyfloat list"
  sa_rejections :: "bool list"
  sa_block_size :: int
  sa_reps :: int

definition skipped_spa :: "int \<Rightarrow> int \<Rightarrow> spa_report" where
  "skipped_spa block_size reps =
     \<lparr>sa_status = ''skipped'', sa_available = False, sa_enforced = False, sa_pvalues = [], sa_rejections = [],
      sa_block_size = block_size, sa_reps = reps\<rparr>"

definition run_spa_test :: "spa_class \<Rightarrow> pyfloat list \<Rightarrow> pyfloat list list \<Rightarrow> int \<Rightarrow> int \<Rightarrow> spa_report result" where
  "run_spa_test spa benchmark models block_size reps =
     (case spa of
        None \<Rightarrow> Inr (skipped_spa block_size reps)
      | Some test \<Rightarrow> rbind (test benchmark models block_size reps) (\<lambda>ps.
          Inr \<lparr>sa_status = ''ok'', sa_available = True, sa_enforced = True, sa_pvalues = ps,
               sa_rejections = map (\<lambda>p. fle p (fl (5 / 100))) ps, sa_block_size = block_size, sa_reps = reps\<rparr>))"

definition compute_spa_report :: "spa_class \<Rightarrow> pyfloat list list \<Rightarrow> spa_report result" where
  "compute_spa_report spa models =
     (if models = [] then Inr (skipped_spa 0 0)
      else let n = length (hd models)
           in run_spa_test spa (replicate n (Fin 0)) models (max 2 (int n div 4)) 2000)"

section \<open>Overfitting and evidence\<close>

definition partition_row :: "pyfloat list list \<Rightarrow> nat \<Rightarrow> nat \<Rightarrow> nat \<Rightarrow> pyfloat list" where
  "partition_row models samples partitions i =
     (let a = i * samples div partitions; b = (i + 1) * samples div partitions
      in map (\<lambda>xs. fquot (py_sum (py_slice a b xs)) (fnat (b - a))) models)"

text \<open>The number of partitions is even and at most the number of samples, so every part has one.\<close>

definition build_partitioned_performance_matrix :: "pyfloat list list \<Rightarrow> nat \<Rightarrow> pyfloat list list" where
  "build_partitioned_performance_matrix models max_partitions =
     (if length models < 2 then []
      else let samples = Min (set (map length models)); m = min max_partitions samples;
               partitions = m - m mod 2
           in if partitions < 2 then []
              else if list_ex (\<lambda>i. (i + 1) * samples div partitions \<le> i * samples div partitions) [0..<partitions] then []
              else map (partition_row models samples partitions) [0..<partitions])"

record pbo_gate =
  pb_pbo :: "pyfloat option"
  pb_available :: bool
  pb_enforced :: bool
  pb_partitions :: nat
  pb_model_count :: nat

definition compute_pbo_report ::
    "(pyfloat list list \<Rightarrow> int \<Rightarrow> pbo_report result) option \<Rightarrow> (pyfloat \<Rightarrow> pyfloat result)
     \<Rightarrow> pyfloat list list \<Rightarrow> pbo_gate result" where
  "compute_pbo_report np logf matrix =
     (if matrix = []
      then Inr \<lparr>pb_pbo = None, pb_available = False, pb_enforced = False, pb_partitions = 0, pb_model_count = 0\<rparr>
      else rbind (compute_cscv_pbo np logf matrix (int (length matrix))) (\<lambda>report.
        Inr \<lparr>pb_pbo = Some (pr_pbo report), pb_available = True, pb_enforced = True,
             pb_partitions = length matrix, pb_model_count = length (hd matrix)\<rparr>))"

record sharpe_evidence =
  ev_observed_sharpe :: pyfloat
  ev_benchmark_sharpe :: pyfloat
  ev_probabilistic_sharpe_ratio :: pyfloat
  ev_deflated_sharpe_ratio :: pyfloat
  ev_skewness :: pyfloat
  ev_kurtosis :: pyfloat
  ev_sample_count :: nat
  ev_trial_count :: int
  ev_minimum_backtest_length :: int

definition equity_return_series :: "backtest_result \<Rightarrow> pyfloat list" where
  "equity_return_series r =
     (if length (bk_equity_curve r) < 2 then [bk_net_pnl r]
      else map (\<lambda>(previous, current). fsub current previous) (zip (bk_equity_curve r) (tl (bk_equity_curve r))))"

definition build_sharpe_evidence ::
    "libm_pow \<Rightarrow> normal_dist \<Rightarrow> backtest_result \<Rightarrow> int \<Rightarrow> sharpe_evidence result" where
  "build_sharpe_evidence pw nd result trials =
     (let xs = equity_return_series result in
      rbind (compute_observed_sharpe_ratio pw xs) (\<lambda>observed.
      rbind (estimate_sharpe_ratio_standard_error pw xs (Some observed)) (\<lambda>error.
      rbind (estimate_deflated_sharpe_benchmark nd error trials) (\<lambda>benchmark.
      rbind (compute_probabilistic_sharpe_ratio pw nd xs (Fin 0)) (\<lambda>psr.
      rbind (compute_deflated_sharpe_ratio pw nd xs trials) (\<lambda>dsr.
      rbind (compute_sample_skewness pw xs) (\<lambda>skewness.
      rbind (compute_sample_kurtosis pw xs) (\<lambda>kurtosis.
      rbind (compute_minimum_backtest_length pw nd xs (Fin 0) (fl (95 / 100))) (\<lambda>min_length.
        Inr \<lparr>ev_observed_sharpe = observed, ev_benchmark_sharpe = benchmark, ev_probabilistic_sharpe_ratio = psr,
             ev_deflated_sharpe_ratio = dsr, ev_skewness = skewness, ev_kurtosis = kurtosis,
             ev_sample_count = length xs, ev_trial_count = trials, ev_minimum_backtest_length = min_length\<rparr>)))))))))"

definition build_split_summary :: "backtest_result \<Rightarrow> (string \<times> pyval) list" where
  "build_split_summary r = [(''trade_count'', PInt (bk_trade_count r)), (''sharpe'', PFloat (bk_sharpe r)),
     (''net_pnl'', PFloat (bk_net_pnl r)), (''max_drawdown'', PFloat (bk_max_drawdown r))]"

section \<open>The protocol\<close>

text \<open>The keyword arguments, and what the run calls: the evaluator and the numeric libraries.\<close>

record protocol_params =
  pp_trial_count :: int
  pp_candidate_return_series :: "pyfloat list list"
  pp_permutation_count :: int
  pp_permutation_pvalue_threshold :: pyfloat
  pp_relaxed_pvalue_threshold :: pyfloat
  pp_relaxed_candle_limit :: int
  pp_deflated_threshold :: pyfloat
  pp_gate_probabilistic :: bool
  pp_gate_min_backtest_length :: bool
  pp_probabilistic_threshold :: pyfloat
  pp_holdout_sharpe_floor :: pyfloat
  pp_holdout_drawdown_cap :: pyfloat
  pp_holdout_calmar_floor :: pyfloat
  pp_capacity_report :: pyval
  pp_scenario_report :: pyval
  pp_regime_report :: pyval
  pp_gate_spec :: "gate_spec option"
  pp_n_blocks :: int
  pp_n_test_blocks :: int
  pp_purge_bars :: "int option"
  pp_embargo_bars :: int
  pp_feature_lookback_bars :: int
  pp_barrier_horizon_bars :: int
  pp_holding_horizon_bars :: int
  pp_seed :: int

record protocol_env =
  pn_evaluate :: snapshot_evaluator
  pn_shuffle :: "int \<Rightarrow> nat list \<Rightarrow> nat list"
  pn_pow :: libm_pow
  pn_log :: "pyfloat \<Rightarrow> pyfloat result"
  pn_normal :: normal_dist
  pn_numpy_pbo :: "(pyfloat list list \<Rightarrow> int \<Rightarrow> pbo_report result) option"
  pn_spa :: spa_class

text \<open>What the stages measured.\<close>

record stage_facts =
  sf_in_sample :: backtest_result
  sf_walk_forward :: backtest_result
  sf_holdout :: backtest_result
  sf_pbo :: pbo_gate
  sf_spa :: spa_report
  sf_evidence :: sharpe_evidence
  sf_cpcv :: cpcv_config
  sf_in_sample_permutation :: permutation_result
  sf_walk_forward_permutation :: permutation_result
  sf_spec :: gate_spec
  sf_gates :: "gate_result list"
  sf_relaxed :: bool

definition measure_stages ::
    "protocol_env \<Rightarrow> protocol_params \<Rightarrow> split_pack \<Rightarrow> strategy_graph \<Rightarrow> stage_facts result" where
  "measure_stages e p pack strategy =
     (let in_sample = sw_snapshot (sp_in_sample pack); selection = sw_snapshot (sp_selection_oos pack);
          models = filter (\<lambda>xs. 2 \<le> length xs) (pp_candidate_return_series p) in
      rbind (pn_evaluate e in_sample strategy) (\<lambda>train.
      rbind (pn_evaluate e selection strategy) (\<lambda>oos.
      rbind (pn_evaluate e (sw_snapshot (sp_final_holdout pack)) strategy) (\<lambda>holdout.
      rbind (compute_pbo_report (pn_numpy_pbo e) (pn_log e) (build_partitioned_performance_matrix models 16)) (\<lambda>pbo.
      rbind (compute_spa_report (pn_spa e) models) (\<lambda>spa.
      rbind (build_sharpe_evidence (pn_pow e) (pn_normal e) oos (max 1 (pp_trial_count p))) (\<lambda>evidence.
      rbind (run_in_sample_permutation_test (pn_shuffle e) in_sample strategy (pn_evaluate e)
               (pp_permutation_count p) (pp_seed p + 101)) (\<lambda>train_permutation.
      rbind (run_walk_forward_permutation_test (pn_shuffle e) selection strategy (pn_evaluate e)
               (pp_permutation_count p) (pp_seed p + 202)) (\<lambda>oos_permutation.
        let spec = (case pp_gate_spec p of
                      Some g \<Rightarrow> g
                    | None \<Rightarrow> prd_safe\<lparr>gs_holdout_sharpe_floor := pp_holdout_sharpe_floor p,
                        gs_final_holdout_calmar_floor := pp_holdout_calmar_floor p,
                        gs_holdout_drawdown_cap := pp_holdout_drawdown_cap p\<rparr>) in
        rbind (evaluate_validation_gate_spec holdout (Some oos) (pp_capacity_report p) (pp_scenario_report p)
                 (pp_regime_report p) (Some spec)) (\<lambda>gates.
          Inr \<lparr>sf_in_sample = train, sf_walk_forward = oos, sf_holdout = holdout, sf_pbo = pbo, sf_spa = spa,
               sf_evidence = evidence,
               sf_cpcv = resolve_cpcv_config (pp_n_blocks p) (pp_n_test_blocks p) (pp_purge_bars p) (pp_embargo_bars p)
                 (pp_feature_lookback_bars p) (pp_barrier_horizon_bars p) (pp_holding_horizon_bars p),
               sf_in_sample_permutation = train_permutation, sf_walk_forward_permutation = oos_permutation,
               sf_spec = spec, sf_gates = gates,
               sf_relaxed = int (length (sn_candles selection)) < pp_relaxed_candle_limit p\<rparr>))))))))))"

definition walk_forward_threshold :: "protocol_params \<Rightarrow> stage_facts \<Rightarrow> pyfloat" where
  "walk_forward_threshold p f = (if sf_relaxed f then pp_relaxed_pvalue_threshold p else pp_permutation_pvalue_threshold p)"

definition protocol_gate_results :: "protocol_params \<Rightarrow> stage_facts \<Rightarrow> (string, bool) dict" where
  "protocol_gate_results p f =
     (let ev = sf_evidence f; prd = gate_results_to_dict (sf_gates f) in
      [(''minimum_backtest_length'', pp_gate_min_backtest_length p
          \<longrightarrow> ev_minimum_backtest_length ev \<le> int (ev_sample_count ev)),
       (''in_sample_excellence'', flt (Fin 0) (bk_sharpe (sf_in_sample f))),
       (''in_sample_permutation'', fle (pe_pvalue (sf_in_sample_permutation f)) (pp_permutation_pvalue_threshold p)),
       (''deflated_sharpe_ratio'', fle (pp_deflated_threshold p) (ev_deflated_sharpe_ratio ev)),
       (''pbo'', case pb_pbo (sf_pbo f) of Some x \<Rightarrow> fle x (fl (20 / 100)) | None \<Rightarrow> True),
       (''probabilistic_sharpe_ratio'', pp_gate_probabilistic p
          \<longrightarrow> fle (pp_probabilistic_threshold p) (ev_probabilistic_sharpe_ratio ev)),
       (''spa'', sa_available (sf_spa f) \<longrightarrow> list_all id (sa_rejections (sf_spa f))),
       (''walk_forward_permutation'', fle (pe_pvalue (sf_walk_forward_permutation f)) (walk_forward_threshold p f)),
       (''final_holdout_excellence'', dget prd ''final_holdout_sharpe'' False),
       (''final_holdout_calmar'', dget prd ''final_holdout_calmar'' False),
       (''final_holdout_drawdown'', dget prd ''final_holdout_drawdown'' False),
       (''capacity_5x'', dget prd ''capacity_5x'' False),
       (''turnover_budget'', dget prd ''turnover_budget'' True),
       (''min_oos_trades'', dget prd ''min_oos_trades'' True),
       (''scenario_pass_matrix'', dget prd ''scenario_pass_matrix'' True),
       (''regime_pass_matrix'', dget prd ''regime_pass_matrix'' True)])"

definition gate_enforcement :: "protocol_params \<Rightarrow> stage_facts \<Rightarrow> (string, bool) dict" where
  "gate_enforcement p f =
     [(''minimum_backtest_length'', pp_gate_min_backtest_length p), (''in_sample_excellence'', True),
      (''in_sample_permutation'', \<not> sf_relaxed f), (''deflated_sharpe_ratio'', \<not> sf_relaxed f),
      (''pbo'', pb_enforced (sf_pbo f)),
      (''probabilistic_sharpe_ratio'', pp_gate_probabilistic p \<and> \<not> sf_relaxed f),
      (''spa'', sa_enforced (sf_spa f)), (''walk_forward_permutation'', \<not> sf_relaxed f),
      (''final_holdout_excellence'', True), (''final_holdout_calmar'', True), (''final_holdout_drawdown'', True),
      (''capacity_5x'', True), (''turnover_budget'', True), (''min_oos_trades'', True),
      (''scenario_pass_matrix'', True), (''regime_pass_matrix'', True)]"

definition required_gate_names :: "protocol_params \<Rightarrow> string list" where
  "required_gate_names p =
     flag (pp_gate_min_backtest_length p) ''minimum_backtest_length''
     @ [''in_sample_excellence'', ''in_sample_permutation'', ''deflated_sharpe_ratio'', ''pbo'', ''spa'',
        ''walk_forward_permutation'', ''final_holdout_excellence'', ''final_holdout_calmar'',
        ''final_holdout_drawdown'', ''capacity_5x'', ''turnover_budget'', ''min_oos_trades'',
        ''scenario_pass_matrix'', ''regime_pass_matrix'']
     @ flag (pp_gate_probabilistic p) ''probabilistic_sharpe_ratio''"

definition hard_failed_gates :: "protocol_params \<Rightarrow> stage_facts \<Rightarrow> string list" where
  "hard_failed_gates p f =
     filter (\<lambda>n. dget (gate_enforcement p f) n False \<and> \<not> dget (protocol_gate_results p f) n False)
       (required_gate_names p)"

definition soft_failed_gates :: "protocol_params \<Rightarrow> stage_facts \<Rightarrow> string list" where
  "soft_failed_gates p f =
     filter (\<lambda>n. \<not> dget (gate_enforcement p f) n False \<and> \<not> dget (protocol_gate_results p f) n False)
       (required_gate_names p)"

section \<open>The stages of the report\<close>

definition simple_stage :: "string \<Rightarrow> bool \<Rightarrow> (string \<times> pyval) list \<Rightarrow> stage_result" where
  "simple_stage name passed metrics =
     \<lparr>sr_stage_name = name, sr_passed = passed, sr_reasons = flag (\<not> passed) name, sr_metrics = metrics\<rparr>"

definition permutation_stage_result :: "permutation_result \<Rightarrow> pyfloat \<Rightarrow> (string \<times> pyval) list \<Rightarrow> stage_result" where
  "permutation_stage_result r threshold extra =
     simple_stage (pe_stage_name r) (fle (pe_pvalue r) threshold)
       (dict_update [(''metric_name'', PStr (pe_metric_name r)), (''observed_metric'', PFloat (pe_observed_metric r)),
          (''exceedance_count'', PInt (int (pe_exceedance_count r))),
          (''permutation_count'', PInt (pe_permutation_count r)), (''pvalue'', PFloat (pe_pvalue r)),
          (''threshold'', PFloat threshold)] extra)"

definition walk_forward_stage_passed :: "(string, bool) dict \<Rightarrow> bool \<Rightarrow> bool" where
  "walk_forward_stage_passed gates probabilistic \<longleftrightarrow>
     dget gates ''deflated_sharpe_ratio'' False
     \<and> (probabilistic \<longrightarrow> dget gates ''probabilistic_sharpe_ratio'' False)"

definition walk_forward_stage_reasons :: "(string, bool) dict \<Rightarrow> bool \<Rightarrow> string list" where
  "walk_forward_stage_reasons gates probabilistic =
     flag (\<not> dget gates ''deflated_sharpe_ratio'' False) ''deflated_sharpe_ratio''
     @ flag (probabilistic \<and> \<not> dget gates ''probabilistic_sharpe_ratio'' False) ''probabilistic_sharpe_ratio''"

definition gate_actual :: "gate_result list \<Rightarrow> string \<Rightarrow> pyval" where
  "gate_actual gs name = (case find (\<lambda>g. vg_name g = name) gs of None \<Rightarrow> PNone | Some g \<Rightarrow> vg_actual g)"

definition holdout_gate_names :: "string list" where
  "holdout_gate_names = [''final_holdout_excellence'', ''final_holdout_calmar'', ''final_holdout_drawdown'']"

definition spec_payload :: "gate_spec \<Rightarrow> pyval" where
  "spec_payload g = PDict
     [(''holdout_sharpe_floor'', PFloat (gs_holdout_sharpe_floor g)),
      (''final_holdout_calmar_floor'', PFloat (gs_final_holdout_calmar_floor g)),
      (''holdout_drawdown_cap'', PFloat (gs_holdout_drawdown_cap g)),
      (''capacity_5x_max_edge_degradation'', PFloat (gs_max_edge_degradation g)),
      (''capacity_5x_min_fill_completion'', PFloat (gs_min_fill_completion g)),
      (''turnover_budget_required'', PBool (gs_turnover_required g)),
      (''min_oos_trades_required'', PBool (gs_min_oos_trades_required g)),
      (''min_oos_trades'', PInt (gs_min_oos_trades g)),
      (''scenario_pass_matrix_required'', PBool (gs_scenario_required g)),
      (''regime_pass_matrix_required'', PBool (gs_regime_required g))]"

definition protocol_stages :: "protocol_params \<Rightarrow> stage_facts \<Rightarrow> stage_result list" where
  "protocol_stages p f =
     (let gates = protocol_gate_results p f; passed = (\<lambda>n. dget gates n False);
          enforced = (\<lambda>n. (''enforced'', PBool (dget (gate_enforcement p f) n False)));
          ev = sf_evidence f; train = sf_in_sample f; oos = sf_walk_forward f; pbo = sf_pbo f; spa = sf_spa f in
      [simple_stage ''minimum_backtest_length'' (passed ''minimum_backtest_length'')
         [(''sample_count'', PInt (int (ev_sample_count ev))),
          (''minimum_backtest_length'', PInt (ev_minimum_backtest_length ev)), enforced ''minimum_backtest_length''],
       simple_stage ''in_sample_excellence'' (passed ''in_sample_excellence'')
         [(''sharpe'', PFloat (bk_sharpe train)), (''trade_count'', PInt (bk_trade_count train)),
          enforced ''in_sample_excellence''],
       permutation_stage_result (sf_in_sample_permutation f) (pp_permutation_pvalue_threshold p)
         [enforced ''in_sample_permutation''],
       \<lparr>sr_stage_name = ''walk_forward'', sr_passed = walk_forward_stage_passed gates (pp_gate_probabilistic p),
        sr_reasons = walk_forward_stage_reasons gates (pp_gate_probabilistic p),
        sr_metrics = [(''sharpe'', PFloat (bk_sharpe oos)), (''trade_count'', PInt (bk_trade_count oos)),
          (''probabilistic_sharpe_ratio'', PFloat (ev_probabilistic_sharpe_ratio ev)),
          (''deflated_sharpe_ratio'', PFloat (ev_deflated_sharpe_ratio ev)),
          (''benchmark_sharpe'', PFloat (ev_benchmark_sharpe ev)), enforced ''deflated_sharpe_ratio'']\<rparr>,
       simple_stage ''pbo'' (passed ''pbo'')
         [(''pbo'', opt_float (pb_pbo pbo)), (''available'', PBool (pb_available pbo)), enforced ''pbo'',
          (''partitions'', PInt (int (pb_partitions pbo))), (''model_count'', PInt (int (pb_model_count pbo)))],
       simple_stage ''spa'' (passed ''spa'')
         [(''status'', PStr (sa_status spa)), (''available'', PBool (sa_available spa)), enforced ''spa'',
          (''pvalues'', PList (map PFloat (sa_pvalues spa))), (''rejections'', PList (map PBool (sa_rejections spa))),
          (''block_size'', PInt (sa_block_size spa)), (''reps'', PInt (sa_reps spa))],
       permutation_stage_result (sf_walk_forward_permutation f) (walk_forward_threshold p f)
         [(''relaxed_threshold_applied'', PBool (sf_relaxed f)), enforced ''walk_forward_permutation''],
       \<lparr>sr_stage_name = ''final_holdout'', sr_passed = list_all passed holdout_gate_names,
        sr_reasons = filter (\<lambda>n. \<not> passed n) holdout_gate_names,
        sr_metrics = [(''sharpe'', PFloat (bk_sharpe (sf_holdout f))),
          (''calmar'', gate_actual (sf_gates f) ''final_holdout_calmar''),
          (''max_drawdown'', PFloat (bk_max_drawdown (sf_holdout f))),
          (''sharpe_floor'', PFloat (pp_holdout_sharpe_floor p)), (''calmar_floor'', PFloat (pp_holdout_calmar_floor p)),
          (''drawdown_cap'', PFloat (pp_holdout_drawdown_cap p)), (''enforced'', PBool True)]\<rparr>,
       \<lparr>sr_stage_name = ''prd_validation_gate_spec'', sr_passed = list_all vg_passed (sf_gates f),
        sr_reasons = map vg_name (filter (\<lambda>g. \<not> vg_passed g) (sf_gates f)),
        sr_metrics = [(''spec'', spec_payload (sf_spec f)),
          (''gate_results'', PList (map gate_detail (sf_gates f)))]\<rparr>])"

definition cpcv_payload :: "cpcv_config \<Rightarrow> (string \<times> pyval) list" where
  "cpcv_payload c = [(''method'', PStr ''combinatorial_purged_cv''), (''n_blocks'', PInt (cc_n_blocks c)),
     (''n_test_blocks'', PInt (cc_n_test_blocks c)), (''purge_bars'', PInt (cc_purge_bars c)),
     (''embargo_bars'', PInt (cc_embargo_bars c))]"

definition run_validation_protocol ::
    "protocol_env \<Rightarrow> protocol_params \<Rightarrow> split_pack \<Rightarrow> strategy_graph \<Rightarrow> staged_protocol result" where
  "run_validation_protocol e p pack strategy =
     rbind (measure_stages e p pack strategy) (\<lambda>f.
       let hard = hard_failed_gates p f; soft = soft_failed_gates p f; ev = sf_evidence f; spa = sf_spa f in
       Inr \<lparr>vp_status = (if hard \<noteq> [] then ''failed'' else if soft \<noteq> [] then ''warning'' else ''passed''),
            vp_validation_trial_count = max 1 (pp_trial_count p),
            vp_promotion_decision = (if hard \<noteq> [] then \<lparr>pd_decision = ''reject'', pd_reasons = hard\<rparr>
                                     else \<lparr>pd_decision = ''accept'', pd_reasons = []\<rparr>),
            vp_stage_results = protocol_stages p f,
            vp_probabilistic_sharpe_ratio = Some (ev_probabilistic_sharpe_ratio ev),
            vp_deflated_sharpe_ratio = Some (ev_deflated_sharpe_ratio ev),
            vp_pbo_score = pb_pbo (sf_pbo f),
            vp_spa_pvalue = (case sa_pvalues spa of [] \<Rightarrow> None | x # xs \<Rightarrow> Some (foldl fmax x xs)),
            vp_in_sample_permutation_pvalue = Some (pe_pvalue (sf_in_sample_permutation f)),
            vp_walk_forward_permutation_pvalue = Some (pe_pvalue (sf_walk_forward_permutation f)),
            vp_in_sample_summary = build_split_summary (sf_in_sample f),
            vp_selection_oos_summary = build_split_summary (sf_walk_forward f),
            vp_holdout_summary = build_split_summary (sf_holdout f),
            vp_cpcv_config = cpcv_payload (sf_cpcv f),
            vp_purge_bars = Some (cc_purge_bars (sf_cpcv f)), vp_embargo_bars = Some (cc_embargo_bars (sf_cpcv f)),
            vp_n_blocks = Some (cc_n_blocks (sf_cpcv f)), vp_n_test_blocks = Some (cc_n_test_blocks (sf_cpcv f)),
            vp_min_backtest_length = Some (ev_minimum_backtest_length ev),
            vp_min_trade_count = Some (min (min (bk_trade_count (sf_in_sample f)) (bk_trade_count (sf_walk_forward f)))
                                         (bk_trade_count (sf_holdout f))),
            vp_gate_results = protocol_gate_results p f,
            vp_gate_details = map gate_detail (sf_gates f)\<rparr>)"

definition validation_trial_count :: "phase_record list \<Rightarrow> int" where
  "validation_trial_count records = max 1 (sum_list (map (\<lambda>r. max 1 (ph_permutation_count r)) records))"

section \<open>A permuted path\<close>

lemma range_from_zero: "0 < n \<Longrightarrow> 0 # [1..<n] = [0..<n]"
  by (simp add: upt_conv_Cons)

lemma permuted_candle_simps [simp]:
  "cd_time (permuted_candle cs c i s) = cd_time (cs ! i)" "cd_open (permuted_candle cs c i s) = c"
  "cd_volume (permuted_candle cs c i s) = cd_volume (cs ! s)"
  by (simp_all add: permuted_candle_def Let_def)

lemma permuted_from_props:
  "length (permuted_from cs c i sources) = length sources"
  "map cd_volume (permuted_from cs c i sources) = map (\<lambda>j. cd_volume (cs ! j)) sources"
  "map cd_time (permuted_from cs c i sources) = map (\<lambda>j. cd_time (cs ! j)) [i..<i + length sources]"
  "map cd_open (permuted_from cs c i sources) = butlast (c # map cd_close (permuted_from cs c i sources))"
proof -
  have "length (permuted_from cs c i sources) = length sources
    \<and> map cd_volume (permuted_from cs c i sources) = map (\<lambda>j. cd_volume (cs ! j)) sources
    \<and> map cd_time (permuted_from cs c i sources) = map (\<lambda>j. cd_time (cs ! j)) [i..<i + length sources]
    \<and> map cd_open (permuted_from cs c i sources) = butlast (c # map cd_close (permuted_from cs c i sources))"
  proof (induction sources arbitrary: c i)
    case (Cons s ss)
    show ?case using Cons.IH [of "cd_close (permuted_candle cs c i s)" "i + 1"]
      by (simp add: Let_def upt_conv_Cons del: upt_Suc)
  qed simp
  then show "length (permuted_from cs c i sources) = length sources"
    "map cd_volume (permuted_from cs c i sources) = map (\<lambda>j. cd_volume (cs ! j)) sources"
    "map cd_time (permuted_from cs c i sources) = map (\<lambda>j. cd_time (cs ! j)) [i..<i + length sources]"
    "map cd_open (permuted_from cs c i sources) = butlast (c # map cd_close (permuted_from cs c i sources))"
    by blast+
qed

lemma permuted_series_eq:
  "permuted_series xs p = Inr ys \<Longrightarrow> ys = map ((!) xs) (0 # p)"
proof -
  have "rmap (item xs) is = Inr ys \<Longrightarrow> ys = map ((!) xs) is" for "is" ys
    by (induction "is" arbitrary: ys) (auto simp: rbind_Inr_iff item_def split: if_splits)
  then show "permuted_series xs p = Inr ys \<Longrightarrow> ys = map ((!) xs) (0 # p)" unfolding permuted_series_def .
qed

text \<open>The contract of a shuffle.\<close>

definition shuffles :: "(int \<Rightarrow> nat list \<Rightarrow> nat list) \<Rightarrow> bool" where
  "shuffles f \<longleftrightarrow> (\<forall>seed xs. mset (f seed xs) = mset xs)"

lemma mset_of_permutation:
  assumes "shuffles f" "0 < n" "n \<le> length xs"
  shows "mset (map ((!) xs) (0 # f seed [1..<n])) = mset (take n xs)"
proof -
  have "mset (map ((!) xs) (0 # f seed [1..<n])) = image_mset ((!) xs) (mset (0 # [1..<n]))"
    using assms(1) by (simp add: shuffles_def)
  also have "0 # [1..<n] = [0..<n]" using assms(2) by (rule range_from_zero)
  also have "image_mset ((!) xs) (mset [0..<n]) = mset (map ((!) xs) [0..<n])" by simp
  also have "map ((!) xs) [0..<n] = take n xs" using assms(3) by (intro nth_equalityI) auto
  finally show ?thesis .
qed

lemma permute_snapshot_pathD:
  assumes "permute_snapshot_path shuffle s seed = Inr s'" "1 < length (sn_candles s)"
  defines "perm \<equiv> shuffle seed [1..<length (sn_candles s)]"
  shows "sn_candles s' = hd (sn_candles s) # permuted_from (sn_candles s) (cd_close (hd (sn_candles s))) 1 perm"
    "sn_funding_rates s' = map ((!) (sn_funding_rates s)) (0 # perm)"
    "sn_open_interest s' = map ((!) (sn_open_interest s)) (0 # perm)"
    "sn_liquidation_notional s' = map ((!) (sn_liquidation_notional s)) (0 # perm)"
  using assms permuted_series_eq
  by (auto simp: permute_snapshot_path_def Let_def rbind_Inr_iff clone_snapshot_def perm_def dest!: permuted_series_eq)

text \<open>A permuted path is a path over the same bars: it keeps the number of bars and every timestamp, each bar
  opens at the close of the one before it, and it trades exactly the original volumes, funding rates
  and open interest in another order.\<close>

lemma permuted_path_keeps_bars:
  assumes "permute_snapshot_path shuffle s seed = Inr s'" "shuffles shuffle"
    "length (sn_funding_rates s) = length (sn_candles s)" "length (sn_open_interest s) = length (sn_candles s)"
  shows "map cd_time (sn_candles s') = map cd_time (sn_candles s)
    \<and> mset (map cd_volume (sn_candles s')) = mset (map cd_volume (sn_candles s))
    \<and> mset (sn_funding_rates s') = mset (sn_funding_rates s)
    \<and> mset (sn_open_interest s') = mset (sn_open_interest s)
    \<and> (1 < length (sn_candles s) \<longrightarrow>
         map cd_open (tl (sn_candles s')) = map cd_close (butlast (sn_candles s')))"
proof (cases "1 < length (sn_candles s)")
  case False
  then show ?thesis using assms(1) by (simp add: permute_snapshot_path_def)
next
  case True
  let ?cs = "sn_candles s" let ?n = "length ?cs"
  define perm where "perm = shuffle seed [1..<?n]"
  note D = permute_snapshot_pathD [OF assms(1) True, folded perm_def]
  have "length perm = ?n - 1"
    using assms(2) by (metis length_upt perm_def shuffles_def size_mset)
  note P = permuted_from_props [of ?cs "cd_close (hd ?cs)" 1 perm, unfolded this]
  have ne: "?cs \<noteq> []" using True by auto
  have "map cd_time (sn_candles s') = map (\<lambda>j. cd_time (?cs ! j)) (0 # [1..<?n])"
    using P(3) True ne by (simp add: D(1) hd_conv_nth)
  also have "0 # [1..<?n] = [0..<?n]" using True by (intro range_from_zero) linarith
  also have "map (\<lambda>j. cd_time (?cs ! j)) [0..<?n] = map cd_time ?cs" by (intro nth_equalityI) simp_all
  finally have t: "map cd_time (sn_candles s') = map cd_time ?cs" .
  have "map cd_volume (sn_candles s') = map ((!) (map cd_volume ?cs)) (0 # perm)"
  proof -
    have "\<forall>j \<in> set perm. j < ?n"
      using assms(2) by (metis atLeastLessThan_iff perm_def set_mset_mset set_upt shuffles_def)
    then show ?thesis using P(2) ne by (simp add: D(1) hd_conv_nth)
  qed
  then have "mset (map cd_volume (sn_candles s')) = mset (map ((!) (map cd_volume ?cs)) (0 # perm))" by (rule arg_cong)
  also have "\<dots> = mset (take ?n (map cd_volume ?cs))"
    unfolding perm_def using True ne by (intro mset_of_permutation [OF assms(2)]) simp_all
  finally have v: "mset (map cd_volume (sn_candles s')) = mset (map cd_volume ?cs)" by simp
  have f: "mset (sn_funding_rates s') = mset (sn_funding_rates s)" "mset (sn_open_interest s') = mset (sn_open_interest s)"
    unfolding D(2,3) perm_def
    using mset_of_permutation [OF assms(2), of ?n "sn_funding_rates s" seed]
      mset_of_permutation [OF assms(2), of ?n "sn_open_interest s" seed] ne assms(3,4) by simp_all
  have o: "map cd_open (tl (sn_candles s')) = map cd_close (butlast (sn_candles s'))"
    using P(4) by (simp add: D(1) map_butlast)
  show ?thesis using t v f o by simp
qed

lemma permuted_path_keeps_bars_witness:
  "mset (map cd_volume (sn_candles ((sample_bars 3)\<lparr>sn_funding_rates := [Fin 0, Fin 1, Fin 2],
       sn_open_interest := [Fin 5, Fin 6, Fin 7], sn_liquidation_notional := [Fin 0, Fin 0, Fin 0]\<rparr>))) = {#Fin 1, Fin 1, Fin 1#}
   \<and> (\<exists>s'. permute_snapshot_path (\<lambda>seed. rev) ((sample_bars 3)\<lparr>sn_funding_rates := [Fin 0, Fin 1, Fin 2],
       sn_open_interest := [Fin 5, Fin 6, Fin 7], sn_liquidation_notional := [Fin 0, Fin 0, Fin 0]\<rparr>) 7 = Inr s'
       \<and> mset (sn_funding_rates s') = {#Fin 0, Fin 1, Fin 2#}
       \<and> map cd_time (sn_candles s') = map cd_time (sn_candles (sample_bars 3)))"
proof -
  let ?s = "(sample_bars 3)\<lparr>sn_funding_rates := [Fin 0, Fin 1, Fin 2],
       sn_open_interest := [Fin 5, Fin 6, Fin 7], sn_liquidation_notional := [Fin 0, Fin 0, Fin 0]\<rparr>"
  have three: "[0..<3] = [0, 1, 2 :: nat]" "[1..<3] = [1, 2 :: nat]" by (simp_all add: upt_rec)
  obtain s' where s': "permute_snapshot_path (\<lambda>seed. rev) ?s 7 = Inr s'"
    by (simp add: permute_snapshot_path_def Let_def sample_bars_def three permuted_series_def item_def rbind_def)
  have "shuffles (\<lambda>seed. rev)" by (simp add: shuffles_def)
  moreover have "length (sn_funding_rates ?s) = length (sn_candles ?s)" "length (sn_open_interest ?s) = length (sn_candles ?s)"
    by (simp_all add: sample_bars_def)
  ultimately have facts: "map cd_time (sn_candles s') = map cd_time (sn_candles ?s)"
    "mset (sn_funding_rates s') = mset (sn_funding_rates ?s)"
    using permuted_path_keeps_bars [OF s'] by blast+
  have "mset (sn_funding_rates ?s) = {#Fin 0, Fin 1, Fin 2#}" by simp
  moreover have "mset (map cd_volume (sn_candles ?s)) = {#Fin 1, Fin 1, Fin 1#}" by (simp add: sample_bars_def three)
  moreover have "map cd_time (sn_candles ?s) = map cd_time (sn_candles (sample_bars 3))" by simp
  ultimately show ?thesis using s' facts by metis
qed

section \<open>The p-value\<close>

lemma run_permutation_testD:
  assumes "run_permutation_test shuffle stage s strategy evaluate rounds seed = Inr r"
  shows "pe_permutation_count r = max 1 rounds" "pe_exceedance_count r \<le> nat (max 1 rounds)"
    "pe_pvalue r = int_quot (1 + int (pe_exceedance_count r)) (max 1 rounds + 1)" "pe_stage_name r = stage"
proof -
  obtain result metrics where m: "evaluate s strategy = Inr result"
    "rmap (\<lambda>offset. rbind (permute_snapshot_path shuffle s (seed + int offset)) (\<lambda>permuted.
       rbind (evaluate permuted strategy) (\<lambda>r. Inr (bk_sharpe r)))) [0..<nat (max 1 rounds)] = Inr metrics"
    and r: "r = \<lparr>pe_stage_name = stage, pe_metric_name = ''sharpe'', pe_observed_metric = bk_sharpe result,
                pe_exceedance_count = length (filter (\<lambda>m. fle (bk_sharpe result) m) metrics),
                pe_permutation_count = max 1 rounds,
                pe_pvalue = int_quot (1 + int (length (filter (\<lambda>m. fle (bk_sharpe result) m) metrics))) (max 1 rounds + 1),
                pe_seed = seed\<rparr>"
    using assms unfolding run_permutation_test_def Let_def rbind_Inr_iff by blast
  have "length metrics = nat (max 1 rounds)" using m(2) unfolding rmap_Inr_iff by (metis length_map length_upt minus_nat.diff_0)
  then have "length (filter (\<lambda>m. fle (bk_sharpe result) m) metrics) \<le> nat (max 1 rounds)"
    by (metis length_filter_le)
  then show "pe_permutation_count r = max 1 rounds" "pe_exceedance_count r \<le> nat (max 1 rounds)"
    "pe_pvalue r = int_quot (1 + int (pe_exceedance_count r)) (max 1 rounds + 1)" "pe_stage_name r = stage"
    unfolding r by simp_all
qed

text \<open>C21. The p-value of a permutation test is positive and at most one, and the default threshold of one
  percent can only be met with at least 99 permutations: with fewer the gate fails whatever the
  strategy earns.\<close>

theorem permutation_pvalue_attainable:
  assumes "run_permutation_test shuffle stage s strategy evaluate rounds seed = Inr r" "rounds \<le> 2 ^ 50"
  shows "flt (Fin 0) (pe_pvalue r) \<and> fle (pe_pvalue r) (Fin 1)
    \<and> (fle (pe_pvalue r) (fl (1 / 100)) \<longrightarrow> 99 \<le> rounds)"
proof -
  define n where "n = max 1 rounds"
  define k where "k = int (pe_exceedance_count r)"
  note D = run_permutation_testD [OF assms(1)]
  have k: "0 \<le> k" "k \<le> n" "1 \<le> n" "n \<le> 2 ^ 50" using D(2) assms(2) by (simp_all add: k_def n_def)
  have p: "pe_pvalue r = fl (of_int (1 + k) / of_int (n + 1))" using D(3) by (simp add: int_quot_def k_def n_def)
  have "(of_int (1 + k) :: rat) / of_int (n + 1) \<le> 1" using k by simp
  then have up: "fle (pe_pvalue r) (Fin 1)" unfolding p by (intro fl_le_Fin) simp_all
  have low: "fle (Fin (of_int j / 2 ^ i)) (pe_pvalue r)"
    if "of_int j / 2 ^ i \<le> (1 / of_int (n + 1) :: rat)" "\<bar>j\<bar> \<le> 2 ^ 53" "i \<le> 1074" for i j
  proof -
    have "1 / of_int (n + 1) \<le> (of_int (1 + k) / of_int (n + 1) :: rat)" using k by (intro divide_right_mono) simp_all
    with that(1) have "of_int j / 2 ^ i \<le> (of_int (1 + k) / of_int (n + 1) :: rat)" by linarith
    then show ?thesis unfolding p by (intro fl_ge_Fin is_f64_dyadic that(2,3))
  qed
  have "(of_int (n + 1) :: rat) \<le> of_int (2 ^ 51)" unfolding of_int_le_iff using k by simp
  moreover have pos: "(0 :: rat) < of_int (n + 1)" using k by simp
  ultimately have "1 / of_int (2 ^ 51) \<le> (1 / of_int (n + 1) :: rat)" by (intro frac_le) simp_all
  then have "of_int 1 / 2 ^ 51 \<le> (1 / of_int (n + 1) :: rat)" by simp
  have "flt (Fin 0) (pe_pvalue r)" 
  proof -
    have "flt (Fin 0) (Fin (of_int 1 / 2 ^ 51))" by simp
    moreover have "fle (Fin (of_int 1 / 2 ^ 51)) (pe_pvalue r)"
      using \<open>of_int 1 / 2 ^ 51 \<le> (1 / of_int (n + 1) :: rat)\<close> by (rule low) simp_all
    ultimately show ?thesis by (rule flt_fle_trans)
  qed
  moreover have "99 \<le> rounds" if t: "fle (pe_pvalue r) (fl (1 / 100))"
  proof (rule ccontr)
    assume "\<not> 99 \<le> rounds"
    then have "(of_int (n + 1) :: rat) \<le> of_int 99" unfolding of_int_le_iff by (simp add: n_def)
    then have "1 / of_int 99 \<le> (1 / of_int (n + 1) :: rat)" using pos by (intro frac_le) simp_all
    moreover have "of_int 659 / 2 ^ 16 \<le> (1 / of_int 99 :: rat)" by simp
    ultimately have "of_int 659 / 2 ^ 16 \<le> (1 / of_int (n + 1) :: rat)" by (rule order_trans [rotated])
    from low [OF this] have "fle (Fin (of_int 659 / 2 ^ 16)) (pe_pvalue r)" by simp
    moreover have "fle (fl (1 / 100)) (Fin (of_int 658 / 2 ^ 16))"
      by (intro fl_le_Fin is_f64_dyadic) simp_all
    ultimately have "fle (Fin (of_int 659 / 2 ^ 16)) (Fin (of_int 658 / 2 ^ 16))" using t by (meson fle_trans)
    then show False by simp
  qed
  ultimately show ?thesis using up by blast
qed

theorem permutation_pvalue_attainable_witness:
  "\<exists>r. run_permutation_test (\<lambda>seed. rev) ''walk_forward_permutation'' ((sample_bars 1)) sample_graph
      (\<lambda>s g. Inr sample_result) 5 1 = Inr r \<and> \<not> fle (pe_pvalue r) (fl (1 / 100))"
proof -
  obtain r where r: "run_permutation_test (\<lambda>seed. rev) ''walk_forward_permutation'' (sample_bars 1) sample_graph
      (\<lambda>s g. Inr sample_result) 5 1 = Inr r"
    by (simp add: run_permutation_test_def Let_def permute_snapshot_path_def sample_bars_def upt_rec eval_nat_numeral)
  with permutation_pvalue_attainable [OF r] show ?thesis by auto
qed

section \<open>What an accepted run passed\<close>

text \<open>What the gates ask for, written out: the candidate keeps its edge and its fills at five times the size;
  the specification of the gates that a run uses.\<close>

definition survives_capacity :: "gate_spec \<Rightarrow> pyval \<Rightarrow> bool" where
  "survives_capacity g capacity \<longleftrightarrow>
     (\<exists>edge fill. capacity_5x_edge_degradation capacity = Inr (Some edge) \<and> flt edge (gs_max_edge_degradation g)
        \<and> capacity_5x_fill_completion capacity = Inr (Some fill) \<and> fle (gs_min_fill_completion g) fill)"

definition used_gate_spec :: "protocol_params \<Rightarrow> gate_spec" where
  "used_gate_spec p =
     (case pp_gate_spec p of
        Some g \<Rightarrow> g
      | None \<Rightarrow> prd_safe\<lparr>gs_holdout_sharpe_floor := pp_holdout_sharpe_floor p,
          gs_final_holdout_calmar_floor := pp_holdout_calmar_floor p,
          gs_holdout_drawdown_cap := pp_holdout_drawdown_cap p\<rparr>)"

lemma gate_spec_lookup:
  assumes "evaluate_validation_gate_spec holdout (Some oos) capacity scenario regime (Some g) = Inr gs"
  shows "dget (gate_results_to_dict gs) ''final_holdout_sharpe'' False \<longleftrightarrow> fle (gs_holdout_sharpe_floor g) (bk_sharpe holdout)"
    "dget (gate_results_to_dict gs) ''final_holdout_calmar'' False
       \<longleftrightarrow> fle (gs_final_holdout_calmar_floor g) (compute_final_holdout_calmar holdout)"
    "dget (gate_results_to_dict gs) ''final_holdout_drawdown'' False
       \<longleftrightarrow> fle (gs_holdout_drawdown_cap g) (bk_max_drawdown holdout)"
    "dget (gate_results_to_dict gs) ''capacity_5x'' False \<longleftrightarrow> survives_capacity g capacity"
    "dget (gate_results_to_dict gs) ''turnover_budget'' True
       \<longleftrightarrow> (gs_turnover_required g \<longrightarrow> bool_field capacity ''turnover_within_budget'' = Some True)"
    "dget (gate_results_to_dict gs) ''min_oos_trades'' True
       \<longleftrightarrow> (gs_min_oos_trades_required g \<longrightarrow> gs_min_oos_trades g \<le> bk_trade_count oos)"
    "dget (gate_results_to_dict gs) ''scenario_pass_matrix'' True
       \<longleftrightarrow> (gs_scenario_required g \<longrightarrow> scenario_matrix_passed scenario = Some True)"
    "dget (gate_results_to_dict gs) ''regime_pass_matrix'' True
       \<longleftrightarrow> (gs_regime_required g \<longrightarrow> report_passed regime = Some True)"
proof -
  obtain edge fill where e: "capacity_5x_edge_degradation capacity = Inr edge" "capacity_5x_fill_completion capacity = Inr fill"
    using assms unfolding evaluate_validation_gate_spec_def Let_def rbind_Inr_iff by blast
  note gs = assms [unfolded evaluate_validation_gate_spec_def e Let_def, simplified, symmetric]
  show "dget (gate_results_to_dict gs) ''final_holdout_sharpe'' False \<longleftrightarrow> fle (gs_holdout_sharpe_floor g) (bk_sharpe holdout)"
    "dget (gate_results_to_dict gs) ''final_holdout_calmar'' False
       \<longleftrightarrow> fle (gs_final_holdout_calmar_floor g) (compute_final_holdout_calmar holdout)"
    "dget (gate_results_to_dict gs) ''final_holdout_drawdown'' False
       \<longleftrightarrow> fle (gs_holdout_drawdown_cap g) (bk_max_drawdown holdout)"
    "dget (gate_results_to_dict gs) ''capacity_5x'' False \<longleftrightarrow> survives_capacity g capacity"
    "dget (gate_results_to_dict gs) ''turnover_budget'' True
       \<longleftrightarrow> (gs_turnover_required g \<longrightarrow> bool_field capacity ''turnover_within_budget'' = Some True)"
    "dget (gate_results_to_dict gs) ''min_oos_trades'' True
       \<longleftrightarrow> (gs_min_oos_trades_required g \<longrightarrow> gs_min_oos_trades g \<le> bk_trade_count oos)"
    "dget (gate_results_to_dict gs) ''scenario_pass_matrix'' True
       \<longleftrightarrow> (gs_scenario_required g \<longrightarrow> scenario_matrix_passed scenario = Some True)"
    "dget (gate_results_to_dict gs) ''regime_pass_matrix'' True
       \<longleftrightarrow> (gs_regime_required g \<longrightarrow> report_passed regime = Some True)"
    unfolding gs gate_results_to_dict_def dget_def map_of_dict_of survives_capacity_def
    by (simp_all add: gate_def flag_def e capacity_passed_def split: option.split)
qed

lemma measure_stagesD:
  assumes "measure_stages e p pack strategy = Inr f"
  shows "pn_evaluate e (sw_snapshot (sp_in_sample pack)) strategy = Inr (sf_in_sample f)"
    "pn_evaluate e (sw_snapshot (sp_selection_oos pack)) strategy = Inr (sf_walk_forward f)"
    "pn_evaluate e (sw_snapshot (sp_final_holdout pack)) strategy = Inr (sf_holdout f)"
    "evaluate_validation_gate_spec (sf_holdout f) (Some (sf_walk_forward f)) (pp_capacity_report p)
       (pp_scenario_report p) (pp_regime_report p) (Some (sf_spec f)) = Inr (sf_gates f)"
    "sf_spec f = (case pp_gate_spec p of
        Some g \<Rightarrow> g
      | None \<Rightarrow> prd_safe\<lparr>gs_holdout_sharpe_floor := pp_holdout_sharpe_floor p,
          gs_final_holdout_calmar_floor := pp_holdout_calmar_floor p,
          gs_holdout_drawdown_cap := pp_holdout_drawdown_cap p\<rparr>)"
    "sf_relaxed f \<longleftrightarrow> int (length (sn_candles (sw_snapshot (sp_selection_oos pack)))) < pp_relaxed_candle_limit p"
  using assms by (auto simp: measure_stages_def Let_def rbind_Inr_iff)

lemma run_validation_protocolD:
  assumes "run_validation_protocol e p pack strategy = Inr v"
  obtains f where "measure_stages e p pack strategy = Inr f"
    "vp_status v = (if hard_failed_gates p f \<noteq> [] then ''failed'' else if soft_failed_gates p f \<noteq> [] then ''warning'' else ''passed'')"
    "pd_decision (vp_promotion_decision v) = (if hard_failed_gates p f \<noteq> [] then ''reject'' else ''accept'')"
    "vp_deflated_sharpe_ratio v = Some (ev_deflated_sharpe_ratio (sf_evidence f))"
    "vp_pbo_score v = pb_pbo (sf_pbo f)"
    "vp_in_sample_permutation_pvalue v = Some (pe_pvalue (sf_in_sample_permutation f))"
    "vp_walk_forward_permutation_pvalue v = Some (pe_pvalue (sf_walk_forward_permutation f))"
  using assms by (auto simp: run_validation_protocol_def Let_def rbind_Inr_iff)

lemma pbo_gate_enforced:
  assumes "compute_pbo_report np logf matrix = Inr r"
  shows "pb_enforced r \<longleftrightarrow> pb_pbo r \<noteq> None"
  using assms by (auto simp: compute_pbo_report_def rbind_Inr_iff split: if_splits)

lemma measured_pbo: "measure_stages e p pack strategy = Inr f \<Longrightarrow> pb_enforced (sf_pbo f) \<longleftrightarrow> pb_pbo (sf_pbo f) \<noteq> None"
  by (auto simp: measure_stages_def Let_def rbind_Inr_iff dest: pbo_gate_enforced)

definition gates_for_any_window :: "protocol_params \<Rightarrow> stage_facts \<Rightarrow> bool" where
  "gates_for_any_window p f \<longleftrightarrow>
     (pp_gate_min_backtest_length p \<longrightarrow> ev_minimum_backtest_length (sf_evidence f) \<le> int (ev_sample_count (sf_evidence f)))
     \<and> flt (Fin 0) (bk_sharpe (sf_in_sample f))
     \<and> (\<forall>x. pb_pbo (sf_pbo f) = Some x \<longrightarrow> fle x (fl (20 / 100)))
     \<and> (sa_enforced (sf_spa f) \<longrightarrow> list_all id (sa_rejections (sf_spa f)))
     \<and> fle (gs_holdout_sharpe_floor (used_gate_spec p)) (bk_sharpe (sf_holdout f))
     \<and> fle (gs_final_holdout_calmar_floor (used_gate_spec p)) (compute_final_holdout_calmar (sf_holdout f))
     \<and> fle (gs_holdout_drawdown_cap (used_gate_spec p)) (bk_max_drawdown (sf_holdout f))
     \<and> survives_capacity (used_gate_spec p) (pp_capacity_report p)
     \<and> (gs_turnover_required (used_gate_spec p) \<longrightarrow> bool_field (pp_capacity_report p) ''turnover_within_budget'' = Some True)
     \<and> (gs_min_oos_trades_required (used_gate_spec p) \<longrightarrow> gs_min_oos_trades (used_gate_spec p) \<le> bk_trade_count (sf_walk_forward f))
     \<and> (gs_scenario_required (used_gate_spec p) \<longrightarrow> scenario_matrix_passed (pp_scenario_report p) = Some True)
     \<and> (gs_regime_required (used_gate_spec p) \<longrightarrow> report_passed (pp_regime_report p) = Some True)"

definition gates_for_long_window :: "protocol_params \<Rightarrow> stage_facts \<Rightarrow> bool" where
  "gates_for_long_window p f \<longleftrightarrow>
     fle (pp_deflated_threshold p) (ev_deflated_sharpe_ratio (sf_evidence f))
     \<and> (pp_gate_probabilistic p \<longrightarrow> fle (pp_probabilistic_threshold p) (ev_probabilistic_sharpe_ratio (sf_evidence f)))
     \<and> fle (pe_pvalue (sf_in_sample_permutation f)) (pp_permutation_pvalue_threshold p)
     \<and> fle (pe_pvalue (sf_walk_forward_permutation f)) (pp_permutation_pvalue_threshold p)"

lemma spa_gate_enforced: "compute_spa_report spa models = Inr r \<Longrightarrow> sa_enforced r \<longleftrightarrow> sa_available r"
  by (auto simp: compute_spa_report_def run_spa_test_def skipped_spa_def Let_def rbind_Inr_iff split: if_splits option.splits)

lemma measured_spa: "measure_stages e p pack strategy = Inr f \<Longrightarrow> sa_enforced (sf_spa f) \<longleftrightarrow> sa_available (sf_spa f)"
  by (auto simp: measure_stages_def Let_def rbind_Inr_iff dest: spa_gate_enforced)

lemma no_hard_failure_iff:
  assumes "measure_stages e p pack g = Inr f"
  shows "hard_failed_gates p f = [] \<longleftrightarrow>
    gates_for_any_window p f \<and> (\<not> sf_relaxed f \<longrightarrow> gates_for_long_window p f)"
proof -
  note M = measure_stagesD [OF assms]
  have spec: "sf_spec f = used_gate_spec p" unfolding M(5) used_gate_spec_def ..
  note L = gate_spec_lookup [OF M(4), unfolded spec dget_def]
  have enforced: "hard_failed_gates p f = [] \<longleftrightarrow>
      (\<forall>n \<in> set (required_gate_names p). dget (gate_enforcement p f) n False \<longrightarrow> dget (protocol_gate_results p f) n False)"
    by (auto simp: hard_failed_gates_def filter_empty_conv)
  have pbo: "pb_enforced (sf_pbo f) \<longleftrightarrow> pb_pbo (sf_pbo f) \<noteq> None" using measured_pbo [OF assms] .
  have spa: "sa_enforced (sf_spa f) \<longleftrightarrow> sa_available (sf_spa f)" using measured_spa [OF assms] .
  show ?thesis
    unfolding enforced gates_for_any_window_def gates_for_long_window_def
    using pbo spa
    by (cases "pb_pbo (sf_pbo f)"; cases "sf_relaxed f"; cases "pp_gate_min_backtest_length p"; cases "pp_gate_probabilistic p")
      (simp_all add: required_gate_names_def gate_enforcement_def protocol_gate_results_def dget_def Let_def L
          walk_forward_threshold_def conj_ac)
qed

text \<open>C18. A validation run is accepted exactly when it passes every enforced gate, and fails and is rejected
  otherwise.  Always enforced are: a backtest of the minimal length if that is asked for, a positive
  in-sample Sharpe ratio, an overfitting probability of at most 20 percent and a rejection by every
  test of superior ability wherever these could be computed, the Sharpe and Calmar floors and the drawdown
  cap of the holdout, edge and fills at five times the size, and, as far as the gate specification (the
  given one, or the safe default with the run's floors and cap) requires them, the turnover budget, the
  trades out of sample, the scenarios and the regimes.  The deflated and the probabilistic Sharpe ratio
  and both permutation tests are enforced only if the selection window is not short.\<close>

theorem accepted_run_passed_gates:
  assumes "run_validation_protocol e p pack g = Inr v"
  shows "\<exists>f. measure_stages e p pack g = Inr f
    \<and> pn_evaluate e (sw_snapshot (sp_in_sample pack)) g = Inr (sf_in_sample f)
    \<and> pn_evaluate e (sw_snapshot (sp_selection_oos pack)) g = Inr (sf_walk_forward f)
    \<and> pn_evaluate e (sw_snapshot (sp_final_holdout pack)) g = Inr (sf_holdout f)
    \<and> (pd_decision (vp_promotion_decision v) = ''accept'' \<longleftrightarrow>
         gates_for_any_window p f
         \<and> (pp_relaxed_candle_limit p \<le> int (length (sn_candles (sw_snapshot (sp_selection_oos pack))))
              \<longrightarrow> gates_for_long_window p f))
    \<and> (vp_status v = ''failed'' \<longleftrightarrow> pd_decision (vp_promotion_decision v) = ''reject'')
    \<and> (pd_decision (vp_promotion_decision v) \<in> {''accept'', ''reject''})"
proof -
  obtain f where f: "measure_stages e p pack g = Inr f"
    and v: "vp_status v = (if hard_failed_gates p f \<noteq> [] then ''failed'' else if soft_failed_gates p f \<noteq> [] then ''warning'' else ''passed'')"
      "pd_decision (vp_promotion_decision v) = (if hard_failed_gates p f \<noteq> [] then ''reject'' else ''accept'')"
    using assms by (rule run_validation_protocolD)
  note M = measure_stagesD [OF f]
  have "pd_decision (vp_promotion_decision v) = ''accept'' \<longleftrightarrow> hard_failed_gates p f = []"
    "vp_status v = ''failed'' \<longleftrightarrow> hard_failed_gates p f \<noteq> []"
    by (simp_all add: v)
  with f M(1-3,6) no_hard_failure_iff [OF f] show ?thesis by (intro exI [of _ f]) (auto simp: v(2))
qed

section \<open>A concrete run\<close>

definition sample_pack :: split_pack where
  "sample_pack =
     (let w = \<lparr>sw_snapshot = sample_bars 1, sw_start = 0, sw_end = 1\<rparr>
      in \<lparr>sp_in_sample = w, sp_selection_oos = w, sp_final_holdout = w, sp_bootstrap_source = w,
          sp_regimes = build_regime_analysis (sample_bars 1) [] ''none'' []\<rparr>)"

definition good_result :: backtest_result where
  "good_result = sample_result\<lparr>bk_trade_count := 200, bk_sharpe := Fin 2, bk_net_pnl := Fin 1\<rparr>"

definition sample_env :: protocol_env where
  "sample_env = \<lparr>pn_evaluate = (\<lambda>s g. Inr good_result), pn_shuffle = (\<lambda>seed. rev), pn_pow = sq_pow,
     pn_log = (\<lambda>x. Inr x), pn_normal = \<lparr>nd_cdf = (\<lambda>x. Fin 0), nd_inv_cdf = (\<lambda>x. Inr (Fin 0))\<rparr>,
     pn_numpy_pbo = None, pn_spa = None\<rparr>"

definition sample_params :: protocol_params where
  "sample_params = \<lparr>pp_trial_count = 1, pp_candidate_return_series = [], pp_permutation_count = 1,
     pp_permutation_pvalue_threshold = Fin 0, pp_relaxed_pvalue_threshold = Fin 0, pp_relaxed_candle_limit = 30,
     pp_deflated_threshold = Fin 0, pp_gate_probabilistic = False, pp_gate_min_backtest_length = False,
     pp_probabilistic_threshold = Fin 0, pp_holdout_sharpe_floor = Fin 1, pp_holdout_drawdown_cap = Fin (- 1),
     pp_holdout_calmar_floor = Fin 1,
     pp_capacity_report = PDict [(''capacity_5x_edge_erosion'', PFloat (Fin 0)),
       (''capacity_5x_fill_completion'', PFloat (Fin 1)), (''turnover_within_budget'', PBool True)],
     pp_scenario_report = PDict [(''passed'', PBool True)], pp_regime_report = PDict [(''passed'', PBool True)],
     pp_gate_spec = None, pp_n_blocks = 10, pp_n_test_blocks = 2, pp_purge_bars = None, pp_embargo_bars = 0,
     pp_feature_lookback_bars = 0, pp_barrier_horizon_bars = 0, pp_holding_horizon_bars = 0, pp_seed = 0\<rparr>"

lemma sample_permutation:
  "\<exists>r. run_permutation_test (\<lambda>seed. rev) stage (sample_bars 1) g (\<lambda>s g. Inr good_result) 1 seed = Inr r"
  by (simp add: run_permutation_test_def Let_def permute_snapshot_path_def sample_bars_def)

lemma sample_evidence: "\<exists>ev. build_sharpe_evidence pw nd good_result 1 = Inr ev"
  by (simp add: build_sharpe_evidence_def equity_return_series_def good_result_def sample_result_def Let_def
      compute_observed_sharpe_ratio_def estimate_sharpe_ratio_standard_error_def estimate_deflated_sharpe_benchmark_def
      compute_probabilistic_sharpe_ratio_def compute_deflated_sharpe_ratio_def compute_sample_skewness_def
      compute_sample_kurtosis_def compute_minimum_backtest_length_def)

lemma sample_gates:
  "\<exists>gs. evaluate_validation_gate_spec good_result (Some good_result) (pp_capacity_report sample_params)
      (pp_scenario_report sample_params) (pp_regime_report sample_params) (Some (prd_safe\<lparr>gs_holdout_sharpe_floor := Fin 1,
        gs_final_holdout_calmar_floor := Fin 1, gs_holdout_drawdown_cap := Fin (- 1)\<rparr>)) = Inr gs \<and> list_all vg_passed gs"
proof -
  have cap: "flt (Fin 0) (fl (25 / 100))" "fle (fl (95 / 100)) (Fin 1)" "fle (Fin 0) (fl (1 / 10 ^ 12))"
  proof -
    have "fl (1 / 4) = Fin (1 / 4)" using fl_dyadic [of 1 2] by simp
    then show "flt (Fin 0) (fl (25 / 100))" by simp
    show "fle (fl (95 / 100)) (Fin 1)" by (intro fl_le_Fin) simp_all
    show "fle (Fin 0) (fl (1 / 10 ^ 12))" by (intro fl_ge_Fin) simp_all
  qed
  have calmar: "compute_final_holdout_calmar good_result = Fin 999"
    unfolding compute_final_holdout_calmar_def calmar_of_def using cap(3)
    by (simp add: good_result_def sample_result_def Let_def)
  have d: "capacity_5x_edge_degradation (pp_capacity_report sample_params) = Inr (Some (Fin 0))"
    "capacity_5x_fill_completion (pp_capacity_report sample_params) = Inr (Some (Fin 1))"
    "bool_field (pp_capacity_report sample_params) ''turnover_within_budget'' = Some True"
    by (simp_all add: sample_params_def capacity_5x_edge_degradation_def capacity_5x_fill_completion_def
        float_field_def rep_field_def number_or_none_def bool_field_def)
  have r: "scenario_matrix_passed (pp_scenario_report sample_params) = Some True" "report_passed (pp_regime_report sample_params) = Some True"
    by (simp_all add: sample_params_def scenario_matrix_passed_def report_passed_def bool_field_def rep_field_def Let_def)
  show ?thesis
    unfolding evaluate_validation_gate_spec_def d r calmar Let_def prd_safe_def capacity_passed_def
    using cap(1,2) by (simp add: gate_def good_result_def sample_result_def)
qed

lemma all_passed_lookup:
  assumes "list_all vg_passed gs"
  shows "dget (gate_results_to_dict gs) n True"
    "n \<in> vg_name ` set gs \<Longrightarrow> dget (gate_results_to_dict gs) n False"
proof -
  have m: "b" if "map_of (gate_results_to_dict gs) n = Some b" for b
    using that assms map_of_SomeD [of "rev (map (\<lambda>g. (vg_name g, vg_passed g)) gs)" n b]
    by (auto simp: gate_results_to_dict_def map_of_dict_of list_all_iff)
  then show "dget (gate_results_to_dict gs) n True" by (auto simp: dget_def split: option.splits)
  show "n \<in> vg_name ` set gs \<Longrightarrow> dget (gate_results_to_dict gs) n False"
  proof -
    assume "n \<in> vg_name ` set gs"
    then have "n \<in> dkeys (gate_results_to_dict gs)" by (auto simp: gate_results_to_dict_def image_image)
    then show ?thesis using m by (auto simp: dget_def dkeys_iff)
  qed
qed

lemma sample_run: "\<exists>v. run_validation_protocol sample_env sample_params sample_pack sample_graph = Inr v \<and> vp_status v \<noteq> ''failed''"
proof -
  obtain r1 where r1: "run_in_sample_permutation_test (\<lambda>seed. rev) (sample_bars 1) sample_graph (\<lambda>s g. Inr good_result) 1 101 = Inr r1"
    using sample_permutation unfolding run_in_sample_permutation_test_def by blast
  obtain r2 where r2: "run_walk_forward_permutation_test (\<lambda>seed. rev) (sample_bars 1) sample_graph (\<lambda>s g. Inr good_result) 1 202 = Inr r2"
    using sample_permutation unfolding run_walk_forward_permutation_test_def by blast
  obtain ev where ev: "build_sharpe_evidence sq_pow \<lparr>nd_cdf = (\<lambda>x. Fin 0), nd_inv_cdf = (\<lambda>x. Inr (Fin 0))\<rparr> good_result 1 = Inr ev"
    using sample_evidence by blast
  obtain gs where gs: "evaluate_validation_gate_spec good_result (Some good_result) (pp_capacity_report sample_params)
      (pp_scenario_report sample_params) (pp_regime_report sample_params) (Some (prd_safe\<lparr>gs_holdout_sharpe_floor := Fin 1,
        gs_final_holdout_calmar_floor := Fin 1, gs_holdout_drawdown_cap := Fin (- 1)\<rparr>)) = Inr gs" "list_all vg_passed gs"
    using sample_gates by blast
  have names: "{''final_holdout_sharpe'', ''final_holdout_calmar'', ''final_holdout_drawdown'', ''capacity_5x''}
      \<subseteq> vg_name ` set gs"
    using gs(1) by (auto simp: evaluate_validation_gate_spec_def Let_def rbind_Inr_iff gate_def)
  obtain f where f: "measure_stages sample_env sample_params sample_pack sample_graph = Inr f"
      "sf_in_sample f = good_result" "sf_gates f = gs" "sf_relaxed f" "\<not> pb_enforced (sf_pbo f)" "\<not> sa_enforced (sf_spa f)"
  proof -
    have p: "pp_candidate_return_series sample_params = []" "pp_trial_count sample_params = 1" "pp_permutation_count sample_params = 1"
      "pp_seed sample_params = 0" "pp_gate_spec sample_params = None" "pp_holdout_sharpe_floor sample_params = Fin 1"
      "pp_holdout_calmar_floor sample_params = Fin 1" "pp_holdout_drawdown_cap sample_params = Fin (- 1)"
      "pp_relaxed_candle_limit sample_params = 30"
      by (simp_all add: sample_params_def)
    have e: "pn_evaluate sample_env = (\<lambda>s g. Inr good_result)" "pn_shuffle sample_env = (\<lambda>seed. rev)" "pn_pow sample_env = sq_pow"
      "pn_normal sample_env = \<lparr>nd_cdf = (\<lambda>x. Fin 0), nd_inv_cdf = (\<lambda>x. Inr (Fin 0))\<rparr>" "pn_spa sample_env = None"
      by (simp_all add: sample_env_def)
    have w: "sw_snapshot (sp_in_sample sample_pack) = sample_bars 1" "sw_snapshot (sp_selection_oos sample_pack) = sample_bars 1"
      by (simp_all add: sample_pack_def Let_def)
    have l: "length (sn_candles (sample_bars (Suc 0))) = 1" by (simp add: sample_bars_def)
    have "compute_pbo_report a b (build_partitioned_performance_matrix [] 16)
        = Inr \<lparr>pb_pbo = None, pb_available = False, pb_enforced = False, pb_partitions = 0, pb_model_count = 0\<rparr>" for a b
      by (simp add: compute_pbo_report_def build_partitioned_performance_matrix_def)
    moreover have "compute_spa_report None [] = Inr (skipped_spa 0 0)" by (simp add: compute_spa_report_def)
    ultimately show ?thesis
      using r1 r2 ev gs(1) that
      by (simp add: measure_stages_def p e w l Let_def skipped_spa_def)
  qed
  have "hard_failed_gates sample_params f = []"
    unfolding hard_failed_gates_def
    using all_passed_lookup [OF gs(2)] names f
    by (simp add: required_gate_names_def gate_enforcement_def protocol_gate_results_def Let_def dget_def
          good_result_def sample_result_def sample_params_def)
  then show ?thesis unfolding run_validation_protocol_def f(1) by (simp add: Let_def)
qed

theorem accepted_run_passed_gates_witness:
  "\<exists>v f. run_validation_protocol sample_env sample_params sample_pack sample_graph = Inr v
     \<and> pd_decision (vp_promotion_decision v) = ''accept'' \<and> measure_stages sample_env sample_params sample_pack sample_graph = Inr f
     \<and> survives_capacity (used_gate_spec sample_params) (pp_capacity_report sample_params)"
proof -
  obtain v where v: "run_validation_protocol sample_env sample_params sample_pack sample_graph = Inr v" "vp_status v \<noteq> ''failed''"
    using sample_run by blast
  from accepted_run_passed_gates [OF v(1)] v(2) obtain f where
    "pd_decision (vp_promotion_decision v) = ''accept''" "measure_stages sample_env sample_params sample_pack sample_graph = Inr f"
    "gates_for_any_window sample_params f" by blast
  with v(1) show ?thesis by (auto simp: gates_for_any_window_def)
qed

end
