(* ===== verification/PyTime.thy ===== *)
theory PyTime
  imports PyMath PyText
begin

text \<open>
  Points in time.  \<open>datetime.fromisoformat\<close> is a parameter; what the code does around it is written
  out: the suffix \<open>Z\<close>, naive values read as UTC, differences in seconds.
\<close>

text \<open>\<open>datetime.fromisoformat\<close> of a text (is it aware of a zone, and its instant in microseconds; \<open>None\<close> is
  the \<open>ValueError\<close>), the instant \<open>fromtimestamp(ms / 1000)\<close> and the text of an instant.\<close>

record time_lib =
  tl_parse :: "string \<Rightarrow> (bool \<times> int) option"
  tl_from_ms :: "int \<Rightarrow> int result"
  tl_text :: "int \<Rightarrow> string"

definition zulu :: "string \<Rightarrow> string" where
  "zulu s = concat (map (\<lambda>c. if c = CHR ''Z'' then ''+00:00'' else [c]) s)"

text \<open>\<open>_parse_utc\<close>: an aware value is converted to UTC and a naive one is read as UTC, which leaves the
  instant as it is.\<close>

definition parse_utc :: "time_lib \<Rightarrow> string \<Rightarrow> int result" where
  "parse_utc clk s =
     (case tl_parse clk (zulu s) of
        None \<Rightarrow> Inl (ValueError (''Invalid isoformat string: '' @ str_repr (zulu s)))
      | Some (aware, t) \<Rightarrow> Inr t)"

text \<open>\<open>(b - a).total_seconds()\<close> of two instants.\<close>

definition seconds_between :: "int \<Rightarrow> int \<Rightarrow> pyfloat" where
  "seconds_between a b = fl (of_int (b - a) / 10 ^ 6)"

lemma seconds_between_mono: "a' \<le> a \<Longrightarrow> b \<le> b' \<Longrightarrow> fle (seconds_between a b) (seconds_between a' b')"
  unfolding seconds_between_def by (intro fl_mono divide_right_mono) simp_all

lemma seconds_between_self [simp]: "seconds_between a a = Fin 0"
  by (simp add: seconds_between_def)

text \<open>A clock that reads digits as microseconds.\<close>

definition digit_clock :: time_lib where
  "digit_clock = \<lparr>tl_parse = (\<lambda>s. map_option (Pair True) (parse_int s)), tl_from_ms = Inr, tl_text = int_text\<rparr>"

end
