(* ===== verification/Streams.thy ===== *)
theory Streams
  imports EventStore PyTime "HOL-Library.Product_Lexorder" "HOL-Library.Sublist"
begin

text \<open>
  The market data streams of the paper executor (\<open>execution/paper_streams.py\<close>): the local order book
  built from a snapshot and depth updates with gap detection, the stream addresses, the
  normalisation of websocket payloads, and the replay of the recorded stream.  A payload is a
  dynamic dictionary; \<open>datetime\<close> (parsing, conversion from milliseconds, printing) and the digest are
  parameters.
\<close>

section \<open>Time and numbers\<close>

text \<open>\<open>(b - a).total_seconds()\<close>; subtracting a naive from an aware instant raises.\<close>

definition total_seconds :: "bool \<times> int \<Rightarrow> bool \<times> int \<Rightarrow> pyfloat result" where
  "total_seconds a b =
     (if fst a = fst b then Inr (fl (of_int (snd b - snd a) / 10 ^ 6))
      else Inl (TypeError ''can't subtract offset-naive and offset-aware datetimes''))"

definition int_or_none :: "pyval \<Rightarrow> int option result" where
  "int_or_none v = or_none (py_int v)"

definition ms_to_utc :: "time_lib \<Rightarrow> int option \<Rightarrow> string option result" where
  "ms_to_utc clk ms = (case ms of None \<Rightarrow> Inr None | Some k \<Rightarrow> rbind (tl_from_ms clk k) (\<lambda>i. Inr (Some (tl_text clk i))))"

definition lag_ms :: "time_lib \<Rightarrow> string \<Rightarrow> int option \<Rightarrow> pyfloat option result" where
  "lag_ms clk received event_time =
     (case event_time of
        None \<Rightarrow> Inr None
      | Some ms \<Rightarrow>
          (case tl_parse clk (zulu received) of
             None \<Rightarrow> Inr None
           | Some r \<Rightarrow> rbind (tl_from_ms clk ms) (\<lambda>i. rbind (total_seconds (True, i) r) (\<lambda>s.
               Inr (Some (round_nd 3 (fmul s (Fin 1000))))))))"

definition is_stale :: "time_lib \<Rightarrow> string option \<Rightarrow> string option \<Rightarrow> int \<Rightarrow> bool result" where
  "is_stale clk last_received now max_staleness_ms =
     (case (last_received, now) of
        (Some (c # cs), Some (d # ds)) \<Rightarrow>
          (case (tl_parse clk (zulu (c # cs)), tl_parse clk (zulu (d # ds))) of
             (Some a, Some b) \<Rightarrow> rbind (total_seconds a b) (\<lambda>s.
               Inr (flt (Fin (of_int max_staleness_ms)) (fmul s (Fin 1000))))
           | _ \<Rightarrow> Inr False)
      | _ \<Rightarrow> Inr False)"

section \<open>Payload fields\<close>

definition symbol_of_field :: "pyval \<Rightarrow> string option" where
  "symbol_of_field v = (case v of PStr s \<Rightarrow> Some (str_upper s) | _ \<Rightarrow> None)"

definition symbol_from_payload :: "string \<Rightarrow> (string \<times> pyval) list \<Rightarrow> string option" where
  "symbol_from_payload stream_name payload =
     (case symbol_of_field (pget payload ''s'') of
        Some s \<Rightarrow> Some s
      | None \<Rightarrow>
          (case (case pget payload ''o'' of PDict d \<Rightarrow> symbol_of_field (pget d ''s'') | _ \<Rightarrow> None) of
             Some s \<Rightarrow> Some s
           | None \<Rightarrow> if CHR ''@'' \<in> set stream_name
                     then Some (str_upper (takeWhile (\<lambda>c. c \<noteq> CHR ''@'') stream_name)) else None))"

definition sequence_id :: "(string \<times> pyval) list \<Rightarrow> string option" where
  "sequence_id payload =
     (case find (\<lambda>k. pget payload k \<noteq> PNone) [''u'', ''a'', ''U'', ''T'', ''E''] of
        Some k \<Rightarrow> Some (py_str (pget payload k))
      | None \<Rightarrow> (case pget payload ''o'' of
                  PDict d \<Rightarrow> if pget d ''T'' \<noteq> PNone then Some (py_str (pget d ''T'')) else None
                | _ \<Rightarrow> None))"

section \<open>Sides of the book\<close>

type_synonym book_side = "(pyfloat \<times> pyfloat) list"

text \<open>A NaN key never equals another, so it is always a new entry and never removed.\<close>

definition side_set :: "pyfloat \<Rightarrow> pyfloat \<Rightarrow> book_side \<Rightarrow> book_side" where
  "side_set price qty side = (if price = NaN then side @ [(price, qty)] else AList.update price qty side)"

definition side_pop :: "pyfloat \<Rightarrow> book_side \<Rightarrow> book_side" where
  "side_pop price side = (if price = NaN then side else AList.delete price side)"

definition level_of :: "pyval \<Rightarrow> (pyfloat \<times> pyfloat) option result" where
  "level_of v =
     (case v of
        PList (p # q # rest) \<Rightarrow> rbind (float_or_none p) (\<lambda>price. rbind (float_or_none q) (\<lambda>qty.
          Inr (case (price, qty) of (Some x, Some y) \<Rightarrow> Some (x, y) | _ \<Rightarrow> None)))
      | _ \<Rightarrow> Inr None)"

text \<open>The levels of a snapshot are lists; a level without a positive quantity is skipped.\<close>

definition seed_level :: "pyval \<Rightarrow> book_side \<Rightarrow> book_side result" where
  "seed_level v side =
     rbind (level_of v) (\<lambda>l. Inr (case l of
        None \<Rightarrow> side | Some (p, q) \<Rightarrow> if fle q (Fin 0) then side else side_set p q side))"

definition price_qty_map :: "pyval list \<Rightarrow> book_side result" where
  "price_qty_map levels = rfold seed_level levels []"

definition update_level :: "pyval \<Rightarrow> book_side \<Rightarrow> book_side result" where
  "update_level v side =
     rbind (level_of v) (\<lambda>l. Inr (case l of
        None \<Rightarrow> side | Some (p, q) \<Rightarrow> if fle q (Fin 0) then side_pop p side else side_set p q side))"

definition apply_book_side :: "pyval \<Rightarrow> book_side \<Rightarrow> book_side result" where
  "apply_book_side updates side = (case updates of PList us \<Rightarrow> rfold update_level us side | _ \<Rightarrow> Inr side)"

text \<open>\<open>max\<close> and \<open>min\<close> over the keys, in insertion order.\<close>

definition best_by :: "(pyfloat \<Rightarrow> pyfloat \<Rightarrow> pyfloat) \<Rightarrow> book_side \<Rightarrow> (pyfloat \<times> pyfloat) option" where
  "best_by better side =
     (case map fst side of
        [] \<Rightarrow> None
      | p # ps \<Rightarrow> let best = foldl better p ps in Some (best, dget side best (Fin 0)))"

definition best_bid :: "book_side \<Rightarrow> (pyfloat \<times> pyfloat) option" where
  "best_bid = best_by fmax"

definition best_ask :: "book_side \<Rightarrow> (pyfloat \<times> pyfloat) option" where
  "best_ask = best_by fmin"

section \<open>The local order book\<close>

record book_snapshot =
  os_symbol :: string
  os_last_update_id :: int
  os_bids :: "pyval list"
  os_asks :: "pyval list"
  os_received_at :: "string option"

record book =
  bo_snapshot_update_id :: int
  bo_last_depth_update_id :: int
  bo_bids :: book_side
  bo_asks :: book_side
  bo_status :: string
  bo_depth_gap_count :: nat
  bo_dropped_stale_count :: nat
  bo_applied_update_count :: nat
  bo_last_received_at :: "string option"
  bo_last_exchange_event_time :: "string option"
  bo_resync_reason :: "string option"

type_synonym books = "(string, book) dict"

definition seed_book :: "book_snapshot \<Rightarrow> book result" where
  "seed_book s =
     rbind (price_qty_map (os_bids s)) (\<lambda>bids. rbind (price_qty_map (os_asks s)) (\<lambda>asks.
       Inr \<lparr>bo_snapshot_update_id = os_last_update_id s, bo_last_depth_update_id = os_last_update_id s,
            bo_bids = bids, bo_asks = asks, bo_status = ''seeded'', bo_depth_gap_count = 0,
            bo_dropped_stale_count = 0, bo_applied_update_count = 0, bo_last_received_at = os_received_at s,
            bo_last_exchange_event_time = None, bo_resync_reason = None\<rparr>))"

definition seed_snapshot :: "book_snapshot \<Rightarrow> books \<Rightarrow> books result" where
  "seed_snapshot s bs = rbind (seed_book s) (\<lambda>b. Inr (AList.update (str_upper (os_symbol s)) b bs))"

datatype depth_action =
    Parse_error "string option" string
  | Awaiting_snapshot string
  | Dropped_stale string int
  | Resync_required string string
  | Applied string int

definition mark_resync :: "book \<Rightarrow> string \<Rightarrow> book" where
  "mark_resync b reason =
     b\<lparr>bo_status := ''resync_required'', bo_resync_reason := Some reason,
        bo_depth_gap_count := bo_depth_gap_count b + 1\<rparr>"

text \<open>Why an update does not continue the book: \<open>U\<close>, \<open>u\<close> and \<open>pu\<close> are its first, final and previous ids.\<close>

definition gap_reason :: "book \<Rightarrow> int option \<Rightarrow> int \<Rightarrow> int option \<Rightarrow> string option" where
  "gap_reason b first_u final_u previous =
     (if bo_applied_update_count b = 0
      then (case first_u of
              None \<Rightarrow> None
            | Some f \<Rightarrow> if f \<le> bo_snapshot_update_id b \<and> bo_snapshot_update_id b \<le> final_u then None
                       else Some ''first_update_does_not_bridge_snapshot'')
      else case previous of
             Some p \<Rightarrow> if p \<noteq> bo_last_depth_update_id b then Some ''depth_pu_gap'' else None
           | None \<Rightarrow> (case first_u of
                        None \<Rightarrow> None
                      | Some f \<Rightarrow> if bo_last_depth_update_id b + 1 < f then Some ''depth_update_gap'' else None))"

definition apply_update :: "time_lib \<Rightarrow> (string \<times> pyval) list \<Rightarrow> string option \<Rightarrow> int \<Rightarrow> book \<Rightarrow> book result" where
  "apply_update clk payload received final_u b =
     rbind (apply_book_side (pget payload ''b'') (bo_bids b)) (\<lambda>bids.
     rbind (apply_book_side (pget payload ''a'') (bo_asks b)) (\<lambda>asks.
     rbind (int_or_none (pget payload ''E'')) (\<lambda>event_ms.
     rbind (ms_to_utc clk event_ms) (\<lambda>event_time.
       Inr (b\<lparr>bo_bids := bids, bo_asks := asks, bo_last_depth_update_id := final_u,
              bo_applied_update_count := bo_applied_update_count b + 1, bo_last_received_at := received,
              bo_last_exchange_event_time := event_time,
              bo_status := (if bo_status b \<noteq> ''resync_required'' then ''active'' else bo_status b)\<rparr>)))))"

definition depth_step ::
    "time_lib \<Rightarrow> (string \<times> pyval) list \<Rightarrow> string option \<Rightarrow> string \<Rightarrow> book \<Rightarrow> (depth_action \<times> book) result" where
  "depth_step clk payload received symbol b =
     rbind (int_or_none (pget payload ''U'')) (\<lambda>first_u.
     rbind (int_or_none (pget payload ''u'')) (\<lambda>final_u.
     rbind (int_or_none (pget payload ''pu'')) (\<lambda>previous.
       case final_u of
         None \<Rightarrow> Inr (Parse_error (Some symbol) ''missing_final_update_id'', b)
       | Some u \<Rightarrow>
           if u < bo_snapshot_update_id b
           then Inr (Dropped_stale symbol u, b\<lparr>bo_dropped_stale_count := bo_dropped_stale_count b + 1\<rparr>)
           else case gap_reason b first_u u previous of
                  Some reason \<Rightarrow> Inr (Resync_required symbol reason, mark_resync b reason)
                | None \<Rightarrow> rbind (apply_update clk payload received u b) (\<lambda>b'. Inr (Applied symbol u, b')))))"

definition apply_depth_payload ::
    "time_lib \<Rightarrow> (string \<times> pyval) list \<Rightarrow> string option \<Rightarrow> books \<Rightarrow> (depth_action \<times> books) result" where
  "apply_depth_payload clk payload received bs =
     (case symbol_from_payload [] payload of
        None \<Rightarrow> Inr (Parse_error None ''missing_symbol'', bs)
      | Some symbol0 \<Rightarrow>
          let symbol = str_upper symbol0 in
          case map_of bs symbol of
            None \<Rightarrow> Inr (Awaiting_snapshot symbol, bs)
          | Some b \<Rightarrow> rbind (depth_step clk payload received symbol b) (\<lambda>(action, b').
              Inr (action, AList.update symbol b' bs)))"

section \<open>The view of a book\<close>

record book_view =
  bv_symbol :: string
  bv_status :: string
  bv_stale :: bool
  bv_best_bid :: "pyfloat option"
  bv_best_ask :: "pyfloat option"
  bv_bid_qty :: "pyfloat option"
  bv_ask_qty :: "pyfloat option"
  bv_mid :: "pyfloat option"
  bv_spread_bps :: "pyfloat option"
  bv_visible_depth_qty :: pyfloat
  bv_topn_depth_qty :: pyfloat
  bv_bid_levels :: nat
  bv_ask_levels :: nat
  bv_last_depth_update_id :: int
  bv_snapshot_update_id :: int
  bv_depth_gap_count :: nat
  bv_dropped_stale_count :: nat
  bv_applied_update_count :: nat
  bv_last_received_at :: "string option"
  bv_last_exchange_event_time :: "string option"
  bv_resync_reason :: "string option"
  bv_book_checksum :: string

definition or_zero :: "pyfloat option \<Rightarrow> pyfloat" where
  "or_zero x = (case x of None \<Rightarrow> Fin 0 | Some v \<Rightarrow> v)"

definition side_payload :: "book_side \<Rightarrow> pyval" where
  "side_payload side = PList (map (\<lambda>(p, q). PList [PFloat p, PFloat q]) side)"

definition book_view_of ::
    "time_lib \<Rightarrow> stable_hash \<Rightarrow> int \<Rightarrow> string \<Rightarrow> string option \<Rightarrow> book \<Rightarrow> book_view result" where
  "book_view_of clk H max_staleness_ms symbol now b =
     (let bid = best_bid (bo_bids b); ask = best_ask (bo_asks b);
          bid_qty = map_option snd bid; ask_qty = map_option snd ask;
          mid = (case (bid, ask) of
                   (Some (x, _), Some (y, _)) \<Rightarrow> Some (fquot (fadd x y) (Fin 2)) | _ \<Rightarrow> None);
          spread = (case (mid, bid, ask) of
                      (Some m, Some (x, _), Some (y, _)) \<Rightarrow>
                         if m = Fin 0 then None else Some (fmul (fquot (fsub y x) m) (Fin 10000))
                    | _ \<Rightarrow> None)
      in rbind (is_stale clk (bo_last_received_at b) now max_staleness_ms) (\<lambda>stale.
         Inr \<lparr>bv_symbol = symbol, bv_status = bo_status b, bv_stale = stale,
              bv_best_bid = map_option fst bid, bv_best_ask = map_option fst ask,
              bv_bid_qty = bid_qty, bv_ask_qty = ask_qty, bv_mid = mid,
              bv_spread_bps = map_option (round_nd 12) spread,
              bv_visible_depth_qty = round_nd 12 (fadd (or_zero bid_qty) (or_zero ask_qty)),
              bv_topn_depth_qty = round_nd 12 (fadd (py_sum (map snd (bo_bids b))) (py_sum (map snd (bo_asks b)))),
              bv_bid_levels = length (bo_bids b), bv_ask_levels = length (bo_asks b),
              bv_last_depth_update_id = bo_last_depth_update_id b, bv_snapshot_update_id = bo_snapshot_update_id b,
              bv_depth_gap_count = bo_depth_gap_count b, bv_dropped_stale_count = bo_dropped_stale_count b,
              bv_applied_update_count = bo_applied_update_count b, bv_last_received_at = bo_last_received_at b,
              bv_last_exchange_event_time = bo_last_exchange_event_time b, bv_resync_reason = bo_resync_reason b,
              bv_book_checksum = H (PDict [(''symbol'', PStr symbol),
                (''last_depth_update_id'', PInt (bo_last_depth_update_id b)),
                (''bids'', side_payload (rev (sort (bo_bids b)))), (''asks'', side_payload (sort (bo_asks b)))])\<rparr>))"

definition book_view ::
    "time_lib \<Rightarrow> stable_hash \<Rightarrow> int \<Rightarrow> string \<Rightarrow> string option \<Rightarrow> books \<Rightarrow> book_view result" where
  "book_view clk H max_staleness_ms symbol now bs =
     (let symbol = str_upper symbol in
      case map_of bs symbol of
        None \<Rightarrow> Inl (KeyError symbol)
      | Some b \<Rightarrow> book_view_of clk H max_staleness_ms symbol now b)"

definition aggregate_book_status :: "book_view list \<Rightarrow> string" where
  "aggregate_book_status views =
     (if list_ex (\<lambda>v. bv_status v = ''resync_required'') views then ''resync_required''
      else if list_ex bv_stale views then ''stale'' else ''active'')"

section \<open>Stream addresses\<close>

definition public_stream_kinds :: "string list" where
  "public_stream_kinds = [''bookTicker'', ''depth'']"

definition market_stream_kinds :: "string list" where
  "market_stream_kinds = [''aggTrade'', ''markPrice'', ''markPrice@1s'', ''forceOrder'']"

definition stream_names :: "string list \<Rightarrow> string list \<Rightarrow> string list" where
  "stream_names symbols kinds =
     concat (map (\<lambda>s. map (\<lambda>k. str_lower s @ ''@'' @ k) kinds) symbols)"

definition route_for_stream_kinds :: "string list \<Rightarrow> string" where
  "route_for_stream_kinds kinds =
     (if kinds \<noteq> [] \<and> set kinds \<subseteq> set public_stream_kinds then ''public''
      else if kinds \<noteq> [] \<and> set kinds \<subseteq> set market_stream_kinds then ''market'' else ''mixed'')"

text \<open>\<open>quote(name, safe="@")\<close>: every byte outside the unreserved characters is escaped.\<close>

definition unreserved :: "char \<Rightarrow> bool" where
  "unreserved c \<longleftrightarrow> is_digit c \<or> (CHR ''A'' \<le> c \<and> c \<le> CHR ''Z'') \<or> (CHR ''a'' \<le> c \<and> c \<le> CHR ''z'')
     \<or> c \<in> set ''_.-~@''"

definition hex_upper :: "nat \<Rightarrow> char" where
  "hex_upper n = up_char (hex_char n)"

definition quote_byte :: "nat \<Rightarrow> string" where
  "quote_byte n = [CHR ''%'', hex_upper (n div 16), hex_upper (n mod 16)]"

definition quote_char :: "char \<Rightarrow> string" where
  "quote_char c =
     (let n = of_char c :: nat in
      if unreserved c then [c]
      else if n < 128 then quote_byte n
      else quote_byte (192 + n div 64) @ quote_byte (128 + n mod 64))"

record stream_url =
  su_base_url :: string
  su_route :: string
  su_mode :: string
  su_stream_names :: "string list"
  su_url :: string

definition plain_stream_url :: "string list \<Rightarrow> string list \<Rightarrow> stream_url" where
  "plain_stream_url symbols kinds =
     (let names = stream_names symbols kinds; route = route_for_stream_kinds kinds;
          path = join ''/'' (map (concat \<circ> map quote_char) names);
          prefix = (if route = ''mixed'' then [] else route @ ''/'')
      in \<lparr>su_base_url = ''wss://fstream.binance.com'', su_route = route, su_mode = ''combined'',
          su_stream_names = names, su_url = ''wss://fstream.binance.com/'' @ prefix @ ''stream?streams='' @ path\<rparr>)"

text \<open>A mixed address also lists the public and the market address; these are not mixed themselves.\<close>

definition build_binance_usdm_stream_url ::
    "string list \<Rightarrow> string list \<Rightarrow> stream_url \<times> stream_url list option" where
  "build_binance_usdm_stream_url symbols kinds =
     (let url = plain_stream_url symbols kinds;
          part = (\<lambda>allowed. filter (\<lambda>k. k \<in> set allowed) kinds)
      in (url, if su_route url = ''mixed''
               then Some (map (plain_stream_url symbols)
                      (filter (\<lambda>ks. ks \<noteq> []) [part public_stream_kinds, part market_stream_kinds]))
               else None))"

section \<open>Normalised events\<close>

record stream_event =
  st_stream_event_id :: string
  st_session_id :: string
  st_received_at :: string
  st_exchange_event_time :: "string option"
  st_stream_name :: string
  st_symbol :: "string option"
  st_sequence_id :: "string option"
  st_payload_hash :: string
  st_payload :: "(string \<times> pyval) list"
  st_parse_status :: string
  st_lag_ms :: "pyfloat option"
  st_event_type :: pyval
  st_event_time_ms :: "int option"
  st_transaction_time_ms :: "int option"

definition unwrap_combined_payload :: "(string \<times> pyval) list \<Rightarrow> (string \<times> pyval) list" where
  "unwrap_combined_payload payload =
     (case (pget payload ''data'', pget payload ''stream'') of (PDict d, PStr s) \<Rightarrow> d | _ \<Rightarrow> payload)"

definition normalize_binance_usdm_ws_event ::
    "time_lib \<Rightarrow> stable_hash \<Rightarrow> string \<Rightarrow> string \<Rightarrow> (string \<times> pyval) list \<Rightarrow> string \<Rightarrow> stream_event result" where
  "normalize_binance_usdm_ws_event clk H session stream_name payload received =
     (let raw = unwrap_combined_payload payload; name = field_str payload ''stream'' stream_name;
          digest = H (PDict raw); symbol = symbol_from_payload name raw
      in rbind (int_or_none (pget raw ''E'')) (\<lambda>event_ms.
         rbind (ms_to_utc clk event_ms) (\<lambda>event_time.
         rbind (lag_ms clk received event_ms) (\<lambda>lag.
         rbind (int_or_none (pget raw ''T'')) (\<lambda>transaction_ms.
           Inr \<lparr>st_stream_event_id = session @ '':'' @ name @ '':'' @ take 16 digest, st_session_id = session,
                st_received_at = received, st_exchange_event_time = event_time, st_stream_name = name,
                st_symbol = symbol, st_sequence_id = sequence_id raw, st_payload_hash = digest, st_payload = raw,
                st_parse_status = (if symbol \<noteq> None \<and> symbol \<noteq> Some [] then ''parsed'' else ''parse_error''),
                st_lag_ms = lag, st_event_type = pget raw ''e'', st_event_time_ms = event_ms,
                st_transaction_time_ms = transaction_ms\<rparr>)))))"

text \<open>\<open>INSERT OR REPLACE\<close> into the event table; the key is the event id.\<close>

type_synonym stream_table = "(string, stream_event) dict"

definition record_paper_stream_event :: "stream_event \<Rightarrow> stream_table \<Rightarrow> stream_table" where
  "record_paper_stream_event e t =
     AList.delete (st_stream_event_id e) t @ [(st_stream_event_id e, e)]"

definition record_binance_ws_payload ::
    "time_lib \<Rightarrow> stable_hash \<Rightarrow> string \<Rightarrow> string \<Rightarrow> (string \<times> pyval) list \<Rightarrow> string \<Rightarrow> stream_table
     \<Rightarrow> stream_table result" where
  "record_binance_ws_payload clk H session stream_name payload received t =
     rbind (normalize_binance_usdm_ws_event clk H session stream_name payload received) (\<lambda>e.
       Inr (record_paper_stream_event e t))"

text \<open>The order of the replay: events with an exchange time first, by it, then by the texts.\<close>

definition replay_key :: "stream_event \<Rightarrow> (int \<times> int) \<times> string \<times> string \<times> string" where
  "replay_key e =
     ((case st_event_time_ms e of None \<Rightarrow> (1, 0) | Some t \<Rightarrow> (0, t)),
      (case st_exchange_event_time e of None \<Rightarrow> st_received_at e | Some t \<Rightarrow> t),
      st_received_at e, st_stream_event_id e)"

definition session_rows :: "string \<Rightarrow> stream_table \<Rightarrow> stream_event list" where
  "session_rows session t =
     sort_key replay_key (filter (\<lambda>e. st_session_id e = session) (map snd t))"

section \<open>Replay of the recorded stream\<close>

record symbol_state =
  ys_best_bid :: "pyfloat option"
  ys_best_ask :: "pyfloat option"
  ys_bid_qty :: "pyfloat option"
  ys_ask_qty :: "pyfloat option"
  ys_last_trade_price :: "pyfloat option"
  ys_last_trade_qty :: "pyfloat option"
  ys_mark_price :: "pyfloat option"
  ys_index_price :: "pyfloat option"
  ys_funding_rate :: "pyfloat option"
  ys_next_funding_time :: "string option"
  ys_last_depth_update_id :: "int option"
  ys_depth_gap_count :: nat
  ys_force_order_count :: nat
  ys_event_count :: nat
  ys_last_received_at :: "string option"
  ys_last_exchange_event_time :: "string option"

definition fresh_symbol_state :: symbol_state where
  "fresh_symbol_state = \<lparr>ys_best_bid = None, ys_best_ask = None, ys_bid_qty = None, ys_ask_qty = None,
     ys_last_trade_price = None, ys_last_trade_qty = None, ys_mark_price = None, ys_index_price = None,
     ys_funding_rate = None, ys_next_funding_time = None, ys_last_depth_update_id = None,
     ys_depth_gap_count = 0, ys_force_order_count = 0, ys_event_count = 0, ys_last_received_at = None,
     ys_last_exchange_event_time = None\<rparr>"

record stream_replay =
  rp_stream_counts :: "(string, nat) dict"
  rp_symbol_state :: "(string, symbol_state) dict"
  rp_gap_count :: nat
  rp_duplicate_count :: nat
  rp_seen_hashes :: "string list"

definition depth_gap :: "int option \<Rightarrow> int option \<Rightarrow> int option \<Rightarrow> bool" where
  "depth_gap last_u previous first_u =
     (case (last_u, previous, first_u) of
        (Some l, Some p, _) \<Rightarrow> p \<noteq> l
      | (Some l, None, Some f) \<Rightarrow> l + 1 < f
      | _ \<Rightarrow> False)"

definition replay_depth :: "(string \<times> pyval) list \<Rightarrow> symbol_state \<Rightarrow> (symbol_state \<times> bool) result" where
  "replay_depth payload y =
     rbind (int_or_none (pget payload ''U'')) (\<lambda>first_u.
     rbind (int_or_none (pget payload ''u'')) (\<lambda>final_u.
     rbind (int_or_none (pget payload ''pu'')) (\<lambda>previous.
       let gap = depth_gap (ys_last_depth_update_id y) previous first_u
       in Inr (y\<lparr>ys_depth_gap_count := ys_depth_gap_count y + (if gap then 1 else 0),
                  ys_last_depth_update_id := (case final_u of None \<Rightarrow> ys_last_depth_update_id y | Some u \<Rightarrow> Some u)\<rparr>,
               gap))))"

text \<open>One event of a known symbol: the new state of the symbol and whether it is a gap.\<close>

definition replay_symbol_event :: "time_lib \<Rightarrow> stream_event \<Rightarrow> symbol_state \<Rightarrow> (symbol_state \<times> bool) result" where
  "replay_symbol_event clk e y0 =
     (let payload = st_payload e; kind = field_str payload ''e'' [];
          num = (\<lambda>k. float_or_none (pget payload k));
          y = y0\<lparr>ys_event_count := ys_event_count y0 + 1, ys_last_received_at := Some (st_received_at e),
                 ys_last_exchange_event_time := st_exchange_event_time e\<rparr> in
      if kind = ''aggTrade'' then
        rbind (num ''p'') (\<lambda>p. rbind (num ''q'') (\<lambda>q.
          Inr (y\<lparr>ys_last_trade_price := p, ys_last_trade_qty := q\<rparr>, False)))
      else if kind = ''bookTicker'' then
        rbind (num ''b'') (\<lambda>b. rbind (num ''a'') (\<lambda>a. rbind (num ''B'') (\<lambda>bq. rbind (num ''A'') (\<lambda>aq.
          Inr (y\<lparr>ys_best_bid := b, ys_best_ask := a, ys_bid_qty := bq, ys_ask_qty := aq\<rparr>, False)))))
      else if kind = ''markPriceUpdate'' then
        rbind (num ''p'') (\<lambda>p. rbind (num ''i'') (\<lambda>i. rbind (num ''r'') (\<lambda>r.
        rbind (int_or_none (pget payload ''T'')) (\<lambda>t. rbind (ms_to_utc clk t) (\<lambda>next_time.
          Inr (y\<lparr>ys_mark_price := p, ys_index_price := i, ys_funding_rate := r, ys_next_funding_time := next_time\<rparr>, False))))))
      else if kind = ''depthUpdate'' then replay_depth payload y
      else if kind = ''forceOrder'' then Inr (y\<lparr>ys_force_order_count := ys_force_order_count y + 1\<rparr>, False)
      else Inr (y, False))"

definition replay_row :: "time_lib \<Rightarrow> stream_event \<Rightarrow> stream_replay \<Rightarrow> stream_replay result" where
  "replay_row clk e r =
     (let counted = r\<lparr>
            rp_stream_counts := AList.update (st_stream_name e) (dget (rp_stream_counts r) (st_stream_name e) 0 + 1)
              (rp_stream_counts r),
            rp_duplicate_count := rp_duplicate_count r + (if st_payload_hash e \<in> set (rp_seen_hashes r) then 1 else 0),
            rp_seen_hashes := st_payload_hash e # rp_seen_hashes r\<rparr>
      in case st_symbol e of
           Some (c # cs) \<Rightarrow>
             if st_parse_status e \<noteq> ''parsed'' then Inr counted
             else rbind (replay_symbol_event clk e (dget (rp_symbol_state r) (c # cs) fresh_symbol_state)) (\<lambda>(y, gap).
               Inr (counted\<lparr>rp_symbol_state := AList.update (c # cs) y (rp_symbol_state r),
                            rp_gap_count := rp_gap_count r + (if gap then 1 else 0)\<rparr>))
         | _ \<Rightarrow> Inr counted)"

definition empty_replay :: stream_replay where
  "empty_replay = \<lparr>rp_stream_counts = [], rp_symbol_state = [], rp_gap_count = 0, rp_duplicate_count = 0,
     rp_seen_hashes = []\<rparr>"

definition replay_paper_stream_events :: "time_lib \<Rightarrow> string \<Rightarrow> stream_table \<Rightarrow> stream_replay result" where
  "replay_paper_stream_events clk session t = rfold (replay_row clk) (session_rows session t) empty_replay"

section \<open>The recorded book\<close>

text \<open>\<open>LIKE '%@depth'\<close>: SQLite compares ASCII letters without case.\<close>

definition depth_stream :: "string \<Rightarrow> bool" where
  "depth_stream name \<longleftrightarrow> ends_with ''@depth'' (str_lower name)"

definition depth_rows :: "string \<Rightarrow> stream_table \<Rightarrow> stream_event list" where
  "depth_rows session t = filter (\<lambda>e. depth_stream (st_stream_name e)) (session_rows session t)"

definition rebuild_books :: "time_lib \<Rightarrow> book_snapshot list \<Rightarrow> stream_event list \<Rightarrow> books result" where
  "rebuild_books clk snapshots rows =
     rbind (rfold seed_snapshot snapshots []) (\<lambda>bs.
       rfold (\<lambda>e bs. rbind (apply_depth_payload clk (st_payload e) (Some (st_received_at e)) bs) (\<lambda>(a, bs'). Inr bs'))
         rows bs)"

record market_row =
  mr_ts_exchange :: string
  mr_symbol :: string
  mr_view :: book_view

record book_health =
  bh_health_id :: string
  bh_ts :: string
  bh_status :: string
  bh_book_count :: nat
  bh_max_depth_gap_count :: nat

definition market_snapshot_id :: "string \<Rightarrow> string \<Rightarrow> book_view \<Rightarrow> string" where
  "market_snapshot_id session symbol v =
     session @ '':book:'' @ symbol @ '':'' @ int_text (bv_last_depth_update_id v) @ '':'' @ take 12 (bv_book_checksum v)"

definition view_time :: "book_view \<Rightarrow> string \<Rightarrow> string" where
  "view_time v now = str_or (bv_last_exchange_event_time v) (str_or (bv_last_received_at v) now)"

text \<open>The rows written for a book state; the digest of the health row's payload is a parameter of its own.\<close>

definition record_book_state ::
    "(string \<Rightarrow> (string, book_view) dict \<Rightarrow> string) \<Rightarrow> string \<Rightarrow> string \<Rightarrow> string \<Rightarrow> (string, book_view) dict
     \<Rightarrow> (string, market_row) dict \<times> (string, book_health) dict \<Rightarrow> (string, market_row) dict \<times> (string, book_health) dict" where
  "record_book_state digest session now status views tables =
     (let health_id = session @ '':book-health:'' @ take 16 (digest status views) in
      (foldl (\<lambda>t (symbol, v). AList.update (market_snapshot_id session symbol v)
                \<lparr>mr_ts_exchange = view_time v now, mr_symbol = symbol, mr_view = v\<rparr> t) (fst tables) views,
       AList.update health_id \<lparr>bh_health_id = health_id, bh_ts = now, bh_status = status,
          bh_book_count = length views,
          bh_max_depth_gap_count = foldl max 0 (map (bv_depth_gap_count \<circ> snd) views)\<rparr> (snd tables)))"

definition rebuild_and_record_paper_book_state ::
    "time_lib \<Rightarrow> stable_hash \<Rightarrow> (string \<Rightarrow> (string, book_view) dict \<Rightarrow> string) \<Rightarrow> string \<Rightarrow> book_snapshot list
     \<Rightarrow> string \<Rightarrow> int \<Rightarrow> stream_table \<Rightarrow> (string, market_row) dict \<times> (string, book_health) dict
     \<Rightarrow> (string \<times> (string, book_view) dict \<times> (string, market_row) dict \<times> (string, book_health) dict) result" where
  "rebuild_and_record_paper_book_state clk H digest session snapshots now max_staleness_ms t tables =
     rbind (rebuild_books clk snapshots (depth_rows session t)) (\<lambda>bs.
     rbind (rmap (\<lambda>s. rbind (book_view clk H max_staleness_ms (os_symbol s) (Some now) bs) (\<lambda>v.
              Inr (str_upper (os_symbol s), v))) snapshots) (\<lambda>named.
       let views = dict_of named; status = aggregate_book_status (map snd views)
       in Inr (status, views, record_book_state digest session now status views tables)))"

section \<open>The book is the snapshot with every later update\<close>

record depth_update =
  du_first :: "int option"
  du_final :: int
  du_previous :: "int option"
  du_bids :: pyval
  du_asks :: pyval

definition update_of :: "(string \<times> pyval) list \<Rightarrow> depth_update option" where
  "update_of payload =
     (case (int_or_none (pget payload ''U''), int_or_none (pget payload ''u''), int_or_none (pget payload ''pu'')) of
        (Inr f, Inr (Some u), Inr p) \<Rightarrow>
          Some \<lparr>du_first = f, du_final = u, du_previous = p, du_bids = pget payload ''b'', du_asks = pget payload ''a''\<rparr>
      | _ \<Rightarrow> None)"

text \<open>The updates among the payloads that are not older than the snapshot.\<close>

definition fresh_updates :: "int \<Rightarrow> (string \<times> pyval) list list \<Rightarrow> depth_update list" where
  "fresh_updates snap payloads =
     filter (\<lambda>d. snap \<le> du_final d) (concat (map (\<lambda>p. case update_of p of None \<Rightarrow> [] | Some d \<Rightarrow> [d]) payloads))"

definition bridges :: "int \<Rightarrow> depth_update \<Rightarrow> bool" where
  "bridges snap d \<longleftrightarrow> (case du_first d of None \<Rightarrow> True | Some f \<Rightarrow> f \<le> snap \<and> snap \<le> du_final d)"

definition continues :: "int \<Rightarrow> depth_update \<Rightarrow> bool" where
  "continues last_id d \<longleftrightarrow>
     (case du_previous d of
        Some p \<Rightarrow> p = last_id
      | None \<Rightarrow> (case du_first d of None \<Rightarrow> True | Some f \<Rightarrow> f \<le> last_id + 1))"

fun chained :: "int \<Rightarrow> depth_update list \<Rightarrow> bool" where
  "chained last_id [] \<longleftrightarrow> True"
| "chained last_id (d # ds) \<longleftrightarrow> continues last_id d \<and> chained (du_final d) ds"

text \<open>No update is missing between the snapshot and the last of the list.\<close>

definition gapless :: "int \<Rightarrow> depth_update list \<Rightarrow> bool" where
  "gapless snap ds \<longleftrightarrow> (case ds of [] \<Rightarrow> True | d # ds \<Rightarrow> bridges snap d \<and> chained (du_final d) ds)"

definition apply_sides :: "depth_update \<Rightarrow> book_side \<times> book_side \<Rightarrow> (book_side \<times> book_side) result" where
  "apply_sides d sides =
     rbind (apply_book_side (du_bids d) (fst sides)) (\<lambda>bids. rbind (apply_book_side (du_asks d) (snd sides)) (\<lambda>asks.
       Inr (bids, asks)))"

definition book_step :: "time_lib \<Rightarrow> string \<Rightarrow> (string \<times> pyval) list \<times> string option \<Rightarrow> book \<Rightarrow> book result" where
  "book_step clk symbol m b = rbind (depth_step clk (fst m) (snd m) symbol b) (\<lambda>(a, b'). Inr b')"

definition last_final :: "int \<Rightarrow> depth_update list \<Rightarrow> int" where
  "last_final snap ds = (if ds = [] then snap else du_final (last ds))"

definition book_tracks :: "book \<Rightarrow> depth_update list \<Rightarrow> depth_update list \<Rightarrow> book \<Rightarrow> bool" where
  "book_tracks b0 fresh ds b \<longleftrightarrow>
     subseq ds fresh \<and> gapless (bo_snapshot_update_id b0) ds
     \<and> rfold apply_sides ds (bo_bids b0, bo_asks b0) = Inr (bo_bids b, bo_asks b)
     \<and> bo_snapshot_update_id b = bo_snapshot_update_id b0
     \<and> bo_last_depth_update_id b = last_final (bo_snapshot_update_id b0) ds
     \<and> bo_applied_update_count b = length ds
     \<and> length fresh = length ds + bo_depth_gap_count b
     \<and> (bo_status b = ''resync_required'' \<longleftrightarrow> bo_depth_gap_count b \<noteq> 0)"

lemma chained_snoc: "chained l (ds @ [d]) \<longleftrightarrow> chained l ds \<and> continues (if ds = [] then l else du_final (last ds)) d"
  by (induction ds arbitrary: l) auto

lemma gapless_snoc:
  "gapless snap (ds @ [d]) \<longleftrightarrow> gapless snap ds \<and> (if ds = [] then bridges snap d else continues (last_final snap ds) d)"
  by (cases ds) (auto simp: gapless_def chained_snoc last_final_def)

lemma gap_reason_None:
  assumes "update_of payload = Some d" "book_tracks b0 fresh ds b"
  shows "gap_reason b (du_first d) (du_final d) (du_previous d) = None
    \<longleftrightarrow> gapless (bo_snapshot_update_id b0) (ds @ [d])"
  using assms(2) unfolding gapless_snoc book_tracks_def
  by (cases "ds = []"; cases "du_first d"; cases "du_previous d")
     (auto simp: gap_reason_def bridges_def continues_def)

lemma depth_stepE:
  assumes "depth_step clk payload received symbol b = Inr (a, b')"
  obtains
    (malformed) "update_of payload = None" "b' = b"
  | (stale) d where "update_of payload = Some d" "du_final d < bo_snapshot_update_id b"
      "b' = b\<lparr>bo_dropped_stale_count := bo_dropped_stale_count b + 1\<rparr>"
  | (gap) d reason where "update_of payload = Some d" "bo_snapshot_update_id b \<le> du_final d"
      "gap_reason b (du_first d) (du_final d) (du_previous d) = Some reason" "b' = mark_resync b reason"
  | (applied) d where "update_of payload = Some d" "bo_snapshot_update_id b \<le> du_final d"
      "gap_reason b (du_first d) (du_final d) (du_previous d) = None"
      "apply_update clk payload received (du_final d) b = Inr b'"
      "du_bids d = pget payload ''b''" "du_asks d = pget payload ''a''"
proof -
  obtain f u p where ids: "int_or_none (pget payload ''U'') = Inr f" "int_or_none (pget payload ''u'') = Inr u"
    "int_or_none (pget payload ''pu'') = Inr p"
    using assms by (auto simp: depth_step_def rbind_Inr_iff)
  show ?thesis
  proof (cases u)
    case None
    with ids assms show ?thesis by (intro malformed) (simp_all add: update_of_def depth_step_def)
  next
    case (Some k)
    let ?d = "\<lparr>du_first = f, du_final = k, du_previous = p, du_bids = pget payload ''b'', du_asks = pget payload ''a''\<rparr>"
    have d: "update_of payload = Some ?d" using ids Some by (simp add: update_of_def)
    show ?thesis
    proof (cases "k < bo_snapshot_update_id b")
      case True
      with ids Some assms show ?thesis by (intro stale [OF d]) (simp_all add: depth_step_def)
    next
      case False
      then show ?thesis
        using ids Some assms gap [OF d] applied [OF d]
        by (cases "gap_reason b f k p") (auto simp: depth_step_def rbind_Inr_iff)
    qed
  qed
qed

lemma fresh_updates_snoc:
  "fresh_updates snap (ps @ [p]) = fresh_updates snap ps
     @ (case update_of p of None \<Rightarrow> [] | Some d \<Rightarrow> if snap \<le> du_final d then [d] else [])"
  by (auto simp: fresh_updates_def split: option.splits)

lemma book_tracks_step:
  assumes "book_tracks b0 (fresh_updates (bo_snapshot_update_id b0) ps) ds b" "book_step clk symbol (p, received) b = Inr b'"
  shows "\<exists>ds'. book_tracks b0 (fresh_updates (bo_snapshot_update_id b0) (ps @ [p])) ds' b'"
proof -
  let ?snap = "bo_snapshot_update_id b0"
  have snap: "bo_snapshot_update_id b = ?snap" using assms(1) by (simp add: book_tracks_def)
  obtain a where "depth_step clk p received symbol b = Inr (a, b')"
    using assms(2) by (auto simp: book_step_def rbind_Inr_iff)
  then show ?thesis
  proof (cases rule: depth_stepE)
    case malformed
    then show ?thesis using assms(1) by (auto simp: fresh_updates_snoc)
  next
    case (stale d)
    then have "fresh_updates ?snap (ps @ [p]) = fresh_updates ?snap ps" using snap by (simp add: fresh_updates_snoc)
    then show ?thesis using assms(1) stale(3) by (intro exI [of _ ds]) (simp add: book_tracks_def)
  next
    case (gap d reason)
    then have "fresh_updates ?snap (ps @ [p]) = fresh_updates ?snap ps @ [d]" using snap by (simp add: fresh_updates_snoc)
    then show ?thesis using assms(1) gap(4)
      by (intro exI [of _ ds]) (simp add: book_tracks_def mark_resync_def subseq_rev_drop_many list_emb_append2)
  next
    case (applied d)
    have fresh: "fresh_updates ?snap (ps @ [p]) = fresh_updates ?snap ps @ [d]"
      using applied(1,2) snap by (simp add: fresh_updates_snoc)
    have g: "gapless ?snap (ds @ [d])" using gap_reason_None [OF applied(1) assms(1)] applied(3) by simp
    obtain bids asks where sides: "apply_book_side (du_bids d) (bo_bids b) = Inr bids"
      "apply_book_side (du_asks d) (bo_asks b) = Inr asks" "bo_bids b' = bids" "bo_asks b' = asks"
      and b': "bo_snapshot_update_id b' = bo_snapshot_update_id b" "bo_last_depth_update_id b' = du_final d"
        "bo_applied_update_count b' = bo_applied_update_count b + 1" "bo_depth_gap_count b' = bo_depth_gap_count b"
        "bo_status b' = (if bo_status b \<noteq> ''resync_required'' then ''active'' else bo_status b)"
      using applied(4) unfolding apply_update_def applied(5,6) by (auto simp: rbind_Inr_iff)
    have "rfold apply_sides (ds @ [d]) (bo_bids b0, bo_asks b0) = Inr (bo_bids b', bo_asks b')"
      using assms(1) sides by (simp add: rfold_append book_tracks_def apply_sides_def)
    moreover have "subseq (ds @ [d]) (fresh_updates ?snap ps @ [d])"
      using assms(1) by (simp add: book_tracks_def list_emb_append_mono)
    ultimately have "book_tracks b0 (fresh_updates ?snap ps @ [d]) (ds @ [d]) b'"
      using assms(1) g b' by (simp add: book_tracks_def last_final_def)
    then show ?thesis unfolding fresh by blast
  qed
qed

lemma book_run_tracks:
  assumes "rfold (book_step clk symbol) ms b1 = Inr b" "book_tracks b0 (fresh_updates (bo_snapshot_update_id b0) ps) ds b1"
  shows "\<exists>ds'. book_tracks b0 (fresh_updates (bo_snapshot_update_id b0) (ps @ map fst ms)) ds' b"
  using assms
proof (induction ms arbitrary: b1 ps ds)
  case (Cons m ms)
  obtain p r where m: "m = (p, r)" by (cases m)
  obtain b2 where b2: "book_step clk symbol (p, r) b1 = Inr b2" "rfold (book_step clk symbol) ms b2 = Inr b"
    using Cons.prems(1) by (auto simp: m rbind_Inr_iff)
  from book_tracks_step [OF Cons.prems(2) b2(1)] obtain ds' where
    "book_tracks b0 (fresh_updates (bo_snapshot_update_id b0) (ps @ [p])) ds' b2" by blast
  from Cons.IH [OF b2(2) this] show ?case by (simp add: m)
qed auto

lemma seeded_tracks: "seed_book s = Inr b0 \<Longrightarrow> book_tracks b0 [] [] b0"
  by (auto simp: seed_book_def rbind_Inr_iff book_tracks_def gapless_def last_final_def)

text \<open>The payloads of one symbol among the rows.\<close>

definition payload_symbol :: "(string \<times> pyval) list \<Rightarrow> string option" where
  "payload_symbol p = map_option str_upper (symbol_from_payload [] p)"

definition rows_of :: "string \<Rightarrow> stream_event list \<Rightarrow> stream_event list" where
  "rows_of symbol rows = filter (\<lambda>e. payload_symbol (st_payload e) = Some symbol) rows"

definition row_message :: "stream_event \<Rightarrow> (string \<times> pyval) list \<times> string option" where
  "row_message e = (st_payload e, Some (st_received_at e))"

lemma apply_depth_payload_project:
  assumes "apply_depth_payload clk p r bs = Inr (a, bs')"
  shows "map_of bs' symbol =
    (if payload_symbol p = Some symbol \<and> map_of bs symbol \<noteq> None
     then (case book_step clk symbol (p, r) (the (map_of bs symbol)) of Inr b \<Rightarrow> Some b | _ \<Rightarrow> None)
     else map_of bs symbol)"
    "payload_symbol p = Some symbol \<Longrightarrow> map_of bs symbol = Some b \<Longrightarrow> \<exists>b'. book_step clk symbol (p, r) b = Inr b'"
  using assms
  by (auto simp: apply_depth_payload_def payload_symbol_def book_step_def Let_def rbind_Inr_iff
      split: option.splits if_splits sum.splits)

lemma rebuild_project:
  assumes "rfold (\<lambda>e bs. rbind (apply_depth_payload clk (st_payload e) (Some (st_received_at e)) bs) (\<lambda>(a, bs'). Inr bs')) rows bs = Inr bs'"
    "map_of bs symbol = Some b0" "map_of bs' symbol = Some b"
  shows "rfold (book_step clk symbol) (map row_message (rows_of symbol rows)) b0 = Inr b"
  using assms
proof (induction rows arbitrary: bs b0)
  case (Cons e rows)
  obtain a bs1 where s: "apply_depth_payload clk (st_payload e) (Some (st_received_at e)) bs = Inr (a, bs1)"
    "rfold (\<lambda>e bs. rbind (apply_depth_payload clk (st_payload e) (Some (st_received_at e)) bs) (\<lambda>(a, bs'). Inr bs')) rows bs1 = Inr bs'"
    using Cons.prems(1) by (auto simp: rbind_Inr_iff)
  note P = apply_depth_payload_project [OF s(1), of symbol]
  show ?case
  proof (cases "payload_symbol (st_payload e) = Some symbol")
    case True
    obtain b1 where b1: "book_step clk symbol (row_message e) b0 = Inr b1"
      using P(2) [OF True Cons.prems(2)] by (auto simp: row_message_def)
    then have "map_of bs1 symbol = Some b1" using P(1) True Cons.prems(2) by (simp add: row_message_def)
    from Cons.IH [OF s(2) this Cons.prems(3)] b1 True show ?thesis by (simp add: rows_of_def)
  next
    case False
    then have "map_of bs1 symbol = Some b0" using P(1) Cons.prems(2) by simp
    from Cons.IH [OF s(2) this Cons.prems(3)] False show ?thesis by (simp add: rows_of_def)
  qed
qed (simp add: rows_of_def)

lemma seeds_from_snapshots:
  assumes "rfold seed_snapshot snapshots [] = Inr bs" "map_of bs symbol = Some b0"
  shows "\<exists>s \<in> set snapshots. str_upper (os_symbol s) = symbol \<and> seed_book s = Inr b0"
proof -
  let ?P = "\<lambda>bs. \<forall>symbol b0. map_of bs symbol = Some b0 \<longrightarrow>
    (\<exists>s \<in> set snapshots. str_upper (os_symbol s) = symbol \<and> seed_book s = Inr b0)"
  have "?P bs"
  proof (rule rfold_invariant [OF assms(1)])
    fix s u v
    assume "s \<in> set snapshots" "?P u" "seed_snapshot s u = Inr v"
    then show "?P v" by (auto simp: seed_snapshot_def rbind_Inr_iff split: if_splits)
  qed simp
  with assms(2) show ?thesis by blast
qed

text \<open>C22. A rebuilt order book is its seed snapshot with the recorded depth updates applied: the applied updates
  are some of the symbol's updates that are not older than the snapshot, in their order and without a
  gap in their ids; every update that was left out is counted as a gap and the book then demands a
  resync, so that a book which does not has every update in it.\<close>

theorem book_is_snapshot_plus_updates:
  assumes "rebuild_books clk snapshots rows = Inr bs" "map_of bs symbol = Some b"
  shows "\<exists>s \<in> set snapshots. \<exists>b0 us. str_upper (os_symbol s) = symbol \<and> seed_book s = Inr b0
    \<and> subseq us (fresh_updates (os_last_update_id s) (map st_payload (rows_of symbol rows)))
    \<and> gapless (os_last_update_id s) us
    \<and> rfold apply_sides us (bo_bids b0, bo_asks b0) = Inr (bo_bids b, bo_asks b)
    \<and> length us + bo_depth_gap_count b
        = length (fresh_updates (os_last_update_id s) (map st_payload (rows_of symbol rows)))
    \<and> (bo_status b \<noteq> ''resync_required'' \<longrightarrow>
         us = fresh_updates (os_last_update_id s) (map st_payload (rows_of symbol rows)))"
proof -
  obtain bs0 where bs0: "rfold seed_snapshot snapshots [] = Inr bs0"
    "rfold (\<lambda>e bs. rbind (apply_depth_payload clk (st_payload e) (Some (st_received_at e)) bs) (\<lambda>(a, bs'). Inr bs')) rows bs0 = Inr bs"
    using assms(1) by (auto simp: rebuild_books_def rbind_Inr_iff)
  have "map_of bs0 symbol \<noteq> None"
  proof
    assume "map_of bs0 symbol = None"
    then have "map_of bs symbol = None"
      by (rule rfold_invariant [OF bs0(2), where P = "\<lambda>bs. map_of bs symbol = None"])
         (auto simp: rbind_Inr_iff dest!: apply_depth_payload_project(1) [where symbol = symbol])
    with assms(2) show False by simp
  qed
  then obtain b0 where b0: "map_of bs0 symbol = Some b0" by auto
  from seeds_from_snapshots [OF bs0(1) b0] obtain s where s: "s \<in> set snapshots" "str_upper (os_symbol s) = symbol"
    "seed_book s = Inr b0" by blast
  let ?fresh = "fresh_updates (os_last_update_id s) (map st_payload (rows_of symbol rows))"
  have snap: "bo_snapshot_update_id b0 = os_last_update_id s" using s(3) by (auto simp: seed_book_def rbind_Inr_iff)
  have "rfold (book_step clk symbol) (map row_message (rows_of symbol rows)) b0 = Inr b"
    by (rule rebuild_project [OF bs0(2) b0 assms(2)])
  from book_run_tracks [OF this, of b0 "[]" "[]"] seeded_tracks [OF s(3)]
  obtain us where us: "book_tracks b0 ?fresh us b"
    by (auto simp: snap fresh_updates_def comp_def row_message_def)
  have "us = ?fresh" if "bo_status b \<noteq> ''resync_required''"
    using us that by (intro subseq_same_length) (simp_all add: book_tracks_def)
  with us s show ?thesis unfolding book_tracks_def snap by (metis add.commute)
qed

definition sample_clock :: time_lib where
  "sample_clock = \<lparr>tl_parse = (\<lambda>s. Some (True, 0)), tl_from_ms = (\<lambda>k. Inr k), tl_text = (\<lambda>i. ''t'')\<rparr>"

definition sample_depth :: "string \<Rightarrow> int \<Rightarrow> (string \<times> pyval) list \<Rightarrow> stream_event" where
  "sample_depth name t payload = \<lparr>st_stream_event_id = name, st_session_id = ''s'', st_received_at = ''r'',
     st_exchange_event_time = None, st_stream_name = ''btcusdt@depth'', st_symbol = Some ''BTCUSDT'',
     st_sequence_id = None, st_payload_hash = name, st_payload = payload, st_parse_status = ''parsed'',
     st_lag_ms = None, st_event_type = PStr ''depthUpdate'', st_event_time_ms = Some t, st_transaction_time_ms = None\<rparr>"

definition sample_depth_rows :: "stream_event list" where
  "sample_depth_rows =
     [sample_depth ''1'' 1 [(''s'', PStr ''BTC''), (''U'', PInt 9), (''u'', PInt 12),
        (''b'', PList [PList [PFloat (Fin 100), PFloat (Fin 2)]])],
      sample_depth ''2'' 2 [(''s'', PStr ''BTC''), (''U'', PInt 20), (''u'', PInt 21), (''pu'', PInt 19)]]"

theorem book_is_snapshot_plus_updates_witness:
  "\<exists>bs b us. rebuild_books sample_clock [\<lparr>os_symbol = ''btc'', os_last_update_id = 10, os_bids = [], os_asks = [],
       os_received_at = None\<rparr>] sample_depth_rows = Inr bs \<and> map_of bs ''BTC'' = Some b
     \<and> bo_status b = ''resync_required'' \<and> length us = 1
     \<and> rfold apply_sides us ([], []) = Inr (bo_bids b, bo_asks b)"
proof -
  let ?s = "\<lparr>os_symbol = ''btc'', os_last_update_id = 10, os_bids = [], os_asks = [], os_received_at = None\<rparr>"
  have up: "str_upper ''btc'' = ''BTC''" "str_upper ''BTC'' = ''BTC''" by code_simp+
  let ?p1 = "[(''s'', PStr ''BTC''), (''U'', PInt 9), (''u'', PInt 12),
        (''b'', PList [PList [PFloat (Fin 100), PFloat (Fin 2)]])]"
  let ?p2 = "[(''s'', PStr ''BTC''), (''U'', PInt 20), (''u'', PInt 21), (''pu'', PInt 19)]"
  have sym: "symbol_from_payload [] ?p1 = Some ''BTC''" "symbol_from_payload [] ?p2 = Some ''BTC''"
    by (simp_all add: symbol_from_payload_def symbol_of_field_def up)
  have ids: "int_or_none (PInt k) = Inr (Some k)" "int_or_none PNone = Inr None" for k
    by (simp_all add: int_or_none_def or_none_def)
  let ?b0 = "\<lparr>bo_snapshot_update_id = 10, bo_last_depth_update_id = 10, bo_bids = [], bo_asks = [],
     bo_status = ''seeded'', bo_depth_gap_count = 0, bo_dropped_stale_count = 0, bo_applied_update_count = 0,
     bo_last_received_at = None, bo_last_exchange_event_time = None, bo_resync_reason = None\<rparr>"
  let ?b1 = "?b0\<lparr>bo_bids := [(Fin 100, Fin 2)], bo_last_depth_update_id := 12, bo_applied_update_count := 1,
     bo_last_received_at := Some ''r'', bo_status := ''active''\<rparr>"
  have one: "depth_step sample_clock ?p1 (Some ''r'') ''BTC'' ?b0 = Inr (Applied ''BTC'' 12, ?b1)"
    by (simp add: depth_step_def ids gap_reason_def apply_update_def apply_book_side_def update_level_def level_of_def
        float_or_none_def side_set_def ms_to_utc_def)
  have two: "depth_step sample_clock ?p2 (Some ''r'') ''BTC'' ?b1 = Inr (Resync_required ''BTC'' ''depth_pu_gap'', mark_resync ?b1 ''depth_pu_gap'')"
    by (simp add: depth_step_def ids gap_reason_def)
  obtain bs b where bs: "rebuild_books sample_clock [?s] sample_depth_rows = Inr bs" "map_of bs ''BTC'' = Some b"
    "bo_status b = ''resync_required''" "bo_depth_gap_count b = 1"
    using one two
    by (simp add: rebuild_books_def seed_snapshot_def seed_book_def price_qty_map_def sample_depth_rows_def sample_depth_def
        apply_depth_payload_def sym up mark_resync_def Let_def)
  have fresh: "length (fresh_updates 10 (map st_payload (rows_of ''BTC'' sample_depth_rows))) = 2"
    by (simp add: fresh_updates_def rows_of_def payload_symbol_def sample_depth_rows_def sample_depth_def update_of_def
        ids sym up)
  from book_is_snapshot_plus_updates [OF bs(1,2)] obtain us where
    "rfold apply_sides us ([], []) = Inr (bo_bids b, bo_asks b)" "length us + 1 = 2"
    unfolding bex_simps list.set using bs(4) fresh by (auto simp: seed_book_def price_qty_map_def)
  with bs show ?thesis by auto
qed

section \<open>What the replay counts\<close>

lemma sum_update_dict:
  fixes g :: "'v \<Rightarrow> nat"
  assumes "dict_ok d"
  shows "sum_list (map (g \<circ> snd) (AList.update k v d)) + (case map_of d k of None \<Rightarrow> 0 | Some w \<Rightarrow> g w)
    = sum_list (map (g \<circ> snd) d) + g v"
  using assms
proof (induction d)
  case (Cons e d)
  obtain j w where e: "e = (j, w)" by (cases e)
  have "map_of d j = None" using Cons.prems by (simp add: dict_ok_def e map_of_eq_None_iff)
  with Cons show ?case by (auto simp: e dict_ok_def split: option.splits)
qed simp

definition replay_consistent :: "stream_event list \<Rightarrow> stream_replay \<Rightarrow> bool" where
  "replay_consistent rows r \<longleftrightarrow>
     dict_ok (rp_stream_counts r) \<and> dict_ok (rp_symbol_state r)
     \<and> sum_list (map snd (rp_stream_counts r)) = length rows
     \<and> (\<forall>n. dget (rp_stream_counts r) n 0 = length (filter (\<lambda>e. st_stream_name e = n) rows))
     \<and> rp_gap_count r = sum_list (map (ys_depth_gap_count \<circ> snd) (rp_symbol_state r))
     \<and> rp_duplicate_count r + card (set (rp_seen_hashes r)) = length rows
     \<and> set (rp_seen_hashes r) = st_payload_hash ` set rows"

lemma replay_depth_gap:
  "replay_depth p y = Inr (y', gap) \<Longrightarrow> ys_depth_gap_count y' = ys_depth_gap_count y + (if gap then 1 else 0)"
  unfolding replay_depth_def Let_def rbind_Inr_iff
  by (clarsimp simp only: sum.inject prod.inject) simp

lemma replay_symbol_event_gap:
  assumes "replay_symbol_event clk e y = Inr (y', gap)"
  shows "ys_depth_gap_count y' = ys_depth_gap_count y + (if gap then 1 else 0)"
  using assms unfolding replay_symbol_event_def Let_def
  by (simp only: split: if_split_asm) (auto simp: rbind_Inr_iff dest: replay_depth_gap)

lemma replay_row_consistent:
  assumes "replay_consistent rows r" "replay_row clk e r = Inr r'"
  shows "replay_consistent (rows @ [e]) r'"
proof -
  define counted where "counted = r\<lparr>
            rp_stream_counts := AList.update (st_stream_name e) (dget (rp_stream_counts r) (st_stream_name e) 0 + 1)
              (rp_stream_counts r),
            rp_duplicate_count := rp_duplicate_count r + (if st_payload_hash e \<in> set (rp_seen_hashes r) then 1 else 0),
            rp_seen_hashes := st_payload_hash e # rp_seen_hashes r\<rparr>"
  have sums: "dict_ok (rp_stream_counts r)" "sum_list (map snd (rp_stream_counts r)) = length rows"
    using assms(1) by (simp_all add: replay_consistent_def)
  have "sum_list (map (id \<circ> snd) (rp_stream_counts counted)) = length rows + 1"
    using sum_update_dict [of "rp_stream_counts r" id "st_stream_name e" "dget (rp_stream_counts r) (st_stream_name e) 0 + 1"]
      sums
    by (auto simp: counted_def dget_def split: option.splits)
  moreover have "\<forall>n. dget (rp_stream_counts counted) n 0 = length (filter (\<lambda>e. st_stream_name e = n) (rows @ [e]))"
    using assms(1) by (simp add: replay_consistent_def counted_def dget_def update_conv')
  ultimately have c: "replay_consistent (rows @ [e]) counted"
    using assms(1) by (auto simp: replay_consistent_def counted_def card_insert_if)
  have gap: "replay_consistent (rows @ [e]) (counted\<lparr>rp_symbol_state := AList.update k y (rp_symbol_state r),
                            rp_gap_count := rp_gap_count r + (if gap then 1 else 0)\<rparr>)"
    if "replay_symbol_event clk e (dget (rp_symbol_state r) k fresh_symbol_state) = Inr (y, gap)" for k y gap
  proof -
    have "ys_depth_gap_count (dget (rp_symbol_state r) k fresh_symbol_state)
        = (case map_of (rp_symbol_state r) k of None \<Rightarrow> 0 | Some w \<Rightarrow> ys_depth_gap_count w)"
      by (auto simp: dget_def fresh_symbol_state_def split: option.splits)
    with replay_symbol_event_gap [OF that] sum_update_dict [of "rp_symbol_state r" ys_depth_gap_count k y] assms(1)
    have "sum_list (map (ys_depth_gap_count \<circ> snd) (AList.update k y (rp_symbol_state r)))
        = rp_gap_count r + (if gap then 1 else 0)"
      by (simp add: replay_consistent_def)
    moreover have "rp_duplicate_count counted + card (set (rp_seen_hashes counted)) = length (rows @ [e])"
      "set (rp_seen_hashes counted) = st_payload_hash ` set (rows @ [e])"
      using c unfolding replay_consistent_def by blast+
    ultimately show ?thesis using c assms(1) by (simp only: replay_consistent_def) simp
  qed
  show ?thesis
  proof (cases "\<exists>k ks. st_symbol e = Some (k # ks) \<and> st_parse_status e = ''parsed''")
    case True
    then obtain k ks where k: "st_symbol e = Some (k # ks)" "st_parse_status e = ''parsed''" by blast
    obtain y g where "replay_symbol_event clk e (dget (rp_symbol_state r) (k # ks) fresh_symbol_state) = Inr (y, g)"
      "r' = counted\<lparr>rp_symbol_state := AList.update (k # ks) y (rp_symbol_state r),
                   rp_gap_count := rp_gap_count r + (if g then 1 else 0)\<rparr>"
      using assms(2) unfolding replay_row_def Let_def counted_def [symmetric]
      by (simp only: k option.case list.case rbind_Inr_iff not_True_eq_False simp_thms if_False split_paired_Ex prod.case) blast
    then show ?thesis using gap by blast
  next
    case False
    then have "r' = counted"
      using assms(2) unfolding replay_row_def Let_def counted_def [symmetric]
      by (auto split: option.splits list.splits)
    then show ?thesis using c by simp
  qed
qed

lemma replay_all_consistent:
  "rfold (replay_row clk) rows r = Inr r' \<Longrightarrow> replay_consistent done r \<Longrightarrow> replay_consistent (done @ rows) r'"
proof (induction rows arbitrary: r "done")
  case (Cons e rows)
  obtain r1 where "replay_row clk e r = Inr r1" "rfold (replay_row clk) rows r1 = Inr r'"
    using Cons.prems(1) by (auto simp: rbind_Inr_iff)
  with Cons.IH [of r1 "done @ [e]"] replay_row_consistent Cons.prems(2) show ?case by simp
qed simp

text \<open>A table that was only written by recording normalised events.  The collector and the daemon write events
  with ids of their own, so their tables are not of this kind.\<close>

definition recorded_table :: "stream_table \<Rightarrow> bool" where
  "recorded_table t \<longleftrightarrow> dict_ok t \<and> list_all (\<lambda>(k, e). k = st_session_id e @ '':'' @ st_stream_name e @ '':''
     @ take 16 (st_payload_hash e)) t"

lemma recorded_table_record:
  assumes "recorded_table t" "record_binance_ws_payload clk H session name payload received t = Inr t'"
  shows "recorded_table t'"
proof -
  obtain e where e: "normalize_binance_usdm_ws_event clk H session name payload received = Inr e"
    "t' = record_paper_stream_event e t"
    using assms(2) by (auto simp: record_binance_ws_payload_def rbind_Inr_iff)
  have "st_stream_event_id e = st_session_id e @ '':'' @ st_stream_name e @ '':'' @ take 16 (st_payload_hash e)"
    using e(1) by (auto simp: normalize_binance_usdm_ws_event_def Let_def rbind_Inr_iff)
  moreover have "dict_ok (AList.delete (st_stream_event_id e) t)" using assms(1)
    by (simp add: recorded_table_def dict_ok_def distinct_delete)
  ultimately show ?thesis using assms(1) unfolding e(2) record_paper_stream_event_def recorded_table_def
    by (auto simp: dict_ok_def list_all_iff AList.delete_eq)
qed

lemma distinct_map_sort_filter: "distinct (map f xs) \<Longrightarrow> distinct (map f (sort_key g (filter P xs)))"
  by (auto simp: distinct_map inj_on_def)

lemma recorded_hashes_distinct:
  assumes "recorded_table t" and one: "card (st_stream_name ` set (session_rows session t)) \<le> 1"
  shows "card (st_payload_hash ` set (session_rows session t)) = length (session_rows session t)"
proof -
  let ?rows = "session_rows session t"
  let ?key = "\<lambda>e. st_session_id e @ '':'' @ st_stream_name e @ '':'' @ take 16 (st_payload_hash e)"
  have "map ?key (map snd t) = map fst t"
    using assms(1) by (auto simp: recorded_table_def list_all_iff)
  then have "distinct (map ?key (map snd t))" using assms(1) by (simp only: recorded_table_def dict_ok_def)
  then have dist: "distinct (map ?key ?rows)"
    unfolding session_rows_def by (rule distinct_map_sort_filter)
  have "inj_on st_payload_hash (set ?rows)"
  proof (rule inj_onI)
    fix x y
    assume xy: "x \<in> set ?rows" "y \<in> set ?rows" "st_payload_hash x = st_payload_hash y"
    have "st_stream_name x = st_stream_name y"
    proof -
      have "\<forall>a \<in> st_stream_name ` set ?rows. \<forall>b \<in> st_stream_name ` set ?rows. a = b"
        using one by (subst card_le_Suc0_iff_eq [symmetric]) simp_all
      with xy(1,2) show ?thesis by blast
    qed
    moreover have "st_session_id x = st_session_id y" using xy(1,2) by (simp add: session_rows_def)
    ultimately show "x = y" using dist xy unfolding distinct_map inj_on_def by simp
  qed
  moreover have "distinct ?rows" using dist by (simp only: distinct_map)
  ultimately show ?thesis by (simp add: card_image distinct_card)
qed

text \<open>C23. The counters of a replayed session are consistent, whatever wrote the table: each stream is counted once
  for each of its events, and the counts add up to the events; the gap count is the total of the gaps of
  the symbols; and the duplicates are the events whose payload digest was seen before.  A table that only
  \<open>record_binance_ws_payload\<close> wrote shows no duplicate for a session of a single stream, however often the
  venue repeated a message, since the event id contains the payload's digest and recording replaces an
  equal id; the collector and the daemon write other ids, and their streams can show duplicates.\<close>

theorem replay_counters_consistent:
  assumes "replay_paper_stream_events clk session t = Inr r"
  shows "(\<forall>n. dget (rp_stream_counts r) n 0 = length (filter (\<lambda>e. st_stream_name e = n) (session_rows session t)))
    \<and> sum_list (map snd (rp_stream_counts r)) = length (session_rows session t)
    \<and> rp_gap_count r = sum_list (map (ys_depth_gap_count \<circ> snd) (rp_symbol_state r))
    \<and> rp_duplicate_count r = length (session_rows session t) - card (st_payload_hash ` set (session_rows session t))
    \<and> (recorded_table t \<and> card (st_stream_name ` set (session_rows session t)) \<le> 1 \<longrightarrow> rp_duplicate_count r = 0)"
proof -
  let ?rows = "session_rows session t"
  have "replay_consistent [] empty_replay" by (simp add: replay_consistent_def empty_replay_def dget_def)
  with replay_all_consistent [of clk ?rows empty_replay r "[]"] assms(1)
  have c: "replay_consistent ?rows r" by (simp add: replay_paper_stream_events_def)
  have zero: "rp_duplicate_count r = 0" if "recorded_table t" "card (st_stream_name ` set ?rows) \<le> 1"
  proof -
    have "card (st_payload_hash ` set ?rows) = length ?rows" using recorded_hashes_distinct [OF that] .
    then show ?thesis using c by (auto simp: replay_consistent_def)
  qed
  show ?thesis using c zero by (auto simp: replay_consistent_def)
qed

text \<open>Two messages of a stream recorded by \<open>record_binance_ws_payload\<close>, and one message twice, with the ids that
  the collector gives it.\<close>

definition force_order :: "string \<Rightarrow> string \<Rightarrow> int \<Rightarrow> stream_event" where
  "force_order i hash t = (sample_depth hash t [(''e'', PStr ''forceOrder'')])\<lparr>st_stream_event_id := i\<rparr>"

definition sample_table :: stream_table where
  "sample_table = map (\<lambda>e. (st_stream_event_id e, e))
     [force_order ''s:btcusdt@depth:1'' ''1'' 1, force_order ''s:btcusdt@depth:2'' ''2'' 2]"

definition collector_table :: stream_table where
  "collector_table = map (\<lambda>e. (st_stream_event_id e, e))
     [force_order ''s:btcusdt@depth:1:1'' ''1'' 1, force_order ''s:btcusdt@depth:1:2'' ''1'' 2]"

lemma forced_rows_replay:
  assumes "session_rows session t = [e1, e2]"
    "st_payload e1 = [(''e'', PStr ''forceOrder'')]" "st_payload e2 = [(''e'', PStr ''forceOrder'')]"
  shows "\<exists>r. replay_paper_stream_events clk session t = Inr r"
proof -
  have force: "replay_symbol_event clk e y = Inr (y\<lparr>ys_event_count := ys_event_count y + 1,
      ys_last_received_at := Some (st_received_at e), ys_last_exchange_event_time := st_exchange_event_time e,
      ys_force_order_count := ys_force_order_count y + 1\<rparr>, False)"
    if "st_payload e = [(''e'', PStr ''forceOrder'')]" for e y
    using that by (simp add: replay_symbol_event_def field_str_def Let_def)
  have row: "\<exists>r'. replay_row clk e r = Inr r'" if "st_payload e = [(''e'', PStr ''forceOrder'')]" for e r
    unfolding replay_row_def Let_def force [OF that] by (simp split: option.split list.split)
  obtain r1 where r1: "replay_row clk e1 empty_replay = Inr r1" using row [OF assms(2)] by blast
  obtain r where "replay_row clk e2 r1 = Inr r" using row [OF assms(3)] by blast
  then show ?thesis unfolding replay_paper_stream_events_def assms(1) by (simp add: r1)
qed

theorem replay_counters_consistent_witness:
  "(\<exists>r. replay_paper_stream_events sample_clock ''s'' sample_table = Inr r
     \<and> rp_duplicate_count r = 0 \<and> dget (rp_stream_counts r) ''btcusdt@depth'' 0 = 2)
   \<and> (\<exists>r. replay_paper_stream_events sample_clock ''s'' collector_table = Inr r \<and> rp_duplicate_count r = 1)"
proof -
  have rows: "session_rows ''s'' sample_table = [force_order ''s:btcusdt@depth:1'' ''1'' 1, force_order ''s:btcusdt@depth:2'' ''2'' 2]"
    "session_rows ''s'' collector_table
      = [force_order ''s:btcusdt@depth:1:1'' ''1'' 1, force_order ''s:btcusdt@depth:1:2'' ''1'' 2]"
    by (simp_all add: session_rows_def sample_table_def collector_table_def force_order_def sample_depth_def replay_key_def)
  have payload: "st_payload (force_order i h t) = [(''e'', PStr ''forceOrder'')]" for i h t
    by (simp add: force_order_def sample_depth_def)
  obtain r1 where r1: "replay_paper_stream_events sample_clock ''s'' sample_table = Inr r1"
    using forced_rows_replay [OF rows(1) payload payload] by blast
  obtain r2 where r2: "replay_paper_stream_events sample_clock ''s'' collector_table = Inr r2"
    using forced_rows_replay [OF rows(2) payload payload] by blast
  note r = r1 r2
  have "recorded_table sample_table"
    by (simp add: recorded_table_def dict_ok_def sample_table_def force_order_def sample_depth_def)
  moreover have "card (st_stream_name ` set (session_rows ''s'' sample_table)) \<le> 1"
    unfolding rows by (simp add: force_order_def sample_depth_def)
  ultimately have "rp_duplicate_count r1 = 0" using replay_counters_consistent [OF r(1)] by blast
  moreover have "dget (rp_stream_counts r1) ''btcusdt@depth'' 0 = 2"
    using replay_counters_consistent [OF r(1)] unfolding rows by (simp add: force_order_def sample_depth_def)
  moreover have "rp_duplicate_count r2 = 1"
    using replay_counters_consistent [OF r(2)] unfolding rows by (simp add: force_order_def sample_depth_def)
  ultimately show ?thesis using r by blast
qed

end
