(* ===== verification/NoKeyExecutor.thy ===== *)
theory NoKeyExecutor
  imports Reconcile
begin

text \<open>
  The executor without private keys (\<open>execution/no_key_executor.py\<close>): a fake venue gateway, an order
  fixture and the chaos scenarios, all of which only append events to the event store and rebuild its
  projections.  A store is the database \<open>exec_db\<close> of \<open>Reconcile\<close>; a failing step leaves what it has
  appended.
\<close>

section \<open>The fake gateway\<close>

record nk_config =
  nk_scenario_id :: string
  nk_session_id :: string
  nk_base_timestamp :: string
  nk_allow_live_private_path :: bool

record nk_request =
  nq_symbol :: string
  nq_side :: string
  nq_qty :: pyfloat
  nq_price :: pyfloat
  nq_client_order_id :: string
  nq_reduce_only :: bool

record gw_order =
  go_order_id_client :: string
  go_order_id_exchange :: string
  go_symbol :: string
  go_side :: string
  go_qty :: pyfloat
  go_price :: pyfloat
  go_status :: string

record gateway =
  gw_exchange_order_id :: int
  gw_orders :: "(string, gw_order) dict"
  gw_orphan_orders :: "(string, gw_order) dict"
  gw_clock_drift_seconds :: int
  gw_network_partitioned :: bool
  gw_error_storm :: bool
  gw_stale_account_snapshot :: bool

definition new_gateway :: gateway where
  "new_gateway = \<lparr>gw_exchange_order_id = 1000, gw_orders = [], gw_orphan_orders = [],
     gw_clock_drift_seconds = 0, gw_network_partitioned = False, gw_error_storm = False,
     gw_stale_account_snapshot = False\<rparr>"

record gw_reject =
  gj_event_type :: string
  gj_status :: string
  gj_reason_code :: string
  gj_order_id_client :: string

definition fake_order :: "nk_request \<Rightarrow> string \<Rightarrow> int \<Rightarrow> gw_order" where
  "fake_order r client i =
     \<lparr>go_order_id_client = client, go_order_id_exchange = ''fake-'' @ int_text i,
      go_symbol = nq_symbol r, go_side = str_upper (nq_side r), go_qty = nq_qty r, go_price = nq_price r,
      go_status = ''ACKED''\<rparr>"

definition submit_order :: "nk_request \<Rightarrow> string option \<Rightarrow> gateway \<Rightarrow> (gw_reject + gw_order) \<times> gateway" where
  "submit_order r reject_reason g =
     (if filled_str reject_reason
      then (Inl \<lparr>gj_event_type = ''ORDER_REJECT'', gj_status = ''REJECTED'',
                 gj_reason_code = the reject_reason, gj_order_id_client = nq_client_order_id r\<rparr>, g)
      else
        let i = gw_exchange_order_id g + 1; order = fake_order r (nq_client_order_id r) i
        in (Inr order, g\<lparr>gw_exchange_order_id := i,
              gw_orders := AList.update (nq_client_order_id r) order (gw_orders g)\<rparr>))"

record gw_fill =
  gf_order_id_exchange :: "string option"
  gf_fill_id :: string
  gf_qty :: pyfloat
  gf_price :: pyfloat
  gf_status :: string
  gf_fee :: pyfloat
  gf_maker_taker :: string
  gf_liquidity_flag :: string

definition exchange_id_of :: "nk_request \<Rightarrow> gateway \<Rightarrow> string option" where
  "exchange_id_of r g = map_option go_order_id_exchange (map_of (gw_orders g) (nq_client_order_id r))"

definition fill_order :: "nk_request \<Rightarrow> pyfloat \<Rightarrow> string \<Rightarrow> string \<Rightarrow> gateway \<Rightarrow> gw_fill" where
  "fill_order r qty fill_id status g =
     \<lparr>gf_order_id_exchange = exchange_id_of r g, gf_fill_id = fill_id, gf_qty = qty, gf_price = nq_price r,
      gf_status = status, gf_fee = round_nd 12 (fmul (fmul (fabs qty) (nq_price r)) (fl (5 / 10 ^ 4))),
      gf_maker_taker = ''TAKER'', gf_liquidity_flag = ''taker''\<rparr>"

record gw_cancel =
  gc_event_type :: string
  gc_status :: string
  gc_reason_code :: "string option"
  gc_order_id_exchange :: "string option"

definition cancel_order :: "nk_request \<Rightarrow> string option \<Rightarrow> gateway \<Rightarrow> gw_cancel \<times> gateway" where
  "cancel_order r reject_reason g =
     (if filled_str reject_reason
      then (\<lparr>gc_event_type = ''ORDER_CANCEL_REJECT'', gc_status = ''CANCEL_REJECTED'',
             gc_reason_code = reject_reason, gc_order_id_exchange = exchange_id_of r g\<rparr>, g)
      else (\<lparr>gc_event_type = ''ORDER_CANCEL_ACK'', gc_status = ''CANCELED'', gc_reason_code = None,
             gc_order_id_exchange = exchange_id_of r g\<rparr>,
            (case map_of (gw_orders g) (nq_client_order_id r) of
               None \<Rightarrow> g
             | Some order \<Rightarrow> g\<lparr>gw_orders := AList.update (nq_client_order_id r)
                                  (order\<lparr>go_status := ''CANCELED''\<rparr>) (gw_orders g)\<rparr>)))"

definition inject_orphan_order :: "nk_request \<Rightarrow> gateway \<Rightarrow> gw_order \<times> gateway" where
  "inject_orphan_order r g =
     (let i = gw_exchange_order_id g + 1;
          order = fake_order r (nq_client_order_id r @ ''-orphan'') i
      in (order, g\<lparr>gw_exchange_order_id := i,
            gw_orphan_orders := AList.update (go_order_id_client order) order (gw_orphan_orders g)\<rparr>))"

definition account_snapshot :: "gateway \<Rightarrow> (string \<times> pyval) list" where
  "account_snapshot g =
     [(''stale'', PBool (gw_stale_account_snapshot g)),
      (''clock_drift_seconds'', PInt (gw_clock_drift_seconds g)),
      (''open_order_count'', PInt (int (length (gw_orders g) + length (gw_orphan_orders g)))),
      (''network_partitioned'', PBool (gw_network_partitioned g)),
      (''error_storm'', PBool (gw_error_storm g))]"

section \<open>Appending events\<close>

record nk_run =
  nr_db :: exec_db
  nr_gateway :: gateway
  nr_event_types :: "string list"
  nr_blocker_codes :: "string list"
  nr_safe_actions :: "string list"

type_synonym nk_step = "nk_run \<Rightarrow> unit result \<times> nk_run"

text \<open>Statements one after the other; an exception ends the run where it is.\<close>

fun run_steps :: "nk_step list \<Rightarrow> nk_step" where
  "run_steps [] s = (Inr (), s)"
| "run_steps (f # fs) s = (case f s of (Inl e, s') \<Rightarrow> (Inl e, s') | (Inr u, s') \<Rightarrow> run_steps fs s')"

definition nk_source :: string where
  "nk_source = ''phase2_no_key_fake_gateway''"

definition nk_metadata :: "nk_config \<Rightarrow> (string \<times> pyval) list \<Rightarrow> (string \<times> pyval) list" where
  "nk_metadata c metadata =
     dict_of ([(''session_id'', PStr (nk_session_id c)), (''scenario_id'', PStr (nk_scenario_id c)),
               (''private_keys_required'', PBool False), (''live_order_path_enabled'', PBool False)] @ metadata)"

definition nk_event :: "nk_config \<Rightarrow> string \<Rightarrow> string option \<Rightarrow> string option \<Rightarrow> (string \<times> pyval) list \<Rightarrow> event_input" where
  "nk_event c kind status reason metadata =
     \<lparr>ei_ts_exchange = nk_base_timestamp c, ei_ts_gateway = nk_base_timestamp c,
      ei_ts_engine = nk_base_timestamp c, ei_source = nk_source, ei_event_type = kind,
      ei_symbol = None, ei_side = None, ei_order_id_client = None, ei_order_id_exchange = None,
      ei_parent_intent_id = None, ei_qty = None, ei_price = None, ei_status = status,
      ei_reason_code = reason, ei_metadata = nk_metadata c metadata, ei_schema_version = 1\<rparr>"

definition with_order :: "nk_request \<Rightarrow> string \<Rightarrow> string \<Rightarrow> event_input \<Rightarrow> event_input" where
  "with_order r side client x =
     x\<lparr>ei_symbol := Some (nq_symbol r), ei_side := Some side, ei_order_id_client := Some client,
       ei_qty := Some (nq_qty r), ei_price := Some (nq_price r)\<rparr>"

definition nk_append :: "stable_hash \<Rightarrow> (string \<Rightarrow> string) \<Rightarrow> event_input \<Rightarrow> nk_step" where
  "nk_append H T x s =
     (let s1 = s\<lparr>nr_event_types := nr_event_types s @ [ei_event_type x]\<rparr>
      in case append_execution_event H T x (xb_events (nr_db s)) of
           Inl e \<Rightarrow> (Inl e, s1)
         | Inr es \<Rightarrow> (Inr (), s1\<lparr>nr_db := (nr_db s)\<lparr>xb_events := es\<rparr>\<rparr>))"


definition nk_log :: "stable_hash \<Rightarrow> (string \<Rightarrow> string) \<Rightarrow> nk_config \<Rightarrow> string \<Rightarrow> string \<Rightarrow> string option
    \<Rightarrow> (gateway \<Rightarrow> (string \<times> pyval) list) \<Rightarrow> nk_step" where
  "nk_log H T c kind status reason metadata s =
     nk_append H T (nk_event c kind (Some status) reason (metadata (nr_gateway s))) s"

definition append_submit :: "stable_hash \<Rightarrow> (string \<Rightarrow> string) \<Rightarrow> nk_config \<Rightarrow> nk_request \<Rightarrow> nk_step" where
  "append_submit H T c r =
     nk_append H T (with_order r (str_upper (nq_side r)) (nq_client_order_id r)
       (nk_event c ''ORDER_SUBMIT'' (Some ''SUBMITTED'') None
          [(''private_keys_required'', PBool False), (''live_order_path_enabled'', PBool False)]))"

definition some_filled :: "string \<Rightarrow> string option" where
  "some_filled s = (if s = [] then None else Some s)"

definition append_order_event ::
    "stable_hash \<Rightarrow> (string \<Rightarrow> string) \<Rightarrow> nk_config \<Rightarrow> string \<Rightarrow> gw_order \<Rightarrow> string option \<Rightarrow> nk_step" where
  "append_order_event H T c kind order reason =
     nk_append H T ((nk_event c kind (some_filled (go_status order)) reason
         [(''gateway'', PStr ''fake_binance_usdm_private'')])
       \<lparr>ei_symbol := some_filled (go_symbol order), ei_side := some_filled (go_side order),
        ei_order_id_client := some_filled (go_order_id_client order),
        ei_order_id_exchange := some_filled (go_order_id_exchange order),
        ei_qty := Some (go_qty order), ei_price := Some (go_price order)\<rparr>)"

text \<open>Without a reason to reject, \<open>submit_order\<close> answers with the order.\<close>

definition append_ack :: "stable_hash \<Rightarrow> (string \<Rightarrow> string) \<Rightarrow> nk_config \<Rightarrow> nk_request \<Rightarrow> nk_step" where
  "append_ack H T c r s =
     (case submit_order r None (nr_gateway s) of
        (Inr order, g) \<Rightarrow> append_order_event H T c ''ORDER_ACK'' order None (s\<lparr>nr_gateway := g\<rparr>)
      | (Inl rej, g) \<Rightarrow> nk_append H T
          ((nk_event c ''ORDER_ACK'' (some_filled (gj_status rej)) None
              [(''gateway'', PStr ''fake_binance_usdm_private'')])
            \<lparr>ei_order_id_client := some_filled (gj_order_id_client rej)\<rparr>) (s\<lparr>nr_gateway := g\<rparr>))"

definition append_fill ::
    "stable_hash \<Rightarrow> (string \<Rightarrow> string) \<Rightarrow> nk_config \<Rightarrow> nk_request \<Rightarrow> pyfloat \<Rightarrow> string \<Rightarrow> string option \<Rightarrow> nat \<Rightarrow> nk_step" where
  "append_fill H T c r qty status fill_id ordinal s =
     (let fill = fill_order r qty
            (str_or fill_id (nq_client_order_id r @ '':fill:'' @ nat_text ordinal)) status (nr_gateway s)
      in nk_append H T ((with_order r (str_upper (nq_side r)) (nq_client_order_id r)
            (nk_event c ''FILL'' (Some status) None
               [(''fill_id'', PStr (gf_fill_id fill)), (''fee'', PFloat (gf_fee fill)),
                (''maker_taker'', PStr (gf_maker_taker fill)),
                (''liquidity_flag'', PStr (gf_liquidity_flag fill))]))
          \<lparr>ei_order_id_exchange := (if filled_str (gf_order_id_exchange fill) then gf_order_id_exchange fill else None),
           ei_qty := Some (gf_qty fill), ei_price := Some (gf_price fill)\<rparr>) s)"

definition append_reject ::
    "stable_hash \<Rightarrow> (string \<Rightarrow> string) \<Rightarrow> nk_config \<Rightarrow> nk_request \<Rightarrow> string \<Rightarrow> string \<Rightarrow> nk_step" where
  "append_reject H T c r client reason =
     nk_append H T (with_order r (nq_side r) client (nk_event c ''ORDER_REJECT'' (Some ''REJECTED'') (Some reason) []))"

definition append_ack_and_fill ::
    "stable_hash \<Rightarrow> (string \<Rightarrow> string) \<Rightarrow> nk_config \<Rightarrow> nk_request \<Rightarrow> pyfloat \<Rightarrow> string \<Rightarrow> nk_step" where
  "append_ack_and_fill H T c r qty status =
     run_steps [append_ack H T c r, append_fill H T c r qty status None 1]"

definition on_gateway :: "(gateway \<Rightarrow> gateway) \<Rightarrow> nk_step" where
  "on_gateway f s = (Inr (), s\<lparr>nr_gateway := f (nr_gateway s)\<rparr>)"

definition block_code :: "string \<Rightarrow> nk_step" where
  "block_code code s = (Inr (), s\<lparr>nr_blocker_codes := nr_blocker_codes s @ [code]\<rparr>)"

definition safe_action :: "string \<Rightarrow> nk_step" where
  "safe_action action s = (Inr (), s\<lparr>nr_safe_actions := nr_safe_actions s @ [action]\<rparr>)"

definition record_order_lifecycle :: "stable_hash \<Rightarrow> (string \<Rightarrow> string) \<Rightarrow> nk_config \<Rightarrow> nk_request \<Rightarrow> nk_step" where
  "record_order_lifecycle H T c r =
     run_steps
       (if nq_reduce_only r \<and> str_upper (nq_side r) = ''BUY''
        then [block_code ''reduce_only_reject'', append_submit H T c r,
              append_reject H T c r (nq_client_order_id r) ''reduce_only_reject'']
        else [append_submit H T c r, append_ack_and_fill H T c r (nq_qty r) ''FILLED''])"

section \<open>Rebuilding the projections\<close>

record nk_projection =
  np_projection :: base_projection
  np_first_projection_digest :: string
  np_second_projection_digest :: string
  np_replay_deterministic :: bool

definition rebuild_twice :: "live_digest \<Rightarrow> exec_db \<Rightarrow> nk_projection result \<times> exec_db" where
  "rebuild_twice D db =
     (case rebuild_execution_projections D db of
        (Inl e, db1) \<Rightarrow> (Inl e, db1)
      | (Inr first, db1) \<Rightarrow>
          (case rebuild_execution_projections D db1 of
             (Inl e, db2) \<Rightarrow> (Inl e, db2)
           | (Inr second, db2) \<Rightarrow>
               (Inr \<lparr>np_projection = second, np_first_projection_digest = bp_projection_digest first,
                     np_second_projection_digest = bp_projection_digest second,
                     np_replay_deterministic = (bp_projection_digest first = bp_projection_digest second)\<rparr>,
                db2)))"

record nk_report =
  nx_scenario_id :: string
  nx_session_id :: string
  nx_private_keys_required :: bool
  nx_live_order_path_enabled :: bool
  nx_event_types :: "string list"
  nx_blocker_codes :: "string list"
  nx_safe_actions :: "string list"
  nx_projection :: nk_projection

definition nk_start :: "exec_db \<Rightarrow> nk_run" where
  "nk_start db = \<lparr>nr_db = db, nr_gateway = new_gateway, nr_event_types = [], nr_blocker_codes = [], nr_safe_actions = []\<rparr>"

definition assert_no_live_private_path :: "nk_config \<Rightarrow> unit result" where
  "assert_no_live_private_path c =
     raise_unless (\<not> nk_allow_live_private_path c) (ValueError ''phase2_no_key_executor_forbids_live_private_path'')"

definition engine_start :: "stable_hash \<Rightarrow> (string \<Rightarrow> string) \<Rightarrow> nk_config \<Rightarrow> nk_step" where
  "engine_start H T c = nk_log H T c ''ENGINE_START'' ''STARTED'' None (\<lambda>g. [(''scenario_id'', PStr (nk_scenario_id c))])"

definition position_reconcile :: "stable_hash \<Rightarrow> (string \<Rightarrow> string) \<Rightarrow> nk_config \<Rightarrow> nk_step" where
  "position_reconcile H T c = nk_log H T c ''POSITION_RECONCILE'' ''RECONCILED'' None account_snapshot"

definition engine_stop :: "stable_hash \<Rightarrow> (string \<Rightarrow> string) \<Rightarrow> nk_config \<Rightarrow> nk_step" where
  "engine_stop H T c = nk_log H T c ''ENGINE_STOP'' ''STOPPED'' None (\<lambda>g. [(''scenario_id'', PStr (nk_scenario_id c))])"

text \<open>The end of a run: the projections are rebuilt and the report is made of what the run collected.\<close>

definition nk_finish ::
    "live_digest \<Rightarrow> nk_config \<Rightarrow> (string list \<Rightarrow> string list) \<Rightarrow> unit result \<times> nk_run \<Rightarrow> nk_report result \<times> exec_db" where
  "nk_finish D c tidy run =
     (case run of
        (Inl e, s) \<Rightarrow> (Inl e, nr_db s)
      | (Inr u, s) \<Rightarrow>
          (case rebuild_twice D (nr_db s) of
             (Inl e, db) \<Rightarrow> (Inl e, db)
           | (Inr p, db) \<Rightarrow>
               (Inr \<lparr>nx_scenario_id = nk_scenario_id c, nx_session_id = nk_session_id c,
                     nx_private_keys_required = False, nx_live_order_path_enabled = False,
                     nx_event_types = nr_event_types s, nx_blocker_codes = tidy (nr_blocker_codes s),
                     nx_safe_actions = tidy (nr_safe_actions s), nx_projection = p\<rparr>, db)))"

definition run_no_key_executor_fixture ::
    "stable_hash \<Rightarrow> (string \<Rightarrow> string) \<Rightarrow> live_digest \<Rightarrow> nk_config \<Rightarrow> nk_request list \<Rightarrow> exec_db \<Rightarrow> nk_report result \<times> exec_db" where
  "run_no_key_executor_fixture H T D c requests db =
     (case assert_no_live_private_path c of
        Inl e \<Rightarrow> (Inl e, db)
      | Inr u \<Rightarrow> nk_finish D c (\<lambda>xs. xs)
          (run_steps ([engine_start H T c] @ map (record_order_lifecycle H T c) requests
                      @ [position_reconcile H T c, engine_stop H T c]) (nk_start db)))"

section \<open>The chaos scenarios\<close>

definition half :: "pyfloat \<Rightarrow> pyfloat" where
  "half x = fquot x (Fin 2)"

definition snapshot_event :: "stable_hash \<Rightarrow> (string \<Rightarrow> string) \<Rightarrow> nk_config \<Rightarrow> string \<Rightarrow> string \<Rightarrow> nk_step" where
  "snapshot_event H T c status reason = nk_log H T c ''ACCOUNT_SNAPSHOT'' status (Some reason) account_snapshot"

definition scenario_table ::
    "stable_hash \<Rightarrow> (string \<Rightarrow> string) \<Rightarrow> nk_config \<Rightarrow> nk_request \<Rightarrow> (string, nk_step list) dict" where
  "scenario_table H T c r =
     (let submit = append_submit H T c r; ack = append_ack H T c r; q = nq_qty r; client = nq_client_order_id r;
          log = (\<lambda>kind status reason. nk_log H T c kind status reason (\<lambda>g. []))
      in
        [(''normal'', [record_order_lifecycle H T c r]),
         (''mid_order_crash'',
            [submit, log ''ENGINE_STOP'' ''CRASHED'' (Some ''mid_order_crash''),
             log ''ENGINE_RECOVER_REPLAY'' ''RECOVERED'' None, append_ack_and_fill H T c r q ''FILLED'']),
         (''partial_fill_restart'',
            [submit, append_ack_and_fill H T c r (half q) ''PARTIALLY_FILLED'',
             log ''ENGINE_RECOVER_REPLAY'' ''RECOVERED'' None,
             append_fill H T c r (half q) ''FILLED'' None 2]),
         (''duplicate_fill'',
            [submit, ack, append_fill H T c r q ''FILLED'' (Some (client @ '':fill:duplicate'')) 1,
             append_fill H T c r q ''FILLED'' (Some (client @ '':fill:duplicate'')) 1,
             block_code ''duplicate_fill_ignored'']),
         (''orphan_order'',
            [\<lambda>s. let (orphan, g) = inject_orphan_order r (nr_gateway s)
                 in append_order_event H T c ''ORDER_ACK'' orphan (Some ''orphan_exchange_order'') (s\<lparr>nr_gateway := g\<rparr>),
             block_code ''orphan_order_detected'', safe_action ''cancel_all_simulated'']),
         (''stale_websocket'',
            [on_gateway (\<lambda>g. g\<lparr>gw_stale_account_snapshot := True\<rparr>), submit, ack,
             snapshot_event H T c ''STALE'' ''stale_account_snapshot'',
             log ''RISK_BLOCK'' ''BLOCKED'' (Some ''stale_websocket''), block_code ''stale_websocket_detected'']),
         (''network_partition'',
            [on_gateway (\<lambda>g. g\<lparr>gw_network_partitioned := True\<rparr>), submit,
             append_reject H T c r client ''network_partition'',
             log ''KILL_SWITCH_TRIGGER'' ''TRIGGERED'' (Some ''network_partition''),
             block_code ''network_partition_detected'', safe_action ''kill_switch_simulated'']),
         (''clock_drift'',
            [on_gateway (\<lambda>g. g\<lparr>gw_clock_drift_seconds := 42\<rparr>),
             snapshot_event H T c ''CLOCK_DRIFT'' ''clock_drift'',
             log ''RISK_BLOCK'' ''BLOCKED'' (Some ''clock_drift''), block_code ''clock_drift_detected'']),
         (''reduce_only_reject'',
            [submit,
             (\<lambda>s. case submit_order r (Some ''reduce_only_reject'') (nr_gateway s) of
                   (Inl rej, g) \<Rightarrow> nk_append H T
                     (with_order r (nq_side r) client (nk_event c ''ORDER_REJECT'' (Some (gj_status rej)) (Some (gj_reason_code rej)) []))
                     (s\<lparr>nr_gateway := g\<rparr>)
                 | (Inr order, g) \<Rightarrow> (Inl (KeyError ''reason_code''), s\<lparr>nr_gateway := g\<rparr>)),
             block_code ''reduce_only_reject'']),
         (''exchange_error_storm'',
            [on_gateway (\<lambda>g. g\<lparr>gw_error_storm := True\<rparr>)]
            @ map (\<lambda>i. append_reject H T c r (client @ ''-err-'' @ nat_text i) ''exchange_error_storm'') [0, 1, 2]
            @ [log ''KILL_SWITCH_TRIGGER'' ''TRIGGERED'' (Some ''exchange_error_storm''),
               block_code ''exchange_error_storm'', safe_action ''kill_switch_simulated'']),
         (''disk_full'',
            [log ''RISK_BLOCK'' ''BLOCKED'' (Some ''disk_full_simulated''), block_code ''disk_full_simulated'',
             safe_action ''engine_pause_simulated'']),
         (''db_lock_retry'',
            [log ''RISK_BLOCK'' ''RETRY'' (Some ''db_lock_retry''), block_code ''db_lock_retry'']),
         (''corrupted_projection'',
            [record_order_lifecycle H T c r,
             log ''ENGINE_RECOVER_REPLAY'' ''RECOVERED'' (Some ''corrupted_projection''),
             block_code ''corrupted_projection_rebuilt''])])"

definition cancel_all_if_needed :: "string \<Rightarrow> nk_step" where
  "cancel_all_if_needed scenario s =
     (if ''cancel_all_simulated'' \<notin> set (nr_safe_actions s)
         \<and> scenario \<in> set [''stale_websocket'', ''disk_full'', ''db_lock_retry'']
      then safe_action ''cancel_all_simulated'' s else (Inr (), s))"

definition empty_db :: exec_db where
  "empty_db = \<lparr>xb_events = [], xb_live = \<lparr>lt_orders = [], lt_fills = [], lt_positions = [], lt_risk = []\<rparr>,
     xb_accounting = no_accounting, xb_checkpoints = []\<rparr>"

text \<open>The database file is deleted first, so the run starts from an empty store.\<close>

definition run_single_chaos_scenario ::
    "stable_hash \<Rightarrow> (string \<Rightarrow> string) \<Rightarrow> live_digest \<Rightarrow> nk_config \<Rightarrow> nk_request \<Rightarrow> string option \<Rightarrow> exec_db
     \<Rightarrow> nk_report result \<times> exec_db" where
  "run_single_chaos_scenario H T D config r scenario_id db =
     (let scenario = str_or scenario_id (nk_scenario_id config);
          c = config\<lparr>nk_scenario_id := scenario\<rparr>
      in case assert_no_live_private_path c of
           Inl e \<Rightarrow> (Inl e, db)
         | Inr u \<Rightarrow> nk_finish D c sorted_set
             (run_steps
               ([engine_start H T c]
                @ (case map_of (scenario_table H T c r) scenario of
                     None \<Rightarrow> [\<lambda>s. (Inl (ValueError (''unknown chaos scenario: '' @ scenario)), s)]
                   | Some steps \<Rightarrow> steps)
                @ [position_reconcile H T c, cancel_all_if_needed scenario, engine_stop H T c])
               (nk_start empty_db)))"

definition chaos_scenarios :: "string list" where
  "chaos_scenarios =
     [''mid_order_crash'', ''stale_websocket'', ''duplicate_fill'', ''orphan_order'', ''partial_fill_restart'',
      ''corrupted_projection'', ''disk_full'', ''db_lock_retry'', ''network_partition'', ''clock_drift'',
      ''reduce_only_reject'', ''exchange_error_storm'']"

text \<open>\<open>Path.stem\<close> and \<open>Path.suffix\<close> of a file name: the part from the last dot that is neither the first
  nor the last character.\<close>

definition path_suffix :: "string \<Rightarrow> string" where
  "path_suffix name =
     (let tail = takeWhile (\<lambda>c. c \<noteq> CHR ''.'') (rev name); k = length name - length tail
      in if CHR ''.'' \<in> set name \<and> tail \<noteq> [] \<and> 1 < k then drop (k - 1) name else [])"

definition path_stem :: "string \<Rightarrow> string" where
  "path_stem name = take (length name - length (path_suffix name)) name"

definition scenario_db_path :: "string \<Rightarrow> string \<Rightarrow> string" where
  "scenario_db_path name scenario =
     str_or (Some (path_stem name)) ''phase2'' @ ''-'' @ scenario @ str_or (Some (path_suffix name)) ''.sqlite''"

record chaos_report =
  ch_scenario_id :: string
  ch_session_id :: string
  ch_private_keys_required :: bool
  ch_live_order_path_enabled :: bool
  ch_scenarios :: "nk_report list"
  ch_safe_actions :: "string list"

text \<open>The databases of the directory, by file name.\<close>

type_synonym db_files = "(string, exec_db) dict"

fun chaos_loop ::
    "stable_hash \<Rightarrow> (string \<Rightarrow> string) \<Rightarrow> live_digest \<Rightarrow> nk_config \<Rightarrow> string \<Rightarrow> nk_request \<Rightarrow> string list \<Rightarrow> nk_report list
     \<Rightarrow> db_files \<Rightarrow> nk_report list result \<times> db_files" where
  "chaos_loop H T D c name r [] reports dbs = (Inr reports, dbs)"
| "chaos_loop H T D c name r (scenario # rest) reports dbs =
     (let path = scenario_db_path name scenario;
          (result, db) = run_single_chaos_scenario H T D (c\<lparr>nk_scenario_id := scenario\<rparr>)
            (r\<lparr>nq_client_order_id := nq_client_order_id r @ ''-'' @ scenario\<rparr>) None (dget dbs path empty_db)
      in case result of
           Inl e \<Rightarrow> (Inl e, if nk_allow_live_private_path c then dbs else AList.update path db dbs)
         | Inr report \<Rightarrow> chaos_loop H T D c name r rest (reports @ [report]) (AList.update path db dbs))"

definition run_phase2_chaos_replay ::
    "stable_hash \<Rightarrow> (string \<Rightarrow> string) \<Rightarrow> live_digest \<Rightarrow> nk_config \<Rightarrow> string \<Rightarrow> nk_request \<Rightarrow> db_files
     \<Rightarrow> chaos_report result \<times> db_files" where
  "run_phase2_chaos_replay H T D c name r dbs =
     (case chaos_loop H T D c name r chaos_scenarios [] dbs of
        (Inl e, dbs') \<Rightarrow> (Inl e, dbs')
      | (Inr reports, dbs') \<Rightarrow>
          (Inr \<lparr>ch_scenario_id = nk_scenario_id c, ch_session_id = nk_session_id c,
                ch_private_keys_required = False, ch_live_order_path_enabled = False, ch_scenarios = reports,
                ch_safe_actions = sorted_set (concat (map nx_safe_actions reports)
                  @ [''cancel_all_simulated'', ''kill_switch_simulated''])\<rparr>, dbs'))"


section \<open>What a run emits\<close>

text \<open>The part of an event that decides how it is replayed, and a run that always succeeds and appends
  events with given such parts.\<close>

record event_view =
  vw_kind :: string
  vw_client :: "string option"
  vw_symbol :: "string option"
  vw_side :: "string option"
  vw_qty :: "pyfloat option"
  vw_fill :: string

definition shows_as :: "stored_event \<Rightarrow> event_view \<Rightarrow> bool" where
  "shows_as e v \<longleftrightarrow> ei_event_type e = vw_kind v \<and> ei_order_id_client e = vw_client v
     \<and> ei_symbol e = vw_symbol v \<and> ei_side e = vw_side v \<and> ei_qty e = vw_qty v
     \<and> (vw_kind v \<in> set fill_events \<longrightarrow> event_fill_id e = vw_fill v
          \<and> (\<exists>x. num_or_none (pget (ei_metadata e) ''fee'') = Inr x))"

definition emits :: "nk_step \<Rightarrow> event_view list \<Rightarrow> bool" where
  "emits f vs \<longleftrightarrow> (\<forall>s. \<exists>s' es. f s = (Inr (), s') \<and> nr_db s' = (nr_db s)\<lparr>xb_events := xb_events (nr_db s) @ es\<rparr>
     \<and> list_all2 shows_as es vs \<and> nr_event_types s' = nr_event_types s @ map vw_kind vs)"

lemma emitsE:
  assumes "emits f vs"
  obtains s' es where "f s = (Inr (), s')" "nr_db s' = (nr_db s)\<lparr>xb_events := xb_events (nr_db s) @ es\<rparr>"
    "list_all2 shows_as es vs" "nr_event_types s' = nr_event_types s @ map vw_kind vs"
  using assms unfolding emits_def by blast

lemma emits_Nil: "emits (run_steps []) []"
  by (auto simp: emits_def)

lemma emits_Cons:
  assumes "emits f vs" "emits (run_steps fs) ws"
  shows "emits (run_steps (f # fs)) (vs @ ws)"
  unfolding emits_def
proof
  fix s :: nk_run
  obtain s1 es where 1: "f s = (Inr (), s1)" "nr_db s1 = (nr_db s)\<lparr>xb_events := xb_events (nr_db s) @ es\<rparr>"
    "list_all2 shows_as es vs" "nr_event_types s1 = nr_event_types s @ map vw_kind vs"
    using assms(1) by (rule emitsE)
  obtain s2 fs' where 2: "run_steps fs s1 = (Inr (), s2)" "nr_db s2 = (nr_db s1)\<lparr>xb_events := xb_events (nr_db s1) @ fs'\<rparr>"
    "list_all2 shows_as fs' ws" "nr_event_types s2 = nr_event_types s1 @ map vw_kind ws"
    using assms(2) by (rule emitsE)
  show "\<exists>s' es. run_steps (f # fs) s = (Inr (), s') \<and> nr_db s' = (nr_db s)\<lparr>xb_events := xb_events (nr_db s) @ es\<rparr>
     \<and> list_all2 shows_as es (vs @ ws) \<and> nr_event_types s' = nr_event_types s @ map vw_kind (vs @ ws)"
    using 1 2 by (intro exI [of _ s2] exI [of _ "es @ fs'"]) (simp add: list_all2_appendI)
qed

lemma emits_append:
  assumes "emits (run_steps fs) vs" "emits (run_steps gs) ws"
  shows "emits (run_steps (fs @ gs)) (vs @ ws)"
  unfolding emits_def
proof
  fix s :: nk_run
  obtain s1 es where 1: "run_steps fs s = (Inr (), s1)" "nr_db s1 = (nr_db s)\<lparr>xb_events := xb_events (nr_db s) @ es\<rparr>"
    "list_all2 shows_as es vs" "nr_event_types s1 = nr_event_types s @ map vw_kind vs"
    using assms(1) by (rule emitsE)
  obtain s2 fs' where 2: "run_steps gs s1 = (Inr (), s2)" "nr_db s2 = (nr_db s1)\<lparr>xb_events := xb_events (nr_db s1) @ fs'\<rparr>"
    "list_all2 shows_as fs' ws" "nr_event_types s2 = nr_event_types s1 @ map vw_kind ws"
    using assms(2) by (rule emitsE)
  have app: "run_steps xs t = (Inr (), t') \<Longrightarrow> run_steps (xs @ gs) t = run_steps gs t'" for xs t t'
    by (induction xs arbitrary: t) (auto split: prod.splits sum.splits)
  show "\<exists>s' es. run_steps (fs @ gs) s = (Inr (), s') \<and> nr_db s' = (nr_db s)\<lparr>xb_events := xb_events (nr_db s) @ es\<rparr>
     \<and> list_all2 shows_as es (vs @ ws) \<and> nr_event_types s' = nr_event_types s @ map vw_kind (vs @ ws)"
    using 1 2 app [OF 1(1)] by (intro exI [of _ s2] exI [of _ "es @ fs'"]) (simp add: list_all2_appendI)
qed

definition view_of :: "event_input \<Rightarrow> event_view" where
  "view_of x = \<lparr>vw_kind = ei_event_type x, vw_client = ei_order_id_client x, vw_symbol = ei_symbol x,
     vw_side = ei_side x, vw_qty = sql_opt (ei_qty x),
     vw_fill = (if ei_event_type x \<in> set fill_events then py_str (pget (ei_metadata x) ''fill_id'') else [])\<rparr>"

definition loggable :: "event_input \<Rightarrow> bool" where
  "loggable x \<longleftrightarrow> ei_event_type x \<in> set execution_event_types
     \<and> (ei_event_type x \<in> set fill_events \<longrightarrow> truthy (pget (ei_metadata x) ''fill_id'')
          \<and> (\<exists>y. num_or_none (pget (ei_metadata x) ''fee'') = Inr y))"

lemma emitsI:
  assumes "\<And>s. \<exists>x s0. f s = nk_append H T x s0 \<and> nr_db s0 = nr_db s \<and> nr_event_types s0 = nr_event_types s
     \<and> loggable x \<and> view_of x = v"
  shows "emits f [v]"
  unfolding emits_def
proof
  fix s :: nk_run
  obtain x s0 where x: "f s = nk_append H T x s0" "nr_db s0 = nr_db s" "nr_event_types s0 = nr_event_types s"
    "loggable x" "view_of x = v" using assms by blast
  let ?es = "xb_events (nr_db s)"
  let ?e = "event_input.extend (x\<lparr>ei_qty := sql_opt (ei_qty x), ei_price := sql_opt (ei_price x)\<rparr>)
              \<lparr>ee_event_id = int (length ?es) + 1,
               ee_previous_digest = (if last_digest ?es = [] then None else Some (last_digest ?es)),
               ee_event_digest = H (event_payload (last_digest ?es) x),
               ee_segment_digest = T (last_digest ?es @ '':'' @ H (event_payload (last_digest ?es) x))\<rparr>"
  have "append_execution_event H T x ?es = Inr (?es @ [?e])"
    using x(4) by (simp add: append_Inr loggable_def)
  moreover have "shows_as ?e v"
    using x(4,5) by (cases x) (auto simp: shows_as_def view_of_def loggable_def event_fill_id_def event_input.defs)
  moreover have "vw_kind v = ei_event_type x" using x(5) by (auto simp: view_of_def)
  ultimately show "\<exists>s' es. f s = (Inr (), s') \<and> nr_db s' = (nr_db s)\<lparr>xb_events := ?es @ es\<rparr>
     \<and> list_all2 shows_as es [v] \<and> nr_event_types s' = nr_event_types s @ map vw_kind [v]"
    by (intro exI [of _ "snd (f s)"] exI [of _ "[?e]"]) (simp add: x(1-3) nk_append_def)
qed

lemma emits_silent:
  "(\<And>s. \<exists>s'. f s = (Inr (), s') \<and> nr_db s' = nr_db s \<and> nr_event_types s' = nr_event_types s) \<Longrightarrow> emits f []"
  unfolding emits_def by (metis append_Nil2 exec_db.surjective exec_db.update_convs(1) list.simps(8) list_all2_Nil)

lemma emits_bookkeeping:
  "emits (on_gateway g) []" "emits (block_code code) []" "emits (safe_action a) []" "emits (cancel_all_if_needed sc) []"
  by (rule emits_silent; simp add: on_gateway_def block_code_def safe_action_def cancel_all_if_needed_def)+

definition plain_view :: "string \<Rightarrow> event_view" where
  "plain_view kind = \<lparr>vw_kind = kind, vw_client = None, vw_symbol = None, vw_side = None, vw_qty = None, vw_fill = []\<rparr>"

definition order_view :: "nk_request \<Rightarrow> string \<Rightarrow> string \<Rightarrow> string \<Rightarrow> pyfloat \<Rightarrow> string \<Rightarrow> event_view" where
  "order_view r kind client side qty fill =
     \<lparr>vw_kind = kind, vw_client = Some client, vw_symbol = Some (nq_symbol r), vw_side = Some side,
      vw_qty = sql_opt (Some qty), vw_fill = fill\<rparr>"

lemma emits_log:
  assumes "kind \<in> set execution_event_types" "kind \<notin> set fill_events"
  shows "emits (nk_log H T c kind status reason md) [plain_view kind]"
proof (rule emitsI [where H = H and T = T])
  fix s :: nk_run
  show "\<exists>x s0. nk_log H T c kind status reason md s = nk_append H T x s0 \<and> nr_db s0 = nr_db s
     \<and> nr_event_types s0 = nr_event_types s \<and> loggable x \<and> view_of x = plain_view kind"
    using assms
    by (intro exI [of _ "nk_event c kind (Some status) reason (md (nr_gateway s))"] exI [of _ s])
       (simp add: nk_log_def loggable_def view_of_def plain_view_def nk_event_def)
qed

lemma emits_append_event: "loggable x \<Longrightarrow> emits (nk_append H T x) [view_of x]"
  by (rule emitsI [where H = H and T = T]) auto

lemma emits_submit:
  "emits (append_submit H T c r) [order_view r ''ORDER_SUBMIT'' (nq_client_order_id r) (str_upper (nq_side r)) (nq_qty r) []]"
proof -
  let ?x = "with_order r (str_upper (nq_side r)) (nq_client_order_id r)
       (nk_event c ''ORDER_SUBMIT'' (Some ''SUBMITTED'') None
          [(''private_keys_required'', PBool False), (''live_order_path_enabled'', PBool False)])"
  have "loggable ?x" by (simp add: loggable_def with_order_def nk_event_def execution_event_types_def fill_events_def)
  from emits_append_event [OF this, of H T] show ?thesis
    by (simp add: append_submit_def view_of_def order_view_def with_order_def nk_event_def fill_events_def)
qed

lemma emits_reject:
  "emits (append_reject H T c r client reason) [order_view r ''ORDER_REJECT'' client (nq_side r) (nq_qty r) []]"
proof -
  let ?x = "with_order r (nq_side r) client (nk_event c ''ORDER_REJECT'' (Some ''REJECTED'') (Some reason) [])"
  have "loggable ?x" by (simp add: loggable_def with_order_def nk_event_def execution_event_types_def fill_events_def)
  from emits_append_event [OF this, of H T] show ?thesis
    by (simp add: append_reject_def view_of_def order_view_def with_order_def nk_event_def fill_events_def)
qed

lemma nk_metadata_get:
  "pget (nk_metadata c md) k = (case map_of (rev md) k of Some v \<Rightarrow> v
     | None \<Rightarrow> pget (rev [(''session_id'', PStr (nk_session_id c)), (''scenario_id'', PStr (nk_scenario_id c)),
               (''private_keys_required'', PBool False), (''live_order_path_enabled'', PBool False)]) k)"
  by (simp add: nk_metadata_def pget_def map_of_dict_of map_add_def split: option.split)

lemma emits_fill:
  assumes "str_or fill_id (nq_client_order_id r @ '':fill:'' @ nat_text n) = fid" "fid \<noteq> []"
  shows "emits (append_fill H T c r qty status fill_id n)
     [order_view r ''FILL'' (nq_client_order_id r) (str_upper (nq_side r)) qty fid]"
proof (rule emitsI [where H = H and T = T])
  fix s :: nk_run
  let ?fill = "fill_order r qty fid status (nr_gateway s)"
  let ?x = "(with_order r (str_upper (nq_side r)) (nq_client_order_id r)
            (nk_event c ''FILL'' (Some status) None
               [(''fill_id'', PStr (gf_fill_id ?fill)), (''fee'', PFloat (gf_fee ?fill)),
                (''maker_taker'', PStr (gf_maker_taker ?fill)),
                (''liquidity_flag'', PStr (gf_liquidity_flag ?fill))]))
          \<lparr>ei_order_id_exchange := (if filled_str (gf_order_id_exchange ?fill) then gf_order_id_exchange ?fill else None),
           ei_qty := Some (gf_qty ?fill), ei_price := Some (gf_price ?fill)\<rparr>"
  have "append_fill H T c r qty status fill_id n s = nk_append H T ?x s"
    using assms(1) by (simp add: append_fill_def Let_def)
  moreover have "loggable ?x"
    using assms(2) by (simp add: loggable_def with_order_def nk_event_def execution_event_types_def nk_metadata_get fill_order_def)
  moreover have "view_of ?x = order_view r ''FILL'' (nq_client_order_id r) (str_upper (nq_side r)) qty fid"
    by (simp add: view_of_def order_view_def with_order_def nk_event_def fill_events_def fill_order_def nk_metadata_get)
  ultimately show "\<exists>x s0. append_fill H T c r qty status fill_id n s = nk_append H T x s0 \<and> nr_db s0 = nr_db s
     \<and> nr_event_types s0 = nr_event_types s \<and> loggable x
     \<and> view_of x = order_view r ''FILL'' (nq_client_order_id r) (str_upper (nq_side r)) qty fid"
    by blast
qed

lemma emits_order_event:
  assumes "\<And>s. \<exists>s0 i reason. f s = append_order_event H T c ''ORDER_ACK'' (fake_order r client i) reason s0
      \<and> nr_db s0 = nr_db s \<and> nr_event_types s0 = nr_event_types s"
    and "nq_symbol r \<noteq> []" "nq_side r \<noteq> []" "client \<noteq> []"
  shows "emits f [order_view r ''ORDER_ACK'' client (str_upper (nq_side r)) (nq_qty r) []]"
proof (rule emitsI [where H = H and T = T])
  fix s :: nk_run
  obtain s0 i reason where f: "f s = append_order_event H T c ''ORDER_ACK'' (fake_order r client i) reason s0"
      "nr_db s0 = nr_db s" "nr_event_types s0 = nr_event_types s" using assms(1) by blast
  show "\<exists>x s0. f s = nk_append H T x s0 \<and> nr_db s0 = nr_db s \<and> nr_event_types s0 = nr_event_types s \<and> loggable x
     \<and> view_of x = order_view r ''ORDER_ACK'' client (str_upper (nq_side r)) (nq_qty r) []"
    unfolding f(1) append_order_event_def
    by (intro exI conjI, rule refl)
       (use assms(2-) f in \<open>simp_all add: loggable_def nk_event_def execution_event_types_def view_of_def order_view_def
          fake_order_def some_filled_def fill_events_def str_upper_def\<close>)
qed

lemma emits_ack:
  assumes "nq_symbol r \<noteq> []" "nq_side r \<noteq> []" "nq_client_order_id r \<noteq> []"
  shows "emits (append_ack H T c r)
    [order_view r ''ORDER_ACK'' (nq_client_order_id r) (str_upper (nq_side r)) (nq_qty r) []]"
  by (rule emits_order_event [where H = H and T = T and c = c, OF _ assms])
     (auto simp: append_ack_def submit_order_def filled_str_def Let_def
       intro!: exI [of _ "_\<lparr>nr_gateway := _\<rparr>"])

section \<open>Replaying what was emitted\<close>

text \<open>The filled quantity of every order, the quantity of every fill and the net position of every symbol:
  what the replay does with the parts that are shown.\<close>

record tally =
  ty_orders :: "(string, pyfloat) dict"
  ty_fills :: "(string, pyfloat) dict"
  ty_positions :: "(string, pyfloat) dict"

definition no_tally :: tally where
  "no_tally = \<lparr>ty_orders = [], ty_fills = [], ty_positions = []\<rparr>"

definition tally_fill :: "event_view \<Rightarrow> tally \<Rightarrow> tally" where
  "tally_fill v t =
     (let t1 = t\<lparr>ty_fills := AList.update (vw_fill v) (fabs (or_zero (vw_qty v))) (ty_fills t)\<rparr>
      in case vw_symbol v of
           None \<Rightarrow> t1
         | Some y \<Rightarrow> if y = [] then t1
             else t1\<lparr>ty_positions := AList.update y
                 (fadd (dget (ty_positions t) y (Fin 0)) (signed_quantity (vw_side v) (vw_qty v))) (ty_positions t)\<rparr>)"

definition tally_order :: "event_view \<Rightarrow> string \<Rightarrow> tally \<Rightarrow> tally" where
  "tally_order v oid t =
     (let filled = dget (ty_orders t) oid (Fin 0);
          fresh = (vw_kind v \<in> set fill_events \<and> vw_fill v \<notin> dkeys (ty_fills t));
          t1 = (if fresh then tally_fill v t else t)
      in t1\<lparr>ty_orders := AList.update oid
           (sql_default0 (if fresh then fadd filled (fabs (or_zero (vw_qty v))) else filled)) (ty_orders t)\<rparr>)"

definition tally_event :: "event_view \<Rightarrow> tally \<Rightarrow> tally" where
  "tally_event v t =
     (case vw_client v of
        None \<Rightarrow> t
      | Some oid \<Rightarrow> if oid = [] \<or> vw_kind v \<notin> set order_events then t else tally_order v oid t)"

definition map_dict :: "('v \<Rightarrow> 'w) \<Rightarrow> ('k, 'v) dict \<Rightarrow> ('k, 'w) dict" where
  "map_dict f d = map (\<lambda>(k, v). (k, f v)) d"

lemma map_dict_simps:
  "map_dict f (AList.update k v d) = AList.update k (f v) (map_dict f d)"
  "dkeys (map_dict f d) = dkeys d" "map_of (map_dict f d) k = map_option f (map_of d k)" "map_dict f [] = []"
  by (induction d) (auto simp: map_dict_def dkeys_def)

definition tallies :: "replay_state \<Rightarrow> tally \<Rightarrow> bool" where
  "tallies s t \<longleftrightarrow> map_dict or_filled_qty (rp_orders s) = ty_orders t
     \<and> map_dict (\<lambda>r. or_zero (fr_qty r)) (rp_fills s) = ty_fills t
     \<and> rp_position_qty s = ty_positions t \<and> rp_seen s = dkeys (rp_fills s)"

lemma tallies_record_fill:
  assumes "tallies s t" "shows_as e v" "vw_kind v \<in> set fill_events" "vw_fill v \<notin> dkeys (ty_fills t)"
  shows "\<exists>s'. record_fill e (event_fill_id e) s = Inr s' \<and> tallies s' (tally_fill v t) \<and> rp_orders s' = rp_orders s"
proof -
  obtain x where fee: "num_or_none (pget (ei_metadata e) ''fee'') = Inr x" and fid: "event_fill_id e = vw_fill v"
    using assms(2,3) by (auto simp: shows_as_def)
  have new: "vw_fill v \<notin> dkeys (rp_fills s)"
    using assms(1,4) by (metis map_dict_simps(2) tallies_def)
  show ?thesis
    using assms(1,2) new
    by (cases "vw_symbol v")
       (auto simp: record_fill_def fee fid Let_def tallies_def tally_fill_def shows_as_def map_dict_simps or_zero_def)
qed

lemma tallies_replay_order:
  assumes "tallies s t" "shows_as e v"
  shows "\<exists>s'. replay_order e oid s = Inr s' \<and> tallies s' (tally_order v oid t)"
proof -
  have filled: "(case map_of (rp_orders s) oid of None \<Rightarrow> Fin 0 | Some r \<Rightarrow> or_filled_qty r) = dget (ty_orders t) oid (Fin 0)"
  proof -
    have "ty_orders t = map_dict or_filled_qty (rp_orders s)" using assms(1) by (simp add: tallies_def)
    then show ?thesis by (simp add: dget_def map_dict_simps split: option.split)
  qed
  have seen: "rp_seen s = dkeys (ty_fills t)" using assms(1) by (metis map_dict_simps(2) tallies_def)
  have ev: "ei_event_type e = vw_kind v" "ei_qty e = vw_qty v" using assms(2) by (auto simp: shows_as_def)
  show ?thesis
  proof (cases "vw_kind v \<in> set fill_events \<and> vw_fill v \<notin> dkeys (ty_fills t)")
    case True
    then obtain s' where s': "record_fill e (event_fill_id e) s = Inr s'" "tallies s' (tally_fill v t)" "rp_orders s' = rp_orders s"
      using tallies_record_fill [OF assms] by blast
    have fid: "event_fill_id e = vw_fill v" using True assms(2) by (auto simp: shows_as_def)
    have o: "ty_orders (tally_fill v t) = ty_orders t" by (auto simp: tally_fill_def Let_def split: option.split)
    show ?thesis
      using True s' o unfolding replay_order_def tally_order_def
      by (auto simp: Let_def filled seen ev fid tallies_def map_dict_simps)
  next
    case False
    then have old: "(vw_kind v \<in> set fill_events \<and> vw_fill v \<notin> dkeys (ty_fills t)) = False"
      "(ei_event_type e \<in> set fill_events \<and> event_fill_id e \<notin> rp_seen s) = False"
      using assms(2) by (auto simp: shows_as_def seen)
    show ?thesis
      using assms(1) unfolding replay_order_def tally_order_def Let_def old if_False filled
      by (simp add: tallies_def map_dict_simps)
  qed
qed

lemma tallies_replay_event:
  assumes "tallies s t" "shows_as e v"
  shows "\<exists>s'. replay_event e s = Inr s' \<and> tallies s' (tally_event v t)"
proof -
  have c: "ei_order_id_client e = vw_client v" "ei_event_type e = vw_kind v" using assms(2) by (auto simp: shows_as_def)
  have risk: "tallies (s\<lparr>rp_risk := x\<rparr>) u = tallies s u" for s u x by (simp add: tallies_def)
  show ?thesis
  proof (cases "\<exists>oid. vw_client v = Some oid \<and> oid \<noteq> [] \<and> vw_kind v \<in> set order_events")
    case True
    then obtain oid where "vw_client v = Some oid" "oid \<noteq> []" "vw_kind v \<in> set order_events" by blast
    with tallies_replay_order [OF assms, of oid] risk show ?thesis
      by (auto simp: replay_event_def c tally_event_def)
  next
    case False
    with assms(1) risk show ?thesis by (auto simp: replay_event_def c tally_event_def split: option.split)
  qed
qed

lemma tallies_replay:
  "list_all2 shows_as es vs \<Longrightarrow> tallies s t \<Longrightarrow> \<exists>s'. rfold replay_event es s = Inr s' \<and> tallies s' (fold tally_event vs t)"
proof (induction es vs arbitrary: s t rule: list_all2_induct)
  case (Cons e es v vs)
  then obtain s1 where "replay_event e s = Inr s1" "tallies s1 (tally_event v t)" using tallies_replay_event by blast
  with Cons.IH show ?case by simp
qed simp


lemma rebuild_twice_tally:
  assumes "list_all2 shows_as (xb_events db) vs" "fold tally_event vs no_tally = t"
    and "ty_positions t = [] \<or> (\<exists>y q. ty_positions t = [(y, q)] \<and> q \<noteq> NaN)"
  shows "\<exists>p db'. rebuild_twice D db = (Inr p, db') \<and> np_replay_deterministic p \<and> xb_events db' = xb_events db
    \<and> map_dict or_filled_qty (lt_orders (xb_live db')) = ty_orders t
    \<and> map_dict (\<lambda>r. or_zero (fr_qty r)) (lt_fills (xb_live db')) = ty_fills t
    \<and> map_dict po_net_qty (lt_positions (xb_live db')) = ty_positions t"
proof -
  let ?es = "xb_events db"
  have "tallies rp_start no_tally" by (simp add: tallies_def rp_start_def no_tally_def map_dict_def)
  from tallies_replay [OF assms(1) this] assms(2)
  obtain s where s: "rfold replay_event ?es rp_start = Inr s" "tallies s t" by blast
  have pos: "rp_position_qty s = ty_positions t" using s(2) by (simp add: tallies_def)
  have "\<exists>ps. rmap (position_of ?es s) (rp_position_qty s) = Inr ps \<and> map_dict po_net_qty (dict_of ps) = ty_positions t"
    using assms(3) by (auto simp: pos position_of_def sql_required_def Let_def dict_of_def map_dict_def)
  then obtain ps where ps: "rmap (position_of ?es s) (rp_position_qty s) = Inr ps"
      "map_dict po_net_qty (dict_of ps) = ty_positions t" by blast
  let ?t = "\<lparr>lt_orders = rp_orders s, lt_fills = rp_fills s, lt_positions = dict_of ps, lt_risk = rp_risk s\<rparr>"
  have "replay_tables ?es = Inr (?t, card (rp_seen s))" by (simp add: replay_tables_def s(1) ps(1))
  then show ?thesis
    using s(2) ps(2) by (simp add: rebuild_twice_def rebuild_execution_projections_def Let_def tallies_def)
qed

section \<open>The scenarios emit\<close>

definition sent :: "nk_request \<Rightarrow> event_view" where
  "sent r = order_view r ''ORDER_SUBMIT'' (nq_client_order_id r) (str_upper (nq_side r)) (nq_qty r) []"

definition acked :: "nk_request \<Rightarrow> string \<Rightarrow> event_view" where
  "acked r client = order_view r ''ORDER_ACK'' client (str_upper (nq_side r)) (nq_qty r) []"

definition filled :: "nk_request \<Rightarrow> pyfloat \<Rightarrow> string \<Rightarrow> event_view" where
  "filled r qty fid = order_view r ''FILL'' (nq_client_order_id r) (str_upper (nq_side r)) qty (nq_client_order_id r @ '':fill:'' @ fid)"

definition refused :: "nk_request \<Rightarrow> string \<Rightarrow> event_view" where
  "refused r suffix = order_view r ''ORDER_REJECT'' (nq_client_order_id r @ suffix) (nq_side r) (nq_qty r) []"

definition reduce_only_buy :: "nk_request \<Rightarrow> bool" where
  "reduce_only_buy r \<longleftrightarrow> nq_reduce_only r \<and> str_upper (nq_side r) = ''BUY''"

definition lifecycle_views :: "nk_request \<Rightarrow> event_view list" where
  "lifecycle_views r =
     (if reduce_only_buy r then [sent r, refused r []]
      else [sent r, acked r (nq_client_order_id r), filled r (nq_qty r) ''1''])"

definition scenario_views :: "nk_request \<Rightarrow> (string, event_view list) dict" where
  "scenario_views r =
     (let c = nq_client_order_id r; q = nq_qty r; p = plain_view
      in [(''normal'', lifecycle_views r),
          (''mid_order_crash'', [sent r, p ''ENGINE_STOP'', p ''ENGINE_RECOVER_REPLAY'', acked r c, filled r q ''1'']),
          (''partial_fill_restart'',
             [sent r, acked r c, filled r (half q) ''1'', p ''ENGINE_RECOVER_REPLAY'', filled r (half q) ''2'']),
          (''duplicate_fill'', [sent r, acked r c, filled r q ''duplicate'', filled r q ''duplicate'']),
          (''orphan_order'', [acked r (c @ ''-orphan'')]),
          (''stale_websocket'', [sent r, acked r c, p ''ACCOUNT_SNAPSHOT'', p ''RISK_BLOCK'']),
          (''network_partition'', [sent r, refused r [], p ''KILL_SWITCH_TRIGGER'']),
          (''clock_drift'', [p ''ACCOUNT_SNAPSHOT'', p ''RISK_BLOCK'']),
          (''reduce_only_reject'', [sent r, refused r []]),
          (''exchange_error_storm'',
             [refused r ''-err-0'', refused r ''-err-1'', refused r ''-err-2'', p ''KILL_SWITCH_TRIGGER'']),
          (''disk_full'', [p ''RISK_BLOCK'']), (''db_lock_retry'', [p ''RISK_BLOCK'']),
          (''corrupted_projection'', lifecycle_views r @ [p ''ENGINE_RECOVER_REPLAY''])])"

lemma nat_text_digit: "nat_text 0 = ''0''" "nat_text 1 = ''1''" "nat_text 2 = ''2''"
  by code_simp+

lemma emits_Cons1: "emits f [v] \<Longrightarrow> emits (run_steps fs) ws \<Longrightarrow> emits (run_steps (f # fs)) (v # ws)"
  using emits_Cons [of f "[v]" fs ws] by simp

lemma emits_Cons0: "emits f [] \<Longrightarrow> emits (run_steps fs) ws \<Longrightarrow> emits (run_steps (f # fs)) ws"
  using emits_Cons [of f "[]" fs ws] by simp

lemma scenario_emits:
  assumes named: "nq_symbol r \<noteq> []" "nq_side r \<noteq> []" "nq_client_order_id r \<noteq> []"
  shows "list_all2 (\<lambda>a b. fst a = fst b \<and> emits (run_steps (snd a)) (snd b)) (scenario_table H T c r) (scenario_views r)"
proof -
  note step = emits_Cons1 emits_Cons0 emits_Nil
  have log: "emits (nk_log H T c kind status reason md) [plain_view kind]"
    if "kind \<in> set [''ENGINE_STOP'', ''ENGINE_RECOVER_REPLAY'', ''ACCOUNT_SNAPSHOT'', ''RISK_BLOCK'', ''KILL_SWITCH_TRIGGER'']"
    for kind status reason md
    by (rule emits_log) (use that in \<open>auto simp: execution_event_types_def fill_events_def\<close>)
  note sub = emits_submit [of H T c r, folded sent_def]
    and ack = emits_ack [OF named, of H T c, folded acked_def]
    and rej = emits_reject [of H T c r "nq_client_order_id r @ _", folded refused_def]
  have rej0: "emits (append_reject H T c r (nq_client_order_id r) reason) [refused r []]" for reason
    using rej [of "[]" reason] by simp
  have fill: "emits (append_fill H T c r qty status None n) [filled r qty (nat_text n)]" for qty status n
    unfolding filled_def by (rule emits_fill) (simp_all add: str_or_def)
  have dup: "emits (append_fill H T c r qty status (Some (nq_client_order_id r @ '':fill:duplicate'')) n) [filled r qty ''duplicate'']"
    for qty status n
    unfolding filled_def by (rule emits_fill) (simp_all add: str_or_def)
  note fill1 = fill [where n = 1, unfolded nat_text_digit] and fill2 = fill [where n = 2, unfolded nat_text_digit]
  have ack_fill: "emits (append_ack_and_fill H T c r qty status) [acked r (nq_client_order_id r), filled r qty ''1'']" for qty status
    unfolding append_ack_and_fill_def by (intro step ack fill1)
  have cycle: "emits (record_order_lifecycle H T c r) (lifecycle_views r)"
  proof (cases "reduce_only_buy r")
    case True
    have "emits (run_steps [block_code ''reduce_only_reject'', append_submit H T c r,
              append_reject H T c r (nq_client_order_id r) ''reduce_only_reject'']) [sent r, refused r []]"
      by (intro step sub rej0 emits_bookkeeping)
    with True show ?thesis unfolding record_order_lifecycle_def lifecycle_views_def reduce_only_buy_def [symmetric] by simp
  next
    case False
    have "emits (run_steps [append_submit H T c r, append_ack_and_fill H T c r (nq_qty r) ''FILLED''])
       ([sent r] @ [acked r (nq_client_order_id r), filled r (nq_qty r) ''1''] @ [])"
      by (intro emits_Cons emits_Nil sub ack_fill)
    with False show ?thesis unfolding record_order_lifecycle_def lifecycle_views_def reduce_only_buy_def [symmetric] by simp
  qed
  have cycle1: "emits (run_steps [record_order_lifecycle H T c r]) (lifecycle_views r)"
    using emits_Cons [OF cycle emits_Nil] by simp
  have cons2: "emits f [v, w] \<Longrightarrow> emits (run_steps fs) ws \<Longrightarrow> emits (run_steps (f # fs)) (v # w # ws)" for f v w fs ws
    using emits_Cons [of f "[v, w]"] by simp
  have orphan: "emits (\<lambda>s. let (orphan, g) = inject_orphan_order r (nr_gateway s)
      in append_order_event H T c ''ORDER_ACK'' orphan (Some ''orphan_exchange_order'') (s\<lparr>nr_gateway := g\<rparr>))
     [acked r (nq_client_order_id r @ ''-orphan'')]"
    unfolding acked_def
    by (rule emits_order_event [where H = H and T = T and c = c])
       (use named in \<open>auto simp: inject_orphan_order_def Let_def fake_order_def intro!: exI [of _ "_\<lparr>nr_gateway := _\<rparr>"]\<close>)
  have ro: "emits (\<lambda>s. case submit_order r (Some ''reduce_only_reject'') (nr_gateway s) of
                   (Inl rej, g) \<Rightarrow> nk_append H T
                     (with_order r (nq_side r) (nq_client_order_id r) (nk_event c ''ORDER_REJECT'' (Some (gj_status rej)) (Some (gj_reason_code rej)) []))
                     (s\<lparr>nr_gateway := g\<rparr>)
                 | (Inr order, g) \<Rightarrow> (Inl (KeyError ''reason_code''), s\<lparr>nr_gateway := g\<rparr>)) [refused r []]" (is "emits ?f _")
  proof -
    have "?f = append_reject H T c r (nq_client_order_id r) ''reduce_only_reject''"
      by (simp add: fun_eq_iff append_reject_def submit_order_def filled_str_def)
    then show ?thesis using rej0 by simp
  qed
  have rejs: "emits (append_reject H T c r (nq_client_order_id r @ ''-err-'' @ nat_text n) reason) [refused r (''-err-'' @ nat_text n)]" for n reason
    by (rule rej)
  note err = rejs [where n = 0, unfolded nat_text_digit, simplified] rejs [where n = 1, unfolded nat_text_digit, simplified]
    rejs [where n = 2, unfolded nat_text_digit, simplified]
  note steps = sub [THEN emits_Cons1] ack [THEN emits_Cons1] log [THEN emits_Cons1] fill1 [THEN emits_Cons1]
    fill2 [THEN emits_Cons1] dup [THEN emits_Cons1] rej0 [THEN emits_Cons1] orphan [unfolded Let_def, THEN emits_Cons1]
    ro [THEN emits_Cons1] err [THEN emits_Cons1] emits_bookkeeping [THEN emits_Cons0] ack_fill [THEN cons2]
    cycle [THEN emits_Cons] emits_Nil
  show ?thesis
    unfolding scenario_table_def scenario_views_def Let_def snapshot_event_def
    by (simp only: list_all2_Cons list_all2_Nil fst_conv snd_conv simp_thms list.map append_Cons append_Nil nat_text_digit)
      (intro conjI cycle1 steps; simp)
qed

definition fills_order :: "nk_request \<Rightarrow> string \<Rightarrow> bool" where
  "fills_order r scenario \<longleftrightarrow> scenario \<in> set [''mid_order_crash'', ''partial_fill_restart'', ''duplicate_fill'']
     \<or> scenario \<in> set [''normal'', ''corrupted_projection''] \<and> \<not> reduce_only_buy r"

definition scenario_tally :: "nk_request \<Rightarrow> event_view list \<Rightarrow> tally" where
  "scenario_tally r vs = fold tally_event ([plain_view ''ENGINE_START''] @ vs
     @ [plain_view ''POSITION_RECONCILE'', plain_view ''ENGINE_STOP'']) no_tally"

definition signed_total :: "nk_request \<Rightarrow> rat \<Rightarrow> pyfloat" where
  "signed_total r q = Fin (if str_upper (nq_side r) = ''SELL'' then - q else q)"

lemma tally_plain: "tally_event (plain_view k) t = t"
  by (simp add: tally_event_def plain_view_def)

lemma tally_idle:
  assumes "kind \<in> set order_events" "kind \<notin> set fill_events" "c \<noteq> []"
  shows "tally_event (order_view r kind c side qty fid) t =
     t\<lparr>ty_orders := AList.update c (sql_default0 (dget (ty_orders t) c (Fin 0))) (ty_orders t)\<rparr>"
  using assms by (simp add: tally_event_def order_view_def tally_order_def Let_def)

lemma tally_idle_views:
  "nq_client_order_id r \<noteq> [] \<Longrightarrow> tally_event (sent r) t =
     t\<lparr>ty_orders := AList.update (nq_client_order_id r) (sql_default0 (dget (ty_orders t) (nq_client_order_id r) (Fin 0))) (ty_orders t)\<rparr>"
  "c \<noteq> [] \<Longrightarrow> tally_event (acked r c) t =
     t\<lparr>ty_orders := AList.update c (sql_default0 (dget (ty_orders t) c (Fin 0))) (ty_orders t)\<rparr>"
  "nq_client_order_id r \<noteq> [] \<Longrightarrow> tally_event (refused r x) t =
     t\<lparr>ty_orders := AList.update (nq_client_order_id r @ x) (sql_default0 (dget (ty_orders t) (nq_client_order_id r @ x) (Fin 0))) (ty_orders t)\<rparr>"
  by (simp_all add: sent_def acked_def refused_def tally_idle order_events_def fill_events_def)

lemma tally_filled:
  assumes "nq_client_order_id r \<noteq> []" "nq_symbol r \<noteq> []"
  shows "tally_event (filled r (Fin q) fid) t =
    (let c = nq_client_order_id r; f = c @ '':fill:'' @ fid; y = nq_symbol r
     in if f \<in> dkeys (ty_fills t)
        then t\<lparr>ty_orders := AList.update c (sql_default0 (dget (ty_orders t) c (Fin 0))) (ty_orders t)\<rparr>
        else t\<lparr>ty_orders := AList.update c (sql_default0 (fadd (dget (ty_orders t) c (Fin 0)) (Fin \<bar>q\<bar>))) (ty_orders t),
               ty_fills := AList.update f (Fin \<bar>q\<bar>) (ty_fills t),
               ty_positions := AList.update y (fadd (dget (ty_positions t) y (Fin 0))
                  (signed_quantity (Some (str_upper (nq_side r))) (Some (Fin q)))) (ty_positions t)\<rparr>)"
  using assms by (simp add: filled_def tally_event_def order_view_def tally_order_def tally_fill_def Let_def
      order_events_def fill_events_def or_zero_def)

lemma signed_quantity_exact:
  "fl q = Fin q \<Longrightarrow> fl (- q) = Fin (- q) \<Longrightarrow> 0 < q \<Longrightarrow>
     signed_quantity (Some (str_upper side)) (Some (Fin q)) = Fin (if str_upper side = ''SELL'' then - q else q)"
proof -
  have "str_or (Some s) [] = s" for s by (simp add: str_or_def)
  then show "fl q = Fin q \<Longrightarrow> fl (- q) = Fin (- q) \<Longrightarrow> 0 < q \<Longrightarrow>
     signed_quantity (Some (str_upper side)) (Some (Fin q)) = Fin (if str_upper side = ''SELL'' then - q else q)"
    by (simp add: signed_quantity_def)
qed

lemma scenario_tallies:
  assumes named: "nq_symbol r \<noteq> []" "nq_side r \<noteq> []" "nq_client_order_id r \<noteq> []"
    and q: "nq_qty r = Fin q" "0 < q" "rnd64 q = q" "rnd64 (q / 2) = q / 2" "q < limit64"
    and vs: "map_of (scenario_views r) sc = Some vs"
  shows "if fills_order r sc
     then ty_orders (scenario_tally r vs) = [(nq_client_order_id r, Fin q)]
        \<and> ty_positions (scenario_tally r vs) = [(nq_symbol r, signed_total r q)]
     else ty_fills (scenario_tally r vs) = [] \<and> ty_positions (scenario_tally r vs) = []
        \<and> snd ` set (ty_orders (scenario_tally r vs)) \<subseteq> {Fin 0}"
proof -
  have pos: "\<bar>q\<bar> = q" "\<bar>q / 2\<bar> = q / 2" "0 < q / 2" using q(2) by simp_all
  have fl: "fl q = Fin q" "fl (q / 2) = Fin (q / 2)" "fl (- q) = Fin (- q)" "fl (- (q / 2)) = Fin (- (q / 2))"
    using q pos by (auto intro!: fl_exact)
  have hf: "half (Fin q) = Fin (q / 2)" by (simp add: half_def fl)
  have sg: "signed_quantity (Some (str_upper (nq_side r))) (Some (Fin q)) = signed_total r q"
    "signed_quantity (Some (str_upper (nq_side r))) (Some (Fin (q / 2))) = signed_total r (q / 2)"
    using signed_quantity_exact [OF fl(1,3) q(2)] signed_quantity_exact [OF fl(2,4) pos(3)] by (simp_all add: signed_total_def)
  have add: "fadd (Fin 0) (signed_total r q) = signed_total r q"
    "fadd (Fin 0) (signed_total r (q / 2)) = signed_total r (q / 2)"
    "fadd (signed_total r (q / 2)) (signed_total r (q / 2)) = signed_total r q"
    by (simp_all add: signed_total_def fl)
  note eval = tally_plain tally_idle_views [OF named(3)] tally_idle_views(2) tally_filled [OF named(3,1)] sg pos fl add hf q(1)
    sql_default0_def dkeys_def dget_def Let_def
  let ?ok = "\<lambda>p. if fills_order r (fst p)
     then ty_orders (scenario_tally r (snd p)) = [(nq_client_order_id r, Fin q)]
        \<and> ty_positions (scenario_tally r (snd p)) = [(nq_symbol r, signed_total r q)]
     else ty_fills (scenario_tally r (snd p)) = [] \<and> ty_positions (scenario_tally r (snd p)) = []
        \<and> snd ` set (ty_orders (scenario_tally r (snd p))) \<subseteq> {Fin 0}"
  have "\<forall>p \<in> set (scenario_views r). ?ok p"
    unfolding scenario_views_def Let_def list.set ball_simps(5,7) fst_conv snd_conv lifecycle_views_def simp_thms
    by (intro conjI; simp add: fills_order_def scenario_tally_def no_tally_def named eval)
  then have "?ok (sc, vs)" using vs by (meson map_of_SomeD)
  then show ?thesis by (simp only: fst_conv snd_conv)
qed


lemma list_all2_map_of:
  "list_all2 (\<lambda>a b. fst a = fst b \<and> R (snd a) (snd b)) xs ys \<Longrightarrow> map_of ys k = Some v \<Longrightarrow>
     \<exists>u. map_of xs k = Some u \<and> R u v"
  by (induction xs ys rule: list_all2_induct) (auto split: if_splits)

lemma map_dict_Nil_iff: "map_dict f d = [] \<longleftrightarrow> d = []"
  by (simp add: map_dict_def)

lemma map_dict_range: "snd ` set (map_dict f d) = (\<lambda>x. f (snd x)) ` set d"
  by (force simp: map_dict_def)

text \<open>C24. Every chaos scenario ends in the same way: the run succeeds from whatever state, its events are those
  the report lists, from the start to the stop of the engine, and the replay is deterministic.  Crashes,
  a repeated fill and a fill in two parts leave the order filled exactly once and the position of its
  size; all other scenarios leave no fill and no position.  Only the plain life cycle looks at
  reduce-only: a crash scenario fills a reduce-only purchase that the others refuse.\<close>

theorem chaos_scenarios_fill_once:
  assumes "nq_symbol r \<noteq> []" "nq_side r \<noteq> []" "nq_client_order_id r \<noteq> []"
    and "nq_qty r = Fin q" "0 < q" "rnd64 q = q" "rnd64 (q / 2) = q / 2" "q < limit64"
    and "\<not> nk_allow_live_private_path c" "sc \<in> set (''normal'' # chaos_scenarios)"
  shows "\<exists>rep db'. run_single_chaos_scenario H T D c r (Some sc) db = (Inr rep, db')
    \<and> \<not> nx_live_order_path_enabled rep \<and> np_replay_deterministic (nx_projection rep)
    \<and> map ei_event_type (xb_events db') = nx_event_types rep
    \<and> hd (nx_event_types rep) = ''ENGINE_START'' \<and> last (nx_event_types rep) = ''ENGINE_STOP''
    \<and> (if fills_order r sc
       then map_dict or_filled_qty (lt_orders (xb_live db')) = [(nq_client_order_id r, Fin q)]
          \<and> map_dict po_net_qty (lt_positions (xb_live db')) = [(nq_symbol r, signed_total r q)]
       else lt_fills (xb_live db') = [] \<and> lt_positions (xb_live db') = []
          \<and> (\<forall>row \<in> set (lt_orders (xb_live db')). or_filled_qty (snd row) = Fin 0))"
proof -
  let ?c = "c\<lparr>nk_scenario_id := sc\<rparr>"
  have sc: "str_or (Some sc) x = sc" for x using assms(10) by (auto simp: str_or_def chaos_scenarios_def)
  have names: "map fst (scenario_views r) = ''normal'' # [''mid_order_crash'', ''partial_fill_restart'', ''duplicate_fill'',
     ''orphan_order'', ''stale_websocket'', ''network_partition'', ''clock_drift'', ''reduce_only_reject'',
     ''exchange_error_storm'', ''disk_full'', ''db_lock_retry'', ''corrupted_projection'']"
    by (simp add: scenario_views_def Let_def)
  have "sc \<in> set (map fst (scenario_views r))" unfolding names using assms(10) by (auto simp: chaos_scenarios_def)
  then obtain vs where vs: "map_of (scenario_views r) sc = Some vs"
    by (metis list.set_map map_of_eq_None_iff not_None_eq)
  obtain steps where steps: "map_of (scenario_table H T ?c r) sc = Some steps" "emits (run_steps steps) vs"
    using list_all2_map_of [OF scenario_emits [OF assms(1-3)] vs] by blast
  have run: "emits (run_steps ([engine_start H T ?c] @ steps @ [position_reconcile H T ?c, cancel_all_if_needed sc, engine_stop H T ?c]))
     ([plain_view ''ENGINE_START''] @ vs @ [plain_view ''POSITION_RECONCILE'', plain_view ''ENGINE_STOP''])"
    unfolding engine_start_def position_reconcile_def engine_stop_def
    by (intro emits_append steps(2) emits_Cons1 emits_Cons0 emits_bookkeeping emits_log emits_Nil)
       (auto simp: execution_event_types_def fill_events_def)
  obtain s' es where s': "run_steps ([engine_start H T ?c] @ steps @ [position_reconcile H T ?c, cancel_all_if_needed sc, engine_stop H T ?c])
       (nk_start empty_db) = (Inr (), s')"
    "xb_events (nr_db s') = es"
    "list_all2 shows_as es ([plain_view ''ENGINE_START''] @ vs @ [plain_view ''POSITION_RECONCILE'', plain_view ''ENGINE_STOP''])"
    "nr_event_types s' = map vw_kind ([plain_view ''ENGINE_START''] @ vs @ [plain_view ''POSITION_RECONCILE'', plain_view ''ENGINE_STOP''])"
    by (rule emitsE [OF run, of "nk_start empty_db"]) (simp add: nk_start_def empty_db_def)
  note tal = scenario_tallies [OF assms(1-8) vs]
  have kinds: "map ei_event_type es = nr_event_types s'"
    using s'(3) unfolding s'(4) by (induction rule: list_all2_induct) (auto simp: shows_as_def)
  have one: "ty_positions (scenario_tally r vs) = [] \<or> (\<exists>y p. ty_positions (scenario_tally r vs) = [(y, p)] \<and> p \<noteq> NaN)"
    using tal by (auto simp: signed_total_def split: if_splits)
  obtain p db' where p: "rebuild_twice D (nr_db s') = (Inr p, db')" "np_replay_deterministic p" "xb_events db' = es"
    "map_dict or_filled_qty (lt_orders (xb_live db')) = ty_orders (scenario_tally r vs)"
    "map_dict (\<lambda>r. or_zero (fr_qty r)) (lt_fills (xb_live db')) = ty_fills (scenario_tally r vs)"
    "map_dict po_net_qty (lt_positions (xb_live db')) = ty_positions (scenario_tally r vs)"
    using rebuild_twice_tally [OF s'(3) [folded s'(2)] scenario_tally_def [symmetric] one] s'(2) by metis
  have "run_single_chaos_scenario H T D c r (Some sc) db = nk_finish D ?c sorted_set (Inr (), s')"
    using assms(9) unfolding run_single_chaos_scenario_def sc Let_def steps(1) option.case s'(1)
    by (simp add: assert_no_live_private_path_def)
  then have "run_single_chaos_scenario H T D c r (Some sc) db = (Inr \<lparr>nx_scenario_id = sc, nx_session_id = nk_session_id c,
                     nx_private_keys_required = False, nx_live_order_path_enabled = False,
                     nx_event_types = nr_event_types s', nx_blocker_codes = sorted_set (nr_blocker_codes s'),
                     nx_safe_actions = sorted_set (nr_safe_actions s'), nx_projection = p\<rparr>, db')"
    by (simp add: nk_finish_def p(1))
  moreover have "hd (nr_event_types s') = ''ENGINE_START'' \<and> last (nr_event_types s') = ''ENGINE_STOP''"
    unfolding s'(4) by (simp add: plain_view_def)
  moreover have "if fills_order r sc
       then map_dict or_filled_qty (lt_orders (xb_live db')) = [(nq_client_order_id r, Fin q)]
          \<and> map_dict po_net_qty (lt_positions (xb_live db')) = [(nq_symbol r, signed_total r q)]
       else lt_fills (xb_live db') = [] \<and> lt_positions (xb_live db') = []
          \<and> (\<forall>row \<in> set (lt_orders (xb_live db')). or_filled_qty (snd row) = Fin 0)"
    using tal unfolding p(4-6) [symmetric] map_dict_Nil_iff map_dict_range by (auto split: if_splits)
  ultimately show ?thesis using p(2) kinds p(3) by simp
qed


definition sample_request :: nk_request where
  "sample_request = \<lparr>nq_symbol = ''BTCUSDT'', nq_side = ''sell'', nq_qty = Fin 3, nq_price = Fin 100,
     nq_client_order_id = ''c1'', nq_reduce_only = False\<rparr>"

definition sample_config :: nk_config where
  "sample_config = \<lparr>nk_scenario_id = ''normal'', nk_session_id = ''s'', nk_base_timestamp = ''t'',
     nk_allow_live_private_path = False\<rparr>"

theorem chaos_scenarios_fill_once_witness:
  "\<exists>rep db'. run_single_chaos_scenario zero_hash (\<lambda>s. s) (\<lambda>t. ''d'') sample_config sample_request (Some ''duplicate_fill'') empty_db
       = (Inr rep, db')
    \<and> map_dict or_filled_qty (lt_orders (xb_live db')) = [(''c1'', Fin 3)]
    \<and> map_dict po_net_qty (lt_positions (xb_live db')) = [(''BTCUSDT'', Fin (- 3))]"
proof -
  have up: "str_upper ''sell'' = ''SELL''" by code_simp
  have r: "rnd64 3 = 3" "rnd64 (3 / 2) = 3 / 2" "(3 :: rat) < limit64"
    using rnd64_of_int [of 3] rnd64_dyadic [of 3 1] small_less_limit64 [of 3] by simp_all
  have f: "fills_order sample_request ''duplicate_fill''" by (simp add: fills_order_def)
  have sg: "signed_total sample_request 3 = Fin (- 3)" by (simp add: signed_total_def sample_request_def up)
  show ?thesis
    using chaos_scenarios_fill_once [of sample_request 3 sample_config "''duplicate_fill''" zero_hash "\<lambda>s. s" "\<lambda>t. ''d''" empty_db] r f sg
    by (fastforce simp: sample_request_def sample_config_def chaos_scenarios_def)
qed

end
