(* ===== verification/TimeGuards.thy ===== *)
theory TimeGuards
  imports PyTime
begin

text \<open>
  Guards that decide by the clock: the budget for cancelling and replacing orders
  (\<open>execution/cancel_replace_manager.py\<close>, \<open>backtest/cancel_replace_model.py\<close>), the funding guard
  (\<open>execution/funding_guard.py\<close>) and the rebalance policy (\<open>portfolio/rebalance_policy.py\<close>).
\<close>

definition int_float :: "int \<Rightarrow> pyfloat" where
  "int_float k = Fin (of_int k)"

section \<open>Cancel and replace\<close>

record cancel_replace_budget =
  cb_max_amends :: int
  cb_max_cancel_replace :: int
  cb_maker_timeout_seconds :: int

record cancel_replace_manager =
  cm_budget :: cancel_replace_budget
  cm_amends_by_order :: "(string, int) dict"
  cm_cancel_replace_count :: int

definition cm_new :: "cancel_replace_budget \<Rightarrow> cancel_replace_manager" where
  "cm_new budget = \<lparr>cm_budget = budget, cm_amends_by_order = [], cm_cancel_replace_count = 0\<rparr>"

record cancel_replace_decision =
  cd_allowed :: bool
  cd_action :: string
  cd_reasons :: "string list"

definition cm_reasons :: "cancel_replace_manager \<Rightarrow> string \<Rightarrow> pyfloat \<Rightarrow> int \<Rightarrow> string list" where
  "cm_reasons m order_id age_seconds amend_count =
     (let effective_amends = max amend_count (dget (cm_amends_by_order m) order_id 0)
      in flag (flt age_seconds (int_float (cb_maker_timeout_seconds (cm_budget m)))) ''maker_timeout_not_reached''
         @ flag (cb_max_amends (cm_budget m) \<le> effective_amends) ''max_amends_reached''
         @ flag (cb_max_cancel_replace (cm_budget m) \<le> cm_cancel_replace_count m) ''cancel_replace_budget_exhausted'')"

definition cm_evaluate ::
    "time_lib \<Rightarrow> cancel_replace_manager \<Rightarrow> string \<Rightarrow> string \<Rightarrow> string \<Rightarrow> int \<Rightarrow> cancel_replace_decision result" where
  "cm_evaluate clk m order_id created_at now amend_count =
     rbind (parse_utc clk now) (\<lambda>n. rbind (parse_utc clk created_at) (\<lambda>c.
       let reasons = cm_reasons m order_id (seconds_between c n) amend_count
       in Inr \<lparr>cd_allowed = (reasons = []), cd_action = (if reasons = [] then ''cancel_replace'' else ''hold''),
               cd_reasons = reasons\<rparr>))"

definition record_amend :: "string \<Rightarrow> cancel_replace_manager \<Rightarrow> cancel_replace_manager" where
  "record_amend order_id m =
     m\<lparr>cm_amends_by_order := AList.update order_id (dget (cm_amends_by_order m) order_id 0 + 1) (cm_amends_by_order m),
       cm_cancel_replace_count := cm_cancel_replace_count m + 1\<rparr>"

record cancel_replace_model =
  cn_cancel_replace_count :: int
  cn_max_cancel_replace :: int

definition within_budget :: "cancel_replace_model \<Rightarrow> bool" where
  "within_budget m \<longleftrightarrow> cn_cancel_replace_count m \<le> cn_max_cancel_replace m"

section \<open>Funding\<close>

record funding_guard_config =
  fg_max_cost_bps :: pyfloat
  fg_block_open_seconds_before_funding :: int

record funding_guard_result =
  fr_passed :: bool
  fr_rejections :: "string list"

definition funding_guard ::
    "time_lib \<Rightarrow> funding_guard_config \<Rightarrow> string \<Rightarrow> string \<Rightarrow> string \<Rightarrow> pyfloat \<Rightarrow> funding_guard_result result" where
  "funding_guard clk config action now next_funding_time expected_cost_bps =
     rbind (parse_utc clk next_funding_time) (\<lambda>f. rbind (parse_utc clk now) (\<lambda>n.
       let s = seconds_between n f;
           rejections =
             flag (action \<in> set [''open'', ''increase''] \<and> fle (Fin 0) s
                   \<and> fle s (int_float (fg_block_open_seconds_before_funding config))) ''near_funding_open_block''
             @ flag (flt (fg_max_cost_bps config) expected_cost_bps) ''funding_cost_budget_exceeded''
       in Inr \<lparr>fr_passed = (rejections = []), fr_rejections = rejections\<rparr>))"

section \<open>Rebalancing\<close>

record rebalance_policy =
  rp_interval_seconds :: int
  rp_drift_bps :: pyfloat
  rp_risk_breach :: bool
  rp_lifecycle_event :: "string option"

record rebalance_decision =
  rd_should_rebalance :: bool
  rd_triggers :: "string list"

definition evaluate_rebalance_policy ::
    "time_lib \<Rightarrow> rebalance_policy \<Rightarrow> string \<Rightarrow> string \<Rightarrow> pyfloat \<Rightarrow> rebalance_decision result" where
  "evaluate_rebalance_policy clk p last_rebalance now drift_threshold =
     rbind (parse_utc clk last_rebalance) (\<lambda>a. rbind (parse_utc clk now) (\<lambda>n.
       let triggers =
             flag (fle (int_float (rp_interval_seconds p)) (seconds_between a n)) ''scheduled''
             @ flag (fle drift_threshold (fabs (rp_drift_bps p))) ''drift''
             @ flag (rp_risk_breach p) ''risk''
             @ (case rp_lifecycle_event p of None \<Rightarrow> [] | Some e \<Rightarrow> flag (e \<noteq> []) (''lifecycle:'' @ e))
       in Inr \<lparr>rd_should_rebalance = (triggers \<noteq> []), rd_triggers = triggers\<rparr>))"

section \<open>The budget is kept\<close>

text \<open>A client that records an amendment exactly when the manager allows it; every call names an order, the
  two times and the amendments the client has counted itself.\<close>

definition guarded_amend ::
    "time_lib \<Rightarrow> string \<times> string \<times> string \<times> int \<Rightarrow> cancel_replace_manager \<Rightarrow> cancel_replace_manager" where
  "guarded_amend clk call m =
     (case call of (order_id, created_at, now, amend_count) \<Rightarrow>
        (case cm_evaluate clk m order_id created_at now amend_count of
           Inr d \<Rightarrow> if cd_allowed d then record_amend order_id m else m
         | Inl e \<Rightarrow> m))"

definition budget_kept :: "cancel_replace_manager \<Rightarrow> bool" where
  "budget_kept m \<longleftrightarrow> cm_cancel_replace_count m \<le> max 0 (cb_max_cancel_replace (cm_budget m))
     \<and> (\<forall>o'. dget (cm_amends_by_order m) o' 0 \<le> max 0 (cb_max_amends (cm_budget m)))
     \<and> cm_cancel_replace_count m = sum_list (map snd (cm_amends_by_order m)) \<and> dict_ok (cm_amends_by_order m)"

lemma sum_list_update: "dict_ok d \<Longrightarrow> sum_list (map snd (AList.update k (dget d k 0 + v) d)) = sum_list (map snd d) + (v :: int)"
  by (induction d) (auto simp: dget_def dict_ok_def)

lemma evaluate_allowed:
  assumes "cm_evaluate clk m order_id created_at now amends = Inr d" "cd_allowed d"
  shows "dget (cm_amends_by_order m) order_id 0 < cb_max_amends (cm_budget m)
    \<and> cm_cancel_replace_count m < cb_max_cancel_replace (cm_budget m)"
  using assms by (auto simp: cm_evaluate_def cm_reasons_def rbind_Inr_iff Let_def)

lemma guarded_amend_keeps: "budget_kept m \<Longrightarrow> budget_kept (guarded_amend clk call m)"
  by (auto simp: guarded_amend_def budget_kept_def record_amend_def sum_list_update
      dest!: evaluate_allowed split: prod.split sum.split)

lemma guarded_amend_budget: "cm_budget (guarded_amend clk call m) = cm_budget m"
  by (auto simp: guarded_amend_def record_amend_def split: prod.split sum.split)

lemma guarded_run_keeps:
  "budget_kept m \<Longrightarrow> budget_kept (fold (guarded_amend clk) calls m) \<and> cm_budget (fold (guarded_amend clk) calls m) = cm_budget m"
  by (induction calls arbitrary: m) (auto simp: guarded_amend_keeps guarded_amend_budget)

text \<open>A client that only amends what the manager allows stays within the budget whatever it asks: no order
  is amended more often than \<open>max_amends\<close>, all orders together not more often than
  \<open>max_cancel_replace\<close>, and the counter is the sum over the orders.\<close>

lemma cancel_replace_budget_kept:
  "cm_cancel_replace_count (fold (guarded_amend clk) calls (cm_new b)) \<le> max 0 (cb_max_cancel_replace b)
   \<and> dget (cm_amends_by_order (fold (guarded_amend clk) calls (cm_new b))) order_id 0 \<le> max 0 (cb_max_amends b)
   \<and> cm_cancel_replace_count (fold (guarded_amend clk) calls (cm_new b))
       = sum_list (map snd (cm_amends_by_order (fold (guarded_amend clk) calls (cm_new b))))"
proof -
  let ?m = "fold (guarded_amend clk) calls (cm_new b)"
  have "budget_kept (cm_new b)" by (simp add: budget_kept_def cm_new_def)
  from guarded_run_keeps [OF this, of clk calls] have "budget_kept ?m" "cm_budget ?m = cm_budget (cm_new b)" by simp_all
  moreover have "cm_budget (cm_new b) = b" by (simp add: cm_new_def)
  ultimately show ?thesis by (auto simp: budget_kept_def)
qed

lemma funding_guard_rejects_near_funding:
  assumes "funding_guard clk config action now next cost = Inr r" "fr_passed r" "action \<in> set [''open'', ''increase'']"
    and "parse_utc clk now = Inr n" "parse_utc clk next = Inr f" "n \<le> f"
  shows "\<not> fle (seconds_between n f) (int_float (fg_block_open_seconds_before_funding config))"
proof -
  have "fle (Fin 0) (seconds_between n f)" using seconds_between_mono [of n n n f] assms(6) by simp
  with assms(1-5) show ?thesis by (auto simp: funding_guard_def rbind_Inr_iff Let_def)
qed

lemma nan_cost_passes_funding_guard:
  "funding_guard clk config ''hold'' now next NaN = Inr r \<Longrightarrow> fr_passed r"
  by (auto simp: funding_guard_def rbind_Inr_iff Let_def)

end
