(* ===== verification/Features.thy ===== *)
theory Features
  imports PyTime
begin

text \<open>
  Feature contracts and the gates a feature passes before it is used (\<open>features/\<close>), with the
  availability matrix and the data health checks next to them (\<open>data/feature_availability_matrix.py\<close>,
  \<open>data/symbol_data_health.py\<close>, \<open>data/realtime_backfill_reconciler.py\<close>).  A set of strings is a list read
  as a set; the limit of an age is a number (an integer or a float), texts are parsed by the
  parameter of \<open>PyTime\<close>.
\<close>

section \<open>Contracts\<close>

definition execution_modes :: "string list" where
  "execution_modes = [''shadow'', ''paper'', ''live-disabled'']"

definition known_modes :: "string list" where
  "known_modes = [''research'', ''validation''] @ execution_modes"

definition known_leakage_risks :: "string list" where
  "known_leakage_risks = [''low'', ''medium'', ''high'', ''research_only'']"

record feature_contract =
  fc_name :: string
  fc_source :: string
  fc_timestamp_source :: string
  fc_earliest_available_at :: string
  fc_allowed_modes :: "string list"
  fc_max_age_seconds :: pyfloat
  fc_leakage_risk :: string
  fc_required_symbol_fields :: "string list"
  fc_input_fields :: "string list"
  fc_lookback_bars :: int
  fc_warmup_bars :: int
  fc_availability_lag_bars :: int
  fc_uses_centered_window :: bool
  fc_uses_negative_shift :: bool
  fc_uses_future_bars :: bool
  fc_allows_repainting :: bool
  fc_smoothing :: string

definition paper_safe :: "string \<Rightarrow> string \<Rightarrow> pyfloat \<Rightarrow> feature_contract" where
  "paper_safe name source max_age =
     \<lparr>fc_name = name, fc_source = source, fc_timestamp_source = ''exchange_event_time'',
      fc_earliest_available_at = ''bar_close'',
      fc_allowed_modes = [''research'', ''validation'', ''shadow'', ''paper''], fc_max_age_seconds = max_age,
      fc_leakage_risk = ''low'', fc_required_symbol_fields = [], fc_input_fields = [name],
      fc_lookback_bars = 0, fc_warmup_bars = 0, fc_availability_lag_bars = 0,
      fc_uses_centered_window = False, fc_uses_negative_shift = False, fc_uses_future_bars = False,
      fc_allows_repainting = False, fc_smoothing = ''causal''\<rparr>"

definition age_limit_issues :: "pyfloat \<Rightarrow> string list" where
  "age_limit_issues a =
     (if \<not> is_finite a then [''non_finite_max_age_seconds''] else flag (flt a (Fin 0)) ''negative_max_age_seconds'')"

definition contract_issues :: "feature_contract \<Rightarrow> string list" where
  "contract_issues c =
     flag (fc_name c = []) ''missing_name'' @ flag (fc_source c = []) ''missing_source''
     @ flag (fc_timestamp_source c = []) ''missing_timestamp_source''
     @ flag (fc_earliest_available_at c = []) ''missing_earliest_available_at''
     @ age_limit_issues (fc_max_age_seconds c)
     @ map (\<lambda>m. ''unknown_mode:'' @ m) (sorted_set (filter (\<lambda>m. m \<notin> set known_modes) (fc_allowed_modes c)))
     @ flag (fc_leakage_risk c \<notin> set known_leakage_risks) (''unknown_leakage_risk:'' @ fc_leakage_risk c)
     @ flag (fc_leakage_risk c = ''research_only'' \<and> set (fc_allowed_modes c) \<inter> set execution_modes \<noteq> {})
         ''research_only_execution_mode_allowed''
     @ flag (fc_lookback_bars c < 0) ''negative_lookback_bars''
     @ flag (fc_warmup_bars c < 0) ''negative_warmup_bars''
     @ flag (fc_availability_lag_bars c < 0) ''negative_availability_lag_bars''
     @ flag (fc_uses_centered_window c) ''centered_window'' @ flag (fc_uses_negative_shift c) ''negative_shift''
     @ flag (fc_uses_future_bars c) ''future_bars'' @ flag (fc_allows_repainting c) ''repainting_allowed''
     @ flag (str_lower (fc_smoothing c) \<notin> set [''causal'', ''none'', ''recursive'', ''expanding''])
         (''non_causal_smoothing:'' @ fc_smoothing c)"

record issues_report =
  ir_passed :: bool
  ir_issues :: "string list"

definition issues_result :: "string list \<Rightarrow> issues_report" where
  "issues_result issues = \<lparr>ir_passed = (issues = []), ir_issues = issues\<rparr>"

definition validate_feature_contract :: "feature_contract \<Rightarrow> issues_report" where
  "validate_feature_contract c = issues_result (contract_issues c)"

type_synonym contracts = "(string, feature_contract) dict"

definition available_for_mode :: "contracts \<Rightarrow> string \<Rightarrow> string list" where
  "available_for_mode cs mode =
     sort (map fst (filter (\<lambda>(n, c). mode \<in> set (fc_allowed_modes c) \<and> fc_leakage_risk c \<noteq> ''research_only'') cs))"

definition unavailable_for_mode :: "contracts \<Rightarrow> string \<Rightarrow> (string, string) dict" where
  "unavailable_for_mode cs mode =
     sort_key fst (concat (map (\<lambda>(n, c).
       if fc_leakage_risk c = ''research_only'' then [(n, ''research_only'')]
       else flag (mode \<notin> set (fc_allowed_modes c)) (n, ''mode_not_allowed'')) cs))"

section \<open>Time to live\<close>

text \<open>\<open>_parse_utc\<close> of this package answers \<open>None\<close> for a missing, empty or malformed text.\<close>

definition parse_utc_opt :: "time_lib \<Rightarrow> string option \<Rightarrow> int option" where
  "parse_utc_opt clk v =
     (case v of None \<Rightarrow> None
      | Some s \<Rightarrow> if s = [] then None else (case parse_utc clk s of Inl e \<Rightarrow> None | Inr t \<Rightarrow> Some t))"

definition sorted_keys :: "(string, 'v) dict \<Rightarrow> string list" where
  "sorted_keys d = sort (map fst d)"

text \<open>Comparing a time with the \<open>None\<close> of a malformed reference time raises.\<close>

definition no_now :: pyerr where
  "no_now = TypeError ''> not supported between datetime and NoneType''"

definition ttl_issues ::
    "time_lib \<Rightarrow> contracts \<Rightarrow> string \<Rightarrow> int option \<Rightarrow> (string, string) dict \<Rightarrow> string \<Rightarrow> string list result" where
  "ttl_issues clk cs mode now observed name =
     (case map_of cs name of
        None \<Rightarrow> Inr [''missing_contract:'' @ name]
      | Some c \<Rightarrow>
          (let issues = map (\<lambda>i. name @ '':'' @ i) (contract_issues c)
                 @ flag (mode \<notin> set (fc_allowed_modes c)) (''mode_not_allowed:'' @ name)
           in case parse_utc_opt clk (map_of observed name) of
                None \<Rightarrow> Inr (issues @ [''missing_observed_at:'' @ name])
              | Some seen \<Rightarrow>
                  (case now of
                     None \<Rightarrow> Inl no_now
                   | Some n \<Rightarrow> Inr (issues @ flag (n < seen) (''future_timestamp:'' @ name)
                       @ flag (fle (Fin 0) (fc_max_age_seconds c) \<and> flt (fc_max_age_seconds c) (seconds_between seen n))
                           (''feature_stale:'' @ name)))))"

definition evaluate_feature_ttl ::
    "time_lib \<Rightarrow> (string, pyval) dict \<Rightarrow> contracts \<Rightarrow> string \<Rightarrow> string \<Rightarrow> (string, string) dict \<Rightarrow> issues_report result" where
  "evaluate_feature_ttl clk vs cs mode now observed =
     rbind (rmap (ttl_issues clk cs mode (parse_utc_opt clk (Some now)) observed) (sorted_keys vs)) (\<lambda>issues.
       Inr (issues_result (concat issues)))"

section \<open>Forecast fields\<close>

definition forecast_authority_terms :: "string list" where
  "forecast_authority_terms =
     [''order'', ''trade'', ''position'', ''leverage'', ''size'', ''stop'', ''urgency'', ''venue_order'']"

definition is_forecast_field :: "string \<Rightarrow> bool" where
  "is_forecast_field name \<longleftrightarrow> starts_with ''forecast_'' name \<or> starts_with ''timesfm_'' name"

definition is_forecast_observation_metadata :: "string \<Rightarrow> bool" where
  "is_forecast_observation_metadata name \<longleftrightarrow>
     starts_with ''forecast_observation_'' name \<or> starts_with ''forecast_meta_'' name"

definition is_forecast_authority_field :: "string \<Rightarrow> bool" where
  "is_forecast_authority_field name \<longleftrightarrow>
     is_forecast_field (str_lower name) \<and> list_ex (\<lambda>t. has_sub t (str_lower name)) forecast_authority_terms"

definition validate_forecast_feature_names :: "string list \<Rightarrow> issues_report" where
  "validate_forecast_feature_names names =
     issues_result (map (\<lambda>n. ''forecast_authority_field_not_allowed:'' @ n) (filter is_forecast_authority_field names))"

section \<open>The execution view\<close>

definition check_execution_field :: "contracts \<Rightarrow> bool \<Rightarrow> string \<Rightarrow> unit result" where
  "check_execution_field cs allow_metadata name =
     (if is_forecast_authority_field name then Inl (ValueError (''forecast_authority_field:'' @ name))
      else if is_forecast_field name \<and> \<not> (allow_metadata \<and> is_forecast_observation_metadata name)
      then Inl (ValueError (''forecast_field_not_execution_safe:'' @ name))
      else case map_of cs name of
             None \<Rightarrow> Inr ()
           | Some c \<Rightarrow> if fc_leakage_risk c = ''research_only''
                       then Inl (ValueError (''research_only_field:'' @ name)) else Inr ())"

definition build_execution_feature_view ::
    "time_lib \<Rightarrow> (string, pyval) dict \<Rightarrow> contracts \<Rightarrow> string \<Rightarrow> string \<Rightarrow> (string, string) dict \<Rightarrow> bool
     \<Rightarrow> (string, pyval) dict result" where
  "build_execution_feature_view clk vs cs mode now observed allow_metadata =
     (if mode \<notin> set execution_modes then Inl (ValueError (''not_execution_mode:'' @ mode))
      else
        rbind (rmap (check_execution_field cs allow_metadata) (sorted_keys vs)) (\<lambda>_.
        rbind (evaluate_feature_ttl clk vs cs mode now observed) (\<lambda>ttl.
          if \<not> ir_passed ttl then Inl (ValueError (join '','' (ir_issues ttl)))
          else Inr (map (\<lambda>name. (name, pget vs name)) (sorted_keys vs)))))"

section \<open>Leakage audits\<close>

record audit_report = issues_report +
  lk_status :: string

definition audit_result :: "string list \<Rightarrow> audit_report" where
  "audit_result issues = issues_report.extend (issues_result issues)
     \<lparr>lk_status = (if issues = [] then ''passed'' else ''failed'')\<rparr>"

definition leakage_issues ::
    "time_lib \<Rightarrow> contracts \<Rightarrow> int option \<Rightarrow> (string, string) dict \<Rightarrow> string \<Rightarrow> string \<Rightarrow> string list result" where
  "leakage_issues clk cs as_of observed mode name =
     (case map_of cs name of
        None \<Rightarrow> Inr [''missing_contract:'' @ name]
      | Some c \<Rightarrow>
          (let issues = flag (fc_leakage_risk c = ''research_only'' \<and> mode \<noteq> ''research'') (''research_only_field:'' @ name)
           in case parse_utc_opt clk (map_of observed name) of
                None \<Rightarrow> Inr (issues @ [''missing_observed_at:'' @ name])
              | Some seen \<Rightarrow>
                  (case as_of of
                     None \<Rightarrow> Inl no_now
                   | Some a \<Rightarrow> Inr (issues @ flag (a < seen) (''future_timestamp:'' @ name)))))"

definition audit_feature_leakage ::
    "time_lib \<Rightarrow> (string, pyval) dict \<Rightarrow> contracts \<Rightarrow> string \<Rightarrow> (string, string) dict \<Rightarrow> string \<Rightarrow> audit_report result" where
  "audit_feature_leakage clk vs cs as_of observed mode =
     rbind (rmap (leakage_issues clk cs (parse_utc_opt clk (Some as_of)) observed mode) (sorted_keys vs)) (\<lambda>issues.
       Inr (audit_result (concat issues)))"

fun is_number :: "pyval \<Rightarrow> bool" where
  "is_number (PInt i) = True"
| "is_number (PBool b) = True"
| "is_number (PFloat x) = True"
| "is_number _ = False"

definition same_signal_value :: "pyval \<Rightarrow> pyval \<Rightarrow> bool result" where
  "same_signal_value a b =
     (if is_number a \<and> is_number b
      then rbind (py_float a) (\<lambda>x. rbind (py_float b) (\<lambda>y.
             Inr (if x = NaN \<and> y = NaN then True else fle (fabs (fsub x y)) (fl (1 / 10 ^ 12)))))
      else Inr (py_eq a b))"

text \<open>The loop over the bars that must not have changed; it stops at the first change.\<close>

fun first_change :: "(pyval \<times> pyval) list \<Rightarrow> nat \<Rightarrow> nat option result" where
  "first_change [] i = Inr None"
| "first_change ((a, b) # ps) i =
     rbind (same_signal_value a b) (\<lambda>same. if same then first_change ps (i + 1) else Inr (Some i))"

definition first_observable_index :: "feature_contract \<Rightarrow> int \<Rightarrow> int" where
  "first_observable_index c spike_index = spike_index + max 0 (fc_availability_lag_bars c)"

type_synonym signals = "(string, pyval list) dict"

definition series_issues :: "feature_contract \<Rightarrow> int \<Rightarrow> string \<Rightarrow> pyval list option \<Rightarrow> pyval list option \<Rightarrow> string list result" where
  "series_issues c spike_index name baseline mutated =
     (case (baseline, mutated) of
        (Some bs, Some ms) \<Rightarrow>
          if length bs \<noteq> length ms then Inr [''signal_length_mismatch:'' @ name]
          else if int (length bs) \<le> spike_index then Inr [''spike_index_out_of_range:'' @ name]
          else rbind (first_change (take (nat (first_observable_index c spike_index)) (zip bs ms)) 0) (\<lambda>change.
                 Inr (case change of None \<Rightarrow> []
                      | Some i \<Rightarrow> [''future_spike_changed_pre_observable_signal:'' @ name @ '':'' @ nat_text i]))
      | _ \<Rightarrow> Inr [''missing_signal_series:'' @ name])"

definition causality_issues ::
    "contracts \<Rightarrow> int \<Rightarrow> string \<Rightarrow> signals \<Rightarrow> signals \<Rightarrow> string \<Rightarrow> string list result" where
  "causality_issues cs spike_index mode baseline mutated name =
     (case map_of cs name of
        None \<Rightarrow> Inr [''missing_contract:'' @ name]
      | Some c \<Rightarrow>
          rbind (series_issues c spike_index name (map_of baseline name) (map_of mutated name)) (\<lambda>series.
            Inr (map (\<lambda>i. i @ '':'' @ name) (contract_issues c)
              @ flag (fc_input_fields c = [] \<and> fc_required_symbol_fields c = []) (''missing_input_fields:'' @ name)
              @ flag (mode \<notin> set (fc_allowed_modes c)) (''mode_not_allowed:'' @ name @ '':'' @ mode)
              @ series)))"

definition audit_feature_causality ::
    "signals \<Rightarrow> signals \<Rightarrow> contracts \<Rightarrow> int \<Rightarrow> string \<Rightarrow> audit_report result" where
  "audit_feature_causality baseline mutated cs spike_index mode =
     rbind (rmap (causality_issues cs spike_index mode baseline mutated)
              (sorted_set (map fst baseline @ map fst mutated))) (\<lambda>issues.
       Inr (audit_result (flag (spike_index < 0) ''negative_spike_index'' @ concat issues)))"

section \<open>The causality report of a payload\<close>

definition int_field :: "(string \<times> pyval) list \<Rightarrow> string \<Rightarrow> int result" where
  "int_field d k = (let v = pget_or d k (PInt 0) in py_int (if truthy v then v else PInt 0))"

definition dict_items :: "pyval \<Rightarrow> (string \<times> pyval) list list" where
  "dict_items v = (case v of PList xs \<Rightarrow> concat (map (\<lambda>x. case x of PDict d \<Rightarrow> [d] | _ \<Rightarrow> []) xs) | _ \<Rightarrow> [])"

definition dict_mapping :: "pyval \<Rightarrow> (string \<times> pyval) list" where
  "dict_mapping v = (case v of PDict d \<Rightarrow> d | _ \<Rightarrow> [])"

definition string_items :: "pyval \<Rightarrow> string list" where
  "string_items v =
     (case v of
        PList xs \<Rightarrow> concat (map (\<lambda>x. case x of PStr s \<Rightarrow> flag (str_strip s \<noteq> []) s | _ \<Rightarrow> []) xs)
      | _ \<Rightarrow> [])"

definition or_default :: "'a list \<Rightarrow> 'a list \<Rightarrow> 'a list" where
  "or_default xs d = (if xs = [] then d else xs)"

definition feature_contract_from_payload :: "(string \<times> pyval) list \<Rightarrow> feature_contract result" where
  "feature_contract_from_payload p =
     rbind (int_field p ''max_age_seconds'') (\<lambda>age.
     rbind (int_field p ''lookback_bars'') (\<lambda>lookback.
     rbind (int_field p ''warmup_bars'') (\<lambda>warmup.
     rbind (int_field p ''availability_lag_bars'') (\<lambda>lag.
       Inr \<lparr>fc_name = py_str (pget_or p ''name'' (PStr [])), fc_source = py_str (pget_or p ''source'' (PStr [])),
            fc_timestamp_source = py_str (pget_or p ''timestamp_source'' (PStr [])),
            fc_earliest_available_at = py_str (pget_or p ''earliest_available_at'' (PStr [])),
            fc_allowed_modes = or_default (string_items (pget p ''allowed_modes'')) [''research'', ''validation''],
            fc_max_age_seconds = Fin (of_int age), fc_leakage_risk = field_str p ''leakage_risk'' ''low'',
            fc_required_symbol_fields = string_items (pget p ''required_symbol_fields''),
            fc_input_fields = string_items (pget p ''input_fields''), fc_lookback_bars = lookback,
            fc_warmup_bars = warmup, fc_availability_lag_bars = lag,
            fc_uses_centered_window = truthy (pget p ''uses_centered_window''),
            fc_uses_negative_shift = truthy (pget p ''uses_negative_shift''),
            fc_uses_future_bars = truthy (pget p ''uses_future_bars''),
            fc_allows_repainting = truthy (pget p ''allows_repainting''),
            fc_smoothing = field_str p ''smoothing'' ''causal''\<rparr>))))"

definition payload_contracts :: "(string \<times> pyval) list \<Rightarrow> contracts result" where
  "payload_contracts p =
     rbind (rmap (\<lambda>item. case pget item ''name'' of
                     PStr n \<Rightarrow> rbind (feature_contract_from_payload item) (\<lambda>c. Inr [(n, c)])
                   | _ \<Rightarrow> Inr [])
              (dict_items (pget p ''features''))) (\<lambda>cs. Inr (dict_of (concat cs)))"

definition payload_signals :: "(string \<times> pyval) list \<Rightarrow> string \<Rightarrow> signals" where
  "payload_signals p k =
     concat (map (\<lambda>(n, v). case v of PList xs \<Rightarrow> [(n, xs)] | _ \<Rightarrow> []) (dict_mapping (pget p k)))"

record causality_report = audit_report +
  ca_feature_count :: nat
  ca_spike_index :: int

definition build_feature_causality_audit_report :: "(string \<times> pyval) list \<Rightarrow> causality_report result" where
  "build_feature_causality_audit_report p =
     rbind (payload_contracts p) (\<lambda>cs.
     rbind (int_field p ''spike_index'') (\<lambda>spike_index.
     rbind (audit_feature_causality (payload_signals p ''baseline_signals'') (payload_signals p ''mutated_signals'')
              cs spike_index (field_str p ''mode'' ''validation'')) (\<lambda>r.
       Inr (audit_report.extend r \<lparr>ca_feature_count = length cs, ca_spike_index = spike_index\<rparr>))))"

section \<open>Skew between training and serving\<close>

text \<open>\<open>statistics.fmean\<close>: \<open>math.fsum\<close> rounds the exact sum once; infinities of both signs are an error and so
  is a sum that leaves the range on the way.\<close>

fun rat_of :: "pyfloat \<Rightarrow> rat" where
  "rat_of (Fin q) = q"
| "rat_of x = 0"

definition exact_sums :: "pyfloat list \<Rightarrow> rat list" where
  "exact_sums xs = map (\<lambda>n. sum_list (map rat_of (take n xs))) [1..<length xs + 1]"

definition fsum :: "pyfloat list \<Rightarrow> pyfloat result" where
  "fsum xs =
     (if list_ex (\<lambda>x. \<not> is_finite x) xs
      then (if PInf \<in> set xs \<and> NInf \<in> set xs then Inl (ValueError ''-inf + inf in fsum'')
            else Inr (if NaN \<in> set xs then NaN else if PInf \<in> set xs then PInf else NInf))
      else if list_ex (\<lambda>q. \<not> is_finite (fl q)) (exact_sums xs) then Inl OverflowError
      else Inr (fl (sum_list (map rat_of xs))))"

definition fmean :: "pyfloat list \<Rightarrow> pyfloat result" where
  "fmean xs = rbind (fsum xs) (\<lambda>s. Inr (fquot s (flen xs)))"

fun numeric_values :: "(string \<times> pyval) list list \<Rightarrow> string \<Rightarrow> pyfloat list result" where
  "numeric_values [] name = Inr []"
| "numeric_values (row # rows) name =
     (case map_of row name of
        None \<Rightarrow> numeric_values rows name
      | Some v \<Rightarrow> rbind (or_none (py_float v)) (\<lambda>x. rbind (numeric_values rows name) (\<lambda>xs.
          Inr (case x of None \<Rightarrow> xs | Some f \<Rightarrow> f # xs))))"

record skew_metric =
  sk_train_mean :: pyfloat
  sk_serve_mean :: pyfloat
  sk_mean_delta :: pyfloat

record skew_report = issues_report +
  sk_metrics :: "(string, skew_metric) dict"

definition skew_step ::
    "(string \<times> pyval) list list \<Rightarrow> (string \<times> pyval) list list \<Rightarrow> pyfloat \<Rightarrow> string
     \<Rightarrow> string list \<times> (string, skew_metric) dict \<Rightarrow> (string list \<times> (string, skew_metric) dict) result" where
  "skew_step train_rows serve_rows max_delta name s =
     rbind (numeric_values train_rows name) (\<lambda>ts. rbind (numeric_values serve_rows name) (\<lambda>vs.
       if ts = [] \<or> vs = [] then Inr (fst s @ [''missing_values:'' @ name], snd s)
       else rbind (fmean ts) (\<lambda>t. rbind (fmean vs) (\<lambda>v.
         let delta = fabs (fsub v t)
         in Inr (fst s @ flag (flt max_delta delta) (''mean_delta:'' @ name),
                 AList.update name \<lparr>sk_train_mean = t, sk_serve_mean = v, sk_mean_delta = delta\<rparr> (snd s))))))"

definition build_train_serve_skew_report ::
    "(string \<times> pyval) list list \<Rightarrow> (string \<times> pyval) list list \<Rightarrow> string list \<Rightarrow> pyfloat \<Rightarrow> skew_report result" where
  "build_train_serve_skew_report train_rows serve_rows names max_delta =
     rbind (rfold (skew_step train_rows serve_rows max_delta) names ([], [])) (\<lambda>(issues, metrics).
       Inr (issues_report.extend (issues_result issues) \<lparr>sk_metrics = metrics\<rparr>))"

section \<open>Data health\<close>

record health_report = audit_report +
  hr_symbol :: string
  hr_max_staleness_seconds :: int

text \<open>Here a malformed text raises; the clock answers for a missing \<open>now\<close>.\<close>

definition parse_utc_maybe :: "time_lib \<Rightarrow> string option \<Rightarrow> int option result" where
  "parse_utc_maybe clk v =
     (case v of None \<Rightarrow> Inr None
      | Some s \<Rightarrow> if s = [] then Inr None else rbind (parse_utc clk s) (\<lambda>t. Inr (Some t)))"

definition check_timestamp :: "time_lib \<Rightarrow> int \<Rightarrow> int \<Rightarrow> string option \<times> string \<Rightarrow> string list result" where
  "check_timestamp clk now max_staleness vf =
     rbind (parse_utc_maybe clk (fst vf)) (\<lambda>t. Inr (case t of
        None \<Rightarrow> [''missing_'' @ snd vf]
      | Some p \<Rightarrow> flag (flt (Fin (of_int max_staleness)) (seconds_between p now)) (''stale_'' @ snd vf)))"

definition assess_symbol_data_health ::
    "time_lib \<Rightarrow> int \<Rightarrow> string \<Rightarrow> string \<Rightarrow> int \<Rightarrow> string option \<Rightarrow> string option \<Rightarrow> string option \<Rightarrow> string option \<Rightarrow> int
     \<Rightarrow> health_report result" where
  "assess_symbol_data_health clk clock_now symbol now max_staleness mark funding open_interest book book_gap_count =
     rbind (parse_utc_maybe clk (Some now)) (\<lambda>parsed.
     let n = (case parsed of None \<Rightarrow> clock_now | Some t \<Rightarrow> t)
     in rbind (rmap (check_timestamp clk n max_staleness)
          [(mark, ''mark_price''), (funding, ''funding''), (open_interest, ''open_interest''), (book, ''book'')]) (\<lambda>issues.
        let all_issues = concat issues @ flag (0 < book_gap_count) (''book_gap_count='' @ int_text book_gap_count)
        in Inr (audit_report.extend (audit_result all_issues)
             \<lparr>hr_symbol = symbol, hr_max_staleness_seconds = max_staleness\<rparr>)))"

record backfill_report = issues_report +
  br_symbol :: string
  br_matched_count :: nat
  br_mismatched_count :: nat

definition backfill_issue :: "(string, string) dict \<Rightarrow> string \<times> string \<Rightarrow> string list" where
  "backfill_issue backfill th =
     (case map_of backfill (fst th) of
        None \<Rightarrow> [''missing_backfill:'' @ fst th]
      | Some h \<Rightarrow> flag (h \<noteq> snd th) (''hash_mismatch:'' @ fst th))"

definition reconcile_realtime_with_backfill ::
    "string \<Rightarrow> (string, string) dict \<Rightarrow> (string, string) dict \<Rightarrow> backfill_report" where
  "reconcile_realtime_with_backfill symbol realtime backfill =
     (let issues = concat (map (backfill_issue backfill) realtime)
      in issues_report.extend (issues_result issues)
        \<lparr>br_symbol = symbol,
         br_matched_count = length (filter (\<lambda>th. backfill_issue backfill th = []) realtime),
         br_mismatched_count = length (filter (\<lambda>th. backfill_issue backfill th \<noteq> []) realtime)\<rparr>)"

section \<open>What the gates let through\<close>

lemma concat_rmap_Nil:
  "rmap f xs = Inr yss \<Longrightarrow> concat yss = [] \<Longrightarrow> x \<in> set xs \<Longrightarrow> f x = Inr []"
proof (induction xs arbitrary: yss)
  case (Cons a xs)
  then show ?case by (cases yss) (auto simp: rbind_Inr_iff)
qed simp

lemma rmap_unit: "rmap f xs = Inr us \<Longrightarrow> x \<in> set xs \<Longrightarrow> f x = Inr ()"
  by (induction xs arbitrary: us) (auto simp: rbind_Inr_iff)

lemma set_sorted_keys [simp]: "set (sorted_keys d) = fst ` set d"
  by (simp add: sorted_keys_def)

lemma ttl_issues_Nil:
  assumes "ttl_issues clk cs mode now observed name = Inr []"
  obtains c n seen where "map_of cs name = Some c" "contract_issues c = []" "mode \<in> set (fc_allowed_modes c)"
    "now = Some n" "parse_utc_opt clk (map_of observed name) = Some seen" "seen \<le> n"
    "fle (seconds_between seen n) (fc_max_age_seconds c)"
proof -
  obtain c seen n where c: "map_of cs name = Some c" "parse_utc_opt clk (map_of observed name) = Some seen" "now = Some n"
      "contract_issues c = []" "mode \<in> set (fc_allowed_modes c)" "seen \<le> n"
      "\<not> (fle (Fin 0) (fc_max_age_seconds c) \<and> flt (fc_max_age_seconds c) (seconds_between seen n))"
    using assms by (auto simp: ttl_issues_def Let_def split: option.splits)
  from c(4) have "age_limit_issues (fc_max_age_seconds c) = []" by (simp add: contract_issues_def)
  then have "is_finite (fc_max_age_seconds c)" "\<not> flt (fc_max_age_seconds c) (Fin 0)"
    by (auto simp: age_limit_issues_def split: if_splits)
  then have "fle (Fin 0) (fc_max_age_seconds c)" "fc_max_age_seconds c \<noteq> NaN"
    by (auto elim!: is_finiteE)
  with c show ?thesis by (intro that [of c n seen]) (auto intro: not_flt_fle simp: seconds_between_def)
qed

text \<open>C25. An execution view is safe: when the view is built, the mode is one of execution, the view holds exactly
  the given values in order of their names, and every field has a valid contract that allows the
  mode and is not for research only, carries no forecast authority (and no forecast at all unless it is
  observation metadata that was asked for), and was observed no later than now and no longer ago than
  its contract allows.\<close>

theorem execution_view_is_safe:
  assumes "build_execution_feature_view clk vs cs mode now observed allow_metadata = Inr view"
  shows "mode \<in> set execution_modes \<and> map fst view = sorted_keys vs \<and> (\<forall>(name, v) \<in> set view. v = pget vs name)
    \<and> (\<forall>name \<in> fst ` set vs. \<exists>c n seen. map_of cs name = Some c \<and> contract_issues c = []
        \<and> mode \<in> set (fc_allowed_modes c) \<and> fc_leakage_risk c \<noteq> ''research_only''
        \<and> \<not> is_forecast_authority_field name
        \<and> (is_forecast_field name \<longrightarrow> allow_metadata \<and> is_forecast_observation_metadata name)
        \<and> parse_utc_opt clk (Some now) = Some n \<and> parse_utc_opt clk (map_of observed name) = Some seen
        \<and> seen \<le> n \<and> fle (seconds_between seen n) (fc_max_age_seconds c))"
proof -
  obtain us ttl where us: "mode \<in> set execution_modes" "rmap (check_execution_field cs allow_metadata) (sorted_keys vs) = Inr us"
    "evaluate_feature_ttl clk vs cs mode now observed = Inr ttl" "ir_passed ttl"
    "view = map (\<lambda>name. (name, pget vs name)) (sorted_keys vs)"
    using assms by (auto simp: build_execution_feature_view_def rbind_Inr_iff split: if_splits)
  obtain iss where iss: "rmap (ttl_issues clk cs mode (parse_utc_opt clk (Some now)) observed) (sorted_keys vs) = Inr iss"
    "concat iss = []"
    using us(3,4) by (auto simp: evaluate_feature_ttl_def rbind_Inr_iff issues_result_def)
  have "\<exists>c n seen. map_of cs name = Some c \<and> contract_issues c = []
        \<and> mode \<in> set (fc_allowed_modes c) \<and> fc_leakage_risk c \<noteq> ''research_only''
        \<and> \<not> is_forecast_authority_field name
        \<and> (is_forecast_field name \<longrightarrow> allow_metadata \<and> is_forecast_observation_metadata name)
        \<and> parse_utc_opt clk (Some now) = Some n \<and> parse_utc_opt clk (map_of observed name) = Some seen
        \<and> seen \<le> n \<and> fle (seconds_between seen n) (fc_max_age_seconds c)" if "name \<in> fst ` set vs" for name
  proof -
    have "ttl_issues clk cs mode (parse_utc_opt clk (Some now)) observed name = Inr []"
      using concat_rmap_Nil [OF iss, of name] that by simp
    then obtain c n seen where c: "map_of cs name = Some c" "contract_issues c = []" "mode \<in> set (fc_allowed_modes c)"
      "parse_utc_opt clk (Some now) = Some n" "parse_utc_opt clk (map_of observed name) = Some seen" "seen \<le> n"
      "fle (seconds_between seen n) (fc_max_age_seconds c)" by (rule ttl_issues_Nil)
    have "check_execution_field cs allow_metadata name = Inr ()" using rmap_unit [OF us(2), of name] that by simp
    with c show ?thesis by (auto simp: check_execution_field_def split: if_splits)
  qed
  with us show ?thesis by (auto simp: comp_def)
qed

lemma first_change_None:
  "first_change ps i = Inr None \<Longrightarrow> j < length ps \<Longrightarrow> same_signal_value (fst (ps ! j)) (snd (ps ! j)) = Inr True"
proof (induction ps i arbitrary: j rule: first_change.induct)
  case (2 a b ps i)
  then show ?case by (cases j) (auto simp: rbind_Inr_iff split: if_splits)
qed simp

lemma series_issues_Nil:
  assumes "series_issues c k name b m = Inr []"
  obtains bs ms where "b = Some bs" "m = Some ms" "length bs = length ms" "k < int (length bs)"
    "\<And>i. int i < first_observable_index c k \<Longrightarrow> i < length bs \<Longrightarrow> same_signal_value (bs ! i) (ms ! i) = Inr True"
proof -
  obtain bs ms where s: "b = Some bs" "m = Some ms" "length bs = length ms" "k < int (length bs)"
    "first_change (take (nat (first_observable_index c k)) (zip bs ms)) 0 = Inr None"
    using assms by (auto simp: series_issues_def rbind_Inr_iff split: option.splits if_splits)
  then show ?thesis using first_change_None [OF s(5)] by (intro that [of bs ms]) force+
qed

text \<open>C26. A passed causality audit means what it says: every audited signal has a contract that declares no
  look-ahead and allows the mode, and a spike put into bar \<open>spike_index\<close> changed no value before the
  first bar at which the contract lets the signal see it.\<close>

theorem causality_audit_sound:
  assumes "audit_feature_causality baseline mutated cs spike_index mode = Inr r" "ir_passed r"
  shows "0 \<le> spike_index \<and> (\<forall>name \<in> fst ` set baseline \<union> fst ` set mutated.
    \<exists>c bs ms. map_of cs name = Some c \<and> mode \<in> set (fc_allowed_modes c)
      \<and> \<not> fc_uses_future_bars c \<and> \<not> fc_uses_centered_window c \<and> \<not> fc_uses_negative_shift c \<and> \<not> fc_allows_repainting c
      \<and> map_of baseline name = Some bs \<and> map_of mutated name = Some ms \<and> length bs = length ms
      \<and> spike_index < int (length bs)
      \<and> (\<forall>i < length bs. int i < spike_index + fc_availability_lag_bars c \<longrightarrow>
           same_signal_value (bs ! i) (ms ! i) = Inr True))"
proof -
  obtain iss where iss: "rmap (causality_issues cs spike_index mode baseline mutated) (sorted_set (map fst baseline @ map fst mutated)) = Inr iss"
     "concat iss = []" "0 \<le> spike_index"
    using assms by (auto simp: audit_feature_causality_def rbind_Inr_iff audit_result_def issues_result_def issues_report.defs)
  have "\<exists>c bs ms. map_of cs name = Some c \<and> mode \<in> set (fc_allowed_modes c)
      \<and> \<not> fc_uses_future_bars c \<and> \<not> fc_uses_centered_window c \<and> \<not> fc_uses_negative_shift c \<and> \<not> fc_allows_repainting c
      \<and> map_of baseline name = Some bs \<and> map_of mutated name = Some ms \<and> length bs = length ms
      \<and> spike_index < int (length bs)
      \<and> (\<forall>i < length bs. int i < spike_index + fc_availability_lag_bars c \<longrightarrow> same_signal_value (bs ! i) (ms ! i) = Inr True)"
    if "name \<in> fst ` set baseline \<union> fst ` set mutated" for name
  proof -
    have "causality_issues cs spike_index mode baseline mutated name = Inr []"
      using concat_rmap_Nil [OF iss(1,2), of name] that by auto
    then obtain c where c: "map_of cs name = Some c" "contract_issues c = []" "mode \<in> set (fc_allowed_modes c)"
      "series_issues c spike_index name (map_of baseline name) (map_of mutated name) = Inr []"
      by (auto simp: causality_issues_def rbind_Inr_iff split: option.splits)
    from c(4) obtain bs ms where s: "map_of baseline name = Some bs" "map_of mutated name = Some ms" "length bs = length ms"
      "spike_index < int (length bs)"
      "\<And>i. int i < first_observable_index c spike_index \<Longrightarrow> i < length bs \<Longrightarrow> same_signal_value (bs ! i) (ms ! i) = Inr True"
      by (rule series_issues_Nil) blast
    have "\<not> fc_uses_future_bars c \<and> \<not> fc_uses_centered_window c \<and> \<not> fc_uses_negative_shift c \<and> \<not> fc_allows_repainting c"
      using c(2) by (auto simp: contract_issues_def)
    with c s show ?thesis by (auto simp: first_observable_index_def)
  qed
  with iss(3) show ?thesis by blast
qed

lemma digit_clock_parse: "parse_utc_opt digit_clock (Some ''7'') = Some 7" "parse_utc_opt digit_clock (Some ''3'') = Some 3"
  by code_simp+

lemma sample_contract_ok: "contract_issues (paper_safe ''spread'' ''book'' (Fin 5)) = []"
proof -
  have "str_lower ''causal'' = ''causal''" by code_simp
  then show ?thesis
    by (simp add: contract_issues_def paper_safe_def age_limit_issues_def known_modes_def execution_modes_def
        known_leakage_risks_def)
qed

theorem execution_view_is_safe_witness:
  "\<exists>view. build_execution_feature_view digit_clock [(''spread'', PInt 1)] [(''spread'', paper_safe ''spread'' ''book'' (Fin 5))]
      ''paper'' ''7'' [(''spread'', ''3'')] False = Inr view \<and> map fst view = [''spread'']"
proof -
  have low: "str_lower ''spread'' = ''spread''" by code_simp
  have age: "seconds_between 3 7 = fl (4 / 10 ^ 6)" by (simp add: seconds_between_def)
  have "fle (fl (4 / 10 ^ 6)) (fl 5)" by (rule fl_mono) simp
  then have fresh: "\<not> flt (Fin 5) (seconds_between 3 7)" unfolding age using fl_numeral [of "num.Bit1 (num.Bit0 num.One)"] fle_not_flt by simp
  have "build_execution_feature_view digit_clock [(''spread'', PInt 1)] [(''spread'', paper_safe ''spread'' ''book'' (Fin 5))]
      ''paper'' ''7'' [(''spread'', ''3'')] False = Inr [(''spread'', PInt 1)]" (is "?view = _")
    by (simp add: build_execution_feature_view_def execution_modes_def check_execution_field_def is_forecast_authority_field_def
        is_forecast_field_def low starts_with_def paper_safe_def sorted_keys_def evaluate_feature_ttl_def ttl_issues_def
        digit_clock_parse sample_contract_ok [unfolded paper_safe_def] issues_result_def fresh)
  with execution_view_is_safe [of digit_clock "[(''spread'', PInt 1)]"] show ?thesis by (force simp: sorted_keys_def)
qed

theorem causality_audit_sound_witness:
  "\<exists>r. audit_feature_causality [(''spread'', [PInt 1, PInt 2, PInt 9])] [(''spread'', [PInt 1, PInt 2, PInt 7])]
      [(''spread'', paper_safe ''spread'' ''book'' (Fin 5))] 2 ''paper'' = Inr r \<and> ir_passed r
    \<and> same_signal_value (PInt 1) (PInt 1) = Inr True"
proof -
  let ?b = "[(''spread'', [PInt 1, PInt 2, PInt 9])]" and ?m = "[(''spread'', [PInt 1, PInt 2, PInt 7])]"
  have small: "fle (Fin 0) (fl (1 / 10 ^ 12))" by (rule fl_ge_Fin) simp_all
  have same: "same_signal_value (PInt k) (PInt k) = Inr True" if "\<bar>k\<bar> \<le> 10" for k
  proof -
    have "of_pyint k = Inr (Fin (of_int k))" using that fl_of_int [of k] by (simp add: of_pyint_def)
    then show ?thesis using small by (simp add: same_signal_value_def fsub_def)
  qed
  have "audit_feature_causality ?b ?m [(''spread'', paper_safe ''spread'' ''book'' (Fin 5))] 2 ''paper''
      = Inr (audit_result [])"
    by (simp add: audit_feature_causality_def causality_issues_def sample_contract_ok series_issues_def
        first_observable_index_def sorted_set_def same numeral_2_eq_2)
       (simp add: paper_safe_def same)
  then obtain r where r: "audit_feature_causality ?b ?m [(''spread'', paper_safe ''spread'' ''book'' (Fin 5))] 2 ''paper'' = Inr r" "ir_passed r"
    by (auto simp: audit_result_def issues_result_def issues_report.defs)
  from causality_audit_sound [OF this] r show ?thesis by (force simp: paper_safe_def)
qed

end
