(* ===== verification/Forecasting.thy ===== *)
theory Forecasting
  imports Gates PyTime
begin

text \<open>
  What a forecast must pass before it is used (\<open>forecasting/\<close>): its time to live, the embargo, the
  comparison with the baselines and the stage it appends to a validation, the source contract, the
  drift monitor, the decay gate and the model card.
\<close>

text \<open>\<open>_parse_ts\<close>: only a final \<open>Z\<close> is replaced.\<close>

definition parse_ts :: "time_lib \<Rightarrow> string \<Rightarrow> int result" where
  "parse_ts clk s =
     (let text = (if ends_with ''Z'' s then butlast s @ ''+00:00'' else s)
      in case tl_parse clk text of
           None \<Rightarrow> Inl (ValueError (''Invalid isoformat string: '' @ str_repr text))
         | Some (aware, t) \<Rightarrow> Inr t)"

section \<open>Time to live\<close>

definition valid_stale_actions :: "string list" where
  "valid_stale_actions = [''ignore'', ''warn'', ''disable_feature'']"

definition valid_mode_scopes :: "string list" where
  "valid_mode_scopes = [''research'', ''validation'', ''shadow'', ''paper_observation'']"

record ttl_policy =
  tp_horizon :: int
  tp_max_age_seconds :: pyfloat
  tp_stale_action :: string
  tp_mode_scope :: string

record ttl_result =
  tr_passed :: bool
  tr_status :: string
  tr_action :: string
  tr_age_seconds :: pyfloat
  tr_issues :: "string list"

definition policy_issues :: "ttl_policy \<Rightarrow> string \<Rightarrow> string list" where
  "policy_issues p mode =
     flag (tp_horizon p \<le> 0) ''horizon_must_be_positive''
     @ (if \<not> is_finite (tp_max_age_seconds p) then [''max_age_seconds_non_finite'']
        else flag (flt (tp_max_age_seconds p) (Fin 0)) ''max_age_seconds_negative'')
     @ flag (tp_stale_action p \<notin> set valid_stale_actions) (''invalid_stale_action:'' @ tp_stale_action p)
     @ flag (tp_mode_scope p \<notin> set valid_mode_scopes) (''invalid_mode_scope:'' @ tp_mode_scope p)
     @ flag (mode \<noteq> tp_mode_scope p) (''mode_scope_mismatch:'' @ mode)"

definition judge_age :: "ttl_policy \<Rightarrow> string list \<Rightarrow> pyfloat \<Rightarrow> ttl_result" where
  "judge_age p issues age =
     (if issues \<noteq> [] \<and> tp_stale_action p \<notin> set [''ignore'', ''warn'']
      then \<lparr>tr_passed = False, tr_status = ''INVALID_POLICY'', tr_action = ''disable_feature'',
            tr_age_seconds = age, tr_issues = issues\<rparr>
      else if is_finite (tp_max_age_seconds p) \<and> flt (tp_max_age_seconds p) age
      then (if tp_stale_action p = ''disable_feature''
            then \<lparr>tr_passed = False, tr_status = ''STALE'', tr_action = ''disable_feature'',
                  tr_age_seconds = age, tr_issues = issues @ [''forecast_stale'']\<rparr>
            else if tp_stale_action p = ''warn''
            then \<lparr>tr_passed = (issues = []), tr_status = ''WARN_STALE'', tr_action = ''warn'',
                  tr_age_seconds = age, tr_issues = issues @ [''forecast_stale'']\<rparr>
            else \<lparr>tr_passed = (issues = []), tr_status = ''STALE_IGNORED'', tr_action = ''ignore'',
                  tr_age_seconds = age, tr_issues = issues @ [''forecast_stale'']\<rparr>)
      else \<lparr>tr_passed = (issues = []), tr_status = ''FRESH'', tr_action = ''allow'',
            tr_age_seconds = age, tr_issues = issues\<rparr>)"

definition ttl_evaluate :: "time_lib \<Rightarrow> ttl_policy \<Rightarrow> string \<Rightarrow> string \<Rightarrow> string \<Rightarrow> ttl_result result" where
  "ttl_evaluate clk p forecast_timestamp decision_time mode =
     rbind (parse_ts clk forecast_timestamp) (\<lambda>f. rbind (parse_ts clk decision_time) (\<lambda>d.
       let age = seconds_between f d
       in Inr (judge_age p (policy_issues p mode
            @ flag (flt age (Fin 0)) ''forecast_timestamp_after_decision_time'') age)))"

record join_result =
  jr_joined :: bool
  jr_status :: string
  jr_row :: "(string, pyval) dict"
  jr_issues :: "string list"

definition join_forecast_feature_if_fresh ::
    "time_lib \<Rightarrow> (string, pyval) dict \<Rightarrow> string \<Rightarrow> pyval \<Rightarrow> string \<Rightarrow> string \<Rightarrow> ttl_policy \<Rightarrow> string \<Rightarrow> join_result result" where
  "join_forecast_feature_if_fresh clk row name v forecast_timestamp decision_time p mode =
     rbind (ttl_evaluate clk p forecast_timestamp decision_time mode) (\<lambda>ttl.
       Inr (if \<not> tr_passed ttl \<and> tr_action ttl = ''disable_feature''
            then \<lparr>jr_joined = False, jr_status = tr_status ttl, jr_row = row, jr_issues = tr_issues ttl\<rparr>
            else \<lparr>jr_joined = True, jr_status = tr_status ttl, jr_row = AList.update name v row,
                  jr_issues = tr_issues ttl\<rparr>))"

section \<open>Embargo\<close>

record feature_embargo =
  fe_source_timestamp :: string
  fe_earliest_available_at :: string
  fe_execution_availability :: bool
  fe_embargo_seconds :: int
  fe_leakage_risk :: string

record embargo_result =
  eb_passed :: bool
  eb_reasons :: "string list"
  eb_leakage_risk :: string

definition embargo_evaluate :: "time_lib \<Rightarrow> feature_embargo \<Rightarrow> string \<Rightarrow> string \<Rightarrow> embargo_result result" where
  "embargo_evaluate clk e decision_time mode =
     rbind (parse_ts clk (fe_source_timestamp e)) (\<lambda>source.
     rbind (parse_ts clk (fe_earliest_available_at e)) (\<lambda>available.
     rbind (parse_ts clk decision_time) (\<lambda>decision.
       let reasons =
             flag (decision < source) ''forecast_timestamp_after_decision_time''
             @ flag (decision < available) ''forecast_feature_embargo_active''
             @ flag (mode \<in> set [''paper'', ''paper_observation'', ''execution''] \<and> \<not> fe_execution_availability e)
                 ''forecast_not_execution_available''
             @ flag (fe_embargo_seconds e < 0) ''embargo_seconds_negative''
             @ flag (fe_leakage_risk e \<notin> set [''low'', ''medium'', ''high'', ''research_only'', ''future_timestamp'', ''embargoed''])
                 (''unknown_leakage_risk:'' @ fe_leakage_risk e)
       in Inr \<lparr>eb_passed = (reasons = []), eb_reasons = reasons, eb_leakage_risk = fe_leakage_risk e\<rparr>)))"

section \<open>Baselines\<close>

definition required_forecast_baselines :: "string list" where
  "required_forecast_baselines = [''no_forecast'', ''momentum'', ''breakout'', ''carry_funding'']"

record comparison_result =
  co_variant_id :: string
  co_net_post_cost_return :: pyfloat
  co_hard_gate_results :: "(string, bool) dict"

type_synonym baselines = "(string, comparison_result) dict"

definition baseline_returns :: "baselines \<Rightarrow> (string, pyfloat) dict" where
  "baseline_returns bs = concat (map (\<lambda>(i, r).
     flag (i \<in> set required_forecast_baselines) (i, co_net_post_cost_return r)) bs)"

text \<open>\<open>max(items, key=...)\<close>: the first item no later one exceeds.\<close>

fun best_item :: "string \<times> pyfloat \<Rightarrow> (string \<times> pyfloat) list \<Rightarrow> string \<times> pyfloat" where
  "best_item b [] = b"
| "best_item b (x # xs) = best_item (if flt (snd b) (snd x) then x else b) xs"

definition baseline_hard_gate_reference :: "baselines \<Rightarrow> (string, bool) dict" where
  "baseline_hard_gate_reference bs =
     foldl (\<lambda>d (g, ok). AList.update g (dget d g False \<or> ok) d) [] (concat (map (co_hard_gate_results \<circ> snd) bs))"

definition hard_gate_regressions :: "(string, bool) dict \<Rightarrow> (string, bool) dict \<Rightarrow> string list" where
  "hard_gate_regressions candidate reference =
     sort (map fst (filter (\<lambda>(g, ok). ok \<and> map_of candidate g = Some False) reference))"

text \<open>\<open>_unique\<close>: the first occurrences in order.\<close>

definition unique :: "string list \<Rightarrow> string list" where
  "unique xs = rev (remdups (rev xs))"

record baseline_gate_report =
  bg_forecast_variant_id :: string
  bg_status :: string
  bg_best_baseline :: "(string \<times> pyfloat) option"
  bg_forecast_return :: pyfloat
  bg_net_post_cost_improvement :: "pyfloat option"
  bg_baseline_returns :: "(string, pyfloat) dict"
  bg_hard_gate_regressions :: "string list"
  bg_promotion_decision :: promotion_decision

definition losing_baselines :: "pyfloat \<Rightarrow> (string, pyfloat) dict \<Rightarrow> string list" where
  "losing_baselines forecast_return rs = map fst (filter (\<lambda>(i, x). fle forecast_return x) rs)"

definition baseline_reasons :: "comparison_result \<Rightarrow> baselines \<Rightarrow> string list \<Rightarrow> string list" where
  "baseline_reasons forecast bs regressions =
     (let losing = losing_baselines (co_net_post_cost_return forecast) (baseline_returns bs)
      in unique (map (\<lambda>i. ''missing_required_baseline:'' @ i)
             (filter (\<lambda>i. i \<notin> dkeys bs) required_forecast_baselines)
           @ flag (losing \<noteq> []) ''forecast_does_not_beat_baselines''
           @ map (\<lambda>i. ''baseline_loss:'' @ i) (sort losing)
           @ map (\<lambda>g. ''forecast_hard_gate_weakened:'' @ g) regressions))"

definition compare_forecast_to_baselines ::
    "comparison_result \<Rightarrow> baselines \<Rightarrow> (string, bool) dict option \<Rightarrow> baseline_gate_report" where
  "compare_forecast_to_baselines forecast bs reference =
     (let rs = baseline_returns bs; mine = co_net_post_cost_return forecast;
          best = (case rs of [] \<Rightarrow> None | r # rest \<Rightarrow> Some (best_item r rest));
          regressions = hard_gate_regressions (co_hard_gate_results forecast)
            (case reference of Some (g # gs) \<Rightarrow> g # gs | _ \<Rightarrow> baseline_hard_gate_reference bs);
          reasons = baseline_reasons forecast bs regressions
      in \<lparr>bg_forecast_variant_id = co_variant_id forecast,
          bg_status = (if reasons = [] then ''passed'' else ''failed''), bg_best_baseline = best,
          bg_forecast_return = mine,
          bg_net_post_cost_improvement = map_option (\<lambda>b. round_nd 12 (fsub mine (snd b))) best,
          bg_baseline_returns = rs, bg_hard_gate_regressions = regressions,
          bg_promotion_decision = (if reasons = [] then \<lparr>pd_decision = ''accept'', pd_reasons = []\<rparr>
                                   else \<lparr>pd_decision = ''reject'', pd_reasons = reasons\<rparr>)\<rparr>)"

definition baseline_report_to_dict :: "baseline_gate_report \<Rightarrow> (string \<times> pyval) list" where
  "baseline_report_to_dict r =
     [(''forecast_variant_id'', PStr (bg_forecast_variant_id r)), (''status'', PStr (bg_status r)),
      (''best_baseline_id'', (case bg_best_baseline r of None \<Rightarrow> PNone | Some b \<Rightarrow> PStr (fst b))),
      (''best_baseline_return'', opt_float (map_option snd (bg_best_baseline r))),
      (''forecast_return'', PFloat (bg_forecast_return r)),
      (''net_post_cost_improvement'', opt_float (bg_net_post_cost_improvement r)),
      (''baseline_returns'', PDict (map (\<lambda>(i, x). (i, PFloat x)) (bg_baseline_returns r))),
      (''hard_gate_regressions'', PList (map PStr (bg_hard_gate_regressions r))),
      (''research_only'', PBool True), (''promotion_decision'', decision_payload (bg_promotion_decision r))]"

definition append_forecast_baseline_stage :: "staged_protocol \<Rightarrow> baseline_gate_report \<Rightarrow> staged_protocol" where
  "append_forecast_baseline_stage p r =
     (let passed = (bg_status r = ''passed'');
          stage = \<lparr>sr_stage_name = ''phase5_forecast_baseline_gate'', sr_passed = passed,
                   sr_reasons = pd_reasons (bg_promotion_decision r), sr_metrics = baseline_report_to_dict r\<rparr>
      in p\<lparr>vp_status := (if vp_status p = ''passed'' \<and> passed then ''passed'' else ''failed''),
            vp_stage_results := vp_stage_results p @ [stage],
            vp_gate_results := AList.update ''phase5_forecast_baseline_gate'' passed (vp_gate_results p),
            vp_promotion_decision := (if \<not> passed then bg_promotion_decision r else vp_promotion_decision p)\<rparr>)"

section \<open>Source contract\<close>

record contract_check =
  ck_passed :: bool
  ck_reasons :: "string list"
  ck_payload :: "(string \<times> pyval) list"

definition check_of :: "string list \<Rightarrow> (string \<times> pyval) list \<Rightarrow> contract_check" where
  "check_of reasons payload = \<lparr>ck_passed = (reasons = []), ck_reasons = reasons, ck_payload = payload\<rparr>"

definition str_in :: "pyval \<Rightarrow> string list \<Rightarrow> bool" where
  "str_in v names \<longleftrightarrow> (case v of PStr s \<Rightarrow> s \<in> set names | _ \<Rightarrow> False)"

definition list_or_Nil :: "pyval \<Rightarrow> pyval list" where
  "list_or_Nil v = (case v of PList xs \<Rightarrow> xs | _ \<Rightarrow> [])"

definition is_plist :: "pyval \<Rightarrow> bool" where
  "is_plist v \<longleftrightarrow> (case v of PList xs \<Rightarrow> True | _ \<Rightarrow> False)"

text \<open>Membership in a set hashes the value, so a list or dictionary there raises.\<close>

definition hash_check :: "pyval \<Rightarrow> unit result" where
  "hash_check v = raise_unless (hashable v) (TypeError ''unhashable type'')"

definition forecast_source_reasons :: "(string \<times> pyval) list \<Rightarrow> string list" where
  "forecast_source_reasons r =
     (let outputs = pget_or r ''allowed_outputs'' (PList []);
          given = pget_or r ''candidate_actions'' (PList []);
          actions = (if given = PNone then PList [] else given)
      in flag (pget r ''intended_usage'' \<noteq> PStr ''research_only_feature'') ''intended_usage_not_research_only_feature''
         @ flag (case pget r ''source_id'' of PStr s \<Rightarrow> s = [] | _ \<Rightarrow> True) ''missing_source_id''
         @ flag (\<not> str_in (pget r ''source_kind'') [''forecast_model'', ''forecast_fixture'', ''forecast_audit_method''])
             ''source_kind_not_allowed''
         @ flag (\<not> is_plist outputs) ''allowed_outputs_not_list''
         @ flag (list_ex (\<lambda>v. py_str v \<notin> set [''forecast_artifact'', ''forecast_feature'', ''risk_feature'', ''validation_evidence''])
               (list_or_Nil outputs)) ''raw_trading_output_not_allowed''
         @ flag (\<not> is_plist actions) ''candidate_actions_not_list''
         @ flag (list_ex (\<lambda>v. py_str v \<in> set [''emit_buy_sell_size'', ''raw_order'', ''raw_trading_signal'',
               ''live_execution'', ''execution_signal'']) (list_or_Nil actions)) ''raw_trading_action_not_allowed''
         @ flag (pget r ''execution_routing_enabled'' \<noteq> PBool False) ''execution_routing_not_allowed''
         @ flag (pget r ''live_trading_enabled'' \<noteq> PBool False) ''live_trading_not_allowed''
         @ flag (\<not> str_in (pget_or r ''fine_tuning_policy'' (PStr ''none_initial''))
               [''none'', ''none_initial'', ''none_initial_lora_later_only'', ''lora_later_only''])
             ''fine_tuning_policy_not_allowed_initially'')"

definition validate_forecast_source_contract :: "(string \<times> pyval) list \<Rightarrow> contract_check result" where
  "validate_forecast_source_contract r =
     rbind (hash_check (pget r ''source_kind'')) (\<lambda>_.
     rbind (hash_check (pget_or r ''fine_tuning_policy'' (PStr ''none_initial''))) (\<lambda>_.
       Inr (check_of (forecast_source_reasons r) r)))"

section \<open>Drift and decay\<close>

record drift_result =
  dr_status :: string
  dr_directional_decay :: pyfloat
  dr_direct_order_change :: bool

definition drift_evaluate :: "pyfloat \<Rightarrow> pyfloat \<Rightarrow> pyfloat \<Rightarrow> drift_result" where
  "drift_evaluate max_decay previous current =
     (let decay = fmax (Fin 0) (fsub previous current)
      in \<lparr>dr_status = (if flt max_decay decay then ''DISABLED'' else if flt (Fin 0) decay then ''DECAYING'' else ''BASELINE_PASSED''),
          dr_directional_decay = decay, dr_direct_order_change = False\<rparr>)"

record decay_gate =
  dg_min_baseline_edge :: pyfloat
  dg_max_calibration_error :: pyfloat
  dg_max_directional_decay :: pyfloat
  dg_max_staleness :: int
  dg_min_symbol_coverage :: pyfloat

record decay_inputs =
  di_baseline_edge :: pyfloat
  di_calibration_error :: pyfloat
  di_directional_decay :: pyfloat
  di_staleness_seconds :: pyfloat
  di_symbol_coverage :: pyfloat

record decay_result =
  dc_state :: string
  dc_action :: string
  dc_reasons :: "string list"
  dc_direct_order_change :: bool

definition decay_checks :: "(string \<times> (decay_gate \<times> decay_inputs \<Rightarrow> bool)) list" where
  "decay_checks =
     [(''baseline_edge_below_min'', \<lambda>(g, i). \<not> flt (di_baseline_edge i) (dg_min_baseline_edge g)),
      (''calibration_error_above_max'', \<lambda>(g, i). \<not> flt (dg_max_calibration_error g) (di_calibration_error i)),
      (''directional_decay_above_max'', \<lambda>(g, i). \<not> flt (dg_max_directional_decay g) (di_directional_decay i)),
      (''staleness_above_max'', \<lambda>(g, i). \<not> flt (fl (of_int (dg_max_staleness g))) (di_staleness_seconds i)),
      (''symbol_coverage_below_min'', \<lambda>(g, i). \<not> flt (di_symbol_coverage i) (dg_min_symbol_coverage g))]"

definition decay_reasons :: "decay_gate \<Rightarrow> decay_inputs \<Rightarrow> string list" where
  "decay_reasons g i =
     flag (flt (di_baseline_edge i) (dg_min_baseline_edge g)) ''baseline_edge_below_min''
     @ flag (flt (dg_max_calibration_error g) (di_calibration_error i)) ''calibration_error_above_max''
     @ flag (flt (dg_max_directional_decay g) (di_directional_decay i)) ''directional_decay_above_max''
     @ flag (flt (fl (of_int (dg_max_staleness g))) (di_staleness_seconds i)) ''staleness_above_max''
     @ flag (flt (di_symbol_coverage i) (dg_min_symbol_coverage g)) ''symbol_coverage_below_min''"

definition decay_evaluate :: "decay_gate \<Rightarrow> decay_inputs \<Rightarrow> decay_result" where
  "decay_evaluate g i =
     (let reasons = decay_reasons g i
      in if reasons \<noteq> []
         then \<lparr>dc_state = ''DISABLED'', dc_action = ''disable_research_feature'', dc_reasons = reasons,
               dc_direct_order_change = False\<rparr>
         else \<lparr>dc_state = ''FEATURE_ALLOWED'', dc_action = ''allow_research_feature'', dc_reasons = [],
               dc_direct_order_change = False\<rparr>)"

interpretation decay: check_gate decay_checks "\<lambda>(g, i). decay_reasons g i"
    "\<lambda>(g, i). dc_state (decay_evaluate g i) = ''FEATURE_ALLOWED''"
  by unfold_locales (auto simp: decay_checks_def decay_reasons_def decay_evaluate_def Let_def flag_def)

section \<open>Model card\<close>

definition required_forbidden_uses :: "string list" where
  "required_forbidden_uses =
     [''orders'', ''position_size'', ''leverage'', ''stops'', ''execution_urgency'', ''artifact_promotion'']"

record forecast_card =
  fo_forecast_model_id :: string
  fo_model_type :: string
  fo_symbols :: "string list"
  fo_horizon :: int
  fo_quantiles :: "string list"
  fo_allowed_modes :: "string list"
  fo_forbidden_uses :: "string list"

definition forecast_card_reasons :: "forecast_card \<Rightarrow> string list" where
  "forecast_card_reasons c =
     flag (fo_forecast_model_id c = []) ''missing_forecast_model_id'' @ flag (fo_model_type c = []) ''missing_model_type''
     @ flag (fo_horizon c \<le> 0) ''horizon_must_be_positive'' @ flag (fo_symbols c = []) ''missing_symbols''
     @ flag (''q50'' \<notin> set (fo_quantiles c)) ''missing_required_quantile:q50''
     @ map (\<lambda>m. ''allowed_mode_not_forecast_safe:'' @ m) (filter (\<lambda>m. m \<notin> set valid_mode_scopes) (fo_allowed_modes c))
     @ map (\<lambda>u. ''missing_forbidden_use:'' @ u)
         (sort (filter (\<lambda>u. u \<notin> set (fo_forbidden_uses c)) required_forbidden_uses))"

definition validate_forecast_model_card :: "forecast_card \<Rightarrow> bool \<times> string list" where
  "validate_forecast_model_card c = (forecast_card_reasons c = [], forecast_card_reasons c)"

section \<open>What a forecast is joined on\<close>

lemma seconds_between_neg: "flt (seconds_between a b) (Fin 0) \<Longrightarrow> b < a"
  using seconds_between_mono [of a a a b] fle_not_flt by fastforce

lemma seconds_between_not_NaN [simp]: "seconds_between a b \<noteq> NaN"
  by (simp add: seconds_between_def)

text \<open>C27. Under the policy that disables stale features a forecast is only joined to a row when the policy is
  sound and made for the mode, the forecast is not from the future of the decision and not older than the
  policy allows; the row then differs from the given one in that feature alone.  Under the two lenient
  policies the feature is joined whatever the check finds, a forecast from the future included.\<close>

theorem forecast_join_guarded:
  assumes "parse_ts clk forecast_time = Inr f" "parse_ts clk decision_time = Inr d"
    and "join_forecast_feature_if_fresh clk row name v forecast_time decision_time p mode = Inr r"
  shows "(tp_stale_action p = ''disable_feature'' \<and> jr_joined r \<longrightarrow>
        mode = tp_mode_scope p \<and> 0 < tp_horizon p \<and> \<not> flt (seconds_between f d) (Fin 0)
        \<and> fle (seconds_between f d) (tp_max_age_seconds p) \<and> jr_issues r = [])
    \<and> (tp_stale_action p \<in> set [''ignore'', ''warn''] \<longrightarrow> jr_joined r)
    \<and> jr_row r = (if jr_joined r then AList.update name v row else row)"
proof -
  let ?age = "seconds_between f d"
  let ?issues = "policy_issues p mode @ flag (flt ?age (Fin 0)) ''forecast_timestamp_after_decision_time''"
  let ?t = "judge_age p ?issues ?age"
  have r: "r = (if \<not> tr_passed ?t \<and> tr_action ?t = ''disable_feature''
            then \<lparr>jr_joined = False, jr_status = tr_status ?t, jr_row = row, jr_issues = tr_issues ?t\<rparr>
            else \<lparr>jr_joined = True, jr_status = tr_status ?t, jr_row = AList.update name v row, jr_issues = tr_issues ?t\<rparr>)"
    using assms by (simp add: join_forecast_feature_if_fresh_def ttl_evaluate_def Let_def)
  have strict: "mode = tp_mode_scope p \<and> 0 < tp_horizon p \<and> \<not> flt ?age (Fin 0) \<and> fle ?age (tp_max_age_seconds p) \<and> jr_issues r = []"
    if p: "tp_stale_action p = ''disable_feature''" "jr_joined r"
  proof -
    have i: "?issues = []" using p by (auto simp: r judge_age_def split: if_splits)
    then have fin: "is_finite (tp_max_age_seconds p)" by (auto simp: policy_issues_def split: if_splits)
    have nl: "\<not> flt (tp_max_age_seconds p) ?age" using p fin by (auto simp: r judge_age_def i split: if_splits)
    have "tp_max_age_seconds p \<noteq> NaN" using fin by auto
    then have "fle ?age (tp_max_age_seconds p)" using nl by (intro not_flt_fle) simp_all
    moreover have "jr_issues r = []" using nl by (simp add: r judge_age_def i)
    ultimately show ?thesis using i by (auto simp: policy_issues_def)
  qed
  have "tr_action ?t \<noteq> ''disable_feature''" if "tp_stale_action p \<in> set [''ignore'', ''warn'']"
    using that by (auto simp: judge_age_def)
  with strict show ?thesis by (auto simp: r)
qed

definition sample_policy :: "string \<Rightarrow> ttl_policy" where
  "sample_policy action = \<lparr>tp_horizon = 3, tp_max_age_seconds = Fin 5, tp_stale_action = action, tp_mode_scope = ''research''\<rparr>"

lemma digit_clock_ts: "parse_ts digit_clock ''7'' = Inr 7" "parse_ts digit_clock ''3'' = Inr 3"
  by code_simp+

theorem forecast_join_guarded_witness:
  "\<exists>r. join_forecast_feature_if_fresh digit_clock [] ''forecast_q50'' (PInt 1) ''7'' ''3'' (sample_policy ''warn'') ''research'' = Inr r
     \<and> jr_joined r \<and> flt (seconds_between 7 3) (Fin 0)"
proof -
  obtain r where r: "join_forecast_feature_if_fresh digit_clock [] ''forecast_q50'' (PInt 1) ''7'' ''3'' (sample_policy ''warn'') ''research'' = Inr r"
    by (simp add: join_forecast_feature_if_fresh_def ttl_evaluate_def digit_clock_ts Let_def)
  have neg: "- (4 :: rat) / 10 ^ 6 \<le> - 1 / 2 ^ 20" by simp
  have "rnd64 (- 1 / 2 ^ 20) = - 1 / 2 ^ 20" using rnd64_dyadic [of "- 1" 20] by simp
  then have "fl (- 1 / 2 ^ 20) = Fin (- 1 / 2 ^ 20)" using small_less_limit64 [of "1 / 2 ^ 20"] by (intro fl_exact) simp_all
  with fl_mono [OF neg] have "fle (fl (- 4 / 10 ^ 6)) (Fin (- 1 / 2 ^ 20))" by simp
  moreover have "flt (Fin (- 1 / 2 ^ 20)) (Fin 0)" by simp
  ultimately have "flt (fl (- 4 / 10 ^ 6)) (Fin 0)" using fle_flt_trans by blast
  then have "flt (seconds_between 7 3) (Fin 0)" by (simp add: seconds_between_def)
  with forecast_join_guarded [OF digit_clock_ts r] r show ?thesis by (auto simp: sample_policy_def)
qed

section \<open>The baseline gate\<close>

lemma set_unique [simp]: "set (unique xs) = set xs"
  by (simp add: unique_def)

lemma unique_Nil_iff [simp]: "unique xs = [] \<longleftrightarrow> xs = []"
  by (simp add: unique_def)

lemma reference_fold:
  "dict_ok d \<Longrightarrow> dict_ok (foldl (\<lambda>d (g, ok). AList.update g (dget d g False \<or> ok) d) d xs)
     \<and> (dget (foldl (\<lambda>d (g, ok). AList.update g (dget d g False \<or> ok) d) d xs) g False
          \<longleftrightarrow> dget d g False \<or> (g, True) \<in> set xs)"
  by (induction xs arbitrary: d) (auto split: prod.split)

lemma baseline_reference_iff:
  "(g, True) \<in> set (baseline_hard_gate_reference bs) \<longleftrightarrow> (\<exists>(i, r) \<in> set bs. (g, True) \<in> set (co_hard_gate_results r))"
proof -
  let ?d = "baseline_hard_gate_reference bs"
  have ok: "dict_ok ?d" and get: "dget ?d g False \<longleftrightarrow> (g, True) \<in> set (concat (map (co_hard_gate_results \<circ> snd) bs))"
    using reference_fold [of "[]" "concat (map (co_hard_gate_results \<circ> snd) bs)" g]
    by (simp_all add: baseline_hard_gate_reference_def)
  have "(g, True) \<in> set ?d \<longleftrightarrow> map_of ?d g = Some True" using ok by (simp add: dict_ok_def)
  also have "\<dots> \<longleftrightarrow> dget ?d g False" by (auto simp: dget_def split: option.split)
  finally show ?thesis using get by force
qed

text \<open>The baseline gate is exact: without a reference of its own it accepts a forecast variant if and only if
  all four required baselines were run, the variant's return is at most none of theirs, and it fails no hard
  gate that one of the baselines passed; otherwise it rejects with the reasons.\<close>

lemma baseline_gate_exact:
  assumes "r = compare_forecast_to_baselines forecast bs None"
  shows "(bg_status r = ''passed'' \<longleftrightarrow>
       set required_forecast_baselines \<subseteq> dkeys bs
       \<and> (\<forall>(i, b) \<in> set bs. i \<in> set required_forecast_baselines \<longrightarrow>
            \<not> fle (co_net_post_cost_return forecast) (co_net_post_cost_return b))
       \<and> (\<forall>(i, b) \<in> set bs. \<forall>g. (g, True) \<in> set (co_hard_gate_results b) \<longrightarrow>
            map_of (co_hard_gate_results forecast) g \<noteq> Some False))
    \<and> (pd_decision (bg_promotion_decision r) = ''accept'' \<longleftrightarrow> bg_status r = ''passed'')
    \<and> (bg_status r \<noteq> ''passed'' \<longrightarrow> pd_reasons (bg_promotion_decision r) \<noteq> [])"
proof -
  let ?reg = "hard_gate_regressions (co_hard_gate_results forecast) (baseline_hard_gate_reference bs)"
  have reg: "?reg = [] \<longleftrightarrow> (\<forall>(i, b) \<in> set bs. \<forall>g. (g, True) \<in> set (co_hard_gate_results b) \<longrightarrow>
            map_of (co_hard_gate_results forecast) g \<noteq> Some False)"
  proof -
    have "?reg = [] \<longleftrightarrow> (\<forall>g. (g, True) \<in> set (baseline_hard_gate_reference bs) \<longrightarrow> map_of (co_hard_gate_results forecast) g \<noteq> Some False)"
      by (auto simp: hard_gate_regressions_def filter_empty_conv simp flip: set_empty)
    then show ?thesis unfolding baseline_reference_iff by blast
  qed
  have lose: "losing_baselines x (baseline_returns bs) = [] \<longleftrightarrow>
      (\<forall>(i, b) \<in> set bs. i \<in> set required_forecast_baselines \<longrightarrow> \<not> fle x (co_net_post_cost_return b))" for x
    by (force simp: losing_baselines_def baseline_returns_def filter_empty_conv)
  have rs: "baseline_reasons forecast bs ?reg = [] \<longleftrightarrow> set required_forecast_baselines \<subseteq> dkeys bs
      \<and> losing_baselines (co_net_post_cost_return forecast) (baseline_returns bs) = [] \<and> ?reg = []"
    by (auto simp: baseline_reasons_def Let_def filter_empty_conv)
  show ?thesis
    unfolding assms compare_forecast_to_baselines_def Let_def option.case
    using rs [unfolded reg lose] by simp
qed

lemma baseline_gate_exact_witness:
  "bg_status (compare_forecast_to_baselines
      \<lparr>co_variant_id = ''v'', co_net_post_cost_return = NaN, co_hard_gate_results = []\<rparr>
      (map (\<lambda>i. (i, \<lparr>co_variant_id = i, co_net_post_cost_return = Fin 1, co_hard_gate_results = []\<rparr>)) required_forecast_baselines)
      None) = ''passed''"
  by (subst conjunct1 [OF baseline_gate_exact, OF refl]) (auto simp: dkeys_def image_image)


section \<open>Appending stages\<close>

text \<open>What every appended stage promises: it can only turn a passed protocol into a failed one and keeps the
  stages before it.\<close>

locale tightening_stage =
  fixes stage :: "'r \<Rightarrow> staged_protocol \<Rightarrow> staged_protocol"
    and ok :: "'r \<Rightarrow> bool"
  assumes stage_status: "vp_status (stage r p) = (if vp_status p = ''passed'' \<and> ok r then ''passed'' else ''failed'')"
    and stage_appends: "\<exists>s. vp_stage_results (stage r p) = vp_stage_results p @ [s] \<and> sr_passed s = ok r"
begin

lemma run_passed: "vp_status (fold stage rs p) = ''passed'' \<longleftrightarrow> vp_status p = ''passed'' \<and> (\<forall>r \<in> set rs. ok r)"
  by (induction rs arbitrary: p) (auto simp: stage_status)

lemma run_stages: "map sr_passed (vp_stage_results (fold stage rs p)) = map sr_passed (vp_stage_results p) @ map ok rs"
proof (induction rs arbitrary: p)
  case (Cons r rs)
  then show ?case using stage_appends [of r p] by auto
qed simp

end

interpretation v3_stage: tightening_stage "\<lambda>b p. append_v3_gate_stage p b" "\<lambda>b. vb_status b = ''passed''"
  by unfold_locales (auto simp: append_v3_gate_stage_def Let_def)

interpretation governance_stage: tightening_stage "\<lambda>r p. append_phase4_governance_stage p r" "\<lambda>r. gr_status r = ''passed''"
  by unfold_locales (auto simp: append_phase4_governance_stage_def Let_def)

interpretation forecast_stage: tightening_stage "\<lambda>r p. append_forecast_baseline_stage p r" "\<lambda>r. bg_status r = ''passed''"
  by unfold_locales (auto simp: append_forecast_baseline_stage_def Let_def)

lemma forecast_stages_tighten:
  "vp_status (fold (\<lambda>r p. append_forecast_baseline_stage p r) rs
       (append_phase4_governance_stage (append_v3_gate_stage p b) g)) = ''passed''
     \<longleftrightarrow> vp_status p = ''passed'' \<and> vb_status b = ''passed'' \<and> gr_status g = ''passed'' \<and> (\<forall>r \<in> set rs. bg_status r = ''passed'')"
  using forecast_stage.run_passed governance_stage.run_passed [of "[g]"] v3_stage.run_passed [of "[b]"] by auto

end
