(* ===== verification/AgentControls.thy ===== *)
theory AgentControls
  imports StrategyDsl Forecasting
begin

text \<open>
  What the research agent may do and what its changes must document (\<open>agent/action_schema.py\<close>,
  \<open>loop_modes.py\<close>, \<open>no_trade_policy_enforcer.py\<close>, \<open>tool_policy.py\<close>, \<open>contracts.py\<close>, \<open>model_governance.py\<close>,
  \<open>study_validator.py\<close>, \<open>regression.py\<close>, the feedback adapters), the failure families of the memory
  (\<open>memory/failure_taxonomy_v2.py\<close>) and the artifact helpers (\<open>artifacts/\<close>).
\<close>

section \<open>Actions\<close>

definition allowed_agent_actions :: "string list" where
  "allowed_agent_actions =
     [''ProposeStudy'', ''RetryFailedStudy'', ''NarrowParameters'', ''ExpandScenarioStress'', ''RequestAblation'',
      ''RequestCalibrationStudy'', ''RequestForecastValidationStudy'', ''CompareIncumbent'', ''StopCampaign'']"

definition forbidden_agent_actions :: "string list" where
  "forbidden_agent_actions =
     [''PlaceOrder'', ''PromoteArtifactDirectly'', ''ChangeRiskLimit'', ''ApproveSymbolForPaper'',
      ''EditVenueTranslator'', ''DisableCircuitBreaker'', ''EnableLive'']"

record verdict =
  ve_allowed :: bool
  ve_reasons :: "string list"

definition validate_action :: "string \<Rightarrow> verdict" where
  "validate_action action =
     (if action \<in> set forbidden_agent_actions then \<lparr>ve_allowed = False, ve_reasons = [''forbidden_action:'' @ action]\<rparr>
      else if action \<notin> set allowed_agent_actions then \<lparr>ve_allowed = False, ve_reasons = [''unknown_action:'' @ action]\<rparr>
      else \<lparr>ve_allowed = True, ve_reasons = []\<rparr>)"

definition enforce_no_trade_authority :: "string list \<Rightarrow> verdict" where
  "enforce_no_trade_authority actions =
     (let reasons = concat (map (\<lambda>a. let v = validate_action a in if \<not> ve_allowed v then ve_reasons v else []) actions)
      in \<lparr>ve_allowed = (reasons = []), ve_reasons = reasons\<rparr>)"

datatype loop_mode = LM_SCOUT | LM_EXPLOIT | LM_STRESS | LM_CALIBRATE | LM_PORTFOLIO | LM_EXECUTOR | LM_STOP

fun mode_actions :: "loop_mode \<Rightarrow> string list" where
  "mode_actions LM_SCOUT = [''ProposeStudy'', ''RequestAblation'', ''RequestForecastValidationStudy'', ''StopCampaign'']"
| "mode_actions LM_EXPLOIT = [''NarrowParameters'', ''CompareIncumbent'', ''StopCampaign'']"
| "mode_actions LM_STRESS = [''ExpandScenarioStress'', ''RequestAblation'', ''StopCampaign'']"
| "mode_actions LM_CALIBRATE =
     [''RequestCalibrationStudy'', ''RequestForecastValidationStudy'', ''CompareIncumbent'', ''StopCampaign'']"
| "mode_actions LM_PORTFOLIO = [''ProposeStudy'', ''CompareIncumbent'', ''StopCampaign'']"
| "mode_actions LM_EXECUTOR = [''RequestCalibrationStudy'', ''CompareIncumbent'', ''StopCampaign'']"
| "mode_actions LM_STOP = [''StopCampaign'']"

definition allowed_actions_for_mode :: "loop_mode \<Rightarrow> string list" where
  "allowed_actions_for_mode m = filter (\<lambda>a. a \<in> set allowed_agent_actions) (mode_actions m)"

record tool_policy =
  to_profile :: string
  to_allowed_tools :: "string list"
  to_denied_tools :: "string list"
  to_human_approval_required_tools :: "string list"
  to_audit_log_required :: bool

definition denied_agent_tools :: "string list" where
  "denied_agent_tools =
     [''place_order'', ''submit_order'', ''set_leverage'', ''change_margin_mode'', ''change_position_mode'',
      ''promote_artifact_direct'', ''approve_symbol_direct'', ''disable_circuit_breaker'']"

definition default_research_profile :: tool_policy where
  "default_research_profile =
     \<lparr>to_profile = ''research'',
      to_allowed_tools = [''list_layers'', ''get_validation_protocol'', ''compare_validation_results''],
      to_denied_tools = denied_agent_tools,
      to_human_approval_required_tools = [''request_artifact_promotion'', ''request_model_promotion''],
      to_audit_log_required = True\<rparr>"

definition tool_is_allowed :: "tool_policy \<Rightarrow> string \<Rightarrow> bool" where
  "tool_is_allowed p tool \<longleftrightarrow> tool \<in> set (to_allowed_tools p) \<and> tool \<notin> set (to_denied_tools p)"

section \<open>Policy contracts\<close>

definition v3_allowed_policy_types :: "string list" where
  "v3_allowed_policy_types =
     [''planner_refinement_heuristic'', ''memory_selection'', ''duplicate_ranking'', ''stop_policy'', ''karpathy_decision_policy'']"

definition v3_exploration_budget :: "(string \<times> int) list" where
  "v3_exploration_budget =
     [(''existing_family_refinement'', 35), (''symbol_portability'', 20), (''regime_robustness'', 20),
      (''new_families'', 15), (''portfolio_allocation'', 10), (''rl_meta_routing'', 0)]"

text \<open>\<open>for action in actions\<close>: also a string and a dictionary can be iterated.\<close>

definition iterate :: "pyval \<Rightarrow> pyval list result" where
  "iterate v =
     (case v of
        PList xs \<Rightarrow> Inr xs
      | PStr s \<Rightarrow> Inr (map (\<lambda>c. PStr [c]) s)
      | PDict d \<Rightarrow> Inr (map (\<lambda>kv. PStr (fst kv)) d)
      | _ \<Rightarrow> Inl (TypeError ''object is not iterable''))"

definition policy_contract_reasons :: "(string \<times> pyval) list \<Rightarrow> pyval list \<Rightarrow> string list" where
  "policy_contract_reasons p actions =
     flag (\<not> Forecasting.str_in (pget p ''policy_type'') v3_allowed_policy_types) ''policy_type_not_allowed''
     @ flag (case pget p ''policy_id'' of PStr s \<Rightarrow> s = [] | _ \<Rightarrow> True) ''missing_policy_id''
     @ flag (\<not> is_plist (pget_or p ''candidate_actions'' (PList []))) ''candidate_actions_not_list''
     @ flag (list_ex (\<lambda>a. py_str a \<in> set [''emit_buy_sell_size'', ''raw_order'', ''raw_trading_signal'']) actions)
         ''raw_trading_action_not_allowed''
     @ flag (list_ex (\<lambda>a. py_str a \<in> set [''raw_forecast_order'', ''forecast_order'', ''forecast_trade_action'']) actions)
         ''raw_forecast_action_not_allowed''"

definition validate_policy_contract :: "(string \<times> pyval) list \<Rightarrow> contract_check result" where
  "validate_policy_contract p =
     rbind (hash_check (pget p ''policy_type'')) (\<lambda>_.
     rbind (iterate (pget_or p ''candidate_actions'' (PList []))) (\<lambda>actions.
       Inr (check_of (policy_contract_reasons p actions) p)))"

definition evaluate_exploration_budget :: "(string, pyval) dict \<Rightarrow> contract_check result" where
  "evaluate_exploration_budget usage =
     rbind (rmap (\<lambda>(bucket, cap). rbind (py_float (pget_or usage bucket (PInt 0))) (\<lambda>used. Inr (bucket, cap, used)))
        v3_exploration_budget) (\<lambda>rows.
       Inr (check_of
         (concat (map (\<lambda>(bucket, cap, used). flag (flt (Fin (of_int cap)) used) (''budget_exceeded:'' @ bucket)) rows)
          @ map (\<lambda>b. ''unknown_budget_bucket:'' @ b)
              (filter (\<lambda>b. b \<notin> dkeys v3_exploration_budget) (map fst usage)))
         [(''usage_per_100'', PDict (map (\<lambda>(bucket, cap, used). (bucket, PFloat used)) rows))]))"

record duplicate_classification =
  du_is_duplicate :: bool
  du_match_type :: "string option"
  du_fail_code :: "string option"
  du_consumed_budget_bucket :: "string option"
  du_ast_similarity :: pyfloat
  du_parameter_schema_delta :: pyfloat

definition duplicate_of :: "string \<Rightarrow> string \<Rightarrow> pyfloat \<Rightarrow> pyfloat \<Rightarrow> duplicate_classification" where
  "duplicate_of match_type bucket similarity delta =
     \<lparr>du_is_duplicate = True, du_match_type = Some match_type, du_fail_code = Some ''duplicate_candidate'',
      du_consumed_budget_bucket = Some bucket, du_ast_similarity = similarity, du_parameter_schema_delta = delta\<rparr>"

definition classify_duplicate_candidate :: "string \<Rightarrow> string list \<Rightarrow> pyfloat \<Rightarrow> pyfloat \<Rightarrow> string \<Rightarrow> duplicate_classification" where
  "classify_duplicate_candidate candidate existing similarity delta bucket =
     (if candidate \<in> set existing then duplicate_of ''exact'' bucket similarity delta
      else if flt (fl (9 / 10)) similarity \<and> flt delta (fl (5 / 100)) then duplicate_of ''near'' bucket similarity delta
      else \<lparr>du_is_duplicate = False, du_match_type = None, du_fail_code = None, du_consumed_budget_bucket = None,
            du_ast_similarity = similarity, du_parameter_schema_delta = delta\<rparr>)"

section \<open>Model changes\<close>

definition is_empty_value :: "pyval \<Rightarrow> bool" where
  "is_empty_value v \<longleftrightarrow> v \<in> {PNone, PStr [], PDict [], PList []}"

definition model_change_reasons :: "(string \<times> pyval) list \<Rightarrow> string list" where
  "model_change_reasons r =
     flag (\<not> Forecasting.str_in (pget r ''model_type'') [''strategy'', ''feature'', ''cost'', ''risk'', ''calibration'', ''execution''])
       ''model_type_not_allowed''
     @ concat (map (\<lambda>f. flag (is_empty_value (pget r f)) (''missing:'' @ f))
         [''model_version'', ''diff_summary'', ''replay_comparison'', ''rollback_target'', ''approval_state''])
     @ flag (\<not> Forecasting.str_in (pget r ''approval_state'') [''proposed'', ''approved'', ''rejected'', ''rollback_ready''])
         ''approval_state_not_allowed''
     @ flag (case pget r ''replay_comparison'' of PNone \<Rightarrow> False | PDict d \<Rightarrow> False | _ \<Rightarrow> True)
         ''replay_comparison_not_object''"

definition validate_model_change_record :: "(string \<times> pyval) list \<Rightarrow> contract_check result" where
  "validate_model_change_record r =
     rbind (hash_check (pget r ''model_type'')) (\<lambda>_. rbind (hash_check (pget r ''approval_state'')) (\<lambda>_.
       Inr (check_of (model_change_reasons r) r)))"

text \<open>The parts of a specification that a kind of model consists of.\<close>

definition part_fields :: "(string \<times> string list) list" where
  "part_fields =
     [(''strategy'', [''family'', ''structure'', ''parameter_schema'']), (''feature'', [''feature_contracts'']),
      (''risk'', [''risk_hooks'']), (''execution'', [''execution_policy''])]"

definition part_of :: "string list \<Rightarrow> (string \<times> pyval) list \<Rightarrow> (string \<times> pyval) list" where
  "part_of names spec = map (\<lambda>f. (f, pget spec f)) names"

definition changed_fields :: "(string \<times> pyval) list \<Rightarrow> (string \<times> pyval) list \<Rightarrow> string list" where
  "changed_fields before after =
     filter (\<lambda>f. \<not> py_eq (pget before f) (pget after f)) (sorted_set (map fst before @ map fst after))"

record change_context =
  xc_previous_hash :: "string option"
  xc_next_hash :: "string option"
  xc_approval_state :: string
  xc_validation_status :: string
  xc_objective_score :: "pyfloat option"

definition opt_text :: "string option \<Rightarrow> pyval" where
  "opt_text s = (case s of None \<Rightarrow> PNone | Some t \<Rightarrow> PStr t)"

definition or_text :: "string option \<Rightarrow> string \<Rightarrow> string" where
  "or_text s d = (case s of None \<Rightarrow> d | Some t \<Rightarrow> if t = [] then d else t)"

definition change_record ::
    "change_context \<Rightarrow> string \<Rightarrow> (string \<times> pyval) list \<Rightarrow> (string \<times> pyval) list \<Rightarrow> (string \<times> pyval) list" where
  "change_record x kind before after =
     (let changed = changed_fields before after
      in [(''model_type'', PStr kind),
          (''model_version'', PStr (kind @ ''-'' @ take 12 (or_text (xc_next_hash x) ''unknown''))),
          (''diff_summary'', PStr (''changed '' @ join '', '' changed)),
          (''replay_comparison'', PDict
             [(''previous_identity_hash'', opt_text (xc_previous_hash x)),
              (''next_identity_hash'', opt_text (xc_next_hash x)),
              (''validation_status'', PStr (xc_validation_status x)),
              (''objective_score'', (case xc_objective_score x of None \<Rightarrow> PNone | Some s \<Rightarrow> PFloat s)),
              (''changed_fields'', PList (map PStr changed))]),
          (''rollback_target'', PStr (kind @ ''-'' @ take 12 (or_text (xc_previous_hash x) ''baseline''))),
          (''approval_state'', PStr (xc_approval_state x)), (''before'', PDict before), (''after'', PDict after)])"

definition append_change_record ::
    "change_context \<Rightarrow> (string \<times> pyval) list \<Rightarrow> (string \<times> pyval) list \<Rightarrow> string \<times> string list
     \<Rightarrow> (string \<times> pyval) list list \<Rightarrow> (string \<times> pyval) list list result" where
  "append_change_record x previous_spec next_spec kf records =
     (let before = part_of (snd kf) previous_spec; after = part_of (snd kf) next_spec
      in if py_eq (PDict before) (PDict after) then Inr records
         else
           let r = change_record x (fst kf) before after
           in rbind (validate_model_change_record r) (\<lambda>check. Inr (if ck_passed check then records @ [r] else records)))"

definition build_model_change_records ::
    "stable_hash \<Rightarrow> pyval \<Rightarrow> pyval \<Rightarrow> string \<Rightarrow> pyfloat option \<Rightarrow> (string \<times> pyval) list list result" where
  "build_model_change_records H previous_payload next_payload validation_status objective_score =
     rbind (build_spec previous_payload) (\<lambda>ps. rbind (validate_spec H (PDict ps)) (\<lambda>pv.
     rbind (build_spec next_payload) (\<lambda>ns. rbind (validate_spec H (PDict ns)) (\<lambda>nv.
       if \<not> bv_passed pv then Inl (ValueError ''previous_payload_not_bounded_strategy'')
       else if \<not> bv_passed nv then Inl (ValueError (join '';'' (bv_reasons nv)))
       else
         let x = \<lparr>xc_previous_hash = bv_identity_hash pv, xc_next_hash = bv_identity_hash nv,
                  xc_approval_state = (if validation_status \<in> set [''evaluated'', ''validated'', ''promoted'']
                    then ''approved'' else ''proposed''),
                  xc_validation_status = validation_status, xc_objective_score = objective_score\<rparr>
         in rfold (append_change_record x (bv_normalized_spec pv) (bv_normalized_spec nv)) part_fields []))))"

section \<open>Study proposals\<close>

record study_proposal =
  sx_layer :: string
  sx_features :: "string list"
  sx_scenario_pack :: string
  sx_parameter_ranges :: "(string, pyval) dict"
  sx_signature :: string
  sx_search_budget :: int
  sx_validation_gate_spec :: string

record study_validator =
  sv_approved_layers :: "string list"
  sv_feature_contracts :: "string list"
  sv_scenario_packs :: "string list"
  sv_seen_signatures :: "string list"
  sv_max_search_budget :: int
  sv_required_validation_gate_spec :: string

text \<open>The first two items of a value that has exactly two; a dictionary with two entries is indexed by the
  numbers 0 and 1, a \<open>KeyError\<close> that the code does not catch.\<close>

definition two_items :: "pyval \<Rightarrow> (pyval \<times> pyval) option result" where
  "two_items v =
     (case v of
        PList [a, b] \<Rightarrow> Inr (Some (a, b))
      | PStr [a, b] \<Rightarrow> Inr (Some (PStr [a], PStr [b]))
      | PDict [a, b] \<Rightarrow> Inl (KeyError ''0'')
      | _ \<Rightarrow> Inr None)"

definition valid_parameter_bounds :: "pyval \<Rightarrow> bool result" where
  "valid_parameter_bounds v =
     rbind (two_items v) (\<lambda>items. case items of
        None \<Rightarrow> Inr False
      | Some (a, b) \<Rightarrow> rbind (or_none (py_float a)) (\<lambda>lower. case lower of
            None \<Rightarrow> Inr False
          | Some l \<Rightarrow> rbind (or_none (py_float b)) (\<lambda>upper. Inr (case upper of
                None \<Rightarrow> False
              | Some u \<Rightarrow> is_finite l \<and> is_finite u \<and> fle l u))))"

definition validate_study :: "study_validator \<Rightarrow> study_proposal \<Rightarrow> (bool \<times> string list) result" where
  "validate_study s p =
     rbind (rmap (\<lambda>(name, bounds). rbind (valid_parameter_bounds bounds) (\<lambda>ok.
                Inr (flag (\<not> ok) (''invalid_parameter_range:'' @ name)))) (sx_parameter_ranges p)) (\<lambda>ranges.
       let reasons =
             flag (sx_layer p \<notin> set (sv_approved_layers s)) ''layer_not_approved''
             @ map (\<lambda>n. ''feature_contract_missing:'' @ n)
                 (sorted_set (filter (\<lambda>f. f \<notin> set (sv_feature_contracts s)) (sx_features p)))
             @ flag (sx_scenario_pack p \<notin> set (sv_scenario_packs s)) ''scenario_pack_not_approved''
             @ concat ranges
             @ flag (sx_signature p \<in> set (sv_seen_signatures s)) ''duplicate_signature''
             @ flag (sx_search_budget p \<le> 0) ''search_budget_not_positive''
             @ flag (sv_max_search_budget s \<le> 0) ''max_search_budget_not_positive''
             @ flag (sv_max_search_budget s < sx_search_budget p) ''search_budget_exceeded''
             @ flag (sx_validation_gate_spec p \<noteq> sv_required_validation_gate_spec s) ''validation_gate_spec_mismatch''
       in Inr (reasons = [], reasons))"

section \<open>The regression suite of the agent loop\<close>

record policy_variant =
  pv_variant_id :: string
  pv_planner :: string
  pv_memory_selection :: string
  pv_duplicate_ranking :: string
  pv_stop_policy :: string
  pv_karpathy :: string
  pv_crash_recovery :: string
  pv_split_brain_loop :: string
  pv_immutable_eval :: bool
  pv_fixed_budget :: bool
  pv_parseable_result_contract :: bool
  pv_one_mechanism_per_candidate :: bool
  pv_holdout_leakage_guard :: bool
  pv_benchmark_execution_guard :: bool

definition split_brain_default :: string where
  "split_brain_default = ''llm-structure-optimizer-parameters-walk-forward-keep-revert''"

definition controller_policy_variant :: "string \<Rightarrow> string \<Rightarrow> policy_variant" where
  "controller_policy_variant variant_id quality_policy =
     \<lparr>pv_variant_id = variant_id, pv_planner = ''single-mechanism'',
      pv_memory_selection = (if quality_policy = ''clean-only'' then ''quality-aware'' else ''all-memory''),
      pv_duplicate_ranking = ''canonical-and-near-duplicate'', pv_stop_policy = ''budget-aware'',
      pv_karpathy = ''keep-discard'', pv_crash_recovery = ''event-sourced'',
      pv_split_brain_loop = split_brain_default, pv_immutable_eval = True, pv_fixed_budget = True,
      pv_parseable_result_contract = True, pv_one_mechanism_per_candidate = True,
      pv_holdout_leakage_guard = True, pv_benchmark_execution_guard = True\<rparr>"

definition baseline_variant :: policy_variant where
  "baseline_variant = controller_policy_variant ''baseline'' ''clean-only''"

definition case_results_of :: "policy_variant \<Rightarrow> (string, bool) dict" where
  "case_results_of v =
     [(''duplicate_suppression'', pv_duplicate_ranking v = ''canonical-and-near-duplicate''),
      (''dirty_snapshot'', pv_memory_selection v \<in> set [''quality-aware'', ''clean-only'']),
      (''blocked_resources'', pv_memory_selection v = ''quality-aware''),
      (''repeated_stress_failure'', pv_stop_policy v = ''budget-aware''),
      (''repeated_regime_failure'', pv_stop_policy v = ''budget-aware''),
      (''plateau'', pv_planner v = ''single-mechanism''),
      (''queue_handoff'', pv_split_brain_loop v = split_brain_default),
      (''karpathy_keep_discard'', pv_karpathy v = ''keep-discard''),
      (''crash_recovery'', pv_crash_recovery v = ''event-sourced'')]"

definition guard_results_of :: "policy_variant \<Rightarrow> bool list" where
  "guard_results_of v =
     [pv_immutable_eval v, pv_fixed_budget v, pv_parseable_result_contract v,
      pv_one_mechanism_per_candidate v, pv_holdout_leakage_guard v, pv_benchmark_execution_guard v]"

record regression_result =
  rg_variant :: policy_variant
  rg_case_results :: "(string, bool) dict"
  rg_score :: pyfloat

definition count_true :: "bool list \<Rightarrow> nat" where
  "count_true bs = length (filter id bs)"

definition run_agent_loop_regression :: "policy_variant \<Rightarrow> regression_result" where
  "run_agent_loop_regression v =
     (let cases = case_results_of v; guards = guard_results_of v;
          passed = count_true (map snd cases) + count_true guards
      in \<lparr>rg_variant = v, rg_case_results = cases,
          rg_score = round_nd 6 (fl (of_nat passed / of_nat (length cases + length guards)))\<rparr>)"

definition rg_passed :: "regression_result \<Rightarrow> nat" where
  "rg_passed r = count_true (map snd (rg_case_results r))"

definition rg_failed :: "regression_result \<Rightarrow> nat" where
  "rg_failed r = length (rg_case_results r) - rg_passed r"

definition rg_failed_cases :: "regression_result \<Rightarrow> string list" where
  "rg_failed_cases r = map fst (filter (\<lambda>(c, ok). \<not> ok) (rg_case_results r))"

definition acceptable_against :: "regression_result \<Rightarrow> regression_result option \<Rightarrow> bool" where
  "acceptable_against r incumbent \<longleftrightarrow>
     rg_failed r = 0 \<and> (case incumbent of None \<Rightarrow> True | Some i \<Rightarrow> fle (rg_score i) (rg_score r))"

section \<open>Adapters and labels\<close>

text \<open>\<open>dict(value)\<close> of a dictionary or of something empty; lists of pairs do not occur.\<close>

definition empty_as_dict :: "pyval \<Rightarrow> pyval" where
  "empty_as_dict v = (if v \<in> {PList [], PStr []} then PDict [] else v)"

definition forecast_feedback_to_study_request :: "(string \<times> pyval) list \<Rightarrow> (string \<times> pyval) list result" where
  "forecast_feedback_to_study_request feedback =
     (let action = ''RequestForecastValidationStudy''; v = validate_action action
      in if \<not> ve_allowed v then Inl (ValueError (join '','' (ve_reasons v)))
         else case empty_as_dict (pget_or feedback ''baseline_comparison'' (PDict [])) of
                PDict comparison \<Rightarrow> Inr
                  [(''action'', PStr action), (''trade_authority'', PBool False), (''direct_order_change'', PBool False),
                   (''artifact_promotion'', PBool False), (''risk_limit_mutation'', PBool False),
                   (''study'', PDict
                      [(''forecast_model_id'', pget feedback ''forecast_model_id''),
                       (''ttl_status'', pget_or feedback ''ttl_status'' (PStr ''UNKNOWN'')),
                       (''baseline_comparison'', PDict comparison),
                       (''decay_status'', pget_or feedback ''decay_status'' (PStr ''UNKNOWN'')),
                       (''purpose'', PStr ''forecast_validation_only'')])]
              | _ \<Rightarrow> Inl (TypeError ''cannot convert to dict''))"

definition paper_telemetry_to_calibration_study :: "(string \<times> pyval) list \<Rightarrow> (string \<times> pyval) list" where
  "paper_telemetry_to_calibration_study telemetry =
     [(''action'', PStr ''RequestCalibrationStudy''), (''source'', PStr ''paper_telemetry''),
      (''direct_policy_mutation'', PBool False), (''telemetry'', PDict telemetry)]"

definition failure_families :: "(string \<times> string list) list" where
  "failure_families =
     [(''validation_failures'', [''holdout_sharpe'', ''min_sample'', ''pbo'', ''spa'']),
      (''execution_failures'', [''orphan_order'', ''missing_fill'', ''duplicate_fill'', ''order_reject'']),
      (''data_failures'', [''missing_mark'', ''missing_funding'', ''stale_book'']),
      (''portfolio_failures'', [''cluster_cap'', ''beta_cap'', ''funding_budget'']),
      (''agent_policy_failures'', [''forbidden_tool'', ''trade_authority'']),
      (''learning_failures'', [''shadow_validation'', ''model_card_missing''])]"

definition classify_failure :: "string \<Rightarrow> string" where
  "classify_failure reason =
     (case find (\<lambda>(family, reasons). reason \<in> set reasons) failure_families of
        None \<Rightarrow> ''unknown_failures'' | Some (family, reasons) \<Rightarrow> family)"

section \<open>Artifact helpers\<close>

record artifact_signature =
  as_artifact_id :: string
  as_content_hash :: string
  as_config_hash :: string
  as_strategy_graph_hash :: string
  as_validation_bundle_hash :: string
  as_signature_version :: string

definition signature_digest :: "stable_hash \<Rightarrow> artifact_signature \<Rightarrow> string" where
  "signature_digest H s = H (PDict
     [(''artifact_id'', PStr (as_artifact_id s)), (''content_hash'', PStr (as_content_hash s)),
      (''config_hash'', PStr (as_config_hash s)), (''strategy_graph_hash'', PStr (as_strategy_graph_hash s)),
      (''validation_bundle_hash'', PStr (as_validation_bundle_hash s)),
      (''signature_version'', PStr (as_signature_version s))])"

record artifact_expiry_policy =
  ae_expiry_time :: string
  ae_reduce_only_after_expiry :: bool

definition action_after_expiry :: "artifact_expiry_policy \<Rightarrow> string" where
  "action_after_expiry p = (if ae_reduce_only_after_expiry p then ''reduce_only'' else ''disable'')"

record artifact_rollback_manifest =
  am_artifact_id :: string
  am_rollback_artifact_id :: string
  am_reason :: string

definition rollback_validate :: "artifact_rollback_manifest \<Rightarrow> bool \<times> string list" where
  "rollback_validate m =
     (let reasons = flag (am_rollback_artifact_id m = []) ''missing_rollback_artifact_id''
            @ flag (am_rollback_artifact_id m = am_artifact_id m) ''rollback_target_same_as_artifact''
      in (reasons = [], reasons))"

section \<open>What the agent can do\<close>

lemma validate_action_iff: "ve_allowed (validate_action a) \<longleftrightarrow> a \<in> set allowed_agent_actions"
proof -
  have "set allowed_agent_actions \<inter> set forbidden_agent_actions = {}"
    by (simp add: allowed_agent_actions_def forbidden_agent_actions_def)
  then show ?thesis by (auto simp: validate_action_def)
qed

lemma validate_action_reasons: "ve_reasons (validate_action a) = [] \<longleftrightarrow> ve_allowed (validate_action a)"
  by (simp add: validate_action_def)

text \<open>The agent has no authority to trade: whatever mode it is in, its actions are valid and none is forbidden,
  it can always stop; a list of actions is let through if and only if every one of them is on the list of
  allowed actions; and its research profile allows no denied tool.\<close>

lemma agent_has_no_trade_authority:
  "set (allowed_actions_for_mode m) \<subseteq> {a. ve_allowed (validate_action a)} - set forbidden_agent_actions
   \<and> ''StopCampaign'' \<in> set (allowed_actions_for_mode m)
   \<and> (ve_allowed (enforce_no_trade_authority actions) \<longleftrightarrow> set actions \<subseteq> set allowed_agent_actions)
   \<and> (\<forall>tool. tool \<in> set denied_agent_tools \<longrightarrow> \<not> tool_is_allowed default_research_profile tool)"
proof (intro conjI)
  have disj: "set allowed_agent_actions \<inter> set forbidden_agent_actions = {}"
    by (simp add: allowed_agent_actions_def forbidden_agent_actions_def)
  show "set (allowed_actions_for_mode m) \<subseteq> {a. ve_allowed (validate_action a)} - set forbidden_agent_actions"
    using disj by (auto simp: allowed_actions_for_mode_def validate_action_iff)
  show "''StopCampaign'' \<in> set (allowed_actions_for_mode m)"
    by (cases m) (simp_all add: allowed_actions_for_mode_def allowed_agent_actions_def)
  show "ve_allowed (enforce_no_trade_authority actions) \<longleftrightarrow> set actions \<subseteq> set allowed_agent_actions"
    by (induction actions) (simp_all add: enforce_no_trade_authority_def Let_def validate_action_reasons validate_action_iff)
  show "\<forall>tool. tool \<in> set denied_agent_tools \<longrightarrow> \<not> tool_is_allowed default_research_profile tool"
    by (simp add: tool_is_allowed_def default_research_profile_def)
qed

lemma agent_has_no_trade_authority_witness:
  "ve_allowed (enforce_no_trade_authority [''ProposeStudy'', ''PlaceOrder'']) = False
   \<and> \<not> tool_is_allowed default_research_profile ''place_order''"
  using agent_has_no_trade_authority [of LM_SCOUT "[''ProposeStudy'', ''PlaceOrder'']"]
  by (simp add: allowed_agent_actions_def denied_agent_tools_def)

section \<open>Model changes are documented\<close>

lemma change_record_valid:
  assumes "kind \<in> fst ` set part_fields" "xc_approval_state x \<in> {''approved'', ''proposed''}"
  shows "validate_model_change_record (change_record x kind before after) = Inr (check_of [] (change_record x kind before after))"
proof -
  have "model_change_reasons (change_record x kind before after) = []"
    using assms by (auto simp: model_change_reasons_def change_record_def Let_def part_fields_def is_empty_value_def
        Forecasting.str_in_def)
  then show ?thesis by (simp add: validate_model_change_record_def hash_check_def)
      (simp add: change_record_def Let_def)
qed

definition part_differs :: "(string \<times> pyval) list \<Rightarrow> (string \<times> pyval) list \<Rightarrow> string \<times> string list \<Rightarrow> bool" where
  "part_differs p n kf \<longleftrightarrow> \<not> py_eq (PDict (part_of (snd kf) p)) (PDict (part_of (snd kf) n))"

lemma append_change_records:
  assumes "fst ` set kfs \<subseteq> fst ` set part_fields" "xc_approval_state x \<in> {''approved'', ''proposed''}"
  shows "rfold (append_change_record x p n) kfs rs =
    Inr (rs @ map (\<lambda>kf. change_record x (fst kf) (part_of (snd kf) p) (part_of (snd kf) n)) (filter (part_differs p n) kfs))"
  using assms(1)
proof (induction kfs arbitrary: rs)
  case (Cons kf kfs)
  then have "fst kf \<in> fst ` set part_fields" by simp
  from change_record_valid [OF this assms(2)] Cons show ?case
    by (simp add: append_change_record_def Let_def part_differs_def check_of_def)
qed simp

lemma part_differs_iff:
  assumes "kf \<in> set part_fields"
  shows "part_differs p n kf \<longleftrightarrow> (\<exists>f \<in> set (snd kf). \<not> py_eq (pget p f) (pget n f))"
  using assms by (auto simp: part_differs_def part_fields_def part_of_def)

lemma changed_fields_part:
  assumes "kf \<in> set part_fields"
  shows "set (changed_fields (part_of (snd kf) p) (part_of (snd kf) n)) = {f \<in> set (snd kf). \<not> py_eq (pget p f) (pget n f)}"
  using assms by (auto simp: changed_fields_def part_fields_def part_of_def)

text \<open>A change of the strategy is documented exactly: when the records are built, both specifications passed
  their check, there is one record for each kind of model whose part of the specification changed and no
  other, in order; each is a valid record, names exactly the fields that changed, and is approved if and
  only if the validation status says so.\<close>

lemma model_changes_documented:
  assumes "build_model_change_records H before after status score = Inr records"
  shows "\<exists>ps ns p n. build_spec before = Inr ps \<and> build_spec after = Inr ns
    \<and> validate_spec H (PDict ps) = Inr p \<and> bv_passed p \<and> validate_spec H (PDict ns) = Inr n \<and> bv_passed n
    \<and> map (\<lambda>r. pget r ''model_type'') records
        = map (\<lambda>kf. PStr (fst kf)) (filter (\<lambda>kf. \<exists>f \<in> set (snd kf).
            \<not> py_eq (pget (bv_normalized_spec p) f) (pget (bv_normalized_spec n) f)) part_fields)
    \<and> (\<forall>r \<in> set records. validate_model_change_record r = Inr (check_of [] r)
        \<and> (pget r ''approval_state'' = PStr ''approved'' \<longleftrightarrow> status \<in> {''evaluated'', ''validated'', ''promoted''})
        \<and> (\<exists>kf \<in> set part_fields. \<exists>changed. pget r ''model_type'' = PStr (fst kf)
            \<and> pget r ''diff_summary'' = PStr (''changed '' @ join '', '' changed)
            \<and> set changed = {f \<in> set (snd kf). \<not> py_eq (pget (bv_normalized_spec p) f) (pget (bv_normalized_spec n) f)}
            \<and> changed \<noteq> []))"
proof -
  obtain ps ns p n where b: "build_spec before = Inr ps" "build_spec after = Inr ns"
      "validate_spec H (PDict ps) = Inr p" "bv_passed p" "validate_spec H (PDict ns) = Inr n" "bv_passed n"
    and r: "rfold (append_change_record \<lparr>xc_previous_hash = bv_identity_hash p, xc_next_hash = bv_identity_hash n,
                  xc_approval_state = (if status \<in> set [''evaluated'', ''validated'', ''promoted'']
                    then ''approved'' else ''proposed''),
                  xc_validation_status = status, xc_objective_score = score\<rparr>
             (bv_normalized_spec p) (bv_normalized_spec n)) part_fields [] = Inr records"
    using assms unfolding build_model_change_records_def Let_def by (auto simp: rbind_Inr_iff split: if_split_asm)
  let ?x = "\<lparr>xc_previous_hash = bv_identity_hash p, xc_next_hash = bv_identity_hash n,
                  xc_approval_state = (if status \<in> set [''evaluated'', ''validated'', ''promoted'']
                    then ''approved'' else ''proposed''),
                  xc_validation_status = status, xc_objective_score = score\<rparr>"
  let ?p = "bv_normalized_spec p" and ?n = "bv_normalized_spec n"
  let ?rec = "\<lambda>kf. change_record ?x (fst kf) (part_of (snd kf) ?p) (part_of (snd kf) ?n)"
  have st: "xc_approval_state ?x \<in> {''approved'', ''proposed''}" by simp
  have recs: "records = map ?rec (filter (part_differs ?p ?n) part_fields)"
    using append_change_records [OF subset_refl st, of ?p ?n "[]"] r by simp
  have kinds: "map (\<lambda>r. pget r ''model_type'') records = map (\<lambda>kf. PStr (fst kf)) (filter (\<lambda>kf. \<exists>f \<in> set (snd kf).
            \<not> py_eq (pget ?p f) (pget ?n f)) part_fields)"
  proof -
    have "filter (part_differs ?p ?n) part_fields = filter (\<lambda>kf. \<exists>f \<in> set (snd kf). \<not> py_eq (pget ?p f) (pget ?n f)) part_fields"
      by (rule filter_cong) (simp_all add: part_differs_iff)
    then show ?thesis unfolding recs by (simp add: change_record_def Let_def comp_def)
  qed
  have "validate_model_change_record r = Inr (check_of [] r)
        \<and> (pget r ''approval_state'' = PStr ''approved'' \<longleftrightarrow> status \<in> {''evaluated'', ''validated'', ''promoted''})
        \<and> (\<exists>kf \<in> set part_fields. \<exists>changed. pget r ''model_type'' = PStr (fst kf)
            \<and> pget r ''diff_summary'' = PStr (''changed '' @ join '', '' changed)
            \<and> set changed = {f \<in> set (snd kf). \<not> py_eq (pget ?p f) (pget ?n f)} \<and> changed \<noteq> [])"
    if "r \<in> set records" for r
  proof -
    have "r \<in> ?rec ` set (filter (part_differs ?p ?n) part_fields)" using that unfolding recs set_map .
    then obtain kf where "r = ?rec kf" "kf \<in> set (filter (part_differs ?p ?n) part_fields)" by (rule imageE)
    then have kf: "kf \<in> set part_fields" "part_differs ?p ?n kf" "r = ?rec kf" unfolding set_filter by blast+
    let ?ch = "changed_fields (part_of (snd kf) ?p) (part_of (snd kf) ?n)"
    have "set ?ch \<noteq> {}" using kf(2) unfolding changed_fields_part [OF kf(1)] part_differs_iff [OF kf(1)] by blast
    then have "?ch \<noteq> []" by auto
    moreover have "validate_model_change_record r = Inr (check_of [] r)"
      unfolding kf(3) using kf(1) st by (intro change_record_valid) auto
    moreover have "pget r ''approval_state'' = PStr ''approved'' \<longleftrightarrow> status \<in> {''evaluated'', ''validated'', ''promoted''}"
      "pget r ''model_type'' = PStr (fst kf)" "pget r ''diff_summary'' = PStr (''changed '' @ join '', '' ?ch)"
      unfolding kf(3) by (simp_all add: change_record_def Let_def)
    ultimately show ?thesis using kf(1) changed_fields_part [OF kf(1)] by blast
  qed
  with b kinds show ?thesis by blast
qed

definition sample_payload :: "rat \<Rightarrow> pyval" where
  "sample_payload most = PDict
     [(''backbone'', PStr ''mom_squeeze''),
      (''parameter_grids'', PDict [(''mom_squeeze'', PDict [(''entry_stride'',
          PDict [(''minimum'', PFloat (Fin 2)), (''maximum'', PFloat (Fin most)), (''step'', PFloat (Fin 1))])])])]"

lemma sample_change:
  "\<exists>rs. build_model_change_records zero_hash (sample_payload 10) (sample_payload 12) ''proposed'' None = Inr rs \<and> rs \<noteq> []"
proof -
  have "(case build_model_change_records zero_hash (sample_payload 10) (sample_payload 12) ''proposed'' None of
      Inr rs \<Rightarrow> rs \<noteq> [] | _ \<Rightarrow> False)"
    by code_simp
  then show ?thesis by (auto split: sum.splits)
qed
lemma model_changes_documented_witness:
  "\<exists>rs. build_model_change_records zero_hash (sample_payload 10) (sample_payload 12) ''proposed'' None = Inr rs
     \<and> rs \<noteq> [] \<and> (\<forall>r \<in> set rs. pget r ''approval_state'' \<noteq> PStr ''approved'')"
proof -
  obtain rs where rs: "build_model_change_records zero_hash (sample_payload 10) (sample_payload 12) ''proposed'' None = Inr rs"
      "rs \<noteq> []"
    using sample_change by blast
  have s: "(''proposed'' \<in> {''evaluated'', ''validated'', ''promoted''}) = False" by simp
  from model_changes_documented [OF rs(1)] show ?thesis using rs unfolding s by blast
qed

end
