(* ===== verification/UsdmOrder.thy ===== *)
theory UsdmOrder
  imports Market
begin

text \<open>
  Orders of the Binance USD-M venue as the backtests and the paper gateway simulate them
  (\<open>backtest/binance_usdm.py\<close>, \<open>partial_fill_model.py\<close>, \<open>execution_parity_report.py\<close>): the venue's
  checks, the costs, the fill, funding and liquidation prices.  The two times of an order are
  instants; the sides and paths are texts, as they are in the code.
\<close>

section \<open>Rules, requests and reports\<close>

record usdm_rules =
  ur_tick_size :: pyfloat
  ur_step_size :: pyfloat
  ur_min_notional :: pyfloat
  ur_maker_fee_bps :: pyfloat
  ur_taker_fee_bps :: pyfloat
  ur_max_participation_rate :: pyfloat
  ur_liquidation_fee_bps :: pyfloat

record margin_tier =
  mt_notional_floor :: pyfloat
  mt_notional_cap :: "pyfloat option"
  mt_maintenance_margin_ratio :: pyfloat

record usdm_order =
  uo_symbol :: string
  uo_side :: string
  uo_quantity :: pyfloat
  uo_price :: pyfloat
  uo_intent :: string
  uo_liquidity_path :: string
  uo_time_in_force :: string
  uo_reduce_only :: bool
  uo_post_only :: bool
  uo_current_position_qty :: pyfloat
  uo_book_best_bid :: "pyfloat option"
  uo_book_best_ask :: "pyfloat option"
  uo_submitted_at :: "int option"
  uo_expires_at :: "int option"

record cost_context =
  cx_symbol :: string
  cx_liquidity_path :: string
  cx_hour_of_day :: int
  cx_volatility_percentile :: pyfloat
  cx_spread_percentile :: pyfloat
  cx_order_size_pct_local_liquidity :: pyfloat
  cx_oi_percentile :: pyfloat
  cx_liquidation_intensity_percentile :: pyfloat

record usdm_report =
  ux_execution_model_id :: string
  ux_accepted :: bool
  ux_status :: string
  ux_reason_codes :: "string list"
  ux_rounded_price :: "pyfloat option"
  ux_rounded_quantity :: "pyfloat option"
  ux_notional :: pyfloat
  ux_maker_taker :: string
  ux_fill_ratio :: pyfloat
  ux_fee_bps :: pyfloat
  ux_spread_bps :: pyfloat
  ux_impact_bps :: pyfloat
  ux_total_cost_bps :: pyfloat
  ux_capacity_ok :: bool
  ux_queue_position_estimate :: "pyfloat option"

definition execution_model_id :: string where
  "execution_model_id = ''binance_usdm_v3''"

text \<open>The first note that starts with the key decides; a malformed number gives the fallback.\<close>

definition venue_note_float :: "data_snapshot \<Rightarrow> string \<Rightarrow> pyfloat \<Rightarrow> pyfloat" where
  "venue_note_float s key fallback =
     (case sn_venue_profile s of
        None \<Rightarrow> fallback
      | Some p \<Rightarrow>
          (case find (starts_with (key @ ''='')) (vp_notes p) of
             None \<Rightarrow> fallback
           | Some note \<Rightarrow> (case py_float (PStr (drop (length key + 1) note)) of Inl e \<Rightarrow> fallback | Inr x \<Rightarrow> x)))"

definition rules_from_snapshot :: "data_snapshot \<Rightarrow> usdm_rules" where
  "rules_from_snapshot s =
     \<lparr>ur_tick_size = venue_note_float s ''tick_size'' (fl (1 / 100)),
      ur_step_size = venue_note_float s ''step_size'' (fl (1 / 1000)),
      ur_min_notional = venue_note_float s ''min_notional'' (Fin 5),
      ur_maker_fee_bps = sn_maker_fee_bps s, ur_taker_fee_bps = sn_taker_fee_bps s,
      ur_max_participation_rate = venue_note_float s ''max_participation_rate'' (fl (5 / 100)),
      ur_liquidation_fee_bps = venue_note_float s ''liquidation_fee_bps'' (Fin 0)\<rparr>"

section \<open>Rounding to the venue's grid\<close>

text \<open>\<open>round(x)\<close> and \<open>math.floor(x)\<close> of a float are integers, or an exception.\<close>

definition to_whole :: "(rat \<Rightarrow> int) \<Rightarrow> pyfloat \<Rightarrow> int result" where
  "to_whole f x =
     (case x of
        Fin q \<Rightarrow> Inr (f q)
      | NaN \<Rightarrow> Inl (ValueError ''cannot convert float NaN to integer'')
      | _ \<Rightarrow> Inl OverflowError)"

definition usdm_round_to_tick :: "pyfloat \<Rightarrow> pyfloat \<Rightarrow> pyfloat result" where
  "usdm_round_to_tick price tick =
     (if fle tick (Fin 0) then Inl (ValueError ''tick_size must be positive'')
      else rbind (to_whole half_even (fquot price tick)) (\<lambda>k. Inr (round_nd 12 (fmul (Fin (of_int k)) tick))))"

definition usdm_round_down :: "pyfloat \<Rightarrow> pyfloat \<Rightarrow> pyfloat result" where
  "usdm_round_down quantity step =
     (if fle step (Fin 0) then Inl (ValueError ''step_size must be positive'')
      else rbind (to_whole floor (fquot quantity step)) (\<lambda>k. Inr (fmul (Fin (of_int k)) step)))"

definition would_cross_book :: "usdm_order \<Rightarrow> bool" where
  "would_cross_book o' =
     (case (uo_side o' = ''BUY'', uo_book_best_ask o') of
        (True, Some ask) \<Rightarrow> fle ask (uo_price o')
      | _ \<Rightarrow> (case (uo_side o' = ''SELL'', uo_book_best_bid o') of
                (True, Some bid) \<Rightarrow> fle (uo_price o') bid
              | _ \<Rightarrow> False))"

definition usdm_order_reasons :: "usdm_order \<Rightarrow> usdm_rules \<Rightarrow> pyfloat \<Rightarrow> pyfloat \<Rightarrow> string list" where
  "usdm_order_reasons o' r qty price =
     flag (fle (uo_quantity o') (Fin 0)) ''quantity_must_be_positive''
     @ flag (fle (uo_price o') (Fin 0)) ''price_must_be_positive''
     @ flag (fle qty (Fin 0)) ''quantity_below_step_size''
     @ flag (\<not> feq (uo_price o') price) ''price_precision_violation''
     @ flag (flt (fmul qty (uo_price o')) (ur_min_notional r)) ''min_notional_violation''
     @ flag (uo_post_only o' \<and> uo_liquidity_path o' \<noteq> ''maker'') ''post_only_requires_maker_path''
     @ flag (uo_post_only o' \<and> would_cross_book o') ''post_only_would_take_liquidity''
     @ flag (uo_time_in_force o' = ''GTX'' \<and> \<not> uo_post_only o') ''gtx_requires_post_only''
     @ flag (uo_reduce_only o' \<and> uo_intent o' \<noteq> ''reduce'') ''reduce_only_requires_reduce_intent''
     @ flag (uo_reduce_only o' \<and> fle (fabs (uo_current_position_qty o')) (Fin 0)) ''reduce_only_without_position''
     @ flag (uo_reduce_only o' \<and> flt (fadd (fabs (uo_current_position_qty o')) (fl (1 / 10 ^ 12))) qty)
         ''reduce_only_quantity_exceeds_position''
     @ flag (case (uo_expires_at o', uo_submitted_at o') of (Some e, Some s) \<Rightarrow> e \<le> s | _ \<Rightarrow> False) ''order_expired''"

definition validate_binance_usdm_order :: "usdm_order \<Rightarrow> usdm_rules \<Rightarrow> string list result" where
  "validate_binance_usdm_order o' r =
     rbind (usdm_round_down (uo_quantity o') (ur_step_size r)) (\<lambda>qty.
     rbind (usdm_round_to_tick (uo_price o') (ur_tick_size r)) (\<lambda>price.
       Inr (usdm_order_reasons o' r qty price)))"

section \<open>Costs and fills\<close>

definition clamp01 :: "pyfloat \<Rightarrow> pyfloat" where
  "clamp01 x = fmin (Fin 1) (fmax (Fin 0) x)"

definition dynamic_cost_bps :: "cost_context \<Rightarrow> pyfloat result" where
  "dynamic_cost_bps c =
     (let maker_discount = (if cx_liquidity_path c = ''maker'' then fl (35 / 100) else Fin 1);
          urgency = fadd (fadd (Fin 1) (clamp01 (cx_volatility_percentile c)))
                      (fmul (Fin (1 / 2)) (clamp01 (cx_spread_percentile c)))
      in rbind (fsqrt (fmax (Fin 0) (cx_order_size_pct_local_liquidity c))) (\<lambda>liquidity_term.
        let oi_term = fadd (Fin 1) (fmul (Fin (1 / 4)) (clamp01 (cx_oi_percentile c)));
            liquidation_term = fadd (Fin 1) (fmul (Fin (3 / 4)) (clamp01 (cx_liquidation_intensity_percentile c)));
            hour_term = (if cx_hour_of_day c \<in> set [0, 8, 16] then fl (115 / 100) else Fin 1);
            base_bps = fadd (Fin 2) (fmul (fmul (fmul (fmul (Fin 20) liquidity_term) urgency) oi_term) liquidation_term)
        in Inr (fmin (Fin 500) (fmax (Fin 0) (fmul (fmul base_bps hour_term) maker_discount)))))"

definition usdm_spread_bps :: "usdm_order \<Rightarrow> pyfloat" where
  "usdm_spread_bps o' =
     (case (uo_book_best_bid o', uo_book_best_ask o') of
        (Some bid, Some ask) \<Rightarrow>
          let mid = fquot (fadd bid ask) (Fin 2)
          in if fle mid (Fin 0) then Fin 0 else fmul (fquot (fsub ask bid) mid) (Fin 10000)
      | _ \<Rightarrow> Fin 0)"

definition fill_ratio_from_depth :: "pyfloat \<Rightarrow> pyfloat \<Rightarrow> string \<Rightarrow> pyfloat" where
  "fill_ratio_from_depth notional depth path =
     (if fle notional (Fin 0) then Fin 0
      else if fle depth (Fin 0) then Fin 0
      else fmax (Fin 0) (fmin (Fin 1)
             (fquot (fmul depth (if path = ''maker'' then Fin (1 / 2) else Fin 1)) notional)))"

definition simulate_binance_usdm_order ::
    "usdm_order \<Rightarrow> usdm_rules \<Rightarrow> cost_context \<Rightarrow> pyfloat \<Rightarrow> usdm_report result" where
  "simulate_binance_usdm_order o' r c depth =
     rbind (validate_binance_usdm_order o' r) (\<lambda>codes.
     rbind (usdm_round_to_tick (uo_price o') (ur_tick_size r)) (\<lambda>price.
     rbind (usdm_round_down (uo_quantity o') (ur_step_size r)) (\<lambda>qty.
       let notional = fmul price qty;
           participation = fquot notional (fmax depth f_1em9);
           capacity_ok = fle participation (ur_max_participation_rate r);
           reasons = codes @ flag (\<not> capacity_ok) ''capacity_limit_exceeded'';
           maker = (uo_liquidity_path o' = ''maker'')
       in if reasons \<noteq> []
          then Inr \<lparr>ux_execution_model_id = execution_model_id, ux_accepted = False, ux_status = ''rejected'',
                    ux_reason_codes = sorted_set reasons, ux_rounded_price = Some price, ux_rounded_quantity = Some qty,
                    ux_notional = notional, ux_maker_taker = uo_liquidity_path o', ux_fill_ratio = Fin 0,
                    ux_fee_bps = Fin 0, ux_spread_bps = Fin 0, ux_impact_bps = Fin 0, ux_total_cost_bps = Fin 0,
                    ux_capacity_ok = capacity_ok, ux_queue_position_estimate = None\<rparr>
          else
            let fee = (if maker then ur_maker_fee_bps r else ur_taker_fee_bps r);
                spread = (if maker then Fin 0 else usdm_spread_bps o');
                ratio = fill_ratio_from_depth notional depth (uo_liquidity_path o')
            in rbind (dynamic_cost_bps c) (\<lambda>impact.
              Inr \<lparr>ux_execution_model_id = execution_model_id, ux_accepted = True,
                   ux_status = (if fle (Fin 1) ratio then ''filled'' else ''partial_fill''), ux_reason_codes = [],
                   ux_rounded_price = Some price, ux_rounded_quantity = Some qty, ux_notional = notional,
                   ux_maker_taker = uo_liquidity_path o', ux_fill_ratio = ratio, ux_fee_bps = fee, ux_spread_bps = spread,
                   ux_impact_bps = impact, ux_total_cost_bps = fadd (fadd fee spread) impact, ux_capacity_ok = capacity_ok,
                   ux_queue_position_estimate = (if maker then Some depth else None)\<rparr>))))"

section \<open>Funding, margin and liquidation\<close>

definition funding_cashflow :: "pyfloat \<Rightarrow> pyfloat \<Rightarrow> string \<Rightarrow> pyfloat result" where
  "funding_cashflow notional rate position_side =
     (let side = str_lower position_side
      in if side \<notin> set [''long'', ''short''] then Inl (ValueError ''position_side must be long or short'')
         else Inr (fmul (fmul (fabs notional) rate) (if side = ''short'' then Fin (-1) else Fin 1)))"

definition approximate_mark_price_liquidation_price :: "pyfloat \<Rightarrow> string \<Rightarrow> pyfloat \<Rightarrow> pyfloat \<Rightarrow> pyfloat result" where
  "approximate_mark_price_liquidation_price entry side leverage ratio =
     (if fle leverage (Fin 0) then Inl (ValueError ''leverage must be positive'')
      else if \<not> (fle (Fin 0) ratio \<and> flt ratio (Fin 1)) then Inl (ValueError ''maintenance_margin_ratio must be in [0, 1)'')
      else if side = ''short'' then Inr (fmul entry (fsub (fadd (Fin 1) (fquot (Fin 1) leverage)) ratio))
      else if side = ''long'' then Inr (fmul entry (fadd (fsub (Fin 1) (fquot (Fin 1) leverage)) ratio))
      else Inl (ValueError ''side must be long or short''))"

definition in_tier :: "pyfloat \<Rightarrow> margin_tier \<Rightarrow> bool" where
  "in_tier notional t \<longleftrightarrow>
     fle (mt_notional_floor t) notional
     \<and> flt notional (case mt_notional_cap t of None \<Rightarrow> PInf | Some c \<Rightarrow> c)"

definition select_maintenance_margin_tier :: "pyfloat \<Rightarrow> margin_tier list \<Rightarrow> margin_tier result" where
  "select_maintenance_margin_tier position_notional tiers =
     (if tiers = [] then Inl (ValueError ''tiers must not be empty'')
      else
        let ordered = sort_key mt_notional_floor tiers
        in Inr (case find (in_tier (fabs position_notional)) ordered of Some t \<Rightarrow> t | None \<Rightarrow> last ordered))"

definition liquidation_price_with_maintenance_tiers ::
    "pyfloat \<Rightarrow> string \<Rightarrow> pyfloat \<Rightarrow> pyfloat \<Rightarrow> margin_tier list \<Rightarrow> pyfloat result" where
  "liquidation_price_with_maintenance_tiers entry side leverage quantity tiers =
     rbind (select_maintenance_margin_tier (fabs (fmul entry quantity)) tiers) (\<lambda>t.
       approximate_mark_price_liquidation_price entry side leverage (mt_maintenance_margin_ratio t))"

section \<open>Partial fills and parity reports\<close>

record partial_fill_model =
  pf_fill_probability :: pyfloat
  pf_queue_position_estimate :: pyfloat
  pf_filled_quantity :: pyfloat
  pf_requested_quantity :: pyfloat
  pf_timeout_policy :: string

definition unfilled_quantity :: "partial_fill_model \<Rightarrow> pyfloat" where
  "unfilled_quantity m = fmax (Fin 0) (fsub (pf_requested_quantity m) (pf_filled_quantity m))"

record parity_report =
  px_signal_pnl :: pyfloat
  px_execution_adjusted_pnl :: pyfloat
  px_fees :: pyfloat
  px_funding :: pyfloat
  px_slippage :: pyfloat
  px_missed_fills :: int
  px_adverse_selection :: pyfloat
  px_cancel_replace_count :: int
  px_order_reject_count :: int

definition to_learning_row :: "parity_report \<Rightarrow> (string \<times> pyval) list" where
  "to_learning_row r =
     [(''signal_pnl'', PFloat (px_signal_pnl r)), (''execution_adjusted_pnl'', PFloat (px_execution_adjusted_pnl r)),
      (''fees'', PFloat (px_fees r)), (''funding'', PFloat (px_funding r)), (''slippage'', PFloat (px_slippage r)),
      (''missed_fills'', PInt (px_missed_fills r)), (''adverse_selection'', PFloat (px_adverse_selection r)),
      (''cancel_replace_count'', PInt (px_cancel_replace_count r)), (''order_reject_count'', PInt (px_order_reject_count r)),
      (''execution_drag'', PFloat (fsub (px_signal_pnl r) (px_execution_adjusted_pnl r)))]"

lemma clamp_between: "fle (Fin 0) (fmax (Fin 0) x)"
  by (cases x) (auto simp: fmax_def)

lemma fmin_cap: "fle (fmin (Fin c) (fmax (Fin 0) x)) (Fin c)"
  by (cases x) (auto simp: fmin_def fmax_def)

lemma fill_ratio_range: "fle (Fin 0) (fill_ratio_from_depth n d p) \<and> fle (fill_ratio_from_depth n d p) (Fin 1)"
proof -
  have "fle (fmax (Fin 0) (fmin (Fin 1) x)) (Fin 1)" for x
    by (cases x) (auto simp: fmin_def fmax_def)
  then show ?thesis using clamp_between by (simp add: fill_ratio_from_depth_def)
qed

lemma dynamic_cost_range:
  assumes "dynamic_cost_bps c = Inr x"
  shows "fle (Fin 0) x \<and> fle x (Fin 500)"
proof -
  obtain y where "x = fmin (Fin 500) (fmax (Fin 0) y)"
    using assms unfolding dynamic_cost_bps_def Let_def rbind_Inr_iff by blast
  moreover have "fle (Fin 0) (fmin (Fin 500) (fmax (Fin 0) y))"
    by (cases y) (auto simp: fmin_def fmax_def)
  ultimately show ?thesis using fmin_cap [of 500] by simp
qed

lemma not_NaN_factors: "fmul a b \<noteq> NaN \<Longrightarrow> a \<noteq> NaN \<and> b \<noteq> NaN"
  by (cases a; cases b) auto

lemma fquot_not_NaN: "fquot a b \<noteq> NaN \<Longrightarrow> a \<noteq> NaN"
  by (cases a; cases b) auto

lemma above_zero: "\<not> fle x (Fin 0) \<Longrightarrow> x \<noteq> NaN \<Longrightarrow> flt (Fin 0) x"
  by (cases x) auto

lemma fle_antisym_one: "fle (Fin 1) x \<Longrightarrow> fle x (Fin 1) \<Longrightarrow> x = Fin 1"
  by (cases x) auto

lemma rounded_down_on_grid:
  assumes "usdm_round_down q step = Inr x"
  shows "\<exists>z k. fquot q step = Fin z \<and> of_int k \<le> z \<and> z < of_int k + 1 \<and> x = fmul (Fin (of_int k)) step
    \<and> \<not> fle step (Fin 0)"
proof -
  have step: "\<not> fle step (Fin 0)" using assms by (simp add: usdm_round_down_def split: if_splits)
  then obtain k where k: "to_whole floor (fquot q step) = Inr k" "x = fmul (Fin (of_int k)) step"
    using assms by (auto simp: usdm_round_down_def rbind_Inr_iff)
  then obtain z where "fquot q step = Fin z" "k = \<lfloor>z\<rfloor>"
    by (cases "fquot q step") (simp_all add: to_whole_def)
  then have "fquot q step = Fin z \<and> of_int k \<le> z \<and> z < of_int k + 1"
    using floor_correct [of z] by simp
  with k(2) step show ?thesis by blast
qed

text \<open>C35. An accepted order is tradable.  Its quantity is rounded down to the step grid: it is the step times
  the largest integer that is at most the quotient of the quantity and the step, as the floats give it,
  and it is positive.  Its price is positive and lies on the tick grid, its value is not below the minimum,
  a post-only order rests on the maker's side of the book, the order is not expired and it takes no more
  than the permitted share of the depth.  A reduce-only order is labelled a reduction and meets a
  position that is not smaller than it; whether its side is opposite to the position is not looked at.
  The fill ratio lies between 0 and 1 and is 1 exactly for a filled order, the impact lies between 0 and
  500 basis points, and the total cost is fee plus spread plus impact, with the fee of the order's path and
  no spread for a maker.\<close>

theorem accepted_usdm_order_is_tradable:
  assumes "simulate_binance_usdm_order o' r c depth = Inr x" "ux_accepted x"
  shows "\<exists>qty. ux_rounded_quantity x = Some qty \<and> flt (Fin 0) qty \<and> flt (Fin 0) (uo_quantity o')
    \<and> (\<exists>z k. fquot (uo_quantity o') (ur_step_size r) = Fin z \<and> of_int k \<le> z \<and> z < of_int k + 1
          \<and> qty = fmul (Fin (of_int k)) (ur_step_size r))
    \<and> ux_rounded_price x = Some (uo_price o') \<and> ux_notional x = fmul (uo_price o') qty
    \<and> flt (Fin 0) (uo_price o') \<and> usdm_round_to_tick (uo_price o') (ur_tick_size r) = Inr (uo_price o')
    \<and> \<not> flt (fmul qty (uo_price o')) (ur_min_notional r)
    \<and> (uo_post_only o' \<longrightarrow> uo_liquidity_path o' = ''maker'' \<and> \<not> would_cross_book o')
    \<and> (uo_time_in_force o' = ''GTX'' \<longrightarrow> uo_post_only o')
    \<and> (uo_reduce_only o' \<longrightarrow> uo_intent o' = ''reduce'' \<and> \<not> fle (fabs (uo_current_position_qty o')) (Fin 0)
          \<and> \<not> flt (fadd (fabs (uo_current_position_qty o')) (fl (1 / 10 ^ 12))) qty)
    \<and> (\<forall>s e. uo_submitted_at o' = Some s \<and> uo_expires_at o' = Some e \<longrightarrow> s < e)
    \<and> fle (fquot (ux_notional x) (fmax depth f_1em9)) (ur_max_participation_rate r)
    \<and> fle (Fin 0) (ux_fill_ratio x) \<and> fle (ux_fill_ratio x) (Fin 1)
    \<and> fle (Fin 0) (ux_impact_bps x) \<and> fle (ux_impact_bps x) (Fin 500)
    \<and> (ux_status x = ''filled'' \<longleftrightarrow> ux_fill_ratio x = Fin 1)
    \<and> ux_total_cost_bps x = fadd (fadd (ux_fee_bps x) (ux_spread_bps x)) (ux_impact_bps x)
    \<and> (if uo_liquidity_path o' = ''maker'' then ux_fee_bps x = ur_maker_fee_bps r \<and> ux_spread_bps x = Fin 0
       else ux_fee_bps x = ur_taker_fee_bps r \<and> ux_spread_bps x = usdm_spread_bps o')"
proof -
  obtain qty price where q: "usdm_round_down (uo_quantity o') (ur_step_size r) = Inr qty"
    and p: "usdm_round_to_tick (uo_price o') (ur_tick_size r) = Inr price"
    using assms(1) unfolding simulate_binance_usdm_order_def rbind_Inr_iff by blast
  let ?part = "fquot (fmul price qty) (fmax depth f_1em9)"
  have v: "validate_binance_usdm_order o' r = Inr (usdm_order_reasons o' r qty price)"
    by (simp add: validate_binance_usdm_order_def q p)
  have ok: "usdm_order_reasons o' r qty price = []" "fle ?part (ur_max_participation_rate r)"
    using assms unfolding simulate_binance_usdm_order_def v p q by (auto simp: Let_def split: if_splits)
  obtain impact where i: "dynamic_cost_bps c = Inr impact"
    using assms ok unfolding simulate_binance_usdm_order_def v p q by (auto simp: Let_def rbind_Inr_iff)
  have costs: "ux_rounded_price x = Some price" "ux_total_cost_bps x = fadd (fadd (ux_fee_bps x) (ux_spread_bps x)) (ux_impact_bps x)"
      "ux_fee_bps x = (if uo_liquidity_path o' = ''maker'' then ur_maker_fee_bps r else ur_taker_fee_bps r)"
      "ux_spread_bps x = (if uo_liquidity_path o' = ''maker'' then Fin 0 else usdm_spread_bps o')"
    using assms(1) ok i unfolding simulate_binance_usdm_order_def v p q by (auto simp: Let_def)
  have x: "ux_rounded_quantity x = Some qty" "ux_notional x = fmul price qty" "ux_impact_bps x = impact"
      "ux_fill_ratio x = fill_ratio_from_depth (fmul price qty) depth (uo_liquidity_path o')"
      "ux_status x = (if fle (Fin 1) (ux_fill_ratio x) then ''filled'' else ''partial_fill'')"
    using assms(1) ok i unfolding simulate_binance_usdm_order_def v p q by (auto simp: Let_def)
  have reasons: "\<not> fle (uo_quantity o') (Fin 0)" "\<not> fle (uo_price o') (Fin 0)" "\<not> fle qty (Fin 0)" "feq (uo_price o') price"
      "\<not> flt (fmul qty (uo_price o')) (ur_min_notional r)"
      "uo_post_only o' \<longrightarrow> uo_liquidity_path o' = ''maker'' \<and> \<not> would_cross_book o'"
      "uo_reduce_only o' \<longrightarrow> uo_intent o' = ''reduce'' \<and> \<not> fle (fabs (uo_current_position_qty o')) (Fin 0)
          \<and> \<not> flt (fadd (fabs (uo_current_position_qty o')) (fl (1 / 10 ^ 12))) qty"
      "uo_time_in_force o' = ''GTX'' \<longrightarrow> uo_post_only o'"
      "\<not> (case (uo_expires_at o', uo_submitted_at o') of (Some e, Some s) \<Rightarrow> e \<le> s | _ \<Rightarrow> False)"
    using ok(1) unfolding usdm_order_reasons_def append_is_Nil_conv flag_Nil_iff by blast+
  have "?part \<noteq> NaN" using ok(2) fle_Fin_neq_NaN by blast
  then have "price \<noteq> NaN" "qty \<noteq> NaN" using fquot_not_NaN not_NaN_factors by blast+
  have same: "price = uo_price o'" using reasons(4) by (cases price; cases "uo_price o'") auto
  have "uo_quantity o' \<noteq> NaN"
    using q by (auto simp: usdm_round_down_def to_whole_def split: if_splits)
  moreover have "ux_status x = ''filled'' \<longleftrightarrow> ux_fill_ratio x = Fin 1"
    using fill_ratio_range [of "fmul price qty" depth "uo_liquidity_path o'"] x(4,5) fle_antisym_one by auto
  moreover have "\<exists>z k. fquot (uo_quantity o') (ur_step_size r) = Fin z \<and> of_int k \<le> z \<and> z < of_int k + 1
      \<and> qty = fmul (Fin (of_int k)) (ur_step_size r)"
    using rounded_down_on_grid [OF q] by blast
  moreover have "\<forall>s e. uo_submitted_at o' = Some s \<and> uo_expires_at o' = Some e \<longrightarrow> s < e"
    using reasons(9) by auto
  ultimately show ?thesis
    using x(1-4) costs reasons(1-8) \<open>price \<noteq> NaN\<close> \<open>qty \<noteq> NaN\<close> p ok(2) above_zero fill_ratio_range dynamic_cost_range [OF i]
    unfolding same by simp
qed

definition sample_usdm_order :: usdm_order where
  "sample_usdm_order =
     \<lparr>uo_symbol = ''BTCUSDT'', uo_side = ''BUY'', uo_quantity = Fin 2, uo_price = Fin 100, uo_intent = ''increase'',
      uo_liquidity_path = ''maker'', uo_time_in_force = ''GTX'', uo_reduce_only = False, uo_post_only = True,
      uo_current_position_qty = Fin 0, uo_book_best_bid = Some (Fin 100), uo_book_best_ask = Some (Fin 101),
      uo_submitted_at = Some 1, uo_expires_at = Some 2\<rparr>"

definition sample_usdm_rules :: usdm_rules where
  "sample_usdm_rules =
     \<lparr>ur_tick_size = Fin 1, ur_step_size = Fin 1, ur_min_notional = Fin 5, ur_maker_fee_bps = Fin 2, ur_taker_fee_bps = Fin 5,
      ur_max_participation_rate = Fin 1, ur_liquidation_fee_bps = Fin 0\<rparr>"

definition sample_cost_context :: cost_context where
  "sample_cost_context =
     \<lparr>cx_symbol = ''BTCUSDT'', cx_liquidity_path = ''maker'', cx_hour_of_day = 3, cx_volatility_percentile = Fin 0,
      cx_spread_percentile = Fin 0, cx_order_size_pct_local_liquidity = Fin 0, cx_oi_percentile = Fin 0,
      cx_liquidation_intensity_percentile = Fin 0\<rparr>"

lemma sample_grid: "usdm_round_down (Fin 2) (Fin 1) = Inr (Fin 2)" "usdm_round_to_tick (Fin 100) (Fin 1) = Inr (Fin 100)"
  using round_nd_whole [of 100 12] half_even_of_int [of 100]
  by (simp_all add: usdm_round_down_def usdm_round_to_tick_def to_whole_def fl_numeral)

lemma sample_depth: "fmax (Fin 400) f_1em9 = Fin 400"
proof -
  obtain q where "f_1em9 = Fin q" "q \<le> 1 / 2 ^ 29" using f_1em9_Fin by blast
  then have "q < 400" by (simp add: order_le_less_trans)
  then show ?thesis unfolding fmax_def \<open>f_1em9 = Fin q\<close> by simp
qed

lemma sample_impact: "\<exists>i. dynamic_cost_bps sample_cost_context = Inr i"
  by (simp add: dynamic_cost_bps_def sample_cost_context_def fmax_def Let_def)

theorem accepted_usdm_order_is_tradable_witness:
  "\<exists>x. simulate_binance_usdm_order sample_usdm_order sample_usdm_rules sample_cost_context (Fin 400) = Inr x
     \<and> ux_accepted x \<and> fle (ux_impact_bps x) (Fin 500)"
proof -
  have "fl (20000 / 400) = Fin 50" using fl_numeral [of "num.Bit0 (num.Bit1 (num.Bit0 (num.Bit0 (num.Bit1 num.One))))"] by simp
  then have "usdm_order_reasons sample_usdm_order sample_usdm_rules (Fin 2) (Fin 100) = []"
      "fquot (fmul (Fin 100) (Fin 2)) (fmax (Fin 400) f_1em9) = Fin (1 / 2)"
    using fl_dyadic [of 1 1]
    by (simp_all add: usdm_order_reasons_def sample_usdm_order_def sample_usdm_rules_def would_cross_book_def fl_numeral sample_depth)
  then obtain x where x: "simulate_binance_usdm_order sample_usdm_order sample_usdm_rules sample_cost_context (Fin 400) = Inr x"
      "ux_accepted x"
    using sample_impact sample_grid unfolding simulate_binance_usdm_order_def validate_binance_usdm_order_def
    by (auto simp: sample_usdm_order_def sample_usdm_rules_def Let_def)
  from accepted_usdm_order_is_tradable [OF x] x show ?thesis by blast
qed

section \<open>The margin tier\<close>

text \<open>The tier that is selected holds the notional if any tier does, and is then the one with the lowest
  floor; otherwise it is a tier with the highest floor.\<close>

lemma select_tier_spec:
  assumes "select_maintenance_margin_tier n tiers = Inr t"
  shows "t \<in> set tiers"
    and "u \<in> set tiers \<Longrightarrow> in_tier (fabs n) u \<Longrightarrow> in_tier (fabs n) t \<and> mt_notional_floor t \<le> mt_notional_floor u"
    and "\<not> in_tier (fabs n) t \<Longrightarrow> u \<in> set tiers \<Longrightarrow> mt_notional_floor u \<le> mt_notional_floor t"
proof -
  let ?o = "sort_key mt_notional_floor tiers"
  have ne: "tiers \<noteq> []" and t: "t = (case find (in_tier (fabs n)) ?o of Some t \<Rightarrow> t | None \<Rightarrow> last ?o)"
    using assms by (auto simp: select_maintenance_margin_tier_def Let_def split: if_splits)
  have ne': "?o \<noteq> []" using ne by (metis set_empty set_sort)
  have srt: "sorted (map mt_notional_floor ?o)" by simp
  show "t \<in> set tiers"
    using last_in_set [OF ne'] nth_mem [of _ ?o] unfolding t by (auto simp: find_Some_iff split: option.splits)
  { assume u: "u \<in> set tiers" "in_tier (fabs n) u"
    then obtain j where j: "j < length ?o" "?o ! j = u" by (metis in_set_conv_nth set_sort)
    then obtain x where "find (in_tier (fabs n)) ?o = Some x" using u by (cases "find (in_tier (fabs n)) ?o") (auto simp: find_None_iff)
    then obtain i where i: "i < length ?o" "in_tier (fabs n) (?o ! i)" "t = ?o ! i" "\<forall>k<i. \<not> in_tier (fabs n) (?o ! k)"
      using t by (auto simp: find_Some_iff)
    with j u have "i \<le> j" by (metis not_le)
    with srt j i show "in_tier (fabs n) t \<and> mt_notional_floor t \<le> mt_notional_floor u"
      by (auto simp: sorted_iff_nth_mono) }
  assume "\<not> in_tier (fabs n) t" and u: "u \<in> set tiers"
  then have "find (in_tier (fabs n)) ?o = None" using t by (cases "find (in_tier (fabs n)) ?o") (auto simp: find_Some_iff)
  then have "t = last ?o" using t by simp
  moreover obtain j where "j < length ?o" "?o ! j = u" using u by (metis in_set_conv_nth set_sort)
  ultimately show "mt_notional_floor u \<le> mt_notional_floor t"
    using srt ne' by (auto simp: sorted_iff_nth_mono last_conv_nth)
qed

end
