(* ===== verification/Artifacts.thy ===== *)
theory Artifacts
  imports AgentControls Features
begin

text \<open>
  Strategy artifacts (\<open>strategy/artifacts.py\<close>): the sealed description of a promoted strategy, its
  promotion manifest, the authority it gives to trade on paper, and the ladder of rollout stages.
  An artifact is the dictionary of its JSON fields.  The digest of a payload and \<open>datetime.now\<close> (the
  argument \<open>wall\<close>) are parameters.  Two NaN values are different, as they are after a trip through
  JSON.
\<close>

section \<open>Stages and required fields\<close>

definition rollout_stages :: "string list" where
  "rollout_stages =
     [''backtest'', ''paper'', ''shadow_live'', ''tiny_live'', ''pilot_live'', ''scaled_live'', ''paused'', ''retired'']"

definition active_rollout_stages :: "string list" where
  "active_rollout_stages = filter (\<lambda>s. s \<notin> set [''paused'', ''retired'']) rollout_stages"

definition required_artifact_fields :: "string list" where
  "required_artifact_fields =
     [''artifact_id'', ''created_at_utc'', ''strategy_id'', ''family'', ''variant_id'', ''venue'', ''signal_timeframe'',
      ''execution_timeframe'', ''symbol_scope'', ''regime_scope'', ''feature_version'', ''data_snapshot_ids'',
      ''execution_model'', ''cost_model'', ''scenario_pack'', ''parameters'', ''risk_limits'', ''order_policy'',
      ''validation_report_id'', ''code_sha'', ''artifact_sha256'', ''rollout_stage'', ''promotion_approved'',
      ''validation_status'']"

definition rollout_gate_requirements :: "((string \<times> string) \<times> string list) list" where
  "rollout_gate_requirements =
     [((''backtest'', ''paper''), [''full_validation_pass'']),
      ((''paper'', ''shadow_live''), [''paper_stability_pass'', ''telemetry_complete'']),
      ((''shadow_live'', ''tiny_live''), [''paper_live_divergence_within_band'']),
      ((''tiny_live'', ''pilot_live''), [''live_risk_calibrated'', ''live_cost_calibrated'', ''no_unresolved_risk_events'']),
      ((''pilot_live'', ''scaled_live''), [''explicit_user_approval'', ''revalidation_pass''])]"

record rollout_decision =
  rt_allowed :: bool
  rt_reasons :: "string list"
  rt_required_evidence :: "string list"

definition evaluate_rollout_transition :: "string \<Rightarrow> string \<Rightarrow> (string \<times> pyval) list \<Rightarrow> rollout_decision" where
  "evaluate_rollout_transition from_stage to_stage evidence =
     (if from_stage \<notin> set active_rollout_stages \<or> to_stage \<notin> set active_rollout_stages
      then \<lparr>rt_allowed = False, rt_reasons = [''rollout_stage_not_active''], rt_required_evidence = []\<rparr>
      else
        let required = dget rollout_gate_requirements (from_stage, to_stage) []
        in if required = []
           then \<lparr>rt_allowed = False, rt_reasons = [''rollout_stage_skip_not_allowed''], rt_required_evidence = []\<rparr>
           else
             let missing = filter (\<lambda>g. pget evidence g \<noteq> PBool True) required
             in \<lparr>rt_allowed = (missing = []), rt_reasons = map (\<lambda>g. ''missing_gate_evidence:'' @ g) missing,
                 rt_required_evidence = required\<rparr>)"

section \<open>Payload helpers\<close>

definition string_list :: "pyval \<Rightarrow> string list" where
  "string_list v =
     (case v of PList xs \<Rightarrow> concat (map (\<lambda>x. case x of PStr s \<Rightarrow> flag (str_strip s \<noteq> []) s | _ \<Rightarrow> []) xs) | _ \<Rightarrow> [])"

definition json_object :: "pyval \<Rightarrow> (string \<times> pyval) list" where
  "json_object v = (case v of PDict d \<Rightarrow> d | _ \<Rightarrow> [])"

definition bool_dict :: "pyval \<Rightarrow> (string, bool) dict" where
  "bool_dict v = map (\<lambda>(k, w). (k, truthy w)) (json_object v)"

definition gate_results_from_details :: "pyval \<Rightarrow> (string, bool) dict" where
  "gate_results_from_details v =
     foldl (\<lambda>d item. case item of
              PDict g \<Rightarrow> (case pget g ''name'' of
                  PStr n \<Rightarrow> if n = [] then d else AList.update n (truthy (pget_or g ''passed'' (PBool False))) d
                | _ \<Rightarrow> d)
            | _ \<Rightarrow> d) [] (list_or_Nil v)"

definition paper_eligible ::
    "(string, bool) dict \<Rightarrow> (string, bool) dict \<Rightarrow> (string, bool) dict \<Rightarrow> (string \<times> pyval) list \<Rightarrow> (string \<times> pyval) list \<Rightarrow> bool" where
  "paper_eligible gates scenarios regimes capacity turnover \<longleftrightarrow>
     gates \<noteq> [] \<and> list_all snd gates \<and> list_all snd scenarios \<and> list_all snd regimes
     \<and> pget_or capacity ''passed'' (PBool True) = PBool True \<and> pget_or turnover ''passed'' (PBool True) = PBool True"

section \<open>The promotion manifest\<close>

record promotion_manifest =
  pm_artifact_id :: string
  pm_strategy_graph_hash :: string
  pm_data_snapshot_hash :: string
  pm_feature_contract_hash :: string
  pm_validation_bundle_hash :: string
  pm_gate_results :: "(string, bool) dict"
  pm_scenario_results :: "(string, bool) dict"
  pm_regime_results :: "(string, bool) dict"
  pm_capacity_result :: "(string \<times> pyval) list"
  pm_turnover_result :: "(string \<times> pyval) list"
  pm_paper_eligibility :: bool
  pm_risk_limits :: "(string \<times> pyval) list"
  pm_expiry_time_utc :: string
  pm_rollback_artifact_id :: "string option"

text \<open>\<open>str(payload.get(name, ""))\<close> and the rollback id, which may be absent or empty.\<close>

definition text_field :: "(string \<times> pyval) list \<Rightarrow> string \<Rightarrow> string" where
  "text_field d k = py_str (pget_or d k (PStr []))"

definition optional_id :: "(string \<times> pyval) list \<Rightarrow> string \<Rightarrow> string option" where
  "optional_id d k = (let v = pget d k in if v \<in> {PNone, PStr []} then None else Some (py_str v))"

definition manifest_from_dict :: "pyval \<Rightarrow> promotion_manifest result" where
  "manifest_from_dict v =
     (case v of
        PDict d \<Rightarrow> Inr
          \<lparr>pm_artifact_id = text_field d ''artifact_id'', pm_strategy_graph_hash = text_field d ''strategy_graph_hash'',
           pm_data_snapshot_hash = text_field d ''data_snapshot_hash'',
           pm_feature_contract_hash = text_field d ''feature_contract_hash'',
           pm_validation_bundle_hash = text_field d ''validation_bundle_hash'',
           pm_gate_results = bool_dict (pget d ''gate_results''), pm_scenario_results = bool_dict (pget d ''scenario_results''),
           pm_regime_results = bool_dict (pget d ''regime_results''), pm_capacity_result = json_object (pget d ''capacity_result''),
           pm_turnover_result = json_object (pget d ''turnover_result''),
           pm_paper_eligibility = truthy (pget d ''paper_eligibility''), pm_risk_limits = json_object (pget d ''risk_limits''),
           pm_expiry_time_utc = text_field d ''expiry_time_utc'', pm_rollback_artifact_id = optional_id d ''rollback_artifact_id''\<rparr>
      | _ \<Rightarrow> Inl (ValueError ''not_promotion_manifest''))"

definition bool_dict_value :: "(string, bool) dict \<Rightarrow> pyval" where
  "bool_dict_value d = PDict (map (\<lambda>(k, b). (k, PBool b)) d)"

definition manifest_to_dict :: "promotion_manifest \<Rightarrow> pyval" where
  "manifest_to_dict m = PDict
     [(''artifact_id'', PStr (pm_artifact_id m)), (''strategy_graph_hash'', PStr (pm_strategy_graph_hash m)),
      (''data_snapshot_hash'', PStr (pm_data_snapshot_hash m)), (''feature_contract_hash'', PStr (pm_feature_contract_hash m)),
      (''validation_bundle_hash'', PStr (pm_validation_bundle_hash m)), (''gate_results'', bool_dict_value (pm_gate_results m)),
      (''scenario_results'', bool_dict_value (pm_scenario_results m)), (''regime_results'', bool_dict_value (pm_regime_results m)),
      (''capacity_result'', PDict (pm_capacity_result m)), (''turnover_result'', PDict (pm_turnover_result m)),
      (''paper_eligibility'', PBool (pm_paper_eligibility m)), (''risk_limits'', PDict (pm_risk_limits m)),
      (''expiry_time_utc'', PStr (pm_expiry_time_utc m)),
      (''rollback_artifact_id'', (case pm_rollback_artifact_id m of None \<Rightarrow> PNone | Some s \<Rightarrow> PStr s))]"

definition validation_bundle_hash :: "stable_hash \<Rightarrow> (string \<times> pyval) list \<Rightarrow> string" where
  "validation_bundle_hash H a = H (PDict
     [(''validation_report_id'', pget_or a ''validation_report_id'' (PStr [])),
      (''validation_status'', pget_or a ''validation_status'' (PStr [])),
      (''validation_gate_details'', pget_or a ''validation_gate_details'' (PList []))])"

definition strategy_graph_hash :: "stable_hash \<Rightarrow> (string \<times> pyval) list \<Rightarrow> string" where
  "strategy_graph_hash H a = H (PDict
     [(''strategy_id'', pget_or a ''strategy_id'' (PStr [])), (''family'', pget_or a ''family'' (PStr [])),
      (''variant_id'', pget_or a ''variant_id'' (PStr [])), (''parameters'', pget_or a ''parameters'' (PDict []))])"

definition no_expiry :: string where
  "no_expiry = ''2099-12-31T00:00:00Z''"

definition validation_current :: "(string \<times> pyval) list \<Rightarrow> bool" where
  "validation_current a \<longleftrightarrow> Forecasting.str_in (pget a ''validation_status'') [''passed'', ''current'']"

definition manifest_gate_results :: "(string \<times> pyval) list \<Rightarrow> (string, bool) dict result" where
  "manifest_gate_results a =
     (let details = gate_results_from_details (pget_or a ''validation_gate_details'' (PList []));
          given = bool_dict (pget a ''gate_results'')
      in if details \<noteq> [] then Inr details
         else if given \<noteq> [] then Inr given
         else rbind (hash_check (pget a ''validation_status'')) (\<lambda>_.
                Inr [(''validation_status'', validation_current a)]))"

definition build_promotion_manifest :: "stable_hash \<Rightarrow> (string \<times> pyval) list \<Rightarrow> string option \<Rightarrow> promotion_manifest result" where
  "build_promotion_manifest H a expiry =
     rbind (manifest_gate_results a) (\<lambda>gates.
       let scenarios = bool_dict (pget a ''scenario_results''); regimes = bool_dict (pget a ''regime_results'');
           capacity = json_object (pget a ''capacity_result''); turnover = json_object (pget a ''turnover_result'');
           contract = pget a ''feature_contract_hash''; own = pget a ''expiry_time_utc''
       in Inr \<lparr>pm_artifact_id = text_field a ''artifact_id'', pm_strategy_graph_hash = strategy_graph_hash H a,
               pm_data_snapshot_hash = H (pget_or a ''data_snapshot_ids'' (PList [])),
               pm_feature_contract_hash = (if truthy contract then py_str contract else H (pget_or a ''feature_version'' (PStr []))),
               pm_validation_bundle_hash = validation_bundle_hash H a,
               pm_gate_results = gates, pm_scenario_results = scenarios, pm_regime_results = regimes,
               pm_capacity_result = capacity, pm_turnover_result = turnover,
               pm_paper_eligibility = paper_eligible gates scenarios regimes capacity turnover,
               pm_risk_limits = json_object (pget a ''risk_limits''),
               pm_expiry_time_utc = (case expiry of
                   Some (c # cs) \<Rightarrow> c # cs
                 | _ \<Rightarrow> if truthy own then py_str own else no_expiry),
               pm_rollback_artifact_id = optional_id a ''rollback_artifact_id''\<rparr>)"

definition is_expired :: "time_lib \<Rightarrow> int \<Rightarrow> string \<Rightarrow> string option \<Rightarrow> bool" where
  "is_expired clk wall expiry_text now_text =
     (case parse_utc_opt clk (Some expiry_text) of
        None \<Rightarrow> True
      | Some expiry \<Rightarrow> expiry < (case parse_utc_opt clk now_text of None \<Rightarrow> wall | Some n \<Rightarrow> n))"

definition same_bools :: "(string, bool) dict \<Rightarrow> (string, bool) dict \<Rightarrow> bool" where
  "same_bools a b \<longleftrightarrow> py_eq (bool_dict_value a) (bool_dict_value b)"

definition manifest_reasons ::
    "(string \<times> pyval) list \<Rightarrow> promotion_manifest \<Rightarrow> promotion_manifest \<Rightarrow> bool \<Rightarrow> string list" where
  "manifest_reasons a m expected expired =
     flag (PStr (pm_artifact_id m) \<noteq> pget a ''artifact_id'') ''manifest_artifact_id_mismatch''
     @ flag (pm_strategy_graph_hash m \<noteq> pm_strategy_graph_hash expected) ''manifest_strategy_graph_hash_mismatch''
     @ flag (pm_data_snapshot_hash m \<noteq> pm_data_snapshot_hash expected) ''manifest_data_snapshot_hash_mismatch''
     @ flag (pm_feature_contract_hash m \<noteq> pm_feature_contract_hash expected) ''manifest_feature_contract_hash_mismatch''
     @ flag (pm_validation_bundle_hash m \<noteq> pm_validation_bundle_hash expected) ''manifest_validation_bundle_hash_mismatch''
     @ flag (\<not> same_bools (pm_gate_results m) (pm_gate_results expected)) ''manifest_gate_results_mismatch''
     @ flag (\<not> py_eq (PDict (pm_risk_limits m)) (PDict (pm_risk_limits expected))) ''manifest_risk_limits_mismatch''
     @ flag (\<not> pm_paper_eligibility m) ''manifest_paper_ineligible''
     @ flag expired ''artifact_expired''"

definition validate_promotion_manifest ::
    "stable_hash \<Rightarrow> time_lib \<Rightarrow> int \<Rightarrow> (string \<times> pyval) list \<Rightarrow> pyval \<Rightarrow> string option \<Rightarrow> (bool \<times> string list) result" where
  "validate_promotion_manifest H clk wall a v now =
     (case manifest_from_dict v of
        Inl e \<Rightarrow> Inr (False, [''missing_promotion_manifest''])
      | Inr m \<Rightarrow>
          rbind (build_promotion_manifest H a (Some (pm_expiry_time_utc m))) (\<lambda>expected.
            let reasons = manifest_reasons a m expected (is_expired clk wall (pm_expiry_time_utc m) now)
            in Inr (reasons = [], sorted_set reasons)))"

section \<open>Validating and building an artifact\<close>

record artifact_validation =
  av_passed :: bool
  av_reasons :: "string list"
  av_artifact_sha256 :: "string option"
  av_normalized_artifact :: "(string \<times> pyval) list"

definition unsealed :: "(string \<times> pyval) list \<Rightarrow> (string \<times> pyval) list" where
  "unsealed a = filter (\<lambda>(k, v). k \<noteq> ''artifact_sha256'') a"

definition is_pdict :: "pyval \<Rightarrow> bool" where
  "is_pdict v = (case v of PDict d \<Rightarrow> True | _ \<Rightarrow> False)"

definition field_reasons :: "(string \<times> pyval) list \<Rightarrow> string list" where
  "field_reasons a =
     map (\<lambda>f. ''missing:'' @ f) (filter (\<lambda>f. map_of a f = None) required_artifact_fields)
     @ flag (pget a ''venue'' \<noteq> PStr ''binance_usdm'') ''venue_not_allowed''
     @ flag (pget a ''signal_timeframe'' \<noteq> PStr ''1h'') ''signal_timeframe_not_allowed''
     @ flag (pget a ''execution_timeframe'' \<noteq> PStr ''15m'') ''execution_timeframe_not_allowed''
     @ flag (pget a ''execution_model'' \<noteq> PStr ''binance_usdm_v3'') ''execution_model_not_allowed''
     @ flag (\<not> Forecasting.str_in (pget a ''rollout_stage'') rollout_stages) ''rollout_stage_not_allowed''
     @ flag (pget a ''promotion_approved'' \<noteq> PBool True) ''artifact_not_approved''
     @ flag (\<not> validation_current a) ''validation_not_current''"

definition shape_reasons :: "(string \<times> pyval) list \<Rightarrow> string list" where
  "shape_reasons a =
     concat (map (\<lambda>f. flag (\<not> is_plist (pget a f) \<or> \<not> truthy (pget a f)) (''invalid:'' @ f))
       [''symbol_scope'', ''regime_scope'', ''data_snapshot_ids''])
     @ concat (map (\<lambda>f. flag (\<not> is_pdict (pget a f)) (''invalid:'' @ f)) [''parameters'', ''risk_limits'', ''order_policy''])
     @ flag (map_of a ''cost_model_config'' \<noteq> None \<and> \<not> is_pdict (pget a ''cost_model_config'')) ''invalid:cost_model_config''"

definition checksum_reasons :: "stable_hash \<Rightarrow> (string \<times> pyval) list \<Rightarrow> string list" where
  "checksum_reasons H a =
     (let given = text_field a ''artifact_sha256''
      in flag (given \<noteq> [] \<and> given \<noteq> H (PDict (unsealed a))) ''artifact_checksum_mismatch'')"

definition validate_strategy_artifact ::
    "stable_hash \<Rightarrow> time_lib \<Rightarrow> int \<Rightarrow> (string \<times> pyval) list \<Rightarrow> artifact_validation result" where
  "validate_strategy_artifact H clk wall a =
     (if pget a ''artifact_schema_version'' \<noteq> PStr ''strategy-artifact-v1''
      then Inr \<lparr>av_passed = False, av_reasons = [''not_strategy_artifact''], av_artifact_sha256 = None, av_normalized_artifact = []\<rparr>
      else
        rbind (hash_check (pget a ''validation_status'')) (\<lambda>_.
        rbind (if pget a ''promotion_approved'' = PBool True
               then rbind (validate_promotion_manifest H clk wall a (pget a ''promotion_manifest'') None) (\<lambda>m. Inr (snd m))
               else Inr []) (\<lambda>manifest.
          let reasons = field_reasons a @ manifest @ shape_reasons a @ checksum_reasons H a
          in Inr \<lparr>av_passed = (reasons = []), av_reasons = sorted_set reasons,
                  av_artifact_sha256 = Some (H (PDict (unsealed a))),
                  av_normalized_artifact = sort_key fst (unsealed a)\<rparr>)))"

definition copied_fields :: "string list" where
  "copied_fields =
     [''feature_contract_hash'', ''scenario_results'', ''regime_results'', ''capacity_result'', ''turnover_result'',
      ''promotion_manifest'', ''rollback_manifest'']"

definition text_list :: "pyval \<Rightarrow> pyval" where
  "text_list v = PList (map PStr (sort (string_list v)))"

definition normalize_artifact_payload :: "(string \<times> pyval) list \<Rightarrow> (string \<times> pyval) list" where
  "normalize_artifact_payload p =
     (let text = (\<lambda>k. (k, pget_or p k (PStr []))); list = (\<lambda>k. (k, text_list (pget p k)));
          object = (\<lambda>k. (k, PDict (json_object (pget p k))))
      in [(''artifact_schema_version'', PStr ''strategy-artifact-v1''), text ''artifact_id'', text ''created_at_utc'',
          text ''strategy_id'', text ''family'', text ''variant_id'', text ''venue'', text ''signal_timeframe'',
          text ''execution_timeframe'', list ''symbol_scope'', list ''regime_scope'', text ''feature_version'',
          list ''data_snapshot_ids'', text ''execution_model'', text ''cost_model'', text ''scenario_pack'',
          object ''parameters'', object ''risk_limits'', object ''order_policy'', text ''validation_report_id'', text ''code_sha'',
          (''rollout_stage'', pget_or p ''rollout_stage'' (PStr ''backtest'')),
          (''promotion_approved'', PBool (truthy (pget p ''promotion_approved''))), text ''validation_status'',
          (''expiry_time_utc'', pget_or p ''expiry_time_utc'' (PStr no_expiry))]
         @ flag (map_of p ''cost_model_config'' \<noteq> None) (object ''cost_model_config'')
         @ flag (map_of p ''validation_gate_details'' \<noteq> None)
             (''validation_gate_details'', PList (list_or_Nil (pget p ''validation_gate_details'')))
         @ concat (map (\<lambda>f. flag (map_of p f \<noteq> None) (f, pget p f)) copied_fields))"

definition default_artifact_id :: "stable_hash \<Rightarrow> (string \<times> pyval) list \<Rightarrow> string" where
  "default_artifact_id H a =
     ''artifact-'' @ take 16 (H (PDict (map (\<lambda>k. (k, pget_or a k (PStr [])))
        [''strategy_id'', ''variant_id'', ''validation_report_id'', ''code_sha''])))"

definition build_strategy_artifact :: "stable_hash \<Rightarrow> (string \<times> pyval) list \<Rightarrow> (string \<times> pyval) list result" where
  "build_strategy_artifact H payload =
     (let a0 = normalize_artifact_payload payload;
          a1 = (if truthy (pget a0 ''artifact_id'') then a0
                else AList.update ''artifact_id'' (PStr (default_artifact_id H a0)) a0)
      in rbind (if pget a1 ''promotion_approved'' = PBool True \<and> map_of a1 ''promotion_manifest'' = None
                then rbind (build_promotion_manifest H a1 None) (\<lambda>m.
                       Inr (AList.update ''promotion_manifest'' (manifest_to_dict m) a1))
                else Inr a1) (\<lambda>a2.
           Inr (AList.update ''artifact_sha256'' (PStr (H (PDict (unsealed a2)))) a2)))"

section \<open>Authority, rollback and compatibility\<close>

record authority_decision =
  ay_allowed :: bool
  ay_reduce_only :: bool
  ay_reasons :: "string list"

definition authority :: "bool \<Rightarrow> bool \<Rightarrow> string list \<Rightarrow> authority_decision" where
  "authority allowed reduce reasons = \<lparr>ay_allowed = allowed, ay_reduce_only = reduce, ay_reasons = reasons\<rparr>"

definition paper_authority_decision ::
    "stable_hash \<Rightarrow> time_lib \<Rightarrow> int \<Rightarrow> (string \<times> pyval) list \<Rightarrow> string option \<Rightarrow> bool \<Rightarrow> authority_decision result" where
  "paper_authority_decision H clk wall a now reduce =
     rbind (validate_strategy_artifact H clk wall a) (\<lambda>v.
       if \<not> av_passed v
       then let expired_only = (set (av_reasons v) = {''artifact_expired''})
            in Inr (if expired_only \<and> reduce then authority True True [''artifact_expired'']
                    else authority False expired_only (av_reasons v))
       else rbind (manifest_from_dict (pget a ''promotion_manifest'')) (\<lambda>m.
              Inr (if is_expired clk wall (pm_expiry_time_utc m) now
                   then if reduce then authority True True [''artifact_expired'']
                        else authority False True [''artifact_expired'']
                   else authority True False [])))"

record rollback_manifest =
  rk_artifact_id :: string
  rk_parent_artifact_id :: string
  rk_rollback_reason :: string
  rk_rollback_compatible :: bool
  rk_fallback_stage :: string

definition rollback_from_dict :: "pyval \<Rightarrow> rollback_manifest result" where
  "rollback_from_dict v =
     (case v of
        PDict d \<Rightarrow> Inr
          \<lparr>rk_artifact_id = text_field d ''artifact_id'', rk_parent_artifact_id = text_field d ''parent_artifact_id'',
           rk_rollback_reason = text_field d ''rollback_reason'', rk_rollback_compatible = truthy (pget d ''rollback_compatible''),
           rk_fallback_stage = text_field d ''fallback_stage''\<rparr>
      | _ \<Rightarrow> Inl (ValueError ''not_rollback_manifest''))"

definition rollback_to_dict :: "rollback_manifest \<Rightarrow> pyval" where
  "rollback_to_dict m = PDict
     [(''artifact_id'', PStr (rk_artifact_id m)), (''parent_artifact_id'', PStr (rk_parent_artifact_id m)),
      (''rollback_reason'', PStr (rk_rollback_reason m)), (''rollback_compatible'', PBool (rk_rollback_compatible m)),
      (''fallback_stage'', PStr (rk_fallback_stage m))]"

definition validate_rollback_manifest :: "pyval \<Rightarrow> bool \<times> string list" where
  "validate_rollback_manifest v =
     (case rollback_from_dict v of
        Inl e \<Rightarrow> (False, [''not_rollback_manifest''])
      | Inr m \<Rightarrow>
          let reasons = flag (rk_artifact_id m = []) ''missing_artifact_id''
                @ flag (rk_parent_artifact_id m = []) ''missing_parent_artifact_id''
                @ flag (rk_rollback_reason m = []) ''missing_rollback_reason''
                @ flag (rk_fallback_stage m \<notin> set rollout_stages) ''invalid_fallback_stage''
          in (reasons = [], sorted_set reasons))"

record deployment_target =
  dt_venue :: string
  dt_signal_timeframe :: string
  dt_execution_timeframe :: string
  dt_execution_model :: string
  dt_allowed_symbols :: "string list"
  dt_feature_contract_hash :: string
  dt_max_notional :: pyfloat

definition compatibility_checks ::
    "deployment_target \<Rightarrow> (string \<times> pyval) list \<Rightarrow> string list \<Rightarrow> pyfloat \<Rightarrow> (string, bool) dict" where
  "compatibility_checks t a symbols notional =
     [(''venue'', pget a ''venue'' = PStr (dt_venue t)),
      (''signal_timeframe'', pget a ''signal_timeframe'' = PStr (dt_signal_timeframe t)),
      (''execution_timeframe'', pget a ''execution_timeframe'' = PStr (dt_execution_timeframe t)),
      (''execution_model'', pget a ''execution_model'' = PStr (dt_execution_model t)),
      (''symbol_universe'', symbols \<noteq> [] \<and> set symbols \<subseteq> set (dt_allowed_symbols t)),
      (''feature_contract'', text_field a ''feature_contract_hash'' = dt_feature_contract_hash t),
      (''risk_limits'', fle notional (dt_max_notional t))]"

definition build_artifact_compatibility_report ::
    "deployment_target \<Rightarrow> (string \<times> pyval) list \<Rightarrow> (bool \<times> (string, bool) dict \<times> string list) result" where
  "build_artifact_compatibility_report t a =
     rbind (iterate (pget_or a ''symbol_scope'' (PList []))) (\<lambda>items.
     rbind (py_float (pget_or (json_object (pget a ''risk_limits'')) ''max_notional'' (PFloat (Fin 0)))) (\<lambda>notional.
       let symbols = concat (map (\<lambda>x. case x of PStr s \<Rightarrow> [s] | _ \<Rightarrow> []) items);
           checks = compatibility_checks t a symbols notional;
           reasons = map fst (filter (\<lambda>(k, ok). \<not> ok) checks)
       in Inr (reasons = [], checks, reasons)))"

section \<open>The ladder of stages\<close>

text \<open>The stages an artifact goes through when every change of stage is an allowed transition, with the
  evidence each was decided on.\<close>

inductive rolled_out :: "string \<Rightarrow> ((string \<times> string) \<times> (string \<times> pyval) list) list \<Rightarrow> bool" where
  start: "rolled_out ''backtest'' []"
| step: "rolled_out s past \<Longrightarrow> rt_allowed (evaluate_rollout_transition s t evidence)
     \<Longrightarrow> rolled_out t (past @ [((s, t), evidence)])"

definition ladder :: "string list" where
  "ladder = [''backtest'', ''paper'', ''shadow_live'', ''tiny_live'', ''pilot_live'', ''scaled_live'']"

lemma rollout_allowed_iff:
  "rt_allowed (evaluate_rollout_transition s t evidence) \<longleftrightarrow>
     (s, t) \<in> fst ` set rollout_gate_requirements
     \<and> (\<forall>g \<in> set (dget rollout_gate_requirements (s, t) []). pget evidence g = PBool True)"
proof (cases "(s, t) \<in> fst ` set rollout_gate_requirements")
  case True
  then have "s \<in> set active_rollout_stages" "t \<in> set active_rollout_stages"
      "dget rollout_gate_requirements (s, t) [] \<noteq> []"
    by (auto simp: rollout_gate_requirements_def active_rollout_stages_def rollout_stages_def dget_def)
  with True show ?thesis
    by (auto simp: evaluate_rollout_transition_def Let_def filter_empty_conv)
next
  case False
  then have "map_of rollout_gate_requirements (s, t) = None" by (simp add: map_of_eq_None_iff)
  with False show ?thesis by (auto simp: evaluate_rollout_transition_def dget_def)
qed

lemma rollout_edges: "map fst rollout_gate_requirements = zip ladder (tl ladder)"
  by (simp add: rollout_gate_requirements_def ladder_def)

text \<open>C33. The stages are climbed one by one: whatever sequence of allowed transitions an artifact went
  through, its past is the beginning of the ladder from backtest to scaled live trading, its stage is the
  next rung, and every gate of every step taken was evidenced as true. No stage is skipped, repeated
  or left downwards.\<close>

theorem rollout_climbs_the_ladder:
  assumes "rolled_out s past"
  shows "length past < length ladder \<and> s = ladder ! length past
    \<and> map fst past = take (length past) (zip ladder (tl ladder))
    \<and> (\<forall>(step, evidence) \<in> set past. \<forall>g \<in> set (dget rollout_gate_requirements step []). pget evidence g = PBool True)"
  using assms
proof (induction rule: rolled_out.induct)
  case start
  then show ?case by (simp add: ladder_def)
next
  case (step s past t evidence)
  let ?n = "length past"
  have edges: "zip ladder (tl ladder) = map (\<lambda>i. (ladder ! i, ladder ! Suc i)) [0..<5]"
    by (simp add: ladder_def upt_rec)
  have "(s, t) \<in> set (zip ladder (tl ladder))"
    using step.hyps(2) unfolding rollout_allowed_iff rollout_edges [symmetric] by simp
  then obtain i where i: "i < 5" "s = ladder ! i" "t = ladder ! Suc i" unfolding edges by auto
  have "distinct ladder" "length ladder = 6" by (simp_all add: ladder_def)
  with step.IH i have n: "?n = i" by (auto simp: nth_eq_iff_index_eq)
  have "zip ladder (tl ladder) ! i = (s, t)" "i < length (zip ladder (tl ladder))" using i unfolding edges by simp_all
  with step.IH n have "map fst past @ [(s, t)] = take (Suc i) (zip ladder (tl ladder))"
    by (simp add: take_Suc_conv_app_nth)
  with step.IH step.hyps(2) n i show ?case by (auto simp: rollout_allowed_iff ladder_def)
qed

theorem rollout_climbs_the_ladder_witness:
  "\<exists>s. rolled_out s [((''backtest'', ''paper''), [(''full_validation_pass'', PBool True)])] \<and> s = ''paper''"
proof -
  have "rolled_out ''paper'' ([] @ [((''backtest'', ''paper''), [(''full_validation_pass'', PBool True)])])"
    by (rule rolled_out.step [OF rolled_out.start])
      (simp add: rollout_allowed_iff rollout_gate_requirements_def dget_def)
  then obtain s where s: "rolled_out s [((''backtest'', ''paper''), [(''full_validation_pass'', PBool True)])]" by auto
  from rollout_climbs_the_ladder [OF s] have "s = ''paper''" by (simp add: ladder_def)
  with s show ?thesis by blast
qed

section \<open>Built artifacts\<close>

lemma pget_update [simp]: "pget (AList.update k v d) j = (if j = k then v else pget d j)"
  by (simp add: pget_def)

lemma pget_or_update [simp]: "pget_or (AList.update k v d) j w = (if j = k then v else pget_or d j w)"
  by (simp add: pget_or_def)

lemma py_eq_bools: "dict_ok d \<Longrightarrow> py_eq (bool_dict_value d) (bool_dict_value d)"
proof (induction d)
  case (Cons kb d)
  obtain k b where kb: "kb = (k, b)" by (cases kb)
  with Cons.prems have "k \<notin> fst ` set d" "dict_ok d" by (auto simp: dict_ok_def)
  then have "AList.delete k (map (\<lambda>(k, b). (k, PBool b)) d) = map (\<lambda>(k, b). (k, PBool b)) d"
    by (intro delete_id) force
  with Cons.IH \<open>dict_ok d\<close> show ?case by (simp add: bool_dict_value_def kb)
qed (simp add: bool_dict_value_def)

lemma gate_results_ok: "dict_ok (gate_results_from_details v)"
proof -
  have "dict_ok (foldl (\<lambda>d item. case item of
              PDict g \<Rightarrow> (case pget g ''name'' of
                  PStr n \<Rightarrow> if n = [] then d else AList.update n (truthy (pget_or g ''passed'' (PBool False))) d
                | _ \<Rightarrow> d)
            | _ \<Rightarrow> d) d xs)" if "dict_ok d" for d xs
    using that by (induction xs arbitrary: d) (auto split: pyval.splits)
  then show ?thesis by (simp add: gate_results_from_details_def)
qed

lemma unsealed_update: "unsealed (AList.update ''artifact_sha256'' v a) = unsealed a"
  unfolding unsealed_def by (induction a) auto

lemma bool_dict_value_roundtrip [simp]: "bool_dict (bool_dict_value d) = d"
  by (induction d) (auto simp: bool_dict_def bool_dict_value_def json_object_def)

lemma manifest_roundtrip:
  "\<exists>m'. manifest_from_dict (manifest_to_dict m) = Inr m' \<and> pm_artifact_id m' = pm_artifact_id m
     \<and> pm_strategy_graph_hash m' = pm_strategy_graph_hash m \<and> pm_data_snapshot_hash m' = pm_data_snapshot_hash m
     \<and> pm_feature_contract_hash m' = pm_feature_contract_hash m \<and> pm_validation_bundle_hash m' = pm_validation_bundle_hash m
     \<and> pm_gate_results m' = pm_gate_results m \<and> pm_risk_limits m' = pm_risk_limits m
     \<and> pm_paper_eligibility m' = pm_paper_eligibility m \<and> pm_expiry_time_utc m' = pm_expiry_time_utc m"
  by (simp add: manifest_from_dict_def manifest_to_dict_def text_field_def json_object_def)


text \<open>What a promotion manifest says about an artifact, and whether the artifact backs it.\<close>

definition manifest_backed :: "stable_hash \<Rightarrow> (string \<times> pyval) list \<Rightarrow> promotion_manifest \<Rightarrow> bool" where
  "manifest_backed H a m \<longleftrightarrow>
     (\<exists>gates. manifest_gate_results a = Inr gates \<and> same_bools (pm_gate_results m) gates)
     \<and> pget a ''artifact_id'' = PStr (pm_artifact_id m) \<and> pm_strategy_graph_hash m = strategy_graph_hash H a
     \<and> pm_data_snapshot_hash m = H (pget_or a ''data_snapshot_ids'' (PList []))
     \<and> pm_validation_bundle_hash m = validation_bundle_hash H a
     \<and> pm_feature_contract_hash m = (let c = pget a ''feature_contract_hash'' in
          if truthy c then py_str c else H (pget_or a ''feature_version'' (PStr [])))
     \<and> py_eq (PDict (pm_risk_limits m)) (PDict (json_object (pget a ''risk_limits'')))"

lemma flag_subset: "set (flag b r) \<subseteq> {e} \<longleftrightarrow> (b \<longrightarrow> r = e)"
  by simp

lemma manifest_reasons_subset:
  "set (manifest_reasons a m x e) \<subseteq> {''artifact_expired''} \<longleftrightarrow>
     PStr (pm_artifact_id m) = pget a ''artifact_id'' \<and> pm_strategy_graph_hash m = pm_strategy_graph_hash x
     \<and> pm_data_snapshot_hash m = pm_data_snapshot_hash x \<and> pm_feature_contract_hash m = pm_feature_contract_hash x
     \<and> pm_validation_bundle_hash m = pm_validation_bundle_hash x \<and> same_bools (pm_gate_results m) (pm_gate_results x)
     \<and> py_eq (PDict (pm_risk_limits m)) (PDict (pm_risk_limits x)) \<and> pm_paper_eligibility m"
  unfolding manifest_reasons_def set_append Un_subset_iff flag_subset by simp

lemma manifest_reasons_expired: "''artifact_expired'' \<in> set (manifest_reasons a m x e) \<longleftrightarrow> e"
  unfolding manifest_reasons_def set_append Un_iff mem_flag by simp

lemma manifest_reasons_iff:
  assumes "build_promotion_manifest H a x = Inr expected"
  shows "set (manifest_reasons a m expected e) \<subseteq> {''artifact_expired''}
     \<longleftrightarrow> manifest_backed H a m \<and> pm_paper_eligibility m"
proof -
  obtain gates where g: "manifest_gate_results a = Inr gates" and
    e: "pm_strategy_graph_hash expected = strategy_graph_hash H a"
      "pm_data_snapshot_hash expected = H (pget_or a ''data_snapshot_ids'' (PList []))"
      "pm_feature_contract_hash expected = (let c = pget a ''feature_contract_hash'' in
          if truthy c then py_str c else H (pget_or a ''feature_version'' (PStr [])))"
      "pm_validation_bundle_hash expected = validation_bundle_hash H a" "pm_gate_results expected = gates"
      "pm_risk_limits expected = json_object (pget a ''risk_limits'')"
    using assms unfolding build_promotion_manifest_def rbind_Inr_iff Let_def by fastforce
  show ?thesis unfolding manifest_reasons_subset e manifest_backed_def g by auto
qed

text \<open>Everything an artifact has to show besides its manifest.\<close>

definition sealed_and_sound :: "stable_hash \<Rightarrow> (string \<times> pyval) list \<Rightarrow> bool" where
  "sealed_and_sound H a \<longleftrightarrow>
     field_reasons a = [] \<and> shape_reasons a = [] \<and> text_field a ''artifact_sha256'' \<in> {[], H (PDict (unsealed a))}"

lemma only_that: "set xs \<subseteq> {e} \<Longrightarrow> e \<notin> set xs \<Longrightarrow> xs = []"
  by (cases xs) auto

lemma own_reasons_not_expired:
  "''artifact_expired'' \<notin> set (field_reasons a @ shape_reasons a @ checksum_reasons H a)"
  by (simp add: field_reasons_def shape_reasons_def checksum_reasons_def mem_flag image_iff Let_def del: set_flag)

lemma validation_reasons:
  assumes "validate_strategy_artifact H clk wall a = Inr v"
  shows "av_passed v \<longleftrightarrow> av_reasons v = []"
    and "set (av_reasons v) \<subseteq> {''artifact_expired''} \<Longrightarrow>
      \<exists>m. sealed_and_sound H a \<and> manifest_from_dict (pget a ''promotion_manifest'') = Inr m \<and> manifest_backed H a m
        \<and> pm_paper_eligibility m \<and> (av_passed v \<longleftrightarrow> \<not> is_expired clk wall (pm_expiry_time_utc m) None)"
proof -
  show passed: "av_passed v \<longleftrightarrow> av_reasons v = []"
    using assms by (auto simp: validate_strategy_artifact_def rbind_Inr_iff Let_def split: if_splits)
  assume sub: "set (av_reasons v) \<subseteq> {''artifact_expired''}"
  have version: "pget a ''artifact_schema_version'' = PStr ''strategy-artifact-v1''"
    using assms sub by (auto simp: validate_strategy_artifact_def split: if_splits)
  then obtain ms where ms: "(if pget a ''promotion_approved'' = PBool True
               then rbind (validate_promotion_manifest H clk wall a (pget a ''promotion_manifest'') None) (\<lambda>m. Inr (snd m))
               else Inr []) = Inr ms" and v: "set (av_reasons v) = set (field_reasons a @ ms @ shape_reasons a @ checksum_reasons H a)"
    using assms by (auto simp: validate_strategy_artifact_def rbind_Inr_iff Let_def)
  have own: "field_reasons a = []" "shape_reasons a = []" "checksum_reasons H a = []"
  proof -
    have "set (field_reasons a @ shape_reasons a @ checksum_reasons H a) \<subseteq> {''artifact_expired''}"
      using sub unfolding v by auto
    from only_that [OF this own_reasons_not_expired]
    show "field_reasons a = []" "shape_reasons a = []" "checksum_reasons H a = []" by simp_all
  qed
  then have app: "pget a ''promotion_approved'' = PBool True" by (simp add: field_reasons_def)
  obtain b rs where b: "validate_promotion_manifest H clk wall a (pget a ''promotion_manifest'') None = Inr (b, rs)" "ms = rs"
    using ms app by (auto simp: rbind_Inr_iff)
  have sub': "set rs \<subseteq> {''artifact_expired''}" using sub v b by auto
  then obtain m where m: "manifest_from_dict (pget a ''promotion_manifest'') = Inr m"
    using b by (auto simp: validate_promotion_manifest_def split: sum.splits)
  then obtain expected where e: "build_promotion_manifest H a (Some (pm_expiry_time_utc m)) = Inr expected"
      "set rs = set (manifest_reasons a m expected (is_expired clk wall (pm_expiry_time_utc m) None))"
    using b by (auto simp: validate_promotion_manifest_def rbind_Inr_iff Let_def)
  have backed: "manifest_backed H a m" "pm_paper_eligibility m"
    using manifest_reasons_iff [OF e(1)] sub' unfolding e(2) by simp_all
  have "av_reasons v = [] \<longleftrightarrow> set (av_reasons v) = {}" by simp
  then have "av_passed v \<longleftrightarrow> rs = []" unfolding passed using v own b(2) by simp
  also have "rs = [] \<longleftrightarrow> ''artifact_expired'' \<notin> set rs" using only_that [OF sub'] by auto
  also have "\<dots> \<longleftrightarrow> \<not> is_expired clk wall (pm_expiry_time_utc m) None" unfolding e(2) manifest_reasons_expired ..
  finally show "\<exists>m. sealed_and_sound H a \<and> manifest_from_dict (pget a ''promotion_manifest'') = Inr m \<and> manifest_backed H a m
        \<and> pm_paper_eligibility m \<and> (av_passed v \<longleftrightarrow> \<not> is_expired clk wall (pm_expiry_time_utc m) None)"
    using m backed own by (auto simp: sealed_and_sound_def checksum_reasons_def Let_def)
qed

lemma allowed_authority:
  assumes "paper_authority_decision H clk wall a now reduce = Inr d" "ay_allowed d"
  shows "\<exists>m. sealed_and_sound H a \<and> manifest_from_dict (pget a ''promotion_manifest'') = Inr m
    \<and> manifest_backed H a m \<and> pm_paper_eligibility m
    \<and> (ay_reduce_only d \<longleftrightarrow> is_expired clk wall (pm_expiry_time_utc m) None \<or> is_expired clk wall (pm_expiry_time_utc m) now)
    \<and> (ay_reduce_only d \<longrightarrow> reduce)"
proof -
  obtain v where v: "validate_strategy_artifact H clk wall a = Inr v"
    using assms(1) by (auto simp: paper_authority_decision_def rbind_Inr_iff)
  show ?thesis
  proof (cases "av_passed v")
    case True
    then have "set (av_reasons v) \<subseteq> {''artifact_expired''}" using validation_reasons(1) [OF v] by simp
    from validation_reasons(2) [OF v this] obtain m where m: "sealed_and_sound H a"
        "manifest_from_dict (pget a ''promotion_manifest'') = Inr m" "manifest_backed H a m" "pm_paper_eligibility m"
        "\<not> is_expired clk wall (pm_expiry_time_utc m) None" using True by blast
    have "d = (if is_expired clk wall (pm_expiry_time_utc m) now then authority reduce True [''artifact_expired'']
               else authority True False [])"
      using assms(1) True by (auto simp: paper_authority_decision_def v m(2))
    then have "ay_reduce_only d \<longleftrightarrow> is_expired clk wall (pm_expiry_time_utc m) now" "ay_reduce_only d \<longrightarrow> reduce"
      using assms(2) by (simp_all add: authority_def split: if_splits)
    with m show ?thesis by blast
  next
    case False
    have "d = (if set (av_reasons v) = {''artifact_expired''} \<and> reduce then authority True True [''artifact_expired'']
               else authority False (set (av_reasons v) = {''artifact_expired''}) (av_reasons v))"
      using assms(1) False by (simp add: paper_authority_decision_def v Let_def)
    then have e: "set (av_reasons v) = {''artifact_expired''}" "reduce" "ay_reduce_only d"
      using assms(2) by (simp_all add: authority_def split: if_splits)
    then have "set (av_reasons v) \<subseteq> {''artifact_expired''}" by simp
    from validation_reasons(2) [OF v this] False e show ?thesis by blast
  qed
qed

text \<open>Authority to trade on paper needs an artifact that is complete, approved and sealed, whose manifest
  says it is eligible and repeats the digests, gates and limits computed from the artifact itself.
  Reductions alone are authorised exactly when the manifest has expired, by the wall clock or by the
  time of the market data, and only if reductions were all that was asked for.\<close>

lemma authority_needs_sealed_artifact:
  assumes "paper_authority_decision H clk wall a now reduce = Inr d" "ay_allowed d"
  shows "\<exists>m. sealed_and_sound H a \<and> manifest_from_dict (pget a ''promotion_manifest'') = Inr m
    \<and> manifest_backed H a m \<and> pm_paper_eligibility m
    \<and> (ay_reduce_only d \<longleftrightarrow> is_expired clk wall (pm_expiry_time_utc m) None \<or> is_expired clk wall (pm_expiry_time_utc m) now)
    \<and> (ay_reduce_only d \<longrightarrow> reduce)"
  using assms by (rule allowed_authority)

definition sample_artifact_payload :: "(string \<times> pyval) list" where
  "sample_artifact_payload =
     [(''artifact_id'', PStr ''a1''), (''venue'', PStr ''binance_usdm''), (''signal_timeframe'', PStr ''1h''),
      (''execution_timeframe'', PStr ''15m''), (''execution_model'', PStr ''binance_usdm_v3''),
      (''symbol_scope'', PList [PStr ''BTCUSDT'']), (''regime_scope'', PList [PStr ''trend'']),
      (''data_snapshot_ids'', PList [PStr ''s1'']), (''promotion_approved'', PBool True),
      (''validation_status'', PStr ''passed''), (''rollout_stage'', PStr ''paper''), (''expiry_time_utc'', PStr ''7'')]"

definition sample_artifact :: "(string \<times> pyval) list" where
  "sample_artifact = (case build_strategy_artifact zero_hash sample_artifact_payload of Inr a \<Rightarrow> a | _ \<Rightarrow> [])"

lemma sample_authority:
  "paper_authority_decision zero_hash digit_clock 3 sample_artifact (Some ''5'') False = Inr (authority True False [])"
  "paper_authority_decision zero_hash digit_clock 9 sample_artifact (Some ''5'') True = Inr (authority True True [''artifact_expired''])"
  by code_simp+

lemma authority_needs_sealed_artifact_witness:
  "\<exists>m. manifest_from_dict (pget sample_artifact ''promotion_manifest'') = Inr m \<and> manifest_backed zero_hash sample_artifact m
     \<and> is_expired digit_clock 9 (pm_expiry_time_utc m) None"
proof -
  have "\<not> is_expired digit_clock 9 ''7'' (Some ''5'')" by code_simp
  have a: "ay_allowed (authority True True [''artifact_expired''])" by (simp add: authority_def)
  from authority_needs_sealed_artifact [OF sample_authority(2) a] obtain m where
    m: "manifest_from_dict (pget sample_artifact ''promotion_manifest'') = Inr m" "manifest_backed zero_hash sample_artifact m"
      "is_expired digit_clock 9 (pm_expiry_time_utc m) None \<or> is_expired digit_clock 9 (pm_expiry_time_utc m) (Some ''5'')"
    by (auto simp: authority_def)
  have "(case manifest_from_dict (pget sample_artifact ''promotion_manifest'') of Inr m \<Rightarrow> pm_expiry_time_utc m = ''7'' | _ \<Rightarrow> False)"
    by code_simp
  then have "pm_expiry_time_utc m = ''7''" using m(1) by simp
  with m \<open>\<not> is_expired digit_clock 9 ''7'' (Some ''5'')\<close> show ?thesis by auto
qed

lemma py_eq_bools_same: "dict_ok d \<Longrightarrow> same_bools d d"
  by (simp add: same_bools_def py_eq_bools)

lemma built_gates_ok:
  assumes "manifest_gate_results a = Inr gates" "pget a ''gate_results'' = PNone"
  shows "dict_ok gates"
  using assms by (auto simp: manifest_gate_results_def Let_def gate_results_ok rbind_Inr_iff bool_dict_def json_object_def
      dict_ok_def [of "[_]"] split: if_splits)

lemma map_of_flag: "map_of (flag b kv) j = (if b \<and> j = fst kv then Some (snd kv) else None)"
  by (cases kv) (simp add: flag_def)

lemma map_of_at: "map_of (xs @ ys) j = (case map_of xs j of None \<Rightarrow> map_of ys j | Some v \<Rightarrow> Some v)"
  by (simp add: map_add_def split: option.split)

lemma normalized_fields:
  "pget (normalize_artifact_payload p) ''artifact_schema_version'' = PStr ''strategy-artifact-v1''"
  "pget (normalize_artifact_payload p) ''promotion_approved'' = PBool (truthy (pget p ''promotion_approved''))"
  "pget (normalize_artifact_payload p) ''gate_results'' = PNone"
  "map_of (normalize_artifact_payload p) ''promotion_manifest'' = map_of p ''promotion_manifest''"
  by (simp_all add: normalize_artifact_payload_def Let_def copied_fields_def pget_def map_of_at map_of_flag del: map_of_append
      split: option.split)

lemma built_approved:
  assumes "build_strategy_artifact H payload = Inr a"
    and "map_of payload ''promotion_manifest'' = None" "truthy (pget payload ''promotion_approved'')"
    and "pget a ''artifact_id'' = PStr i"
    and "py_eq (PDict (json_object (pget a ''risk_limits''))) (PDict (json_object (pget a ''risk_limits'')))"
  shows "\<exists>m. manifest_from_dict (pget a ''promotion_manifest'') = Inr m \<and> manifest_backed H a m
    \<and> (hashable (pget a ''validation_status'') \<longrightarrow> (\<exists>v. validate_strategy_artifact H clk wall a = Inr v))"
proof -
  define a1 where "a1 = (if truthy (pget (normalize_artifact_payload payload) ''artifact_id'') then normalize_artifact_payload payload
                else AList.update ''artifact_id'' (PStr (default_artifact_id H (normalize_artifact_payload payload)))
                  (normalize_artifact_payload payload))"
  have a1: "pget a1 ''promotion_approved'' = PBool True" "map_of a1 ''promotion_manifest'' = None"
      "pget a1 ''gate_results'' = PNone" "pget a1 ''artifact_schema_version'' = PStr ''strategy-artifact-v1''"
    using assms(2,3) by (simp_all add: a1_def normalized_fields)
  obtain m0 where m0: "build_promotion_manifest H a1 None = Inr m0" and
    a: "a = AList.update ''artifact_sha256'' (PStr (H (PDict (unsealed (AList.update ''promotion_manifest'' (manifest_to_dict m0) a1)))))
          (AList.update ''promotion_manifest'' (manifest_to_dict m0) a1)"
    using assms(1) a1(1,2) unfolding build_strategy_artifact_def Let_def a1_def [symmetric] by (auto simp: rbind_Inr_iff)
  have pg: "pget a k = pget a1 k" "pget_or a k w = pget_or a1 k w"
    if "k \<noteq> ''artifact_sha256''" "k \<noteq> ''promotion_manifest''" for k w using that by (simp_all add: a)
  have same: "manifest_gate_results a = manifest_gate_results a1" "strategy_graph_hash H a = strategy_graph_hash H a1"
      "validation_bundle_hash H a = validation_bundle_hash H a1" "text_field a ''artifact_id'' = text_field a1 ''artifact_id''"
    unfolding manifest_gate_results_def validation_current_def strategy_graph_hash_def validation_bundle_hash_def text_field_def
    by (simp_all add: pg cong: if_cong)
  obtain gates where g: "manifest_gate_results a1 = Inr gates" "pm_gate_results m0 = gates"
    using m0 by (auto simp: build_promotion_manifest_def rbind_Inr_iff Let_def)
  obtain m where m: "manifest_from_dict (manifest_to_dict m0) = Inr m" and
    eq: "pm_artifact_id m = pm_artifact_id m0" "pm_strategy_graph_hash m = pm_strategy_graph_hash m0"
      "pm_data_snapshot_hash m = pm_data_snapshot_hash m0" "pm_feature_contract_hash m = pm_feature_contract_hash m0"
      "pm_validation_bundle_hash m = pm_validation_bundle_hash m0" "pm_gate_results m = pm_gate_results m0"
      "pm_risk_limits m = pm_risk_limits m0"
    using manifest_roundtrip [of m0] by blast
  have fields: "pm_artifact_id m0 = text_field a1 ''artifact_id''" "pm_strategy_graph_hash m0 = strategy_graph_hash H a1"
      "pm_data_snapshot_hash m0 = H (pget_or a1 ''data_snapshot_ids'' (PList []))"
      "pm_feature_contract_hash m0 = (let c = pget a1 ''feature_contract_hash'' in
          if truthy c then py_str c else H (pget_or a1 ''feature_version'' (PStr [])))"
      "pm_validation_bundle_hash m0 = validation_bundle_hash H a1" "pm_risk_limits m0 = json_object (pget a1 ''risk_limits'')"
    using m0 unfolding build_promotion_manifest_def rbind_Inr_iff Let_def by fastforce+
  have "pget a1 ''artifact_id'' = PStr i" using assms(4) by (simp add: a)
  then have "text_field a1 ''artifact_id'' = i" by (auto simp: text_field_def pget_or_def pget_def split: option.splits)
  then have backed: "manifest_backed H a m"
    using assms(4,5) g built_gates_ok [OF g(1) a1(3)] unfolding manifest_backed_def eq fields same
    by (simp add: pg py_eq_bools_same cong: if_cong)
  have approved: "pget a ''promotion_approved'' = PBool True" "pget a ''promotion_manifest'' = manifest_to_dict m0"
      "pget a ''artifact_schema_version'' = PStr ''strategy-artifact-v1''"
    using a1 by (simp_all add: a)
  obtain expected where ex: "build_promotion_manifest H a (Some (pm_expiry_time_utc m)) = Inr expected"
    using g same by (simp add: build_promotion_manifest_def Let_def)
  let ?e = "is_expired clk wall (pm_expiry_time_utc m) None"
  let ?ms = "manifest_reasons a m expected ?e"
  have v: "validate_promotion_manifest H clk wall a (pget a ''promotion_manifest'') None = Inr (?ms = [], sorted_set ?ms)"
    by (simp add: validate_promotion_manifest_def approved m ex Let_def)
  have "\<exists>v. validate_strategy_artifact H clk wall a = Inr v" if "hashable (pget a ''validation_status'')"
    using that v by (simp add: validate_strategy_artifact_def approved Let_def hash_check_def)
  with m backed approved(2) show ?thesis by auto
qed

lemma built_artifact:
  assumes "build_strategy_artifact H payload = Inr a"
  shows "pget a ''artifact_sha256'' = PStr (H (PDict (unsealed a)))"
    "pget a ''promotion_approved'' = PBool (truthy (pget payload ''promotion_approved''))"
    "pget a ''artifact_schema_version'' = PStr ''strategy-artifact-v1''"
    "map_of payload ''promotion_manifest'' \<noteq> None \<or> \<not> truthy (pget payload ''promotion_approved'') \<Longrightarrow>
       map_of a ''promotion_manifest'' = map_of payload ''promotion_manifest''"
proof -
  define a1 where "a1 = (if truthy (pget (normalize_artifact_payload payload) ''artifact_id'') then normalize_artifact_payload payload
                else AList.update ''artifact_id'' (PStr (default_artifact_id H (normalize_artifact_payload payload)))
                  (normalize_artifact_payload payload))"
  have a1: "pget a1 ''promotion_approved'' = PBool (truthy (pget payload ''promotion_approved''))"
      "map_of a1 ''promotion_manifest'' = map_of payload ''promotion_manifest''"
      "pget a1 ''artifact_schema_version'' = PStr ''strategy-artifact-v1''"
    by (simp_all add: a1_def normalized_fields update_conv')
  obtain a2 where a2: "a = AList.update ''artifact_sha256'' (PStr (H (PDict (unsealed a2)))) a2"
    and "a2 = a1 \<or> (\<exists>m. a2 = AList.update ''promotion_manifest'' m a1
          \<and> pget a1 ''promotion_approved'' = PBool True \<and> map_of a1 ''promotion_manifest'' = None)"
    using assms unfolding build_strategy_artifact_def Let_def a1_def [symmetric]
    by (auto simp: rbind_Inr_iff split: if_splits)
  then show "pget a ''artifact_sha256'' = PStr (H (PDict (unsealed a)))"
    "pget a ''promotion_approved'' = PBool (truthy (pget payload ''promotion_approved''))"
    "pget a ''artifact_schema_version'' = PStr ''strategy-artifact-v1''"
    "map_of payload ''promotion_manifest'' \<noteq> None \<or> \<not> truthy (pget payload ''promotion_approved'') \<Longrightarrow>
       map_of a ''promotion_manifest'' = map_of payload ''promotion_manifest''"
    using a1 by (auto simp: unsealed_update update_conv')
qed

lemma passes_iff:
  assumes "validate_strategy_artifact H clk wall a = Inr v"
    and "pget a ''artifact_schema_version'' = PStr ''strategy-artifact-v1''"
  shows "av_passed v \<longleftrightarrow> sealed_and_sound H a
    \<and> (\<exists>m. manifest_from_dict (pget a ''promotion_manifest'') = Inr m \<and> manifest_backed H a m
          \<and> pm_paper_eligibility m \<and> \<not> is_expired clk wall (pm_expiry_time_utc m) None)"
    (is "_ \<longleftrightarrow> ?good")
proof
  assume pass: "av_passed v"
  then have "set (av_reasons v) \<subseteq> {''artifact_expired''}" using validation_reasons(1) [OF assms(1)] by simp
  from validation_reasons(2) [OF assms(1) this] pass show ?good by blast
next
  assume ?good
  then obtain m where s: "sealed_and_sound H a" and m: "manifest_from_dict (pget a ''promotion_manifest'') = Inr m"
    "manifest_backed H a m" "pm_paper_eligibility m" "\<not> is_expired clk wall (pm_expiry_time_utc m) None" by blast
  have own: "field_reasons a = []" "shape_reasons a = []" "checksum_reasons H a = []"
    using s by (auto simp: sealed_and_sound_def checksum_reasons_def Let_def)
  then have app: "pget a ''promotion_approved'' = PBool True" by (simp add: field_reasons_def)
  obtain gates where "manifest_gate_results a = Inr gates" using m(2) by (auto simp: manifest_backed_def)
  then obtain expected where ex: "build_promotion_manifest H a (Some (pm_expiry_time_utc m)) = Inr expected"
    by (simp add: build_promotion_manifest_def Let_def)
  let ?ms = "manifest_reasons a m expected (is_expired clk wall (pm_expiry_time_utc m) None)"
  obtain d where d: "pget a ''promotion_manifest'' = PDict d"
    using m(1) by (cases "pget a ''promotion_manifest''") (auto simp: manifest_from_dict_def)
  have "validate_promotion_manifest H clk wall a (pget a ''promotion_manifest'') None = Inr (?ms = [], sorted_set ?ms)"
    using m(1) ex by (simp add: validate_promotion_manifest_def d Let_def)
  moreover have "?ms = []"
  proof (rule only_that)
    show "set ?ms \<subseteq> {''artifact_expired''}" using manifest_reasons_iff [OF ex] m(2,3) by simp
    show "''artifact_expired'' \<notin> set ?ms" using m(4) by (simp add: manifest_reasons_expired)
  qed
  ultimately show "av_passed v"
    using assms own app by (auto simp: validate_strategy_artifact_def rbind_Inr_iff Let_def)
qed

text \<open>C34. Building and checking an artifact agree.  Every built artifact carries the checksum that its check
  recomputes, and the check passes it exactly when its fields and shapes are as demanded, approval
  included, and its manifest is readable, repeats what is computed from the artifact, says that it is
  eligible and has not expired.  If the payload is approved and brings no manifest of its own, the manifest
  that is built in repeats what is computed from the artifact, provided the artifact id is a text and the risk
  limits hold no NaN.  A manifest in the payload is kept as it is, however stale, and a payload that is
  not approved gets no manifest and never passes.\<close>

theorem built_artifact_validates:
  assumes "build_strategy_artifact H payload = Inr a"
  shows "pget a ''artifact_sha256'' = PStr (H (PDict (unsealed a)))
    \<and> (\<forall>v. validate_strategy_artifact H clk wall a = Inr v \<longrightarrow>
         (av_passed v \<longleftrightarrow> field_reasons a = [] \<and> shape_reasons a = []
            \<and> (\<exists>m. manifest_from_dict (pget a ''promotion_manifest'') = Inr m \<and> manifest_backed H a m
                  \<and> pm_paper_eligibility m \<and> \<not> is_expired clk wall (pm_expiry_time_utc m) None)))
    \<and> (map_of payload ''promotion_manifest'' = None \<and> truthy (pget payload ''promotion_approved'')
         \<and> (\<exists>i. pget a ''artifact_id'' = PStr i)
         \<and> py_eq (PDict (json_object (pget a ''risk_limits''))) (PDict (json_object (pget a ''risk_limits''))) \<longrightarrow>
         (\<exists>m. manifest_from_dict (pget a ''promotion_manifest'') = Inr m \<and> manifest_backed H a m)
         \<and> (hashable (pget a ''validation_status'') \<longrightarrow> (\<exists>v. validate_strategy_artifact H clk wall a = Inr v)))
    \<and> (map_of payload ''promotion_manifest'' \<noteq> None \<longrightarrow>
         map_of a ''promotion_manifest'' = map_of payload ''promotion_manifest'')
    \<and> (\<not> truthy (pget payload ''promotion_approved'') \<longrightarrow>
         map_of a ''promotion_manifest'' = map_of payload ''promotion_manifest''
         \<and> ''artifact_not_approved'' \<in> set (field_reasons a))"
proof -
  note b = built_artifact [OF assms]
  have seal: "sealed_and_sound H a \<longleftrightarrow> field_reasons a = [] \<and> shape_reasons a = []"
    using b(1) by (auto simp: sealed_and_sound_def text_field_def pget_or_def pget_def split: option.splits)
  have refused: "\<not> truthy (pget payload ''promotion_approved'') \<Longrightarrow> ''artifact_not_approved'' \<in> set (field_reasons a)"
    using b(2) by (simp add: field_reasons_def mem_flag)
  show ?thesis
    using b refused passes_iff [OF _ b(3), of H clk wall] built_approved [OF assms, of _ clk wall] unfolding seal by blast
qed

lemma sample_built: "build_strategy_artifact zero_hash sample_artifact_payload = Inr sample_artifact"
proof -
  have "(case build_strategy_artifact zero_hash sample_artifact_payload of Inr a \<Rightarrow> True | _ \<Rightarrow> False)" by code_simp
  then show ?thesis unfolding sample_artifact_def by (auto split: sum.splits)
qed

theorem built_artifact_validates_witness:
  "\<exists>v m. validate_strategy_artifact zero_hash digit_clock 3 sample_artifact = Inr v
     \<and> manifest_from_dict (pget sample_artifact ''promotion_manifest'') = Inr m \<and> manifest_backed zero_hash sample_artifact m
     \<and> pget sample_artifact ''artifact_sha256'' = PStr (zero_hash (PDict (unsealed sample_artifact)))"
proof -
  have p: "map_of sample_artifact_payload ''promotion_manifest'' = None"
      "truthy (pget sample_artifact_payload ''promotion_approved'')"
    by (simp_all add: sample_artifact_payload_def)
  have a: "pget sample_artifact ''artifact_id'' = PStr ''a1''" "pget sample_artifact ''validation_status'' = PStr ''passed''"
      "json_object (pget sample_artifact ''risk_limits'') = []"
    by code_simp+
  have h: "hashable (pget sample_artifact ''validation_status'')" unfolding a by simp
  have r: "py_eq (PDict (json_object (pget sample_artifact ''risk_limits''))) (PDict (json_object (pget sample_artifact ''risk_limits'')))"
    unfolding a by simp
  from built_artifact_validates [OF sample_built, of digit_clock 3] p a(1) h r show ?thesis by blast
qed

end
