(* ===== verification/PaperExecutor.thy ===== *)
theory PaperExecutor
  imports Artifacts Translator
begin

text \<open>
  The paper executor (\<open>execution/paper.py\<close>): the fill model for passive and crossing orders, the run
  of a batch of order intents under the authority of an artifact, and the tables its result is
  recorded in.  Amounts are floats, as their type annotations say; depth levels are untyped values.
\<close>

section \<open>Intents, snapshots and cost models\<close>


record paper_market_snapshot =
  ps_ts :: string
  ps_symbol :: string
  ps_bid :: pyfloat
  ps_ask :: pyfloat
  ps_last_trade_price :: pyfloat
  ps_traded_qty_at_price :: pyfloat
  ps_canceled_ahead_qty :: pyfloat
  ps_depth_ahead_qty :: pyfloat
  ps_visible_depth_qty :: pyfloat
  ps_topn_depth_qty :: pyfloat
  ps_volatility_1m :: pyfloat
  ps_volatility_15m :: pyfloat
  ps_funding_rate :: pyfloat
  ps_bid_depth_levels :: pyval
  ps_ask_depth_levels :: pyval
  ps_adverse_price_after_fill :: "pyfloat option"
  ps_funding_time :: "string option"




section \<open>The fill model\<close>









text \<open>The loop of \<open>_walk_depth\<close>: what remains to fill, what was filled and its value.\<close>

fun walk_levels :: "(pyfloat \<times> pyfloat) list \<Rightarrow> pyfloat \<Rightarrow> pyfloat \<Rightarrow> pyfloat \<Rightarrow> pyfloat \<times> pyfloat" where
  "walk_levels [] remaining got notional = (got, notional)"
| "walk_levels ((price, available) # levels) remaining got notional =
     (if fle remaining (Fin 0) then (got, notional)
      else let take_qty = fmin remaining available
           in walk_levels levels (fsub remaining take_qty) (fadd got take_qty) (fadd notional (fmul take_qty price)))"

definition walk_depth :: "(pyfloat \<times> pyfloat) list \<Rightarrow> pyfloat \<Rightarrow> pyfloat \<times> pyfloat" where
  "walk_depth levels order_qty =
     (let (got, notional) = walk_levels levels (fmax (Fin 0) order_qty) (Fin 0) (Fin 0)
      in if fle got (Fin 0) then (Fin 0, (case levels of [] \<Rightarrow> Fin 0 | l # ls \<Rightarrow> fst l))
         else (round_nd 12 got, round_nd 12 (fquot notional got)))"









section \<open>The cost model of an artifact\<close>





section \<open>Telemetry\<close>








section \<open>Running a batch of orders\<close>









section \<open>Recording the result\<close>









section \<open>What a run is allowed to do\<close>

lemma intent_create_fields [simp]:
  "oi_side (intent_create H i) = str_upper (oi_side i)"
  "oi_symbol (intent_create H i) = oi_symbol i"
  "oi_reduce_only_required (intent_create H i) = oi_reduce_only_required i"
  by (simp_all add: intent_create_def Let_def)








section \<open>What a later session leaves of an earlier one\<close>








section \<open>The walk through the depth is exact on whole amounts\<close>

text \<open>What buying a quantity level by level costs, without rounding.\<close>

fun depth_cost :: "(int \<times> int) list \<Rightarrow> int \<Rightarrow> int" where
  "depth_cost [] q = 0"
| "depth_cost ((p, a) # ls) q = (let t = min q a in t * p + depth_cost ls (q - t))"

definition depth_total :: "(int \<times> int) list \<Rightarrow> int" where
  "depth_total ls = sum_list (map snd ls)"

definition depth_value :: "(int \<times> int) list \<Rightarrow> int" where
  "depth_value ls = sum_list (map (\<lambda>(p, a). p * a) ls)"

definition float_levels :: "(int \<times> int) list \<Rightarrow> (pyfloat \<times> pyfloat) list" where
  "float_levels ls = map (\<lambda>(p, a). (Fin (of_int p), Fin (of_int a))) ls"

definition proper_levels :: "(int \<times> int) list \<Rightarrow> bool" where
  "proper_levels ls \<longleftrightarrow> (\<forall>(p, a) \<in> set ls. 0 < p \<and> 0 < a)"

lemma depth_sums_nonneg: "proper_levels ls \<Longrightarrow> 0 \<le> depth_total ls \<and> 0 \<le> depth_value ls"
  by (induction ls) (auto simp: proper_levels_def depth_total_def depth_value_def)

lemma depth_cost_zero: "proper_levels ls \<Longrightarrow> depth_cost ls 0 = 0"
  by (induction ls) (auto simp: proper_levels_def Let_def)

lemma depth_cost_bounds:
  assumes "proper_levels ls" "0 \<le> q"
  shows "0 \<le> depth_cost ls q \<and> depth_cost ls q \<le> depth_value ls"
  using assms
proof (induction ls arbitrary: q)
  case (Cons l ls)
  obtain p a where l: "l = (p, a)" by (cases l)
  with Cons.prems have pa: "0 < p" "0 < a" "proper_levels ls" by (auto simp: proper_levels_def)
  have "min q a * p \<le> p * a" using pa by (simp add: mult.commute mult_right_mono)
  moreover have "0 \<le> min q a * p" using pa Cons.prems by simp
  moreover have "0 \<le> depth_cost ls (q - min q a) \<and> depth_cost ls (q - min q a) \<le> depth_value ls"
    using Cons.IH [OF pa(3), of "q - min q a"] by simp
  ultimately show ?case by (simp add: l Let_def depth_value_def)
qed (simp add: depth_value_def)

lemma depth_cost_average:
  assumes "proper_levels ls" "0 \<le> q" "\<forall>(p, a) \<in> set ls. lo \<le> p \<and> p \<le> hi"
  shows "lo * min q (depth_total ls) \<le> depth_cost ls q \<and> depth_cost ls q \<le> hi * min q (depth_total ls)"
  using assms
proof (induction ls arbitrary: q)
  case (Cons l ls)
  obtain p a where l: "l = (p, a)" by (cases l)
  with Cons.prems have pa: "0 < p" "0 < a" "proper_levels ls" "lo \<le> p" "p \<le> hi" "\<forall>(p, a) \<in> set ls. lo \<le> p \<and> p \<le> hi"
    by (auto simp: proper_levels_def)
  let ?t = "min q a"
  have t: "0 \<le> ?t" using pa Cons.prems by simp
  have "min q (depth_total (l # ls)) = ?t + min (q - ?t) (depth_total ls)"
    using depth_sums_nonneg [OF pa(3)] by (auto simp: l depth_total_def min_def)
  moreover have "lo * ?t \<le> p * ?t" "p * ?t \<le> hi * ?t" using pa(4,5) t by (intro mult_right_mono; simp)+
  moreover have "lo * min (q - ?t) (depth_total ls) \<le> depth_cost ls (q - ?t)
      \<and> depth_cost ls (q - ?t) \<le> hi * min (q - ?t) (depth_total ls)"
    using Cons.IH [OF pa(3) _ pa(6), of "q - ?t"] by simp
  ultimately show ?case by (simp add: l Let_def distrib_left mult.commute [of ?t])
qed (simp add: depth_total_def)

lemma fadd_whole: "\<bar>a + b\<bar> \<le> 2 ^ 53 \<Longrightarrow> fadd (Fin (of_int a)) (Fin (of_int b)) = Fin (of_int (a + b))"
  using fl_of_int [of "a + b"] by simp

lemma fsub_whole: "\<bar>a - b\<bar> \<le> 2 ^ 53 \<Longrightarrow> fsub (Fin (of_int a)) (Fin (of_int b)) = Fin (of_int (a - b))"
  using fl_of_int [of "a - b"] by (simp add: fsub_def)

lemma fmul_whole: "\<bar>a * b\<bar> \<le> 2 ^ 53 \<Longrightarrow> fmul (Fin (of_int a)) (Fin (of_int b)) = Fin (of_int (a * b))"
  using fl_of_int [of "a * b"] by simp

lemma walk_levels_exact:
  assumes "proper_levels ls" "0 \<le> q" "q \<le> 2 ^ 53" "0 \<le> g" "g + q \<le> 2 ^ 53" "0 \<le> c" "c + depth_value ls \<le> 2 ^ 53"
  shows "walk_levels (float_levels ls) (Fin (of_int q)) (Fin (of_int g)) (Fin (of_int c)) =
     (Fin (of_int (g + min q (depth_total ls))), Fin (of_int (c + depth_cost ls q)))"
  using assms
proof (induction ls arbitrary: q g c)
  case Nil
  then show ?case by (simp add: float_levels_def depth_total_def)
next
  case (Cons l ls)
  obtain p a where l: "l = (p, a)" by (cases l)
  with Cons.prems have pa: "0 < p" "0 < a" "proper_levels ls" by (auto simp: proper_levels_def)
  have tot: "0 \<le> depth_total ls" "0 \<le> depth_value ls" using depth_sums_nonneg [OF pa(3)] by simp_all
  have dv: "depth_value (l # ls) = p * a + depth_value ls" "depth_total (l # ls) = a + depth_total ls"
    by (simp_all add: l depth_value_def depth_total_def)
  show ?case
  proof (cases "q = 0")
    case True
    then show ?thesis using tot pa depth_cost_zero [OF Cons.prems(1)] dv by (simp add: l float_levels_def)
  next
    case False
    let ?t = "min q a"
    have t: "0 < ?t" "?t \<le> q" "?t \<le> a" using False pa Cons.prems by auto
    have tp: "?t * p \<le> p * a" "0 \<le> ?t * p" using t pa by (simp_all add: mult.commute mult_right_mono)
    have m: "fmin (Fin (of_int q)) (Fin (of_int a)) = Fin (of_int ?t)" by (simp add: fmin_def min_def)
    have ex: "fsub (Fin (of_int q)) (Fin (of_int ?t)) = Fin (of_int (q - ?t))"
        "fadd (Fin (of_int g)) (Fin (of_int ?t)) = Fin (of_int (g + ?t))"
        "fmul (Fin (of_int ?t)) (Fin (of_int p)) = Fin (of_int (?t * p))"
        "fadd (Fin (of_int c)) (Fin (of_int (?t * p))) = Fin (of_int (c + ?t * p))"
    proof -
      have b: "\<bar>q - ?t\<bar> \<le> 2 ^ 53" "\<bar>g + ?t\<bar> \<le> 2 ^ 53" "\<bar>?t * p\<bar> \<le> 2 ^ 53" "\<bar>c + ?t * p\<bar> \<le> 2 ^ 53"
        using t tp tot Cons.prems(3-7) unfolding dv by linarith+
      show "fsub (Fin (of_int q)) (Fin (of_int ?t)) = Fin (of_int (q - ?t))" using b(1) by (rule fsub_whole)
      show "fadd (Fin (of_int g)) (Fin (of_int ?t)) = Fin (of_int (g + ?t))" using b(2) by (rule fadd_whole)
      show "fmul (Fin (of_int ?t)) (Fin (of_int p)) = Fin (of_int (?t * p))" using b(3) by (rule fmul_whole)
      show "fadd (Fin (of_int c)) (Fin (of_int (?t * p))) = Fin (of_int (c + ?t * p))" using b(4) by (rule fadd_whole)
    qed
    have "walk_levels (float_levels (l # ls)) (Fin (of_int q)) (Fin (of_int g)) (Fin (of_int c)) =
        walk_levels (float_levels ls) (Fin (of_int (q - ?t))) (Fin (of_int (g + ?t))) (Fin (of_int (c + ?t * p)))"
      using False Cons.prems(2) unfolding float_levels_def l by (simp del: of_int_diff of_int_add of_int_mult fadd.simps fmul.simps add: m ex Let_def)
    also have "\<dots> = (Fin (of_int (g + ?t + min (q - ?t) (depth_total ls))), Fin (of_int (c + ?t * p + depth_cost ls (q - ?t))))"
      using t tp tot dv Cons.prems by (intro Cons.IH [OF pa(3)]) auto
    also have "g + ?t + min (q - ?t) (depth_total ls) = g + min q (depth_total (l # ls))" using tot dv by auto
    finally show ?thesis by (simp add: l Let_def add.assoc)
  qed
qed

text \<open>C32. On whole amounts that binary64 holds exactly a crossing order fills exactly what the book offers, up to
  its size, and pays exactly what buying level by level costs: the volume-weighted price is that cost
  over the quantity, rounded once and then to twelve decimals, and the cost lies between the lowest and
  the highest price of the levels per unit.\<close>

theorem depth_walk_is_exact:
  assumes "proper_levels ls" "ls \<noteq> []" "0 < q" "q \<le> 2 ^ 53" "depth_value ls \<le> 2 ^ 53"
  shows "walk_depth (float_levels ls) (Fin (of_int q)) =
      (Fin (of_int (min q (depth_total ls))),
       round_nd 12 (fl (of_int (depth_cost ls q) / of_int (min q (depth_total ls)))))
    \<and> (\<forall>lo hi. (\<forall>(p, a) \<in> set ls. lo \<le> p \<and> p \<le> hi) \<longrightarrow>
        lo * min q (depth_total ls) \<le> depth_cost ls q \<and> depth_cost ls q \<le> hi * min q (depth_total ls))"
proof -
  let ?g = "min q (depth_total ls)"
  have "0 < depth_total ls"
  proof (cases ls)
    case (Cons l ls')
    then show ?thesis using assms(1) depth_sums_nonneg [of ls']
      by (cases l) (auto simp: proper_levels_def depth_total_def)
  qed (use assms in simp)
  with assms(3,4) have g: "0 < ?g" "?g \<le> 2 ^ 53" by auto
  have "walk_levels (float_levels ls) (Fin (of_int q)) (Fin (of_int 0)) (Fin (of_int 0)) =
      (Fin (of_int (0 + ?g)), Fin (of_int (0 + depth_cost ls q)))"
    using assms by (intro walk_levels_exact) simp_all
  then have w: "walk_levels (float_levels ls) (Fin (of_int q)) (Fin 0) (Fin 0) = (Fin (of_int ?g), Fin (of_int (depth_cost ls q)))"
    by simp
  have "fmax (Fin 0) (Fin (of_int q)) = Fin (of_int q)" using assms(3) by (simp add: fmax_def)
  then have "walk_depth (float_levels ls) (Fin (of_int q)) =
      (round_nd 12 (Fin (of_int ?g)), round_nd 12 (fquot (Fin (of_int (depth_cost ls q))) (Fin (of_int ?g))))"
    using g(1) unfolding walk_depth_def by (simp add: w del: of_int_min round_nd.simps fquot.simps min_less_iff_conj)
  then have "walk_depth (float_levels ls) (Fin (of_int q)) =
      (Fin (of_int ?g), round_nd 12 (fl (of_int (depth_cost ls q) / of_int ?g)))"
    using g round_nd_whole [of ?g 12] by (simp del: of_int_min)
  moreover have "\<forall>lo hi. (\<forall>(p, a) \<in> set ls. lo \<le> p \<and> p \<le> hi) \<longrightarrow>
        lo * ?g \<le> depth_cost ls q \<and> depth_cost ls q \<le> hi * ?g"
    using depth_cost_average [OF assms(1)] assms(3) by (meson less_imp_le)
  ultimately show ?thesis by blast
qed

theorem depth_walk_is_exact_witness:
  "walk_depth (float_levels [(100, 2), (101, 5)]) (Fin (of_int 3)) = (Fin 3, round_nd 12 (fl (301 / 3)))"
  using depth_walk_is_exact [of "[(100, 2), (101, 5)]" 3]
  by (simp add: proper_levels_def depth_total_def depth_value_def)

end
