(* ===== verification/PaperLoop.thy ===== *)
theory PaperLoop
  imports Allocator Reconcile PaperExecutor
begin

text \<open>
  One tick of the paper portfolio loop (\<open>portfolio/paper_loop.py\<close>): the artifacts of a session become
  candidates with guards from their paper telemetry, the allocator plans, the plan becomes targets and
  an order plan against the current exposure, and the decision is journalled.  The tables are those of
  the paper executor and the allocator; the session's artifacts come as joined rows.  SQLite's \<open>SUM\<close>,
  the digests and the clock are parameters; a stored JSON text is the value it parses to.
\<close>

section \<open>Input\<close>


record loop_input =
  li_constraints :: "(string \<times> pyval) list"
  li_active_regimes :: "(string, string) dict"
  li_interval_seconds :: int
  li_min_calibration_samples :: int
  li_max_paper_slip_bps :: pyfloat

definition build_paper_portfolio_loop_input :: "pyval \<Rightarrow> loop_input result" where
  "build_paper_portfolio_loop_input v =
     (case v of
        PDict payload \<Rightarrow>
          (case pget payload ''constraints'' of
             PDict constraints \<Rightarrow>
               (case pget payload ''active_regimes'' of
                  PDict regimes \<Rightarrow>
                    rbind (py_int (pget_or payload ''interval_seconds'' (PInt 900))) (\<lambda>interval.
                    rbind (py_int (pget_or payload ''min_calibration_samples'' (PInt 10))) (\<lambda>samples.
                    rbind (py_float (pget_or payload ''max_paper_slip_bps'' (PFloat (Fin 25)))) (\<lambda>slip.
                      Inr \<lparr>li_constraints = constraints, li_active_regimes = map (\<lambda>(k, r). (k, py_str r)) regimes,
                           li_interval_seconds = interval, li_min_calibration_samples = samples, li_max_paper_slip_bps = slip\<rparr>)))
                | _ \<Rightarrow> Inl (ValueError ''paper portfolio loop input requires active_regimes object''))
           | _ \<Rightarrow> Inl (ValueError ''paper portfolio loop input requires constraints object''))
      | _ \<Rightarrow> Inl (ValueError ''paper portfolio loop input must be a JSON object''))"



section \<open>Telemetry and exposure\<close>






definition list_min :: "pyfloat list \<Rightarrow> pyfloat" where
  "list_min xs = (case xs of [] \<Rightarrow> NaN | y # ys \<Rightarrow> foldl fmin y ys)"

definition resize_target_for_current_exposure ::
    "pyfloat \<Rightarrow> string list \<Rightarrow> portfolio_constraints \<Rightarrow> (string, pyfloat) dict \<Rightarrow> pyfloat" where
  "resize_target_for_current_exposure target scope co exposure =
     (if scope = [] then target
      else
        let n = Fin (of_nat (length scope)); per_symbol_target = fquot target n;
            allowed = map (\<lambda>sy. fmax (Fin 0) (fsub (co_max_per_symbol_exposure co) (dget exposure sy (Fin 0)))) scope;
            max_target = fmul (list_min allowed) n
        in if fle per_symbol_target (list_min allowed) then target
           else round_nd 8 (fmin target max_target))"

section \<open>Candidates\<close>










section \<open>The tick\<close>











section \<open>Only calibrated artifacts are allocated\<close>











section \<open>Headroom taken for a target\<close>

text \<open>C10. The loop counts the current exposure twice.  It shrinks a symbol's target to the headroom that the
  limit leaves beside the current exposure, and the order plan then subtracts the current exposure once
  more: on whole amounts the position ends at the smaller of the target and the headroom, not of the
  target and the limit.  A position that has reached its limit is sold completely, although its target
  does not exceed the limit.\<close>

theorem headroom_is_taken_for_the_target:
  assumes "co_max_per_symbol_exposure co = Fin (of_int m)" "0 \<le> c" "c \<le> m" "m \<le> 2 ^ 52" "0 \<le> target" "target \<le> 2 ^ 52"
    and "sy_symbol t = s"
    and "sy_target_notional t = resize_target_for_current_exposure (Fin (of_int target)) [s] co [(s, Fin (of_int c))]"
  shows "fadd (Fin (of_int c)) (planned_delta (build_delta_order_plan H pid [(s, Fin (of_int c))] [t] f sl fu) s)
       = Fin (of_int (min target (m - c)))"
proof -
  have q: "fquot (Fin (of_int target)) (Fin 1) = Fin (of_int target)" using assms fl_of_int [of target] by simp
  have d: "fsub (Fin (of_int m)) (Fin (of_int c)) = Fin (of_int (m - c))"
    using fl_of_int [of "m - c"] assms by (simp add: fsub_def)
  have p: "fmul (Fin (of_int (m - c))) (Fin 1) = Fin (of_int (m - c))" using fl_of_int [of "m - c"] assms by simp
  have mx: "fmax (Fin 0) (Fin (of_int (m - c))) = Fin (of_int (m - c))" using assms by (simp add: fmax_def)
  have r: "resize_target_for_current_exposure (Fin (of_int target)) [s] co [(s, Fin (of_int c))] = Fin (of_int (min target (m - c)))"
  proof (cases "target \<le> m - c")
    case True
    then have "(of_int target :: rat) \<le> of_int (m - c)" by (simp only: of_int_le_iff)
    with True show ?thesis
      by (simp add: resize_target_for_current_exposure_def Let_def list_min_def dget_def assms(1) d mx q del: of_int_diff fquot.simps)
  next
    case False
    then have l: "(of_int (m - c) :: rat) < of_int target" by (simp only: of_int_less_iff)
    then have "fmin (Fin (of_int target)) (Fin (of_int (m - c))) = Fin (of_int (m - c))" by (simp add: fmin_def del: of_int_diff)
    with False l round_nd_whole [of "m - c" 8] assms show ?thesis
      by (simp add: resize_target_for_current_exposure_def Let_def list_min_def dget_def d mx q p
          del: of_int_diff fquot.simps fmul.simps round_nd.simps)
  qed
  then have w: "sy_target_notional t = Fin (of_int (min target (m - c)))" using assms(8) by simp
  then have n: "whole_notional t = min target (m - c)" by simp
  have "symbol_total [t] s = min target (m - c)" using assms(7) n by (simp add: symbol_total_def)
  moreover have "fadd (dget [(s, Fin (of_int c))] s (Fin 0)) (planned_delta (build_delta_order_plan H pid [(s, Fin (of_int c))] [t] f sl fu) s)
      = Fin (of_int (symbol_total [t] s))"
    using plan_reaches_targets [of "[t]" "[(s, Fin (of_int c))]" s c H pid f sl fu] w n assms
    by (simp add: dget_def del: whole_notional.simps)
  ultimately show ?thesis by (simp add: dget_def)
qed

theorem headroom_is_taken_for_the_target_witness:
  "fadd (Fin 1000) (planned_delta (build_delta_order_plan zero_hash ''p'' [(''BTCUSDT'', Fin 1000)]
      [sample_target\<lparr>sy_symbol := ''BTCUSDT'', sy_target_notional := resize_target_for_current_exposure (Fin 1000) [''BTCUSDT'']
         (sample_constraints\<lparr>co_max_per_symbol_exposure := Fin 1000\<rparr>) [(''BTCUSDT'', Fin 1000)]\<rparr>]
      (Fin 0) (Fin 0) (Fin 0)) ''BTCUSDT'') = Fin 0"
  using headroom_is_taken_for_the_target [of "sample_constraints\<lparr>co_max_per_symbol_exposure := Fin 1000\<rparr>" 1000 1000 1000
      "sample_target\<lparr>sy_symbol := ''BTCUSDT'', sy_target_notional := resize_target_for_current_exposure (Fin 1000) [''BTCUSDT'']
         (sample_constraints\<lparr>co_max_per_symbol_exposure := Fin 1000\<rparr>) [(''BTCUSDT'', Fin 1000)]\<rparr>" "''BTCUSDT''" zero_hash "''p''"
      "Fin 0" "Fin 0" "Fin 0"]
  by (simp del: round_nd.simps)









end
