(* ===== verification/Spec2Isabelle.thy ===== *)
theory Spec2Isabelle
  imports Ledger RiskControls Translator Tca Reconcile Governance StrategyDsl Learning Universe Ops BatchSimulator Protocol Streams NoKeyExecutor
    TimeGuards Features AgentControls UsdmOrder PaperLoop
begin

text \<open>
  A model of the core of ProofAlpha (\<open>src/src/engine\<close>, Python): an engine that searches trading
  strategies under a bounded specification, validates them, and executes accepted ones on a
  perpetual futures venue behind deterministic controls.  Every definition follows one function,
  class or block of the code and keeps its name where Isabelle allows it; file names below are
  relative to \<open>src/src/engine\<close>.

  \<^bold>\<open>How the parts interact.\<close>  A strategy is proposed as a specification (\<open>StrategyDsl\<close>), searched layer
  by layer on backtests (\<open>Optimizer\<close>, \<open>Simulator\<close>, \<open>BatchSimulator\<close>, \<open>Market\<close>), validated on splits of the
  data (\<open>Splits\<close>, \<open>Statistics\<close>, \<open>Gates\<close>, \<open>Protocol\<close>) and kept in a catalog with its state
  (\<open>Strategy\<close>).  Accepted strategies become candidates that the allocator admits into a portfolio
  plan (\<open>Allocator\<close>); weights become targets, a risk budget is checked and the difference to the
  current positions becomes order deltas (\<open>Targets\<close>).  A delta becomes an intent with a deterministic
  client id (\<open>OrderIntent\<close>), passes the executor's checks (\<open>RiskControls\<close>), is registered as an order
  (\<open>OrderManager\<close> over the transition table \<open>OrderState\<close>) and is translated to the venue's request
  under the exchange's rules (\<open>Translator\<close>, \<open>ExchangeRules\<close>).  Fills come back as user stream events
  (\<open>Tca\<close>), are booked in the ledger (\<open>Ledger\<close>) and in the hash-chained event store (\<open>EventStore\<close>), from
  which all projections are rebuilt and reconciled with the gateway (\<open>Reconcile\<close>).  Around this stand
  the lifecycle policy of deployed artifacts (\<open>Governance\<close>), the model registry (\<open>Learning\<close>), the symbol
  universe (\<open>Universe\<close>) and the operational guards (\<open>Ops\<close>).

  \<^bold>\<open>Ground layer.\<close>
  \<^item> \<open>Prelude\<close>: \<open>pyerr\<close> and \<open>result\<close> (a raised exception is the left injection of a sum), \<open>rbind\<close>, \<open>rmap\<close>,
    \<open>rfold\<close> (sequencing, a loop over a list with an exception), dictionaries as association lists
    in insertion order, 8-bit character strings with \<open>lower\<close>, \<open>strip\<close> and friends.
  \<^item> \<open>PyFloat\<close>, \<open>PyMath\<close>: binary64 with rounding to nearest even written out over the rationals; NaN,
    infinities, Python's \<open>min\<close>, \<open>max\<close>, \<open>sum\<close>, \<open>round\<close>, \<open>sqrt\<close>.  Zero has no sign.  \<open>math.sqrt\<close> is exact by
    an integer square root scaled to 700 bits, more than the 537 + 54 bits the root of the
    smallest binary64 value needs.
  \<^item> \<open>PyDecimal\<close>: decimals in the default context of 28 digits.  \<open>PyVal\<close>, \<open>PyText\<close>: dynamically typed
    values, \<open>str\<close>, \<open>float(...)\<close>, \<open>int(...)\<close>, \<open>repr\<close>, and \<open>PyTime\<close>: instants in microseconds and their texts; the shortest repr is searched with at most 17 digits,
    which always suffice for binary64 (the bound is the fuel of the search).
  \<^item> \<open>Contracts\<close>: the interfaces several components share, as locales, each interpreted on the model in
    the theory of its provider: a gate of named checks (\<open>RiskControls\<close>, \<open>Governance\<close>, \<open>Ops\<close>, \<open>Universe\<close>), a
    machine with terminal states (\<open>OrderState\<close>, \<open>Strategy\<close>), one whose live states can still end, a log with
    duplicates (\<open>Ledger\<close>).

  \<^bold>\<open>Components and what their lemmas show.\<close>
  \<^item> \<open>OrderState\<close>, \<open>OrderIntent\<close>, \<open>OrderManager\<close> (\<open>execution/order_state.py\<close>, \<open>order_intent.py\<close>, \<open>idempotency.py\<close>,
    \<open>order_manager.py\<close>): terminal states are frozen, histories are walks of the table, nothing is
    submitted without approval and translation, an accepted intent is refused ever after.
  \<^item> \<open>RiskControls\<close> (\<open>execution/risk_state.py\<close>, \<open>circuit_breakers.py\<close>, \<open>pretrade_checks.py\<close>, \<open>liquidation_guard.py\<close>
    and the executor's managers): an action is approved exactly when all fifteen checks pass and its
    risk state permits it; the guard is total.
  \<^item> \<open>ExchangeRules\<close>, \<open>Translator\<close> (\<open>data/exchange_rules_cache.py\<close>, \<open>execution/venue_translator/\<close>): a passed
    translation is tradable, lies on the venue's grid and is a valid request.
  \<^item> \<open>Ledger\<close> (\<open>execution/ledger.py\<close>, \<open>state_projection.py\<close>, \<open>reconciliation_repair.py\<close>): the float projection
    equals the exact double entry on integer amounts; repair actions match the issues.
  \<^item> \<open>EventStore\<close>, \<open>Reconcile\<close> (\<open>memory/store.py\<close>, \<open>execution/reconciliation.py\<close>): the event chain is tamper
    evident, the live tables agree with the fills of the log, the rebuilt projections are a
    function of the log, a match means that every gateway fact is known locally.
  \<^item> \<open>Targets\<close>, \<open>Allocator\<close> (\<open>portfolio/\<close>): planned deltas reach the targets, exactly for
    whole notionals and up to eight digits otherwise; plans respect their limits as long as no scope
    repeats a symbol.
  \<^item> \<open>Governance\<close>, \<open>Learning\<close>, \<open>Universe\<close>, \<open>Ops\<close>: decision tables are complete and prioritised, an executor
    model was approved, a secrets scan reports exactly the secret fields (of a finite tree; a value that
    contains itself and Python's recursion limit are not modelled).
  \<^item> \<open>Optimizer\<close>, \<open>Strategy\<close>, \<open>StrategyDsl\<close> (\<open>optimizer/\<close>, \<open>strategy/\<close>): grids are complete and bounded, the
    pipeline keeps accepted layers only, the normal form of a passed specification is bounded and stable
    when no part is missing.
  \<^item> \<open>Market\<close>, \<open>Simulator\<close> (\<open>backtest/\<close>, \<open>validation/regimes.py\<close>): the books of a simulation balance, its
    equity has no look-ahead with flat slippage and without latency, funding is counted once per
    settlement.
  \<^item> \<open>BatchSimulator\<close> (\<open>backtest/simulator_numba.py\<close>): the compiled kernel's source, the Python reference
    and the batch around them; both give the same results under flat slippage where their liquidation
    step rules agree, and a kernel that fails midway shifts the results.
  \<^item> \<open>Splits\<close>, \<open>Statistics\<close>, \<open>Gates\<close>, \<open>Protocol\<close> (\<open>validation/\<close>, \<open>data/snapshots.py\<close>): the splits partition a
    snapshot, the statistics are what their names say, a run is accepted exactly if it passes its enforced gates,
    and the later stages only tighten the verdict.
  \<^item> \<open>Streams\<close> (\<open>execution/paper_streams.py\<close>): recorded market events, the order book builder and the
    replay of a session; a rebuilt book is its snapshot plus a gapless run of updates, and the
    counters of a replay fit its events.
  \<^item> \<open>NoKeyExecutor\<close> (\<open>execution/no_key_executor.py\<close>): the fake gateway and the chaos scenarios over the
    event store; every scenario fills its order once or not at all.

  \<^item> \<open>TimeGuards\<close> (\<open>execution/cancel_replace_manager.py\<close>, \<open>funding_guard.py\<close>, \<open>portfolio/rebalance_policy.py\<close>): an
    obedient client never exceeds the budget for amends, of an order or in all.
  \<^item> \<open>Features\<close> (\<open>features/\<close>, \<open>data/feature_availability_matrix.py\<close>, \<open>symbol_data_health.py\<close>): the view execution
    gets holds only contracted, fresh, non-forecast values; a passed audit has no look-ahead.
  \<^item> \<open>Forecasting\<close> (\<open>forecasting/\<close>): the time-to-live of a forecast, its embargo, its gate against the
    baselines and its model card; one locale shows that every appended stage only tightens.
  \<^item> \<open>AgentControls\<close> (\<open>agent/\<close>, \<open>artifacts/\<close>): the agent's actions and tools exclude trading, and every change
    of a strategy's parts is documented by a valid record.
  \<^item> \<open>Artifacts\<close> (\<open>strategy/artifacts.py\<close>): the deployable artifact, its promotion manifest, checksum and paper
    authority, and the rollout stages; building and checking agree, the stages are climbed one by one.
  \<^item> \<open>PaperExecutor\<close> (\<open>execution/paper.py\<close>): the fill model and the run of an artifact's orders on paper; only an
    authorised artifact trades, and walking the book is exact on whole amounts.
  \<^item> \<open>PaperLoop\<close> (\<open>portfolio/paper_loop.py\<close>): one tick of the portfolio loop from the session's artifacts over the
    allocator to the order plan; nothing is allocated to an artifact that is not calibrated.
  \<^item> \<open>UsdmOrder\<close> (\<open>backtest/binance_usdm.py\<close>): the venue's order rules, costs and margin tiers in backtests;
    an accepted order is on the venue's grid.

  \<^bold>\<open>Parameters of the model\<close> (code outside \<open>src/\<close> or the environment): SHA-256 digests, the clock, UUIDs,
  SQLite's row order and float sums, the C library's \<open>pow\<close>, \<open>datetime\<close>'s parser, the generator's shuffle,
  NumPy's and SciPy's figures (overfitting probability, normal distribution), the third-party test
  for superior predictive ability, the evaluator of a candidate and, in the allocator, the authority of an
  artifact (\<open>Artifacts\<close> models the code's own).  Where a property needs one of them it says so as a hypothesis, with a
  witness that instantiates it.

  \<^bold>\<open>Bounds.\<close>  \<open>while value <= stop\<close> over a parameter range runs under the code's own guard of 100001 steps;
  every other loop is structural recursion or a fold.  \<open>int(...)\<close> refuses more than 4300 digits as Python
  does.  Timestamps are instants in microseconds with their \<open>isoformat\<close> text.  JSON columns are
  identified with the values they store.

  \<^bold>\<open>Not modelled.\<close>  Downloads, Parquet and pandas code, the paper trading daemons, the research loop
  around language models, the command line, the reports and the protocol server: they consist of input
  and output around the parts above.  The bootstrap, Hawkes, hidden Markov and jump diffusion estimators
  depend on NumPy and SciPy.  The
  manifest lists every such part with its reason.
\<close>

end
